(* ===== verification/Prelude.thy ===== *)
theory Prelude
  imports Main "HOL-Library.Word" "HOL-Library.Monad_Syntax"
begin

text \<open>
  The shared vocabulary of the development: the Rust scalar types, byte strings, the error
  values, the collections of rewrite rules, and the generic lemmas on lists and words that the
  component theories use.

  \<^item> A fixed-width integer is a word of its width, so \<open>+\<close>, \<open>-\<close> and shifts wrap as the
    machine does. \<open>usize\<close> is \<open>nat\<close>: every \<open>usize\<close> of the code is a length, an offset or a
    sum of a few of them, and a length never exceeds \<open>isize::MAX\<close>, so no addition of the code
    reaches the width. A subtraction of \<open>usize\<close> values is only written where the code's guard
    (or an invariant proved here) makes it exact.
  \<^item> A panic (\<open>panic!\<close>, a failed \<open>assert!\<close>, an index out of range, an arithmetic overflow
    in a checked build) is an error value of its own, which every caller propagates.
\<close>

unbundle bit_operations_syntax

type_synonym u8 = "8 word"
type_synonym u16 = "16 word"
type_synonym u32 = "32 word"
type_synonym u64 = "64 word"
type_synonym u128 = "128 word"
type_synonym usize = nat
type_synonym bytes = "u8 list"

text \<open>Rewrite rules: byte images of encoders, results of readers.\<close>

named_theorems writes_intros \<open>encoders and the bytes they write\<close>
named_theorems reads_simps \<open>readers on the bytes of a value\<close>
named_theorems image_defs \<open>definitions of byte images\<close>

subsection \<open>Results\<close>

text \<open>The question-mark operator of Rust on a \<open>Result\<close>: propagate the error, go on with the
  value.\<close>

fun bindR :: "'e + 'a \<Rightarrow> ('a \<Rightarrow> 'e + 'b) \<Rightarrow> 'e + 'b" where
  "bindR (Inl e) f = Inl e"
| "bindR (Inr x) f = f x"

fun map_err :: "('e \<Rightarrow> 'f) \<Rightarrow> 'e + 'a \<Rightarrow> 'f + 'a" where
  "map_err g (Inl e) = Inl (g e)"
| "map_err g (Inr x) = Inr x"

fun is_ok :: "'e + 'a \<Rightarrow> bool" where
  "is_ok (Inl e) = False"
| "is_ok (Inr x) = True"

fun ok_or :: "'e \<Rightarrow> 'a option \<Rightarrow> 'e + 'a" where
  "ok_or e None = Inl e"
| "ok_or e (Some x) = Inr x"

lemma bindR_eq_Inr: "bindR m f = Inr y \<longleftrightarrow> (\<exists>x. m = Inr x \<and> f x = Inr y)"
  by (cases m) auto

lemma bindR_eq_Inl: "bindR m f = Inl e \<longleftrightarrow> m = Inl e \<or> (\<exists>x. m = Inr x \<and> f x = Inl e)"
  by (cases m) auto

lemma bindR_cong [fundef_cong]:
  "m = m' \<Longrightarrow> (\<And>x. m' = Inr x \<Longrightarrow> f x = f' x) \<Longrightarrow> bindR m f = bindR m' f'"
  by (cases m') auto

lemma map_err_eq_Inr [simp]: "map_err g m = Inr y \<longleftrightarrow> m = Inr y"
  by (cases m) auto

lemma ok_or_eq_Inr [simp]: "ok_or e m = Inr y \<longleftrightarrow> m = Some y"
  by (cases m) auto

lemma ok_or_eq_Inl [simp]: "ok_or e m = Inl e' \<longleftrightarrow> m = None \<and> e' = e"
  by (cases m) auto

subsection \<open>Overwriting part of a buffer\<close>

text \<open>\<open>buf[off..off + len].copy_from_slice(data)\<close>, where the range is in bounds.\<close>

definition copy_at :: "nat \<Rightarrow> 'a list \<Rightarrow> 'a list \<Rightarrow> 'a list" where
  "copy_at off data buf = take off buf @ data @ drop (off + length data) buf"

lemma length_copy_at [simp]:
  "off + length data \<le> length buf \<Longrightarrow> length (copy_at off data buf) = length buf"
  by (simp add: copy_at_def)

lemma copy_at_append [simp]:
  "length old = length data \<Longrightarrow> copy_at (length pre) data (pre @ old @ post) = pre @ data @ post"
  by (simp add: copy_at_def)

lemma take_copy_at_le [simp]: "n \<le> off \<Longrightarrow> off \<le> length buf \<Longrightarrow> take n (copy_at off data buf) = take n buf"
  by (simp add: copy_at_def min_def)

lemma drop_copy_at [simp]:
  "off \<le> length buf \<Longrightarrow> drop off (copy_at off data buf) = data @ drop (off + length data) buf"
  by (simp add: copy_at_def)

subsection \<open>Words as numbers\<close>

lemma unat_u8_less [simp]: "unat (x :: u8) < 256"
  using unsigned_less [of x, where ?'a = nat] by simp

lemma unat_u16_less [simp]: "unat (x :: u16) < 65536"
  using unsigned_less [of x, where ?'a = nat] by simp

lemma unat_of_nat_u16 [simp]: "n < 65536 \<Longrightarrow> unat (of_nat n :: u16) = n"
  by (simp add: unat_of_nat)

lemma unat_of_nat_u8 [simp]: "n < 256 \<Longrightarrow> unat (of_nat n :: u8) = n"
  by (simp add: unat_of_nat)

lemma unat_of_nat_u32 [simp]: "n < 4294967296 \<Longrightarrow> unat (of_nat n :: u32) = n"
  by (simp add: unat_of_nat)

text \<open>The byte of a word at a bit offset, put back in place.\<close>

lemma bit_byte_at:
  "bit (push_bit s (ucast (ucast (drop_bit s (v :: 'a::len word)) :: u8)) :: 'a word) n
     \<longleftrightarrow> s \<le> n \<and> n < s + 8 \<and> bit v n"
  by (auto simp: bit_simps dest: bit_imp_le_length)

lemma bit_byte_0:
  "bit (ucast (ucast (v :: 'a::len word) :: u8) :: 'a word) n \<longleftrightarrow> n < 8 \<and> bit v n"
  by (auto simp: bit_simps dest: bit_imp_le_length)

lemma bit_or_word: "bit ((a :: 'a::len word) OR b) n \<longleftrightarrow> bit a n \<or> bit b n"
  by (auto simp: bit_simps dest: bit_imp_le_length)

lemmas byte_bits = bit_byte_at bit_byte_0 bit_or_word

end
