(* ===== verification/Codec.thy ===== *)
theory Codec
  imports Prelude
begin

text \<open>
  The crate \<open>codec\<close>: the byte reader and the byte writer (\<open>codec/src/codec.rs\<close>), the
  encodings of the fixed-width integers, arrays, vectors and options, and the \<open>enum_builder\<close>
  macro (\<open>codec/src/macros.rs\<close>).

  A reader method that takes \<open>&mut self\<close> returns the new reader with its result. A \<open>read\<close>
  that fails gives None: every caller but \<open>Option::read\<close> gives up with \<open>?\<close> and drops the
  reader, so the position reached is kept only there. An \<open>encode\<close> gives the number of bytes
  and the new writer, or an error.

  The laws of a codec are the locale \<open>codec\<close>: the bytes that \<open>encode\<close> appends are the
  value's image, it fails exactly when the image does not fit, and \<open>read\<close> takes the image
  back to the value and stops right after it. The round trips of the whole library are proved
  once from these laws.
\<close>

subsection \<open>Reader\<close>

record Reader =
  rd_buf :: bytes
  rd_offs :: usize

definition Reader_init :: "bytes \<Rightarrow> Reader" where
  "Reader_init bs = \<lparr>rd_buf = bs, rd_offs = 0\<rparr>"

definition Reader_left :: "Reader \<Rightarrow> usize" where
  "Reader_left r = length (rd_buf r) - rd_offs r"

definition Reader_rest :: "Reader \<Rightarrow> bytes \<times> Reader" where
  "Reader_rest r = (drop (rd_offs r) (rd_buf r), r\<lparr>rd_offs := length (rd_buf r)\<rparr>)"

definition Reader_take :: "usize \<Rightarrow> Reader \<Rightarrow> (bytes \<times> Reader) option" where
  "Reader_take len r =
     (if Reader_left r < len then None
      else let current = rd_offs r
           in Some (take len (drop current (rd_buf r)), r\<lparr>rd_offs := current + len\<rparr>))"

definition Reader_any_left :: "Reader \<Rightarrow> bool" where
  "Reader_any_left r = (rd_offs r < length (rd_buf r))"

definition Reader_used :: "Reader \<Rightarrow> usize" where
  "Reader_used r = rd_offs r"

definition Reader_sub :: "usize \<Rightarrow> Reader \<Rightarrow> (Reader \<times> Reader) option" where
  "Reader_sub len r = map_option (\<lambda>(bs, r'). (Reader_init bs, r')) (Reader_take len r)"

text \<open>The offset never passes the end of the buffer, so \<open>left\<close> never underflows and no slice
  of the reader is out of range.\<close>

definition reader_ok :: "Reader \<Rightarrow> bool" where
  "reader_ok r \<longleftrightarrow> rd_offs r \<le> length (rd_buf r)"

text \<open>A reader that has consumed \<open>pre\<close> and has \<open>post\<close> left.\<close>

definition rdr :: "bytes \<Rightarrow> bytes \<Rightarrow> Reader" where
  "rdr pre post = \<lparr>rd_buf = pre @ post, rd_offs = length pre\<rparr>"

lemma Reader_init_rdr: "Reader_init bs = rdr [] bs"
  by (simp add: Reader_init_def rdr_def)

lemma reader_ok_rdr: "reader_ok r \<longleftrightarrow> (\<exists>pre post. r = rdr pre post)"
proof
  assume "reader_ok r"
  then have "r = rdr (take (rd_offs r) (rd_buf r)) (drop (rd_offs r) (rd_buf r))"
    by (cases r) (simp add: rdr_def reader_ok_def)
  then show "\<exists>pre post. r = rdr pre post" by blast
qed (auto simp: rdr_def reader_ok_def)

lemma rdr_simps [simp]:
  "Reader_left (rdr pre post) = length post"
  "Reader_any_left (rdr pre post) = (post \<noteq> [])"
  "Reader_used (rdr pre post) = length pre"
  "Reader_rest (rdr pre post) = (post, rdr (pre @ post) [])"
  by (auto simp: Reader_left_def Reader_any_left_def Reader_used_def Reader_rest_def rdr_def)

lemma rdr_eq_iff [simp]: "rdr pre post = rdr pre' post' \<longleftrightarrow> pre = pre' \<and> post = post'"
  by (auto simp: rdr_def)

lemma Reader_take_rdr:
  "Reader_take n (rdr pre post) =
     (if length post < n then None else Some (take n post, rdr (pre @ take n post) (drop n post)))"
  by (simp add: Reader_take_def Let_def) (simp add: rdr_def)

lemma Reader_take_append [reads_simps]:
  "length bs = n \<Longrightarrow> Reader_take n (rdr pre (bs @ post)) = Some (bs, rdr (pre @ bs) post)"
  by (simp add: Reader_take_rdr)

lemma Reader_take_length: "Reader_take n r = Some (bs, r') \<Longrightarrow> reader_ok r \<Longrightarrow> length bs = n \<and> reader_ok r'"
  by (auto simp: reader_ok_rdr Reader_take_rdr split: if_splits)

subsection \<open>Writer\<close>

record Writer =
  wr_buf :: bytes
  wr_offs :: usize

definition Writer_init :: "bytes \<Rightarrow> Writer" where
  "Writer_init bs = \<lparr>wr_buf = bs, wr_offs = 0\<rparr>"

definition Writer_clear :: "Writer \<Rightarrow> Writer" where
  "Writer_clear w = w\<lparr>wr_offs := 0\<rparr>"

definition Writer_left :: "Writer \<Rightarrow> usize" where
  "Writer_left w = length (wr_buf w) - wr_offs w"

text \<open>The byte-by-byte loop of \<open>extend_from_slice\<close>.\<close>

fun write_loop :: "bytes \<Rightarrow> usize \<Rightarrow> bytes \<Rightarrow> bytes" where
  "write_loop buf pos [] = buf"
| "write_loop buf pos (v # vs) = write_loop (buf[pos := v]) (Suc pos) vs"

definition Writer_extend_from_slice :: "bytes \<Rightarrow> Writer \<Rightarrow> (usize \<times> Writer) option" where
  "Writer_extend_from_slice value w =
     (if Writer_left w < length value then None
      else let added = length value
           in Some (added, w\<lparr>wr_buf := write_loop (wr_buf w) (wr_offs w) value,
                             wr_offs := wr_offs w + added\<rparr>))"

definition Writer_push :: "u8 \<Rightarrow> Writer \<Rightarrow> (u8 \<times> Writer) option" where
  "Writer_push value w =
     (if Writer_left w < 1 then None
      else Some (value, w\<lparr>wr_buf := (wr_buf w)[wr_offs w := value], wr_offs := wr_offs w + 1\<rparr>))"

definition Writer_left_slice :: "Writer \<Rightarrow> bytes" where
  "Writer_left_slice w = drop (wr_offs w) (wr_buf w)"

definition Writer_used :: "Writer \<Rightarrow> usize" where
  "Writer_used w = wr_offs w"

definition Writer_used_slice :: "Writer \<Rightarrow> bytes" where
  "Writer_used_slice w = take (wr_offs w) (wr_buf w)"

definition writer_ok :: "Writer \<Rightarrow> bool" where
  "writer_ok w \<longleftrightarrow> wr_offs w \<le> length (wr_buf w)"

text \<open>Appending at the writer's offset, as one step.\<close>

definition Writer_append :: "bytes \<Rightarrow> Writer \<Rightarrow> Writer" where
  "Writer_append bs w = w\<lparr>wr_buf := copy_at (wr_offs w) bs (wr_buf w), wr_offs := wr_offs w + length bs\<rparr>"

lemma write_loop_copy_at:
  "pos + length vs \<le> length buf \<Longrightarrow> write_loop buf pos vs = copy_at pos vs buf"
proof (induction vs arbitrary: buf pos)
  case Nil
  then show ?case by (simp add: copy_at_def)
next
  case (Cons v vs)
  then have "write_loop (buf[pos := v]) (Suc pos) vs = copy_at (Suc pos) vs (buf[pos := v])"
    by simp
  with Cons.prems show ?case
    by (simp add: copy_at_def take_Suc_conv_app_nth)
qed

lemma Writer_extend_eq:
  "writer_ok w \<Longrightarrow> Writer_extend_from_slice bs w =
     (if Writer_left w < length bs then None else Some (length bs, Writer_append bs w))"
  by (simp add: Writer_extend_from_slice_def Writer_append_def Writer_left_def writer_ok_def
      write_loop_copy_at Let_def)

lemma Writer_push_eq:
  "writer_ok w \<Longrightarrow> Writer_push v w =
     (if Writer_left w < 1 then None else Some (v, Writer_append [v] w))"
  by (simp add: Writer_push_def Writer_append_def Writer_left_def writer_ok_def copy_at_def
      upd_conv_take_nth_drop)

lemma writer_ok_init [simp]: "writer_ok (Writer_init buf)"
  by (simp add: writer_ok_def Writer_init_def)

lemma Writer_init_simps [simp]:
  "Writer_left (Writer_init buf) = length buf"
  "Writer_used (Writer_init buf) = 0"
  "Writer_used_slice (Writer_init buf) = []"
  by (simp_all add: Writer_init_def Writer_left_def Writer_used_def Writer_used_slice_def)

lemma Writer_append_simps [simp]:
  assumes "writer_ok w" and "length bs \<le> Writer_left w"
  shows "writer_ok (Writer_append bs w)"
    and "Writer_left (Writer_append bs w) = Writer_left w - length bs"
    and "Writer_used (Writer_append bs w) = Writer_used w + length bs"
    and "Writer_used_slice (Writer_append bs w) = Writer_used_slice w @ bs"
    and "Writer_left_slice (Writer_append bs w) = drop (length bs) (Writer_left_slice w)"
  using assms
  by (auto simp: writer_ok_def Writer_append_def Writer_left_def Writer_used_def
      Writer_used_slice_def Writer_left_slice_def copy_at_def min_def ac_simps)

lemma Writer_append_append:
  "writer_ok w \<Longrightarrow> length (a @ b) \<le> Writer_left w \<Longrightarrow>
     Writer_append b (Writer_append a w) = Writer_append (a @ b) w"
  by (cases w) (auto simp: Writer_append_def writer_ok_def Writer_left_def copy_at_def ac_simps)

lemma Writer_append_Nil [simp]: "Writer_append [] w = w"
  by (cases w) (simp add: Writer_append_def copy_at_def)

text \<open>The buffer keeps its length, and the bytes before the offset and after the appended
  bytes keep their values.\<close>

lemma Writer_append_buf:
  assumes "writer_ok w" and "length bs \<le> Writer_left w"
  shows "wr_buf (Writer_append bs w) =
     Writer_used_slice w @ bs @ drop (length bs) (Writer_left_slice w)"
    and "length (wr_buf (Writer_append bs w)) = length (wr_buf w)"
  using assms
  by (auto simp: Writer_append_def writer_ok_def Writer_left_def Writer_used_slice_def
      Writer_left_slice_def copy_at_def ac_simps)

lemma Writer_append_init:
  "wr_buf (Writer_append bs (Writer_init tb)) = copy_at 0 bs tb"
  "wr_offs (Writer_append bs (Writer_init tb)) = length bs"
  by (simp_all add: Writer_append_def Writer_init_def)

subsection \<open>Encoders, readers, and the laws of a codec\<close>

datatype encode_err = EncodeErr | EncodePanic

type_synonym 'e encoder = "Writer \<Rightarrow> 'e + (usize \<times> Writer)"
type_synonym 'a decoder = "Reader \<Rightarrow> ('a \<times> Reader) option"

text \<open>
  The recurring shape of the \<open>encode\<close> functions: \<open>let mut cnt = 0; cnt += a.encode(bytes)?;
  cnt += b.encode(bytes)?; ... Ok(cnt)\<close>.
\<close>

fun enc_seq :: "'e encoder list \<Rightarrow> 'e encoder" where
  "enc_seq [] w = Inr (0, w)"
| "enc_seq (e # es) w =
     bindR (e w) (\<lambda>(n, w). bindR (enc_seq es w) (\<lambda>(m, w). Inr (n + m, w)))"

declare enc_seq.simps [simp del]

text \<open>\<open>writes err e bs\<close>: the encoder \<open>e\<close> appends exactly \<open>bs\<close> and returns their number, and
  fails with \<open>err\<close> when they do not fit.\<close>

definition writes :: "'e \<Rightarrow> 'e encoder \<Rightarrow> bytes \<Rightarrow> bool" where
  "writes err e bs \<longleftrightarrow> (\<forall>w. writer_ok w \<longrightarrow>
     e w = (if Writer_left w < length bs then Inl err else Inr (length bs, Writer_append bs w)))"

text \<open>\<open>reads rd bs x\<close>: wherever \<open>bs\<close> comes next in the input, \<open>rd\<close> returns \<open>x\<close> and has consumed
  exactly \<open>bs\<close>.\<close>

definition reads :: "'a decoder \<Rightarrow> bytes \<Rightarrow> 'a \<Rightarrow> bool" where
  "reads rd bs x \<longleftrightarrow> (\<forall>pre post. rd (rdr pre (bs @ post)) = Some (x, rdr (pre @ bs) post))"

lemma writesI:
  "(\<And>w. writer_ok w \<Longrightarrow>
     e w = (if Writer_left w < length bs then Inl err else Inr (length bs, Writer_append bs w)))
   \<Longrightarrow> writes err e bs"
  by (simp add: writes_def)

lemma writesD:
  "writes err e bs \<Longrightarrow> writer_ok w \<Longrightarrow>
     e w = (if Writer_left w < length bs then Inl err else Inr (length bs, Writer_append bs w))"
  by (simp add: writes_def)

lemma readsI: "(\<And>pre post. rd (rdr pre (bs @ post)) = Some (x, rdr (pre @ bs) post)) \<Longrightarrow> reads rd bs x"
  by (simp add: reads_def)

lemma readsD: "reads rd bs x \<Longrightarrow> rd (rdr pre (bs @ post)) = Some (x, rdr (pre @ bs) post)"
  by (simp add: reads_def)

lemma writes_seq_Nil [writes_intros]: "writes err (enc_seq []) []"
  by (simp add: writes_def enc_seq.simps)

lemma writes_seq_Cons:
  assumes "writes err e bs" and "writes err (enc_seq es) bs'"
  shows "writes err (enc_seq (e # es)) (bs @ bs')"
proof (rule writesI)
  fix w assume w: "writer_ok w"
  show "enc_seq (e # es) w =
     (if Writer_left w < length (bs @ bs') then Inl err
      else Inr (length (bs @ bs'), Writer_append (bs @ bs') w))"
  proof (cases "Writer_left w < length bs")
    case True
    with w show ?thesis by (simp add: enc_seq.simps writesD [OF assms(1)])
  next
    case False
    then have ok: "writer_ok (Writer_append bs w)"
      and left: "Writer_left (Writer_append bs w) = Writer_left w - length bs"
      using w by simp_all
    show ?thesis
      using w False ok left
      by (auto simp: enc_seq.simps writesD [OF assms(1)] writesD [OF assms(2)] Writer_append_append)
  qed
qed

lemma writes_then:
  assumes "writes err e bs" and "writes err e' bs'"
  shows "writes err (\<lambda>w. bindR (e w) (\<lambda>(n, w). bindR (e' w) (\<lambda>(m, w). Inr (n + m, w)))) (bs @ bs')"
proof -
  have "bindR (enc_seq [e'] w) (\<lambda>(m, w). Inr (n + m, w)) = bindR (e' w) (\<lambda>(m, w). Inr (n + m, w))"
    for w and n :: nat
    by (cases "e' w") (auto simp: enc_seq.simps)
  then show ?thesis
    using writes_seq_Cons [OF assms(1) writes_seq_Cons [OF assms(2) writes_seq_Nil]]
    by (simp add: writes_def enc_seq.simps(2) [of e])
qed

lemma writes_seq_single [writes_intros]: "writes err e bs \<Longrightarrow> writes err (enc_seq [e]) bs"
  using writes_seq_Cons [OF _ writes_seq_Nil, of err e bs] by simp

lemma writes_seq:
  "list_all2 (writes err) es bss \<Longrightarrow> writes err (enc_seq es) (concat bss)"
  by (induction rule: list_all2_induct) (auto intro: writes_seq_Nil writes_seq_Cons)

lemma writes_push: "writes EncodeErr (\<lambda>w. bindR (ok_or EncodeErr (Writer_push v w)) (\<lambda>(_, w). Inr (1, w))) [v]"
  by (rule writesI) (auto simp: Writer_push_eq)

lemma writes_extend:
  "writes EncodeErr (\<lambda>w. bindR (ok_or EncodeErr (Writer_extend_from_slice bs w)) (\<lambda>(_, w). Inr (length bs, w))) bs"
  by (rule writesI) (auto simp: Writer_extend_eq)

lemma writes_map_err:
  "writes err e bs \<Longrightarrow> g err = err' \<Longrightarrow> writes err' (\<lambda>w. map_err g (e w)) bs"
  by (auto simp: writes_def)

text \<open>
  A value survives: it takes some number of bytes, encoding it fails exactly where the buffer is
  shorter, and decoding what was written gives the value back and leaves what follows.
\<close>

definition round_trips :: "'e \<Rightarrow> ('a \<Rightarrow> 'e encoder) \<Rightarrow> 'a decoder \<Rightarrow> 'a \<Rightarrow> bool" where
  "round_trips err enc rd x \<longleftrightarrow> (\<exists>n. \<forall>buf.
     if length buf < n then enc x (Writer_init buf) = Inl err
     else \<exists>w. enc x (Writer_init buf) = Inr (n, w) \<and> length (wr_buf w) = length buf
       \<and> (\<forall>rest. rd (Reader_init (take n (wr_buf w) @ rest)) = Some (x, rdr (take n (wr_buf w)) rest)))"

lemma round_trips_image:
  assumes "writes err (enc x) bs" "reads rd bs x"
  shows "round_trips err enc rd x"
  unfolding round_trips_def
proof (rule exI [of _ "length bs"], rule allI)
  fix buf
  show "if length buf < length bs then enc x (Writer_init buf) = Inl err
     else \<exists>w. enc x (Writer_init buf) = Inr (length bs, w) \<and> length (wr_buf w) = length buf
       \<and> (\<forall>rest. rd (Reader_init (take (length bs) (wr_buf w) @ rest)) = Some (x, rdr (take (length bs) (wr_buf w)) rest))"
    using writesD [OF assms(1) writer_ok_init, of buf] readsD [OF assms(2), of "[]"]
    by (simp add: Writer_append_init Reader_init_rdr copy_at_def not_less)
qed

locale codec =
  fixes err :: 'e
    and encode :: "'a \<Rightarrow> 'e encoder"
    and read :: "'a decoder"
    and image :: "'a \<Rightarrow> bytes"
    and valid :: "'a \<Rightarrow> bool"
  assumes encode_writes: "valid x \<Longrightarrow> writes err (encode x) (image x)"
    and read_reads: "valid x \<Longrightarrow> reads read (image x) x"
begin

lemma encode_fits:
  "valid x \<Longrightarrow> writer_ok w \<Longrightarrow> length (image x) \<le> Writer_left w \<Longrightarrow>
     encode x w = Inr (length (image x), Writer_append (image x) w)"
  by (simp add: writesD [OF encode_writes])

lemma encode_full:
  "valid x \<Longrightarrow> writer_ok w \<Longrightarrow> Writer_left w < length (image x) \<Longrightarrow> encode x w = Inl err"
  by (simp add: writesD [OF encode_writes])

lemma encode_ok_iff:
  "valid x \<Longrightarrow> writer_ok w \<Longrightarrow> is_ok (encode x w) \<longleftrightarrow> length (image x) \<le> Writer_left w"
  by (auto simp: writesD [OF encode_writes])

lemma survives: "valid x \<Longrightarrow> round_trips err encode read x"
  by (rule round_trips_image [OF encode_writes read_reads])

text \<open>Decoding the used part of the buffer gives the value back, with nothing left over.\<close>

lemma round_trip:
  assumes "valid x" and "encode x (Writer_init buf) = Inr (n, w)"
  shows "read (Reader_init (Writer_used_slice w)) = Some (x, rdr (image x) [])
     \<and> n = Writer_used w \<and> length (wr_buf w) = length buf"
proof -
  have "encode x (Writer_init buf) =
     (if length buf < length (image x) then Inl err
      else Inr (length (image x), Writer_append (image x) (Writer_init buf)))"
    using writesD [OF encode_writes [OF assms(1)] writer_ok_init, of buf] by simp
  then have len: "length (image x) \<le> length buf"
    and w: "w = Writer_append (image x) (Writer_init buf)" and n: "n = length (image x)"
    using assms(2) by (auto split: if_splits)
  have "read (rdr [] (image x @ [])) = Some (x, rdr ([] @ image x) [])"
    by (rule readsD [OF read_reads [OF assms(1)]])
  then show ?thesis
    using w n len
    by (simp add: Reader_init_rdr Writer_append_buf)
      (simp add: Writer_init_def Writer_left_slice_def)
qed

text \<open>Two values with a common image, or one image a prefix of the other, are equal.\<close>

lemma image_prefix_free:
  assumes "valid x" "valid y" "image x @ p = image y @ q"
  shows "x = y \<and> p = q"
proof -
  have "read (rdr [] (image x @ p)) = Some (x, rdr (image x) p)"
    using readsD [OF read_reads [OF assms(1)], of "[]" p] by simp
  moreover have "read (rdr [] (image y @ q)) = Some (y, rdr (image y) q)"
    using readsD [OF read_reads [OF assms(2)], of "[]" q] by simp
  ultimately have "Some (x, rdr (image x) p) = Some (y, rdr (image y) q)"
    using assms(3) by (metis (no_types))
  then show ?thesis by (simp only: option.inject prod.inject rdr_eq_iff simp_thms)
qed

end

end
