(* ===== verification/Scalars.thy ===== *)
theory Scalars
  imports Codec
begin

text \<open>
  The \<open>Codec\<close> instances of \<open>codec/src/codec.rs\<close> for \<open>u8\<close>, \<open>u16\<close>, \<open>u24\<close>, \<open>u32\<close>, \<open>u64\<close>,
  \<open>u128\<close>, fixed-size arrays, vectors and options, and the \<open>enum_builder\<close> macro. Each instance
  interprets the locale \<open>codec\<close>, whose lemmas are then available under the qualifier of the type
  (\<open>u16.round_trip\<close> and so on).
\<close>

subsection \<open>u8\<close>

fun decode_u8 :: "bytes \<Rightarrow> u8 option" where
  "decode_u8 (b0 # _) = Some b0"
| "decode_u8 _ = None"

definition u8_encode :: "u8 \<Rightarrow> encode_err encoder" where
  "u8_encode v w = bindR (ok_or EncodeErr (Writer_push v w)) (\<lambda>(_, w). Inr (1, w))"

definition u8_read :: "u8 decoder" where
  "u8_read r = do { (bs, r) \<leftarrow> Reader_take 1 r; v \<leftarrow> decode_u8 bs; Some (v, r) }"

abbreviation (input) u8_image :: "u8 \<Rightarrow> bytes" where
  "u8_image v \<equiv> [v]"

lemma u8_read_rdr [reads_simps]: "u8_read (rdr pre (v # post)) = Some (v, rdr (pre @ [v]) post)"
  by (simp add: u8_read_def Reader_take_rdr)

lemma u8_read_Nil [reads_simps]: "u8_read (rdr pre []) = None"
  by (simp add: u8_read_def Reader_take_rdr)

interpretation u8: codec EncodeErr u8_encode u8_read u8_image "\<lambda>_. True"
  using writes_push
  by unfold_locales (simp_all add: u8_encode_def [abs_def] reads_def u8_read_rdr)

subsection \<open>u16\<close>

definition put_u16 :: "u16 \<Rightarrow> bytes" where
  "put_u16 v = [ucast v, ucast (drop_bit 8 v)]"

fun decode_u16 :: "bytes \<Rightarrow> u16 option" where
  "decode_u16 (b0 # b1 # _) = Some (ucast b0 OR push_bit 8 (ucast b1))"
| "decode_u16 _ = None"

definition u16_encode :: "u16 \<Rightarrow> encode_err encoder" where
  "u16_encode v w =
     bindR (ok_or EncodeErr (Writer_extend_from_slice (put_u16 v) w)) (\<lambda>(_, w). Inr (2, w))"

definition u16_read :: "u16 decoder" where
  "u16_read r = do { (bs, r) \<leftarrow> Reader_take 2 r; v \<leftarrow> decode_u16 bs; Some (v, r) }"

lemma length_put_u16 [simp]: "length (put_u16 v) = 2"
  by (simp add: put_u16_def)

lemma decode_put_u16 [simp]: "decode_u16 (put_u16 v) = Some v"
  by (simp add: put_u16_def) (rule bit_word_eqI, simp add: byte_bits, linarith)

lemma u16_read_rdr [reads_simps]:
  "u16_read (rdr pre (put_u16 v @ post)) = Some (v, rdr (pre @ put_u16 v) post)"
  by (simp add: u16_read_def Reader_take_append)

interpretation u16: codec EncodeErr u16_encode u16_read put_u16 "\<lambda>_. True"
  using writes_extend [of "put_u16 x" for x]
  by unfold_locales (simp_all add: u16_encode_def [abs_def] reads_def u16_read_rdr)

subsection \<open>u24\<close>

text \<open>A \<open>u24\<close> is a \<open>u32\<close> underneath; \<open>u24::new\<close> asserts that the top byte is zero (None is the
  failed assertion).\<close>

type_synonym u24 = u32

definition u24_new :: "u32 \<Rightarrow> u24 option" where
  "u24_new v = (if drop_bit 24 v = 0 then Some v else None)"

fun u24_decode :: "bytes \<Rightarrow> u24 option" where
  "u24_decode (b0 # b1 # b2 # _) =
     Some (ucast b0 OR push_bit 8 (ucast b1) OR push_bit 16 (ucast b2))"
| "u24_decode _ = None"

definition push_u8 :: "u8 \<Rightarrow> encode_err encoder" where
  "push_u8 v w = bindR (ok_or EncodeErr (Writer_push v w)) (\<lambda>(_, w). Inr (1, w))"

definition u24_encode :: "u24 \<Rightarrow> encode_err encoder" where
  "u24_encode v = enc_seq [push_u8 (ucast v), push_u8 (ucast (drop_bit 8 v)),
     push_u8 (ucast (drop_bit 16 v))]"

definition u24_read :: "u24 decoder" where
  "u24_read r = do { (bs, r) \<leftarrow> Reader_take 3 r; v \<leftarrow> u24_decode bs; Some (v, r) }"

definition u24_image :: "u24 \<Rightarrow> bytes" where
  "u24_image v = [ucast v, ucast (drop_bit 8 v), ucast (drop_bit 16 v)]"

lemma writes_push_u8 [writes_intros]: "writes EncodeErr (push_u8 v) [v]"
  using writes_push by (simp add: push_u8_def [abs_def])

lemma length_u24_image [simp]: "length (u24_image v) = 3"
  by (simp add: u24_image_def)

lemma decode_u24_image: "drop_bit 24 v = 0 \<Longrightarrow> u24_decode (u24_image v) = Some v"
proof -
  assume v: "drop_bit 24 v = 0"
  have "\<not> bit v n" if "24 \<le> n" for n
    using arg_cong [OF v, of "\<lambda>x. bit x (n - 24)"] that by (simp add: bit_simps)
  then show ?thesis
    by (simp add: u24_image_def) (rule bit_word_eqI, simp add: byte_bits, metis not_less less_imp_le_nat)
qed

lemma u24_read_rdr [reads_simps]:
  "drop_bit 24 v = 0 \<Longrightarrow>
     u24_read (rdr pre (u24_image v @ post)) = Some (v, rdr (pre @ u24_image v) post)"
  by (simp add: u24_read_def Reader_take_append decode_u24_image)

interpretation u24: codec EncodeErr u24_encode u24_read u24_image "\<lambda>v. drop_bit 24 v = 0"
proof unfold_locales
  fix v :: u24
  show "writes EncodeErr (u24_encode v) (u24_image v)"
    using writes_seq [of EncodeErr "[push_u8 (ucast v), push_u8 (ucast (drop_bit 8 v)),
        push_u8 (ucast (drop_bit 16 v))]" "[[ucast v], [ucast (drop_bit 8 v)], [ucast (drop_bit 16 v)]]"]
    by (simp add: u24_encode_def u24_image_def writes_push_u8)
  show "drop_bit 24 v = 0 \<Longrightarrow> reads u24_read (u24_image v) v"
    by (simp add: reads_def u24_read_rdr)
qed

subsection \<open>u32\<close>

fun decode_u32 :: "bytes \<Rightarrow> u32 option" where
  "decode_u32 (b0 # b1 # b2 # b3 # _) =
     Some (ucast b0 OR push_bit 8 (ucast b1) OR push_bit 16 (ucast b2) OR push_bit 24 (ucast b3))"
| "decode_u32 _ = None"

definition u32_encode :: "u32 \<Rightarrow> encode_err encoder" where
  "u32_encode v = enc_seq [push_u8 (ucast v), push_u8 (ucast (drop_bit 8 v)),
     push_u8 (ucast (drop_bit 16 v)), push_u8 (ucast (drop_bit 24 v))]"

definition u32_read :: "u32 decoder" where
  "u32_read r = do { (bs, r) \<leftarrow> Reader_take 4 r; v \<leftarrow> decode_u32 bs; Some (v, r) }"

definition u32_image :: "u32 \<Rightarrow> bytes" where
  "u32_image v = [ucast v, ucast (drop_bit 8 v), ucast (drop_bit 16 v), ucast (drop_bit 24 v)]"

lemma length_u32_image [simp]: "length (u32_image v) = 4"
  by (simp add: u32_image_def)

lemma decode_u32_image [simp]: "decode_u32 (u32_image v) = Some v"
  by (simp add: u32_image_def) (rule bit_word_eqI, simp add: byte_bits, linarith)

lemma u32_read_rdr [reads_simps]:
  "u32_read (rdr pre (u32_image v @ post)) = Some (v, rdr (pre @ u32_image v) post)"
  by (simp add: u32_read_def Reader_take_append)

interpretation u32: codec EncodeErr u32_encode u32_read u32_image "\<lambda>_. True"
proof unfold_locales
  fix v :: u32
  show "writes EncodeErr (u32_encode v) (u32_image v)"
    using writes_seq [of EncodeErr "[push_u8 (ucast v), push_u8 (ucast (drop_bit 8 v)),
        push_u8 (ucast (drop_bit 16 v)), push_u8 (ucast (drop_bit 24 v))]"
        "[[ucast v], [ucast (drop_bit 8 v)], [ucast (drop_bit 16 v)], [ucast (drop_bit 24 v)]]"]
    by (simp add: u32_encode_def u32_image_def writes_push_u8)
  show "reads u32_read (u32_image v) v"
    by (simp add: reads_def u32_read_rdr)
qed

subsection \<open>u64\<close>

definition put_u64 :: "u64 \<Rightarrow> bytes" where
  "put_u64 v = [ucast v, ucast (drop_bit 8 v), ucast (drop_bit 16 v), ucast (drop_bit 24 v),
     ucast (drop_bit 32 v), ucast (drop_bit 40 v), ucast (drop_bit 48 v), ucast (drop_bit 56 v)]"

fun decode_u64 :: "bytes \<Rightarrow> u64 option" where
  "decode_u64 (b0 # b1 # b2 # b3 # b4 # b5 # b6 # b7 # _) =
     Some (ucast b0 OR push_bit 8 (ucast b1) OR push_bit 16 (ucast b2) OR push_bit 24 (ucast b3)
       OR push_bit 32 (ucast b4) OR push_bit 40 (ucast b5) OR push_bit 48 (ucast b6)
       OR push_bit 56 (ucast b7))"
| "decode_u64 _ = None"

definition u64_encode :: "u64 \<Rightarrow> encode_err encoder" where
  "u64_encode v w =
     bindR (ok_or EncodeErr (Writer_extend_from_slice (put_u64 v) w)) (\<lambda>(_, w). Inr (8, w))"

definition u64_read :: "u64 decoder" where
  "u64_read r = do { (bs, r) \<leftarrow> Reader_take 8 r; v \<leftarrow> decode_u64 bs; Some (v, r) }"

lemma length_put_u64 [simp]: "length (put_u64 v) = 8"
  by (simp add: put_u64_def)

lemma decode_put_u64 [simp]: "decode_u64 (put_u64 v) = Some v"
  by (simp add: put_u64_def) (rule bit_word_eqI, simp add: byte_bits, linarith)

lemma u64_read_rdr [reads_simps]:
  "u64_read (rdr pre (put_u64 v @ post)) = Some (v, rdr (pre @ put_u64 v) post)"
  by (simp add: u64_read_def Reader_take_append)

interpretation u64: codec EncodeErr u64_encode u64_read put_u64 "\<lambda>_. True"
  using writes_extend [of "put_u64 x" for x]
  by unfold_locales (simp_all add: u64_encode_def [abs_def] reads_def u64_read_rdr)

subsection \<open>u128\<close>

text \<open>\<open>u128::to_le_bytes\<close> and \<open>u128::from_le_bytes\<close> of the standard library.\<close>

definition u128_to_le_bytes :: "u128 \<Rightarrow> bytes" where
  "u128_to_le_bytes v = map (\<lambda>i. ucast (drop_bit (8 * i) v)) [0..<16]"

definition u128_from_le_bytes :: "bytes \<Rightarrow> u128" where
  "u128_from_le_bytes bs = fold (\<lambda>i acc. acc OR push_bit (8 * i) (ucast (bs ! i))) [0..<16] 0"

definition u128_encode :: "u128 \<Rightarrow> encode_err encoder" where
  "u128_encode v w =
     bindR (ok_or EncodeErr (Writer_extend_from_slice (u128_to_le_bytes v) w)) (\<lambda>(_, w). Inr (16, w))"

definition u128_read :: "u128 decoder" where
  "u128_read r = do { (bs, r) \<leftarrow> Reader_take 16 r; Some (u128_from_le_bytes bs, r) }"

lemma length_u128_to_le_bytes [simp]: "length (u128_to_le_bytes v) = 16"
  by (simp add: u128_to_le_bytes_def)

lemma bit_fold_bytes:
  "bit (fold (\<lambda>i acc. acc OR push_bit (8 * i) (ucast (ucast (drop_bit (8 * i) (v :: u128)) :: u8))) [0..<k] (0 :: u128)) n
     \<longleftrightarrow> n < 8 * k \<and> bit v n"
  by (induction k) (auto simp: byte_bits)

lemma from_to_le_bytes [simp]: "u128_from_le_bytes (u128_to_le_bytes v) = v"
proof -
  have "u128_from_le_bytes (u128_to_le_bytes v) =
      fold (\<lambda>i acc. acc OR push_bit (8 * i) (ucast (ucast (drop_bit (8 * i) v) :: u8))) [0..<16] 0"
    unfolding u128_from_le_bytes_def
    by (rule fold_cong) (simp_all add: u128_to_le_bytes_def)
  also have "\<dots> = v"
    by (rule bit_word_eqI) (simp add: bit_fold_bytes)
  finally show ?thesis .
qed

lemma u128_read_rdr [reads_simps]:
  "u128_read (rdr pre (u128_to_le_bytes v @ post)) = Some (v, rdr (pre @ u128_to_le_bytes v) post)"
  by (simp add: u128_read_def Reader_take_append)

interpretation u128: codec EncodeErr u128_encode u128_read u128_to_le_bytes "\<lambda>_. True"
  using writes_extend [of "u128_to_le_bytes x" for x]
  by unfold_locales (simp_all add: u128_encode_def [abs_def] reads_def u128_read_rdr)

subsection \<open>Arrays and vectors\<close>

fun enc_each :: "('a \<Rightarrow> 'e encoder) \<Rightarrow> 'a list \<Rightarrow> Writer \<Rightarrow> 'e + Writer" where
  "enc_each enc [] w = Inr w"
| "enc_each enc (x # xs) w = bindR (enc x w) (\<lambda>(_, w). enc_each enc xs w)"

definition array_encode :: "('a \<Rightarrow> 'e encoder) \<Rightarrow> 'a list \<Rightarrow> 'e encoder" where
  "array_encode enc xs w =
     (let used = Writer_used w
      in bindR (enc_each enc xs w) (\<lambda>w. Inr (Writer_used w - used, w)))"

fun array_read :: "'a decoder \<Rightarrow> nat \<Rightarrow> 'a list decoder" where
  "array_read rd 0 r = Some ([], r)"
| "array_read rd (Suc n) r = do { (t, r) \<leftarrow> rd r; (ts, r) \<leftarrow> array_read rd n r; Some (t # ts, r) }"

text \<open>\<open>read_vec\<close> pushes each element onto the vector read so far.\<close>

fun read_vec_loop :: "'a decoder \<Rightarrow> nat \<Rightarrow> 'a list \<Rightarrow> 'a list decoder" where
  "read_vec_loop rd 0 data r = Some (data, r)"
| "read_vec_loop rd (Suc n) data r = do { (t, r) \<leftarrow> rd r; read_vec_loop rd n (data @ [t]) r }"

definition read_vec :: "'a decoder \<Rightarrow> nat \<Rightarrow> 'a list decoder" where
  "read_vec rd count = read_vec_loop rd count []"

lemma read_vec_loop_eq:
  "read_vec_loop rd n data r = map_option (\<lambda>(ts, r). (data @ ts, r)) (array_read rd n r)"
proof (induction n arbitrary: data r)
  case (Suc n)
  then show ?case by (auto split: option.splits bind_splits)
qed simp

lemma read_vec_eq: "read_vec rd n r = array_read rd n r"
  by (simp add: read_vec_def read_vec_loop_eq option.map_ident case_prod_beta' option.map_id0 [unfolded id_def])

lemma array_read_length: "array_read rd n r = Some (xs, r') \<Longrightarrow> length xs = n"
  by (induction n arbitrary: r xs) (auto split: bind_splits)

lemma writes_array:
  assumes "\<And>x. x \<in> set xs \<Longrightarrow> writes err (enc x) (img x)"
  shows "writes err (array_encode enc xs) (concat (map img xs))"
proof (rule writesI)
  fix w assume w: "writer_ok w"
  have each: "enc_each enc xs w = (if Writer_left w < length (concat (map img xs)) then Inl err
      else Inr (Writer_append (concat (map img xs)) w))"
    using assms w
  proof (induction xs arbitrary: w)
    case (Cons x xs)
    have x: "writes err (enc x) (img x)" using Cons.prems(1) by simp
    show ?case
    proof (cases "Writer_left w < length (img x)")
      case True
      then show ?thesis using Cons.prems(2) by (simp add: writesD [OF x])
    next
      case False
      then have "enc_each enc (x # xs) w = enc_each enc xs (Writer_append (img x) w)"
        using Cons.prems(2) by (simp add: writesD [OF x])
      also have "\<dots> = (if Writer_left (Writer_append (img x) w) < length (concat (map img xs)) then Inl err
          else Inr (Writer_append (concat (map img xs)) (Writer_append (img x) w)))"
        using Cons False by simp
      finally show ?thesis using False Cons.prems(2) by (auto simp: Writer_append_append)
    qed
  qed simp
  show "array_encode enc xs w = (if Writer_left w < length (concat (map img xs)) then Inl err
      else Inr (length (concat (map img xs)), Writer_append (concat (map img xs)) w))"
    using w by (auto simp: array_encode_def Let_def each)
qed

lemma reads_array:
  "(\<And>x. x \<in> set xs \<Longrightarrow> reads rd (img x) x) \<Longrightarrow>
     reads (array_read rd (length xs)) (concat (map img xs)) xs"
  by (induction xs) (auto simp: reads_def)

text \<open>Arrays of a codec's values are a codec again.\<close>

context codec
begin

lemma array_codec:
  "codec err (array_encode encode) (array_read read n) (\<lambda>xs. concat (map image xs))
     (\<lambda>xs. length xs = n \<and> list_all valid xs)"
  by unfold_locales
    (auto simp: list_all_iff intro!: writes_array reads_array encode_writes read_reads)

end

text \<open>Raw bytes: the loops \<open>for d in data.iter().take(n) { d.encode(bytes)?; }\<close> and
  \<open>for d in data.iter_mut().take(n) { *d = u8::read(r)?; }\<close>.\<close>

lemma writes_bytes [writes_intros]: "writes EncodeErr (array_encode u8_encode bs) bs"
  using writes_array [of bs EncodeErr u8_encode "\<lambda>v. [v]"] u8.encode_writes by simp

lemma array_read_u8 [reads_simps]:
  "length bs = n \<Longrightarrow> array_read u8_read n (rdr pre (bs @ post)) = Some (bs, rdr (pre @ bs) post)"
  using reads_array [of bs u8_read "\<lambda>v. [v]"] u8.read_reads by (auto simp: reads_def)

subsection \<open>Options\<close>

text \<open>
  \<open>Option::read\<close> returns \<open>Some(T::read(reader))\<close> when the presence byte is set: a failed read of
  the value is not propagated, it is the value None. The reader of the value therefore comes with
  the position it stopped at.
\<close>

definition option_encode :: "('a \<Rightarrow> encode_err encoder) \<Rightarrow> 'a option \<Rightarrow> encode_err encoder" where
  "option_encode enc x =
     (case x of Some val \<Rightarrow> enc_seq [u8_encode 1, enc val] | None \<Rightarrow> u8_encode 0)"

definition option_read :: "(Reader \<Rightarrow> 'a option \<times> Reader) \<Rightarrow> 'a option decoder" where
  "option_read rd r = do {
     (present, r) \<leftarrow> u8_read r;
     if present \<noteq> 0 then Some (rd r) else Some (None, r) }"

lemma option_encode_Some_writes:
  assumes "writes EncodeErr (enc x) bs"
  shows "writes EncodeErr (option_encode enc (Some x)) (1 # bs)"
proof -
  have "writes EncodeErr (enc_seq [u8_encode 1, enc x]) ([1] @ bs)"
    by (intro writes_seq_Cons writes_seq_single assms u8.encode_writes) simp
  then show ?thesis by (simp add: option_encode_def)
qed

lemma option_read_Some:
  "rd (rdr (pre @ [1]) (bs @ post)) = (Some x, rdr (pre @ 1 # bs) post) \<Longrightarrow>
     option_read rd (rdr pre ((1 # bs) @ post)) = Some (Some x, rdr (pre @ 1 # bs) post)"
  by (simp add: option_read_def u8_read_rdr)

subsection \<open>Enumerations\<close>

text \<open>
  \<open>enum_builder!\<close> makes an enum with the listed variants and \<open>Unknown(x)\<close>; \<open>get_u8\<close> gives a
  variant's code and \<open>read\<close> matches the code back, with \<open>Unknown(x)\<close> for a code that is not
  listed. \<open>get\<close> is the code of a variant and \<open>of_code\<close> the match; reading any code and asking
  for its code is the identity, and a variant survives the round trip when it is not an
  \<open>Unknown\<close> that carries a listed code.
\<close>

definition enum_read :: "'w decoder \<Rightarrow> ('w \<Rightarrow> 'v) \<Rightarrow> 'v decoder" where
  "enum_read rd of_code r = do { (x, r) \<leftarrow> rd r; Some (of_code x, r) }"

definition enum_encode :: "('w \<Rightarrow> encode_err encoder) \<Rightarrow> ('v \<Rightarrow> 'w) \<Rightarrow> 'v \<Rightarrow> encode_err encoder" where
  "enum_encode enc get v = enc (get v)"

locale enum_codec = base: codec EncodeErr enc rd img "\<lambda>_. True"
  for enc :: "'w \<Rightarrow> encode_err encoder" and rd and img +
  fixes get :: "'v \<Rightarrow> 'w" and of_code :: "'w \<Rightarrow> 'v"
  assumes get_of_code: "get (of_code x) = x"
begin

sublocale codec EncodeErr "enum_encode enc get" "enum_read rd of_code" "\<lambda>v. img (get v)"
  "\<lambda>v. of_code (get v) = v"
proof unfold_locales
  fix v
  show "writes EncodeErr (enum_encode enc get v) (img (get v))"
    unfolding enum_encode_def by (rule base.encode_writes) simp
  assume v: "of_code (get v) = v"
  show "reads (enum_read rd of_code) (img (get v)) v"
    using readsD [OF base.read_reads] v by (simp add: reads_def enum_read_def)
qed

text \<open>Every code that is read is written back unchanged.\<close>

lemma read_then_get: "rd r = Some (x, r') \<Longrightarrow> enum_read rd of_code r = Some (v, r'') \<Longrightarrow> get v = x \<and> r'' = r'"
  by (auto simp: enum_read_def get_of_code)

lemma read_canonical: "enum_read rd of_code r = Some (v, r') \<Longrightarrow> of_code (get v) = v"
  by (auto simp: enum_read_def get_of_code split: bind_splits)

end

subsection \<open>Readers of a fixed number of bytes\<close>

definition fixed_size :: "(Reader \<Rightarrow> ('a \<times> Reader) option) \<Rightarrow> nat \<Rightarrow> bool" where
  "fixed_size rd n \<longleftrightarrow> (\<forall>pre bs x r. rd (rdr pre bs) = Some (x, r) \<longrightarrow>
     (\<exists>a post. bs = a @ post \<and> length a = n \<and> r = rdr (pre @ a) post))"

lemma fixed_sizeD:
  "fixed_size rd n \<Longrightarrow> rd (rdr pre bs) = Some (x, r) \<Longrightarrow> \<exists>a post. bs = a @ post \<and> length a = n \<and> r = rdr (pre @ a) post"
  by (simp add: fixed_size_def)

lemma Reader_take_rdr_split:
  "Reader_take n (rdr pre bs) = Some (a, r) \<Longrightarrow> \<exists>post. bs = a @ post \<and> length a = n \<and> r = rdr (pre @ a) post"
  by (auto simp: Reader_take_rdr split: if_splits intro: exI [of _ "drop n bs"])

lemma fixed_size_scalars:
  "fixed_size u8_read 1" "fixed_size u16_read 2" "fixed_size u24_read 3" "fixed_size u32_read 4" "fixed_size u64_read 8"
  by (auto simp: fixed_size_def u8_read_def u16_read_def u24_read_def u32_read_def u64_read_def bind_eq_Some_conv split: prod.splits
      dest!: Reader_take_rdr_split)

end
