(* ===== verification/Status.thy ===== *)
theory Status
  imports Scalars
begin

text \<open>
  The status values of \<open>spdmlib/src/error.rs\<close>: the severity, the status codes by source, the
  named constants, and the 32-bit encoding of a status. \<open>SpdmStatus\<close> compares by severity and
  status code only; \<open>error_data\<close> carries an ERROR message's bytes.

  A fallible operation of the library returns a \<open>SpdmResult\<close>. Its error side is a status or a
  panic of the code.
\<close>

datatype StatusSeverity = SEV_SUCCESS | SEV_ERROR

fun StatusSeverity_u8 :: "StatusSeverity \<Rightarrow> u8" where
  "StatusSeverity_u8 SEV_SUCCESS = 0"
| "StatusSeverity_u8 SEV_ERROR = 8"

definition StatusSeverity_try_from :: "u8 \<Rightarrow> StatusSeverity option" where
  "StatusSeverity_try_from value =
     (if value = 0 then Some SEV_SUCCESS else if value = 8 then Some SEV_ERROR else None)"

datatype StatusCodeCore =
    CORE_SUCCESS | INVALID_PARAMETER | UNSUPPORTED_CAP | INVALID_STATE_LOCAL | INVALID_STATE_PEER
  | INVALID_MSG_FIELD | INVALID_MSG_SIZE | NEGOTIATION_FAIL | BUSY_PEER | NOT_READY_PEER
  | ERROR_PEER | RESYNCH_PEER | BUFFER_FULL | BUFFER_TOO_SMALL | SESSION_NUMBER_EXCEED
  | SESSION_MSG_ERROR | ACQUIRE_FAIL | SESSION_TRY_DISCARD_KEY_UPDATE | DECODE_AEAD_FAIL

fun StatusCodeCore_u16 :: "StatusCodeCore \<Rightarrow> u16" where
  "StatusCodeCore_u16 CORE_SUCCESS = 0"
| "StatusCodeCore_u16 INVALID_PARAMETER = 1"
| "StatusCodeCore_u16 UNSUPPORTED_CAP = 2"
| "StatusCodeCore_u16 INVALID_STATE_LOCAL = 3"
| "StatusCodeCore_u16 INVALID_STATE_PEER = 4"
| "StatusCodeCore_u16 INVALID_MSG_FIELD = 5"
| "StatusCodeCore_u16 INVALID_MSG_SIZE = 6"
| "StatusCodeCore_u16 NEGOTIATION_FAIL = 7"
| "StatusCodeCore_u16 BUSY_PEER = 8"
| "StatusCodeCore_u16 NOT_READY_PEER = 9"
| "StatusCodeCore_u16 ERROR_PEER = 10"
| "StatusCodeCore_u16 RESYNCH_PEER = 11"
| "StatusCodeCore_u16 BUFFER_FULL = 12"
| "StatusCodeCore_u16 BUFFER_TOO_SMALL = 13"
| "StatusCodeCore_u16 SESSION_NUMBER_EXCEED = 14"
| "StatusCodeCore_u16 SESSION_MSG_ERROR = 15"
| "StatusCodeCore_u16 ACQUIRE_FAIL = 16"
| "StatusCodeCore_u16 SESSION_TRY_DISCARD_KEY_UPDATE = 17"
| "StatusCodeCore_u16 DECODE_AEAD_FAIL = 0xFE"

definition StatusCodeCore_try_from :: "u16 \<Rightarrow> StatusCodeCore option" where
  "StatusCodeCore_try_from value = map_of
     [(0, CORE_SUCCESS), (1, INVALID_PARAMETER), (2, UNSUPPORTED_CAP), (3, INVALID_STATE_LOCAL),
      (4, INVALID_STATE_PEER), (5, INVALID_MSG_FIELD), (6, INVALID_MSG_SIZE),
      (7, NEGOTIATION_FAIL), (8, BUSY_PEER), (9, NOT_READY_PEER), (10, ERROR_PEER),
      (11, RESYNCH_PEER), (12, BUFFER_FULL), (13, BUFFER_TOO_SMALL), (14, SESSION_NUMBER_EXCEED),
      (15, SESSION_MSG_ERROR), (16, ACQUIRE_FAIL), (17, SESSION_TRY_DISCARD_KEY_UPDATE),
      (0xFE, DECODE_AEAD_FAIL)] value"

datatype StatusCodeCrypto =
  CRYPTO_ERROR | VERIF_FAIL | SEQUENCE_NUMBER_OVERFLOW | VERIF_NO_AUTHORITY | FIPS_SELF_TEST_FAIL

fun StatusCodeCrypto_u16 :: "StatusCodeCrypto \<Rightarrow> u16" where
  "StatusCodeCrypto_u16 CRYPTO_ERROR = 0"
| "StatusCodeCrypto_u16 VERIF_FAIL = 1"
| "StatusCodeCrypto_u16 SEQUENCE_NUMBER_OVERFLOW = 2"
| "StatusCodeCrypto_u16 VERIF_NO_AUTHORITY = 3"
| "StatusCodeCrypto_u16 FIPS_SELF_TEST_FAIL = 4"

definition StatusCodeCrypto_try_from :: "u16 \<Rightarrow> StatusCodeCrypto option" where
  "StatusCodeCrypto_try_from value = map_of
     [(0, CRYPTO_ERROR), (1, VERIF_FAIL), (2, SEQUENCE_NUMBER_OVERFLOW), (3, VERIF_NO_AUTHORITY),
      (4, FIPS_SELF_TEST_FAIL)] value"

datatype StatusCodeCertParse = INVALID_CERT

fun StatusCodeCertParse_u16 :: "StatusCodeCertParse \<Rightarrow> u16" where
  "StatusCodeCertParse_u16 INVALID_CERT = 0"

definition StatusCodeCertParse_try_from :: "u16 \<Rightarrow> StatusCodeCertParse option" where
  "StatusCodeCertParse_try_from value = (if value = 0 then Some INVALID_CERT else None)"

datatype StatusCodeTransport =
  SEND_FAIL | RECEIVE_FAIL | DECAP_FAIL | DECAP_APP_FAIL | ENCAP_FAIL | ENCAP_APP_FAIL

fun StatusCodeTransport_u16 :: "StatusCodeTransport \<Rightarrow> u16" where
  "StatusCodeTransport_u16 SEND_FAIL = 0"
| "StatusCodeTransport_u16 RECEIVE_FAIL = 1"
| "StatusCodeTransport_u16 DECAP_FAIL = 0xFE"
| "StatusCodeTransport_u16 DECAP_APP_FAIL = 0xFD"
| "StatusCodeTransport_u16 ENCAP_FAIL = 0xFC"
| "StatusCodeTransport_u16 ENCAP_APP_FAIL = 0xFB"

definition StatusCodeTransport_try_from :: "u16 \<Rightarrow> StatusCodeTransport option" where
  "StatusCodeTransport_try_from value = map_of
     [(0, SEND_FAIL), (1, RECEIVE_FAIL), (0xFE, DECAP_FAIL), (0xFD, DECAP_APP_FAIL),
      (0xFC, ENCAP_FAIL), (0xFB, ENCAP_APP_FAIL)] value"

datatype StatusCodeMeasCollect = MEAS_INVALID_INDEX | MEAS_INTERNAL_ERROR

fun StatusCodeMeasCollect_u16 :: "StatusCodeMeasCollect \<Rightarrow> u16" where
  "StatusCodeMeasCollect_u16 MEAS_INVALID_INDEX = 0"
| "StatusCodeMeasCollect_u16 MEAS_INTERNAL_ERROR = 1"

definition StatusCodeMeasCollect_try_from :: "u16 \<Rightarrow> StatusCodeMeasCollect option" where
  "StatusCodeMeasCollect_try_from value = map_of
     [(0, MEAS_INVALID_INDEX), (1, MEAS_INTERNAL_ERROR)] value"

datatype StatusCodeRNG = LOW_ENTROPY

fun StatusCodeRNG_u16 :: "StatusCodeRNG \<Rightarrow> u16" where
  "StatusCodeRNG_u16 LOW_ENTROPY = 0"

definition StatusCodeRNG_try_from :: "u16 \<Rightarrow> StatusCodeRNG option" where
  "StatusCodeRNG_try_from value = (if value = 0 then Some LOW_ENTROPY else None)"

datatype StatusCode =
    SC_SUCCESS
  | CORE StatusCodeCore
  | CRYPTO StatusCodeCrypto
  | CERT_PARSE StatusCodeCertParse
  | TRANSPORT StatusCodeTransport
  | MEAS_COLLECT StatusCodeMeasCollect
  | RNG StatusCodeRNG
  | VDM u16

definition StatusCode_try_from :: "u24 \<Rightarrow> StatusCode option" where
  "StatusCode_try_from value =
     (let source = ucast (drop_bit 16 (value AND 0xFF0000)) :: u8;
          code = ucast (value AND 0x00FFFF) :: u16
      in if source = 0 then Some SC_SUCCESS
         else if source = 1 then map_option CORE (StatusCodeCore_try_from code)
         else if source = 2 then map_option CRYPTO (StatusCodeCrypto_try_from code)
         else if source = 3 then map_option CERT_PARSE (StatusCodeCertParse_try_from code)
         else if source = 4 then map_option TRANSPORT (StatusCodeTransport_try_from code)
         else if source = 5 then map_option MEAS_COLLECT (StatusCodeMeasCollect_try_from code)
         else if source = 6 then map_option RNG (StatusCodeRNG_try_from code)
         else if source = 7 then Some (VDM code)
         else None)"

text \<open>None is the failed assertion of \<open>u24::new\<close>.\<close>

fun StatusCode_try_into :: "StatusCode \<Rightarrow> u24 option" where
  "StatusCode_try_into SC_SUCCESS = u24_new 0"
| "StatusCode_try_into (CORE c) = u24_new (push_bit 16 1 + ucast (StatusCodeCore_u16 c))"
| "StatusCode_try_into (CRYPTO c) = u24_new (push_bit 16 2 + ucast (StatusCodeCrypto_u16 c))"
| "StatusCode_try_into (CERT_PARSE c) = u24_new (push_bit 16 3 + ucast (StatusCodeCertParse_u16 c))"
| "StatusCode_try_into (TRANSPORT t) = u24_new (push_bit 16 4 + ucast (StatusCodeTransport_u16 t))"
| "StatusCode_try_into (MEAS_COLLECT m) = u24_new (push_bit 16 5 + ucast (StatusCodeMeasCollect_u16 m))"
| "StatusCode_try_into (RNG r) = u24_new (push_bit 16 6 + ucast (StatusCodeRNG_u16 r))"
| "StatusCode_try_into (VDM v) = u24_new (push_bit 16 7 + ucast v)"

record SpdmStatus =
  severity :: StatusSeverity
  status_code :: StatusCode
  error_data :: "bytes option"

definition SPDM_ERROR_MESSAGE_DATA_MAX_LENGTH :: usize where
  "SPDM_ERROR_MESSAGE_DATA_MAX_LENGTH = 36"

text \<open>\<open>impl PartialEq for SpdmStatus\<close>.\<close>

definition SpdmStatus_eq :: "SpdmStatus \<Rightarrow> SpdmStatus \<Rightarrow> bool" where
  "SpdmStatus_eq a b \<longleftrightarrow> severity a = severity b \<and> status_code a = status_code b"

definition SpdmStatus_encode :: "SpdmStatus \<Rightarrow> encode_err encoder" where
  "SpdmStatus_encode s w =
     (case StatusCode_try_into (status_code s) of
        None \<Rightarrow> Inl EncodePanic
      | Some c \<Rightarrow>
          let sc = push_bit 28 (ucast (StatusSeverity_u8 (severity s) AND 0x0F)) + c
          in bindR (u32_encode sc w) (\<lambda>(_, w). Inr (4, w)))"

definition SpdmStatus_read :: "SpdmStatus decoder" where
  "SpdmStatus_read r = do {
     (sc, r) \<leftarrow> u32_read r;
     severity \<leftarrow> StatusSeverity_try_from (ucast (drop_bit 28 (sc AND 0xF0000000)));
     if sc AND 0x0F000000 \<noteq> 0 then None else do {
       status_code \<leftarrow> u24_new (sc AND 0x00FFFFFF);
       status_code \<leftarrow> StatusCode_try_from status_code;
       Some (\<lparr>severity = severity, status_code = status_code, error_data = None\<rparr>, r) } }"

definition spdm_status_is_success :: "SpdmStatus \<Rightarrow> bool" where
  "spdm_status_is_success s \<longleftrightarrow> severity s = SEV_SUCCESS"

definition spdm_status_is_error :: "SpdmStatus \<Rightarrow> bool" where
  "spdm_status_is_error s \<longleftrightarrow> severity s = SEV_ERROR"

definition spdm_status_set_error_data :: "bytes \<Rightarrow> SpdmStatus \<Rightarrow> SpdmStatus" where
  "spdm_status_set_error_data ed s =
     (if length ed \<le> SPDM_ERROR_MESSAGE_DATA_MAX_LENGTH then s\<lparr>error_data := Some ed\<rparr>
      else s\<lparr>error_data := None\<rparr>)"

subsection \<open>The named statuses\<close>

definition spdm_return_status :: "StatusSeverity \<Rightarrow> StatusCode \<Rightarrow> SpdmStatus" where
  "spdm_return_status sev code = \<lparr>severity = sev, status_code = code, error_data = None\<rparr>"

definition SPDM_STATUS_SUCCESS :: SpdmStatus where
  "SPDM_STATUS_SUCCESS = spdm_return_status SEV_SUCCESS SC_SUCCESS"
definition SPDM_STATUS_INVALID_PARAMETER :: SpdmStatus where
  "SPDM_STATUS_INVALID_PARAMETER = spdm_return_status SEV_ERROR (CORE INVALID_STATE_LOCAL)"
definition SPDM_STATUS_UNSUPPORTED_CAP :: SpdmStatus where
  "SPDM_STATUS_UNSUPPORTED_CAP = spdm_return_status SEV_ERROR (CORE UNSUPPORTED_CAP)"
definition SPDM_STATUS_INVALID_STATE_LOCAL :: SpdmStatus where
  "SPDM_STATUS_INVALID_STATE_LOCAL = spdm_return_status SEV_ERROR (CORE INVALID_STATE_LOCAL)"
definition SPDM_STATUS_INVALID_STATE_PEER :: SpdmStatus where
  "SPDM_STATUS_INVALID_STATE_PEER = spdm_return_status SEV_ERROR (CORE INVALID_STATE_PEER)"
definition SPDM_STATUS_INVALID_MSG_FIELD :: SpdmStatus where
  "SPDM_STATUS_INVALID_MSG_FIELD = spdm_return_status SEV_ERROR (CORE INVALID_MSG_FIELD)"
definition SPDM_STATUS_INVALID_MSG_SIZE :: SpdmStatus where
  "SPDM_STATUS_INVALID_MSG_SIZE = spdm_return_status SEV_ERROR (CORE INVALID_MSG_SIZE)"
definition SPDM_STATUS_NEGOTIATION_FAIL :: SpdmStatus where
  "SPDM_STATUS_NEGOTIATION_FAIL = spdm_return_status SEV_ERROR (CORE NEGOTIATION_FAIL)"
definition SPDM_STATUS_BUSY_PEER :: SpdmStatus where
  "SPDM_STATUS_BUSY_PEER = spdm_return_status SEV_ERROR (CORE BUSY_PEER)"
definition SPDM_STATUS_NOT_READY_PEER :: SpdmStatus where
  "SPDM_STATUS_NOT_READY_PEER = spdm_return_status SEV_ERROR (CORE NOT_READY_PEER)"
definition SPDM_STATUS_ERROR_PEER :: SpdmStatus where
  "SPDM_STATUS_ERROR_PEER = spdm_return_status SEV_ERROR (CORE ERROR_PEER)"
definition SPDM_STATUS_RESYNCH_PEER :: SpdmStatus where
  "SPDM_STATUS_RESYNCH_PEER = spdm_return_status SEV_ERROR (CORE RESYNCH_PEER)"
definition SPDM_STATUS_BUFFER_FULL :: SpdmStatus where
  "SPDM_STATUS_BUFFER_FULL = spdm_return_status SEV_ERROR (CORE BUFFER_FULL)"
definition SPDM_STATUS_BUFFER_TOO_SMALL :: SpdmStatus where
  "SPDM_STATUS_BUFFER_TOO_SMALL = spdm_return_status SEV_ERROR (CORE BUFFER_TOO_SMALL)"
definition SPDM_STATUS_SESSION_NUMBER_EXCEED :: SpdmStatus where
  "SPDM_STATUS_SESSION_NUMBER_EXCEED = spdm_return_status SEV_ERROR (CORE SESSION_NUMBER_EXCEED)"
definition SPDM_STATUS_SESSION_MSG_ERROR :: SpdmStatus where
  "SPDM_STATUS_SESSION_MSG_ERROR = spdm_return_status SEV_ERROR (CORE SESSION_MSG_ERROR)"
definition SPDM_STATUS_ACQUIRE_FAIL :: SpdmStatus where
  "SPDM_STATUS_ACQUIRE_FAIL = spdm_return_status SEV_ERROR (CORE ACQUIRE_FAIL)"
definition SPDM_STATUS_SESSION_TRY_DISCARD_KEY_UPDATE :: SpdmStatus where
  "SPDM_STATUS_SESSION_TRY_DISCARD_KEY_UPDATE =
     spdm_return_status SEV_ERROR (CORE SESSION_TRY_DISCARD_KEY_UPDATE)"
definition SPDM_STATUS_DECODE_AEAD_FAIL :: SpdmStatus where
  "SPDM_STATUS_DECODE_AEAD_FAIL = spdm_return_status SEV_ERROR (CORE DECODE_AEAD_FAIL)"
definition SPDM_STATUS_CRYPTO_ERROR :: SpdmStatus where
  "SPDM_STATUS_CRYPTO_ERROR = spdm_return_status SEV_ERROR (CRYPTO CRYPTO_ERROR)"
definition SPDM_STATUS_VERIF_FAIL :: SpdmStatus where
  "SPDM_STATUS_VERIF_FAIL = spdm_return_status SEV_ERROR (CRYPTO VERIF_FAIL)"
definition SPDM_STATUS_SEQUENCE_NUMBER_OVERFLOW :: SpdmStatus where
  "SPDM_STATUS_SEQUENCE_NUMBER_OVERFLOW = spdm_return_status SEV_ERROR (CRYPTO SEQUENCE_NUMBER_OVERFLOW)"
definition SPDM_STATUS_VERIF_NO_AUTHORITY :: SpdmStatus where
  "SPDM_STATUS_VERIF_NO_AUTHORITY = spdm_return_status SEV_ERROR (CRYPTO VERIF_NO_AUTHORITY)"
definition SPDM_STATUS_FIPS_SELF_TEST_FAIL :: SpdmStatus where
  "SPDM_STATUS_FIPS_SELF_TEST_FAIL = spdm_return_status SEV_ERROR (CRYPTO FIPS_SELF_TEST_FAIL)"
definition SPDM_STATUS_INVALID_CERT :: SpdmStatus where
  "SPDM_STATUS_INVALID_CERT = spdm_return_status SEV_ERROR (CERT_PARSE INVALID_CERT)"
definition SPDM_STATUS_SEND_FAIL :: SpdmStatus where
  "SPDM_STATUS_SEND_FAIL = spdm_return_status SEV_ERROR (TRANSPORT SEND_FAIL)"
definition SPDM_STATUS_RECEIVE_FAIL :: SpdmStatus where
  "SPDM_STATUS_RECEIVE_FAIL = spdm_return_status SEV_ERROR (TRANSPORT RECEIVE_FAIL)"
definition SPDM_STATUS_DECAP_FAIL :: SpdmStatus where
  "SPDM_STATUS_DECAP_FAIL = spdm_return_status SEV_ERROR (TRANSPORT DECAP_FAIL)"
definition SPDM_STATUS_DECAP_APP_FAIL :: SpdmStatus where
  "SPDM_STATUS_DECAP_APP_FAIL = spdm_return_status SEV_ERROR (TRANSPORT DECAP_APP_FAIL)"
definition SPDM_STATUS_ENCAP_FAIL :: SpdmStatus where
  "SPDM_STATUS_ENCAP_FAIL = spdm_return_status SEV_ERROR (TRANSPORT ENCAP_FAIL)"
definition SPDM_STATUS_ENCAP_APP_FAIL :: SpdmStatus where
  "SPDM_STATUS_ENCAP_APP_FAIL = spdm_return_status SEV_ERROR (TRANSPORT ENCAP_APP_FAIL)"
definition SPDM_STATUS_MEAS_INVALID_INDEX :: SpdmStatus where
  "SPDM_STATUS_MEAS_INVALID_INDEX = spdm_return_status SEV_ERROR (MEAS_COLLECT MEAS_INVALID_INDEX)"
definition SPDM_STATUS_MEAS_INTERNAL_ERROR :: SpdmStatus where
  "SPDM_STATUS_MEAS_INTERNAL_ERROR = spdm_return_status SEV_ERROR (MEAS_COLLECT MEAS_INTERNAL_ERROR)"
definition SPDM_STATUS_LOW_ENTROPY :: SpdmStatus where
  "SPDM_STATUS_LOW_ENTROPY = spdm_return_status SEV_ERROR (RNG LOW_ENTROPY)"

subsection \<open>Results\<close>

datatype fault = Fail SpdmStatus | Panic

type_synonym 'a SpdmResult = "fault + 'a"

abbreviation Err :: "SpdmStatus \<Rightarrow> 'a SpdmResult" where
  "Err s \<equiv> Inl (Fail s)"

abbreviation Ok :: "'a \<Rightarrow> 'a SpdmResult" where
  "Ok x \<equiv> Inr x"

abbreviation panic :: "'a SpdmResult" where
  "panic \<equiv> Inl Panic"

text \<open>\<open>.map_err(|_| s)\<close> on the result of an encoder: an encoding error becomes the status, a panic
  stays a panic.\<close>

fun encode_fault :: "SpdmStatus \<Rightarrow> encode_err \<Rightarrow> fault" where
  "encode_fault s EncodeErr = Fail s"
| "encode_fault s EncodePanic = Panic"

subsection \<open>The 32-bit encoding of a status\<close>

lemma try_from_into_codes [simp]:
  shows "StatusSeverity_try_from (StatusSeverity_u8 s) = Some s"
    and "StatusCodeCore_try_from (StatusCodeCore_u16 c) = Some c"
    and "StatusCodeCrypto_try_from (StatusCodeCrypto_u16 y) = Some y"
    and "StatusCodeCertParse_try_from (StatusCodeCertParse_u16 p) = Some p"
    and "StatusCodeTransport_try_from (StatusCodeTransport_u16 t) = Some t"
    and "StatusCodeMeasCollect_try_from (StatusCodeMeasCollect_u16 m) = Some m"
    and "StatusCodeRNG_try_from (StatusCodeRNG_u16 r) = Some r"
  subgoal by (cases s) (simp_all add: StatusSeverity_try_from_def)
  subgoal by (cases c) (simp_all add: StatusCodeCore_try_from_def)
  subgoal by (cases y) (simp_all add: StatusCodeCrypto_try_from_def)
  subgoal by (cases p) (simp_all add: StatusCodeCertParse_try_from_def)
  subgoal by (cases t) (simp_all add: StatusCodeTransport_try_from_def)
  subgoal by (cases m) (simp_all add: StatusCodeMeasCollect_try_from_def)
  subgoal by (cases r) (simp_all add: StatusCodeRNG_try_from_def)
  done

text \<open>The layout of the 24-bit code: the source in the top byte, the code in the lower two.\<close>

fun status_source :: "StatusCode \<Rightarrow> u8" where
  "status_source SC_SUCCESS = 0"
| "status_source (CORE c) = 1"
| "status_source (CRYPTO c) = 2"
| "status_source (CERT_PARSE c) = 3"
| "status_source (TRANSPORT t) = 4"
| "status_source (MEAS_COLLECT m) = 5"
| "status_source (RNG r) = 6"
| "status_source (VDM v) = 7"

fun status_low :: "StatusCode \<Rightarrow> u16" where
  "status_low SC_SUCCESS = 0"
| "status_low (CORE c) = StatusCodeCore_u16 c"
| "status_low (CRYPTO c) = StatusCodeCrypto_u16 c"
| "status_low (CERT_PARSE c) = StatusCodeCertParse_u16 c"
| "status_low (TRANSPORT t) = StatusCodeTransport_u16 t"
| "status_low (MEAS_COLLECT m) = StatusCodeMeasCollect_u16 m"
| "status_low (RNG r) = StatusCodeRNG_u16 r"
| "status_low (VDM v) = v"

definition status_word :: "u8 \<Rightarrow> u16 \<Rightarrow> u32" where
  "status_word src c = push_bit 16 (ucast src) OR ucast c"

definition status_u32 :: "StatusSeverity \<Rightarrow> u8 \<Rightarrow> u16 \<Rightarrow> u32" where
  "status_u32 sv src c = push_bit 28 (ucast (StatusSeverity_u8 sv)) OR status_word src c"

definition SpdmStatus_image :: "SpdmStatus \<Rightarrow> bytes" where
  "SpdmStatus_image s = u32_image (status_u32 (severity s)
     (status_source (status_code s)) (status_low (status_code s)))"

lemma status_word_masks:
  "(0xFF0000 :: u32) = push_bit 16 (mask 8)" "(0xFFFF :: u32) = mask 16" "(0xFFFFFF :: u32) = mask 24"
  "(0xF0000000 :: u32) = push_bit 28 (mask 4)" "(0x0F000000 :: u32) = push_bit 24 (mask 4)"
  "(255 :: u32) = mask 8" "(0x0F :: u32) = mask 4"
  by (simp_all add: mask_eq_exp_minus_1)

lemma status_word_sum:
  "push_bit 16 (ucast (src :: u8)) + ucast (c :: u16) = status_word src c"
  unfolding status_word_def
  by (rule disjunctive_add_eq_or, rule bit_word_eqI) (auto simp: bit_simps dest: bit_imp_le_length)

lemma status_word_bits: "bit (status_word src c) n \<longleftrightarrow> bit c n \<or> 16 \<le> n \<and> bit src (n - 16)"
  by (auto simp: status_word_def bit_simps dest: bit_imp_le_length)

lemma status_sum:
  "push_bit 28 (ucast (StatusSeverity_u8 sv)) + status_word src c = status_u32 sv src c"
  unfolding status_u32_def
  by (rule disjunctive_add_eq_or, rule bit_word_eqI)
    (auto simp: bit_simps status_word_bits dest: bit_imp_le_length)

lemma status_word_fields [simp]:
  "drop_bit 24 (status_word src c) = 0"
  "ucast (drop_bit 16 (status_word src c) AND 255) = src"
  "ucast (status_word src c AND 0xFFFF) = c"
  unfolding status_word_masks
  by (rule bit_word_eqI; auto simp: bit_simps status_word_bits dest: bit_imp_le_length)+

lemmas status_word_numerals = status_word_sum [where src = 1, simplified]
  status_word_sum [where src = 2, simplified] status_word_sum [where src = 3, simplified]
  status_word_sum [where src = 4, simplified] status_word_sum [where src = 5, simplified]
  status_word_sum [where src = 6, simplified] status_word_sum [where src = 7, simplified]

lemma StatusCode_try_into_eq:
  "StatusCode_try_into c = Some (status_word (status_source c) (status_low c))"
  by (cases c)
    (simp_all only: StatusCode_try_into.simps u24_new_def status_source.simps status_low.simps,
     simp_all add: status_word_numerals, simp_all add: status_word_def)

lemma StatusCode_try_from_word:
  "StatusCode_try_from (status_word (status_source c) (status_low c)) = Some c"
  by (cases c) (simp_all add: StatusCode_try_from_def Let_def)

lemma severity_low [simp]: "StatusSeverity_u8 s AND 15 = StatusSeverity_u8 s"
  by (cases s) simp_all

lemma severity_bits: "bit (StatusSeverity_u8 s) n \<Longrightarrow> n = 3"
proof (cases s)
  case SEV_ERROR
  have "bit ((2 :: u8) ^ 3) n \<Longrightarrow> n = 3"
    by (simp only: bit_exp_iff)
  then show "bit (StatusSeverity_u8 s) n \<Longrightarrow> n = 3"
    using SEV_ERROR by simp
qed simp

lemma status_u32_fields [simp]:
  "ucast (drop_bit 28 (status_u32 sv src c) AND 15) = StatusSeverity_u8 sv"
  "status_u32 sv src c AND 0x0F000000 = 0"
  "status_u32 sv src c AND 0x00FFFFFF = status_word src c"
  unfolding status_word_masks status_u32_def
  by (rule bit_word_eqI; auto simp: bit_simps status_word_bits dest: bit_imp_le_length severity_bits)+

interpretation SpdmStatus: codec EncodeErr SpdmStatus_encode SpdmStatus_read SpdmStatus_image
  "\<lambda>s. error_data s = None"
proof unfold_locales
  fix s :: SpdmStatus
  let ?sc = "status_u32 (severity s) (status_source (status_code s)) (status_low (status_code s))"
  have "writes EncodeErr (u32_encode ?sc) (u32_image ?sc)"
    by (rule u32.encode_writes) simp
  then show "writes EncodeErr (SpdmStatus_encode s) (SpdmStatus_image s)"
    by (simp add: writes_def SpdmStatus_encode_def SpdmStatus_image_def StatusCode_try_into_eq
        status_sum Let_def)
  assume "error_data s = None"
  then show "reads SpdmStatus_read (SpdmStatus_image s) s"
    by (cases s) (simp add: reads_def SpdmStatus_read_def SpdmStatus_image_def reads_simps
        u24_new_def StatusCode_try_from_word)
qed

subsection \<open>Arrays\<close>

text \<open>\<open>array[i]\<close>, \<open>array[i..j]\<close> and \<open>array[i..]\<close>, which panic out of range.\<close>

definition slot_at :: "'a list \<Rightarrow> usize \<Rightarrow> 'a SpdmResult" where
  "slot_at xs i = (if i < length xs then Ok (xs ! i) else panic)"

definition slice :: "usize \<Rightarrow> usize \<Rightarrow> bytes \<Rightarrow> bytes SpdmResult" where
  "slice i j bs = (if i \<le> j \<and> j \<le> length bs then Ok (take (j - i) (drop i bs)) else panic)"

definition slice_from :: "usize \<Rightarrow> bytes \<Rightarrow> bytes SpdmResult" where
  "slice_from i bs = (if i \<le> length bs then Ok (drop i bs) else panic)"

subsection \<open>Freedom from panics\<close>

definition no_panic :: "'a SpdmResult \<Rightarrow> bool" where
  "no_panic r \<longleftrightarrow> r \<noteq> panic"

lemma no_panic_simps [simp]: "no_panic (Ok x)" "no_panic (Err s)" "\<not> no_panic panic"
  by (simp_all add: no_panic_def)

lemma no_panic_ok_or [simp]: "no_panic (ok_or (Fail s) m)"
  by (cases m) simp_all

lemma no_panic_bindR: "no_panic m \<Longrightarrow> (\<And>x. m = Ok x \<Longrightarrow> no_panic (f x)) \<Longrightarrow> no_panic (bindR m f)"
  by (cases m) (simp_all add: no_panic_def)

lemma no_panic_if: "(b \<Longrightarrow> no_panic x) \<Longrightarrow> (\<not> b \<Longrightarrow> no_panic y) \<Longrightarrow> no_panic (if b then x else y)"
  by simp

lemma no_panic_prod: "(\<And>a b. x = (a, b) \<Longrightarrow> no_panic (f a b)) \<Longrightarrow> no_panic (case x of (a, b) \<Rightarrow> f a b)"
  by (cases x) simp

lemmas no_panic_intros = no_panic_if no_panic_bindR no_panic_prod

end
