(* ===== verification/Flags.thy ===== *)
theory Flags
  imports Status
begin

text \<open>
  Sets of algorithms as bit flags. The \<open>bitflags!\<close> types of \<open>spdmlib/src/protocol/algo.rs\<close> are words
  with a constant \<open>VALID_MASK\<close>; their \<open>Codec\<close> instances, their \<open>prioritize\<close> and their
  \<open>is_valid_one_select\<close> differ in the width, the mask and the priority table only. The common code
  is here once, with two interfaces: \<open>flag_codec\<close>, a flag word on the wire, and \<open>negotiable\<close>, the
  choice of one algorithm out of what two peers support.
\<close>

definition from_bits :: "'a::len word \<Rightarrow> 'a word \<Rightarrow> 'a word option" where
  "from_bits vmask bits = (if bits AND NOT vmask = 0 then Some bits else None)"

text \<open>The loop of \<open>prioritize\<close>, after \<open>*self &= peer\<close>.\<close>

fun prio_loop :: "'a::len word list \<Rightarrow> 'a word \<Rightarrow> 'a word" where
  "prio_loop [] self = 0"
| "prio_loop (v # vs) self = (if self AND v \<noteq> 0 then v else prio_loop vs self)"

definition is_no_more_than_one_selected :: "'a::len word \<Rightarrow> bool" where
  "is_no_more_than_one_selected w \<longleftrightarrow> w = 0 \<or> w AND (w - 1) = 0"

subsection \<open>Flag words on the wire\<close>

lemma from_bits_masked [simp]: "from_bits vmask (bits AND vmask) = Some (bits AND vmask)"
proof -
  have "(bits AND vmask) AND NOT vmask = 0" by (rule bit_word_eqI) (simp add: bit_simps)
  then show ?thesis by (simp add: from_bits_def)
qed

lemma from_bits_Some: "from_bits vmask bits = Some w \<longleftrightarrow> w = bits \<and> bits AND vmask = bits"
proof -
  have "bits AND NOT vmask = 0 \<longleftrightarrow> bits AND vmask = bits"
    unfolding bit_eq_iff by (auto simp: bit_simps)
  then show ?thesis by (auto simp: from_bits_def)
qed

locale flag_codec = base: codec EncodeErr enc rd img "\<lambda>_. True"
  for enc :: "'a::len word \<Rightarrow> encode_err encoder" and rd and img +
  fixes vmask :: "'a word"
    and encode :: "'a word \<Rightarrow> encode_err encoder"
    and read :: "'a word decoder"
  assumes encode_eq: "encode w = enc w"
    and read_eq: "read r = do { (bits, r) \<leftarrow> rd r; v \<leftarrow> from_bits vmask (bits AND vmask); Some (v, r) }"
begin

sublocale codec EncodeErr encode read img "\<lambda>w. w AND vmask = w"
proof unfold_locales
  fix w :: "'a word" assume w: "w AND vmask = w"
  show "writes EncodeErr (encode w) (img w)"
    using base.encode_writes [of w] by (simp add: writes_def encode_eq)
  show "reads read (img w) w"
    using readsD [OF base.read_reads [of w]] w by (auto intro!: readsI simp: read_eq)
qed

text \<open>What is read has no bit outside the mask, and unknown bits on the wire are dropped.\<close>

lemma read_masked: "read r = Some (w, r') \<Longrightarrow> w AND vmask = w"
  by (auto simp: read_eq and.assoc split: bind_splits)

lemma read_any: "rd r = Some (bits, r') \<Longrightarrow> read r = Some (bits AND vmask, r')"
  by (simp add: read_eq)

end

subsection \<open>Words with a single bit\<close>

definition single_bits :: "'a::len word set" where
  "single_bits = {1, 2, 4, 8, 16, 32, 64, 128}"

lemma single_bits_exp: "v \<in> single_bits \<Longrightarrow> \<exists>k. v = 2 ^ k"
proof -
  have "(2::'a word) ^ 0 = 1 \<and> (2::'a word) ^ 1 = 2 \<and> (2::'a word) ^ 2 = 4 \<and> (2::'a word) ^ 3 = 8
    \<and> (2::'a word) ^ 4 = 16 \<and> (2::'a word) ^ 5 = 32 \<and> (2::'a word) ^ 6 = 64 \<and> (2::'a word) ^ 7 = 128"
    by simp
  moreover assume "v \<in> single_bits"
  ultimately show ?thesis unfolding single_bits_def by (metis insertE empty_iff)
qed

lemma and_exp_word: "(w :: 'a::len word) AND 2 ^ k = (if bit w k then 2 ^ k else 0)"
  by (rule bit_word_eqI) (auto simp: bit_simps dest: bit_imp_le_length)

lemma and_single: "v \<in> single_bits \<Longrightarrow> w AND v = v \<or> w AND v = 0"
  using single_bits_exp [of v] by (auto simp: and_exp_word)

lemma nat_and_pred_zero: "(n :: nat) AND (n - 1) = 0 \<Longrightarrow> n \<noteq> 0 \<Longrightarrow> \<exists>k. n = 2 ^ k"
proof (induction n rule: less_induct)
  case (less n)
  show ?case
  proof (cases "even n")
    case True
    then obtain m where n: "n = 2 * m" by (elim evenE)
    with less.prems have m: "m \<noteq> 0" by simp
    have "(n AND (n - 1)) div 2 = n div 2 AND (n - 1) div 2"
      using drop_bit_and [of 1 n "n - 1"] by (simp add: drop_bit_eq_div)
    moreover have "(n - 1) div 2 = m - 1" using n m by presburger
    ultimately have "m AND (m - 1) = 0" using less.prems n by simp
    with less.IH [of m] m n obtain k where "m = 2 ^ k" by auto
    then have "n = 2 ^ Suc k" using n by simp
    then show ?thesis ..
  next
    case False
    then obtain m where n: "n = 2 * m + 1" by (elim oddE)
    have "n AND (n - 1) = 2 * m"
      using n by (subst and_rec) simp
    then have "n = 2 ^ 0" using less.prems n by simp
    then show ?thesis ..
  qed
qed

lemma word_and_pred_zero: "(w :: 'a::len word) AND (w - 1) = 0 \<Longrightarrow> w \<noteq> 0 \<Longrightarrow> \<exists>k. w = 2 ^ k"
proof -
  assume w: "w AND (w - 1) = 0" "w \<noteq> 0"
  have "unat w AND (unat w - 1) = unat (w AND (w - 1))"
    using w(2) by (simp add: unsigned_and_eq unat_minus_one)
  with w nat_and_pred_zero [of "unat w"] obtain k where "unat w = 2 ^ k"
    by (auto simp: unat_eq_zero)
  then have "of_nat (unat w) = (of_nat (2 ^ k) :: 'a word)" by simp
  then have "w = 2 ^ k" by simp
  then show ?thesis ..
qed

subsection \<open>Choosing one algorithm\<close>

text \<open>
  The provider promises a priority table of single flags that covers the mask. The client is the
  negotiation: the requester and the responder each reduce what both support to one algorithm.
\<close>

text \<open>Both peers choose alike, something exactly when they have something in common, and then one
  algorithm that both support.\<close>

definition agreed :: "('a::len word \<Rightarrow> 'a word \<Rightarrow> 'a word) \<Rightarrow> ('a word \<Rightarrow> bool) \<Rightarrow> 'a word \<Rightarrow> bool" where
  "agreed prioritize valid_one_select vmask \<longleftrightarrow> (\<forall>self peer.
     prioritize self peer = prioritize peer self
     \<and> (prioritize self peer = 0 \<longleftrightarrow> (self AND peer) AND vmask = 0)
     \<and> (prioritize self peer \<noteq> 0 \<longrightarrow> valid_one_select (prioritize self peer)
          \<and> self AND prioritize self peer = prioritize self peer
          \<and> peer AND prioritize self peer = prioritize self peer))"

locale negotiable =
  fixes vmask :: "'a::len word"
    and table :: "'a word list"
    and prioritize :: "'a word \<Rightarrow> 'a word \<Rightarrow> 'a word"
    and valid_one_select :: "'a word \<Rightarrow> bool"
  assumes table_single: "set table \<subseteq> single_bits"
    and table_nonzero: "0 \<notin> set table"
    and table_mask: "foldr (OR) table 0 = vmask"
    and prioritize_eq: "prioritize self peer = prio_loop table (self AND peer)"
    and valid_one_select_eq:
      "valid_one_select w \<longleftrightarrow> is_no_more_than_one_selected w \<and> w AND vmask \<noteq> 0"
begin

lemma prio_loop_cases:
  assumes "set vs \<subseteq> single_bits"
  shows "prio_loop vs w = 0 \<and> w AND foldr (OR) vs 0 = 0 \<or>
     (\<exists>us v ws. vs = us @ v # ws \<and> prio_loop vs w = v \<and> w AND v = v \<and> (\<forall>u \<in> set us. w AND u = 0))"
  using assms
proof (induction vs)
  case (Cons v vs)
  show ?case
  proof (cases "w AND v = 0")
    case True
    then have "prio_loop (v # vs) w = prio_loop vs w"
      and "w AND foldr (OR) (v # vs) 0 = w AND foldr (OR) vs 0"
      by (simp_all add: bit.conj_disj_distrib)
    moreover have "vs = us @ x # ws \<Longrightarrow> v # vs = (v # us) @ x # ws" for us x ws by simp
    moreover have "(\<forall>u \<in> set us. w AND u = 0) \<Longrightarrow> (\<forall>u \<in> set (v # us). w AND u = 0)" for us
      using True by simp
    ultimately show ?thesis using Cons.IH Cons.prems by (metis insert_subset list.simps(15))
  next
    case False
    then have "prio_loop (v # vs) w = v" "w AND v = v" using and_single [of v w] Cons.prems by auto
    then show ?thesis by (metis append_Nil empty_iff list.set(1))
  qed
qed simp

text \<open>
  The result is an algorithm of the table that both peers support, no better one is common to
  them, and it is empty exactly when they have none in common.
\<close>

lemma prioritize_cases:
  "prioritize self peer = 0 \<and> (self AND peer) AND vmask = 0 \<or>
   (\<exists>us v ws. table = us @ v # ws \<and> prioritize self peer = v \<and> self AND v = v \<and> peer AND v = v
      \<and> (\<forall>u \<in> set us. (self AND peer) AND u = 0))"
proof -
  have "self AND v = v \<and> peer AND v = v" if "(self AND peer) AND v = v" for v
    using that by (metis and.assoc and.left_commute and.left_idem)
  then show ?thesis
    using prio_loop_cases [OF table_single, of "self AND peer"]
    unfolding prioritize_eq table_mask by metis
qed

lemma table_in_mask: "v \<in> set table \<Longrightarrow> v AND vmask = v"
proof -
  have "v \<in> set vs \<Longrightarrow> v AND foldr (OR) vs 0 = v" for vs
  proof (induction vs)
    case (Cons x vs)
    have "x AND (x OR y) = x" for y by (rule bit_word_eqI) (auto simp: bit_simps)
    moreover have "v AND y = v \<Longrightarrow> v AND (x OR y) = v" for y unfolding bit_eq_iff by (auto simp: bit_simps)
    ultimately show ?case using Cons by auto
  qed simp
  then show "v \<in> set table \<Longrightarrow> v AND vmask = v" using table_mask by metis
qed

lemma prioritize_zero_iff: "prioritize self peer = 0 \<longleftrightarrow> (self AND peer) AND vmask = 0"
  using prioritize_cases [of self peer]
proof (elim disjE exE conjE)
  fix us v ws
  assume v: "table = us @ v # ws" "prioritize self peer = v" "self AND v = v" "peer AND v = v"
  then have "v \<noteq> 0" and "v AND vmask = v" using table_nonzero table_in_mask [of v] by auto
  with v show ?thesis by (metis and.assoc and.commute and_zero_eq)
qed simp

lemma prioritize_in_table: "prioritize self peer \<noteq> 0 \<Longrightarrow> prioritize self peer \<in> set table"
  using prioritize_cases [of self peer] by auto

lemma prioritize_common:
  "self AND prioritize self peer = prioritize self peer"
  "peer AND prioritize self peer = prioritize self peer"
  using prioritize_cases [of self peer] by auto

text \<open>A set within the mask passes \<open>is_valid_one_select\<close> exactly when it is one of the table.\<close>

lemma valid_one_select_iff:
  assumes "w AND vmask = w"
  shows "valid_one_select w \<longleftrightarrow> w \<in> set table"
proof
  assume "valid_one_select w"
  then have w: "w AND (w - 1) = 0" "w \<noteq> 0"
    using assms by (auto simp: valid_one_select_eq is_no_more_than_one_selected_def)
  then obtain k where k: "w = 2 ^ k" using word_and_pred_zero by blast
  have "prio_loop table w \<noteq> 0"
    using prioritize_zero_iff [of w w] assms w(2) by (simp add: prioritize_eq)
  then obtain v where v: "v \<in> set table" "w AND v = v" "v \<noteq> 0"
    using prio_loop_cases [OF table_single, of w] by fastforce
  then have "v = w" using k by (metis and.commute and_exp_word)
  with v(1) show "w \<in> set table" by simp
next
  assume w: "w \<in> set table"
  then obtain k where k: "w = 2 ^ k" using table_single single_bits_exp by blast
  have "(2::'a word) ^ k AND mask k = 0" by (rule bit_word_eqI) (auto simp: bit_simps)
  then have "w AND (w - 1) = 0" by (simp add: k mask_eq_exp_minus_1)
  then show "valid_one_select w"
    using assms w table_nonzero by (auto simp: valid_one_select_eq is_no_more_than_one_selected_def)
qed

lemma prioritize_valid: "prioritize self peer \<noteq> 0 \<Longrightarrow> valid_one_select (prioritize self peer)"
  using prioritize_in_table table_in_mask valid_one_select_iff by blast

lemma prioritize_commute: "prioritize self peer = prioritize peer self"
  by (simp add: prioritize_eq and.commute)

lemma agreement: "agreed prioritize valid_one_select vmask"
  unfolding agreed_def
  using prioritize_commute prioritize_zero_iff prioritize_valid prioritize_common by blast

end

end
