(* ===== verification/Algo.thy ===== *)
theory Algo
  imports Flags
begin

text \<open>
  The algorithms of \<open>spdmlib/src/protocol/algo.rs\<close>: sizes, the flag words an SPDM connection
  negotiates with their priority tables, sizes and codecs, and the \<open>AlgStruct\<close> of the
  NEGOTIATE_ALGORITHMS and ALGORITHMS messages. Sizes that the code computes with \<open>panic!\<close> on an
  unselected algorithm return \<open>panic\<close> there.
\<close>

subsection \<open>Sizes\<close>

abbreviation (input) SHA256_DIGEST_SIZE :: usize where
  "SHA256_DIGEST_SIZE \<equiv> 32"

abbreviation (input) SHA384_DIGEST_SIZE :: usize where
  "SHA384_DIGEST_SIZE \<equiv> 48"

abbreviation (input) SHA512_DIGEST_SIZE :: usize where
  "SHA512_DIGEST_SIZE \<equiv> 64"

abbreviation (input) RSASSA_2048_SIG_SIZE :: usize where
  "RSASSA_2048_SIG_SIZE \<equiv> 256"

abbreviation (input) RSASSA_3072_SIG_SIZE :: usize where
  "RSASSA_3072_SIG_SIZE \<equiv> 384"

abbreviation (input) RSASSA_4096_SIG_SIZE :: usize where
  "RSASSA_4096_SIG_SIZE \<equiv> 512"

abbreviation (input) RSAPSS_2048_SIG_SIZE :: usize where
  "RSAPSS_2048_SIG_SIZE \<equiv> 256"

abbreviation (input) RSAPSS_3072_SIG_SIZE :: usize where
  "RSAPSS_3072_SIG_SIZE \<equiv> 384"

abbreviation (input) RSAPSS_4096_SIG_SIZE :: usize where
  "RSAPSS_4096_SIG_SIZE \<equiv> 512"

abbreviation (input) ECDSA_ECC_NIST_P256_SIG_SIZE :: usize where
  "ECDSA_ECC_NIST_P256_SIG_SIZE \<equiv> 32 * 2"

abbreviation (input) ECDSA_ECC_NIST_P384_SIG_SIZE :: usize where
  "ECDSA_ECC_NIST_P384_SIG_SIZE \<equiv> 48 * 2"

abbreviation (input) SECP_256_R1_KEY_SIZE :: usize where
  "SECP_256_R1_KEY_SIZE \<equiv> 32 * 2"

abbreviation (input) SECP_384_R1_KEY_SIZE :: usize where
  "SECP_384_R1_KEY_SIZE \<equiv> 48 * 2"

abbreviation (input) SECP_256_R1_SHARED_SECRET_SIZE :: usize where
  "SECP_256_R1_SHARED_SECRET_SIZE \<equiv> 32"

abbreviation (input) SECP_384_R1_SHARED_SECRET_SIZE :: usize where
  "SECP_384_R1_SHARED_SECRET_SIZE \<equiv> 48"

abbreviation (input) AEAD_AES_128_GCM_KEY_SIZE :: usize where
  "AEAD_AES_128_GCM_KEY_SIZE \<equiv> 16"

abbreviation (input) AEAD_AES_256_GCM_KEY_SIZE :: usize where
  "AEAD_AES_256_GCM_KEY_SIZE \<equiv> 32"

abbreviation (input) AEAD_CHACHA20_POLY1305_KEY_SIZE :: usize where
  "AEAD_CHACHA20_POLY1305_KEY_SIZE \<equiv> 32"

abbreviation (input) AEAD_AES_128_GCM_BLOCK_SIZE :: usize where
  "AEAD_AES_128_GCM_BLOCK_SIZE \<equiv> 16"

abbreviation (input) AEAD_AES_256_GCM_BLOCK_SIZE :: usize where
  "AEAD_AES_256_GCM_BLOCK_SIZE \<equiv> 16"

abbreviation (input) AEAD_CHACHA20_POLY1305_BLOCK_SIZE :: usize where
  "AEAD_CHACHA20_POLY1305_BLOCK_SIZE \<equiv> 16"

abbreviation (input) AEAD_AES_128_GCM_IV_SIZE :: usize where
  "AEAD_AES_128_GCM_IV_SIZE \<equiv> 12"

abbreviation (input) AEAD_AES_256_GCM_IV_SIZE :: usize where
  "AEAD_AES_256_GCM_IV_SIZE \<equiv> 12"

abbreviation (input) AEAD_CHACHA20_POLY1305_IV_SIZE :: usize where
  "AEAD_CHACHA20_POLY1305_IV_SIZE \<equiv> 12"

abbreviation (input) AEAD_AES_128_GCM_TAG_SIZE :: usize where
  "AEAD_AES_128_GCM_TAG_SIZE \<equiv> 16"

abbreviation (input) AEAD_AES_256_GCM_TAG_SIZE :: usize where
  "AEAD_AES_256_GCM_TAG_SIZE \<equiv> 16"

abbreviation (input) AEAD_CHACHA20_POLY1305_TAG_SIZE :: usize where
  "AEAD_CHACHA20_POLY1305_TAG_SIZE \<equiv> 16"

abbreviation (input) SPDM_NONCE_SIZE :: usize where
  "SPDM_NONCE_SIZE \<equiv> 32"

abbreviation (input) SPDM_CHALLENGE_CONTEXT_SIZE :: usize where
  "SPDM_CHALLENGE_CONTEXT_SIZE \<equiv> 8"

abbreviation (input) SPDM_MEASUREMENTS_CONTEXT_SIZE :: usize where
  "SPDM_MEASUREMENTS_CONTEXT_SIZE \<equiv> 8"

abbreviation (input) SPDM_RANDOM_SIZE :: usize where
  "SPDM_RANDOM_SIZE \<equiv> 32"

abbreviation (input) SPDM_MAX_HASH_SIZE :: usize where
  "SPDM_MAX_HASH_SIZE \<equiv> 64"

abbreviation (input) SPDM_MAX_DHE_KEY_SIZE :: usize where
  "SPDM_MAX_DHE_KEY_SIZE \<equiv> SECP_384_R1_KEY_SIZE"

abbreviation (input) SPDM_MAX_AEAD_KEY_SIZE :: usize where
  "SPDM_MAX_AEAD_KEY_SIZE \<equiv> 32"

abbreviation (input) SPDM_MAX_AEAD_IV_SIZE :: usize where
  "SPDM_MAX_AEAD_IV_SIZE \<equiv> 12"

abbreviation (input) SPDM_MAX_HKDF_OKM_SIZE :: usize where
  "SPDM_MAX_HKDF_OKM_SIZE \<equiv> SPDM_MAX_HASH_SIZE"

abbreviation (input) MLDSA_44_SIG_SIZE :: usize where
  "MLDSA_44_SIG_SIZE \<equiv> 2420"

abbreviation (input) MLDSA_65_SIG_SIZE :: usize where
  "MLDSA_65_SIG_SIZE \<equiv> 3309"

abbreviation (input) MLDSA_87_SIG_SIZE :: usize where
  "MLDSA_87_SIG_SIZE \<equiv> 4627"

abbreviation (input) SPDM_MAX_BASE_ASYM_SIG_SIZE :: usize where
  "SPDM_MAX_BASE_ASYM_SIG_SIZE \<equiv> RSASSA_4096_SIG_SIZE"

abbreviation (input) SPDM_MAX_PQC_ASYM_SIG_SIZE :: usize where
  "SPDM_MAX_PQC_ASYM_SIG_SIZE \<equiv> MLDSA_87_SIG_SIZE"

abbreviation (input) SPDM_MAX_ASYM_SIG_SIZE :: usize where
  "SPDM_MAX_ASYM_SIG_SIZE \<equiv> (if SPDM_MAX_BASE_ASYM_SIG_SIZE > SPDM_MAX_PQC_ASYM_SIG_SIZE then SPDM_MAX_BASE_ASYM_SIG_SIZE else SPDM_MAX_PQC_ASYM_SIG_SIZE)"

abbreviation (input) MLKEM_512_ENCAP_KEY_SIZE :: usize where
  "MLKEM_512_ENCAP_KEY_SIZE \<equiv> 800"

abbreviation (input) MLKEM_768_ENCAP_KEY_SIZE :: usize where
  "MLKEM_768_ENCAP_KEY_SIZE \<equiv> 1184"

abbreviation (input) MLKEM_1024_ENCAP_KEY_SIZE :: usize where
  "MLKEM_1024_ENCAP_KEY_SIZE \<equiv> 1568"

abbreviation (input) MLKEM_512_CIPHER_TEXT_SIZE :: usize where
  "MLKEM_512_CIPHER_TEXT_SIZE \<equiv> 768"

abbreviation (input) MLKEM_768_CIPHER_TEXT_SIZE :: usize where
  "MLKEM_768_CIPHER_TEXT_SIZE \<equiv> 1088"

abbreviation (input) MLKEM_1024_CIPHER_TEXT_SIZE :: usize where
  "MLKEM_1024_CIPHER_TEXT_SIZE \<equiv> 1568"

abbreviation (input) SPDM_MAX_KEM_ENCAP_KEY_SIZE :: usize where
  "SPDM_MAX_KEM_ENCAP_KEY_SIZE \<equiv> MLKEM_1024_ENCAP_KEY_SIZE"

abbreviation (input) SPDM_MAX_KEM_CIPHER_TEXT_SIZE :: usize where
  "SPDM_MAX_KEM_CIPHER_TEXT_SIZE \<equiv> MLKEM_1024_CIPHER_TEXT_SIZE"

abbreviation (input) SPDM_MAX_REQ_KEY_EXCHANGE_SIZE :: usize where
  "SPDM_MAX_REQ_KEY_EXCHANGE_SIZE \<equiv> (if SPDM_MAX_DHE_KEY_SIZE > SPDM_MAX_KEM_ENCAP_KEY_SIZE then SPDM_MAX_DHE_KEY_SIZE else SPDM_MAX_KEM_ENCAP_KEY_SIZE)"

abbreviation (input) SPDM_MAX_RSP_KEY_EXCHANGE_SIZE :: usize where
  "SPDM_MAX_RSP_KEY_EXCHANGE_SIZE \<equiv> (if SPDM_MAX_DHE_KEY_SIZE > SPDM_MAX_KEM_CIPHER_TEXT_SIZE then SPDM_MAX_DHE_KEY_SIZE else SPDM_MAX_KEM_CIPHER_TEXT_SIZE)"

abbreviation (input) MLKEM_512_SHARED_SECRET_SIZE :: usize where
  "MLKEM_512_SHARED_SECRET_SIZE \<equiv> 32"

abbreviation (input) MLKEM_768_SHARED_SECRET_SIZE :: usize where
  "MLKEM_768_SHARED_SECRET_SIZE \<equiv> 32"

abbreviation (input) MLKEM_1024_SHARED_SECRET_SIZE :: usize where
  "MLKEM_1024_SHARED_SECRET_SIZE \<equiv> 32"

abbreviation (input) SPDM_MAX_DHE_SHARED_SECRET_SIZE :: usize where
  "SPDM_MAX_DHE_SHARED_SECRET_SIZE \<equiv> SECP_384_R1_SHARED_SECRET_SIZE"

abbreviation (input) SPDM_MAX_KEM_SHARED_SECRET_SIZE :: usize where
  "SPDM_MAX_KEM_SHARED_SECRET_SIZE \<equiv> MLKEM_1024_SHARED_SECRET_SIZE"

abbreviation (input) SPDM_MAX_SHARED_SECRET_SIZE :: usize where
  "SPDM_MAX_SHARED_SECRET_SIZE \<equiv> (if SPDM_MAX_DHE_SHARED_SECRET_SIZE > SPDM_MAX_KEM_SHARED_SECRET_SIZE then SPDM_MAX_DHE_SHARED_SECRET_SIZE else SPDM_MAX_KEM_SHARED_SECRET_SIZE)"

subsection \<open>SpdmMeasurementSpecification\<close>

type_synonym SpdmMeasurementSpecification = u8

abbreviation (input) SpdmMeasurementSpecification_DMTF :: SpdmMeasurementSpecification where
  "SpdmMeasurementSpecification_DMTF \<equiv> 1"

definition SpdmMeasurementSpecification_VALID_MASK :: SpdmMeasurementSpecification where
  "SpdmMeasurementSpecification_VALID_MASK = SpdmMeasurementSpecification_DMTF"

definition SpdmMeasurementSpecification_encode :: "SpdmMeasurementSpecification \<Rightarrow> encode_err encoder" where
  "SpdmMeasurementSpecification_encode self = u8_encode self"

definition SpdmMeasurementSpecification_read :: "SpdmMeasurementSpecification decoder" where
  "SpdmMeasurementSpecification_read r = do {
     (bits, r) \<leftarrow> u8_read r;
     v \<leftarrow> from_bits SpdmMeasurementSpecification_VALID_MASK (bits AND SpdmMeasurementSpecification_VALID_MASK);
     Some (v, r) }"

definition SpdmMeasurementSpecification_prio_table :: "SpdmMeasurementSpecification list" where
  "SpdmMeasurementSpecification_prio_table = [SpdmMeasurementSpecification_DMTF]"

definition SpdmMeasurementSpecification_prioritize :: "SpdmMeasurementSpecification \<Rightarrow> SpdmMeasurementSpecification \<Rightarrow> SpdmMeasurementSpecification" where
  "SpdmMeasurementSpecification_prioritize self peer = prio_loop SpdmMeasurementSpecification_prio_table (self AND peer)"

definition SpdmMeasurementSpecification_is_valid :: "SpdmMeasurementSpecification \<Rightarrow> bool" where
  "SpdmMeasurementSpecification_is_valid self \<longleftrightarrow> self AND SpdmMeasurementSpecification_VALID_MASK \<noteq> 0"

definition SpdmMeasurementSpecification_is_valid_one_select :: "SpdmMeasurementSpecification \<Rightarrow> bool" where
  "SpdmMeasurementSpecification_is_valid_one_select self \<longleftrightarrow> is_no_more_than_one_selected self \<and> SpdmMeasurementSpecification_is_valid self"

subsection \<open>SpdmAlgoOtherParams\<close>

type_synonym SpdmAlgoOtherParams = u8

abbreviation (input) SpdmAlgoOtherParams_OPAQUE_DATA_FMT1 :: SpdmAlgoOtherParams where
  "SpdmAlgoOtherParams_OPAQUE_DATA_FMT1 \<equiv> 2"

abbreviation (input) SpdmAlgoOtherParams_MULTI_KEY_CONN :: SpdmAlgoOtherParams where
  "SpdmAlgoOtherParams_MULTI_KEY_CONN \<equiv> 16"

definition SpdmAlgoOtherParams_VALID_MASK :: SpdmAlgoOtherParams where
  "SpdmAlgoOtherParams_VALID_MASK = SpdmAlgoOtherParams_OPAQUE_DATA_FMT1 OR
     SpdmAlgoOtherParams_MULTI_KEY_CONN"

definition SpdmAlgoOtherParams_encode :: "SpdmAlgoOtherParams \<Rightarrow> encode_err encoder" where
  "SpdmAlgoOtherParams_encode self = u8_encode self"

definition SpdmAlgoOtherParams_read :: "SpdmAlgoOtherParams decoder" where
  "SpdmAlgoOtherParams_read r = do {
     (bits, r) \<leftarrow> u8_read r;
     v \<leftarrow> from_bits SpdmAlgoOtherParams_VALID_MASK (bits AND SpdmAlgoOtherParams_VALID_MASK);
     Some (v, r) }"

subsection \<open>SpdmMeasurementHashAlgo\<close>

type_synonym SpdmMeasurementHashAlgo = u32

abbreviation (input) SpdmMeasurementHashAlgo_RAW_BIT_STREAM :: SpdmMeasurementHashAlgo where
  "SpdmMeasurementHashAlgo_RAW_BIT_STREAM \<equiv> 1"

abbreviation (input) SpdmMeasurementHashAlgo_TPM_ALG_SHA_256 :: SpdmMeasurementHashAlgo where
  "SpdmMeasurementHashAlgo_TPM_ALG_SHA_256 \<equiv> 2"

abbreviation (input) SpdmMeasurementHashAlgo_TPM_ALG_SHA_384 :: SpdmMeasurementHashAlgo where
  "SpdmMeasurementHashAlgo_TPM_ALG_SHA_384 \<equiv> 4"

abbreviation (input) SpdmMeasurementHashAlgo_TPM_ALG_SHA_512 :: SpdmMeasurementHashAlgo where
  "SpdmMeasurementHashAlgo_TPM_ALG_SHA_512 \<equiv> 8"

abbreviation (input) SpdmMeasurementHashAlgo_TPM_ALG_SHA3_256 :: SpdmMeasurementHashAlgo where
  "SpdmMeasurementHashAlgo_TPM_ALG_SHA3_256 \<equiv> 16"

abbreviation (input) SpdmMeasurementHashAlgo_TPM_ALG_SHA3_384 :: SpdmMeasurementHashAlgo where
  "SpdmMeasurementHashAlgo_TPM_ALG_SHA3_384 \<equiv> 32"

abbreviation (input) SpdmMeasurementHashAlgo_TPM_ALG_SHA3_512 :: SpdmMeasurementHashAlgo where
  "SpdmMeasurementHashAlgo_TPM_ALG_SHA3_512 \<equiv> 64"

abbreviation (input) SpdmMeasurementHashAlgo_TPM_ALG_SM3 :: SpdmMeasurementHashAlgo where
  "SpdmMeasurementHashAlgo_TPM_ALG_SM3 \<equiv> 128"

definition SpdmMeasurementHashAlgo_VALID_MASK :: SpdmMeasurementHashAlgo where
  "SpdmMeasurementHashAlgo_VALID_MASK = SpdmMeasurementHashAlgo_RAW_BIT_STREAM OR
     SpdmMeasurementHashAlgo_TPM_ALG_SHA_256 OR
     SpdmMeasurementHashAlgo_TPM_ALG_SHA_384 OR
     SpdmMeasurementHashAlgo_TPM_ALG_SHA_512 OR
     SpdmMeasurementHashAlgo_TPM_ALG_SHA3_256 OR
     SpdmMeasurementHashAlgo_TPM_ALG_SHA3_384 OR
     SpdmMeasurementHashAlgo_TPM_ALG_SHA3_512 OR
     SpdmMeasurementHashAlgo_TPM_ALG_SM3"

definition SpdmMeasurementHashAlgo_get_size :: "SpdmMeasurementHashAlgo \<Rightarrow> u16 SpdmResult" where
  "SpdmMeasurementHashAlgo_get_size self =
     (if self = SpdmMeasurementHashAlgo_RAW_BIT_STREAM then Ok (0)
      else if self = SpdmMeasurementHashAlgo_TPM_ALG_SHA_256 then Ok (of_nat SHA256_DIGEST_SIZE)
      else if self = SpdmMeasurementHashAlgo_TPM_ALG_SHA_384 then Ok (of_nat SHA384_DIGEST_SIZE)
      else if self = SpdmMeasurementHashAlgo_TPM_ALG_SHA_512 then Ok (of_nat SHA512_DIGEST_SIZE)
      else if self = SpdmMeasurementHashAlgo_TPM_ALG_SHA3_256 then Ok (32)
      else if self = SpdmMeasurementHashAlgo_TPM_ALG_SHA3_384 then Ok (48)
      else if self = SpdmMeasurementHashAlgo_TPM_ALG_SHA3_512 then Ok (64)
      else if self = SpdmMeasurementHashAlgo_TPM_ALG_SM3 then Ok (32)
      else panic)"

definition SpdmMeasurementHashAlgo_is_valid :: "SpdmMeasurementHashAlgo \<Rightarrow> bool" where
  "SpdmMeasurementHashAlgo_is_valid self \<longleftrightarrow> self AND SpdmMeasurementHashAlgo_VALID_MASK \<noteq> 0"

definition SpdmMeasurementHashAlgo_is_valid_one_select :: "SpdmMeasurementHashAlgo \<Rightarrow> bool" where
  "SpdmMeasurementHashAlgo_is_valid_one_select self \<longleftrightarrow> is_no_more_than_one_selected self \<and> SpdmMeasurementHashAlgo_is_valid self"

definition SpdmMeasurementHashAlgo_encode :: "SpdmMeasurementHashAlgo \<Rightarrow> encode_err encoder" where
  "SpdmMeasurementHashAlgo_encode self = u32_encode self"

definition SpdmMeasurementHashAlgo_read :: "SpdmMeasurementHashAlgo decoder" where
  "SpdmMeasurementHashAlgo_read r = do {
     (bits, r) \<leftarrow> u32_read r;
     v \<leftarrow> from_bits SpdmMeasurementHashAlgo_VALID_MASK (bits AND SpdmMeasurementHashAlgo_VALID_MASK);
     Some (v, r) }"

subsection \<open>SpdmBaseAsymAlgo\<close>

type_synonym SpdmBaseAsymAlgo = u32

abbreviation (input) SpdmBaseAsymAlgo_TPM_ALG_RSASSA_2048 :: SpdmBaseAsymAlgo where
  "SpdmBaseAsymAlgo_TPM_ALG_RSASSA_2048 \<equiv> 1"

abbreviation (input) SpdmBaseAsymAlgo_TPM_ALG_RSAPSS_2048 :: SpdmBaseAsymAlgo where
  "SpdmBaseAsymAlgo_TPM_ALG_RSAPSS_2048 \<equiv> 2"

abbreviation (input) SpdmBaseAsymAlgo_TPM_ALG_RSASSA_3072 :: SpdmBaseAsymAlgo where
  "SpdmBaseAsymAlgo_TPM_ALG_RSASSA_3072 \<equiv> 4"

abbreviation (input) SpdmBaseAsymAlgo_TPM_ALG_RSAPSS_3072 :: SpdmBaseAsymAlgo where
  "SpdmBaseAsymAlgo_TPM_ALG_RSAPSS_3072 \<equiv> 8"

abbreviation (input) SpdmBaseAsymAlgo_TPM_ALG_ECDSA_ECC_NIST_P256 :: SpdmBaseAsymAlgo where
  "SpdmBaseAsymAlgo_TPM_ALG_ECDSA_ECC_NIST_P256 \<equiv> 16"

abbreviation (input) SpdmBaseAsymAlgo_TPM_ALG_RSASSA_4096 :: SpdmBaseAsymAlgo where
  "SpdmBaseAsymAlgo_TPM_ALG_RSASSA_4096 \<equiv> 32"

abbreviation (input) SpdmBaseAsymAlgo_TPM_ALG_RSAPSS_4096 :: SpdmBaseAsymAlgo where
  "SpdmBaseAsymAlgo_TPM_ALG_RSAPSS_4096 \<equiv> 64"

abbreviation (input) SpdmBaseAsymAlgo_TPM_ALG_ECDSA_ECC_NIST_P384 :: SpdmBaseAsymAlgo where
  "SpdmBaseAsymAlgo_TPM_ALG_ECDSA_ECC_NIST_P384 \<equiv> 128"

definition SpdmBaseAsymAlgo_VALID_MASK :: SpdmBaseAsymAlgo where
  "SpdmBaseAsymAlgo_VALID_MASK = SpdmBaseAsymAlgo_TPM_ALG_RSASSA_2048 OR
     SpdmBaseAsymAlgo_TPM_ALG_RSAPSS_2048 OR
     SpdmBaseAsymAlgo_TPM_ALG_RSASSA_3072 OR
     SpdmBaseAsymAlgo_TPM_ALG_RSAPSS_3072 OR
     SpdmBaseAsymAlgo_TPM_ALG_ECDSA_ECC_NIST_P256 OR
     SpdmBaseAsymAlgo_TPM_ALG_RSASSA_4096 OR
     SpdmBaseAsymAlgo_TPM_ALG_RSAPSS_4096 OR
     SpdmBaseAsymAlgo_TPM_ALG_ECDSA_ECC_NIST_P384"

definition SpdmBaseAsymAlgo_prio_table :: "SpdmBaseAsymAlgo list" where
  "SpdmBaseAsymAlgo_prio_table = [SpdmBaseAsymAlgo_TPM_ALG_ECDSA_ECC_NIST_P384,
     SpdmBaseAsymAlgo_TPM_ALG_ECDSA_ECC_NIST_P256,
     SpdmBaseAsymAlgo_TPM_ALG_RSAPSS_4096,
     SpdmBaseAsymAlgo_TPM_ALG_RSAPSS_3072,
     SpdmBaseAsymAlgo_TPM_ALG_RSAPSS_2048,
     SpdmBaseAsymAlgo_TPM_ALG_RSASSA_4096,
     SpdmBaseAsymAlgo_TPM_ALG_RSASSA_3072,
     SpdmBaseAsymAlgo_TPM_ALG_RSASSA_2048]"

definition SpdmBaseAsymAlgo_prioritize :: "SpdmBaseAsymAlgo \<Rightarrow> SpdmBaseAsymAlgo \<Rightarrow> SpdmBaseAsymAlgo" where
  "SpdmBaseAsymAlgo_prioritize self peer = prio_loop SpdmBaseAsymAlgo_prio_table (self AND peer)"

definition SpdmBaseAsymAlgo_get_sig_size :: "SpdmBaseAsymAlgo \<Rightarrow> u16 SpdmResult" where
  "SpdmBaseAsymAlgo_get_sig_size self =
     (if self = SpdmBaseAsymAlgo_TPM_ALG_RSASSA_2048 then Ok (of_nat RSASSA_2048_SIG_SIZE)
      else if self = SpdmBaseAsymAlgo_TPM_ALG_RSAPSS_2048 then Ok (of_nat RSAPSS_2048_SIG_SIZE)
      else if self = SpdmBaseAsymAlgo_TPM_ALG_RSASSA_3072 then Ok (of_nat RSASSA_3072_SIG_SIZE)
      else if self = SpdmBaseAsymAlgo_TPM_ALG_RSAPSS_3072 then Ok (of_nat RSAPSS_3072_SIG_SIZE)
      else if self = SpdmBaseAsymAlgo_TPM_ALG_RSASSA_4096 then Ok (of_nat RSASSA_4096_SIG_SIZE)
      else if self = SpdmBaseAsymAlgo_TPM_ALG_RSAPSS_4096 then Ok (of_nat RSAPSS_4096_SIG_SIZE)
      else if self = SpdmBaseAsymAlgo_TPM_ALG_ECDSA_ECC_NIST_P256 then Ok (of_nat ECDSA_ECC_NIST_P256_SIG_SIZE)
      else if self = SpdmBaseAsymAlgo_TPM_ALG_ECDSA_ECC_NIST_P384 then Ok (of_nat ECDSA_ECC_NIST_P384_SIG_SIZE)
      else panic)"

definition SpdmBaseAsymAlgo_is_valid :: "SpdmBaseAsymAlgo \<Rightarrow> bool" where
  "SpdmBaseAsymAlgo_is_valid self \<longleftrightarrow> self AND SpdmBaseAsymAlgo_VALID_MASK \<noteq> 0"

definition SpdmBaseAsymAlgo_is_valid_one_select :: "SpdmBaseAsymAlgo \<Rightarrow> bool" where
  "SpdmBaseAsymAlgo_is_valid_one_select self \<longleftrightarrow> is_no_more_than_one_selected self \<and> SpdmBaseAsymAlgo_is_valid self"

definition SpdmBaseAsymAlgo_encode :: "SpdmBaseAsymAlgo \<Rightarrow> encode_err encoder" where
  "SpdmBaseAsymAlgo_encode self = u32_encode self"

definition SpdmBaseAsymAlgo_read :: "SpdmBaseAsymAlgo decoder" where
  "SpdmBaseAsymAlgo_read r = do {
     (bits, r) \<leftarrow> u32_read r;
     v \<leftarrow> from_bits SpdmBaseAsymAlgo_VALID_MASK (bits AND SpdmBaseAsymAlgo_VALID_MASK);
     Some (v, r) }"

subsection \<open>SpdmPqcAsymAlgo\<close>

type_synonym SpdmPqcAsymAlgo = u32

abbreviation (input) SpdmPqcAsymAlgo_ALG_MLDSA_44 :: SpdmPqcAsymAlgo where
  "SpdmPqcAsymAlgo_ALG_MLDSA_44 \<equiv> 1"

abbreviation (input) SpdmPqcAsymAlgo_ALG_MLDSA_65 :: SpdmPqcAsymAlgo where
  "SpdmPqcAsymAlgo_ALG_MLDSA_65 \<equiv> 2"

abbreviation (input) SpdmPqcAsymAlgo_ALG_MLDSA_87 :: SpdmPqcAsymAlgo where
  "SpdmPqcAsymAlgo_ALG_MLDSA_87 \<equiv> 4"

definition SpdmPqcAsymAlgo_VALID_MASK :: SpdmPqcAsymAlgo where
  "SpdmPqcAsymAlgo_VALID_MASK = SpdmPqcAsymAlgo_ALG_MLDSA_44 OR
     SpdmPqcAsymAlgo_ALG_MLDSA_65 OR
     SpdmPqcAsymAlgo_ALG_MLDSA_87"

definition SpdmPqcAsymAlgo_prio_table :: "SpdmPqcAsymAlgo list" where
  "SpdmPqcAsymAlgo_prio_table = [SpdmPqcAsymAlgo_ALG_MLDSA_87,
     SpdmPqcAsymAlgo_ALG_MLDSA_65,
     SpdmPqcAsymAlgo_ALG_MLDSA_44]"

definition SpdmPqcAsymAlgo_prioritize :: "SpdmPqcAsymAlgo \<Rightarrow> SpdmPqcAsymAlgo \<Rightarrow> SpdmPqcAsymAlgo" where
  "SpdmPqcAsymAlgo_prioritize self peer = prio_loop SpdmPqcAsymAlgo_prio_table (self AND peer)"

definition SpdmPqcAsymAlgo_get_sig_size :: "SpdmPqcAsymAlgo \<Rightarrow> u16 SpdmResult" where
  "SpdmPqcAsymAlgo_get_sig_size self =
     (if self = SpdmPqcAsymAlgo_ALG_MLDSA_44 then Ok (of_nat MLDSA_44_SIG_SIZE)
      else if self = SpdmPqcAsymAlgo_ALG_MLDSA_65 then Ok (of_nat MLDSA_65_SIG_SIZE)
      else if self = SpdmPqcAsymAlgo_ALG_MLDSA_87 then Ok (of_nat MLDSA_87_SIG_SIZE)
      else panic)"

definition SpdmPqcAsymAlgo_is_valid :: "SpdmPqcAsymAlgo \<Rightarrow> bool" where
  "SpdmPqcAsymAlgo_is_valid self \<longleftrightarrow> self AND SpdmPqcAsymAlgo_VALID_MASK \<noteq> 0"

definition SpdmPqcAsymAlgo_is_valid_one_select :: "SpdmPqcAsymAlgo \<Rightarrow> bool" where
  "SpdmPqcAsymAlgo_is_valid_one_select self \<longleftrightarrow> is_no_more_than_one_selected self \<and> SpdmPqcAsymAlgo_is_valid self"

definition SpdmPqcAsymAlgo_encode :: "SpdmPqcAsymAlgo \<Rightarrow> encode_err encoder" where
  "SpdmPqcAsymAlgo_encode self = u32_encode self"

definition SpdmPqcAsymAlgo_read :: "SpdmPqcAsymAlgo decoder" where
  "SpdmPqcAsymAlgo_read r = do {
     (bits, r) \<leftarrow> u32_read r;
     v \<leftarrow> from_bits SpdmPqcAsymAlgo_VALID_MASK (bits AND SpdmPqcAsymAlgo_VALID_MASK);
     Some (v, r) }"

subsection \<open>SpdmBaseHashAlgo\<close>

type_synonym SpdmBaseHashAlgo = u32

abbreviation (input) SpdmBaseHashAlgo_TPM_ALG_SHA_256 :: SpdmBaseHashAlgo where
  "SpdmBaseHashAlgo_TPM_ALG_SHA_256 \<equiv> 1"

abbreviation (input) SpdmBaseHashAlgo_TPM_ALG_SHA_384 :: SpdmBaseHashAlgo where
  "SpdmBaseHashAlgo_TPM_ALG_SHA_384 \<equiv> 2"

abbreviation (input) SpdmBaseHashAlgo_TPM_ALG_SHA_512 :: SpdmBaseHashAlgo where
  "SpdmBaseHashAlgo_TPM_ALG_SHA_512 \<equiv> 4"

definition SpdmBaseHashAlgo_VALID_MASK :: SpdmBaseHashAlgo where
  "SpdmBaseHashAlgo_VALID_MASK = SpdmBaseHashAlgo_TPM_ALG_SHA_256 OR
     SpdmBaseHashAlgo_TPM_ALG_SHA_384 OR
     SpdmBaseHashAlgo_TPM_ALG_SHA_512"

definition SpdmBaseHashAlgo_prio_table :: "SpdmBaseHashAlgo list" where
  "SpdmBaseHashAlgo_prio_table = [SpdmBaseHashAlgo_TPM_ALG_SHA_512,
     SpdmBaseHashAlgo_TPM_ALG_SHA_384,
     SpdmBaseHashAlgo_TPM_ALG_SHA_256]"

definition SpdmBaseHashAlgo_prioritize :: "SpdmBaseHashAlgo \<Rightarrow> SpdmBaseHashAlgo \<Rightarrow> SpdmBaseHashAlgo" where
  "SpdmBaseHashAlgo_prioritize self peer = prio_loop SpdmBaseHashAlgo_prio_table (self AND peer)"

definition SpdmBaseHashAlgo_get_size :: "SpdmBaseHashAlgo \<Rightarrow> u16 SpdmResult" where
  "SpdmBaseHashAlgo_get_size self =
     (if self = SpdmBaseHashAlgo_TPM_ALG_SHA_256 then Ok (of_nat SHA256_DIGEST_SIZE)
      else if self = SpdmBaseHashAlgo_TPM_ALG_SHA_384 then Ok (of_nat SHA384_DIGEST_SIZE)
      else if self = SpdmBaseHashAlgo_TPM_ALG_SHA_512 then Ok (of_nat SHA512_DIGEST_SIZE)
      else panic)"

definition SpdmBaseHashAlgo_is_valid :: "SpdmBaseHashAlgo \<Rightarrow> bool" where
  "SpdmBaseHashAlgo_is_valid self \<longleftrightarrow> self AND SpdmBaseHashAlgo_VALID_MASK \<noteq> 0"

definition SpdmBaseHashAlgo_is_valid_one_select :: "SpdmBaseHashAlgo \<Rightarrow> bool" where
  "SpdmBaseHashAlgo_is_valid_one_select self \<longleftrightarrow> is_no_more_than_one_selected self \<and> SpdmBaseHashAlgo_is_valid self"

definition SpdmBaseHashAlgo_encode :: "SpdmBaseHashAlgo \<Rightarrow> encode_err encoder" where
  "SpdmBaseHashAlgo_encode self = u32_encode self"

definition SpdmBaseHashAlgo_read :: "SpdmBaseHashAlgo decoder" where
  "SpdmBaseHashAlgo_read r = do {
     (bits, r) \<leftarrow> u32_read r;
     v \<leftarrow> from_bits SpdmBaseHashAlgo_VALID_MASK (bits AND SpdmBaseHashAlgo_VALID_MASK);
     Some (v, r) }"

subsection \<open>SpdmMelSpecification\<close>

type_synonym SpdmMelSpecification = u8

abbreviation (input) SpdmMelSpecification_DMTF_MEL_SPEC :: SpdmMelSpecification where
  "SpdmMelSpecification_DMTF_MEL_SPEC \<equiv> 1"

definition SpdmMelSpecification_VALID_MASK :: SpdmMelSpecification where
  "SpdmMelSpecification_VALID_MASK = SpdmMelSpecification_DMTF_MEL_SPEC"

definition SpdmMelSpecification_encode :: "SpdmMelSpecification \<Rightarrow> encode_err encoder" where
  "SpdmMelSpecification_encode self = u8_encode self"

definition SpdmMelSpecification_read :: "SpdmMelSpecification decoder" where
  "SpdmMelSpecification_read r = do {
     (bits, r) \<leftarrow> u8_read r;
     v \<leftarrow> from_bits SpdmMelSpecification_VALID_MASK (bits AND SpdmMelSpecification_VALID_MASK);
     Some (v, r) }"

definition SpdmMelSpecification_prio_table :: "SpdmMelSpecification list" where
  "SpdmMelSpecification_prio_table = [SpdmMelSpecification_DMTF_MEL_SPEC]"

definition SpdmMelSpecification_prioritize :: "SpdmMelSpecification \<Rightarrow> SpdmMelSpecification \<Rightarrow> SpdmMelSpecification" where
  "SpdmMelSpecification_prioritize self peer = prio_loop SpdmMelSpecification_prio_table (self AND peer)"

definition SpdmMelSpecification_is_valid :: "SpdmMelSpecification \<Rightarrow> bool" where
  "SpdmMelSpecification_is_valid self \<longleftrightarrow> self AND SpdmMelSpecification_VALID_MASK \<noteq> 0"

definition SpdmMelSpecification_is_valid_one_select :: "SpdmMelSpecification \<Rightarrow> bool" where
  "SpdmMelSpecification_is_valid_one_select self \<longleftrightarrow> is_no_more_than_one_selected self \<and> SpdmMelSpecification_is_valid self"

subsection \<open>SpdmDheAlgo\<close>

type_synonym SpdmDheAlgo = u16

abbreviation (input) SpdmDheAlgo_SECP_256_R1 :: SpdmDheAlgo where
  "SpdmDheAlgo_SECP_256_R1 \<equiv> 8"

abbreviation (input) SpdmDheAlgo_SECP_384_R1 :: SpdmDheAlgo where
  "SpdmDheAlgo_SECP_384_R1 \<equiv> 16"

definition SpdmDheAlgo_VALID_MASK :: SpdmDheAlgo where
  "SpdmDheAlgo_VALID_MASK = SpdmDheAlgo_SECP_256_R1 OR
     SpdmDheAlgo_SECP_384_R1"

definition SpdmDheAlgo_prio_table :: "SpdmDheAlgo list" where
  "SpdmDheAlgo_prio_table = [SpdmDheAlgo_SECP_384_R1,
     SpdmDheAlgo_SECP_256_R1]"

definition SpdmDheAlgo_prioritize :: "SpdmDheAlgo \<Rightarrow> SpdmDheAlgo \<Rightarrow> SpdmDheAlgo" where
  "SpdmDheAlgo_prioritize self peer = prio_loop SpdmDheAlgo_prio_table (self AND peer)"

definition SpdmDheAlgo_get_key_size :: "SpdmDheAlgo \<Rightarrow> u16 SpdmResult" where
  "SpdmDheAlgo_get_key_size self =
     (if self = SpdmDheAlgo_SECP_256_R1 then Ok (of_nat SECP_256_R1_KEY_SIZE)
      else if self = SpdmDheAlgo_SECP_384_R1 then Ok (of_nat SECP_384_R1_KEY_SIZE)
      else panic)"

definition SpdmDheAlgo_is_valid :: "SpdmDheAlgo \<Rightarrow> bool" where
  "SpdmDheAlgo_is_valid self \<longleftrightarrow> self AND SpdmDheAlgo_VALID_MASK \<noteq> 0"

definition SpdmDheAlgo_is_valid_one_select :: "SpdmDheAlgo \<Rightarrow> bool" where
  "SpdmDheAlgo_is_valid_one_select self \<longleftrightarrow> is_no_more_than_one_selected self \<and> SpdmDheAlgo_is_valid self"

definition SpdmDheAlgo_encode :: "SpdmDheAlgo \<Rightarrow> encode_err encoder" where
  "SpdmDheAlgo_encode self = u16_encode self"

definition SpdmDheAlgo_read :: "SpdmDheAlgo decoder" where
  "SpdmDheAlgo_read r = do {
     (bits, r) \<leftarrow> u16_read r;
     v \<leftarrow> from_bits SpdmDheAlgo_VALID_MASK (bits AND SpdmDheAlgo_VALID_MASK);
     Some (v, r) }"

subsection \<open>SpdmKemAlgo\<close>

type_synonym SpdmKemAlgo = u16

abbreviation (input) SpdmKemAlgo_ALG_MLKEM_512 :: SpdmKemAlgo where
  "SpdmKemAlgo_ALG_MLKEM_512 \<equiv> 1"

abbreviation (input) SpdmKemAlgo_ALG_MLKEM_768 :: SpdmKemAlgo where
  "SpdmKemAlgo_ALG_MLKEM_768 \<equiv> 2"

abbreviation (input) SpdmKemAlgo_ALG_MLKEM_1024 :: SpdmKemAlgo where
  "SpdmKemAlgo_ALG_MLKEM_1024 \<equiv> 4"

definition SpdmKemAlgo_VALID_MASK :: SpdmKemAlgo where
  "SpdmKemAlgo_VALID_MASK = SpdmKemAlgo_ALG_MLKEM_512 OR
     SpdmKemAlgo_ALG_MLKEM_768 OR
     SpdmKemAlgo_ALG_MLKEM_1024"

definition SpdmKemAlgo_prio_table :: "SpdmKemAlgo list" where
  "SpdmKemAlgo_prio_table = [SpdmKemAlgo_ALG_MLKEM_1024,
     SpdmKemAlgo_ALG_MLKEM_768,
     SpdmKemAlgo_ALG_MLKEM_512]"

definition SpdmKemAlgo_prioritize :: "SpdmKemAlgo \<Rightarrow> SpdmKemAlgo \<Rightarrow> SpdmKemAlgo" where
  "SpdmKemAlgo_prioritize self peer = prio_loop SpdmKemAlgo_prio_table (self AND peer)"

definition SpdmKemAlgo_get_encap_key_size :: "SpdmKemAlgo \<Rightarrow> u16 SpdmResult" where
  "SpdmKemAlgo_get_encap_key_size self =
     (if self = SpdmKemAlgo_ALG_MLKEM_512 then Ok (of_nat MLKEM_512_ENCAP_KEY_SIZE)
      else if self = SpdmKemAlgo_ALG_MLKEM_768 then Ok (of_nat MLKEM_768_ENCAP_KEY_SIZE)
      else if self = SpdmKemAlgo_ALG_MLKEM_1024 then Ok (of_nat MLKEM_1024_ENCAP_KEY_SIZE)
      else panic)"

definition SpdmKemAlgo_get_cipher_text_size :: "SpdmKemAlgo \<Rightarrow> u16 SpdmResult" where
  "SpdmKemAlgo_get_cipher_text_size self =
     (if self = SpdmKemAlgo_ALG_MLKEM_512 then Ok (of_nat MLKEM_512_CIPHER_TEXT_SIZE)
      else if self = SpdmKemAlgo_ALG_MLKEM_768 then Ok (of_nat MLKEM_768_CIPHER_TEXT_SIZE)
      else if self = SpdmKemAlgo_ALG_MLKEM_1024 then Ok (of_nat MLKEM_1024_CIPHER_TEXT_SIZE)
      else panic)"

definition SpdmKemAlgo_is_valid :: "SpdmKemAlgo \<Rightarrow> bool" where
  "SpdmKemAlgo_is_valid self \<longleftrightarrow> self AND SpdmKemAlgo_VALID_MASK \<noteq> 0"

definition SpdmKemAlgo_is_valid_one_select :: "SpdmKemAlgo \<Rightarrow> bool" where
  "SpdmKemAlgo_is_valid_one_select self \<longleftrightarrow> is_no_more_than_one_selected self \<and> SpdmKemAlgo_is_valid self"

definition SpdmKemAlgo_encode :: "SpdmKemAlgo \<Rightarrow> encode_err encoder" where
  "SpdmKemAlgo_encode self = u16_encode self"

definition SpdmKemAlgo_read :: "SpdmKemAlgo decoder" where
  "SpdmKemAlgo_read r = do {
     (bits, r) \<leftarrow> u16_read r;
     v \<leftarrow> from_bits SpdmKemAlgo_VALID_MASK (bits AND SpdmKemAlgo_VALID_MASK);
     Some (v, r) }"

subsection \<open>SpdmAeadAlgo\<close>

type_synonym SpdmAeadAlgo = u16

abbreviation (input) SpdmAeadAlgo_AES_128_GCM :: SpdmAeadAlgo where
  "SpdmAeadAlgo_AES_128_GCM \<equiv> 1"

abbreviation (input) SpdmAeadAlgo_AES_256_GCM :: SpdmAeadAlgo where
  "SpdmAeadAlgo_AES_256_GCM \<equiv> 2"

abbreviation (input) SpdmAeadAlgo_CHACHA20_POLY1305 :: SpdmAeadAlgo where
  "SpdmAeadAlgo_CHACHA20_POLY1305 \<equiv> 4"

definition SpdmAeadAlgo_VALID_MASK :: SpdmAeadAlgo where
  "SpdmAeadAlgo_VALID_MASK = SpdmAeadAlgo_AES_128_GCM OR
     SpdmAeadAlgo_AES_256_GCM OR
     SpdmAeadAlgo_CHACHA20_POLY1305"

definition SpdmAeadAlgo_prio_table :: "SpdmAeadAlgo list" where
  "SpdmAeadAlgo_prio_table = [SpdmAeadAlgo_AES_256_GCM,
     SpdmAeadAlgo_AES_128_GCM,
     SpdmAeadAlgo_CHACHA20_POLY1305]"

definition SpdmAeadAlgo_prioritize :: "SpdmAeadAlgo \<Rightarrow> SpdmAeadAlgo \<Rightarrow> SpdmAeadAlgo" where
  "SpdmAeadAlgo_prioritize self peer = prio_loop SpdmAeadAlgo_prio_table (self AND peer)"

definition SpdmAeadAlgo_get_key_size :: "SpdmAeadAlgo \<Rightarrow> u16 SpdmResult" where
  "SpdmAeadAlgo_get_key_size self =
     (if self = SpdmAeadAlgo_AES_128_GCM then Ok (of_nat AEAD_AES_128_GCM_KEY_SIZE)
      else if self = SpdmAeadAlgo_AES_256_GCM then Ok (of_nat AEAD_AES_256_GCM_KEY_SIZE)
      else if self = SpdmAeadAlgo_CHACHA20_POLY1305 then Ok (of_nat AEAD_CHACHA20_POLY1305_KEY_SIZE)
      else panic)"

definition SpdmAeadAlgo_get_iv_size :: "SpdmAeadAlgo \<Rightarrow> u16 SpdmResult" where
  "SpdmAeadAlgo_get_iv_size self =
     (if self = SpdmAeadAlgo_AES_128_GCM then Ok (of_nat AEAD_AES_128_GCM_IV_SIZE)
      else if self = SpdmAeadAlgo_AES_256_GCM then Ok (of_nat AEAD_AES_256_GCM_IV_SIZE)
      else if self = SpdmAeadAlgo_CHACHA20_POLY1305 then Ok (of_nat AEAD_CHACHA20_POLY1305_IV_SIZE)
      else panic)"

definition SpdmAeadAlgo_get_tag_size :: "SpdmAeadAlgo \<Rightarrow> u16 SpdmResult" where
  "SpdmAeadAlgo_get_tag_size self =
     (if self = SpdmAeadAlgo_AES_128_GCM then Ok (of_nat AEAD_AES_128_GCM_TAG_SIZE)
      else if self = SpdmAeadAlgo_AES_256_GCM then Ok (of_nat AEAD_AES_256_GCM_TAG_SIZE)
      else if self = SpdmAeadAlgo_CHACHA20_POLY1305 then Ok (of_nat AEAD_CHACHA20_POLY1305_TAG_SIZE)
      else panic)"

definition SpdmAeadAlgo_is_valid :: "SpdmAeadAlgo \<Rightarrow> bool" where
  "SpdmAeadAlgo_is_valid self \<longleftrightarrow> self AND SpdmAeadAlgo_VALID_MASK \<noteq> 0"

definition SpdmAeadAlgo_is_valid_one_select :: "SpdmAeadAlgo \<Rightarrow> bool" where
  "SpdmAeadAlgo_is_valid_one_select self \<longleftrightarrow> is_no_more_than_one_selected self \<and> SpdmAeadAlgo_is_valid self"

definition SpdmAeadAlgo_encode :: "SpdmAeadAlgo \<Rightarrow> encode_err encoder" where
  "SpdmAeadAlgo_encode self = u16_encode self"

definition SpdmAeadAlgo_read :: "SpdmAeadAlgo decoder" where
  "SpdmAeadAlgo_read r = do {
     (bits, r) \<leftarrow> u16_read r;
     v \<leftarrow> from_bits SpdmAeadAlgo_VALID_MASK (bits AND SpdmAeadAlgo_VALID_MASK);
     Some (v, r) }"

subsection \<open>SpdmReqAsymAlgo\<close>

type_synonym SpdmReqAsymAlgo = u16

abbreviation (input) SpdmReqAsymAlgo_TPM_ALG_RSASSA_2048 :: SpdmReqAsymAlgo where
  "SpdmReqAsymAlgo_TPM_ALG_RSASSA_2048 \<equiv> 1"

abbreviation (input) SpdmReqAsymAlgo_TPM_ALG_RSAPSS_2048 :: SpdmReqAsymAlgo where
  "SpdmReqAsymAlgo_TPM_ALG_RSAPSS_2048 \<equiv> 2"

abbreviation (input) SpdmReqAsymAlgo_TPM_ALG_RSASSA_3072 :: SpdmReqAsymAlgo where
  "SpdmReqAsymAlgo_TPM_ALG_RSASSA_3072 \<equiv> 4"

abbreviation (input) SpdmReqAsymAlgo_TPM_ALG_RSAPSS_3072 :: SpdmReqAsymAlgo where
  "SpdmReqAsymAlgo_TPM_ALG_RSAPSS_3072 \<equiv> 8"

abbreviation (input) SpdmReqAsymAlgo_TPM_ALG_ECDSA_ECC_NIST_P256 :: SpdmReqAsymAlgo where
  "SpdmReqAsymAlgo_TPM_ALG_ECDSA_ECC_NIST_P256 \<equiv> 16"

abbreviation (input) SpdmReqAsymAlgo_TPM_ALG_RSASSA_4096 :: SpdmReqAsymAlgo where
  "SpdmReqAsymAlgo_TPM_ALG_RSASSA_4096 \<equiv> 32"

abbreviation (input) SpdmReqAsymAlgo_TPM_ALG_RSAPSS_4096 :: SpdmReqAsymAlgo where
  "SpdmReqAsymAlgo_TPM_ALG_RSAPSS_4096 \<equiv> 64"

abbreviation (input) SpdmReqAsymAlgo_TPM_ALG_ECDSA_ECC_NIST_P384 :: SpdmReqAsymAlgo where
  "SpdmReqAsymAlgo_TPM_ALG_ECDSA_ECC_NIST_P384 \<equiv> 128"

definition SpdmReqAsymAlgo_VALID_MASK :: SpdmReqAsymAlgo where
  "SpdmReqAsymAlgo_VALID_MASK = SpdmReqAsymAlgo_TPM_ALG_RSASSA_2048 OR
     SpdmReqAsymAlgo_TPM_ALG_RSAPSS_2048 OR
     SpdmReqAsymAlgo_TPM_ALG_RSASSA_3072 OR
     SpdmReqAsymAlgo_TPM_ALG_RSAPSS_3072 OR
     SpdmReqAsymAlgo_TPM_ALG_ECDSA_ECC_NIST_P256 OR
     SpdmReqAsymAlgo_TPM_ALG_RSASSA_4096 OR
     SpdmReqAsymAlgo_TPM_ALG_RSAPSS_4096 OR
     SpdmReqAsymAlgo_TPM_ALG_ECDSA_ECC_NIST_P384"

definition SpdmReqAsymAlgo_prio_table :: "SpdmReqAsymAlgo list" where
  "SpdmReqAsymAlgo_prio_table = [SpdmReqAsymAlgo_TPM_ALG_ECDSA_ECC_NIST_P384,
     SpdmReqAsymAlgo_TPM_ALG_ECDSA_ECC_NIST_P256,
     SpdmReqAsymAlgo_TPM_ALG_RSAPSS_4096,
     SpdmReqAsymAlgo_TPM_ALG_RSAPSS_3072,
     SpdmReqAsymAlgo_TPM_ALG_RSAPSS_2048,
     SpdmReqAsymAlgo_TPM_ALG_RSASSA_4096,
     SpdmReqAsymAlgo_TPM_ALG_RSASSA_3072,
     SpdmReqAsymAlgo_TPM_ALG_RSASSA_2048]"

definition SpdmReqAsymAlgo_prioritize :: "SpdmReqAsymAlgo \<Rightarrow> SpdmReqAsymAlgo \<Rightarrow> SpdmReqAsymAlgo" where
  "SpdmReqAsymAlgo_prioritize self peer = prio_loop SpdmReqAsymAlgo_prio_table (self AND peer)"

definition SpdmReqAsymAlgo_get_sig_size :: "SpdmReqAsymAlgo \<Rightarrow> u16 SpdmResult" where
  "SpdmReqAsymAlgo_get_sig_size self =
     (if self = SpdmReqAsymAlgo_TPM_ALG_RSASSA_2048 then Ok (of_nat RSASSA_2048_SIG_SIZE)
      else if self = SpdmReqAsymAlgo_TPM_ALG_RSAPSS_2048 then Ok (of_nat RSAPSS_2048_SIG_SIZE)
      else if self = SpdmReqAsymAlgo_TPM_ALG_RSASSA_3072 then Ok (of_nat RSASSA_3072_SIG_SIZE)
      else if self = SpdmReqAsymAlgo_TPM_ALG_RSAPSS_3072 then Ok (of_nat RSAPSS_3072_SIG_SIZE)
      else if self = SpdmReqAsymAlgo_TPM_ALG_RSASSA_4096 then Ok (of_nat RSASSA_4096_SIG_SIZE)
      else if self = SpdmReqAsymAlgo_TPM_ALG_RSAPSS_4096 then Ok (of_nat RSAPSS_4096_SIG_SIZE)
      else if self = SpdmReqAsymAlgo_TPM_ALG_ECDSA_ECC_NIST_P256 then Ok (of_nat ECDSA_ECC_NIST_P256_SIG_SIZE)
      else if self = SpdmReqAsymAlgo_TPM_ALG_ECDSA_ECC_NIST_P384 then Ok (of_nat ECDSA_ECC_NIST_P384_SIG_SIZE)
      else panic)"

definition SpdmReqAsymAlgo_is_valid :: "SpdmReqAsymAlgo \<Rightarrow> bool" where
  "SpdmReqAsymAlgo_is_valid self \<longleftrightarrow> self AND SpdmReqAsymAlgo_VALID_MASK \<noteq> 0"

definition SpdmReqAsymAlgo_is_valid_one_select :: "SpdmReqAsymAlgo \<Rightarrow> bool" where
  "SpdmReqAsymAlgo_is_valid_one_select self \<longleftrightarrow> is_no_more_than_one_selected self \<and> SpdmReqAsymAlgo_is_valid self"

definition SpdmReqAsymAlgo_encode :: "SpdmReqAsymAlgo \<Rightarrow> encode_err encoder" where
  "SpdmReqAsymAlgo_encode self = u16_encode self"

definition SpdmReqAsymAlgo_read :: "SpdmReqAsymAlgo decoder" where
  "SpdmReqAsymAlgo_read r = do {
     (bits, r) \<leftarrow> u16_read r;
     v \<leftarrow> from_bits SpdmReqAsymAlgo_VALID_MASK (bits AND SpdmReqAsymAlgo_VALID_MASK);
     Some (v, r) }"

definition SpdmReqAsymAlgo_to_base :: "SpdmReqAsymAlgo \<Rightarrow> SpdmBaseAsymAlgo" where
  "SpdmReqAsymAlgo_to_base self = (case from_bits SpdmBaseAsymAlgo_VALID_MASK (ucast self) of Some b \<Rightarrow> b | None \<Rightarrow> 0)"

definition SpdmReqAsymAlgo_from_base :: "SpdmBaseAsymAlgo \<Rightarrow> SpdmReqAsymAlgo" where
  "SpdmReqAsymAlgo_from_base self = (case from_bits SpdmReqAsymAlgo_VALID_MASK (ucast self) of Some b \<Rightarrow> b | None \<Rightarrow> 0)"

subsection \<open>SpdmPqcReqAsymAlgo\<close>

type_synonym SpdmPqcReqAsymAlgo = u16

abbreviation (input) SpdmPqcReqAsymAlgo_ALG_MLDSA_44 :: SpdmPqcReqAsymAlgo where
  "SpdmPqcReqAsymAlgo_ALG_MLDSA_44 \<equiv> 1"

abbreviation (input) SpdmPqcReqAsymAlgo_ALG_MLDSA_65 :: SpdmPqcReqAsymAlgo where
  "SpdmPqcReqAsymAlgo_ALG_MLDSA_65 \<equiv> 2"

abbreviation (input) SpdmPqcReqAsymAlgo_ALG_MLDSA_87 :: SpdmPqcReqAsymAlgo where
  "SpdmPqcReqAsymAlgo_ALG_MLDSA_87 \<equiv> 4"

definition SpdmPqcReqAsymAlgo_VALID_MASK :: SpdmPqcReqAsymAlgo where
  "SpdmPqcReqAsymAlgo_VALID_MASK = SpdmPqcReqAsymAlgo_ALG_MLDSA_44 OR
     SpdmPqcReqAsymAlgo_ALG_MLDSA_65 OR
     SpdmPqcReqAsymAlgo_ALG_MLDSA_87"

definition SpdmPqcReqAsymAlgo_prio_table :: "SpdmPqcReqAsymAlgo list" where
  "SpdmPqcReqAsymAlgo_prio_table = [SpdmPqcReqAsymAlgo_ALG_MLDSA_44,
     SpdmPqcReqAsymAlgo_ALG_MLDSA_65,
     SpdmPqcReqAsymAlgo_ALG_MLDSA_87]"

definition SpdmPqcReqAsymAlgo_prioritize :: "SpdmPqcReqAsymAlgo \<Rightarrow> SpdmPqcReqAsymAlgo \<Rightarrow> SpdmPqcReqAsymAlgo" where
  "SpdmPqcReqAsymAlgo_prioritize self peer = prio_loop SpdmPqcReqAsymAlgo_prio_table (self AND peer)"

definition SpdmPqcReqAsymAlgo_get_sig_size :: "SpdmPqcReqAsymAlgo \<Rightarrow> u16 SpdmResult" where
  "SpdmPqcReqAsymAlgo_get_sig_size self =
     (if self = SpdmPqcReqAsymAlgo_ALG_MLDSA_44 then Ok (of_nat MLDSA_44_SIG_SIZE)
      else if self = SpdmPqcReqAsymAlgo_ALG_MLDSA_65 then Ok (of_nat MLDSA_65_SIG_SIZE)
      else if self = SpdmPqcReqAsymAlgo_ALG_MLDSA_87 then Ok (of_nat MLDSA_87_SIG_SIZE)
      else panic)"

definition SpdmPqcReqAsymAlgo_is_valid :: "SpdmPqcReqAsymAlgo \<Rightarrow> bool" where
  "SpdmPqcReqAsymAlgo_is_valid self \<longleftrightarrow> self AND SpdmPqcReqAsymAlgo_VALID_MASK \<noteq> 0"

definition SpdmPqcReqAsymAlgo_is_valid_one_select :: "SpdmPqcReqAsymAlgo \<Rightarrow> bool" where
  "SpdmPqcReqAsymAlgo_is_valid_one_select self \<longleftrightarrow> is_no_more_than_one_selected self \<and> SpdmPqcReqAsymAlgo_is_valid self"

definition SpdmPqcReqAsymAlgo_encode :: "SpdmPqcReqAsymAlgo \<Rightarrow> encode_err encoder" where
  "SpdmPqcReqAsymAlgo_encode self = u16_encode self"

definition SpdmPqcReqAsymAlgo_read :: "SpdmPqcReqAsymAlgo decoder" where
  "SpdmPqcReqAsymAlgo_read r = do {
     (bits, r) \<leftarrow> u16_read r;
     v \<leftarrow> from_bits SpdmPqcReqAsymAlgo_VALID_MASK (bits AND SpdmPqcReqAsymAlgo_VALID_MASK);
     Some (v, r) }"

definition SpdmPqcReqAsymAlgo_to_base :: "SpdmPqcReqAsymAlgo \<Rightarrow> SpdmPqcAsymAlgo" where
  "SpdmPqcReqAsymAlgo_to_base self = (case from_bits SpdmPqcAsymAlgo_VALID_MASK (ucast self) of Some b \<Rightarrow> b | None \<Rightarrow> 0)"

definition SpdmPqcReqAsymAlgo_from_base :: "SpdmPqcAsymAlgo \<Rightarrow> SpdmPqcReqAsymAlgo" where
  "SpdmPqcReqAsymAlgo_from_base self = (case from_bits SpdmPqcReqAsymAlgo_VALID_MASK (ucast self) of Some b \<Rightarrow> b | None \<Rightarrow> 0)"

subsection \<open>SpdmKeyScheduleAlgo\<close>

type_synonym SpdmKeyScheduleAlgo = u16

abbreviation (input) SpdmKeyScheduleAlgo_SPDM_KEY_SCHEDULE :: SpdmKeyScheduleAlgo where
  "SpdmKeyScheduleAlgo_SPDM_KEY_SCHEDULE \<equiv> 1"

definition SpdmKeyScheduleAlgo_VALID_MASK :: SpdmKeyScheduleAlgo where
  "SpdmKeyScheduleAlgo_VALID_MASK = SpdmKeyScheduleAlgo_SPDM_KEY_SCHEDULE"

definition SpdmKeyScheduleAlgo_prio_table :: "SpdmKeyScheduleAlgo list" where
  "SpdmKeyScheduleAlgo_prio_table = [SpdmKeyScheduleAlgo_SPDM_KEY_SCHEDULE]"

definition SpdmKeyScheduleAlgo_prioritize :: "SpdmKeyScheduleAlgo \<Rightarrow> SpdmKeyScheduleAlgo \<Rightarrow> SpdmKeyScheduleAlgo" where
  "SpdmKeyScheduleAlgo_prioritize self peer = prio_loop SpdmKeyScheduleAlgo_prio_table (self AND peer)"

definition SpdmKeyScheduleAlgo_is_valid :: "SpdmKeyScheduleAlgo \<Rightarrow> bool" where
  "SpdmKeyScheduleAlgo_is_valid self \<longleftrightarrow> self AND SpdmKeyScheduleAlgo_VALID_MASK \<noteq> 0"

definition SpdmKeyScheduleAlgo_is_valid_one_select :: "SpdmKeyScheduleAlgo \<Rightarrow> bool" where
  "SpdmKeyScheduleAlgo_is_valid_one_select self \<longleftrightarrow> is_no_more_than_one_selected self \<and> SpdmKeyScheduleAlgo_is_valid self"

definition SpdmKeyScheduleAlgo_encode :: "SpdmKeyScheduleAlgo \<Rightarrow> encode_err encoder" where
  "SpdmKeyScheduleAlgo_encode self = u16_encode self"

definition SpdmKeyScheduleAlgo_read :: "SpdmKeyScheduleAlgo decoder" where
  "SpdmKeyScheduleAlgo_read r = do {
     (bits, r) \<leftarrow> u16_read r;
     v \<leftarrow> from_bits SpdmKeyScheduleAlgo_VALID_MASK (bits AND SpdmKeyScheduleAlgo_VALID_MASK);
     Some (v, r) }"

subsection \<open>SpdmKeyUsageMask\<close>

type_synonym SpdmKeyUsageMask = u16

abbreviation (input) SpdmKeyUsageMask_KEY_USAGE_MASK_KEY_EX_USE :: SpdmKeyUsageMask where
  "SpdmKeyUsageMask_KEY_USAGE_MASK_KEY_EX_USE \<equiv> 1"

abbreviation (input) SpdmKeyUsageMask_KEY_USAGE_MASK_CHALLENGE_USE :: SpdmKeyUsageMask where
  "SpdmKeyUsageMask_KEY_USAGE_MASK_CHALLENGE_USE \<equiv> 2"

abbreviation (input) SpdmKeyUsageMask_KEY_USAGE_MASK_MEASUREMENT_USE :: SpdmKeyUsageMask where
  "SpdmKeyUsageMask_KEY_USAGE_MASK_MEASUREMENT_USE \<equiv> 4"

abbreviation (input) SpdmKeyUsageMask_KEY_USAGE_MASK_ENDPOINT_INFO_USE :: SpdmKeyUsageMask where
  "SpdmKeyUsageMask_KEY_USAGE_MASK_ENDPOINT_INFO_USE \<equiv> 8"

abbreviation (input) SpdmKeyUsageMask_KEY_USAGE_MASK_STANDARDS_KEY_USE :: SpdmKeyUsageMask where
  "SpdmKeyUsageMask_KEY_USAGE_MASK_STANDARDS_KEY_USE \<equiv> 16384"

abbreviation (input) SpdmKeyUsageMask_KEY_USAGE_MASK_VENDER_KEY_USE :: SpdmKeyUsageMask where
  "SpdmKeyUsageMask_KEY_USAGE_MASK_VENDER_KEY_USE \<equiv> 32768"

definition SpdmKeyUsageMask_VALID_MASK :: SpdmKeyUsageMask where
  "SpdmKeyUsageMask_VALID_MASK = SpdmKeyUsageMask_KEY_USAGE_MASK_KEY_EX_USE OR
     SpdmKeyUsageMask_KEY_USAGE_MASK_CHALLENGE_USE OR
     SpdmKeyUsageMask_KEY_USAGE_MASK_MEASUREMENT_USE OR
     SpdmKeyUsageMask_KEY_USAGE_MASK_ENDPOINT_INFO_USE OR
     SpdmKeyUsageMask_KEY_USAGE_MASK_STANDARDS_KEY_USE OR
     SpdmKeyUsageMask_KEY_USAGE_MASK_VENDER_KEY_USE"

definition SpdmKeyUsageMask_encode :: "SpdmKeyUsageMask \<Rightarrow> encode_err encoder" where
  "SpdmKeyUsageMask_encode self = u16_encode self"

definition SpdmKeyUsageMask_read :: "SpdmKeyUsageMask decoder" where
  "SpdmKeyUsageMask_read r = do {
     (bits, r) \<leftarrow> u16_read r;
     v \<leftarrow> from_bits SpdmKeyUsageMask_VALID_MASK (bits AND SpdmKeyUsageMask_VALID_MASK);
     Some (v, r) }"

subsection \<open>Algorithm structures\<close>

datatype SpdmAlgType =
    SpdmAlgTypeDHE | SpdmAlgTypeAEAD | SpdmAlgTypeReqAsym | SpdmAlgTypeKeySchedule
  | SpdmAlgTypePqcReqAsym | SpdmAlgTypeKEM | SpdmAlgTypeUnknown u8

fun SpdmAlgType_get_u8 :: "SpdmAlgType \<Rightarrow> u8" where
  "SpdmAlgType_get_u8 SpdmAlgTypeDHE = 0x2"
| "SpdmAlgType_get_u8 SpdmAlgTypeAEAD = 0x3"
| "SpdmAlgType_get_u8 SpdmAlgTypeReqAsym = 0x4"
| "SpdmAlgType_get_u8 SpdmAlgTypeKeySchedule = 0x5"
| "SpdmAlgType_get_u8 SpdmAlgTypePqcReqAsym = 0x6"
| "SpdmAlgType_get_u8 SpdmAlgTypeKEM = 0x7"
| "SpdmAlgType_get_u8 (SpdmAlgTypeUnknown x) = x"

definition SpdmAlgType_of_u8 :: "u8 \<Rightarrow> SpdmAlgType" where
  "SpdmAlgType_of_u8 x =
     (if x = 0x2 then SpdmAlgTypeDHE
      else if x = 0x3 then SpdmAlgTypeAEAD
      else if x = 0x4 then SpdmAlgTypeReqAsym
      else if x = 0x5 then SpdmAlgTypeKeySchedule
      else if x = 0x6 then SpdmAlgTypePqcReqAsym
      else if x = 0x7 then SpdmAlgTypeKEM
      else SpdmAlgTypeUnknown x)"

datatype SpdmAlg =
    SpdmAlgoDhe SpdmDheAlgo
  | SpdmAlgoAead SpdmAeadAlgo
  | SpdmAlgoReqAsym SpdmReqAsymAlgo
  | SpdmAlgoKeySchedule SpdmKeyScheduleAlgo
  | SpdmAlgoKem SpdmKemAlgo
  | SpdmAlgoPqcReqAsym SpdmPqcReqAsymAlgo
  | SpdmAlgoUnknown

record SpdmAlgStruct =
  alg_type :: SpdmAlgType
  alg_supported :: SpdmAlg

fun SpdmAlg_encode :: "SpdmAlg \<Rightarrow> encode_err encoder" where
  "SpdmAlg_encode (SpdmAlgoDhe a) = SpdmDheAlgo_encode a"
| "SpdmAlg_encode (SpdmAlgoAead a) = SpdmAeadAlgo_encode a"
| "SpdmAlg_encode (SpdmAlgoReqAsym a) = SpdmReqAsymAlgo_encode a"
| "SpdmAlg_encode (SpdmAlgoKeySchedule a) = SpdmKeyScheduleAlgo_encode a"
| "SpdmAlg_encode (SpdmAlgoKem a) = SpdmKemAlgo_encode a"
| "SpdmAlg_encode (SpdmAlgoPqcReqAsym a) = SpdmPqcReqAsymAlgo_encode a"
| "SpdmAlg_encode SpdmAlgoUnknown = (\<lambda>w. Inr (0, w))"

definition SpdmAlgStruct_encode :: "SpdmAlgStruct \<Rightarrow> encode_err encoder" where
  "SpdmAlgStruct_encode self =
     (let alg_fixed_count = 2 :: u8;
          alg_count = ucast (push_bit 4 (ucast alg_fixed_count :: u32)) :: u8
      in enc_seq [enum_encode u8_encode SpdmAlgType_get_u8 (alg_type self),
                  u8_encode alg_count,
                  SpdmAlg_encode (alg_supported self)])"

definition SpdmAlgStruct_read :: "SpdmAlgStruct decoder" where
  "SpdmAlgStruct_read r = do {
     (ty, r) \<leftarrow> enum_read u8_read SpdmAlgType_of_u8 r;
     (alg_count, r) \<leftarrow> u8_read r;
     let alg_fixed_count = (ucast (drop_bit 4 (ucast alg_count :: u32) AND 0xF) :: u8);
     let alg_ext_count = alg_count AND 0xF;
     if alg_fixed_count \<noteq> 2 then None
     else if alg_ext_count \<noteq> 0 then None
     else do {
       (alg, r) \<leftarrow> (case ty of
           SpdmAlgTypeDHE \<Rightarrow> map_option (map_prod SpdmAlgoDhe id) (SpdmDheAlgo_read r)
         | SpdmAlgTypeAEAD \<Rightarrow> map_option (map_prod SpdmAlgoAead id) (SpdmAeadAlgo_read r)
         | SpdmAlgTypeReqAsym \<Rightarrow> map_option (map_prod SpdmAlgoReqAsym id) (SpdmReqAsymAlgo_read r)
         | SpdmAlgTypeKeySchedule \<Rightarrow> map_option (map_prod SpdmAlgoKeySchedule id) (SpdmKeyScheduleAlgo_read r)
         | SpdmAlgTypeKEM \<Rightarrow> map_option (map_prod SpdmAlgoKem id) (SpdmKemAlgo_read r)
         | SpdmAlgTypePqcReqAsym \<Rightarrow> map_option (map_prod SpdmAlgoPqcReqAsym id) (SpdmPqcReqAsymAlgo_read r)
         | SpdmAlgTypeUnknown _ \<Rightarrow> None);
       Some (\<lparr>alg_type = ty, alg_supported = alg\<rparr>, r) } }"

subsection \<open>Laws\<close>

interpretation SpdmMeasurementSpecification: flag_codec u8_encode u8_read u8_image SpdmMeasurementSpecification_VALID_MASK SpdmMeasurementSpecification_encode SpdmMeasurementSpecification_read
  by unfold_locales (simp_all add: SpdmMeasurementSpecification_encode_def SpdmMeasurementSpecification_read_def)

interpretation SpdmAlgoOtherParams: flag_codec u8_encode u8_read u8_image SpdmAlgoOtherParams_VALID_MASK SpdmAlgoOtherParams_encode SpdmAlgoOtherParams_read
  by unfold_locales (simp_all add: SpdmAlgoOtherParams_encode_def SpdmAlgoOtherParams_read_def)

interpretation SpdmMeasurementHashAlgo: flag_codec u32_encode u32_read u32_image SpdmMeasurementHashAlgo_VALID_MASK SpdmMeasurementHashAlgo_encode SpdmMeasurementHashAlgo_read
  by unfold_locales (simp_all add: SpdmMeasurementHashAlgo_encode_def SpdmMeasurementHashAlgo_read_def)

interpretation SpdmBaseAsymAlgo: flag_codec u32_encode u32_read u32_image SpdmBaseAsymAlgo_VALID_MASK SpdmBaseAsymAlgo_encode SpdmBaseAsymAlgo_read
  by unfold_locales (simp_all add: SpdmBaseAsymAlgo_encode_def SpdmBaseAsymAlgo_read_def)

interpretation SpdmPqcAsymAlgo: flag_codec u32_encode u32_read u32_image SpdmPqcAsymAlgo_VALID_MASK SpdmPqcAsymAlgo_encode SpdmPqcAsymAlgo_read
  by unfold_locales (simp_all add: SpdmPqcAsymAlgo_encode_def SpdmPqcAsymAlgo_read_def)

interpretation SpdmBaseHashAlgo: flag_codec u32_encode u32_read u32_image SpdmBaseHashAlgo_VALID_MASK SpdmBaseHashAlgo_encode SpdmBaseHashAlgo_read
  by unfold_locales (simp_all add: SpdmBaseHashAlgo_encode_def SpdmBaseHashAlgo_read_def)

interpretation SpdmMelSpecification: flag_codec u8_encode u8_read u8_image SpdmMelSpecification_VALID_MASK SpdmMelSpecification_encode SpdmMelSpecification_read
  by unfold_locales (simp_all add: SpdmMelSpecification_encode_def SpdmMelSpecification_read_def)

interpretation SpdmDheAlgo: flag_codec u16_encode u16_read put_u16 SpdmDheAlgo_VALID_MASK SpdmDheAlgo_encode SpdmDheAlgo_read
  by unfold_locales (simp_all add: SpdmDheAlgo_encode_def SpdmDheAlgo_read_def)

interpretation SpdmKemAlgo: flag_codec u16_encode u16_read put_u16 SpdmKemAlgo_VALID_MASK SpdmKemAlgo_encode SpdmKemAlgo_read
  by unfold_locales (simp_all add: SpdmKemAlgo_encode_def SpdmKemAlgo_read_def)

interpretation SpdmAeadAlgo: flag_codec u16_encode u16_read put_u16 SpdmAeadAlgo_VALID_MASK SpdmAeadAlgo_encode SpdmAeadAlgo_read
  by unfold_locales (simp_all add: SpdmAeadAlgo_encode_def SpdmAeadAlgo_read_def)

interpretation SpdmReqAsymAlgo: flag_codec u16_encode u16_read put_u16 SpdmReqAsymAlgo_VALID_MASK SpdmReqAsymAlgo_encode SpdmReqAsymAlgo_read
  by unfold_locales (simp_all add: SpdmReqAsymAlgo_encode_def SpdmReqAsymAlgo_read_def)

interpretation SpdmPqcReqAsymAlgo: flag_codec u16_encode u16_read put_u16 SpdmPqcReqAsymAlgo_VALID_MASK SpdmPqcReqAsymAlgo_encode SpdmPqcReqAsymAlgo_read
  by unfold_locales (simp_all add: SpdmPqcReqAsymAlgo_encode_def SpdmPqcReqAsymAlgo_read_def)

interpretation SpdmKeyScheduleAlgo: flag_codec u16_encode u16_read put_u16 SpdmKeyScheduleAlgo_VALID_MASK SpdmKeyScheduleAlgo_encode SpdmKeyScheduleAlgo_read
  by unfold_locales (simp_all add: SpdmKeyScheduleAlgo_encode_def SpdmKeyScheduleAlgo_read_def)

interpretation SpdmKeyUsageMask: flag_codec u16_encode u16_read put_u16 SpdmKeyUsageMask_VALID_MASK SpdmKeyUsageMask_encode SpdmKeyUsageMask_read
  by unfold_locales (simp_all add: SpdmKeyUsageMask_encode_def SpdmKeyUsageMask_read_def)

interpretation SpdmMeasurementSpecification: negotiable SpdmMeasurementSpecification_VALID_MASK SpdmMeasurementSpecification_prio_table SpdmMeasurementSpecification_prioritize
  SpdmMeasurementSpecification_is_valid_one_select
  by unfold_locales
    (simp_all add: SpdmMeasurementSpecification_VALID_MASK_def SpdmMeasurementSpecification_prio_table_def SpdmMeasurementSpecification_prioritize_def
      SpdmMeasurementSpecification_is_valid_one_select_def SpdmMeasurementSpecification_is_valid_def single_bits_def)

interpretation SpdmBaseAsymAlgo: negotiable SpdmBaseAsymAlgo_VALID_MASK SpdmBaseAsymAlgo_prio_table SpdmBaseAsymAlgo_prioritize
  SpdmBaseAsymAlgo_is_valid_one_select
  by unfold_locales
    (simp_all add: SpdmBaseAsymAlgo_VALID_MASK_def SpdmBaseAsymAlgo_prio_table_def SpdmBaseAsymAlgo_prioritize_def
      SpdmBaseAsymAlgo_is_valid_one_select_def SpdmBaseAsymAlgo_is_valid_def single_bits_def)

interpretation SpdmPqcAsymAlgo: negotiable SpdmPqcAsymAlgo_VALID_MASK SpdmPqcAsymAlgo_prio_table SpdmPqcAsymAlgo_prioritize
  SpdmPqcAsymAlgo_is_valid_one_select
  by unfold_locales
    (simp_all add: SpdmPqcAsymAlgo_VALID_MASK_def SpdmPqcAsymAlgo_prio_table_def SpdmPqcAsymAlgo_prioritize_def
      SpdmPqcAsymAlgo_is_valid_one_select_def SpdmPqcAsymAlgo_is_valid_def single_bits_def)

interpretation SpdmBaseHashAlgo: negotiable SpdmBaseHashAlgo_VALID_MASK SpdmBaseHashAlgo_prio_table SpdmBaseHashAlgo_prioritize
  SpdmBaseHashAlgo_is_valid_one_select
  by unfold_locales
    (simp_all add: SpdmBaseHashAlgo_VALID_MASK_def SpdmBaseHashAlgo_prio_table_def SpdmBaseHashAlgo_prioritize_def
      SpdmBaseHashAlgo_is_valid_one_select_def SpdmBaseHashAlgo_is_valid_def single_bits_def)

interpretation SpdmMelSpecification: negotiable SpdmMelSpecification_VALID_MASK SpdmMelSpecification_prio_table SpdmMelSpecification_prioritize
  SpdmMelSpecification_is_valid_one_select
  by unfold_locales
    (simp_all add: SpdmMelSpecification_VALID_MASK_def SpdmMelSpecification_prio_table_def SpdmMelSpecification_prioritize_def
      SpdmMelSpecification_is_valid_one_select_def SpdmMelSpecification_is_valid_def single_bits_def)

interpretation SpdmDheAlgo: negotiable SpdmDheAlgo_VALID_MASK SpdmDheAlgo_prio_table SpdmDheAlgo_prioritize
  SpdmDheAlgo_is_valid_one_select
  by unfold_locales
    (simp_all add: SpdmDheAlgo_VALID_MASK_def SpdmDheAlgo_prio_table_def SpdmDheAlgo_prioritize_def
      SpdmDheAlgo_is_valid_one_select_def SpdmDheAlgo_is_valid_def single_bits_def)

interpretation SpdmKemAlgo: negotiable SpdmKemAlgo_VALID_MASK SpdmKemAlgo_prio_table SpdmKemAlgo_prioritize
  SpdmKemAlgo_is_valid_one_select
  by unfold_locales
    (simp_all add: SpdmKemAlgo_VALID_MASK_def SpdmKemAlgo_prio_table_def SpdmKemAlgo_prioritize_def
      SpdmKemAlgo_is_valid_one_select_def SpdmKemAlgo_is_valid_def single_bits_def)

interpretation SpdmAeadAlgo: negotiable SpdmAeadAlgo_VALID_MASK SpdmAeadAlgo_prio_table SpdmAeadAlgo_prioritize
  SpdmAeadAlgo_is_valid_one_select
  by unfold_locales
    (simp_all add: SpdmAeadAlgo_VALID_MASK_def SpdmAeadAlgo_prio_table_def SpdmAeadAlgo_prioritize_def
      SpdmAeadAlgo_is_valid_one_select_def SpdmAeadAlgo_is_valid_def single_bits_def)

interpretation SpdmReqAsymAlgo: negotiable SpdmReqAsymAlgo_VALID_MASK SpdmReqAsymAlgo_prio_table SpdmReqAsymAlgo_prioritize
  SpdmReqAsymAlgo_is_valid_one_select
  by unfold_locales
    (simp_all add: SpdmReqAsymAlgo_VALID_MASK_def SpdmReqAsymAlgo_prio_table_def SpdmReqAsymAlgo_prioritize_def
      SpdmReqAsymAlgo_is_valid_one_select_def SpdmReqAsymAlgo_is_valid_def single_bits_def)

interpretation SpdmPqcReqAsymAlgo: negotiable SpdmPqcReqAsymAlgo_VALID_MASK SpdmPqcReqAsymAlgo_prio_table SpdmPqcReqAsymAlgo_prioritize
  SpdmPqcReqAsymAlgo_is_valid_one_select
  by unfold_locales
    (simp_all add: SpdmPqcReqAsymAlgo_VALID_MASK_def SpdmPqcReqAsymAlgo_prio_table_def SpdmPqcReqAsymAlgo_prioritize_def
      SpdmPqcReqAsymAlgo_is_valid_one_select_def SpdmPqcReqAsymAlgo_is_valid_def single_bits_def)

interpretation SpdmKeyScheduleAlgo: negotiable SpdmKeyScheduleAlgo_VALID_MASK SpdmKeyScheduleAlgo_prio_table SpdmKeyScheduleAlgo_prioritize
  SpdmKeyScheduleAlgo_is_valid_one_select
  by unfold_locales
    (simp_all add: SpdmKeyScheduleAlgo_VALID_MASK_def SpdmKeyScheduleAlgo_prio_table_def SpdmKeyScheduleAlgo_prioritize_def
      SpdmKeyScheduleAlgo_is_valid_one_select_def SpdmKeyScheduleAlgo_is_valid_def single_bits_def)

interpretation SpdmAlgType:
  enum_codec u8_encode u8_read u8_image SpdmAlgType_get_u8 SpdmAlgType_of_u8
  by unfold_locales (simp add: SpdmAlgType_of_u8_def)

text \<open>An algorithm structure is well formed when its type names the kind of algorithm it carries.\<close>

fun SpdmAlgStruct_word :: "SpdmAlg \<Rightarrow> u16" where
  "SpdmAlgStruct_word (SpdmAlgoDhe a) = a"
| "SpdmAlgStruct_word (SpdmAlgoAead a) = a"
| "SpdmAlgStruct_word (SpdmAlgoReqAsym a) = a"
| "SpdmAlgStruct_word (SpdmAlgoKeySchedule a) = a"
| "SpdmAlgStruct_word (SpdmAlgoKem a) = a"
| "SpdmAlgStruct_word (SpdmAlgoPqcReqAsym a) = a"
| "SpdmAlgStruct_word SpdmAlgoUnknown = 0"

fun SpdmAlgStruct_valid :: "SpdmAlgStruct \<Rightarrow> bool" where
  "SpdmAlgStruct_valid a \<longleftrightarrow> (case alg_supported a of
      SpdmAlgoDhe w \<Rightarrow> alg_type a = SpdmAlgTypeDHE \<and> w AND SpdmDheAlgo_VALID_MASK = w
    | SpdmAlgoAead w \<Rightarrow> alg_type a = SpdmAlgTypeAEAD \<and> w AND SpdmAeadAlgo_VALID_MASK = w
    | SpdmAlgoReqAsym w \<Rightarrow> alg_type a = SpdmAlgTypeReqAsym \<and> w AND SpdmReqAsymAlgo_VALID_MASK = w
    | SpdmAlgoKeySchedule w \<Rightarrow> alg_type a = SpdmAlgTypeKeySchedule \<and> w AND SpdmKeyScheduleAlgo_VALID_MASK = w
    | SpdmAlgoKem w \<Rightarrow> alg_type a = SpdmAlgTypeKEM \<and> w AND SpdmKemAlgo_VALID_MASK = w
    | SpdmAlgoPqcReqAsym w \<Rightarrow> alg_type a = SpdmAlgTypePqcReqAsym \<and> w AND SpdmPqcReqAsymAlgo_VALID_MASK = w
    | SpdmAlgoUnknown \<Rightarrow> False)"

definition SpdmAlgStruct_image :: "SpdmAlgStruct \<Rightarrow> bytes" where
  "SpdmAlgStruct_image a =
     u8_image (SpdmAlgType_get_u8 (alg_type a)) @ u8_image 0x20 @ put_u16 (SpdmAlgStruct_word (alg_supported a))"

lemma SpdmAlg_encode_writes:
  "SpdmAlgStruct_valid a \<Longrightarrow>
   writes EncodeErr (SpdmAlg_encode (alg_supported a)) (put_u16 (SpdmAlgStruct_word (alg_supported a)))"
  by (cases "alg_supported a")
    (simp_all add: SpdmDheAlgo.encode_writes SpdmAeadAlgo.encode_writes SpdmReqAsymAlgo.encode_writes
      SpdmKeyScheduleAlgo.encode_writes SpdmKemAlgo.encode_writes SpdmPqcReqAsymAlgo.encode_writes)

lemmas alg_read_reads =
  SpdmDheAlgo.read_reads [THEN readsD] SpdmAeadAlgo.read_reads [THEN readsD]
  SpdmReqAsymAlgo.read_reads [THEN readsD] SpdmKeyScheduleAlgo.read_reads [THEN readsD]
  SpdmKemAlgo.read_reads [THEN readsD] SpdmPqcReqAsymAlgo.read_reads [THEN readsD]

interpretation SpdmAlgStruct:
  codec EncodeErr SpdmAlgStruct_encode SpdmAlgStruct_read SpdmAlgStruct_image SpdmAlgStruct_valid
proof unfold_locales
  fix a assume a: "SpdmAlgStruct_valid a"
  then have ty: "SpdmAlgType_of_u8 (SpdmAlgType_get_u8 (alg_type a)) = alg_type a"
    by (auto simp: SpdmAlgType_of_u8_def split: SpdmAlg.splits)
  show "writes EncodeErr (SpdmAlgStruct_encode a) (SpdmAlgStruct_image a)"
    unfolding SpdmAlgStruct_encode_def SpdmAlgStruct_image_def Let_def
    using writes_seq_Cons [OF SpdmAlgType.encode_writes [OF ty]
        writes_seq_Cons [OF u8.encode_writes [OF TrueI] writes_seq_single [OF SpdmAlg_encode_writes [OF a]]]]
    by simp
  show "reads SpdmAlgStruct_read (SpdmAlgStruct_image a) a"
  proof (rule readsI)
    fix pre post
    show "SpdmAlgStruct_read (rdr pre (SpdmAlgStruct_image a @ post)) =
       Some (a, rdr (pre @ SpdmAlgStruct_image a) post)"
      using readsD [OF SpdmAlgType.read_reads [OF ty]] a
      by (cases "alg_supported a")
        (auto simp: SpdmAlgStruct_read_def SpdmAlgStruct_image_def reads_simps alg_read_reads)
  qed
qed

end
