(* ===== verification/Protocol.thy ===== *)
theory Protocol
  imports Algo
begin

text \<open>
  The protocol versions of \<open>spdmlib/src/protocol/version.rs\<close> and the capability flags of
  \<open>spdmlib/src/protocol/capability.rs\<close>.
\<close>

subsection \<open>SpdmVersion\<close>

datatype SpdmVersion =
    SpdmVersion10 | SpdmVersion11 | SpdmVersion12 | SpdmVersion13 | SpdmVersion14

definition SpdmVersion_try_from :: "u8 \<Rightarrow> SpdmVersion option" where
  "SpdmVersion_try_from v =
     (if v = 0x10 then Some SpdmVersion10
      else if v = 0x11 then Some SpdmVersion11
      else if v = 0x12 then Some SpdmVersion12
      else if v = 0x13 then Some SpdmVersion13
      else if v = 0x14 then Some SpdmVersion14
      else None)"

fun SpdmVersion_u8 :: "SpdmVersion \<Rightarrow> u8" where
  "SpdmVersion_u8 SpdmVersion10 = 0x10"
| "SpdmVersion_u8 SpdmVersion11 = 0x11"
| "SpdmVersion_u8 SpdmVersion12 = 0x12"
| "SpdmVersion_u8 SpdmVersion13 = 0x13"
| "SpdmVersion_u8 SpdmVersion14 = 0x14"

definition SpdmVersion_encode :: "SpdmVersion \<Rightarrow> encode_err encoder" where
  "SpdmVersion_encode v = u8_encode (SpdmVersion_u8 v)"

definition SpdmVersion_read :: "SpdmVersion decoder" where
  "SpdmVersion_read r = do {
     (spdm_version, r) \<leftarrow> u8_read r;
     v \<leftarrow> SpdmVersion_try_from spdm_version;
     Some (v, r) }"

text \<open>The derived order compares the versions in the order of their declaration.\<close>

fun SpdmVersion_index :: "SpdmVersion \<Rightarrow> nat" where
  "SpdmVersion_index SpdmVersion10 = 0"
| "SpdmVersion_index SpdmVersion11 = 1"
| "SpdmVersion_index SpdmVersion12 = 2"
| "SpdmVersion_index SpdmVersion13 = 3"
| "SpdmVersion_index SpdmVersion14 = 4"

lemma SpdmVersion_index_inject [simp]: "SpdmVersion_index v = SpdmVersion_index w \<longleftrightarrow> v = w"
  by (cases v; cases w) simp_all

instantiation SpdmVersion :: linorder
begin

definition less_eq_SpdmVersion :: "SpdmVersion \<Rightarrow> SpdmVersion \<Rightarrow> bool" where
  "v \<le> w \<longleftrightarrow> SpdmVersion_index v \<le> SpdmVersion_index w"

definition less_SpdmVersion :: "SpdmVersion \<Rightarrow> SpdmVersion \<Rightarrow> bool" where
  "v < w \<longleftrightarrow> SpdmVersion_index v < SpdmVersion_index w"

instance
  by standard (auto simp: less_eq_SpdmVersion_def less_SpdmVersion_def)

end

lemmas SpdmVersion_order = less_eq_SpdmVersion_def less_SpdmVersion_def

abbreviation (input) MAX_SPDM_VERSION_COUNT :: usize where
  "MAX_SPDM_VERSION_COUNT \<equiv> 5"

lemma SpdmVersion_try_from_u8 [simp]: "SpdmVersion_try_from (SpdmVersion_u8 v) = Some v"
  by (cases v) (simp_all add: SpdmVersion_try_from_def)

lemma SpdmVersion_try_from_Some: "SpdmVersion_try_from x = Some v \<longleftrightarrow> x = SpdmVersion_u8 v"
  by (cases v) (auto simp: SpdmVersion_try_from_def split: if_splits)

lemma SpdmVersion_u8_mono: "SpdmVersion_u8 v \<le> SpdmVersion_u8 w \<longleftrightarrow> v \<le> w"
  by (cases v; cases w) (simp_all add: SpdmVersion_order)

interpretation SpdmVersion:
  codec EncodeErr SpdmVersion_encode SpdmVersion_read "\<lambda>v. u8_image (SpdmVersion_u8 v)" "\<lambda>_. True"
  using u8.encode_writes
  by unfold_locales (simp_all add: writes_def SpdmVersion_encode_def reads_def SpdmVersion_read_def reads_simps)

subsection \<open>SpdmRequestCapabilityFlags\<close>

type_synonym SpdmRequestCapabilityFlags = u32

abbreviation (input) SpdmRequestCapabilityFlags_CERT_CAP :: SpdmRequestCapabilityFlags where
  "SpdmRequestCapabilityFlags_CERT_CAP \<equiv> 0x2"

abbreviation (input) SpdmRequestCapabilityFlags_CHAL_CAP :: SpdmRequestCapabilityFlags where
  "SpdmRequestCapabilityFlags_CHAL_CAP \<equiv> 0x4"

abbreviation (input) SpdmRequestCapabilityFlags_ENCRYPT_CAP :: SpdmRequestCapabilityFlags where
  "SpdmRequestCapabilityFlags_ENCRYPT_CAP \<equiv> 0x40"

abbreviation (input) SpdmRequestCapabilityFlags_MAC_CAP :: SpdmRequestCapabilityFlags where
  "SpdmRequestCapabilityFlags_MAC_CAP \<equiv> 0x80"

abbreviation (input) SpdmRequestCapabilityFlags_MUT_AUTH_CAP :: SpdmRequestCapabilityFlags where
  "SpdmRequestCapabilityFlags_MUT_AUTH_CAP \<equiv> 0x100"

abbreviation (input) SpdmRequestCapabilityFlags_KEY_EX_CAP :: SpdmRequestCapabilityFlags where
  "SpdmRequestCapabilityFlags_KEY_EX_CAP \<equiv> 0x200"

abbreviation (input) SpdmRequestCapabilityFlags_PSK_CAP :: SpdmRequestCapabilityFlags where
  "SpdmRequestCapabilityFlags_PSK_CAP \<equiv> 0x400"

abbreviation (input) SpdmRequestCapabilityFlags_PSK_RSVD :: SpdmRequestCapabilityFlags where
  "SpdmRequestCapabilityFlags_PSK_RSVD \<equiv> 0x800"

abbreviation (input) SpdmRequestCapabilityFlags_ENCAP_CAP :: SpdmRequestCapabilityFlags where
  "SpdmRequestCapabilityFlags_ENCAP_CAP \<equiv> 0x1000"

abbreviation (input) SpdmRequestCapabilityFlags_HBEAT_CAP :: SpdmRequestCapabilityFlags where
  "SpdmRequestCapabilityFlags_HBEAT_CAP \<equiv> 0x2000"

abbreviation (input) SpdmRequestCapabilityFlags_KEY_UPD_CAP :: SpdmRequestCapabilityFlags where
  "SpdmRequestCapabilityFlags_KEY_UPD_CAP \<equiv> 0x4000"

abbreviation (input) SpdmRequestCapabilityFlags_HANDSHAKE_IN_THE_CLEAR_CAP :: SpdmRequestCapabilityFlags where
  "SpdmRequestCapabilityFlags_HANDSHAKE_IN_THE_CLEAR_CAP \<equiv> 0x8000"

abbreviation (input) SpdmRequestCapabilityFlags_PUB_KEY_ID_CAP :: SpdmRequestCapabilityFlags where
  "SpdmRequestCapabilityFlags_PUB_KEY_ID_CAP \<equiv> 0x10000"

abbreviation (input) SpdmRequestCapabilityFlags_CHUNK_CAP :: SpdmRequestCapabilityFlags where
  "SpdmRequestCapabilityFlags_CHUNK_CAP \<equiv> 0x20000"

abbreviation (input) SpdmRequestCapabilityFlags_EP_INFO_CAP_NO_SIG :: SpdmRequestCapabilityFlags where
  "SpdmRequestCapabilityFlags_EP_INFO_CAP_NO_SIG \<equiv> 0x400000"

abbreviation (input) SpdmRequestCapabilityFlags_EP_INFO_CAP_SIG :: SpdmRequestCapabilityFlags where
  "SpdmRequestCapabilityFlags_EP_INFO_CAP_SIG \<equiv> 0x800000"

abbreviation (input) SpdmRequestCapabilityFlags_EVENT_CAP :: SpdmRequestCapabilityFlags where
  "SpdmRequestCapabilityFlags_EVENT_CAP \<equiv> 0x2000000"

abbreviation (input) SpdmRequestCapabilityFlags_MULTI_KEY_CAP_ONLY :: SpdmRequestCapabilityFlags where
  "SpdmRequestCapabilityFlags_MULTI_KEY_CAP_ONLY \<equiv> 0x4000000"

abbreviation (input) SpdmRequestCapabilityFlags_MULTI_KEY_CAP_CONN_SEL :: SpdmRequestCapabilityFlags where
  "SpdmRequestCapabilityFlags_MULTI_KEY_CAP_CONN_SEL \<equiv> 0x8000000"

abbreviation (input) SpdmRequestCapabilityFlags_LARGE_RESP_CAP :: SpdmRequestCapabilityFlags where
  "SpdmRequestCapabilityFlags_LARGE_RESP_CAP \<equiv> 0x80000000"

definition SpdmRequestCapabilityFlags_VALID_MASK :: SpdmRequestCapabilityFlags where
  "SpdmRequestCapabilityFlags_VALID_MASK = SpdmRequestCapabilityFlags_CERT_CAP OR
     SpdmRequestCapabilityFlags_CHAL_CAP OR
     SpdmRequestCapabilityFlags_ENCRYPT_CAP OR
     SpdmRequestCapabilityFlags_MAC_CAP OR
     SpdmRequestCapabilityFlags_MUT_AUTH_CAP OR
     SpdmRequestCapabilityFlags_KEY_EX_CAP OR
     SpdmRequestCapabilityFlags_PSK_CAP OR
     SpdmRequestCapabilityFlags_PSK_RSVD OR
     SpdmRequestCapabilityFlags_ENCAP_CAP OR
     SpdmRequestCapabilityFlags_HBEAT_CAP OR
     SpdmRequestCapabilityFlags_KEY_UPD_CAP OR
     SpdmRequestCapabilityFlags_HANDSHAKE_IN_THE_CLEAR_CAP OR
     SpdmRequestCapabilityFlags_PUB_KEY_ID_CAP OR
     SpdmRequestCapabilityFlags_CHUNK_CAP OR
     SpdmRequestCapabilityFlags_EP_INFO_CAP_NO_SIG OR
     SpdmRequestCapabilityFlags_EP_INFO_CAP_SIG OR
     SpdmRequestCapabilityFlags_EVENT_CAP OR
     SpdmRequestCapabilityFlags_MULTI_KEY_CAP_ONLY OR
     SpdmRequestCapabilityFlags_MULTI_KEY_CAP_CONN_SEL OR
     SpdmRequestCapabilityFlags_LARGE_RESP_CAP"

definition SpdmRequestCapabilityFlags_encode :: "SpdmRequestCapabilityFlags \<Rightarrow> encode_err encoder" where
  "SpdmRequestCapabilityFlags_encode self = u32_encode self"

definition SpdmRequestCapabilityFlags_read :: "SpdmRequestCapabilityFlags decoder" where
  "SpdmRequestCapabilityFlags_read r = do {
     (bits, r) \<leftarrow> u32_read r;
     v \<leftarrow> from_bits SpdmRequestCapabilityFlags_VALID_MASK (bits AND SpdmRequestCapabilityFlags_VALID_MASK);
     Some (v, r) }"

subsection \<open>SpdmRequestCapabilityExFlags\<close>

type_synonym SpdmRequestCapabilityExFlags = u16

definition SpdmRequestCapabilityExFlags_VALID_MASK :: SpdmRequestCapabilityExFlags where
  "SpdmRequestCapabilityExFlags_VALID_MASK = 0"

definition SpdmRequestCapabilityExFlags_encode :: "SpdmRequestCapabilityExFlags \<Rightarrow> encode_err encoder" where
  "SpdmRequestCapabilityExFlags_encode self = u16_encode self"

definition SpdmRequestCapabilityExFlags_read :: "SpdmRequestCapabilityExFlags decoder" where
  "SpdmRequestCapabilityExFlags_read r = do {
     (_, r) \<leftarrow> u16_read r;
     v \<leftarrow> from_bits SpdmRequestCapabilityExFlags_VALID_MASK 0;
     Some (v, r) }"

subsection \<open>SpdmResponseCapabilityFlags\<close>

type_synonym SpdmResponseCapabilityFlags = u32

abbreviation (input) SpdmResponseCapabilityFlags_CACHE_CAP :: SpdmResponseCapabilityFlags where
  "SpdmResponseCapabilityFlags_CACHE_CAP \<equiv> 0x1"

abbreviation (input) SpdmResponseCapabilityFlags_CERT_CAP :: SpdmResponseCapabilityFlags where
  "SpdmResponseCapabilityFlags_CERT_CAP \<equiv> 0x2"

abbreviation (input) SpdmResponseCapabilityFlags_CHAL_CAP :: SpdmResponseCapabilityFlags where
  "SpdmResponseCapabilityFlags_CHAL_CAP \<equiv> 0x4"

abbreviation (input) SpdmResponseCapabilityFlags_MEAS_CAP_NO_SIG :: SpdmResponseCapabilityFlags where
  "SpdmResponseCapabilityFlags_MEAS_CAP_NO_SIG \<equiv> 0x8"

abbreviation (input) SpdmResponseCapabilityFlags_MEAS_CAP_SIG :: SpdmResponseCapabilityFlags where
  "SpdmResponseCapabilityFlags_MEAS_CAP_SIG \<equiv> 0x10"

abbreviation (input) SpdmResponseCapabilityFlags_MEAS_FRESH_CAP :: SpdmResponseCapabilityFlags where
  "SpdmResponseCapabilityFlags_MEAS_FRESH_CAP \<equiv> 0x20"

abbreviation (input) SpdmResponseCapabilityFlags_ENCRYPT_CAP :: SpdmResponseCapabilityFlags where
  "SpdmResponseCapabilityFlags_ENCRYPT_CAP \<equiv> 0x40"

abbreviation (input) SpdmResponseCapabilityFlags_MAC_CAP :: SpdmResponseCapabilityFlags where
  "SpdmResponseCapabilityFlags_MAC_CAP \<equiv> 0x80"

abbreviation (input) SpdmResponseCapabilityFlags_MUT_AUTH_CAP :: SpdmResponseCapabilityFlags where
  "SpdmResponseCapabilityFlags_MUT_AUTH_CAP \<equiv> 0x100"

abbreviation (input) SpdmResponseCapabilityFlags_KEY_EX_CAP :: SpdmResponseCapabilityFlags where
  "SpdmResponseCapabilityFlags_KEY_EX_CAP \<equiv> 0x200"

abbreviation (input) SpdmResponseCapabilityFlags_PSK_CAP_WITHOUT_CONTEXT :: SpdmResponseCapabilityFlags where
  "SpdmResponseCapabilityFlags_PSK_CAP_WITHOUT_CONTEXT \<equiv> 0x400"

abbreviation (input) SpdmResponseCapabilityFlags_PSK_CAP_WITH_CONTEXT :: SpdmResponseCapabilityFlags where
  "SpdmResponseCapabilityFlags_PSK_CAP_WITH_CONTEXT \<equiv> 0x800"

abbreviation (input) SpdmResponseCapabilityFlags_ENCAP_CAP :: SpdmResponseCapabilityFlags where
  "SpdmResponseCapabilityFlags_ENCAP_CAP \<equiv> 0x1000"

abbreviation (input) SpdmResponseCapabilityFlags_HBEAT_CAP :: SpdmResponseCapabilityFlags where
  "SpdmResponseCapabilityFlags_HBEAT_CAP \<equiv> 0x2000"

abbreviation (input) SpdmResponseCapabilityFlags_KEY_UPD_CAP :: SpdmResponseCapabilityFlags where
  "SpdmResponseCapabilityFlags_KEY_UPD_CAP \<equiv> 0x4000"

abbreviation (input) SpdmResponseCapabilityFlags_HANDSHAKE_IN_THE_CLEAR_CAP :: SpdmResponseCapabilityFlags where
  "SpdmResponseCapabilityFlags_HANDSHAKE_IN_THE_CLEAR_CAP \<equiv> 0x8000"

abbreviation (input) SpdmResponseCapabilityFlags_PUB_KEY_ID_CAP :: SpdmResponseCapabilityFlags where
  "SpdmResponseCapabilityFlags_PUB_KEY_ID_CAP \<equiv> 0x10000"

abbreviation (input) SpdmResponseCapabilityFlags_CHUNK_CAP :: SpdmResponseCapabilityFlags where
  "SpdmResponseCapabilityFlags_CHUNK_CAP \<equiv> 0x20000"

abbreviation (input) SpdmResponseCapabilityFlags_ALIAS_CERT_CAP :: SpdmResponseCapabilityFlags where
  "SpdmResponseCapabilityFlags_ALIAS_CERT_CAP \<equiv> 0x40000"

abbreviation (input) SpdmResponseCapabilityFlags_SET_CERT_CAP :: SpdmResponseCapabilityFlags where
  "SpdmResponseCapabilityFlags_SET_CERT_CAP \<equiv> 0x80000"

abbreviation (input) SpdmResponseCapabilityFlags_CSR_CAP :: SpdmResponseCapabilityFlags where
  "SpdmResponseCapabilityFlags_CSR_CAP \<equiv> 0x100000"

abbreviation (input) SpdmResponseCapabilityFlags_CERT_INSTALL_RESET_CAP :: SpdmResponseCapabilityFlags where
  "SpdmResponseCapabilityFlags_CERT_INSTALL_RESET_CAP \<equiv> 0x200000"

abbreviation (input) SpdmResponseCapabilityFlags_EP_INFO_CAP_NO_SIG :: SpdmResponseCapabilityFlags where
  "SpdmResponseCapabilityFlags_EP_INFO_CAP_NO_SIG \<equiv> 0x400000"

abbreviation (input) SpdmResponseCapabilityFlags_EP_INFO_CAP_SIG :: SpdmResponseCapabilityFlags where
  "SpdmResponseCapabilityFlags_EP_INFO_CAP_SIG \<equiv> 0x800000"

abbreviation (input) SpdmResponseCapabilityFlags_MEL_CAP :: SpdmResponseCapabilityFlags where
  "SpdmResponseCapabilityFlags_MEL_CAP \<equiv> 0x1000000"

abbreviation (input) SpdmResponseCapabilityFlags_EVENT_CAP :: SpdmResponseCapabilityFlags where
  "SpdmResponseCapabilityFlags_EVENT_CAP \<equiv> 0x2000000"

abbreviation (input) SpdmResponseCapabilityFlags_MULTI_KEY_CAP_ONLY :: SpdmResponseCapabilityFlags where
  "SpdmResponseCapabilityFlags_MULTI_KEY_CAP_ONLY \<equiv> 0x4000000"

abbreviation (input) SpdmResponseCapabilityFlags_MULTI_KEY_CAP_CONN_SEL :: SpdmResponseCapabilityFlags where
  "SpdmResponseCapabilityFlags_MULTI_KEY_CAP_CONN_SEL \<equiv> 0x8000000"

abbreviation (input) SpdmResponseCapabilityFlags_GET_KEY_PAIR_INFO_CAP :: SpdmResponseCapabilityFlags where
  "SpdmResponseCapabilityFlags_GET_KEY_PAIR_INFO_CAP \<equiv> 0x10000000"

abbreviation (input) SpdmResponseCapabilityFlags_SET_KEY_PAIR_INFO_CAP :: SpdmResponseCapabilityFlags where
  "SpdmResponseCapabilityFlags_SET_KEY_PAIR_INFO_CAP \<equiv> 0x20000000"

abbreviation (input) SpdmResponseCapabilityFlags_SET_KEY_PAIR_RESET_CAP :: SpdmResponseCapabilityFlags where
  "SpdmResponseCapabilityFlags_SET_KEY_PAIR_RESET_CAP \<equiv> 0x40000000"

abbreviation (input) SpdmResponseCapabilityFlags_LARGE_RESP_CAP :: SpdmResponseCapabilityFlags where
  "SpdmResponseCapabilityFlags_LARGE_RESP_CAP \<equiv> 0x80000000"

definition SpdmResponseCapabilityFlags_VALID_MASK :: SpdmResponseCapabilityFlags where
  "SpdmResponseCapabilityFlags_VALID_MASK = SpdmResponseCapabilityFlags_CACHE_CAP OR
     SpdmResponseCapabilityFlags_CERT_CAP OR
     SpdmResponseCapabilityFlags_CHAL_CAP OR
     SpdmResponseCapabilityFlags_MEAS_CAP_NO_SIG OR
     SpdmResponseCapabilityFlags_MEAS_CAP_SIG OR
     SpdmResponseCapabilityFlags_MEAS_FRESH_CAP OR
     SpdmResponseCapabilityFlags_ENCRYPT_CAP OR
     SpdmResponseCapabilityFlags_MAC_CAP OR
     SpdmResponseCapabilityFlags_MUT_AUTH_CAP OR
     SpdmResponseCapabilityFlags_KEY_EX_CAP OR
     SpdmResponseCapabilityFlags_PSK_CAP_WITHOUT_CONTEXT OR
     SpdmResponseCapabilityFlags_PSK_CAP_WITH_CONTEXT OR
     SpdmResponseCapabilityFlags_ENCAP_CAP OR
     SpdmResponseCapabilityFlags_HBEAT_CAP OR
     SpdmResponseCapabilityFlags_KEY_UPD_CAP OR
     SpdmResponseCapabilityFlags_HANDSHAKE_IN_THE_CLEAR_CAP OR
     SpdmResponseCapabilityFlags_PUB_KEY_ID_CAP OR
     SpdmResponseCapabilityFlags_CHUNK_CAP OR
     SpdmResponseCapabilityFlags_ALIAS_CERT_CAP OR
     SpdmResponseCapabilityFlags_SET_CERT_CAP OR
     SpdmResponseCapabilityFlags_CSR_CAP OR
     SpdmResponseCapabilityFlags_CERT_INSTALL_RESET_CAP OR
     SpdmResponseCapabilityFlags_EP_INFO_CAP_NO_SIG OR
     SpdmResponseCapabilityFlags_EP_INFO_CAP_SIG OR
     SpdmResponseCapabilityFlags_MEL_CAP OR
     SpdmResponseCapabilityFlags_EVENT_CAP OR
     SpdmResponseCapabilityFlags_MULTI_KEY_CAP_ONLY OR
     SpdmResponseCapabilityFlags_MULTI_KEY_CAP_CONN_SEL OR
     SpdmResponseCapabilityFlags_GET_KEY_PAIR_INFO_CAP OR
     SpdmResponseCapabilityFlags_SET_KEY_PAIR_INFO_CAP OR
     SpdmResponseCapabilityFlags_SET_KEY_PAIR_RESET_CAP OR
     SpdmResponseCapabilityFlags_LARGE_RESP_CAP"

definition SpdmResponseCapabilityFlags_encode :: "SpdmResponseCapabilityFlags \<Rightarrow> encode_err encoder" where
  "SpdmResponseCapabilityFlags_encode self = u32_encode self"

definition SpdmResponseCapabilityFlags_read :: "SpdmResponseCapabilityFlags decoder" where
  "SpdmResponseCapabilityFlags_read r = do {
     (bits, r) \<leftarrow> u32_read r;
     v \<leftarrow> from_bits SpdmResponseCapabilityFlags_VALID_MASK (bits AND SpdmResponseCapabilityFlags_VALID_MASK);
     Some (v, r) }"

subsection \<open>SpdmResponseCapabilityExFlags\<close>

type_synonym SpdmResponseCapabilityExFlags = u16

abbreviation (input) SpdmResponseCapabilityExFlags_SLOT_MGMT_CAP :: SpdmResponseCapabilityExFlags where
  "SpdmResponseCapabilityExFlags_SLOT_MGMT_CAP \<equiv> 0x1"

definition SpdmResponseCapabilityExFlags_VALID_MASK :: SpdmResponseCapabilityExFlags where
  "SpdmResponseCapabilityExFlags_VALID_MASK = SpdmResponseCapabilityExFlags_SLOT_MGMT_CAP"

definition SpdmResponseCapabilityExFlags_encode :: "SpdmResponseCapabilityExFlags \<Rightarrow> encode_err encoder" where
  "SpdmResponseCapabilityExFlags_encode self = u16_encode self"

definition SpdmResponseCapabilityExFlags_read :: "SpdmResponseCapabilityExFlags decoder" where
  "SpdmResponseCapabilityExFlags_read r = do {
     (bits, r) \<leftarrow> u16_read r;
     v \<leftarrow> from_bits SpdmResponseCapabilityExFlags_VALID_MASK (bits AND SpdmResponseCapabilityExFlags_VALID_MASK);
     Some (v, r) }"

subsection \<open>SpdmCapabilityParam1\<close>

type_synonym SpdmCapabilityParam1 = u8

abbreviation (input) SpdmCapabilityParam1_SUPPORTED_ALGOS_EXT_CAP :: SpdmCapabilityParam1 where
  "SpdmCapabilityParam1_SUPPORTED_ALGOS_EXT_CAP \<equiv> 0x1"

definition SpdmCapabilityParam1_VALID_MASK :: SpdmCapabilityParam1 where
  "SpdmCapabilityParam1_VALID_MASK = SpdmCapabilityParam1_SUPPORTED_ALGOS_EXT_CAP"

definition SpdmCapabilityParam1_encode :: "SpdmCapabilityParam1 \<Rightarrow> encode_err encoder" where
  "SpdmCapabilityParam1_encode self = u8_encode self"

definition SpdmCapabilityParam1_read :: "SpdmCapabilityParam1 decoder" where
  "SpdmCapabilityParam1_read r = do {
     (bits, r) \<leftarrow> u8_read r;
     v \<leftarrow> from_bits SpdmCapabilityParam1_VALID_MASK (bits AND SpdmCapabilityParam1_VALID_MASK);
     Some (v, r) }"

subsection \<open>Laws\<close>

interpretation SpdmRequestCapabilityFlags: flag_codec u32_encode u32_read u32_image SpdmRequestCapabilityFlags_VALID_MASK SpdmRequestCapabilityFlags_encode SpdmRequestCapabilityFlags_read
  by unfold_locales (simp_all add: SpdmRequestCapabilityFlags_encode_def SpdmRequestCapabilityFlags_read_def)

interpretation SpdmRequestCapabilityExFlags: flag_codec u16_encode u16_read put_u16 SpdmRequestCapabilityExFlags_VALID_MASK SpdmRequestCapabilityExFlags_encode SpdmRequestCapabilityExFlags_read
  by unfold_locales (simp_all add: SpdmRequestCapabilityExFlags_encode_def SpdmRequestCapabilityExFlags_read_def from_bits_def SpdmRequestCapabilityExFlags_VALID_MASK_def)

interpretation SpdmResponseCapabilityFlags: flag_codec u32_encode u32_read u32_image SpdmResponseCapabilityFlags_VALID_MASK SpdmResponseCapabilityFlags_encode SpdmResponseCapabilityFlags_read
  by unfold_locales (simp_all add: SpdmResponseCapabilityFlags_encode_def SpdmResponseCapabilityFlags_read_def)

interpretation SpdmResponseCapabilityExFlags: flag_codec u16_encode u16_read put_u16 SpdmResponseCapabilityExFlags_VALID_MASK SpdmResponseCapabilityExFlags_encode SpdmResponseCapabilityExFlags_read
  by unfold_locales (simp_all add: SpdmResponseCapabilityExFlags_encode_def SpdmResponseCapabilityExFlags_read_def)

interpretation SpdmCapabilityParam1: flag_codec u8_encode u8_read u8_image SpdmCapabilityParam1_VALID_MASK SpdmCapabilityParam1_encode SpdmCapabilityParam1_read
  by unfold_locales (simp_all add: SpdmCapabilityParam1_encode_def SpdmCapabilityParam1_read_def)

end
