(* ===== verification/Secrets.thy ===== *)
theory Secrets
  imports Protocol
begin

text \<open>
  Bounded byte strings of \<open>spdmlib/src/protocol/algo.rs\<close> (digests, keys, key exchange data, PSK
  hints), which all consist of a \<open>data_size\<close> and an array, and the interface to the cryptographic
  providers of \<open>spdmlib/src/crypto\<close> and \<open>spdmlib/src/secret\<close>. The providers are replaceable at run
  time (\<open>register\<close>) and are a parameter of the model: the record \<open>Crypto\<close> has one field for
  each callback.

  Functions of the key schedule return an \<open>Option\<close> and may panic; \<open>popt\<close> has both outcomes.
\<close>

datatype opt_err = ENone | EPanic

type_synonym 'a popt = "opt_err + 'a"

fun popt_err :: "SpdmStatus \<Rightarrow> opt_err \<Rightarrow> fault" where
  "popt_err s ENone = Fail s"
| "popt_err s EPanic = Panic"

abbreviation or_none :: "'a option \<Rightarrow> 'a popt" where
  "or_none x \<equiv> ok_or ENone x"

fun or_panic :: "'a SpdmResult \<Rightarrow> 'a popt" where
  "or_panic (Inl _) = Inl EPanic"
| "or_panic (Inr x) = Inr x"

subsection \<open>Bounded byte strings\<close>

record Sized =
  data_size :: u16
  data :: bytes

definition Sized_default :: "usize \<Rightarrow> Sized" where
  "Sized_default n = \<lparr>data_size = 0, data = replicate n 0\<rparr>"

definition Sized_as_ref :: "Sized \<Rightarrow> bytes" where
  "Sized_as_ref s = take (unat (data_size s)) (data s)"

text \<open>\<open>From<BytesMut>\<close>, \<open>From<&[u8]>\<close>: the assertion fails on a value that is too long.\<close>

definition Sized_from :: "usize \<Rightarrow> bytes \<Rightarrow> Sized SpdmResult" where
  "Sized_from n value =
     (if \<not> length value \<le> n then panic
      else Ok \<lparr>data_size = of_nat (length value), data = copy_at 0 value (replicate n 0)\<rparr>)"

definition Sized_encode :: "Sized \<Rightarrow> encode_err encoder" where
  "Sized_encode s =
     enc_seq [u16_encode (data_size s), array_encode u8_encode (take (unat (data_size s)) (data s))]"

definition Sized_read :: "usize \<Rightarrow> Sized decoder" where
  "Sized_read n r = do {
     (sz, r) \<leftarrow> u16_read r;
     if sz > of_nat n then None
     else do {
       (bs, r) \<leftarrow> array_read u8_read (min (unat sz) n) r;
       Some (\<lparr>data_size = sz, data = copy_at 0 bs (replicate n 0)\<rparr>, r) } }"

text \<open>\<open>from_spdm_hkdf_okm\<close>, \<open>from_spdm_hkdf_prk\<close>, \<open>from_input_keying_material\<close>: the contents of one
  secret as another secret with room for \<open>n\<close> bytes.\<close>

definition Sized_convert :: "usize \<Rightarrow> Sized \<Rightarrow> Sized option" where
  "Sized_convert n s =
     (if data_size s = 0 \<or> data_size s > of_nat n then None
      else Some \<lparr>data_size = data_size s,
                 data = copy_at 0 (take (unat (data_size s)) (data s)) (replicate n 0)\<rparr>)"

text \<open>The structures and their capacities.\<close>

type_synonym SpdmDigestStruct = Sized
type_synonym SpdmSharedSecretFinalKeyStruct = Sized
type_synonym SpdmHandshakeSecretStruct = Sized
type_synonym SpdmDirectionHandshakeSecretStruct = Sized
type_synonym SpdmFinishedKeyStruct = Sized
type_synonym SpdmMasterSecretStruct = Sized
type_synonym SpdmDirectionDataSecretStruct = Sized
type_synonym SpdmAeadKeyStruct = Sized
type_synonym SpdmAeadIvStruct = Sized
type_synonym SpdmExportMasterSecretStruct = Sized
type_synonym SpdmHkdfPseudoRandomKey = Sized
type_synonym SpdmHkdfOutputKeyingMaterial = Sized
type_synonym SpdmPskHintStruct = Sized
type_synonym SpdmSignatureStruct = Sized

abbreviation (input) MAX_SPDM_PSK_HINT_SIZE :: usize where
  "MAX_SPDM_PSK_HINT_SIZE \<equiv> 32"

subsection \<open>Cryptographic providers\<close>

text \<open>
  The buffers that \<open>encrypt\<close> and \<open>decrypt\<close> fill are results here: \<open>encrypt\<close> is given the length of
  the tag buffer and of the cipher text buffer and returns the two reported sizes and the two
  buffers; \<open>decrypt\<close> is given the length of the plain text buffer. The type \<open>'h\<close> is that of a
  running hash (\<open>SpdmHashCtx\<close>).
\<close>

record 'h Crypto =
  hash_all :: "SpdmBaseHashAlgo \<Rightarrow> bytes \<Rightarrow> SpdmDigestStruct option"
  hash_ctx_init :: "SpdmBaseHashAlgo \<Rightarrow> 'h option"
  hash_ctx_update :: "'h \<Rightarrow> bytes \<Rightarrow> 'h SpdmResult"
  hash_ctx_finalize :: "'h \<Rightarrow> SpdmDigestStruct option"
  hmac :: "SpdmBaseHashAlgo \<Rightarrow> bytes \<Rightarrow> bytes \<Rightarrow> SpdmDigestStruct option"
  hmac_verify :: "SpdmBaseHashAlgo \<Rightarrow> bytes \<Rightarrow> bytes \<Rightarrow> SpdmDigestStruct \<Rightarrow> unit SpdmResult"
  hkdf_extract :: "SpdmBaseHashAlgo \<Rightarrow> bytes \<Rightarrow> Sized \<Rightarrow> SpdmHkdfPseudoRandomKey option"
  hkdf_expand :: "SpdmBaseHashAlgo \<Rightarrow> SpdmHkdfPseudoRandomKey \<Rightarrow> bytes \<Rightarrow> u16 \<Rightarrow>
    SpdmHkdfOutputKeyingMaterial option"
  aead_encrypt :: "SpdmAeadAlgo \<Rightarrow> SpdmAeadKeyStruct \<Rightarrow> SpdmAeadIvStruct \<Rightarrow> bytes \<Rightarrow> bytes \<Rightarrow>
    usize \<Rightarrow> usize \<Rightarrow> (usize \<times> usize \<times> bytes \<times> bytes) SpdmResult"
  aead_decrypt :: "SpdmAeadAlgo \<Rightarrow> SpdmAeadKeyStruct \<Rightarrow> SpdmAeadIvStruct \<Rightarrow> bytes \<Rightarrow> bytes \<Rightarrow> bytes \<Rightarrow>
    usize \<Rightarrow> (usize \<times> bytes) SpdmResult"
  psk_handshake_secret_hkdf_expand :: "SpdmVersion \<Rightarrow> SpdmBaseHashAlgo \<Rightarrow> SpdmPskHintStruct \<Rightarrow> bytes \<Rightarrow>
    SpdmHkdfOutputKeyingMaterial option"
  psk_master_secret_hkdf_expand :: "SpdmVersion \<Rightarrow> SpdmBaseHashAlgo \<Rightarrow> SpdmPskHintStruct \<Rightarrow> bytes \<Rightarrow>
    SpdmHkdfOutputKeyingMaterial option"

subsection \<open>Laws\<close>

text \<open>A structure of capacity \<open>n\<close>: \<open>as_ref\<close> slices within the array exactly when this holds.\<close>

definition Sized_ok :: "usize \<Rightarrow> Sized \<Rightarrow> bool" where
  "Sized_ok n s \<longleftrightarrow> length (data s) = n \<and> unat (data_size s) \<le> n"

text \<open>The bytes after the contents are zero, as every constructor leaves them.\<close>

definition Sized_canonical :: "usize \<Rightarrow> Sized \<Rightarrow> bool" where
  "Sized_canonical n s \<longleftrightarrow> n < 65536 \<and> Sized_ok n s
     \<and> drop (unat (data_size s)) (data s) = replicate (n - unat (data_size s)) 0"

definition Sized_image :: "Sized \<Rightarrow> bytes" where
  "Sized_image s = put_u16 (data_size s) @ Sized_as_ref s"

lemma length_Sized_as_ref [simp]: "Sized_ok n s \<Longrightarrow> length (Sized_as_ref s) = unat (data_size s)"
  by (simp add: Sized_ok_def Sized_as_ref_def)

lemma Sized_canonical_data:
  assumes "Sized_canonical n s"
  shows "data s = Sized_as_ref s @ replicate (n - unat (data_size s)) 0"
  using assms append_take_drop_id [of "unat (data_size s)" "data s"]
  unfolding Sized_canonical_def Sized_as_ref_def by metis

lemma Sized_default_canonical [simp]: "n < 65536 \<Longrightarrow> Sized_canonical n (Sized_default n)"
  by (simp add: Sized_canonical_def Sized_default_def Sized_ok_def)

lemma Sized_from_canonical:
  "n < 65536 \<Longrightarrow> Sized_from n value = Ok s \<Longrightarrow> Sized_canonical n s \<and> Sized_as_ref s = value"
  by (auto simp: Sized_from_def Sized_canonical_def Sized_ok_def Sized_as_ref_def copy_at_def
      split: if_splits)

lemma word_le_of_nat_u16: "n < 65536 \<Longrightarrow> (w :: u16) > of_nat n \<longleftrightarrow> unat w > n"
  by (simp add: word_less_nat_alt)

lemma Sized_convert_canonical:
  assumes "n < 65536" "Sized_ok m s" "Sized_convert n s = Some t"
  shows "Sized_canonical n t \<and> Sized_as_ref t = Sized_as_ref s \<and> data_size t = data_size s \<and> data_size t \<noteq> 0"
  using assms
  by (auto simp: Sized_convert_def Sized_canonical_def Sized_ok_def Sized_as_ref_def copy_at_def
      word_le_of_nat_u16 split: if_splits)

lemma Sized_encode_writes:
  "Sized_ok n s \<Longrightarrow> writes EncodeErr (Sized_encode s) (Sized_image s)"
  unfolding Sized_encode_def Sized_image_def Sized_as_ref_def
  by (intro writes_seq_Cons u16.encode_writes writes_seq_single writes_bytes) simp

lemma Sized_read_reads: "Sized_canonical n s \<Longrightarrow> reads (Sized_read n) (Sized_image s) s"
proof (rule readsI)
  fix pre post
  assume s: "Sized_canonical n s"
  then have ok: "Sized_ok n s" and n: "n < 65536" by (simp_all add: Sized_canonical_def)
  have len: "length (Sized_as_ref s) = min (unat (data_size s)) n"
    using ok by (simp add: Sized_ok_def Sized_as_ref_def)
  have "copy_at 0 (Sized_as_ref s) (replicate n 0) = data s"
    using Sized_canonical_data [OF s] ok by (simp add: copy_at_def)
  then show "Sized_read n (rdr pre (Sized_image s @ post)) = Some (s, rdr (pre @ Sized_image s) post)"
    using ok n len
    by (simp add: Sized_read_def Sized_image_def reads_simps word_le_of_nat_u16 Sized_ok_def)
qed

interpretation Sized64: codec EncodeErr Sized_encode "Sized_read 64" Sized_image "Sized_canonical 64"
  by unfold_locales (auto intro: Sized_encode_writes Sized_read_reads simp: Sized_canonical_def)

interpretation Sized48: codec EncodeErr Sized_encode "Sized_read 48" Sized_image "Sized_canonical 48"
  by unfold_locales (auto intro: Sized_encode_writes Sized_read_reads simp: Sized_canonical_def)

interpretation Sized32: codec EncodeErr Sized_encode "Sized_read 32" Sized_image "Sized_canonical 32"
  by unfold_locales (auto intro: Sized_encode_writes Sized_read_reads simp: Sized_canonical_def)

interpretation Sized12: codec EncodeErr Sized_encode "Sized_read 12" Sized_image "Sized_canonical 12"
  by unfold_locales (auto intro: Sized_encode_writes Sized_read_reads simp: Sized_canonical_def)

end
