(* ===== verification/KeySchedule.thy ===== *)
theory KeySchedule
  imports Secrets
begin

text \<open>
  The key schedule of \<open>spdmlib/src/common/key_schedule.rs\<close>: the \<open>BinConcat\<close> strings and the
  derivation of every secret of a session from the shared secret or the PSK. The HKDF and PSK
  callbacks are fields of the parameter \<open>C\<close>.
\<close>

abbreviation (input) MAX_BIN_CONCAT_BUF_SIZE :: usize where
  "MAX_BIN_CONCAT_BUF_SIZE \<equiv> 2 + 8 + 12 + SPDM_MAX_HASH_SIZE"

definition SALT_0 :: bytes where
  "SALT_0 = replicate SPDM_MAX_HASH_SIZE 0"

definition ascii :: "string \<Rightarrow> bytes" where
  "ascii s = map of_char s"

definition BIN_STR0_LABEL :: bytes where "BIN_STR0_LABEL = ascii ''derived''"
definition BIN_STR1_LABEL :: bytes where "BIN_STR1_LABEL = ascii ''req hs data''"
definition BIN_STR2_LABEL :: bytes where "BIN_STR2_LABEL = ascii ''rsp hs data''"
definition BIN_STR3_LABEL :: bytes where "BIN_STR3_LABEL = ascii ''req app data''"
definition BIN_STR4_LABEL :: bytes where "BIN_STR4_LABEL = ascii ''rsp app data''"
definition BIN_STR5_LABEL :: bytes where "BIN_STR5_LABEL = ascii ''key''"
definition BIN_STR6_LABEL :: bytes where "BIN_STR6_LABEL = ascii ''iv''"
definition BIN_STR7_LABEL :: bytes where "BIN_STR7_LABEL = ascii ''finished''"
definition BIN_STR8_LABEL :: bytes where "BIN_STR8_LABEL = ascii ''exp master''"
definition BIN_STR9_LABEL :: bytes where "BIN_STR9_LABEL = ascii ''traffic upd''"

lemmas bin_labels =
  BIN_STR0_LABEL_def BIN_STR1_LABEL_def BIN_STR2_LABEL_def BIN_STR3_LABEL_def BIN_STR4_LABEL_def
  BIN_STR5_LABEL_def BIN_STR6_LABEL_def BIN_STR7_LABEL_def BIN_STR8_LABEL_def BIN_STR9_LABEL_def

definition SPDM_VERSION_VALUE :: bytes where
  "SPDM_VERSION_VALUE = ascii ''spdm .  ''"

text \<open>\<open>writer.extend_from_slice(..)\<close> with its result unused.\<close>

definition extend_unchecked :: "bytes \<Rightarrow> Writer \<Rightarrow> Writer" where
  "extend_unchecked bs w = (case Writer_extend_from_slice bs w of Some (_, w') \<Rightarrow> w' | None \<Rightarrow> w)"

definition binconcat :: "u16 \<Rightarrow> SpdmVersion \<Rightarrow> bytes \<Rightarrow> bytes option \<Rightarrow> bytes \<Rightarrow> bytes popt" where
  "binconcat len spdm_version label context buffer =
     (let total = length label + (case context of Some c \<Rightarrow> length c | None \<Rightarrow> 0)
      in if length buffer < 2 + 8 then Inl EPanic
         else if total > length buffer - 2 - 8 then Inl ENone
         else
           let v = SpdmVersion_u8 spdm_version;
               version = (SPDM_VERSION_VALUE[4 := drop_bit 4 v + 0x30])[6 := (v AND 0x0F) + 0x30]
           in bindR (map_err (\<lambda>_. ENone) (u16_encode len (Writer_init buffer)))
                (\<lambda>(_, writer).
                  let writer = extend_unchecked version writer;
                      writer = extend_unchecked label writer;
                      writer = (case context of Some c \<Rightarrow> extend_unchecked c writer | None \<Rightarrow> writer)
                  in Inr (take (Writer_used writer) (wr_buf writer))))"

definition concat_buffer :: bytes where
  "concat_buffer = replicate MAX_BIN_CONCAT_BUF_SIZE 0"

text \<open>\<open>hkdf_expand\<close> of a secret taken as pseudo random key.\<close>

definition expand_secret :: "'h Crypto \<Rightarrow> SpdmBaseHashAlgo \<Rightarrow> Sized \<Rightarrow> bytes \<Rightarrow> u16 \<Rightarrow> Sized popt" where
  "expand_secret C hash_algo key info out_size =
     bindR (or_none (Sized_convert SPDM_MAX_HASH_SIZE key))
       (\<lambda>prk. or_none (hkdf_expand C hash_algo prk info out_size))"

text \<open>The choice between the secret and the PSK provider, common to the five functions that
  have the parameter \<open>use_psk\<close>.\<close>

definition expand_or_psk ::
  "'h Crypto \<Rightarrow> (SpdmVersion \<Rightarrow> SpdmBaseHashAlgo \<Rightarrow> SpdmPskHintStruct \<Rightarrow> bytes \<Rightarrow> Sized option) \<Rightarrow>
     bool \<Rightarrow> SpdmVersion \<Rightarrow> SpdmBaseHashAlgo \<Rightarrow> Sized option \<Rightarrow> SpdmPskHintStruct option \<Rightarrow>
     bytes \<Rightarrow> u16 \<Rightarrow> Sized popt" where
  "expand_or_psk C psk_expand use_psk spdm_version hash_algo key psk_hint info out_size =
     (if \<not> use_psk then
        (case key of
           Some k \<Rightarrow> expand_secret C hash_algo k info out_size
         | None \<Rightarrow> Inl ENone)
      else
        or_none (psk_expand spdm_version hash_algo
          (case psk_hint of Some hint \<Rightarrow> hint | None \<Rightarrow> Sized_default MAX_SPDM_PSK_HINT_SIZE) info))"

definition derive_handshake_secret ::
  "'h Crypto \<Rightarrow> SpdmVersion \<Rightarrow> SpdmBaseHashAlgo \<Rightarrow> Sized \<Rightarrow> SpdmHandshakeSecretStruct popt" where
  "derive_handshake_secret C _ hash_algo key =
     bindR (or_panic (SpdmBaseHashAlgo_get_size hash_algo)) (\<lambda>size.
     bindR (or_none (hkdf_extract C hash_algo (take (unat size) SALT_0) key)) (\<lambda>prk.
     or_none (Sized_convert SPDM_MAX_HASH_SIZE prk)))"

definition derive_master_secret ::
  "'h Crypto \<Rightarrow> SpdmVersion \<Rightarrow> SpdmBaseHashAlgo \<Rightarrow> SpdmHandshakeSecretStruct \<Rightarrow> SpdmMasterSecretStruct popt" where
  "derive_master_secret C spdm_version hash_algo key =
     bindR (or_panic (SpdmBaseHashAlgo_get_size hash_algo)) (\<lambda>size.
     bindR (binconcat size spdm_version BIN_STR0_LABEL None concat_buffer) (\<lambda>bin_str0.
     bindR (expand_secret C hash_algo key bin_str0 size) (\<lambda>salt_1.
     bindR (or_none (hkdf_extract C hash_algo (Sized_as_ref salt_1)
              \<lparr>data_size = size, data = replicate SPDM_MAX_HASH_SIZE 0\<rparr>)) (\<lambda>prk.
     or_none (Sized_convert SPDM_MAX_HASH_SIZE prk)))))"

definition derive_request_handshake_secret ::
  "'h Crypto \<Rightarrow> bool \<Rightarrow> SpdmVersion \<Rightarrow> SpdmBaseHashAlgo \<Rightarrow> SpdmHandshakeSecretStruct option \<Rightarrow>
     SpdmPskHintStruct option \<Rightarrow> bytes \<Rightarrow> SpdmDirectionHandshakeSecretStruct popt" where
  "derive_request_handshake_secret C use_psk spdm_version hash_algo key psk_hint th1 =
     bindR (or_panic (SpdmBaseHashAlgo_get_size hash_algo)) (\<lambda>size.
     bindR (binconcat size spdm_version BIN_STR1_LABEL (Some th1) concat_buffer) (\<lambda>bin_str1.
     bindR (expand_or_psk C (psk_handshake_secret_hkdf_expand C) use_psk spdm_version hash_algo key
              psk_hint bin_str1 size) (\<lambda>okm.
     or_none (Sized_convert SPDM_MAX_HASH_SIZE okm))))"

definition derive_response_handshake_secret ::
  "'h Crypto \<Rightarrow> bool \<Rightarrow> SpdmVersion \<Rightarrow> SpdmBaseHashAlgo \<Rightarrow> SpdmHandshakeSecretStruct option \<Rightarrow>
     SpdmPskHintStruct option \<Rightarrow> bytes \<Rightarrow> SpdmDirectionHandshakeSecretStruct popt" where
  "derive_response_handshake_secret C use_psk spdm_version hash_algo key psk_hint th1 =
     bindR (or_panic (SpdmBaseHashAlgo_get_size hash_algo)) (\<lambda>size.
     bindR (binconcat size spdm_version BIN_STR2_LABEL (Some th1) concat_buffer) (\<lambda>bin_str2.
     bindR (expand_or_psk C (psk_handshake_secret_hkdf_expand C) use_psk spdm_version hash_algo key
              psk_hint bin_str2 size) (\<lambda>okm.
     or_none (Sized_convert SPDM_MAX_HASH_SIZE okm))))"

definition derive_finished_key ::
  "'h Crypto \<Rightarrow> SpdmVersion \<Rightarrow> SpdmBaseHashAlgo \<Rightarrow> SpdmDirectionHandshakeSecretStruct \<Rightarrow>
     SpdmFinishedKeyStruct popt" where
  "derive_finished_key C spdm_version hash_algo key =
     bindR (or_panic (SpdmBaseHashAlgo_get_size hash_algo)) (\<lambda>size.
     bindR (binconcat size spdm_version BIN_STR7_LABEL None concat_buffer) (\<lambda>bin_str7.
     bindR (expand_secret C hash_algo key bin_str7 size) (\<lambda>okm.
     or_none (Sized_convert SPDM_MAX_HASH_SIZE okm))))"

text \<open>
  \<open>SpdmMajorSecret\<close> is a direction secret of the handshake or of the application phase; both
  variants are expanded in the same way. The second \<open>binconcat\<close> reuses the first one's buffer.
\<close>

definition derive_aead_key_iv ::
  "'h Crypto \<Rightarrow> SpdmVersion \<Rightarrow> SpdmBaseHashAlgo \<Rightarrow> SpdmAeadAlgo \<Rightarrow> Sized \<Rightarrow>
     (SpdmAeadKeyStruct \<times> SpdmAeadIvStruct) popt" where
  "derive_aead_key_iv C spdm_version hash_algo aead_algo key =
     bindR (or_panic (SpdmAeadAlgo_get_key_size aead_algo)) (\<lambda>key_size.
     bindR (binconcat key_size spdm_version BIN_STR5_LABEL None concat_buffer) (\<lambda>bin_str5.
     bindR (expand_secret C hash_algo key bin_str5 (of_nat SPDM_MAX_AEAD_KEY_SIZE)) (\<lambda>okm.
     bindR (or_none (Sized_convert SPDM_MAX_AEAD_KEY_SIZE okm)) (\<lambda>encrypt_key.
     bindR (or_panic (SpdmAeadAlgo_get_iv_size aead_algo)) (\<lambda>iv_size.
     bindR (binconcat iv_size spdm_version BIN_STR6_LABEL None concat_buffer) (\<lambda>bin_str6.
     bindR (expand_secret C hash_algo key bin_str6 (of_nat SPDM_MAX_AEAD_IV_SIZE)) (\<lambda>okm.
     bindR (or_none (Sized_convert SPDM_MAX_AEAD_IV_SIZE okm)) (\<lambda>iv.
     Inr (encrypt_key, iv)))))))))"

definition derive_request_data_secret ::
  "'h Crypto \<Rightarrow> bool \<Rightarrow> SpdmVersion \<Rightarrow> SpdmBaseHashAlgo \<Rightarrow> SpdmMasterSecretStruct option \<Rightarrow>
     SpdmPskHintStruct option \<Rightarrow> bytes \<Rightarrow> SpdmDirectionDataSecretStruct popt" where
  "derive_request_data_secret C use_psk spdm_version hash_algo key psk_hint th2 =
     bindR (or_panic (SpdmBaseHashAlgo_get_size hash_algo)) (\<lambda>size.
     bindR (binconcat size spdm_version BIN_STR3_LABEL (Some th2) concat_buffer) (\<lambda>bin_str3.
     bindR (expand_or_psk C (psk_master_secret_hkdf_expand C) use_psk spdm_version hash_algo key
              psk_hint bin_str3 size) (\<lambda>okm.
     or_none (Sized_convert SPDM_MAX_HASH_SIZE okm))))"

definition derive_response_data_secret ::
  "'h Crypto \<Rightarrow> bool \<Rightarrow> SpdmVersion \<Rightarrow> SpdmBaseHashAlgo \<Rightarrow> SpdmMasterSecretStruct option \<Rightarrow>
     SpdmPskHintStruct option \<Rightarrow> bytes \<Rightarrow> SpdmDirectionDataSecretStruct popt" where
  "derive_response_data_secret C use_psk spdm_version hash_algo key psk_hint th2 =
     bindR (or_panic (SpdmBaseHashAlgo_get_size hash_algo)) (\<lambda>size.
     bindR (binconcat size spdm_version BIN_STR4_LABEL (Some th2) concat_buffer) (\<lambda>bin_str4.
     bindR (expand_or_psk C (psk_master_secret_hkdf_expand C) use_psk spdm_version hash_algo key
              psk_hint bin_str4 size) (\<lambda>okm.
     or_none (Sized_convert SPDM_MAX_HASH_SIZE okm))))"

definition derive_export_master_secret ::
  "'h Crypto \<Rightarrow> bool \<Rightarrow> SpdmVersion \<Rightarrow> SpdmBaseHashAlgo \<Rightarrow> SpdmMasterSecretStruct option \<Rightarrow>
     SpdmPskHintStruct option \<Rightarrow> SpdmExportMasterSecretStruct popt" where
  "derive_export_master_secret C use_psk spdm_version hash_algo key psk_hint =
     bindR (or_panic (SpdmBaseHashAlgo_get_size hash_algo)) (\<lambda>size.
     bindR (binconcat size spdm_version BIN_STR8_LABEL None concat_buffer) (\<lambda>bin_str8.
     bindR (expand_or_psk C (psk_master_secret_hkdf_expand C) use_psk spdm_version hash_algo key
              psk_hint bin_str8 size) (\<lambda>okm.
     or_none (Sized_convert SPDM_MAX_HASH_SIZE okm))))"

definition derive_update_secret ::
  "'h Crypto \<Rightarrow> SpdmVersion \<Rightarrow> SpdmBaseHashAlgo \<Rightarrow> SpdmDirectionDataSecretStruct \<Rightarrow>
     SpdmDirectionDataSecretStruct popt" where
  "derive_update_secret C spdm_version hash_algo key =
     bindR (or_panic (SpdmBaseHashAlgo_get_size hash_algo)) (\<lambda>size.
     bindR (binconcat size spdm_version BIN_STR9_LABEL None concat_buffer) (\<lambda>bin_str9.
     bindR (expand_secret C hash_algo key bin_str9 size) (\<lambda>okm.
     or_none (Sized_convert SPDM_MAX_HASH_SIZE okm))))"

subsection \<open>The BinConcat strings\<close>

definition version_text :: "SpdmVersion \<Rightarrow> bytes" where
  "version_text v = (SPDM_VERSION_VALUE[4 := drop_bit 4 (SpdmVersion_u8 v) + 0x30])
     [6 := (SpdmVersion_u8 v AND 0x0F) + 0x30]"

lemma length_version_text [simp]: "length (version_text v) = 8"
  by (simp add: version_text_def SPDM_VERSION_VALUE_def ascii_def)

lemma version_text_inject [simp]: "version_text v = version_text w \<longleftrightarrow> v = w"
  by (cases v; cases w; simp add: version_text_def SPDM_VERSION_VALUE_def ascii_def)

lemma extend_unchecked_append:
  "writer_ok w \<Longrightarrow> length bs \<le> Writer_left w \<Longrightarrow> extend_unchecked bs w = Writer_append bs w"
  by (simp add: extend_unchecked_def Writer_extend_eq)

lemma binconcat_eq:
  assumes "10 \<le> length buffer"
  shows "binconcat len v label context buffer =
     (let rest = label @ (case context of Some c \<Rightarrow> c | None \<Rightarrow> [])
      in if length rest > length buffer - 10 then Inl ENone
         else Inr (put_u16 len @ version_text v @ rest))"
proof -
  define rest where "rest = label @ (case context of Some c \<Rightarrow> c | None \<Rightarrow> [])"
  have len: "length label + (case context of Some c \<Rightarrow> length c | None \<Rightarrow> 0) = length rest"
    by (simp add: rest_def split: option.split)
  show ?thesis
  proof (cases "length rest > length buffer - 10")
    case True
    then show ?thesis using assms
      unfolding binconcat_def len Let_def by (simp add: rest_def [symmetric])
  next
    case False
    let ?w0 = "Writer_init buffer"
    have u16: "u16_encode len ?w0 = Inr (2, Writer_append (put_u16 len) ?w0)"
      using u16.encode_fits [OF TrueI writer_ok_init, of len buffer] assms by simp
    define w3 where "w3 = Writer_append (put_u16 len @ version_text v @ rest) ?w0"
    have "(case context of Some c \<Rightarrow> extend_unchecked c (extend_unchecked label
            (extend_unchecked (version_text v) (Writer_append (put_u16 len) ?w0)))
          | None \<Rightarrow> extend_unchecked label
            (extend_unchecked (version_text v) (Writer_append (put_u16 len) ?w0))) = w3"
      using assms False
      by (auto simp: w3_def rest_def extend_unchecked_append Writer_append_append split: option.split)
    moreover have "take (Writer_used w3) (wr_buf w3) = put_u16 len @ version_text v @ rest"
      using assms False Writer_append_simps(4) [OF writer_ok_init, of "put_u16 len @ version_text v @ rest" buffer]
      by (simp add: w3_def Writer_used_slice_def Writer_used_def Writer_init_def Writer_left_def)
    ultimately show ?thesis
      using assms False
      unfolding binconcat_def len Let_def version_text_def [symmetric]
      by (simp add: rest_def [symmetric] u16)
  qed
qed

text \<open>
  The ten uses of the key schedule, each with its label and, for the direction secrets, the
  transcript hash it is bound to.
\<close>

datatype key_use =
    Derived | ReqHs bytes | RspHs bytes | ReqApp bytes | RspApp bytes
  | AeadKey | AeadIv | Finished | ExpMaster | TrafficUpd

fun use_label :: "key_use \<Rightarrow> bytes" where
  "use_label Derived = BIN_STR0_LABEL"
| "use_label (ReqHs _) = BIN_STR1_LABEL"
| "use_label (RspHs _) = BIN_STR2_LABEL"
| "use_label (ReqApp _) = BIN_STR3_LABEL"
| "use_label (RspApp _) = BIN_STR4_LABEL"
| "use_label AeadKey = BIN_STR5_LABEL"
| "use_label AeadIv = BIN_STR6_LABEL"
| "use_label Finished = BIN_STR7_LABEL"
| "use_label ExpMaster = BIN_STR8_LABEL"
| "use_label TrafficUpd = BIN_STR9_LABEL"

fun use_context :: "key_use \<Rightarrow> bytes option" where
  "use_context (ReqHs th) = Some th"
| "use_context (RspHs th) = Some th"
| "use_context (ReqApp th) = Some th"
| "use_context (RspApp th) = Some th"
| "use_context _ = None"

definition use_text :: "key_use \<Rightarrow> bytes" where
  "use_text u = use_label u @ (case use_context u of Some c \<Rightarrow> c | None \<Rightarrow> [])"

lemma use_text_inject: "use_text u = use_text v \<longleftrightarrow> u = v"
  by (cases u; cases v; simp add: use_text_def bin_labels ascii_def)

lemma length_use_text: "length (use_text u) \<le> 12 + (case use_context u of Some c \<Rightarrow> length c | None \<Rightarrow> 0)"
  by (cases u) (simp_all add: use_text_def bin_labels ascii_def)

lemma binconcat_use:
  "binconcat len v (use_label u) (use_context u) concat_buffer =
     (if 76 < length (use_text u) then Inl ENone else Inr (put_u16 len @ version_text v @ use_text u))"
  by (simp add: binconcat_eq Let_def use_text_def concat_buffer_def)

lemma put_u16_inject [simp]: "put_u16 a = put_u16 b \<longleftrightarrow> a = b"
  using u16.image_prefix_free [OF TrueI TrueI, of a "[]" b "[]"] by auto

lemma binconcat_use_inject:
  "binconcat len v (use_label u) (use_context u) concat_buffer = Inr s \<Longrightarrow>
   binconcat len' v' (use_label u') (use_context u') concat_buffer = Inr s \<Longrightarrow>
   len = len' \<and> v = v' \<and> u = u'"
  by (auto simp: binconcat_use use_text_inject split: if_splits)

subsection \<open>Derivations succeed\<close>

text \<open>
  What the key schedule relies on in its providers: HKDF and the PSK callbacks return key
  material of the requested size. The sizes asked for are at most \<open>SPDM_MAX_HASH_SIZE\<close>.
\<close>

definition hash_algo_ok :: "SpdmBaseHashAlgo \<Rightarrow> bool" where
  "hash_algo_ok h \<longleftrightarrow> h \<in> set SpdmBaseHashAlgo_prio_table"

definition aead_algo_ok :: "SpdmAeadAlgo \<Rightarrow> bool" where
  "aead_algo_ok a \<longleftrightarrow> a \<in> set SpdmAeadAlgo_prio_table"

fun hash_size :: "SpdmBaseHashAlgo \<Rightarrow> u16" where
  "hash_size h = (if h = SpdmBaseHashAlgo_TPM_ALG_SHA_256 then 32
     else if h = SpdmBaseHashAlgo_TPM_ALG_SHA_384 then 48 else 64)"

declare hash_size.simps [simp del]

definition okm_ok :: "u16 \<Rightarrow> Sized \<Rightarrow> bool" where
  "okm_ok n s \<longleftrightarrow> Sized_ok 64 s \<and> data_size s = n"

definition kdf_ok :: "'h Crypto \<Rightarrow> bool" where
  "kdf_ok C \<longleftrightarrow>
     (\<forall>h salt ikm. hash_algo_ok h \<longrightarrow> (\<exists>prk. hkdf_extract C h salt ikm = Some prk \<and> okm_ok (hash_size h) prk)) \<and>
     (\<forall>h prk info n. hash_algo_ok h \<longrightarrow> Sized_ok 64 prk \<longrightarrow> n \<le> 64 \<longrightarrow>
        (\<exists>okm. hkdf_expand C h prk info n = Some okm \<and> okm_ok n okm)) \<and>
     (\<forall>v h hint info. hash_algo_ok h \<longrightarrow>
        (\<exists>okm. psk_handshake_secret_hkdf_expand C v h hint info = Some okm \<and> okm_ok (hash_size h) okm)) \<and>
     (\<forall>v h hint info. hash_algo_ok h \<longrightarrow>
        (\<exists>okm. psk_master_secret_hkdf_expand C v h hint info = Some okm \<and> okm_ok (hash_size h) okm))"

lemma hash_get_size [simp]: "hash_algo_ok h \<Longrightarrow> SpdmBaseHashAlgo_get_size h = Ok (hash_size h)"
  by (auto simp: hash_algo_ok_def SpdmBaseHashAlgo_prio_table_def SpdmBaseHashAlgo_get_size_def
      hash_size.simps)

lemma hash_size_range [simp]: "hash_size h \<noteq> 0" "hash_size h \<le> 64" "unat (hash_size h) \<le> 64"
  by (simp_all add: hash_size.simps)

lemma aead_get_sizes [simp]:
  assumes "aead_algo_ok a"
  shows "SpdmAeadAlgo_get_key_size a = Ok (if a = SpdmAeadAlgo_AES_128_GCM then 16 else 32)"
    and "SpdmAeadAlgo_get_iv_size a = Ok 12" and "SpdmAeadAlgo_get_tag_size a = Ok 16"
  using assms
  by (auto simp: aead_algo_ok_def SpdmAeadAlgo_prio_table_def SpdmAeadAlgo_get_key_size_def
      SpdmAeadAlgo_get_iv_size_def SpdmAeadAlgo_get_tag_size_def)

text \<open>A secret with room for \<open>n\<close> bytes and contents.\<close>

definition secret_ok :: "usize \<Rightarrow> Sized \<Rightarrow> bool" where
  "secret_ok n s \<longleftrightarrow> Sized_canonical n s \<and> data_size s \<noteq> 0"

lemma Sized_convert_Some:
  assumes "n < 65536" "Sized_ok m s" "data_size s \<noteq> 0" "unat (data_size s) \<le> n"
  shows "\<exists>t. Sized_convert n s = Some t \<and> secret_ok n t \<and> data_size t = data_size s"
proof -
  obtain t where t: "Sized_convert n s = Some t"
    using assms by (simp add: Sized_convert_def word_le_of_nat_u16)
  with Sized_convert_canonical [OF assms(1,2) t] show ?thesis by (auto simp: secret_ok_def)
qed

lemma secret_ok_D: "secret_ok n s \<Longrightarrow> Sized_ok n s \<and> data_size s \<noteq> 0 \<and> unat (data_size s) \<le> n"
  by (simp add: secret_ok_def Sized_canonical_def Sized_ok_def)

lemma expand_secret_ok:
  assumes "kdf_ok C" "hash_algo_ok h" "secret_ok 64 key" "n \<le> 64"
  shows "\<exists>okm. expand_secret C h key info n = Inr okm \<and> okm_ok n okm"
proof -
  obtain prk where "Sized_convert 64 key = Some prk" "secret_ok 64 prk"
    using Sized_convert_Some [of 64 64 key] secret_ok_D [OF assms(3)] by auto
  then show ?thesis
    using assms secret_ok_D [of 64 prk] unfolding kdf_ok_def expand_secret_def by simp
qed

lemma okm_convert:
  "okm_ok n okm \<Longrightarrow> n \<noteq> 0 \<Longrightarrow> unat n \<le> m \<Longrightarrow> m < 65536 \<Longrightarrow>
   \<exists>t. Sized_convert m okm = Some t \<and> secret_ok m t \<and> data_size t = n"
  using Sized_convert_Some [of m 64 okm] by (auto simp: okm_ok_def)

lemma bin_str_ok:
  "length (use_text u) \<le> 76 \<Longrightarrow> \<exists>s. binconcat len v (use_label u) (use_context u) concat_buffer = Inr s"
  by (simp add: binconcat_use)

lemma fixed_use_text: "use_context u = None \<Longrightarrow> length (use_text u) \<le> 76"
  using length_use_text [of u] by simp

lemma th_use_text: "use_context u = Some th \<Longrightarrow> length th \<le> 64 \<Longrightarrow> length (use_text u) \<le> 76"
  using length_use_text [of u] by simp

lemmas bin_str_fixed =
  bin_str_ok [OF fixed_use_text, of Derived, simplified]
  bin_str_ok [OF fixed_use_text, of AeadKey, simplified]
  bin_str_ok [OF fixed_use_text, of AeadIv, simplified]
  bin_str_ok [OF fixed_use_text, of Finished, simplified]
  bin_str_ok [OF fixed_use_text, of ExpMaster, simplified]
  bin_str_ok [OF fixed_use_text, of TrafficUpd, simplified]

lemmas bin_str_th =
  bin_str_ok [OF th_use_text, of "ReqHs th" th for th, simplified]
  bin_str_ok [OF th_use_text, of "RspHs th" th for th, simplified]
  bin_str_ok [OF th_use_text, of "ReqApp th" th for th, simplified]
  bin_str_ok [OF th_use_text, of "RspApp th" th for th, simplified]

lemma convert_hash:
  "okm_ok (hash_size h) okm \<Longrightarrow> \<exists>t. or_none (Sized_convert 64 okm) = Inr t \<and> secret_ok 64 t"
  using okm_convert [of "hash_size h" okm 64] by fastforce

definition psk_or_secret :: "bool \<Rightarrow> Sized option \<Rightarrow> bool" where
  "psk_or_secret use_psk key \<longleftrightarrow> use_psk \<or> (\<exists>k. key = Some k \<and> secret_ok 64 k)"

lemma expand_or_psk_ok:
  assumes "kdf_ok C" "hash_algo_ok h" "psk_or_secret use_psk key"
    and "psk = psk_handshake_secret_hkdf_expand C \<or> psk = psk_master_secret_hkdf_expand C"
  shows "\<exists>okm. expand_or_psk C psk use_psk v h key hint info (hash_size h) = Inr okm
     \<and> okm_ok (hash_size h) okm"
proof (cases use_psk)
  case True
  then show ?thesis using assms(1,2,4) unfolding expand_or_psk_def kdf_ok_def by auto
next
  case False
  then obtain k where "key = Some k" "secret_ok 64 k" using assms(3) by (auto simp: psk_or_secret_def)
  then show ?thesis
    using False expand_secret_ok [OF assms(1,2), of k "hash_size h" info] by (simp add: expand_or_psk_def)
qed

lemma derive_handshake_secret_ok:
  assumes "kdf_ok C" "hash_algo_ok h"
  shows "\<exists>s. derive_handshake_secret C v h key = Inr s \<and> secret_ok 64 s"
proof -
  obtain prk where "hkdf_extract C h (take (unat (hash_size h)) SALT_0) key = Some prk" "okm_ok (hash_size h) prk"
    using assms unfolding kdf_ok_def by blast
  then show ?thesis using assms convert_hash [of h prk] by (simp add: derive_handshake_secret_def)
qed

lemma derive_master_secret_ok:
  assumes "kdf_ok C" "hash_algo_ok h" "secret_ok 64 key"
  shows "\<exists>s. derive_master_secret C v h key = Inr s \<and> secret_ok 64 s"
proof -
  obtain bs where bs: "binconcat (hash_size h) v BIN_STR0_LABEL None concat_buffer = Inr bs"
    using bin_str_fixed(1) by blast
  obtain salt where salt: "expand_secret C h key bs (hash_size h) = Inr salt"
    using expand_secret_ok [OF assms, of "hash_size h" bs] by auto
  obtain prk where "hkdf_extract C h (Sized_as_ref salt) \<lparr>data_size = hash_size h, data = replicate 64 0\<rparr> = Some prk"
      "okm_ok (hash_size h) prk"
    using assms(1,2) unfolding kdf_ok_def by blast
  then show ?thesis using assms bs salt convert_hash [of h prk] by (simp add: derive_master_secret_def)
qed

lemma derive_fixed_ok:
  assumes "kdf_ok C" "hash_algo_ok h" "secret_ok 64 key"
  shows "\<exists>s. derive_finished_key C v h key = Inr s \<and> secret_ok 64 s"
    and "\<exists>s. derive_update_secret C v h key = Inr s \<and> secret_ok 64 s"
proof -
  obtain bs where bs: "binconcat (hash_size h) v BIN_STR7_LABEL None concat_buffer = Inr bs"
    using bin_str_fixed(4) by blast
  obtain okm where "expand_secret C h key bs (hash_size h) = Inr okm" "okm_ok (hash_size h) okm"
    using expand_secret_ok [OF assms, of "hash_size h" bs] by auto
  then show "\<exists>s. derive_finished_key C v h key = Inr s \<and> secret_ok 64 s"
    using assms bs convert_hash [of h okm] by (simp add: derive_finished_key_def)
  obtain bs where bs: "binconcat (hash_size h) v BIN_STR9_LABEL None concat_buffer = Inr bs"
    using bin_str_fixed(6) by blast
  obtain okm where "expand_secret C h key bs (hash_size h) = Inr okm" "okm_ok (hash_size h) okm"
    using expand_secret_ok [OF assms, of "hash_size h" bs] by auto
  then show "\<exists>s. derive_update_secret C v h key = Inr s \<and> secret_ok 64 s"
    using assms bs convert_hash [of h okm] by (simp add: derive_update_secret_def)
qed

lemma derive_direction_ok:
  assumes "kdf_ok C" "hash_algo_ok h" "psk_or_secret use_psk key" "length th \<le> 64"
  shows "\<exists>s. derive_request_handshake_secret C use_psk v h key hint th = Inr s \<and> secret_ok 64 s"
    and "\<exists>s. derive_response_handshake_secret C use_psk v h key hint th = Inr s \<and> secret_ok 64 s"
    and "\<exists>s. derive_request_data_secret C use_psk v h key hint th = Inr s \<and> secret_ok 64 s"
    and "\<exists>s. derive_response_data_secret C use_psk v h key hint th = Inr s \<and> secret_ok 64 s"
    and "\<exists>s. derive_export_master_secret C use_psk v h key hint = Inr s \<and> secret_ok 64 s"
proof -
  have step: "\<exists>s. bindR (binconcat (hash_size h) v (use_label u) (use_context u) concat_buffer)
      (\<lambda>bs. bindR (expand_or_psk C psk use_psk v h key hint bs (hash_size h))
        (\<lambda>okm. or_none (Sized_convert 64 okm))) = Inr s \<and> secret_ok 64 s"
    if u: "length (use_text u) \<le> 76"
      and psk: "psk = psk_handshake_secret_hkdf_expand C \<or> psk = psk_master_secret_hkdf_expand C" for u psk
  proof -
    obtain bs where bs: "binconcat (hash_size h) v (use_label u) (use_context u) concat_buffer = Inr bs"
      using bin_str_ok [OF u] by blast
    obtain okm where "expand_or_psk C psk use_psk v h key hint bs (hash_size h) = Inr okm"
        "okm_ok (hash_size h) okm"
      using expand_or_psk_ok [OF assms(1-3) psk] by blast
    with bs show ?thesis using convert_hash [of h okm] by simp
  qed
  show "\<exists>s. derive_request_handshake_secret C use_psk v h key hint th = Inr s \<and> secret_ok 64 s"
    using step [OF th_use_text, of "ReqHs th" th] assms by (simp add: derive_request_handshake_secret_def)
  show "\<exists>s. derive_response_handshake_secret C use_psk v h key hint th = Inr s \<and> secret_ok 64 s"
    using step [OF th_use_text, of "RspHs th" th] assms by (simp add: derive_response_handshake_secret_def)
  show "\<exists>s. derive_request_data_secret C use_psk v h key hint th = Inr s \<and> secret_ok 64 s"
    using step [OF th_use_text, of "ReqApp th" th] assms by (simp add: derive_request_data_secret_def)
  show "\<exists>s. derive_response_data_secret C use_psk v h key hint th = Inr s \<and> secret_ok 64 s"
    using step [OF th_use_text, of "RspApp th" th] assms by (simp add: derive_response_data_secret_def)
  show "\<exists>s. derive_export_master_secret C use_psk v h key hint = Inr s \<and> secret_ok 64 s"
    using step [OF fixed_use_text, of ExpMaster] assms by (simp add: derive_export_master_secret_def)
qed

text \<open>The AEAD key has 32 bytes and the salt 12 whatever the AEAD algorithm.\<close>

definition key_iv_ok :: "SpdmAeadKeyStruct \<times> SpdmAeadIvStruct \<Rightarrow> bool" where
  "key_iv_ok ki \<longleftrightarrow> secret_ok 32 (fst ki) \<and> data_size (fst ki) = 32
     \<and> secret_ok 12 (snd ki) \<and> data_size (snd ki) = 12"

lemma derive_aead_key_iv_ok:
  assumes "kdf_ok C" "hash_algo_ok h" "aead_algo_ok a" "secret_ok 64 key"
  shows "\<exists>ki. derive_aead_key_iv C v h a key = Inr ki \<and> key_iv_ok ki"
proof -
  let ?ks = "if a = SpdmAeadAlgo_AES_128_GCM then 16 else 32"
  obtain b5 where b5: "binconcat ?ks v BIN_STR5_LABEL None concat_buffer = Inr b5"
    using bin_str_fixed(2) by blast
  obtain b6 where b6: "binconcat 12 v BIN_STR6_LABEL None concat_buffer = Inr b6"
    using bin_str_fixed(3) by blast
  obtain o5 where o5: "expand_secret C h key b5 32 = Inr o5" "okm_ok 32 o5"
    using expand_secret_ok [OF assms(1,2,4), of 32 b5] by auto
  obtain o6 where o6: "expand_secret C h key b6 12 = Inr o6" "okm_ok 12 o6"
    using expand_secret_ok [OF assms(1,2,4), of 12 b6] by auto
  obtain k where k: "Sized_convert 32 o5 = Some k" "secret_ok 32 k" "data_size k = 32"
    using okm_convert [OF o5(2), of 32] by auto
  obtain iv where iv: "Sized_convert 12 o6 = Some iv" "secret_ok 12 iv" "data_size iv = 12"
    using okm_convert [OF o6(2), of 12] by auto
  have "derive_aead_key_iv C v h a key = Inr (k, iv)"
    using assms(3) b5 b6 o5(1) o6(1) k(1) iv(1) by (simp add: derive_aead_key_iv_def)
  then show ?thesis using k iv by (simp add: key_iv_ok_def)
qed

end
