(* ===== verification/Buffers.thy ===== *)
theory Buffers
  imports Secrets
begin

text \<open>
  The transcript buffers \<open>ManagedBufferA\<close> ... \<open>ManagedVdmBuffer\<close> of \<open>spdmlib/src/common/mod.rs\<close>. They
  differ in their capacity only; the capacity is the length of the array.

  The abstract view of a buffer is the byte string \<open>as_ref\<close>, to which \<open>append_message\<close> appends.
\<close>

record ManagedBuffer =
  mb_size :: usize
  mb_data :: bytes

definition ManagedBuffer_default :: "usize \<Rightarrow> ManagedBuffer" where
  "ManagedBuffer_default n = \<lparr>mb_size = 0, mb_data = replicate n 0\<rparr>"

definition ManagedBuffer_append_message :: "bytes \<Rightarrow> ManagedBuffer \<Rightarrow> (usize \<times> ManagedBuffer) option" where
  "ManagedBuffer_append_message bs self =
     (let used = mb_size self
      in case Writer_extend_from_slice bs (Writer_init (drop used (mb_data self))) of
           None \<Rightarrow> None
         | Some (write_len, writer) \<Rightarrow>
             Some (Writer_used writer,
                   \<lparr>mb_size = used + write_len, mb_data = take used (mb_data self) @ wr_buf writer\<rparr>))"

definition ManagedBuffer_reset_message :: "ManagedBuffer \<Rightarrow> ManagedBuffer" where
  "ManagedBuffer_reset_message self = self\<lparr>mb_size := 0\<rparr>"

definition ManagedBuffer_as_ref :: "ManagedBuffer \<Rightarrow> bytes" where
  "ManagedBuffer_as_ref self = take (mb_size self) (mb_data self)"

definition ManagedBuffer_encode :: "ManagedBuffer \<Rightarrow> encode_err encoder" where
  "ManagedBuffer_encode self =
     enc_seq [u64_encode (of_nat (mb_size self)),
              (\<lambda>w. ok_or EncodeErr (Writer_extend_from_slice (take (mb_size self) (mb_data self)) w))]"

definition ManagedBuffer_read :: "usize \<Rightarrow> ManagedBuffer decoder" where
  "ManagedBuffer_read n r = do {
     (size, r) \<leftarrow> u64_read r;
     let data_size = unat size;
     if data_size > n then None
     else do {
       (bs, r) \<leftarrow> array_read u8_read (min data_size n) r;
       Some (\<lparr>mb_size = data_size, mb_data = copy_at 0 bs (replicate n 0)\<rparr>, r) } }"

subsection \<open>Laws\<close>

definition ManagedBuffer_ok :: "usize \<Rightarrow> ManagedBuffer \<Rightarrow> bool" where
  "ManagedBuffer_ok n m \<longleftrightarrow> length (mb_data m) = n \<and> mb_size m \<le> n"

lemma ManagedBuffer_default_ok [simp]: "ManagedBuffer_ok n (ManagedBuffer_default n)"
  by (simp add: ManagedBuffer_ok_def ManagedBuffer_default_def)

lemma ManagedBuffer_default_as_ref [simp]: "ManagedBuffer_as_ref (ManagedBuffer_default n) = []"
  by (simp add: ManagedBuffer_as_ref_def ManagedBuffer_default_def)

lemma ManagedBuffer_reset:
  "ManagedBuffer_ok n m \<Longrightarrow> ManagedBuffer_ok n (ManagedBuffer_reset_message m)"
  "ManagedBuffer_as_ref (ManagedBuffer_reset_message m) = []"
  by (simp_all add: ManagedBuffer_ok_def ManagedBuffer_reset_message_def ManagedBuffer_as_ref_def)

lemma ManagedBuffer_as_ref_length [simp]:
  "ManagedBuffer_ok n m \<Longrightarrow> length (ManagedBuffer_as_ref m) = mb_size m"
  by (simp add: ManagedBuffer_ok_def ManagedBuffer_as_ref_def)

text \<open>Appending succeeds exactly when the bytes fit, and then appends them to the contents.\<close>

lemma ManagedBuffer_append_None:
  assumes "ManagedBuffer_ok n m"
  shows "ManagedBuffer_append_message bs m = None \<longleftrightarrow> n < length (ManagedBuffer_as_ref m) + length bs"
  using assms
  by (auto simp: ManagedBuffer_append_message_def Writer_extend_eq Let_def ManagedBuffer_ok_def
      ManagedBuffer_as_ref_def)

lemma ManagedBuffer_append_Some:
  assumes "ManagedBuffer_ok n m" "ManagedBuffer_append_message bs m = Some (k, m')"
  shows "k = length bs" "ManagedBuffer_ok n m'"
    "ManagedBuffer_as_ref m' = ManagedBuffer_as_ref m @ bs"
proof -
  have "length bs \<le> length (drop (mb_size m) (mb_data m))"
    and m': "m' = \<lparr>mb_size = mb_size m + length bs,
           mb_data = take (mb_size m) (mb_data m) @ wr_buf (Writer_append bs (Writer_init (drop (mb_size m) (mb_data m))))\<rparr>"
    and k: "k = Writer_used (Writer_append bs (Writer_init (drop (mb_size m) (mb_data m))))"
    using assms(2)
    by (auto simp: ManagedBuffer_append_message_def Let_def Writer_extend_eq split: if_splits)
  then show "k = length bs" "ManagedBuffer_ok n m'"
    "ManagedBuffer_as_ref m' = ManagedBuffer_as_ref m @ bs"
    using assms(1)
    by (auto simp: ManagedBuffer_ok_def ManagedBuffer_as_ref_def Writer_append_def Writer_init_def copy_at_def
        Writer_used_def)
qed

lemma ManagedBuffer_append_fits:
  assumes "ManagedBuffer_ok n m" "length (ManagedBuffer_as_ref m) + length bs \<le> n"
  shows "\<exists>m'. ManagedBuffer_append_message bs m = Some (length bs, m') \<and> ManagedBuffer_ok n m'
    \<and> ManagedBuffer_as_ref m' = ManagedBuffer_as_ref m @ bs"
proof (cases "ManagedBuffer_append_message bs m")
  case None
  with ManagedBuffer_append_None [OF assms(1), of bs] assms(2) show ?thesis by simp
next
  case (Some p)
  then obtain k m' where "ManagedBuffer_append_message bs m = Some (k, m')" by (cases p) auto
  with ManagedBuffer_append_Some [OF assms(1) this] show ?thesis by auto
qed

definition ManagedBuffer_canonical :: "usize \<Rightarrow> ManagedBuffer \<Rightarrow> bool" where
  "ManagedBuffer_canonical n m \<longleftrightarrow> n < 2 ^ 64 \<and> ManagedBuffer_ok n m
     \<and> drop (mb_size m) (mb_data m) = replicate (n - mb_size m) 0"

definition ManagedBuffer_image :: "ManagedBuffer \<Rightarrow> bytes" where
  "ManagedBuffer_image m = put_u64 (of_nat (mb_size m)) @ ManagedBuffer_as_ref m"

lemma ManagedBuffer_encode_writes: "writes EncodeErr (ManagedBuffer_encode m) (ManagedBuffer_image m)"
proof -
  have "writes EncodeErr (\<lambda>w. ok_or EncodeErr (Writer_extend_from_slice bs w)) bs" for bs
    by (auto simp: writes_def Writer_extend_eq)
  then show ?thesis
    unfolding ManagedBuffer_encode_def ManagedBuffer_image_def ManagedBuffer_as_ref_def
    by (intro writes_seq_Cons u64.encode_writes writes_seq_single) simp_all
qed

lemma ManagedBuffer_read_reads:
  "ManagedBuffer_canonical n m \<Longrightarrow> reads (ManagedBuffer_read n) (ManagedBuffer_image m) m"
proof (rule readsI)
  fix pre post
  assume m: "ManagedBuffer_canonical n m"
  then have ok: "length (mb_data m) = n" "mb_size m \<le> n" "n < 2 ^ 64"
    by (simp_all add: ManagedBuffer_canonical_def ManagedBuffer_ok_def)
  have size: "unat (of_nat (mb_size m) :: u64) = mb_size m"
    using ok by (simp add: unat_of_nat)
  have len: "length (ManagedBuffer_as_ref m) = min (mb_size m) n"
    using ok by (simp add: ManagedBuffer_as_ref_def)
  have "copy_at 0 (ManagedBuffer_as_ref m) (replicate n 0) = mb_data m"
    using m append_take_drop_id [of "mb_size m" "mb_data m"]
    by (simp add: copy_at_def ManagedBuffer_canonical_def ManagedBuffer_as_ref_def ManagedBuffer_ok_def)
  then show "ManagedBuffer_read n (rdr pre (ManagedBuffer_image m @ post)) =
     Some (m, rdr (pre @ ManagedBuffer_image m) post)"
    using ok len size by (simp add: ManagedBuffer_read_def ManagedBuffer_image_def reads_simps Let_def)
qed

end
