(* ===== verification/Session.thy ===== *)
theory Session
  imports KeySchedule Buffers
begin

text \<open>
  \<open>SpdmSession\<close> of \<open>spdmlib/src/common/session.rs\<close>: the records of a session, its life cycle, the
  generation of its secrets and the update of its application keys. The protection of messages is
  in the theory \<open>SecuredMessage\<close>.

  Every operation that returns an \<open>SpdmResult\<close> returns the session with it: the code assigns field
  by field and a failing step leaves the earlier assignments in place.
\<close>

subsection \<open>Records\<close>

datatype SpdmSessionState =
    SpdmSessionNotStarted | SpdmSessionHandshaking | SpdmSessionEstablished
  | SpdmSessionStateUnknown u8

record SpdmSessionCryptoParam =
  base_hash_algo :: SpdmBaseHashAlgo
  dhe_algo :: SpdmDheAlgo
  kem_algo :: SpdmKemAlgo
  aead_algo :: SpdmAeadAlgo
  key_schedule_algo :: SpdmKeyScheduleAlgo

record SpdmSessionSharedSecretRoot =
  shared_secret :: SpdmSharedSecretFinalKeyStruct
  root_handshake_secret :: SpdmHandshakeSecretStruct
  root_master_secret :: SpdmMasterSecretStruct

record SpdmSessionSecretParam =
  encryption_key :: SpdmAeadKeyStruct
  salt :: SpdmAeadIvStruct
  sequence_number :: u64

record SpdmSessionHandshakeSecret =
  request_handshake_secret :: SpdmDirectionHandshakeSecretStruct
  response_handshake_secret :: SpdmDirectionHandshakeSecretStruct
  request_finished_key :: SpdmFinishedKeyStruct
  response_finished_key :: SpdmFinishedKeyStruct
  hs_request_direction :: SpdmSessionSecretParam
  hs_response_direction :: SpdmSessionSecretParam

record SpdmSessionApplicationSecret =
  request_data_secret :: SpdmDirectionDataSecretStruct
  response_data_secret :: SpdmDirectionDataSecretStruct
  request_direction :: SpdmSessionSecretParam
  response_direction :: SpdmSessionSecretParam
  export_master_secret :: SpdmExportMasterSecretStruct

record SpdmSessionTransportParam =
  sequence_number_count :: u8
  max_random_count :: u16

record SecuredMessageVersion =
  major_version :: u8
  minor_version :: u8
  update_version_number :: u8
  alpha :: u8

definition SecuredMessageVersion_default :: SecuredMessageVersion where
  "SecuredMessageVersion_default =
     \<lparr>major_version = 1, minor_version = 1, update_version_number = 0, alpha = 0\<rparr>"

type_synonym SpdmKeyExchangeMutAuthAttributes = u8

text \<open>
  The transcripts of a session. The struct exists in two variants, for the feature
  \<open>hashed-transcript-data\<close> (a running hash \<open>'h\<close> for TH and for L1/L2) and without it (the messages
  themselves); the record has the fields of both.
\<close>

record 'h SpdmSessionRuntimeInfo =
  psk_hint :: "SpdmPskHintStruct option"
  s_message_a :: ManagedBuffer
  rsp_cert_hash :: "SpdmDigestStruct option"
  req_cert_hash :: "SpdmDigestStruct option"
  s_message_k :: ManagedBuffer
  s_message_f :: ManagedBuffer
  s_message_m :: ManagedBuffer
  message_f_initialized :: bool
  digest_context_th :: "'h option"
  s_digest_context_l1l2 :: "'h option"
  vdm_message_transcript_before_finish :: "ManagedBuffer option"

record 'h SpdmSession =
  session_id :: u32
  use_psk :: bool
  mut_auth_requested :: SpdmKeyExchangeMutAuthAttributes
  session_state :: SpdmSessionState
  crypto_param :: SpdmSessionCryptoParam
  shared_secret_root :: SpdmSessionSharedSecretRoot
  handshake_secret :: SpdmSessionHandshakeSecret
  application_secret :: SpdmSessionApplicationSecret
  application_secret_backup :: SpdmSessionApplicationSecret
  responder_backup_valid :: bool
  requester_backup_valid :: bool
  transport_param :: SpdmSessionTransportParam
  s_runtime_info :: "'h SpdmSessionRuntimeInfo"
  th1 :: SpdmDigestStruct
  th2 :: SpdmDigestStruct
  heartbeat_period :: u8
  secure_spdm_version_sel :: SecuredMessageVersion

subsection \<open>Defaults\<close>

abbreviation INVALID_SESSION_ID :: u32 where "INVALID_SESSION_ID \<equiv> 0"

abbreviation (input) MAX_SPDM_OPAQUE_SIZE :: usize where "MAX_SPDM_OPAQUE_SIZE \<equiv> 1024"
abbreviation (input) MAX_SPDM_MEASUREMENT_RECORD_SIZE :: usize where "MAX_SPDM_MEASUREMENT_RECORD_SIZE \<equiv> 4000"
abbreviation (input) MAX_SPDM_CERT_CHAIN_DATA_SIZE :: usize where "MAX_SPDM_CERT_CHAIN_DATA_SIZE \<equiv> 4096"

abbreviation (input) MAX_MANAGED_BUFFER_A_SIZE :: usize where
  "MAX_MANAGED_BUFFER_A_SIZE \<equiv> 150 + 2 * 255"
abbreviation (input) MAX_MANAGED_BUFFER_M_SIZE :: usize where
  "MAX_MANAGED_BUFFER_M_SIZE \<equiv> 47 + SPDM_NONCE_SIZE + MAX_SPDM_MEASUREMENT_RECORD_SIZE +
     SPDM_MAX_ASYM_SIG_SIZE + MAX_SPDM_OPAQUE_SIZE"
abbreviation (input) MAX_MANAGED_BUFFER_K_SIZE :: usize where
  "MAX_MANAGED_BUFFER_K_SIZE \<equiv> 84 + SPDM_MAX_REQ_KEY_EXCHANGE_SIZE + SPDM_MAX_RSP_KEY_EXCHANGE_SIZE +
     SPDM_MAX_HASH_SIZE * 2 + SPDM_MAX_ASYM_SIG_SIZE + MAX_SPDM_OPAQUE_SIZE * 2"
abbreviation (input) MAX_MANAGED_BUFFER_F_SIZE :: usize where
  "MAX_MANAGED_BUFFER_F_SIZE \<equiv> 8 + SPDM_MAX_HASH_SIZE * 2 + SPDM_MAX_ASYM_SIG_SIZE"

definition SpdmSessionCryptoParam_default :: SpdmSessionCryptoParam where
  "SpdmSessionCryptoParam_default =
     \<lparr>base_hash_algo = 0, dhe_algo = 0, kem_algo = 0, aead_algo = 0, key_schedule_algo = 0\<rparr>"

definition SpdmSessionSharedSecretRoot_default :: SpdmSessionSharedSecretRoot where
  "SpdmSessionSharedSecretRoot_default =
     \<lparr>shared_secret = Sized_default SPDM_MAX_SHARED_SECRET_SIZE,
      root_handshake_secret = Sized_default SPDM_MAX_HASH_SIZE,
      root_master_secret = Sized_default SPDM_MAX_HASH_SIZE\<rparr>"

definition SpdmSessionSecretParam_default :: SpdmSessionSecretParam where
  "SpdmSessionSecretParam_default =
     \<lparr>encryption_key = Sized_default SPDM_MAX_AEAD_KEY_SIZE, salt = Sized_default SPDM_MAX_AEAD_IV_SIZE,
      sequence_number = 0\<rparr>"

definition SpdmSessionHandshakeSecret_default :: SpdmSessionHandshakeSecret where
  "SpdmSessionHandshakeSecret_default =
     \<lparr>request_handshake_secret = Sized_default SPDM_MAX_HASH_SIZE,
      response_handshake_secret = Sized_default SPDM_MAX_HASH_SIZE,
      request_finished_key = Sized_default SPDM_MAX_HASH_SIZE,
      response_finished_key = Sized_default SPDM_MAX_HASH_SIZE,
      hs_request_direction = SpdmSessionSecretParam_default,
      hs_response_direction = SpdmSessionSecretParam_default\<rparr>"

definition SpdmSessionApplicationSecret_default :: SpdmSessionApplicationSecret where
  "SpdmSessionApplicationSecret_default =
     \<lparr>request_data_secret = Sized_default SPDM_MAX_HASH_SIZE,
      response_data_secret = Sized_default SPDM_MAX_HASH_SIZE,
      request_direction = SpdmSessionSecretParam_default,
      response_direction = SpdmSessionSecretParam_default,
      export_master_secret = Sized_default SPDM_MAX_HASH_SIZE\<rparr>"

definition SpdmSessionTransportParam_default :: SpdmSessionTransportParam where
  "SpdmSessionTransportParam_default = \<lparr>sequence_number_count = 0, max_random_count = 0\<rparr>"

definition SpdmSessionRuntimeInfo_default :: "'h SpdmSessionRuntimeInfo" where
  "SpdmSessionRuntimeInfo_default =
     \<lparr>psk_hint = None, s_message_a = ManagedBuffer_default MAX_MANAGED_BUFFER_A_SIZE,
      rsp_cert_hash = None, req_cert_hash = None,
      s_message_k = ManagedBuffer_default MAX_MANAGED_BUFFER_K_SIZE,
      s_message_f = ManagedBuffer_default MAX_MANAGED_BUFFER_F_SIZE,
      s_message_m = ManagedBuffer_default MAX_MANAGED_BUFFER_M_SIZE,
      message_f_initialized = False, digest_context_th = None, s_digest_context_l1l2 = None,
      vdm_message_transcript_before_finish = None\<rparr>"

definition SpdmSession_new :: "'h SpdmSession" where
  "SpdmSession_new =
     \<lparr>session_id = INVALID_SESSION_ID, use_psk = False, mut_auth_requested = 0,
      session_state = SpdmSessionNotStarted,
      crypto_param = SpdmSessionCryptoParam_default,
      shared_secret_root = SpdmSessionSharedSecretRoot_default,
      handshake_secret = SpdmSessionHandshakeSecret_default,
      application_secret = SpdmSessionApplicationSecret_default,
      application_secret_backup = SpdmSessionApplicationSecret_default,
      responder_backup_valid = False, requester_backup_valid = False,
      transport_param = SpdmSessionTransportParam_default,
      s_runtime_info = SpdmSessionRuntimeInfo_default,
      th1 = Sized_default SPDM_MAX_HASH_SIZE, th2 = Sized_default SPDM_MAX_HASH_SIZE,
      heartbeat_period = 0, secure_spdm_version_sel = SecuredMessageVersion_default\<rparr>"

text \<open>\<open>set_default\<close> leaves \<open>responder_backup_valid\<close>, \<open>requester_backup_valid\<close>, \<open>th1\<close> and \<open>th2\<close>.\<close>

definition set_default :: "'h SpdmSession \<Rightarrow> 'h SpdmSession" where
  "set_default self = self
     \<lparr>session_id := INVALID_SESSION_ID, use_psk := False,
      session_state := SpdmSessionNotStarted,
      crypto_param := SpdmSessionCryptoParam_default,
      shared_secret_root := SpdmSessionSharedSecretRoot_default,
      handshake_secret := SpdmSessionHandshakeSecret_default,
      application_secret := SpdmSessionApplicationSecret_default,
      application_secret_backup := SpdmSessionApplicationSecret_default,
      transport_param := SpdmSessionTransportParam_default,
      s_runtime_info := SpdmSessionRuntimeInfo_default,
      heartbeat_period := 0, secure_spdm_version_sel := SecuredMessageVersion_default,
      mut_auth_requested := 0\<rparr>"

definition session_setup :: "u32 \<Rightarrow> 'h SpdmSession \<Rightarrow> 'h SpdmSession SpdmResult" where
  "session_setup sid self =
     (if session_id self = INVALID_SESSION_ID
      then Ok ((set_default self)\<lparr>session_id := sid\<rparr>)
      else panic)"

definition session_teardown :: "'h SpdmSession \<Rightarrow> 'h SpdmSession" where
  "session_teardown self = set_default self"

definition set_crypto_param ::
  "SpdmBaseHashAlgo \<Rightarrow> SpdmDheAlgo \<Rightarrow> SpdmKemAlgo \<Rightarrow> SpdmAeadAlgo \<Rightarrow> SpdmKeyScheduleAlgo \<Rightarrow>
     'h SpdmSession \<Rightarrow> 'h SpdmSession" where
  "set_crypto_param hash dhe kem aead ks self = self\<lparr>crypto_param := (crypto_param self)
     \<lparr>base_hash_algo := hash, dhe_algo := dhe, kem_algo := kem, aead_algo := aead,
      key_schedule_algo := ks\<rparr>\<rparr>"

definition set_transport_param :: "u8 \<Rightarrow> u16 \<Rightarrow> 'h SpdmSession \<Rightarrow> 'h SpdmSession" where
  "set_transport_param cnt rnd self = self\<lparr>transport_param := (transport_param self)
     \<lparr>sequence_number_count := cnt, max_random_count := rnd\<rparr>\<rparr>"

subsection \<open>Generation of secrets\<close>

text \<open>
  \<open>self.x = if let Some(v) = .. { v } else { return Err(SPDM_STATUS_CRYPTO_ERROR) };\<close> as a step, and
  a sequence of such steps.
\<close>

definition assign_or_fail :: "('s \<Rightarrow> 'a popt) \<Rightarrow> ('a \<Rightarrow> 's \<Rightarrow> 's) \<Rightarrow> 's \<Rightarrow> unit SpdmResult \<times> 's" where
  "assign_or_fail f upd s =
     (case f s of
        Inl e \<Rightarrow> (Inl (popt_err SPDM_STATUS_CRYPTO_ERROR e), s)
      | Inr x \<Rightarrow> (Ok (), upd x s))"

fun run_steps :: "('s \<Rightarrow> unit SpdmResult \<times> 's) list \<Rightarrow> 's \<Rightarrow> unit SpdmResult \<times> 's" where
  "run_steps [] s = (Ok (), s)"
| "run_steps (m # ms) s = (case m s of (Inl e, s) \<Rightarrow> (Inl e, s) | (Inr _, s) \<Rightarrow> run_steps ms s)"

abbreviation upd_root ::
  "(SpdmSessionSharedSecretRoot \<Rightarrow> SpdmSessionSharedSecretRoot) \<Rightarrow> 'h SpdmSession \<Rightarrow> 'h SpdmSession" where
  "upd_root f s \<equiv> s\<lparr>shared_secret_root := f (shared_secret_root s)\<rparr>"

abbreviation upd_hs ::
  "(SpdmSessionHandshakeSecret \<Rightarrow> SpdmSessionHandshakeSecret) \<Rightarrow> 'h SpdmSession \<Rightarrow> 'h SpdmSession" where
  "upd_hs f s \<equiv> s\<lparr>handshake_secret := f (handshake_secret s)\<rparr>"

abbreviation upd_app ::
  "(SpdmSessionApplicationSecret \<Rightarrow> SpdmSessionApplicationSecret) \<Rightarrow> 'h SpdmSession \<Rightarrow> 'h SpdmSession" where
  "upd_app f s \<equiv> s\<lparr>application_secret := f (application_secret s)\<rparr>"

abbreviation upd_backup ::
  "(SpdmSessionApplicationSecret \<Rightarrow> SpdmSessionApplicationSecret) \<Rightarrow> 'h SpdmSession \<Rightarrow> 'h SpdmSession" where
  "upd_backup f s \<equiv> s\<lparr>application_secret_backup := f (application_secret_backup s)\<rparr>"

abbreviation set_key_salt ::
  "SpdmAeadKeyStruct \<times> SpdmAeadIvStruct \<Rightarrow> SpdmSessionSecretParam \<Rightarrow> SpdmSessionSecretParam" where
  "set_key_salt ki p \<equiv> p\<lparr>encryption_key := fst ki, salt := snd ki\<rparr>"

text \<open>The handshake and master secrets are computed before either is assigned.\<close>

definition set_shared_secret ::
  "'h Crypto \<Rightarrow> SpdmVersion \<Rightarrow> SpdmSharedSecretFinalKeyStruct \<Rightarrow> 'h SpdmSession \<Rightarrow>
     unit SpdmResult \<times> 'h SpdmSession" where
  "set_shared_secret C ver ss self =
     (let self = upd_root (\<lambda>r. r\<lparr>shared_secret := ss\<rparr>) self;
          hash = base_hash_algo (crypto_param self)
      in assign_or_fail
           (\<lambda>s. bindR (derive_handshake_secret C ver hash (shared_secret (shared_secret_root s))) (\<lambda>hs.
                bindR (derive_master_secret C ver hash hs) (\<lambda>ms. Inr (hs, ms))))
           (\<lambda>(hs, ms). upd_root (\<lambda>r. r\<lparr>root_handshake_secret := hs, root_master_secret := ms\<rparr>))
           self)"

definition generate_handshake_secret ::
  "'h Crypto \<Rightarrow> SpdmVersion \<Rightarrow> SpdmDigestStruct \<Rightarrow> 'h SpdmSession \<Rightarrow> unit SpdmResult \<times> 'h SpdmSession" where
  "generate_handshake_secret C ver th self =
     (let hash = base_hash_algo (crypto_param self);
          aead = aead_algo (crypto_param self);
          key = (\<lambda>s. if use_psk s then None else Some (root_handshake_secret (shared_secret_root s)))
      in run_steps
        [assign_or_fail
           (\<lambda>s. derive_request_handshake_secret C (use_psk s) ver hash (key s)
                  (psk_hint (s_runtime_info s)) (Sized_as_ref th))
           (\<lambda>x. upd_hs (\<lambda>h. h\<lparr>request_handshake_secret := x\<rparr>)),
         assign_or_fail
           (\<lambda>s. derive_response_handshake_secret C (use_psk s) ver hash (key s)
                  (psk_hint (s_runtime_info s)) (Sized_as_ref th))
           (\<lambda>x. upd_hs (\<lambda>h. h\<lparr>response_handshake_secret := x\<rparr>)),
         assign_or_fail
           (\<lambda>s. derive_finished_key C ver hash (request_handshake_secret (handshake_secret s)))
           (\<lambda>x. upd_hs (\<lambda>h. h\<lparr>request_finished_key := x\<rparr>)),
         assign_or_fail
           (\<lambda>s. derive_finished_key C ver hash (response_handshake_secret (handshake_secret s)))
           (\<lambda>x. upd_hs (\<lambda>h. h\<lparr>response_finished_key := x\<rparr>)),
         assign_or_fail
           (\<lambda>s. derive_aead_key_iv C ver hash aead (request_handshake_secret (handshake_secret s)))
           (\<lambda>x. upd_hs (\<lambda>h. h\<lparr>hs_request_direction := set_key_salt x (hs_request_direction h)\<rparr>)),
         assign_or_fail
           (\<lambda>s. derive_aead_key_iv C ver hash aead (response_handshake_secret (handshake_secret s)))
           (\<lambda>x. upd_hs (\<lambda>h. h\<lparr>hs_response_direction := set_key_salt x (hs_response_direction h)\<rparr>))]
        self)"

definition generate_data_secret ::
  "'h Crypto \<Rightarrow> SpdmVersion \<Rightarrow> SpdmDigestStruct \<Rightarrow> 'h SpdmSession \<Rightarrow> unit SpdmResult \<times> 'h SpdmSession" where
  "generate_data_secret C ver th self =
     (let hash = base_hash_algo (crypto_param self);
          aead = aead_algo (crypto_param self);
          key = (\<lambda>s. if use_psk s then None else Some (root_master_secret (shared_secret_root s)))
      in run_steps
        [assign_or_fail
           (\<lambda>s. derive_request_data_secret C (use_psk s) ver hash (key s)
                  (psk_hint (s_runtime_info s)) (Sized_as_ref th))
           (\<lambda>x. upd_app (\<lambda>a. a\<lparr>request_data_secret := x\<rparr>)),
         assign_or_fail
           (\<lambda>s. derive_response_data_secret C (use_psk s) ver hash (key s)
                  (psk_hint (s_runtime_info s)) (Sized_as_ref th))
           (\<lambda>x. upd_app (\<lambda>a. a\<lparr>response_data_secret := x\<rparr>)),
         assign_or_fail
           (\<lambda>s. derive_aead_key_iv C ver hash aead (request_data_secret (application_secret s)))
           (\<lambda>x. upd_app (\<lambda>a. a\<lparr>request_direction := set_key_salt x (request_direction a)\<rparr>)),
         assign_or_fail
           (\<lambda>s. derive_aead_key_iv C ver hash aead (response_data_secret (application_secret s)))
           (\<lambda>x. upd_app (\<lambda>a. a\<lparr>response_direction := set_key_salt x (response_direction a)\<rparr>)),
         assign_or_fail
           (\<lambda>s. derive_export_master_secret C (use_psk s) ver hash (key s) (psk_hint (s_runtime_info s)))
           (\<lambda>x. upd_app (\<lambda>a. a\<lparr>export_master_secret := x\<rparr>))]
        self)"

subsection \<open>Key update\<close>

definition update_requester_secret ::
  "'h Crypto \<Rightarrow> SpdmVersion \<Rightarrow> 'h SpdmSession \<Rightarrow> unit SpdmResult \<times> 'h SpdmSession" where
  "update_requester_secret C ver self =
     (let hash = base_hash_algo (crypto_param self);
          aead = aead_algo (crypto_param self);
          self = upd_backup (\<lambda>b. b\<lparr>request_data_secret := request_data_secret (application_secret self),
                                   request_direction := request_direction (application_secret self)\<rparr>) self;
          self = self\<lparr>requester_backup_valid := True\<rparr>
      in run_steps
        [assign_or_fail
           (\<lambda>s. derive_update_secret C ver hash (request_data_secret (application_secret s)))
           (\<lambda>x. upd_app (\<lambda>a. a\<lparr>request_data_secret := x\<rparr>)),
         assign_or_fail
           (\<lambda>s. derive_aead_key_iv C ver hash aead (request_data_secret (application_secret s)))
           (\<lambda>x. upd_app (\<lambda>a. a\<lparr>request_direction :=
                  (set_key_salt x (request_direction a))\<lparr>sequence_number := 0\<rparr>\<rparr>))]
        self)"

definition update_responder_secret ::
  "'h Crypto \<Rightarrow> SpdmVersion \<Rightarrow> 'h SpdmSession \<Rightarrow> unit SpdmResult \<times> 'h SpdmSession" where
  "update_responder_secret C ver self =
     (let hash = base_hash_algo (crypto_param self);
          aead = aead_algo (crypto_param self);
          self = upd_backup (\<lambda>b. b\<lparr>response_data_secret := response_data_secret (application_secret self),
                                   response_direction := response_direction (application_secret self)\<rparr>) self;
          self = self\<lparr>responder_backup_valid := True\<rparr>
      in run_steps
        [assign_or_fail
           (\<lambda>s. derive_update_secret C ver hash (response_data_secret (application_secret s)))
           (\<lambda>x. upd_app (\<lambda>a. a\<lparr>response_data_secret := x\<rparr>)),
         assign_or_fail
           (\<lambda>s. derive_aead_key_iv C ver hash aead (response_data_secret (application_secret s)))
           (\<lambda>x. upd_app (\<lambda>a. a\<lparr>response_direction :=
                  (set_key_salt x (response_direction a))\<lparr>sequence_number := 0\<rparr>\<rparr>))]
        self)"

definition create_data_secret_update ::
  "'h Crypto \<Rightarrow> SpdmVersion \<Rightarrow> bool \<Rightarrow> bool \<Rightarrow> 'h SpdmSession \<Rightarrow> unit SpdmResult \<times> 'h SpdmSession" where
  "create_data_secret_update C ver update_requester update_responder self =
     run_steps
       [(\<lambda>s. if update_requester then update_requester_secret C ver s else (Ok (), s)),
        (\<lambda>s. if update_responder then update_responder_secret C ver s else (Ok (), s))]
       self"

definition activate_data_secret_update ::
  "SpdmVersion \<Rightarrow> bool \<Rightarrow> bool \<Rightarrow> bool \<Rightarrow> 'h SpdmSession \<Rightarrow> 'h SpdmSession" where
  "activate_data_secret_update _ update_requester update_responder use_new_key self =
     (if \<not> use_new_key then
        let self = (if update_requester \<and> requester_backup_valid self
              then upd_app (\<lambda>a. a\<lparr>request_data_secret := request_data_secret (application_secret_backup self),
                                 request_direction := request_direction (application_secret_backup self)\<rparr>) self
              else self)
        in (if update_responder \<and> responder_backup_valid self
            then upd_app (\<lambda>a. a\<lparr>response_data_secret := response_data_secret (application_secret_backup self),
                               response_direction := response_direction (application_secret_backup self)\<rparr>) self
            else self)
      else
        let self = (if update_requester
              then (upd_backup (\<lambda>b. b\<lparr>request_data_secret := Sized_default SPDM_MAX_HASH_SIZE,
                                      request_direction := SpdmSessionSecretParam_default\<rparr>) self)
                   \<lparr>requester_backup_valid := False\<rparr>
              else self)
        in (if update_responder
            then (upd_backup (\<lambda>b. b\<lparr>response_data_secret := Sized_default SPDM_MAX_HASH_SIZE,
                                    response_direction := SpdmSessionSecretParam_default\<rparr>) self)
                 \<lparr>responder_backup_valid := False\<rparr>
            else self))"

subsection \<open>Finished keys\<close>

definition generate_hmac_with_response_finished_key ::
  "'h Crypto \<Rightarrow> bytes \<Rightarrow> 'h SpdmSession \<Rightarrow> SpdmDigestStruct SpdmResult" where
  "generate_hmac_with_response_finished_key C message_hash self =
     ok_or (Fail SPDM_STATUS_CRYPTO_ERROR)
       (hmac C (base_hash_algo (crypto_param self))
          (Sized_as_ref (response_finished_key (handshake_secret self))) message_hash)"

definition generate_hmac_with_request_finished_key ::
  "'h Crypto \<Rightarrow> bytes \<Rightarrow> 'h SpdmSession \<Rightarrow> SpdmDigestStruct SpdmResult" where
  "generate_hmac_with_request_finished_key C message_hash self =
     ok_or (Fail SPDM_STATUS_CRYPTO_ERROR)
       (hmac C (base_hash_algo (crypto_param self))
          (Sized_as_ref (request_finished_key (handshake_secret self))) message_hash)"

definition verify_hmac_with_response_finished_key ::
  "'h Crypto \<Rightarrow> bytes \<Rightarrow> SpdmDigestStruct \<Rightarrow> 'h SpdmSession \<Rightarrow> unit SpdmResult" where
  "verify_hmac_with_response_finished_key C message_hash mac self =
     hmac_verify C (base_hash_algo (crypto_param self))
       (Sized_as_ref (response_finished_key (handshake_secret self))) message_hash mac"

definition verify_hmac_with_request_finished_key ::
  "'h Crypto \<Rightarrow> bytes \<Rightarrow> SpdmDigestStruct \<Rightarrow> 'h SpdmSession \<Rightarrow> unit SpdmResult" where
  "verify_hmac_with_request_finished_key C message_hash mac self =
     hmac_verify C (base_hash_algo (crypto_param self))
       (Sized_as_ref (request_finished_key (handshake_secret self))) message_hash mac"

definition export_keys :: "'h SpdmSession \<Rightarrow> SpdmSessionSecretParam \<times> SpdmSessionSecretParam" where
  "export_keys self =
     (\<lparr>encryption_key = encryption_key (request_direction (application_secret self)),
       salt = salt (request_direction (application_secret self)),
       sequence_number = sequence_number (request_direction (application_secret self))\<rparr>,
      \<lparr>encryption_key = encryption_key (response_direction (application_secret self)),
       salt = salt (response_direction (application_secret self)),
       sequence_number = sequence_number (response_direction (application_secret self))\<rparr>)"

subsection \<open>Laws\<close>

lemma set_default_simps [simp]:
  "session_id (set_default self) = INVALID_SESSION_ID"
  "session_state (set_default self) = SpdmSessionNotStarted"
  "handshake_secret (set_default self) = SpdmSessionHandshakeSecret_default"
  "application_secret (set_default self) = SpdmSessionApplicationSecret_default"
  "application_secret_backup (set_default self) = SpdmSessionApplicationSecret_default"
  "shared_secret_root (set_default self) = SpdmSessionSharedSecretRoot_default"
  "crypto_param (set_default self) = SpdmSessionCryptoParam_default"
  "s_runtime_info (set_default self) = SpdmSessionRuntimeInfo_default"
  "requester_backup_valid (set_default self) = requester_backup_valid self"
  "responder_backup_valid (set_default self) = responder_backup_valid self"
  by (simp_all add: set_default_def)

end
