(* ===== verification/SecuredMessage.thy ===== *)
theory SecuredMessage
  imports Session
begin

text \<open>
  Protection of messages in a session: \<open>encode_msg\<close>, \<open>decode_msg\<close>, \<open>encode_spdm_secured_message\<close> and
  \<open>decode_spdm_secured_message\<close> of \<open>spdmlib/src/common/session.rs\<close>.

  A secured message is the session id, the low bytes of the sequence number that the transport asks
  for and a length (the associated data), followed by the encrypted application length and data
  and the AEAD tag. The nonce is the salt of the direction with the sequence number XORed into
  its first eight bytes.

  The buffer a caller passes for the result is returned with the number of bytes used. Buffers
  have the sizes of \<open>spdmlib/etc/config.json\<close>.
\<close>

definition SENDER_BUFFER_SIZE :: usize where "SENDER_BUFFER_SIZE = 4160"
definition RECEIVER_BUFFER_SIZE :: usize where "RECEIVER_BUFFER_SIZE = 4160"

definition seq_byte :: "u64 \<Rightarrow> nat \<Rightarrow> u8" where
  "seq_byte seq i = ucast (drop_bit (8 * i) seq AND 0xFF)"

text \<open>\<open>sequence_number >> (8 * i)\<close> overflows its shift from \<open>i = 8\<close> on.\<close>

fun write_seq_bytes :: "u64 \<Rightarrow> nat list \<Rightarrow> Writer \<Rightarrow> Writer SpdmResult" where
  "write_seq_bytes seq [] w = Ok w"
| "write_seq_bytes seq (i # is) w =
     (if 8 \<le> i then panic
      else bindR (map_err (encode_fault SPDM_STATUS_BUFFER_TOO_SMALL) (u8_encode (seq_byte seq i) w))
             (\<lambda>(_, w). write_seq_bytes seq is w))"

fun check_seq_bytes :: "u64 \<Rightarrow> nat list \<Rightarrow> Reader \<Rightarrow> Reader SpdmResult" where
  "check_seq_bytes seq [] r = Ok r"
| "check_seq_bytes seq (i # is) r =
     bindR (ok_or (Fail SPDM_STATUS_DECODE_AEAD_FAIL) (u8_read r)) (\<lambda>(s, r).
       if 8 \<le> i then panic
       else if s \<noteq> seq_byte seq i then Err SPDM_STATUS_DECODE_AEAD_FAIL
       else check_seq_bytes seq is r)"

text \<open>\<open>salt.data[0] ^= ..; .. salt.data[7] ^= ..\<close>\<close>

definition mask_salt :: "u64 \<Rightarrow> SpdmAeadIvStruct \<Rightarrow> SpdmAeadIvStruct" where
  "mask_salt seq s = s\<lparr>data := map (\<lambda>i. if i < 8 then data s ! i XOR seq_byte seq i else data s ! i)
     [0..<length (data s)]\<rparr>"

definition encode_msg ::
  "'h Crypto \<Rightarrow> 'h SpdmSession \<Rightarrow> bytes \<Rightarrow> bytes \<Rightarrow> SpdmSessionSecretParam \<Rightarrow> (usize \<times> bytes) SpdmResult" where
  "encode_msg C self app_buffer secured_buffer secret_param =
     (let aead = aead_algo (crypto_param self);
          count = unat (sequence_number_count (transport_param self));
          cipher_text_size = length app_buffer + 2;
          seq = sequence_number secret_param
      in
      bindR (SpdmAeadAlgo_get_tag_size aead) (\<lambda>tag_size16.
      let tag_size = unat tag_size16;
          app_length = of_nat (length app_buffer) :: u16
      in
      if 65536 \<le> unat (of_nat cipher_text_size :: u16) + unat tag_size16 then panic else
      let len = (of_nat cipher_text_size :: u16) + tag_size16 in
      if seq = 0xFFFFFFFFFFFFFFFF then Err SPDM_STATUS_SEQUENCE_NUMBER_OVERFLOW else
      bindR (map_err (encode_fault SPDM_STATUS_BUFFER_TOO_SMALL)
               (u32_encode (session_id self) (Writer_init (replicate (6 + 8) 0)))) (\<lambda>(_, writer).
      bindR (if count \<noteq> 0 then write_seq_bytes seq [0..<count] writer else Ok writer) (\<lambda>writer.
      bindR (map_err (encode_fault SPDM_STATUS_BUFFER_TOO_SMALL) (u16_encode len writer)) (\<lambda>(_, writer).
      let aad_size = Writer_used writer;
          aad = take aad_size (wr_buf writer)
      in
      if aad_size \<noteq> 6 + count then panic else
      bindR (map_err (encode_fault SPDM_STATUS_BUFFER_TOO_SMALL)
               (u16_encode app_length (Writer_init (replicate SENDER_BUFFER_SIZE 0)))) (\<lambda>(_, writer).
      let head_size = Writer_used writer in
      if head_size \<noteq> 2 then panic else
      if SENDER_BUFFER_SIZE < head_size + length app_buffer then panic else
      let plain_text_buf = copy_at head_size app_buffer (wr_buf writer) in
      if length secured_buffer < aad_size + cipher_text_size then panic else
      bindR (aead_encrypt C aead (encryption_key secret_param) (mask_salt seq (salt secret_param))
               aad (take cipher_text_size plain_text_buf) tag_size cipher_text_size)
        (\<lambda>(ret_cipher_text_size, ret_tag_size, tag_buffer, cipher_text).
      if ret_tag_size \<noteq> tag_size then panic else
      if ret_cipher_text_size \<noteq> cipher_text_size then panic else
      if length secured_buffer < aad_size + cipher_text_size + tag_size then panic else
      let secured_buffer = copy_at aad_size cipher_text secured_buffer;
          secured_buffer = copy_at 0 aad secured_buffer;
          secured_buffer = copy_at (aad_size + cipher_text_size) tag_buffer secured_buffer
      in Ok (aad_size + cipher_text_size + tag_size, secured_buffer))))))))"

definition decode_msg ::
  "'h Crypto \<Rightarrow> 'h SpdmSession \<Rightarrow> bytes \<Rightarrow> bytes \<Rightarrow> SpdmSessionSecretParam \<Rightarrow> (usize \<times> bytes) SpdmResult" where
  "decode_msg C self secured_buffer app_buffer secret_param =
     (let aead = aead_algo (crypto_param self);
          count = unat (sequence_number_count (transport_param self));
          seq = sequence_number secret_param
      in
      bindR (SpdmAeadAlgo_get_tag_size aead) (\<lambda>tag_size16.
      let tag_size = unat tag_size16 in
      if seq = 0xFFFFFFFFFFFFFFFF then Err SPDM_STATUS_SEQUENCE_NUMBER_OVERFLOW else
      bindR (ok_or (Fail SPDM_STATUS_DECODE_AEAD_FAIL) (u32_read (Reader_init secured_buffer)))
        (\<lambda>(read_session_id, reader).
      if read_session_id \<noteq> session_id self then Err SPDM_STATUS_DECODE_AEAD_FAIL else
      bindR (if count \<noteq> 0 then check_seq_bytes seq [0..<count] reader else Ok reader) (\<lambda>reader.
      bindR (ok_or (Fail SPDM_STATUS_DECODE_AEAD_FAIL) (u16_read reader)) (\<lambda>(len, reader).
      let aad_size = Reader_used reader in
      if aad_size \<noteq> 6 + count then panic else
      if length secured_buffer < unat len + aad_size then Err SPDM_STATUS_DECODE_AEAD_FAIL else
      if unat len < tag_size then Err SPDM_STATUS_DECODE_AEAD_FAIL else
      let cipher_text_size = unat len - tag_size in
      if RECEIVER_BUFFER_SIZE < cipher_text_size then panic else
      bindR (aead_decrypt C aead (encryption_key secret_param) (mask_salt seq (salt secret_param))
               (take aad_size secured_buffer)
               (take cipher_text_size (drop aad_size secured_buffer))
               (take tag_size (drop (aad_size + cipher_text_size) secured_buffer))
               cipher_text_size)
        (\<lambda>(ret_plain_text_size, plain_text).
      let plain_text_buf = copy_at 0 plain_text (replicate RECEIVER_BUFFER_SIZE 0) in
      bindR (ok_or (Fail SPDM_STATUS_DECODE_AEAD_FAIL) (u16_read (Reader_init plain_text_buf)))
        (\<lambda>(app_len, _).
      let app_length = unat app_len in
      if ret_plain_text_size < app_length + 2 then Err SPDM_STATUS_DECODE_AEAD_FAIL else
      if length app_buffer < app_length \<or> RECEIVER_BUFFER_SIZE < app_length + 2 then panic else
      Ok (app_length, copy_at 0 (take app_length (drop 2 plain_text_buf)) app_buffer))))))))"

subsection \<open>Messages of a session\<close>

definition is_err :: "SpdmStatus \<Rightarrow> 'a SpdmResult \<Rightarrow> bool" where
  "is_err s r \<longleftrightarrow> (case r of Inl (Fail e) \<Rightarrow> SpdmStatus_eq e s | _ \<Rightarrow> False)"

text \<open>A session whose sequence number is used up is wiped.\<close>

definition wipe_on_overflow :: "'a SpdmResult \<Rightarrow> 'h SpdmSession \<Rightarrow> 'h SpdmSession" where
  "wipe_on_overflow r self =
     (case r of
        Inl (Fail e) \<Rightarrow> if status_code e = CRYPTO SEQUENCE_NUMBER_OVERFLOW then set_default self else self
      | _ \<Rightarrow> self)"

abbreviation inc_seq :: "SpdmSessionSecretParam \<Rightarrow> SpdmSessionSecretParam" where
  "inc_seq p \<equiv> p\<lparr>sequence_number := sequence_number p + 1\<rparr>"

definition encode_spdm_secured_message ::
  "'h Crypto \<Rightarrow> bytes \<Rightarrow> bytes \<Rightarrow> bool \<Rightarrow> 'h SpdmSession \<Rightarrow> (usize \<times> bytes) SpdmResult \<times> 'h SpdmSession" where
  "encode_spdm_secured_message C app_buffer secured_buffer is_requester self =
     (let (r, self) =
        (case session_state self of
           SpdmSessionNotStarted \<Rightarrow> (Err SPDM_STATUS_INVALID_STATE_LOCAL, self)
         | SpdmSessionHandshaking \<Rightarrow>
             if is_requester then
               let r = encode_msg C self app_buffer secured_buffer (hs_request_direction (handshake_secret self))
               in (r, if is_ok r
                      then upd_hs (\<lambda>h. h\<lparr>hs_request_direction := inc_seq (hs_request_direction h)\<rparr>) self else self)
             else
               let r = encode_msg C self app_buffer secured_buffer (hs_response_direction (handshake_secret self))
               in (r, if is_ok r
                      then upd_hs (\<lambda>h. h\<lparr>hs_response_direction := inc_seq (hs_response_direction h)\<rparr>) self else self)
         | SpdmSessionEstablished \<Rightarrow>
             if is_requester then
               let r = encode_msg C self app_buffer secured_buffer (request_direction (application_secret self))
               in (r, if is_ok r
                      then upd_app (\<lambda>a. a\<lparr>request_direction := inc_seq (request_direction a)\<rparr>) self else self)
             else
               let r = encode_msg C self app_buffer secured_buffer (response_direction (application_secret self))
               in (r, if is_ok r
                      then upd_app (\<lambda>a. a\<lparr>response_direction := inc_seq (response_direction a)\<rparr>) self else self)
         | SpdmSessionStateUnknown _ \<Rightarrow> (panic, self))
      in (r, wipe_on_overflow r self))"

definition decode_spdm_secured_message ::
  "'h Crypto \<Rightarrow> bytes \<Rightarrow> bytes \<Rightarrow> bool \<Rightarrow> 'h SpdmSession \<Rightarrow> (usize \<times> bytes) SpdmResult \<times> 'h SpdmSession" where
  "decode_spdm_secured_message C secured_buffer app_buffer is_requester self =
     (let (r, self) =
        (case session_state self of
           SpdmSessionNotStarted \<Rightarrow> (Err SPDM_STATUS_INVALID_STATE_LOCAL, self)
         | SpdmSessionHandshaking \<Rightarrow>
             if is_requester then
               let r = decode_msg C self secured_buffer app_buffer (hs_request_direction (handshake_secret self))
               in (r, if \<not> is_err SPDM_STATUS_SEQUENCE_NUMBER_OVERFLOW r
                      then upd_hs (\<lambda>h. h\<lparr>hs_request_direction := inc_seq (hs_request_direction h)\<rparr>) self else self)
             else
               let r = decode_msg C self secured_buffer app_buffer (hs_response_direction (handshake_secret self))
               in (r, if \<not> is_err SPDM_STATUS_SEQUENCE_NUMBER_OVERFLOW r
                      then upd_hs (\<lambda>h. h\<lparr>hs_response_direction := inc_seq (hs_response_direction h)\<rparr>) self else self)
         | SpdmSessionEstablished \<Rightarrow>
             if is_requester then
               let r = decode_msg C self secured_buffer app_buffer (request_direction (application_secret self))
               in (r, if \<not> is_err SPDM_STATUS_SEQUENCE_NUMBER_OVERFLOW r
                      then upd_app (\<lambda>a. a\<lparr>request_direction := inc_seq (request_direction a)\<rparr>) self else self)
             else
               let r = decode_msg C self secured_buffer app_buffer (response_direction (application_secret self))
               in if is_err SPDM_STATUS_CRYPTO_ERROR r \<and> responder_backup_valid self then
                    let r_backup = decode_msg C self secured_buffer app_buffer
                                     (response_direction (application_secret_backup self))
                    in (r_backup, if \<not> is_err SPDM_STATUS_SEQUENCE_NUMBER_OVERFLOW r_backup
                                  then upd_backup (\<lambda>b. b\<lparr>response_direction := inc_seq (response_direction b)\<rparr>) self
                                  else self)
                  else if \<not> is_err SPDM_STATUS_SEQUENCE_NUMBER_OVERFLOW r
                  then (r, upd_app (\<lambda>a. a\<lparr>response_direction := inc_seq (response_direction a)\<rparr>) self)
                  else (r, self)
         | SpdmSessionStateUnknown _ \<Rightarrow> (Err SPDM_STATUS_INVALID_STATE_LOCAL, self))
      in (r, wipe_on_overflow r self))"

subsection \<open>The associated data\<close>

definition seq_image :: "nat \<Rightarrow> u64 \<Rightarrow> bytes" where
  "seq_image count seq = map (seq_byte seq) [0..<count]"

definition aad_image :: "'h SpdmSession \<Rightarrow> u64 \<Rightarrow> u16 \<Rightarrow> bytes" where
  "aad_image self seq len = u32_image (session_id self) @
     seq_image (unat (sequence_number_count (transport_param self))) seq @ put_u16 len"

lemma length_seq_image [simp]: "length (seq_image n seq) = n"
  by (simp add: seq_image_def)

lemma length_aad_image [simp]:
  "length (aad_image self seq len) = 6 + unat (sequence_number_count (transport_param self))"
  by (simp add: aad_image_def)

lemma write_seq_bytes_eq:
  "writer_ok w \<Longrightarrow> length is \<le> Writer_left w \<Longrightarrow> \<forall>i \<in> set is. i < 8 \<Longrightarrow>
   write_seq_bytes seq is w = Ok (Writer_append (map (seq_byte seq) is) w)"
proof (induction "is" arbitrary: w)
  case (Cons i "is")
  have "u8_encode (seq_byte seq i) w = Inr (1, Writer_append [seq_byte seq i] w)"
    using u8.encode_fits [OF TrueI Cons.prems(1), of "seq_byte seq i"] Cons.prems by simp
  with Cons show ?case by (simp add: Writer_append_append not_le)
qed simp

lemma check_seq_bytes_eq:
  "\<forall>i \<in> set is. i < 8 \<Longrightarrow>
   check_seq_bytes seq is (rdr pre (map (seq_byte seq) is @ post)) = Ok (rdr (pre @ map (seq_byte seq) is) post)"
  by (induction "is" arbitrary: pre) (auto simp: reads_simps not_le)

lemma check_seq_bytes_ok:
  "check_seq_bytes seq is (rdr pre bs) = Ok r \<Longrightarrow>
   \<exists>post. bs = map (seq_byte seq) is @ post \<and> r = rdr (pre @ map (seq_byte seq) is) post"
proof (induction "is" arbitrary: pre bs)
  case (Cons i "is")
  then obtain b bs' where "bs = b # bs'" by (cases bs) (auto simp: reads_simps)
  with Cons.prems have "b = seq_byte seq i"
    "check_seq_bytes seq is (rdr (pre @ [b]) bs') = Ok r"
    by (auto simp: reads_simps split: if_splits)
  with Cons.IH [of "pre @ [b]" bs'] \<open>bs = b # bs'\<close> show ?case by auto
qed simp

text \<open>The associated data that \<open>encode_msg\<close> writes.\<close>

lemma aad_writer:
  assumes "unat (sequence_number_count (transport_param self)) = count" "count \<le> 8"
  shows "bindR (map_err f (u32_encode (session_id self) (Writer_init (replicate 14 0)))) (\<lambda>(_, w).
     bindR (if count \<noteq> 0 then write_seq_bytes seq [0..<count] w else Ok w) (\<lambda>w.
     bindR (map_err f (u16_encode len w)) (\<lambda>(_, w). k w))) =
     k (Writer_append (aad_image self seq len) (Writer_init (replicate 14 0)))"
proof -
  let ?w0 = "Writer_init (replicate 14 0)"
  define w1 where "w1 = Writer_append (u32_image (session_id self)) ?w0"
  define w2 where "w2 = Writer_append (seq_image count seq) w1"
  have 1: "u32_encode (session_id self) ?w0 = Inr (4, w1)" "writer_ok w1" "Writer_left w1 = 10"
    using u32.encode_fits [OF TrueI writer_ok_init, of "session_id self" "replicate 14 0"] by (simp_all add: w1_def)
  have 2: "(if count \<noteq> 0 then write_seq_bytes seq [0..<count] w1 else Ok w1) = Ok w2"
    using write_seq_bytes_eq [OF 1(2), of "[0..<count]" seq] 1(3) assms(2)
    by (auto simp: w2_def seq_image_def)
  have 3: "writer_ok w2" "Writer_left w2 = 10 - count"
    using 1(2,3) assms(2) by (simp_all add: w2_def)
  have 4: "u16_encode len w2 = Inr (2, Writer_append (put_u16 len) w2)"
    using u16.encode_fits [OF TrueI 3(1), of len] 3(2) assms(2) by simp
  have "Writer_append (put_u16 len) w2 = Writer_append (aad_image self seq len) ?w0"
    using assms by (simp add: w2_def w1_def aad_image_def Writer_append_append)
  then show ?thesis by (simp only: 1 2 4 bindR.simps map_err.simps prod.case)
qed

subsection \<open>Encoding, then decoding\<close>

definition plain_image :: "bytes \<Rightarrow> bytes" where
  "plain_image app = put_u16 (of_nat (length app)) @ app"

definition seq_count :: "'h SpdmSession \<Rightarrow> nat" where
  "seq_count self = unat (sequence_number_count (transport_param self))"

text \<open>A session and a direction that can protect messages: a negotiated AEAD algorithm, at most
  eight bytes of sequence number on the wire, and keys as \<open>derive_aead_key_iv\<close> makes them.\<close>

definition direction_ok :: "'h SpdmSession \<Rightarrow> SpdmSessionSecretParam \<Rightarrow> bool" where
  "direction_ok self p \<longleftrightarrow> aead_algo_ok (aead_algo (crypto_param self)) \<and> seq_count self \<le> 8
     \<and> key_iv_ok (encryption_key p, salt p)"

lemma mask_salt_ok: "Sized_ok n s \<Longrightarrow> Sized_ok n (mask_salt seq s) \<and> data_size (mask_salt seq s) = data_size s"
  by (simp add: mask_salt_def Sized_ok_def)

text \<open>The provider's AEAD: it encrypts whatever it is given, into buffers of the size asked
  for, and decrypts what it has encrypted.\<close>

definition aead_ok :: "'h Crypto \<Rightarrow> bool" where
  "aead_ok C \<longleftrightarrow> (\<forall>a key iv aad pt. aead_algo_ok a \<longrightarrow> Sized_ok 32 key \<longrightarrow> data_size key = 32 \<longrightarrow>
     Sized_ok 12 iv \<longrightarrow> data_size iv = 12 \<longrightarrow>
     (\<exists>tag ct. aead_encrypt C a key iv aad pt 16 (length pt) = Ok (length pt, 16, tag, ct)
        \<and> length tag = 16 \<and> length ct = length pt
        \<and> aead_decrypt C a key iv aad ct tag (length pt) = Ok (length pt, pt)))"

lemma length_plain_image [simp]: "length (plain_image app) = length app + 2"
  by (simp add: plain_image_def)

lemma copy_three:
  assumes "length a + length b + length c \<le> length sb"
  shows "take (length a + length b + length c)
       (copy_at (length a + length b) c (copy_at 0 a (copy_at (length a) b sb))) = a @ b @ c"
    and "length (copy_at (length a + length b) c (copy_at 0 a (copy_at (length a) b sb))) = length sb"
  using assms by (simp_all add: copy_at_def)

lemma plain_buffer:
  assumes "length app + 2 \<le> SENDER_BUFFER_SIZE"
  shows "u16_encode (of_nat (length app)) (Writer_init (replicate SENDER_BUFFER_SIZE 0)) =
      Inr (2, Writer_append (put_u16 (of_nat (length app))) (Writer_init (replicate SENDER_BUFFER_SIZE 0)))"
    and "take (length app + 2) (copy_at 2 app (wr_buf (Writer_append (put_u16 (of_nat (length app)))
      (Writer_init (replicate SENDER_BUFFER_SIZE 0))))) = plain_image app"
    and "Writer_used (Writer_append (put_u16 (of_nat (length app))) (Writer_init (replicate SENDER_BUFFER_SIZE 0))) = 2"
proof -
  show "u16_encode (of_nat (length app)) (Writer_init (replicate SENDER_BUFFER_SIZE 0)) =
      Inr (2, Writer_append (put_u16 (of_nat (length app))) (Writer_init (replicate SENDER_BUFFER_SIZE 0)))"
    using u16.encode_fits [OF TrueI writer_ok_init, of "of_nat (length app)" "replicate SENDER_BUFFER_SIZE 0"] assms
    by simp
  show "take (length app + 2) (copy_at 2 app (wr_buf (Writer_append (put_u16 (of_nat (length app)))
      (Writer_init (replicate SENDER_BUFFER_SIZE 0))))) = plain_image app"
    using assms by (simp add: Writer_append_def Writer_init_def copy_at_def plain_image_def)
qed (use assms in \<open>simp add: Writer_append_init Writer_used_def\<close>)

lemma encode_msg_room:
  assumes d: "direction_ok self p" and seq: "sequence_number p \<noteq> 0xFFFFFFFFFFFFFFFF"
    and app: "length app + 2 \<le> SENDER_BUFFER_SIZE" and room: "24 + seq_count self + length app \<le> length sb"
    and enc: "aead_encrypt C (aead_algo (crypto_param self)) (encryption_key p)
        (mask_salt (sequence_number p) (salt p))
        (aad_image self (sequence_number p) (of_nat (length app + 18))) (plain_image app) 16 (length app + 2) =
        Ok (length app + 2, 16, tag, ct)"
    and len: "length tag = 16" "length ct = length app + 2"
  shows "\<exists>sb'. encode_msg C self app sb p = Ok (24 + seq_count self + length app, sb')
     \<and> take (24 + seq_count self + length app) sb' =
         aad_image self (sequence_number p) (of_nat (length app + 18)) @ ct @ tag
     \<and> length sb' = length sb"
proof -
  have a: "SpdmAeadAlgo_get_tag_size (aead_algo (crypto_param self)) = Ok 16"
    and count: "unat (sequence_number_count (transport_param self)) = seq_count self" "seq_count self \<le> 8"
    using d by (simp_all add: direction_ok_def seq_count_def)
  have small: "length app + 2 < 65536" using app by (simp add: SENDER_BUFFER_SIZE_def)
  define aad where "aad = aad_image self (sequence_number p) (of_nat (length app + 18))"
  define w where "w = Writer_append aad (Writer_init (replicate 14 0))"
  have aadlen: "length aad = 6 + seq_count self" by (simp add: aad_def count)
  have w: "Writer_used w = 6 + seq_count self" "take (6 + seq_count self) (wr_buf w) = aad"
    using aadlen count(2) by (simp_all add: w_def Writer_append_init Writer_used_def copy_at_def)
  have six_eight: "6 + 8 = (14 :: nat)" by simp
  have words: "(of_nat (length app + 2) :: u16) + 16 = of_nat (length app + 18)"
    "\<not> 65536 \<le> unat (of_nat (length app + 2) :: u16) + unat (16 :: u16)"
    using app unat_of_nat_u16 [OF small] by (simp, simp only: SENDER_BUFFER_SIZE_def) simp
  have "encode_msg C self app sb p = Ok (6 + seq_count self + (length app + 2) + 16,
     copy_at (6 + seq_count self + (length app + 2)) tag (copy_at 0 aad (copy_at (6 + seq_count self) ct sb)))"
    using room app seq len
    unfolding encode_msg_def Let_def
    apply (simp only: a bindR.simps count words if_False simp_thms seq aad_writer [OF count(1,2)] six_eight)
    by (simp only: flip: aad_def w_def)
      (simp add: w enc [folded aad_def] plain_buffer [OF app] not_le del: add_2_eq_Suc')
  moreover have "length aad + length ct + length tag = 24 + seq_count self + length app"
    using aadlen len by simp
  ultimately show ?thesis
    using copy_three [of aad ct tag sb] room len aadlen
    unfolding aad_def [symmetric] by (metis (no_types, lifting) add.assoc)
qed

text \<open>The associated data that \<open>decode_msg\<close> accepts.\<close>

lemma aad_reader:
  assumes "unat (sequence_number_count (transport_param self)) = count" "count \<le> 8"
  shows "bindR (ok_or f (u32_read (Reader_init (aad_image self seq len @ post)))) (\<lambda>(sid, r).
     if sid \<noteq> session_id self then e else
     bindR (if count \<noteq> 0 then check_seq_bytes seq [0..<count] r else Ok r) (\<lambda>r.
     bindR (ok_or f (u16_read r)) (\<lambda>(n, r). k n r))) =
     k len (rdr (aad_image self seq len) post)"
proof -
  have 1: "u32_read (Reader_init (aad_image self seq len @ post)) =
     Some (session_id self, rdr (u32_image (session_id self)) (seq_image count seq @ put_u16 len @ post))"
    using assms by (simp add: Reader_init_rdr aad_image_def reads_simps)
  have 2: "(if count \<noteq> 0 then check_seq_bytes seq [0..<count]
        (rdr (u32_image (session_id self)) (seq_image count seq @ put_u16 len @ post))
      else Ok (rdr (u32_image (session_id self)) (seq_image count seq @ put_u16 len @ post))) =
     Ok (rdr (u32_image (session_id self) @ seq_image count seq) (put_u16 len @ post))"
    using check_seq_bytes_eq [of "[0..<count]" seq "u32_image (session_id self)" "put_u16 len @ post"] assms(2)
    by (simp add: seq_image_def)
  show ?thesis
    by (simp only: 1 2 ok_or.simps bindR.simps prod.case simp_thms if_False)
      (simp add: reads_simps aad_image_def assms)
qed

lemma decode_msg_frame:
  assumes d: "direction_ok self p" and seq: "sequence_number p \<noteq> 0xFFFFFFFFFFFFFFFF"
    and bs: "bs = aad_image self (sequence_number p) (of_nat (length app + 18)) @ ct @ tag @ rest"
    and len: "length tag = 16" "length ct = length app + 2"
    and app: "length app + 2 \<le> RECEIVER_BUFFER_SIZE" "length app \<le> length ab"
    and dec: "aead_decrypt C (aead_algo (crypto_param self)) (encryption_key p)
        (mask_salt (sequence_number p) (salt p))
        (aad_image self (sequence_number p) (of_nat (length app + 18))) ct tag (length app + 2) =
        Ok (length app + 2, plain_image app)"
  shows "decode_msg C self bs ab p = Ok (length app, copy_at 0 app ab)"
proof -
  have a: "SpdmAeadAlgo_get_tag_size (aead_algo (crypto_param self)) = Ok 16" "unat (16 :: u16) = 16"
    and count: "unat (sequence_number_count (transport_param self)) = seq_count self" "seq_count self \<le> 8"
    using d by (simp_all add: direction_ok_def seq_count_def)
  define aad where "aad = aad_image self (sequence_number p) (of_nat (length app + 18))"
  have aadlen: "length aad = 6 + seq_count self" by (simp add: aad_def count)
  have n: "unat (of_nat (length app + 18) :: u16) = length app + 18"
    using app by (intro unat_of_nat_u16) (simp add: RECEIVER_BUFFER_SIZE_def)
  have plain: "u16_read (Reader_init (copy_at 0 (plain_image app) (replicate RECEIVER_BUFFER_SIZE 0))) =
      Some (of_nat (length app), rdr (put_u16 (of_nat (length app))) (app @ replicate (RECEIVER_BUFFER_SIZE - (length app + 2)) 0))"
    "take (length app) (drop 2 (copy_at 0 (plain_image app) (replicate RECEIVER_BUFFER_SIZE 0))) = app"
    "unat (of_nat (length app) :: u16) = length app"
    using app by (simp_all add: plain_image_def copy_at_def Reader_init_rdr reads_simps RECEIVER_BUFFER_SIZE_def)
  have sizes: "length app + 18 - 16 = length app + 2" "\<not> length app + 18 < 16"
    "Reader_used (rdr aad (ct @ tag @ rest)) = 6 + seq_count self"
    "\<not> length (aad @ ct @ tag @ rest) < length app + 18 + (6 + seq_count self)"
    "\<not> RECEIVER_BUFFER_SIZE < length app + 2" "\<not> length app + 2 < length app + 2" "\<not> length ab < length app"
    using app len aadlen by (simp_all add: rdr_def Reader_used_def)
  have slices: "take (6 + seq_count self) (aad @ ct @ tag @ rest) = aad"
    "take (length app + 2) (drop (6 + seq_count self) (aad @ ct @ tag @ rest)) = ct"
    "take 16 (drop (6 + seq_count self + (length app + 2)) (aad @ ct @ tag @ rest)) = tag"
    using len aadlen by simp_all
  show ?thesis
    unfolding decode_msg_def Let_def a(1) bs
    by (simp only: bindR.simps count(1) seq if_False aad_reader [OF count(1,2)] n a(2))
      (simp only: aad_def [symmetric] sizes slices dec [folded aad_def] plain bindR.simps prod.case
        ok_or.simps simp_thms if_False)
qed

text \<open>Two ends of a channel agree on what the frame depends on.\<close>

definition same_channel :: "'h SpdmSession \<Rightarrow> 'h SpdmSession \<Rightarrow> bool" where
  "same_channel self peer \<longleftrightarrow> session_id self = session_id peer
     \<and> aead_algo (crypto_param self) = aead_algo (crypto_param peer)
     \<and> sequence_number_count (transport_param self) = sequence_number_count (transport_param peer)"

definition app_fits :: "bytes \<Rightarrow> bool" where
  "app_fits app \<longleftrightarrow> length app + 2 \<le> SENDER_BUFFER_SIZE \<and> length app + 2 \<le> RECEIVER_BUFFER_SIZE"

definition frame_size :: "'h SpdmSession \<Rightarrow> bytes \<Rightarrow> nat" where
  "frame_size self app = 24 + seq_count self + length app"

lemma encode_msg_frame:
  assumes "aead_ok C" "direction_ok self p" "sequence_number p \<noteq> 0xFFFFFFFFFFFFFFFF"
    and "app_fits app" "frame_size self app \<le> length sb"
  shows "\<exists>sb' rest. encode_msg C self app sb p = Ok (frame_size self app, sb')
     \<and> take (frame_size self app) sb' = aad_image self (sequence_number p) (of_nat (length app + 18)) @ rest"
proof -
  have key: "Sized_ok 32 (encryption_key p)" "data_size (encryption_key p) = 32"
    and iv: "Sized_ok 12 (mask_salt (sequence_number p) (salt p))"
      "data_size (mask_salt (sequence_number p) (salt p)) = 12"
    using assms(2) secret_ok_D [of 32 "encryption_key p"] secret_ok_D [of 12 "salt p"] mask_salt_ok [of 12 "salt p"]
    by (simp_all add: direction_ok_def key_iv_ok_def)
  obtain tag ct where enc: "aead_encrypt C (aead_algo (crypto_param self)) (encryption_key p)
      (mask_salt (sequence_number p) (salt p)) (aad_image self (sequence_number p) (of_nat (length app + 18)))
      (plain_image app) 16 (length app + 2) = Ok (length app + 2, 16, tag, ct)"
    and len: "length tag = 16" "length ct = length app + 2"
    using assms(1,2) key iv unfolding aead_ok_def direction_ok_def
    by (metis length_plain_image)
  from encode_msg_room [OF assms(2,3) _ _ enc len, of sb] assms(4,5) show ?thesis
    unfolding app_fits_def frame_size_def by blast
qed

lemma msg_round_trip:
  assumes "aead_ok C" "direction_ok self p" "sequence_number p \<noteq> 0xFFFFFFFFFFFFFFFF"
    and "app_fits app" "frame_size self app \<le> length sb" "same_channel self peer"
  shows "\<exists>sb'. encode_msg C self app sb p = Ok (frame_size self app, sb') \<and> length sb' = length sb
     \<and> (\<forall>rest ab. length app \<le> length ab \<longrightarrow>
          decode_msg C peer (take (frame_size self app) sb' @ rest) ab p = Ok (length app, copy_at 0 app ab))"
proof -
  let ?aad = "aad_image self (sequence_number p) (of_nat (length app + 18))"
  have key: "Sized_ok 32 (encryption_key p)" "data_size (encryption_key p) = 32"
    and iv: "Sized_ok 12 (mask_salt (sequence_number p) (salt p))"
      "data_size (mask_salt (sequence_number p) (salt p)) = 12"
    using assms(2) secret_ok_D [of 32 "encryption_key p"] secret_ok_D [of 12 "salt p"] mask_salt_ok [of 12 "salt p"]
    by (simp_all add: direction_ok_def key_iv_ok_def)
  obtain tag ct where enc: "aead_encrypt C (aead_algo (crypto_param self)) (encryption_key p)
      (mask_salt (sequence_number p) (salt p)) ?aad (plain_image app) 16 (length app + 2) =
      Ok (length app + 2, 16, tag, ct)"
    and len: "length tag = 16" "length ct = length app + 2"
    and dec: "aead_decrypt C (aead_algo (crypto_param self)) (encryption_key p)
      (mask_salt (sequence_number p) (salt p)) ?aad ct tag (length app + 2) = Ok (length app + 2, plain_image app)"
    using assms(1,2) key iv unfolding aead_ok_def direction_ok_def
    by (metis length_plain_image)
  obtain sb' where sb': "encode_msg C self app sb p = Ok (frame_size self app, sb')"
      "take (frame_size self app) sb' = ?aad @ ct @ tag" "length sb' = length sb"
    using encode_msg_room [OF assms(2,3) _ _ enc len] assms(4,5) by (auto simp: app_fits_def frame_size_def)
  have peer: "direction_ok peer p" "aad_image peer = aad_image self"
    "aead_algo (crypto_param peer) = aead_algo (crypto_param self)"
    using assms(2,6) by (auto simp: same_channel_def direction_ok_def seq_count_def aad_image_def fun_eq_iff)
  have "decode_msg C peer (take (frame_size self app) sb' @ rest) ab p = Ok (length app, copy_at 0 app ab)"
    if "length app \<le> length ab" for rest ab
    using decode_msg_frame [OF peer(1) assms(3) _ len _ that, of "take (frame_size self app) sb' @ rest" rest] assms(4)
      sb'(2) dec peer by (simp add: app_fits_def)
  with sb' show ?thesis by blast
qed

subsection \<open>Nonces\<close>

lemma bit_seq_byte: "bit (seq_byte seq i) n \<longleftrightarrow> n < 8 \<and> bit seq (8 * i + n)"
proof -
  have m: "(0xFF :: u64) = mask 8" by (simp add: mask_eq_exp_minus_1)
  show ?thesis unfolding seq_byte_def m by (auto simp: bit_simps)
qed

lemma seq_byte_inject:
  assumes "\<forall>i < 8. seq_byte a i = seq_byte b i"
  shows "a = b"
proof (rule bit_word_eqI)
  fix n assume n: "n < LENGTH(64)"
  then have "seq_byte a (n div 8) = seq_byte b (n div 8)" using assms by simp
  then have "bit (seq_byte a (n div 8)) (n mod 8) \<longleftrightarrow> bit (seq_byte b (n div 8)) (n mod 8)" by simp
  then show "bit a n \<longleftrightarrow> bit b n" by (simp add: bit_seq_byte)
qed

text \<open>Different sequence numbers give different nonces.\<close>

lemma mask_salt_inject:
  assumes "8 \<le> length (data s)" "mask_salt a s = mask_salt b s"
  shows "a = b"
proof (rule seq_byte_inject, intro allI impI)
  fix i :: nat assume i: "i < 8"
  from assms(2) have "data (mask_salt a s) ! i = data (mask_salt b s) ! i" by simp
  then have "data s ! i XOR seq_byte a i = data s ! i XOR seq_byte b i"
    using i assms(1) by (simp add: mask_salt_def)
  then have "data s ! i XOR (data s ! i XOR seq_byte a i) = data s ! i XOR (data s ! i XOR seq_byte b i)" by simp
  then show "seq_byte a i = seq_byte b i" by (simp flip: xor.assoc)
qed

subsection \<open>The session as a channel\<close>

text \<open>The direction a message is protected with, by session state.\<close>

definition active_direction :: "bool \<Rightarrow> 'h SpdmSession \<Rightarrow> SpdmSessionSecretParam" where
  "active_direction is_requester self =
     (if session_state self = SpdmSessionHandshaking
      then if is_requester then hs_request_direction (handshake_secret self)
           else hs_response_direction (handshake_secret self)
      else if is_requester then request_direction (application_secret self)
           else response_direction (application_secret self))"

definition bump_direction :: "bool \<Rightarrow> 'h SpdmSession \<Rightarrow> 'h SpdmSession" where
  "bump_direction is_requester self =
     (if session_state self = SpdmSessionHandshaking
      then if is_requester then upd_hs (\<lambda>h. h\<lparr>hs_request_direction := inc_seq (hs_request_direction h)\<rparr>) self
           else upd_hs (\<lambda>h. h\<lparr>hs_response_direction := inc_seq (hs_response_direction h)\<rparr>) self
      else if is_requester then upd_app (\<lambda>a. a\<lparr>request_direction := inc_seq (request_direction a)\<rparr>) self
           else upd_app (\<lambda>a. a\<lparr>response_direction := inc_seq (response_direction a)\<rparr>) self)"

definition session_active :: "'h SpdmSession \<Rightarrow> bool" where
  "session_active self \<longleftrightarrow> session_state self \<in> {SpdmSessionHandshaking, SpdmSessionEstablished}"

lemma encode_spdm_active:
  assumes "session_active self"
  shows "encode_spdm_secured_message C app sb is_requester self =
     (let r = encode_msg C self app sb (active_direction is_requester self);
          self' = (if is_ok r then bump_direction is_requester self else self)
      in (r, wipe_on_overflow r self'))"
  using assms
  by (auto simp: session_active_def encode_spdm_secured_message_def active_direction_def bump_direction_def Let_def)

lemma encode_spdm_inactive:
  "session_state self = SpdmSessionNotStarted \<Longrightarrow>
   encode_spdm_secured_message C app sb is_requester self = (Err SPDM_STATUS_INVALID_STATE_LOCAL, self)"
  by (simp add: encode_spdm_secured_message_def wipe_on_overflow_def SPDM_STATUS_INVALID_STATE_LOCAL_def
      spdm_return_status_def)

lemma decode_spdm_inactive:
  "\<not> session_active self \<Longrightarrow>
   decode_spdm_secured_message C bs ab is_requester self = (Err SPDM_STATUS_INVALID_STATE_LOCAL, self)"
  by (cases "session_state self")
    (simp_all add: session_active_def decode_spdm_secured_message_def wipe_on_overflow_def
      SPDM_STATUS_INVALID_STATE_LOCAL_def spdm_return_status_def)

text \<open>Without the retry under the backup key.\<close>

lemma decode_spdm_active:
  assumes "session_active self"
    and "\<not> (is_err SPDM_STATUS_CRYPTO_ERROR (decode_msg C self bs ab (active_direction is_requester self))
        \<and> \<not> is_requester \<and> session_state self = SpdmSessionEstablished \<and> responder_backup_valid self)"
  shows "decode_spdm_secured_message C bs ab is_requester self =
     (let r = decode_msg C self bs ab (active_direction is_requester self);
          self' = (if is_err SPDM_STATUS_SEQUENCE_NUMBER_OVERFLOW r then self else bump_direction is_requester self)
      in (r, wipe_on_overflow r self'))"
  using assms
  by (auto simp: session_active_def decode_spdm_secured_message_def active_direction_def bump_direction_def Let_def)

lemma bump_direction_simps [simp]:
  "session_state (bump_direction b self) = session_state self"
  "session_id (bump_direction b self) = session_id self"
  "crypto_param (bump_direction b self) = crypto_param self"
  "transport_param (bump_direction b self) = transport_param self"
  "seq_count (bump_direction b self) = seq_count self"
  "session_active (bump_direction b self) = session_active self"
  "active_direction b (bump_direction b self) = inc_seq (active_direction b self)"
  "active_direction (\<not> b) (bump_direction b self) = active_direction (\<not> b) self"
  by (simp_all add: bump_direction_def active_direction_def session_active_def seq_count_def)

lemma direction_ok_bump [simp]:
  "direction_ok (bump_direction b self) p = direction_ok self p"
  "direction_ok self (inc_seq p) = direction_ok self p"
  by (simp_all add: direction_ok_def)

lemma wipe_on_overflow_simps [simp]:
  "wipe_on_overflow (Ok x) self = self"
  "wipe_on_overflow (Err SPDM_STATUS_SEQUENCE_NUMBER_OVERFLOW) self = set_default self"
  by (simp_all add: wipe_on_overflow_def SPDM_STATUS_SEQUENCE_NUMBER_OVERFLOW_def spdm_return_status_def)

lemma is_err_Ok [simp]: "\<not> is_err s (Ok x)"
  by (simp add: is_err_def)

subsection \<open>Frames that are refused\<close>

text \<open>A frame of another session.\<close>

lemma u32_read_append: "u32_read (Reader_init (u32_image x @ bs)) = Some (x, rdr (u32_image x) bs)"
  by (simp add: Reader_init_rdr reads_simps)

lemma decode_other_session:
  assumes "aead_algo_ok (aead_algo (crypto_param self))" "sequence_number p \<noteq> 0xFFFFFFFFFFFFFFFF"
    and "sid \<noteq> session_id self"
  shows "decode_msg C self (u32_image sid @ rest) ab p = Err SPDM_STATUS_DECODE_AEAD_FAIL"
  using assms by (simp add: decode_msg_def Let_def u32_read_append)

text \<open>A frame whose sequence number is not the next one, as far as its bytes on the wire tell.\<close>

lemma check_seq_bytes_refuse:
  assumes "\<forall>i \<in> set is. i < 8" "map (seq_byte n) is \<noteq> map (seq_byte m) is"
  shows "check_seq_bytes m is (rdr pre (map (seq_byte n) is @ post)) = Err SPDM_STATUS_DECODE_AEAD_FAIL"
  using assms by (induction "is" arbitrary: pre) (auto simp: reads_simps not_le)

lemma decode_other_sequence:
  assumes "aead_algo_ok (aead_algo (crypto_param self))" "seq_count self \<le> 8"
    and "sequence_number p \<noteq> 0xFFFFFFFFFFFFFFFF"
    and "seq_image (seq_count self) n \<noteq> seq_image (seq_count self) (sequence_number p)"
  shows "decode_msg C self (aad_image self n len @ rest) ab p = Err SPDM_STATUS_DECODE_AEAD_FAIL"
proof -
  have c: "unat (sequence_number_count (transport_param self)) = seq_count self" by (simp add: seq_count_def)
  have pos: "seq_count self \<noteq> 0" using assms(4) by (auto simp: seq_image_def)
  have "check_seq_bytes (sequence_number p) [0..<seq_count self]
      (rdr (u32_image (session_id self)) (map (seq_byte n) [0..<seq_count self] @ put_u16 len @ rest)) = Err SPDM_STATUS_DECODE_AEAD_FAIL"
    using check_seq_bytes_refuse [of "[0..<seq_count self]"] assms(2,4) by (simp add: seq_image_def)
  with assms pos show ?thesis
    by (simp add: decode_msg_def Let_def aad_image_def c u32_read_append seq_image_def)
qed

lemma seq_image_eq_iff:
  assumes "k \<le> 8"
  shows "seq_image k a = seq_image k b \<longleftrightarrow> take_bit (8 * k) a = take_bit (8 * k) b"
proof -
  have "seq_image k a = seq_image k b \<longleftrightarrow> (\<forall>i < k. seq_byte a i = seq_byte b i)"
    by (auto simp: seq_image_def)
  also have "\<dots> \<longleftrightarrow> (\<forall>i < k. \<forall>n < 8. bit a (8 * i + n) \<longleftrightarrow> bit b (8 * i + n))"
    by (auto simp: bit_eq_iff [of "seq_byte _ _"] bit_seq_byte)
  also have "\<dots> \<longleftrightarrow> (\<forall>j < 8 * k. bit a j \<longleftrightarrow> bit b j)"
  proof
    assume bytes: "\<forall>i < k. \<forall>n < 8. bit a (8 * i + n) \<longleftrightarrow> bit b (8 * i + n)"
    show "\<forall>j < 8 * k. bit a j \<longleftrightarrow> bit b j"
    proof (intro allI impI)
      fix j assume "j < 8 * k"
      then have "j div 8 < k" by (simp add: div_less_iff_less_mult mult.commute)
      then show "bit a j \<longleftrightarrow> bit b j" using bytes [rule_format, of "j div 8" "j mod 8"] by simp
    qed
  qed auto
  also have "\<dots> \<longleftrightarrow> take_bit (8 * k) a = take_bit (8 * k) b"
  proof -
    have "j < 64" if "j < 8 * k" for j using assms that by simp
    then show ?thesis by (auto simp: bit_eq_iff bit_take_bit_iff)
  qed
  finally show ?thesis .
qed

subsection \<open>Decoding does not panic\<close>

definition decrypt_total :: "'h Crypto \<Rightarrow> bool" where
  "decrypt_total C \<longleftrightarrow> (\<forall>a key iv aad ct tag n. no_panic (aead_decrypt C a key iv aad ct tag n)
     \<and> (\<forall>k pt. aead_decrypt C a key iv aad ct tag n = Ok (k, pt) \<longrightarrow> k \<le> n))"

lemma check_seq_bytes_no_panic: "\<forall>i \<in> set is. i < 8 \<Longrightarrow> no_panic (check_seq_bytes seq is r)"
  by (induction "is" arbitrary: r) (auto intro!: no_panic_bindR simp: not_le)


lemma decode_header_used:
  assumes "u32_read (Reader_init bs) = Some (sid, r1)"
    and "(if count \<noteq> 0 then check_seq_bytes seq [0..<count] r1 else Ok r1) = Ok r2"
    and "u16_read r2 = Some (len, r3)"
  shows "Reader_used r3 = 6 + count"
proof -
  obtain a post where r1: "r1 = rdr a post" "length a = 4"
    using fixed_sizeD [OF fixed_size_scalars(4), of "[]" bs sid r1] assms(1) by (auto simp: Reader_init_rdr)
  obtain b post' where r2: "r2 = rdr (a @ b) post'" "length b = count"
    using assms(2) r1 check_seq_bytes_ok [of seq "[0..<count]" a post r2]
    by (cases "count = 0") auto
  show ?thesis
    using fixed_sizeD [OF fixed_size_scalars(2)] assms(3) r1(2) r2 by fastforce
qed

lemma decode_msg_no_panic:
  assumes "decrypt_total C" "aead_algo_ok (aead_algo (crypto_param self))" "seq_count self \<le> 8"
    and "length bs \<le> RECEIVER_BUFFER_SIZE" "length ab = RECEIVER_BUFFER_SIZE"
  shows "no_panic (decode_msg C self bs ab p)"
proof -
  have tag: "SpdmAeadAlgo_get_tag_size (aead_algo (crypto_param self)) = Ok 16" using assms(2) by simp
  have seq: "no_panic (check_seq_bytes n [0..<unat (sequence_number_count (transport_param self))] r)" for n r
    using check_seq_bytes_no_panic [of "[0..<_]"] assms(3) by (simp add: seq_count_def)
  have dec: "no_panic (aead_decrypt C a key iv aad ct tg n)" "aead_decrypt C a key iv aad ct tg n = Ok (k, pt) \<Longrightarrow> k \<le> n"
    for a key iv aad ct tg n k pt
    using assms(1) unfolding decrypt_total_def by blast+
  show ?thesis
    unfolding decode_msg_def Let_def tag bindR.simps
    using assms(4,5)
    by (intro no_panic_intros seq dec(1)) (auto dest: decode_header_used dec(2))
qed


lemma decode_spdm_no_panic:
  assumes "decrypt_total C" "aead_algo_ok (aead_algo (crypto_param self))" "seq_count self \<le> 8"
    and "length bs \<le> RECEIVER_BUFFER_SIZE" "length ab = RECEIVER_BUFFER_SIZE"
  shows "no_panic (fst (decode_spdm_secured_message C bs ab b self))"
  using decode_msg_no_panic [OF assms]
  by (simp add: decode_spdm_secured_message_def Let_def split: SpdmSessionState.split)

end
