(* ===== verification/Channel.thy ===== *)
theory Channel
  imports SecuredMessage
begin

text \<open>
  A session as a pair of first-in first-out channels.

  The locale \<open>duplex_channel\<close> is the interface the rest of the library relies on: two ends that send
  and receive frames, each direction with a view (keys and sequence number) that both ends advance
  in step. Inside it, a system of two ends with frames in flight in both directions is shown to
  deliver, in order, what was sent. The interpretation \<open>session\<close> discharges the laws for
  \<open>encode_spdm_secured_message\<close> and \<open>decode_spdm_secured_message\<close>.
\<close>

subsection \<open>Two ends and the frames between them\<close>

record ('s, 'f, 'm) duplex =
  requester :: 's
  responder :: 's
  wire :: "bool \<Rightarrow> 'f list"
  sent :: "bool \<Rightarrow> 'm list"
  got :: "bool \<Rightarrow> 'm list"

text \<open>Direction \<open>True\<close> runs from the requester to the responder.\<close>

definition end_of :: "bool \<Rightarrow> ('s, 'f, 'm) duplex \<Rightarrow> 's" where
  "end_of b st = (if b then requester st else responder st)"

definition set_end :: "bool \<Rightarrow> 's \<Rightarrow> ('s, 'f, 'm) duplex \<Rightarrow> ('s, 'f, 'm) duplex" where
  "set_end b s st = (if b then st\<lparr>requester := s\<rparr> else st\<lparr>responder := s\<rparr>)"

definition duplex_init :: "'s \<Rightarrow> 's \<Rightarrow> ('s, 'f, 'm) duplex" where
  "duplex_init s t = \<lparr>requester = s, responder = t, wire = \<lambda>_. [], sent = \<lambda>_. [], got = \<lambda>_. []\<rparr>"

inductive duplex_step ::
  "(bool \<Rightarrow> 'm \<Rightarrow> 's \<Rightarrow> ('f \<times> 's) option) \<Rightarrow> (bool \<Rightarrow> 'f \<Rightarrow> 's \<Rightarrow> ('m \<times> 's) option) \<Rightarrow> ('m \<Rightarrow> bool) \<Rightarrow>
   ('s, 'f, 'm) duplex \<Rightarrow> ('s, 'f, 'm) duplex \<Rightarrow> bool" for snd_op rcv_op fits where
  Send: "fits m \<Longrightarrow> snd_op b m (end_of b st) = Some (f, s) \<Longrightarrow>
    duplex_step snd_op rcv_op fits st (set_end b s st\<lparr>wire := (wire st)(b := wire st b @ [f]),
      sent := (sent st)(b := sent st b @ [m])\<rparr>)"
| Receive: "wire st b = f # fs \<Longrightarrow> rcv_op b f (end_of (\<not> b) st) = Some (m, s) \<Longrightarrow>
    duplex_step snd_op rcv_op fits st (set_end (\<not> b) s st\<lparr>wire := (wire st)(b := fs),
      got := (got st)(b := got st b @ [m])\<rparr>)"

text \<open>The frames \<open>fs\<close> carry the messages \<open>ms\<close> for a receiver whose view is \<open>v\<close>, and leave it at \<open>w\<close>.\<close>

fun carries ::
  "(bool \<Rightarrow> 'f \<Rightarrow> 's \<Rightarrow> ('m \<times> 's) option) \<Rightarrow> (bool \<Rightarrow> 's \<Rightarrow> 'v) \<Rightarrow> ('v \<Rightarrow> 'v) \<Rightarrow> bool \<Rightarrow>
   'v \<Rightarrow> 'f list \<Rightarrow> 'm list \<Rightarrow> 'v \<Rightarrow> bool" where
  "carries rcv_op view nxt b v [] [] w \<longleftrightarrow> v = w"
| "carries rcv_op view nxt b v (f # fs) (m # ms) w \<longleftrightarrow>
     (\<forall>t. view b t = v \<longrightarrow>
        (\<exists>t'. rcv_op b f t = Some (m, t') \<and> view b t' = nxt v \<and> view (\<not> b) t' = view (\<not> b) t))
     \<and> carries rcv_op view nxt b (nxt v) fs ms w"
| "carries rcv_op view nxt b v _ _ w \<longleftrightarrow> False"

lemma carries_length: "carries rcv_op view nxt b v fs ms w \<Longrightarrow> length fs = length ms"
  by (induction rcv_op view nxt b v fs ms w rule: carries.induct) auto

lemma carries_snoc:
  "carries rcv_op view nxt b v fs ms u \<Longrightarrow> carries rcv_op view nxt b u [f] [m] w \<Longrightarrow>
   carries rcv_op view nxt b v (fs @ [f]) (ms @ [m]) w"
  by (induction rcv_op view nxt b v fs ms u rule: carries.induct) auto

lemma carries_Cons:
  "carries rcv_op view nxt b v (f # fs) ms w \<Longrightarrow> view b t = v \<Longrightarrow>
   \<exists>m ms' t'. ms = m # ms' \<and> rcv_op b f t = Some (m, t') \<and> view b t' = nxt v \<and> view (\<not> b) t' = view (\<not> b) t
     \<and> carries rcv_op view nxt b (nxt v) fs ms' w"
  by (cases ms) auto

lemma end_of_simps [simp]:
  "end_of b (set_end b s st) = s"
  "end_of b (set_end (\<not> b) s st) = end_of b st"
  "end_of (\<not> b) (set_end b s st) = end_of (\<not> b) st"
  "end_of b (st\<lparr>wire := w\<rparr>) = end_of b st"
  "end_of b (st\<lparr>sent := ms\<rparr>) = end_of b st"
  "end_of b (st\<lparr>got := ms\<rparr>) = end_of b st"
  "wire (set_end b s st) = wire st"
  "sent (set_end b s st) = sent st"
  "got (set_end b s st) = got st"
  by (simp_all add: end_of_def set_end_def)

subsection \<open>The contract of a duplex channel\<close>

locale duplex_channel =
  fixes snd_op :: "bool \<Rightarrow> 'm \<Rightarrow> 's \<Rightarrow> ('f \<times> 's) option"
    and rcv_op :: "bool \<Rightarrow> 'f \<Rightarrow> 's \<Rightarrow> ('m \<times> 's) option"
    and view :: "bool \<Rightarrow> 's \<Rightarrow> 'v"
    and nxt :: "'v \<Rightarrow> 'v"
    and valid :: "'v \<Rightarrow> bool"
    and room :: "nat \<Rightarrow> 'v \<Rightarrow> bool"
    and fits :: "'m \<Rightarrow> bool"
  assumes send_law: "valid (view b s) \<Longrightarrow> fits m \<Longrightarrow> snd_op b m s = Some (f, s') \<Longrightarrow>
      view b s' = nxt (view b s) \<and> view (\<not> b) s' = view (\<not> b) s"
    and deliver_law: "valid (view b s) \<Longrightarrow> fits m \<Longrightarrow> snd_op b m s = Some (f, s') \<Longrightarrow> view b t = view b s \<Longrightarrow>
      \<exists>t'. rcv_op b f t = Some (m, t') \<and> view b t' = nxt (view b t) \<and> view (\<not> b) t' = view (\<not> b) t"
    and room_law: "valid (view b s) \<Longrightarrow> room (Suc n) (view b s) \<Longrightarrow> fits m \<Longrightarrow> \<exists>f s'. snd_op b m s = Some (f, s')"
    and valid_next: "valid v \<Longrightarrow> valid (nxt v)"
    and room_next: "room (Suc n) v \<Longrightarrow> room n (nxt v)"
begin

text \<open>What was sent and not yet received is what the frames in flight carry.\<close>

definition linked :: "bool \<Rightarrow> ('s, 'f, 'm) duplex \<Rightarrow> bool" where
  "linked b st \<longleftrightarrow> valid (view b (end_of b st)) \<and> (\<exists>pend. sent st b = got st b @ pend
     \<and> carries rcv_op view nxt b (view b (end_of (\<not> b) st)) (wire st b) pend (view b (end_of b st)))"

lemma linked_init: "valid (view b (end_of b (duplex_init s t))) \<Longrightarrow> view b s = view b t \<Longrightarrow> linked b (duplex_init s t)"
  by (auto simp: linked_def duplex_init_def end_of_def)

lemma linked_send:
  assumes "linked c st" "valid (view b (end_of b st))" "fits m" "snd_op b m (end_of b st) = Some (f, s)"
  shows "linked c (set_end b s st\<lparr>wire := (wire st)(b := wire st b @ [f]), sent := (sent st)(b := sent st b @ [m])\<rparr>)"
proof (cases "c = b")
  case True
  from assms(1) True obtain pend where pend: "sent st b = got st b @ pend"
    "carries rcv_op view nxt b (view b (end_of (\<not> b) st)) (wire st b) pend (view b (end_of b st))"
    by (auto simp: linked_def)
  have "carries rcv_op view nxt b (view b (end_of b st)) [f] [m] (nxt (view b (end_of b st)))"
    using deliver_law [OF assms(2-4)] by auto
  from pend(2) this have "carries rcv_op view nxt b (view b (end_of (\<not> b) st)) (wire st b @ [f]) (pend @ [m]) (nxt (view b (end_of b st)))"
    by (rule carries_snoc)
  with pend(1) show ?thesis
    using True send_law [OF assms(2-4)] valid_next [OF assms(2)] by (simp add: linked_def)
next
  case False
  then have "c = (\<not> b)" by auto
  with assms(1) send_law [OF assms(2-4)] show ?thesis by (auto simp: linked_def)
qed

lemma linked_receive:
  assumes "linked c st" "linked b st" "wire st b = f # fs" "rcv_op b f (end_of (\<not> b) st) = Some (m, s)"
  shows "linked c (set_end (\<not> b) s st\<lparr>wire := (wire st)(b := fs), got := (got st)(b := got st b @ [m])\<rparr>)"
proof -
  from assms(2,3) obtain pend where pend: "sent st b = got st b @ pend" "valid (view b (end_of b st))"
    "carries rcv_op view nxt b (view b (end_of (\<not> b) st)) (f # fs) pend (view b (end_of b st))"
    by (auto simp: linked_def)
  from carries_Cons [OF pend(3) refl] assms(4) obtain ms where ms: "pend = m # ms"
    "view b s = nxt (view b (end_of (\<not> b) st))" "view (\<not> b) s = view (\<not> b) (end_of (\<not> b) st)"
    "carries rcv_op view nxt b (nxt (view b (end_of (\<not> b) st))) fs ms (view b (end_of b st))"
    by auto
  show ?thesis
  proof (cases "c = b")
    case True
    with pend ms show ?thesis by (auto simp: linked_def)
  next
    case False
    then have "c = (\<not> b)" by auto
    with assms(1) ms show ?thesis by (auto simp: linked_def)
  qed
qed

lemma linked_step:
  "duplex_step snd_op rcv_op fits st st' \<Longrightarrow> \<forall>c. linked c st \<Longrightarrow> linked c st'"
proof (induction rule: duplex_step.induct)
  case (Send m b st f s)
  then show ?case using linked_send by (simp add: linked_def)
next
  case (Receive st b f fs m s)
  then show ?case using linked_receive by blast
qed

lemma linked_reachable:
  assumes "(duplex_step snd_op rcv_op fits)\<^sup>*\<^sup>* (duplex_init s t) st"
    and "\<forall>b. valid (view b s)" "\<forall>b. view b s = view b t"
  shows "linked c st"
  using assms(1)
proof (induction arbitrary: c)
  case base
  show ?case using assms(2,3) linked_init [of c s t] by (metis end_of_def duplex_init_def duplex.select_convs(1,2))
qed (use linked_step in blast)

text \<open>Delivery is in order, and what is in flight can be received.\<close>

theorem fifo:
  assumes "(duplex_step snd_op rcv_op fits)\<^sup>*\<^sup>* (duplex_init s t) st"
    and "\<forall>b. valid (view b s)" "\<forall>b. view b s = view b t"
  shows "\<exists>pend. sent st b = got st b @ pend \<and> length pend = length (wire st b)
     \<and> (\<forall>f fs. wire st b = f # fs \<longrightarrow> (\<exists>s'. rcv_op b f (end_of (\<not> b) st) = Some (hd pend, s')))"
proof -
  from linked_reachable [OF assms, of b] obtain pend where "sent st b = got st b @ pend"
    and c: "carries rcv_op view nxt b (view b (end_of (\<not> b) st)) (wire st b) pend (view b (end_of b st))"
    by (auto simp: linked_def)
  moreover have "\<exists>s'. rcv_op b f (end_of (\<not> b) st) = Some (hd pend, s')" if "wire st b = f # fs" for f fs
    using carries_Cons [OF c [unfolded that] refl] by auto
  ultimately show ?thesis using carries_length [OF c] by metis
qed

text \<open>A direction with room for \<open>n\<close> messages takes \<open>n\<close> messages, whatever happens in between.\<close>

lemma room_step:
  assumes "duplex_step snd_op rcv_op fits st st'" "\<forall>c. linked c st" "length (sent st' b) \<le> n"
    and "room (n - length (sent st b)) (view b (end_of b st))"
  shows "room (n - length (sent st' b)) (view b (end_of b st'))"
  using assms
proof (cases rule: duplex_step.cases)
  case (Send m c f s)
  have "valid (view c (end_of c st))" using assms(2) by (simp add: linked_def)
  note law = send_law [OF this Send(2,3)]
  show ?thesis
  proof (cases "c = b")
    case True
    with Send assms(3) have "n - length (sent st b) = Suc (n - length (sent st' b))" by simp
    with assms(4) room_next have "room (n - length (sent st' b)) (nxt (view b (end_of b st)))" by metis
    with law True Send show ?thesis by simp
  next
    case False
    then have "b = (\<not> c)" by auto
    with law Send assms(4) show ?thesis by simp
  qed
next
  case (Receive c f fs m s)
  have c: "linked c st" using assms(2) by simp
  then have "view (\<not> c) s = view (\<not> c) (end_of (\<not> c) st)"
    using carries_Cons [of rcv_op view nxt c _ f fs] Receive(2,3) by (fastforce simp: linked_def)
  with Receive assms(4) show ?thesis by (cases "b = c") auto
qed

lemma sent_mono: "duplex_step snd_op rcv_op fits st st' \<Longrightarrow> length (sent st b) \<le> length (sent st' b)"
  by (induction rule: duplex_step.induct) auto

lemma room_reachable:
  assumes "(duplex_step snd_op rcv_op fits)\<^sup>*\<^sup>* (duplex_init s t) st"
    and "\<forall>b. valid (view b s)" "\<forall>b. view b s = view b t" "room n (view b s)" "length (sent st b) \<le> n"
  shows "room (n - length (sent st b)) (view b (end_of b st))"
  using assms(1,5)
proof (induction)
  case base
  have "view b (end_of b (duplex_init s t :: ('s, 'f, 'm) duplex)) = view b s" using assms(3) by (simp add: end_of_def duplex_init_def)
  with assms(4) show ?case by (simp add: duplex_init_def)
next
  case (step st st')
  have "\<forall>c. linked c st" using linked_reachable [OF step(1) assms(2,3)] by simp
  moreover have "length (sent st b) \<le> n" using sent_mono [OF step(2), of b] step(4) by simp
  ultimately show ?case using room_step [OF step(2)] step(3,4) by blast
qed

theorem can_send:
  assumes "(duplex_step snd_op rcv_op fits)\<^sup>*\<^sup>* (duplex_init s t) st"
    and "\<forall>b. valid (view b s)" "\<forall>b. view b s = view b t" "room n (view b s)"
    and "length (sent st b) < n" "fits m"
  shows "\<exists>f s'. snd_op b m (end_of b st) = Some (f, s')"
proof -
  have "linked b st" using linked_reachable [OF assms(1-3)] .
  moreover obtain k where "n - length (sent st b) = Suc k" using assms(5) by (cases "n - length (sent st b)") auto
  ultimately show ?thesis
    using room_reachable [OF assms(1-4), of] room_law [of b "end_of b st" k m] assms(5,6) by (simp add: linked_def)
qed

end

subsection \<open>A session is such a channel\<close>

text \<open>What both ends have to agree on for one direction.\<close>

type_synonym channel_view = "SpdmSessionState \<times> u32 \<times> SpdmAeadAlgo \<times> u8 \<times> SpdmSessionSecretParam"

definition channel_view :: "bool \<Rightarrow> 'h SpdmSession \<Rightarrow> channel_view" where
  "channel_view b self = (session_state self, session_id self, aead_algo (crypto_param self),
     sequence_number_count (transport_param self), active_direction b self)"

fun next_view :: "channel_view \<Rightarrow> channel_view" where
  "next_view (st, sid, a, n, p) = (st, sid, a, n, inc_seq p)"

fun view_valid :: "'h Crypto \<Rightarrow> channel_view \<Rightarrow> bool" where
  "view_valid C (st, sid, a, n, p) \<longleftrightarrow> aead_ok C \<and> (st = SpdmSessionHandshaking \<or> st = SpdmSessionEstablished)
     \<and> aead_algo_ok a \<and> unat n \<le> 8 \<and> key_iv_ok (encryption_key p, salt p)"

text \<open>The sequence number \<open>u64::MAX\<close> is never used.\<close>

fun view_room :: "nat \<Rightarrow> channel_view \<Rightarrow> bool" where
  "view_room k (st, sid, a, n, p) \<longleftrightarrow> unat (sequence_number p) + k < 2 ^ 64"

definition msg_fits :: "bytes \<Rightarrow> bool" where
  "msg_fits app \<longleftrightarrow> length app + 32 \<le> SENDER_BUFFER_SIZE \<and> length app + 2 \<le> RECEIVER_BUFFER_SIZE"

definition session_send :: "'h Crypto \<Rightarrow> bool \<Rightarrow> bytes \<Rightarrow> 'h SpdmSession \<Rightarrow> (bytes \<times> 'h SpdmSession) option" where
  "session_send C b app self =
     (case encode_spdm_secured_message C app (replicate SENDER_BUFFER_SIZE 0) b self of
        (Inr (n, buf), self) \<Rightarrow> Some (take n buf, self)
      | (Inl _, _) \<Rightarrow> None)"

definition session_recv :: "'h Crypto \<Rightarrow> bool \<Rightarrow> bytes \<Rightarrow> 'h SpdmSession \<Rightarrow> (bytes \<times> 'h SpdmSession) option" where
  "session_recv C b frame self =
     (case decode_spdm_secured_message C frame (replicate RECEIVER_BUFFER_SIZE 0) b self of
        (Inr (n, buf), self) \<Rightarrow> Some (take n buf, self)
      | (Inl _, _) \<Rightarrow> None)"

lemma view_validD:
  "view_valid C (channel_view b s) \<Longrightarrow> aead_ok C \<and> session_active s \<and> direction_ok s (active_direction b s)"
  by (simp add: channel_view_def session_active_def direction_ok_def seq_count_def)

lemma view_bump:
  "channel_view b (bump_direction b s) = next_view (channel_view b s)"
  "channel_view (\<not> b) (bump_direction b s) = channel_view (\<not> b) s"
  by (simp_all add: channel_view_def)

lemma encode_at_max:
  assumes "direction_ok s p" "sequence_number p = 0xFFFFFFFFFFFFFFFF"
  shows "encode_msg C s app sb p = Err SPDM_STATUS_SEQUENCE_NUMBER_OVERFLOW
     \<or> encode_msg C s app sb p = panic"
  using assms by (simp add: encode_msg_def Let_def direction_ok_def)

lemma session_send_deliver:
  assumes "view_valid C (channel_view b s)" "msg_fits app" "sequence_number (active_direction b s) \<noteq> 0xFFFFFFFFFFFFFFFF"
  shows "\<exists>f. session_send C b app s = Some (f, bump_direction b s)
     \<and> (\<forall>t. channel_view b t = channel_view b s \<longrightarrow> session_recv C b f t = Some (app, bump_direction b t))"
proof -
  note v = view_validD [OF assms(1)]
  have fits: "app_fits app" "frame_size s app \<le> length (replicate SENDER_BUFFER_SIZE 0)"
    using assms(2) v by (auto simp: msg_fits_def app_fits_def frame_size_def direction_ok_def)
  note rt = msg_round_trip [of C s "active_direction b s" app "replicate SENDER_BUFFER_SIZE 0"]
  obtain sb where sb: "encode_msg C s app (replicate SENDER_BUFFER_SIZE 0) (active_direction b s) = Ok (frame_size s app, sb)"
    using rt [of s] v assms(3) fits by (auto simp: same_channel_def)
  have dec: "decode_msg C t (take (frame_size s app) sb) ab (active_direction b s) = Ok (length app, copy_at 0 app ab)"
    if "same_channel s t" "length app \<le> length ab" for t ab
    using rt [of t] v assms(3) fits that sb by (metis append_Nil2 old.sum.inject(2) prod.inject)
  have "session_recv C b (take (frame_size s app) sb) t = Some (app, bump_direction b t)"
    if "channel_view b t = channel_view b s" for t
  proof -
    have t: "same_channel s t" "session_active t" "active_direction b t = active_direction b s"
      using that v by (auto simp: channel_view_def same_channel_def session_active_def)
    have "decode_msg C t (take (frame_size s app) sb) (replicate RECEIVER_BUFFER_SIZE 0) (active_direction b t) =
      Ok (length app, copy_at 0 app (replicate RECEIVER_BUFFER_SIZE 0))"
      using dec [OF t(1)] t(3) assms(2) by (simp add: msg_fits_def)
    with t(2) show ?thesis by (simp add: session_recv_def decode_spdm_active Let_def copy_at_def)
  qed
  moreover have "session_send C b app s = Some (take (frame_size s app) sb, bump_direction b s)"
    using v sb by (simp add: session_send_def encode_spdm_active Let_def)
  ultimately show ?thesis by blast
qed

lemma session_send_seq:
  assumes "view_valid C (channel_view b s)" "session_send C b app s = Some x"
  shows "sequence_number (active_direction b s) \<noteq> 0xFFFFFFFFFFFFFFFF"
  using encode_at_max [of s "active_direction b s" C app "replicate SENDER_BUFFER_SIZE 0"]
    view_validD [OF assms(1)] assms(2)
  by (auto simp: session_send_def encode_spdm_active Let_def)

interpretation session: duplex_channel "session_send C" "session_recv C" channel_view next_view "view_valid C" view_room msg_fits
  for C :: "'h Crypto"
proof
  fix b s m f s' assume a: "view_valid C (channel_view b s)" "msg_fits m" "session_send C b m s = Some (f, s')"
  note d = session_send_deliver [OF a(1,2) session_send_seq [OF a(1,3)]]
  show "channel_view b s' = next_view (channel_view b s) \<and> channel_view (\<not> b) s' = channel_view (\<not> b) s"
    using d a(3) view_bump by fastforce
  show "\<exists>t'. session_recv C b f t = Some (m, t') \<and> channel_view b t' = next_view (channel_view b t)
      \<and> channel_view (\<not> b) t' = channel_view (\<not> b) t" if "channel_view b t = channel_view b s" for t
    using d a(3) that view_bump by fastforce
next
  fix b and s :: "'h SpdmSession" and m n
  assume a: "view_valid C (channel_view b s)" "view_room (Suc n) (channel_view b s)" "msg_fits m"
  then have "sequence_number (active_direction b s) \<noteq> 0xFFFFFFFFFFFFFFFF" by (auto simp: channel_view_def)
  with session_send_deliver [OF a(1,3)] show "\<exists>f s'. session_send C b m s = Some (f, s')" by blast
next
  fix v assume "view_valid C v" then show "view_valid C (next_view v)" by (cases v) auto
next
  fix n v assume a: "view_room (Suc n) v"
  obtain st sid al k p where v: "v = (st, sid, al, k, p)" by (cases v)
  have "unat (sequence_number p + 1) \<le> unat (sequence_number p) + 1" by (simp add: unat_word_ariths)
  with a v show "view_room n (next_view v)" by simp
qed

subsection \<open>Nonces over a run of a session\<close>

datatype session_op = Encode bool bytes bytes | Decode bool bytes bytes

fun session_step :: "'h Crypto \<Rightarrow> session_op \<Rightarrow> 'h SpdmSession \<Rightarrow> (usize \<times> bytes) SpdmResult \<times> 'h SpdmSession" where
  "session_step C (Encode c app buf) self = encode_spdm_secured_message C app buf c self"
| "session_step C (Decode c frame buf) self = decode_spdm_secured_message C frame buf c self"

definition nonce :: "bool \<Rightarrow> 'h SpdmSession \<Rightarrow> SpdmAeadIvStruct" where
  "nonce b self = mask_salt (sequence_number (active_direction b self)) (salt (active_direction b self))"

fun encodes :: "bool \<Rightarrow> session_op \<Rightarrow> bool" where
  "encodes b (Encode c _ _) \<longleftrightarrow> c = b"
| "encodes b (Decode _ _ _) \<longleftrightarrow> False"

text \<open>The nonces under which a run of operations has encrypted in direction \<open>b\<close>.\<close>

fun nonces :: "'h Crypto \<Rightarrow> bool \<Rightarrow> session_op list \<Rightarrow> 'h SpdmSession \<Rightarrow> SpdmAeadIvStruct list" where
  "nonces C b [] self = []"
| "nonces C b (op # ops) self =
     (let (r, self') = session_step C op self
      in (if encodes b op \<and> is_ok r then [nonce b self] else []) @ nonces C b ops self')"

definition aead_chosen :: "'h SpdmSession \<Rightarrow> bool" where
  "aead_chosen self \<longleftrightarrow> aead_algo_ok (aead_algo (crypto_param self))"

lemma encode_step_cases:
  assumes "session_active self" "aead_chosen self" "encode_spdm_secured_message C app buf c self = (r, self')"
  shows "\<not> session_active self' \<and> \<not> is_ok r \<or> self' = self \<and> \<not> is_ok r
    \<or> self' = bump_direction c self \<and> is_ok r \<and> sequence_number (active_direction c self) \<noteq> 0xFFFFFFFFFFFFFFFF"
proof -
  let ?r = "encode_msg C self app buf (active_direction c self)"
  have "\<not> is_ok ?r" if "sequence_number (active_direction c self) = 0xFFFFFFFFFFFFFFFF"
    using that assms(2) by (simp add: encode_msg_def Let_def aead_chosen_def)
  moreover have "\<not> session_active (set_default self)"
    by (simp add: session_active_def set_default_def)
  ultimately show ?thesis
    using assms(3) unfolding encode_spdm_active [OF assms(1)] Let_def
    by (auto simp: wipe_on_overflow_def split: sum.splits fault.splits if_splits)
qed

lemma decode_msg_at_max:
  assumes "aead_chosen self" "sequence_number p = 0xFFFFFFFFFFFFFFFF"
  shows "decode_msg C self bs ab p = Err SPDM_STATUS_SEQUENCE_NUMBER_OVERFLOW"
  using assms by (simp add: decode_msg_def Let_def aead_chosen_def)

lemma is_err_overflow [simp]: "is_err s (Err s)"
  by (simp add: is_err_def SpdmStatus_eq_def)

text \<open>The session after a decode: wiped, advanced in the direction decoded, or changed at most in
  its backup keys.\<close>

definition backup_variant :: "'h SpdmSession \<Rightarrow> 'h SpdmSession \<Rightarrow> bool" where
  "backup_variant self self' \<longleftrightarrow> (\<exists>a. self' = self\<lparr>application_secret_backup := a\<rparr>)"

lemma backup_variant_simps:
  assumes "backup_variant self self'"
  shows "active_direction b self' = active_direction b self" "session_active self' = session_active self"
    "aead_chosen self' = aead_chosen self"
  using assms by (auto simp: backup_variant_def active_direction_def session_active_def aead_chosen_def)

lemma backup_variant_refl [simp]: "backup_variant self self" "backup_variant self (self\<lparr>application_secret_backup := a\<rparr>)"
  by (auto simp: backup_variant_def intro: exI [of _ "application_secret_backup self"])

lemma wipe_on_overflow_cases: "wipe_on_overflow r self = set_default self \<or> wipe_on_overflow r self = self"
  by (auto simp: wipe_on_overflow_def split: sum.splits fault.splits)

lemma set_default_inactive [simp]: "\<not> session_active (set_default self)"
  by (simp add: session_active_def set_default_def)

lemma decode_spdm_retry:
  assumes "is_err SPDM_STATUS_CRYPTO_ERROR (decode_msg C self bs ab (response_direction (application_secret self)))"
    "session_state self = SpdmSessionEstablished" "responder_backup_valid self"
  shows "decode_spdm_secured_message C bs ab False self =
     (let r = decode_msg C self bs ab (response_direction (application_secret_backup self));
          self' = (if is_err SPDM_STATUS_SEQUENCE_NUMBER_OVERFLOW r then self
                   else upd_backup (\<lambda>b. b\<lparr>response_direction := inc_seq (response_direction b)\<rparr>) self)
      in (r, wipe_on_overflow r self'))"
  using assms by (auto simp: decode_spdm_secured_message_def Let_def)

lemma decode_step_cases:
  assumes "session_active self" "aead_chosen self" "decode_spdm_secured_message C bs buf c self = (r, self')"
  shows "\<not> session_active self' \<or> backup_variant self self'
    \<or> self' = bump_direction c self \<and> sequence_number (active_direction c self) \<noteq> 0xFFFFFFFFFFFFFFFF"
proof (cases "is_err SPDM_STATUS_CRYPTO_ERROR (decode_msg C self bs buf (active_direction c self))
        \<and> \<not> c \<and> session_state self = SpdmSessionEstablished \<and> responder_backup_valid self")
  case True
  then have "is_err SPDM_STATUS_CRYPTO_ERROR (decode_msg C self bs buf (response_direction (application_secret self)))"
    by (auto simp: active_direction_def)
  from decode_spdm_retry [OF this] True obtain s1 where "self' = wipe_on_overflow r s1" "backup_variant self s1"
    using assms(3) by (auto simp: Let_def split: if_splits)
  with wipe_on_overflow_cases [of r s1] show ?thesis by auto
next
  case False
  let ?r = "decode_msg C self bs buf (active_direction c self)"
  let ?s = "if is_err SPDM_STATUS_SEQUENCE_NUMBER_OVERFLOW ?r then self else bump_direction c self"
  have "self' = wipe_on_overflow r ?s"
    using decode_spdm_active [OF assms(1) False] assms(3) by (simp add: Let_def)
  moreover have "?s = self \<or> ?s = bump_direction c self \<and> sequence_number (active_direction c self) \<noteq> 0xFFFFFFFFFFFFFFFF"
    using decode_msg_at_max [OF assms(2), of "active_direction c self" C bs buf] by auto
  ultimately obtain s1 where "self' = wipe_on_overflow r s1"
    "s1 = self \<or> s1 = bump_direction c self \<and> sequence_number (active_direction c self) \<noteq> 0xFFFFFFFFFFFFFFFF"
    by blast
  with wipe_on_overflow_cases [of r s1] show ?thesis by auto
qed

text \<open>A run never lowers the sequence number of an active direction, and changes its salt never.\<close>

definition advanced :: "bool \<Rightarrow> SpdmAeadIvStruct \<Rightarrow> u64 \<Rightarrow> 'h SpdmSession \<Rightarrow> bool" where
  "advanced b iv n self \<longleftrightarrow> (session_active self \<longrightarrow> aead_chosen self \<and> salt (active_direction b self) = iv
     \<and> n \<le> sequence_number (active_direction b self))"

lemma seq_plus_one:
  fixes n :: u64
  assumes "n \<noteq> 0xFFFFFFFFFFFFFFFF"
  shows "n < n + 1"
proof -
  have "unat n \<noteq> unat (0xFFFFFFFFFFFFFFFF :: u64)" using assms by (metis word_unat_eq_iff)
  then have "unat n + 1 < 2 ^ 64" using unsigned_less [of n, where 'a = nat] by simp
  then show ?thesis by (simp add: word_less_nat_alt unat_word_ariths)
qed

lemma advanced_bump:
  assumes "session_active self" "advanced b iv n self" "sequence_number (active_direction c self) \<noteq> 0xFFFFFFFFFFFFFFFF"
  shows "advanced b iv n (bump_direction c self)"
proof (cases "c = b")
  case True
  with assms seq_plus_one [of "sequence_number (active_direction b self)"] show ?thesis
    by (auto simp: advanced_def aead_chosen_def)
next
  case False
  then have "c = (\<not> b)" by auto
  with assms bump_direction_simps(8) [of c self] show ?thesis by (simp add: advanced_def aead_chosen_def)
qed

lemma advanced_inactive: "\<not> session_active self \<Longrightarrow> advanced b iv n self"
  by (simp add: advanced_def)

lemma encode_spdm_not_active:
  "\<not> session_active self \<Longrightarrow> encode_spdm_secured_message C app buf c self = (r, self') \<Longrightarrow> self' = self \<and> \<not> is_ok r"
  by (cases "session_state self")
    (auto simp: session_active_def encode_spdm_inactive, auto simp: encode_spdm_secured_message_def wipe_on_overflow_def)

lemma advanced_step:
  assumes "advanced b iv n self" "session_step C op self = (r, self')"
  shows "advanced b iv n self'"
proof (cases "session_active self")
  case True
  then have a: "aead_chosen self" using assms(1) by (simp add: advanced_def)
  show ?thesis
  proof (cases op)
    case (Encode c app buf)
    with encode_step_cases [OF True a, of C app buf c] assms show ?thesis
      using advanced_bump [OF True assms(1)] advanced_inactive by auto
  next
    case (Decode c bs buf)
    with decode_step_cases [OF True a, of C bs buf c] assms(2)
    consider "\<not> session_active self'" | "backup_variant self self'"
      | "self' = bump_direction c self" "sequence_number (active_direction c self) \<noteq> 0xFFFFFFFFFFFFFFFF"
      by auto
    then show ?thesis
    proof cases
      case 2
      with backup_variant_simps [OF 2] assms(1) show ?thesis by (simp add: advanced_def)
    qed (use advanced_bump [OF True assms(1)] advanced_inactive in auto)
  qed
next
  case False
  then have "\<not> session_active self'" using assms(2)
    by (cases op) (auto simp: decode_spdm_inactive dest: encode_spdm_not_active [OF False])
  then show ?thesis by (rule advanced_inactive)
qed

lemma encode_step_ok:
  assumes "advanced b iv n self" "session_step C op self = (r, self')" "encodes b op" "is_ok r"
  shows "session_active self" "advanced b iv (sequence_number (active_direction b self) + 1) self'"
    "sequence_number (active_direction b self) < sequence_number (active_direction b self) + 1"
proof -
  obtain app buf where op: "op = Encode b app buf" using assms(3) by (cases op) auto
  then show act: "session_active self" using assms(2,4) encode_spdm_not_active [of self C app buf b r self'] by auto
  then have "aead_chosen self" using assms(1) by (simp add: advanced_def)
  from encode_step_cases [OF act this, of C app buf b] op assms(2,4)
  have "self' = bump_direction b self" "sequence_number (active_direction b self) \<noteq> 0xFFFFFFFFFFFFFFFF" by auto
  then show "advanced b iv (sequence_number (active_direction b self) + 1) self'"
    "sequence_number (active_direction b self) < sequence_number (active_direction b self) + 1"
    using assms(1) act seq_plus_one by (auto simp: advanced_def aead_chosen_def)
qed

text \<open>So the nonces of a run are the images of strictly increasing sequence numbers.\<close>

lemma nonces_increasing:
  "advanced b iv n self \<Longrightarrow>
   \<exists>seqs. nonces C b ops self = map (\<lambda>k. mask_salt k iv) seqs \<and> sorted_wrt (<) seqs \<and> (\<forall>k \<in> set seqs. n \<le> k)"
proof (induction ops arbitrary: self n)
  case (Cons op ops)
  obtain r self' where step: "session_step C op self = (r, self')" by fastforce
  show ?case
  proof (cases "encodes b op \<and> is_ok r")
    case True
    let ?m = "sequence_number (active_direction b self)"
    note ok = encode_step_ok [OF Cons.prems step] True
    then obtain seqs where seqs: "nonces C b ops self' = map (\<lambda>k. mask_salt k iv) seqs" "sorted_wrt (<) seqs"
      "\<forall>k \<in> set seqs. ?m + 1 \<le> k"
      using Cons.IH by blast
    have "n \<le> ?m" "nonce b self = mask_salt ?m iv" using Cons.prems ok by (auto simp: advanced_def nonce_def)
    with seqs ok step True show ?thesis
      by (intro exI [of _ "?m # seqs"]) (auto dest: order.trans order.strict_trans1 intro: less_le_trans order.trans)
  next
    case False
    with Cons.IH [OF advanced_step [OF Cons.prems step]] step show ?thesis by auto
  qed
qed simp

lemma nonces_distinct:
  assumes "aead_chosen self" "8 \<le> length (data (salt (active_direction b self)))"
  shows "distinct (nonces C b ops self)"
proof -
  have "advanced b (salt (active_direction b self)) 0 self" using assms(1) by (simp add: advanced_def)
  from nonces_increasing [OF this, of C ops] obtain seqs where
    "nonces C b ops self = map (\<lambda>k. mask_salt k (salt (active_direction b self))) seqs" "sorted_wrt (<) seqs"
    by blast
  moreover have "distinct seqs" using \<open>sorted_wrt (<) seqs\<close> by (metis strict_sorted_iff)
  moreover have "inj (\<lambda>k. mask_salt k (salt (active_direction b self)))"
    using mask_salt_inject [OF assms(2)] by (intro injI) blast
  ultimately show ?thesis by (auto simp: distinct_map intro: inj_on_subset)
qed

end
