(* ===== verification/SessionKeys.thy ===== *)
theory SessionKeys
  imports Channel
begin

text \<open>
  The key material of a session: the steps that derive it succeed with a provider whose key
  derivation does, they give keys of the sizes the AEAD needs, and two sessions that start from the
  same shared secret and transcript hash end with the same keys, so that a channel opens between
  them. A key update can be undone, and completing it wipes the old keys.
\<close>

subsection \<open>Handshake keys\<close>

text \<open>What the handshake keys of a session are derived from.\<close>

definition hs_inputs :: "'h SpdmSession \<Rightarrow> bool \<times> SpdmBaseHashAlgo \<times> SpdmAeadAlgo \<times> SpdmHandshakeSecretStruct \<times> SpdmPskHintStruct option" where
  "hs_inputs self = (use_psk self, base_hash_algo (crypto_param self), aead_algo (crypto_param self),
     root_handshake_secret (shared_secret_root self), psk_hint (s_runtime_info self))"

definition app_inputs :: "'h SpdmSession \<Rightarrow> bool \<times> SpdmBaseHashAlgo \<times> SpdmAeadAlgo \<times> SpdmMasterSecretStruct \<times> SpdmPskHintStruct option" where
  "app_inputs self = (use_psk self, base_hash_algo (crypto_param self), aead_algo (crypto_param self),
     root_master_secret (shared_secret_root self), psk_hint (s_runtime_info self))"

fun key_inputs_ok :: "bool \<times> SpdmBaseHashAlgo \<times> SpdmAeadAlgo \<times> Sized \<times> SpdmPskHintStruct option \<Rightarrow> bool" where
  "key_inputs_ok (psk, h, a, secret, hint) \<longleftrightarrow> hash_algo_ok h \<and> aead_algo_ok a \<and> (psk \<or> secret_ok 64 secret)"

text \<open>A change of the key material that leaves usable keys and the sequence numbers as they are.\<close>

definition hs_rekey :: "(SpdmSessionHandshakeSecret \<Rightarrow> SpdmSessionHandshakeSecret) \<Rightarrow> bool" where
  "hs_rekey f \<longleftrightarrow> (\<exists>k1 k2. key_iv_ok k1 \<and> key_iv_ok k2 \<and> (\<forall>h.
     hs_request_direction (f h) = set_key_salt k1 (hs_request_direction h) \<and>
     hs_response_direction (f h) = set_key_salt k2 (hs_response_direction h)))"

definition app_rekey :: "(SpdmSessionApplicationSecret \<Rightarrow> SpdmSessionApplicationSecret) \<Rightarrow> bool" where
  "app_rekey f \<longleftrightarrow> (\<exists>k1 k2 d1 d2. key_iv_ok k1 \<and> key_iv_ok k2 \<and> secret_ok 64 d1 \<and> secret_ok 64 d2 \<and> (\<forall>h.
     request_data_secret (f h) = d1 \<and> response_data_secret (f h) = d2 \<and>
     request_direction (f h) = set_key_salt k1 (request_direction h) \<and>
     response_direction (f h) = set_key_salt k2 (response_direction h)))"

lemma assign_or_fail_Inr [simp]: "f s = Inr x \<Longrightarrow> assign_or_fail f upd s = (Ok (), upd x s)"
  by (simp add: assign_or_fail_def)

lemma generate_handshake_secret_ok:
  assumes "kdf_ok C" "key_inputs_ok i" "length (Sized_as_ref th) \<le> 64"
  shows "\<exists>f. hs_rekey f \<and> (\<forall>self. hs_inputs self = i \<longrightarrow>
     generate_handshake_secret C ver th self = (Ok (), upd_hs f self))"
proof -
  obtain psk h a secret hint where i: "i = (psk, h, a, secret, hint)" by (cases i)
  let ?key = "if psk then None else Some secret"
  have ok: "hash_algo_ok h" "aead_algo_ok a" "psk_or_secret psk ?key"
    using assms(2) i by (auto simp: psk_or_secret_def)
  note dir = derive_direction_ok [OF assms(1) ok(1,3) assms(3)]
  obtain q where q: "derive_request_handshake_secret C psk ver h ?key hint (Sized_as_ref th) = Inr q" "secret_ok 64 q"
    using dir(1) by blast
  obtain r where r: "derive_response_handshake_secret C psk ver h ?key hint (Sized_as_ref th) = Inr r" "secret_ok 64 r"
    using dir(2) by blast
  obtain fq where fq: "derive_finished_key C ver h q = Inr fq" using derive_fixed_ok(1) [OF assms(1) ok(1) q(2)] by blast
  obtain fr where fr: "derive_finished_key C ver h r = Inr fr" using derive_fixed_ok(1) [OF assms(1) ok(1) r(2)] by blast
  obtain kq where kq: "derive_aead_key_iv C ver h a q = Inr kq" "key_iv_ok kq"
    using derive_aead_key_iv_ok [OF assms(1) ok(1,2) q(2)] by blast
  obtain kr where kr: "derive_aead_key_iv C ver h a r = Inr kr" "key_iv_ok kr"
    using derive_aead_key_iv_ok [OF assms(1) ok(1,2) r(2)] by blast
  let ?f = "\<lambda>h. h\<lparr>request_handshake_secret := q, response_handshake_secret := r, request_finished_key := fq,
      response_finished_key := fr, hs_request_direction := set_key_salt kq (hs_request_direction h),
      hs_response_direction := set_key_salt kr (hs_response_direction h)\<rparr>"
  have "hs_rekey ?f"
    unfolding hs_rekey_def by (rule exI [of _ kq], rule exI [of _ kr]) (simp add: kq kr)
  moreover have "generate_handshake_secret C ver th self = (Ok (), upd_hs ?f self)" if "hs_inputs self = i" for self
    using that i q(1) r(1) fq fr kq(1) kr(1)
    by (cases psk) (simp_all add: generate_handshake_secret_def hs_inputs_def)
  ultimately show ?thesis by blast
qed

lemma generate_data_secret_ok:
  assumes "kdf_ok C" "key_inputs_ok i" "length (Sized_as_ref th) \<le> 64"
  shows "\<exists>f. app_rekey f \<and> (\<forall>self. app_inputs self = i \<longrightarrow>
     generate_data_secret C ver th self = (Ok (), upd_app f self))"
proof -
  obtain psk h a secret hint where i: "i = (psk, h, a, secret, hint)" by (cases i)
  let ?key = "if psk then None else Some secret"
  have ok: "hash_algo_ok h" "aead_algo_ok a" "psk_or_secret psk ?key"
    using assms(2) i by (auto simp: psk_or_secret_def)
  note dir = derive_direction_ok [OF assms(1) ok(1,3) assms(3)]
  obtain q where q: "derive_request_data_secret C psk ver h ?key hint (Sized_as_ref th) = Inr q" "secret_ok 64 q"
    using dir(3) by blast
  obtain r where r: "derive_response_data_secret C psk ver h ?key hint (Sized_as_ref th) = Inr r" "secret_ok 64 r"
    using dir(4) by blast
  obtain e where e: "derive_export_master_secret C psk ver h ?key hint = Inr e"
    using dir(5) by blast
  obtain kq where kq: "derive_aead_key_iv C ver h a q = Inr kq" "key_iv_ok kq"
    using derive_aead_key_iv_ok [OF assms(1) ok(1,2) q(2)] by blast
  obtain kr where kr: "derive_aead_key_iv C ver h a r = Inr kr" "key_iv_ok kr"
    using derive_aead_key_iv_ok [OF assms(1) ok(1,2) r(2)] by blast
  let ?f = "\<lambda>h. h\<lparr>request_data_secret := q, response_data_secret := r,
      request_direction := set_key_salt kq (request_direction h),
      response_direction := set_key_salt kr (response_direction h), export_master_secret := e\<rparr>"
  have "app_rekey ?f"
    unfolding app_rekey_def
    by (rule exI [of _ kq], rule exI [of _ kr], rule exI [of _ q], rule exI [of _ r]) (simp add: kq kr q r)
  moreover have "generate_data_secret C ver th self = (Ok (), upd_app ?f self)" if "app_inputs self = i" for self
    using that i q(1) r(1) e kq(1) kr(1)
    by (cases psk) (simp_all add: generate_data_secret_def app_inputs_def)
  ultimately show ?thesis by blast
qed

subsection \<open>Opening a channel\<close>

text \<open>Two sessions of the same connection whose keys are about to be derived.\<close>

definition paired :: "'h SpdmSession \<Rightarrow> 'h SpdmSession \<Rightarrow> bool" where
  "paired s t \<longleftrightarrow> session_id s = session_id t \<and> transport_param s = transport_param t \<and> seq_count s \<le> 8"

definition enter :: "SpdmSessionState \<Rightarrow> 'h SpdmSession \<Rightarrow> 'h SpdmSession" where
  "enter st self = self\<lparr>session_state := st\<rparr>"

lemma handshake_views:
  assumes "kdf_ok C" "aead_ok C" "length (Sized_as_ref th) \<le> 64"
    and "key_inputs_ok (hs_inputs s)" "hs_inputs t = hs_inputs s" "paired s t" "handshake_secret t = handshake_secret s"
    and "s' = enter SpdmSessionHandshaking (snd (generate_handshake_secret C ver th s))"
    and "t' = enter SpdmSessionHandshaking (snd (generate_handshake_secret C ver th t))"
  shows "view_valid C (channel_view b s')" "channel_view b s' = channel_view b t'"
    "sequence_number (active_direction b s') =
       sequence_number (if b then hs_request_direction (handshake_secret s) else hs_response_direction (handshake_secret s))"
proof -
  obtain f where f: "hs_rekey f" "generate_handshake_secret C ver th s = (Ok (), upd_hs f s)"
    "generate_handshake_secret C ver th t = (Ok (), upd_hs f t)"
    using generate_handshake_secret_ok [OF assms(1,4,3), of ver] assms(5) by blast
  obtain k1 k2 where k: "key_iv_ok k1" "key_iv_ok k2"
    "\<And>h. hs_request_direction (f h) = set_key_salt k1 (hs_request_direction h)"
    "\<And>h. hs_response_direction (f h) = set_key_salt k2 (hs_response_direction h)"
    using f(1) unfolding hs_rekey_def by metis
  have inp: "aead_algo_ok (aead_algo (crypto_param s))" "aead_algo (crypto_param t) = aead_algo (crypto_param s)"
    using assms(4,5) by (auto simp: hs_inputs_def)
  have s': "s' = enter SpdmSessionHandshaking (upd_hs f s)" and t': "t' = enter SpdmSessionHandshaking (upd_hs f t)"
    using assms(8,9) f by simp_all
  show "view_valid C (channel_view b s')" "channel_view b s' = channel_view b t'"
    "sequence_number (active_direction b s') =
       sequence_number (if b then hs_request_direction (handshake_secret s) else hs_response_direction (handshake_secret s))"
    using assms(2,6,7) k inp
    by (auto simp add: s' t' enter_def paired_def channel_view_def active_direction_def seq_count_def)
qed

lemma data_views:
  assumes "kdf_ok C" "aead_ok C" "length (Sized_as_ref th) \<le> 64"
    and "key_inputs_ok (app_inputs s)" "app_inputs t = app_inputs s" "paired s t" "application_secret t = application_secret s"
    and "s' = enter SpdmSessionEstablished (snd (generate_data_secret C ver th s))"
    and "t' = enter SpdmSessionEstablished (snd (generate_data_secret C ver th t))"
  shows "view_valid C (channel_view b s')" "channel_view b s' = channel_view b t'"
    "sequence_number (active_direction b s') =
       sequence_number (if b then request_direction (application_secret s) else response_direction (application_secret s))"
proof -
  obtain f where f: "app_rekey f" "generate_data_secret C ver th s = (Ok (), upd_app f s)"
    "generate_data_secret C ver th t = (Ok (), upd_app f t)"
    using generate_data_secret_ok [OF assms(1,4,3), of ver] assms(5) by blast
  obtain k1 k2 where k: "key_iv_ok k1" "key_iv_ok k2"
    "\<And>h. request_direction (f h) = set_key_salt k1 (request_direction h)"
    "\<And>h. response_direction (f h) = set_key_salt k2 (response_direction h)"
    using f(1) unfolding app_rekey_def by metis
  have inp: "aead_algo_ok (aead_algo (crypto_param s))" "aead_algo (crypto_param t) = aead_algo (crypto_param s)"
    using assms(4,5) by (auto simp: app_inputs_def)
  have s': "s' = enter SpdmSessionEstablished (upd_app f s)" and t': "t' = enter SpdmSessionEstablished (upd_app f t)"
    using assms(8,9) f by simp_all
  show "view_valid C (channel_view b s')" "channel_view b s' = channel_view b t'"
    "sequence_number (active_direction b s') =
       sequence_number (if b then request_direction (application_secret s) else response_direction (application_secret s))"
    using assms(2,6,7) k inp
    by (auto simp add: s' t' enter_def paired_def channel_view_def active_direction_def seq_count_def)
qed

text \<open>\<open>set_shared_secret\<close> leaves the roots that the derivations start from.\<close>

lemma set_shared_secret_ok:
  assumes "kdf_ok C" "hash_algo_ok (base_hash_algo (crypto_param self))"
  shows "\<exists>hs ms. secret_ok 64 hs \<and> secret_ok 64 ms \<and> (\<forall>self'. base_hash_algo (crypto_param self') = base_hash_algo (crypto_param self) \<longrightarrow>
     set_shared_secret C ver ss self' = (Ok (), upd_root (\<lambda>r. r\<lparr>shared_secret := ss, root_handshake_secret := hs,
       root_master_secret := ms\<rparr>) self'))"
proof -
  obtain hs where hs: "derive_handshake_secret C ver (base_hash_algo (crypto_param self)) ss = Inr hs" "secret_ok 64 hs"
    using derive_handshake_secret_ok [OF assms] by blast
  obtain ms where "derive_master_secret C ver (base_hash_algo (crypto_param self)) hs = Inr ms" "secret_ok 64 ms"
    using derive_master_secret_ok [OF assms hs(2)] by blast
  with hs show ?thesis by (auto simp: set_shared_secret_def Let_def)
qed

subsection \<open>Key update\<close>

definition no_backup :: "'h SpdmSession \<Rightarrow> bool" where
  "no_backup self \<longleftrightarrow> \<not> requester_backup_valid self \<and> \<not> responder_backup_valid self"

lemma assign_or_fail_cases:
  "assign_or_fail f upd s = (r, s') \<Longrightarrow> s' = s \<and> \<not> is_ok r \<or> (\<exists>x. s' = upd x s \<and> is_ok r)"
  by (auto simp: assign_or_fail_def split: sum.splits)

text \<open>Whether it succeeds or fails halfway, an update keeps the old keys of the direction in the
  backup, and touches nothing else but the keys of that direction.\<close>

lemma update_requester_effect:
  assumes "update_requester_secret C ver self = (r, self')"
  shows "response_data_secret (application_secret self') = response_data_secret (application_secret self)"
    "response_direction (application_secret self') = response_direction (application_secret self)"
    "export_master_secret (application_secret self') = export_master_secret (application_secret self)"
    "request_data_secret (application_secret_backup self') = request_data_secret (application_secret self)"
    "request_direction (application_secret_backup self') = request_direction (application_secret self)"
    "response_data_secret (application_secret_backup self') = response_data_secret (application_secret_backup self)"
    "response_direction (application_secret_backup self') = response_direction (application_secret_backup self)"
    "requester_backup_valid self'" "responder_backup_valid self' = responder_backup_valid self"
  using assms
  by (auto simp: update_requester_secret_def Let_def assign_or_fail_def split: sum.splits)

lemma update_responder_effect:
  assumes "update_responder_secret C ver self = (r, self')"
  shows "request_data_secret (application_secret self') = request_data_secret (application_secret self)"
    "request_direction (application_secret self') = request_direction (application_secret self)"
    "export_master_secret (application_secret self') = export_master_secret (application_secret self)"
    "response_data_secret (application_secret_backup self') = response_data_secret (application_secret self)"
    "response_direction (application_secret_backup self') = response_direction (application_secret self)"
    "request_data_secret (application_secret_backup self') = request_data_secret (application_secret_backup self)"
    "request_direction (application_secret_backup self') = request_direction (application_secret_backup self)"
    "responder_backup_valid self'" "requester_backup_valid self' = requester_backup_valid self"
  using assms
  by (auto simp: update_responder_secret_def Let_def assign_or_fail_def split: sum.splits)

lemma update_rollback:
  assumes "no_backup self" "create_data_secret_update C ver rq rs self = (r, self')"
  shows "application_secret (activate_data_secret_update ver rq rs False self') = application_secret self"
proof -
  consider (none) "self' = self" | (rq) r1 where "rq" "update_requester_secret C ver self = (r1, self')"
    | (rs) r2 where "\<not> rq" "rs" "update_responder_secret C ver self = (r2, self')"
    | (both) r1 r2 s1 where "rq" "rs" "update_requester_secret C ver self = (r1, s1)"
        "update_responder_secret C ver s1 = (r2, self')"
    using assms(2) by (auto simp: create_data_secret_update_def split: if_splits prod.splits sum.splits)
  then show ?thesis
  proof cases
    case none
    with assms(1) show ?thesis by (simp add: no_backup_def activate_data_secret_update_def)
  next
    case rq
    with assms(1) update_requester_effect [OF rq(2)] show ?thesis
      by (simp add: no_backup_def activate_data_secret_update_def)
  next
    case rs
    with assms(1) update_responder_effect [OF rs(3)] show ?thesis
      by (simp add: no_backup_def activate_data_secret_update_def)
  next
    case both
    with assms(1) update_requester_effect [OF both(3)] update_responder_effect [OF both(4)] show ?thesis
      by (simp add: no_backup_def activate_data_secret_update_def)
  qed
qed

text \<open>A successful update gives both ends the same new keys, with sequence number zero.\<close>

lemma update_requester_ok:
  assumes "kdf_ok C" "hash_algo_ok h" "aead_algo_ok a" "secret_ok 64 d"
  shows "\<exists>d' k. secret_ok 64 d' \<and> key_iv_ok k \<and> (\<forall>self. base_hash_algo (crypto_param self) = h \<longrightarrow>
     aead_algo (crypto_param self) = a \<longrightarrow> request_data_secret (application_secret self) = d \<longrightarrow>
     update_requester_secret C ver self = (Ok (), upd_app (\<lambda>x. x\<lparr>request_data_secret := d',
       request_direction := (set_key_salt k (request_direction x))\<lparr>sequence_number := 0\<rparr>\<rparr>)
       ((upd_backup (\<lambda>b. b\<lparr>request_data_secret := d, request_direction := request_direction (application_secret self)\<rparr>) self)
         \<lparr>requester_backup_valid := True\<rparr>)))"
proof -
  obtain d' where d': "derive_update_secret C ver h d = Inr d'" "secret_ok 64 d'"
    using derive_fixed_ok(2) [OF assms(1,2,4)] by blast
  obtain k where "derive_aead_key_iv C ver h a d' = Inr k" "key_iv_ok k"
    using derive_aead_key_iv_ok [OF assms(1-3) d'(2)] by blast
  with d' show ?thesis by (intro exI [of _ d'] exI [of _ k]) (simp add: update_requester_secret_def)
qed

lemma update_responder_ok:
  assumes "kdf_ok C" "hash_algo_ok h" "aead_algo_ok a" "secret_ok 64 d"
  shows "\<exists>d' k. secret_ok 64 d' \<and> key_iv_ok k \<and> (\<forall>self. base_hash_algo (crypto_param self) = h \<longrightarrow>
     aead_algo (crypto_param self) = a \<longrightarrow> response_data_secret (application_secret self) = d \<longrightarrow>
     update_responder_secret C ver self = (Ok (), upd_app (\<lambda>x. x\<lparr>response_data_secret := d',
       response_direction := (set_key_salt k (response_direction x))\<lparr>sequence_number := 0\<rparr>\<rparr>)
       ((upd_backup (\<lambda>b. b\<lparr>response_data_secret := d, response_direction := response_direction (application_secret self)\<rparr>) self)
         \<lparr>responder_backup_valid := True\<rparr>)))"
proof -
  obtain d' where d': "derive_update_secret C ver h d = Inr d'" "secret_ok 64 d'"
    using derive_fixed_ok(2) [OF assms(1,2,4)] by blast
  obtain k where "derive_aead_key_iv C ver h a d' = Inr k" "key_iv_ok k"
    using derive_aead_key_iv_ok [OF assms(1-3) d'(2)] by blast
  with d' show ?thesis by (intro exI [of _ d'] exI [of _ k]) (simp add: update_responder_secret_def)
qed

definition data_keys_ok :: "'h SpdmSession \<Rightarrow> bool" where
  "data_keys_ok self \<longleftrightarrow> session_state self = SpdmSessionEstablished \<and> hash_algo_ok (base_hash_algo (crypto_param self))
     \<and> aead_algo_ok (aead_algo (crypto_param self)) \<and> seq_count self \<le> 8
     \<and> secret_ok 64 (request_data_secret (application_secret self)) \<and> secret_ok 64 (response_data_secret (application_secret self))
     \<and> (\<forall>b. key_iv_ok (encryption_key (active_direction b self), salt (active_direction b self)))"

definition same_data_keys :: "'h SpdmSession \<Rightarrow> 'h SpdmSession \<Rightarrow> bool" where
  "same_data_keys s t \<longleftrightarrow> session_state s = session_state t \<and> paired s t
     \<and> base_hash_algo (crypto_param s) = base_hash_algo (crypto_param t)
     \<and> aead_algo (crypto_param s) = aead_algo (crypto_param t)
     \<and> application_secret s = application_secret t"

lemma same_data_views: "aead_ok C \<Longrightarrow> data_keys_ok s \<Longrightarrow> view_valid C (channel_view b s)"
  by (auto simp: data_keys_ok_def channel_view_def seq_count_def)

lemma same_data_view: "data_keys_ok s \<Longrightarrow> same_data_keys s t \<Longrightarrow> channel_view b s = channel_view b t"
  by (auto simp: data_keys_ok_def same_data_keys_def channel_view_def paired_def active_direction_def)

lemma update_requester_pair:
  assumes "kdf_ok C" "data_keys_ok s" "same_data_keys s t"
  shows "\<exists>s' t'. update_requester_secret C ver s = (Ok (), s') \<and> update_requester_secret C ver t = (Ok (), t')
     \<and> data_keys_ok s' \<and> same_data_keys s' t' \<and> sequence_number (active_direction True s') = 0
     \<and> active_direction False s' = active_direction False s"
proof -
  have ok: "hash_algo_ok (base_hash_algo (crypto_param s))" "aead_algo_ok (aead_algo (crypto_param s))"
    "secret_ok 64 (request_data_secret (application_secret s))"
    using assms(2) by (simp_all add: data_keys_ok_def)
  have t: "base_hash_algo (crypto_param t) = base_hash_algo (crypto_param s)"
    "aead_algo (crypto_param t) = aead_algo (crypto_param s)" "application_secret t = application_secret s"
    using assms(3) by (simp_all add: same_data_keys_def)
  obtain d' k where k: "secret_ok 64 d'" "key_iv_ok k" and upd: "\<And>self. base_hash_algo (crypto_param self) = base_hash_algo (crypto_param s) \<Longrightarrow>
     aead_algo (crypto_param self) = aead_algo (crypto_param s) \<Longrightarrow>
     request_data_secret (application_secret self) = request_data_secret (application_secret s) \<Longrightarrow>
     update_requester_secret C ver self = (Ok (), upd_app (\<lambda>x. x\<lparr>request_data_secret := d',
       request_direction := (set_key_salt k (request_direction x))\<lparr>sequence_number := 0\<rparr>\<rparr>)
       ((upd_backup (\<lambda>b. b\<lparr>request_data_secret := request_data_secret (application_secret s), request_direction := request_direction (application_secret self)\<rparr>) self)
         \<lparr>requester_backup_valid := True\<rparr>))"
    using update_requester_ok [OF assms(1) ok, of ver] by blast
  have "\<forall>b. key_iv_ok (encryption_key (active_direction b s), salt (active_direction b s))"
    "session_state s = SpdmSessionEstablished"
    using assms(2) by (simp_all add: data_keys_ok_def)
  note keys = this(1) [THEN spec, of True] this(1) [THEN spec, of False] this(2)
  show ?thesis
    unfolding upd [OF refl refl refl] upd [OF t(1,2) arg_cong [OF t(3)]]
    using assms(2,3) k t keys
    by (simp add: data_keys_ok_def same_data_keys_def paired_def seq_count_def active_direction_def all_bool_eq)
qed

lemma update_responder_pair:
  assumes "kdf_ok C" "data_keys_ok s" "same_data_keys s t"
  shows "\<exists>s' t'. update_responder_secret C ver s = (Ok (), s') \<and> update_responder_secret C ver t = (Ok (), t')
     \<and> data_keys_ok s' \<and> same_data_keys s' t' \<and> sequence_number (active_direction False s') = 0
     \<and> active_direction True s' = active_direction True s"
proof -
  have ok: "hash_algo_ok (base_hash_algo (crypto_param s))" "aead_algo_ok (aead_algo (crypto_param s))"
    "secret_ok 64 (response_data_secret (application_secret s))"
    using assms(2) by (simp_all add: data_keys_ok_def)
  have t: "base_hash_algo (crypto_param t) = base_hash_algo (crypto_param s)"
    "aead_algo (crypto_param t) = aead_algo (crypto_param s)" "application_secret t = application_secret s"
    using assms(3) by (simp_all add: same_data_keys_def)
  obtain d' k where k: "secret_ok 64 d'" "key_iv_ok k" and upd: "\<And>self. base_hash_algo (crypto_param self) = base_hash_algo (crypto_param s) \<Longrightarrow>
     aead_algo (crypto_param self) = aead_algo (crypto_param s) \<Longrightarrow>
     response_data_secret (application_secret self) = response_data_secret (application_secret s) \<Longrightarrow>
     update_responder_secret C ver self = (Ok (), upd_app (\<lambda>x. x\<lparr>response_data_secret := d',
       response_direction := (set_key_salt k (response_direction x))\<lparr>sequence_number := 0\<rparr>\<rparr>)
       ((upd_backup (\<lambda>b. b\<lparr>response_data_secret := response_data_secret (application_secret s), response_direction := response_direction (application_secret self)\<rparr>) self)
         \<lparr>responder_backup_valid := True\<rparr>))"
    using update_responder_ok [OF assms(1) ok, of ver] by blast
  have "\<forall>b. key_iv_ok (encryption_key (active_direction b s), salt (active_direction b s))"
    "session_state s = SpdmSessionEstablished"
    using assms(2) by (simp_all add: data_keys_ok_def)
  note keys = this(1) [THEN spec, of True] this(1) [THEN spec, of False] this(2)
  show ?thesis
    unfolding upd [OF refl refl refl] upd [OF t(1,2) arg_cong [OF t(3)]]
    using assms(2,3) k t keys
    by (simp add: data_keys_ok_def same_data_keys_def paired_def seq_count_def active_direction_def all_bool_eq)
qed

text \<open>The two steps of an update as the flags select them.\<close>

definition maybe_step :: "bool \<Rightarrow> ('s \<Rightarrow> unit SpdmResult \<times> 's) \<Rightarrow> 's \<Rightarrow> unit SpdmResult \<times> 's" where
  "maybe_step f m s = (if f then m s else (Ok (), s))"

definition rekeyed :: "bool \<Rightarrow> bool \<Rightarrow> 'h SpdmSession \<Rightarrow> 'h SpdmSession \<Rightarrow> bool" where
  "rekeyed f b s s' \<longleftrightarrow> (f \<longrightarrow> sequence_number (active_direction b s') = 0)
     \<and> (\<not> f \<longrightarrow> active_direction b s' = active_direction b s)
     \<and> active_direction (\<not> b) s' = active_direction (\<not> b) s"

lemma create_data_secret_update_steps:
  "create_data_secret_update C ver rq rs self =
     run_steps [maybe_step rq (update_requester_secret C ver), maybe_step rs (update_responder_secret C ver)] self"
  unfolding create_data_secret_update_def maybe_step_def ..

lemma maybe_update_requester:
  assumes "kdf_ok C" "data_keys_ok s" "same_data_keys s t"
  shows "\<exists>s' t'. maybe_step f (update_requester_secret C ver) s = (Ok (), s') \<and> maybe_step f (update_requester_secret C ver) t = (Ok (), t')
     \<and> data_keys_ok s' \<and> same_data_keys s' t' \<and> rekeyed f True s s'"
proof (cases f)
  case True
  with update_requester_pair [OF assms, of ver] show ?thesis by (simp add: maybe_step_def rekeyed_def)
next
  case False
  with assms(2,3) show ?thesis by (simp add: maybe_step_def rekeyed_def)
qed

lemma maybe_update_responder:
  assumes "kdf_ok C" "data_keys_ok s" "same_data_keys s t"
  shows "\<exists>s' t'. maybe_step f (update_responder_secret C ver) s = (Ok (), s') \<and> maybe_step f (update_responder_secret C ver) t = (Ok (), t')
     \<and> data_keys_ok s' \<and> same_data_keys s' t' \<and> rekeyed f False s s'"
proof (cases f)
  case True
  with update_responder_pair [OF assms, of ver] show ?thesis by (simp add: maybe_step_def rekeyed_def)
next
  case False
  with assms(2,3) show ?thesis by (simp add: maybe_step_def rekeyed_def)
qed

end
