(* ===== verification/SampleProvider.thy ===== *)
theory SampleProvider
  imports SessionKeys
begin

text \<open>
  A cryptographic provider written out, and two sessions that use it. The providers of the program
  are outside the sources (ring, aws-lc, mbedtls); what the library assumes of one is stated by
  \<open>kdf_ok\<close>, \<open>aead_ok\<close> and \<open>decrypt_total\<close>, and this provider shows that the three can hold together.
  Its AEAD appends a tag that is the associated data folded by XOR, and its derivations keep bytes of
  their input.
\<close>

definition filled :: "usize \<Rightarrow> u16 \<Rightarrow> bytes \<Rightarrow> Sized" where
  "filled n k bs = \<lparr>data_size = k, data = take (unat k) (bs @ replicate n 0) @ replicate (n - unat k) 0\<rparr>"

lemma filled_ok: "unat k \<le> n \<Longrightarrow> Sized_ok n (filled n k bs) \<and> data_size (filled n k bs) = k"
  by (simp add: filled_def Sized_ok_def)

definition sample_tag :: "bytes \<Rightarrow> bytes" where
  "sample_tag aad = replicate 16 (fold (XOR) aad 0)"

definition sample_crypto :: "bytes Crypto" where
  "sample_crypto = \<lparr>
     hash_all = \<lambda>h bs. if hash_algo_ok h then Some (filled 64 (hash_size h) (rev bs)) else None,
     hash_ctx_init = \<lambda>h. if hash_algo_ok h then Some (put_u64 (ucast (hash_size h))) else None,
     hash_ctx_update = \<lambda>c bs. Ok (c @ bs),
     hash_ctx_finalize = \<lambda>c. (case decode_u64 c of
         Some n \<Rightarrow> Some (filled 64 (ucast n) (rev (drop 8 c))) | None \<Rightarrow> None),
     hmac = \<lambda>h k bs. if hash_algo_ok h then Some (filled 64 (hash_size h) (map2 (XOR) k (rev bs))) else None,
     hmac_verify = \<lambda>h k bs mac. if hash_algo_ok h
         \<and> mac = filled 64 (hash_size h) (map2 (XOR) k (rev bs)) then Ok () else Err SPDM_STATUS_VERIF_FAIL,
     hkdf_extract = \<lambda>h salt ikm. Some (filled 64 (hash_size h) (Sized_as_ref ikm)),
     hkdf_expand = \<lambda>h prk info n. Some (filled 64 n (Sized_as_ref prk)),
     aead_encrypt = \<lambda>a key iv aad pt tag_len ct_len. Ok (ct_len, tag_len, take tag_len (sample_tag aad), pt),
     aead_decrypt = \<lambda>a key iv aad ct tag n. if tag = sample_tag aad then Ok (n, ct) else Err SPDM_STATUS_CRYPTO_ERROR,
     psk_handshake_secret_hkdf_expand = \<lambda>v h hint info. Some (filled 64 (hash_size h) info),
     psk_master_secret_hkdf_expand = \<lambda>v h hint info. Some (filled 64 (hash_size h) info)\<rparr>"

lemma u16_le_64 [simp]: "(n :: u16) \<le> 64 \<Longrightarrow> unat n \<le> 64"
  by (simp add: word_le_nat_alt)

lemma sample_kdf_ok: "kdf_ok sample_crypto"
  using filled_ok by (simp add: kdf_ok_def sample_crypto_def okm_ok_def)

lemma sample_aead_ok: "aead_ok sample_crypto"
  by (simp add: aead_ok_def sample_crypto_def sample_tag_def)

lemma sample_decrypt_total: "decrypt_total sample_crypto"
  by (simp add: decrypt_total_def sample_crypto_def)

text \<open>Both ends of a session over MCTP, after the key exchange has fixed algorithms and secret.\<close>

definition sample_end :: "bytes SpdmSession" where
  "sample_end =
     (snd (set_shared_secret sample_crypto SpdmVersion12 (filled 64 32 [1, 2, 3, 4])
       (set_transport_param 2 32
         (set_crypto_param SpdmBaseHashAlgo_TPM_ALG_SHA_384 SpdmDheAlgo_SECP_384_R1 0
           SpdmAeadAlgo_AES_256_GCM SpdmKeyScheduleAlgo_SPDM_KEY_SCHEDULE
           (SpdmSession_new\<lparr>session_id := 0xFFFEFFFE\<rparr>)))))"

definition sample_th :: SpdmDigestStruct where
  "sample_th = filled 64 48 [5, 6, 7]"

lemma sample_algos [simp]: "hash_algo_ok SpdmBaseHashAlgo_TPM_ALG_SHA_384" "aead_algo_ok SpdmAeadAlgo_AES_256_GCM"
  by (simp_all add: hash_algo_ok_def aead_algo_ok_def SpdmBaseHashAlgo_prio_table_def SpdmAeadAlgo_prio_table_def)

lemma sample_th_length: "length (Sized_as_ref sample_th) \<le> 64"
  by (simp add: sample_th_def filled_def Sized_as_ref_def)

lemma sample_end_fields:
  "session_id sample_end = 0xFFFEFFFE" "session_state sample_end = SpdmSessionNotStarted"
  "crypto_param sample_end = \<lparr>base_hash_algo = SpdmBaseHashAlgo_TPM_ALG_SHA_384, dhe_algo = SpdmDheAlgo_SECP_384_R1,
      kem_algo = 0, aead_algo = SpdmAeadAlgo_AES_256_GCM, key_schedule_algo = SpdmKeyScheduleAlgo_SPDM_KEY_SCHEDULE\<rparr>"
  "transport_param sample_end = \<lparr>sequence_number_count = 2, max_random_count = 32\<rparr>"
  "seq_count sample_end = 2"
  "handshake_secret sample_end = SpdmSessionHandshakeSecret_default"
  "application_secret sample_end = SpdmSessionApplicationSecret_default"
  "\<not> requester_backup_valid sample_end" "\<not> responder_backup_valid sample_end"
  "key_inputs_ok (hs_inputs sample_end)" "key_inputs_ok (app_inputs sample_end)"
proof -
  define s0 where "s0 = set_transport_param 2 32
         (set_crypto_param SpdmBaseHashAlgo_TPM_ALG_SHA_384 SpdmDheAlgo_SECP_384_R1 0
           SpdmAeadAlgo_AES_256_GCM SpdmKeyScheduleAlgo_SPDM_KEY_SCHEDULE
           ((SpdmSession_new :: bytes SpdmSession)\<lparr>session_id := 0xFFFEFFFE\<rparr>))"
  have "hash_algo_ok (base_hash_algo (crypto_param s0))"
    by (simp add: s0_def set_transport_param_def set_crypto_param_def)
  from set_shared_secret_ok [OF sample_kdf_ok this, of SpdmVersion12 "filled 64 32 [1, 2, 3, 4]"]
  obtain hs ms where ok: "secret_ok 64 hs" "secret_ok 64 ms"
    and eq: "sample_end = upd_root (\<lambda>r. r\<lparr>shared_secret := filled 64 32 [1, 2, 3, 4], root_handshake_secret := hs, root_master_secret := ms\<rparr>) s0"
    unfolding sample_end_def s0_def [symmetric] by auto
  show
    "session_id sample_end = 0xFFFEFFFE" "session_state sample_end = SpdmSessionNotStarted"
    "crypto_param sample_end = \<lparr>base_hash_algo = SpdmBaseHashAlgo_TPM_ALG_SHA_384, dhe_algo = SpdmDheAlgo_SECP_384_R1,
      kem_algo = 0, aead_algo = SpdmAeadAlgo_AES_256_GCM, key_schedule_algo = SpdmKeyScheduleAlgo_SPDM_KEY_SCHEDULE\<rparr>"
    "transport_param sample_end = \<lparr>sequence_number_count = 2, max_random_count = 32\<rparr>"
    "seq_count sample_end = 2"
    "handshake_secret sample_end = SpdmSessionHandshakeSecret_default"
    "application_secret sample_end = SpdmSessionApplicationSecret_default"
    "\<not> requester_backup_valid sample_end" "\<not> responder_backup_valid sample_end"
    "key_inputs_ok (hs_inputs sample_end)" "key_inputs_ok (app_inputs sample_end)"
    unfolding eq using ok
    by (simp_all add: s0_def set_transport_param_def set_crypto_param_def SpdmSession_new_def seq_count_def
        hs_inputs_def app_inputs_def SpdmSessionCryptoParam_default_def SpdmSessionTransportParam_default_def)
qed

text \<open>The two ends after the handshake keys and after the data keys have been derived.\<close>

definition sample_hs :: "bytes SpdmSession" where
  "sample_hs = enter SpdmSessionHandshaking (snd (generate_handshake_secret sample_crypto SpdmVersion12 sample_th sample_end))"

definition sample_data :: "bytes SpdmSession" where
  "sample_data = enter SpdmSessionEstablished (snd (generate_data_secret sample_crypto SpdmVersion12 sample_th sample_end))"

lemma sample_paired: "paired sample_end sample_end"
  by (simp add: paired_def sample_end_fields)

lemmas sample_hs_views = handshake_views [OF sample_kdf_ok sample_aead_ok sample_th_length
  sample_end_fields(10) refl sample_paired refl sample_hs_def sample_hs_def]

lemmas sample_data_views = data_views [OF sample_kdf_ok sample_aead_ok sample_th_length
  sample_end_fields(11) refl sample_paired refl sample_data_def sample_data_def]

lemma sample_seq:
  "sequence_number (active_direction b sample_hs) = 0" "sequence_number (active_direction b sample_data) = 0"
  using sample_hs_views(3) [of b] sample_data_views(3) [of b]
  by (simp_all add: sample_end_fields SpdmSessionHandshakeSecret_default_def SpdmSessionApplicationSecret_default_def
      SpdmSessionSecretParam_default_def)

lemma sample_hs_count: "seq_count sample_hs = 2"
proof -
  obtain f where "generate_handshake_secret sample_crypto SpdmVersion12 sample_th sample_end = (Ok (), upd_hs f sample_end)"
    using generate_handshake_secret_ok [OF sample_kdf_ok sample_end_fields(10) sample_th_length] by blast
  then show ?thesis using sample_end_fields(5) by (simp add: sample_hs_def enter_def seq_count_def)
qed

lemma sample_data_keys_ok: "data_keys_ok sample_data"
proof -
  obtain f where f: "app_rekey f" "generate_data_secret sample_crypto SpdmVersion12 sample_th sample_end = (Ok (), upd_app f sample_end)"
    using generate_data_secret_ok [OF sample_kdf_ok sample_end_fields(11) sample_th_length] by blast
  have "view_valid sample_crypto (channel_view b sample_data)" for b by (rule sample_data_views(1))
  with f sample_end_fields(3,5) show ?thesis
    by (auto simp: data_keys_ok_def sample_data_def enter_def app_rekey_def channel_view_def seq_count_def)
qed

lemma sample_same_data_keys: "same_data_keys sample_data sample_data"
  using sample_data_keys_ok by (simp add: same_data_keys_def paired_def data_keys_ok_def)

lemma sample_msg_fits: "msg_fits [1, 2, 3]"
  by (simp add: msg_fits_def SENDER_BUFFER_SIZE_def RECEIVER_BUFFER_SIZE_def)

text \<open>A run in which the requester has sent one message.\<close>

lemma sample_run:
  "\<exists>st. (duplex_step (session_send sample_crypto) (session_recv sample_crypto) msg_fits)\<^sup>*\<^sup>* (duplex_init sample_hs sample_hs) st
     \<and> sent st True = [[1, 2, 3]] \<and> length (wire st True) = 1"
proof -
  let ?i = "duplex_init sample_hs sample_hs :: (bytes SpdmSession, bytes, bytes) duplex"
  have "sequence_number (active_direction True sample_hs) \<noteq> 0xFFFFFFFFFFFFFFFF" by (simp add: sample_seq)
  from session_send_deliver [OF sample_hs_views(1) sample_msg_fits this]
  obtain f where "session_send sample_crypto True [1, 2, 3] (end_of True ?i) = Some (f, bump_direction True sample_hs)"
    by (auto simp: end_of_def duplex_init_def)
  from duplex_step.Send [where snd_op = "session_send sample_crypto" and fits = msg_fits and b = True and st = ?i
      and rcv_op = "session_recv sample_crypto", OF sample_msg_fits this]
  show ?thesis by (intro exI conjI, rule r_into_rtranclp) (auto simp: duplex_init_def set_end_def)
qed

end
