(* ===== verification/Negotiate.thy ===== *)
theory Negotiate
  imports Protocol Session
begin

text \<open>
  What an endpoint is configured to support and what a connection agreed on: \<open>SpdmConfigInfo\<close> and
  \<open>SpdmNegotiateInfo\<close> of \<open>spdmlib/src/common/mod.rs\<close> with the codecs that export and import use,
  and the secured message versions of \<open>spdmlib/src/common/opaque.rs\<close>.

  The fields of the configuration carry the prefix \<open>cfg_\<close>: several have the name of a field of
  another record.
\<close>

text \<open>\<open>contains\<close> of the \<open>bitflags!\<close> types.\<close>

definition contains :: "'a::len word \<Rightarrow> 'a word \<Rightarrow> bool" where
  "contains flags f \<longleftrightarrow> flags AND f = f"

text \<open>\<open>b as u8\<close>, and \<open>u8::read(r)? != 0\<close>.\<close>

definition bool_encode :: "bool \<Rightarrow> encode_err encoder" where
  "bool_encode b = u8_encode (if b then 1 else 0)"

definition bool_read :: "bool decoder" where
  "bool_read r = do { (v, r) \<leftarrow> u8_read r; Some (v \<noteq> 0, r) }"

text \<open>\<open>iter().flatten()\<close> on an array of options, and the array that a counted read fills.\<close>

fun flatten :: "'a option list \<Rightarrow> 'a list" where
  "flatten [] = []"
| "flatten (None # xs) = flatten xs"
| "flatten (Some x # xs) = x # flatten xs"

definition fill_slots :: "nat \<Rightarrow> 'a list \<Rightarrow> 'a option list" where
  "fill_slots n xs = map Some xs @ replicate (n - length xs) None"

definition slots_encode :: "('a \<Rightarrow> encode_err encoder) \<Rightarrow> 'a option list \<Rightarrow> encode_err encoder" where
  "slots_encode enc xs =
     enc_seq [u8_encode (of_nat (length (flatten xs))), array_encode enc (flatten xs)]"

definition slots_read :: "'a decoder \<Rightarrow> nat \<Rightarrow> 'a option list decoder" where
  "slots_read rd n r = do {
     (count, r) \<leftarrow> u8_read r;
     (xs, r) \<leftarrow> array_read rd (min (unat count) n) r;
     Some (fill_slots n xs, r) }"

subsection \<open>Secured message versions\<close>

abbreviation (input) MAX_SECURE_SPDM_VERSION_COUNT :: usize where
  "MAX_SECURE_SPDM_VERSION_COUNT \<equiv> 3"

text \<open>The sum of two bytes, which panics when it overflows.\<close>

definition u8_sum_encode :: "u8 \<Rightarrow> u8 \<Rightarrow> encode_err encoder" where
  "u8_sum_encode a b w =
     (if 256 \<le> unat a + unat b then Inl EncodePanic else u8_encode (a + b) w)"

definition SecuredMessageVersion_encode :: "SecuredMessageVersion \<Rightarrow> encode_err encoder" where
  "SecuredMessageVersion_encode self =
     enc_seq [u8_sum_encode (push_bit 4 (update_version_number self)) (alpha self),
              u8_sum_encode (push_bit 4 (major_version self)) (minor_version self)]"

definition SecuredMessageVersion_read :: "SecuredMessageVersion decoder" where
  "SecuredMessageVersion_read r = do {
     (update_version_number_alpha, r) \<leftarrow> u8_read r;
     (major_version_minor_version, r) \<leftarrow> u8_read r;
     Some (\<lparr>major_version = drop_bit 4 major_version_minor_version,
            minor_version = major_version_minor_version AND 0x0F,
            update_version_number = drop_bit 4 update_version_number_alpha,
            alpha = update_version_number_alpha AND 0x0F\<rparr>, r) }"

text \<open>\<open>PartialEq\<close> ignores the update number and the alpha.\<close>

definition SecuredMessageVersion_eq :: "SecuredMessageVersion \<Rightarrow> SecuredMessageVersion \<Rightarrow> bool" where
  "SecuredMessageVersion_eq self smv \<longleftrightarrow>
     major_version self = major_version smv \<and> minor_version self = minor_version smv"

subsection \<open>Configuration\<close>

record SpdmConfigInfo =
  cfg_spdm_version :: "SpdmVersion option list"
  cfg_req_capabilities :: SpdmRequestCapabilityFlags
  cfg_rsp_capabilities :: SpdmResponseCapabilityFlags
  cfg_req_ct_exponent :: u8
  cfg_rsp_ct_exponent :: u8
  cfg_measurement_specification :: SpdmMeasurementSpecification
  cfg_measurement_hash_algo :: SpdmMeasurementHashAlgo
  cfg_base_hash_algo :: SpdmBaseHashAlgo
  cfg_base_asym_algo :: SpdmBaseAsymAlgo
  cfg_dhe_algo :: SpdmDheAlgo
  cfg_aead_algo :: SpdmAeadAlgo
  cfg_req_asym_algo :: SpdmReqAsymAlgo
  cfg_key_schedule_algo :: SpdmKeyScheduleAlgo
  cfg_other_params_support :: SpdmAlgoOtherParams
  cfg_session_policy :: u8
  cfg_runtime_content_change_support :: bool
  cfg_data_transfer_size :: u32
  cfg_max_spdm_msg_size :: u32
  cfg_heartbeat_period :: u8
  cfg_secure_spdm_version :: "SecuredMessageVersion option list"
  cfg_mel_specification :: SpdmMelSpecification
  cfg_pqc_asym_algo :: SpdmPqcAsymAlgo
  cfg_pqc_req_asym_algo :: SpdmPqcReqAsymAlgo
  cfg_kem_algo :: SpdmKemAlgo

definition SpdmConfigInfo_encode :: "SpdmConfigInfo \<Rightarrow> encode_err encoder" where
  "SpdmConfigInfo_encode self = enc_seq
    [slots_encode SpdmVersion_encode (cfg_spdm_version self),
     SpdmRequestCapabilityFlags_encode (cfg_req_capabilities self),
     SpdmResponseCapabilityFlags_encode (cfg_rsp_capabilities self),
     u8_encode (cfg_req_ct_exponent self),
     u8_encode (cfg_rsp_ct_exponent self),
     SpdmMeasurementSpecification_encode (cfg_measurement_specification self),
     SpdmMeasurementHashAlgo_encode (cfg_measurement_hash_algo self),
     SpdmBaseHashAlgo_encode (cfg_base_hash_algo self),
     SpdmBaseAsymAlgo_encode (cfg_base_asym_algo self),
     SpdmDheAlgo_encode (cfg_dhe_algo self),
     SpdmAeadAlgo_encode (cfg_aead_algo self),
     SpdmReqAsymAlgo_encode (cfg_req_asym_algo self),
     SpdmKeyScheduleAlgo_encode (cfg_key_schedule_algo self),
     SpdmAlgoOtherParams_encode (cfg_other_params_support self),
     u8_encode (cfg_session_policy self),
     bool_encode (cfg_runtime_content_change_support self),
     u32_encode (cfg_data_transfer_size self),
     u32_encode (cfg_max_spdm_msg_size self),
     u8_encode (cfg_heartbeat_period self),
     slots_encode SecuredMessageVersion_encode (cfg_secure_spdm_version self),
     SpdmMelSpecification_encode (cfg_mel_specification self),
     SpdmPqcAsymAlgo_encode (cfg_pqc_asym_algo self),
     SpdmPqcReqAsymAlgo_encode (cfg_pqc_req_asym_algo self),
     SpdmKemAlgo_encode (cfg_kem_algo self)]"

definition SpdmConfigInfo_read :: "SpdmConfigInfo decoder" where
  "SpdmConfigInfo_read r = do {
     (spdm_version, r) \<leftarrow> slots_read SpdmVersion_read MAX_SPDM_VERSION_COUNT r;
     (req_capabilities, r) \<leftarrow> SpdmRequestCapabilityFlags_read r;
     (rsp_capabilities, r) \<leftarrow> SpdmResponseCapabilityFlags_read r;
     (req_ct_exponent, r) \<leftarrow> u8_read r;
     (rsp_ct_exponent, r) \<leftarrow> u8_read r;
     (measurement_specification, r) \<leftarrow> SpdmMeasurementSpecification_read r;
     (measurement_hash_algo, r) \<leftarrow> SpdmMeasurementHashAlgo_read r;
     (base_hash_algo, r) \<leftarrow> SpdmBaseHashAlgo_read r;
     (base_asym_algo, r) \<leftarrow> SpdmBaseAsymAlgo_read r;
     (dhe_algo, r) \<leftarrow> SpdmDheAlgo_read r;
     (aead_algo, r) \<leftarrow> SpdmAeadAlgo_read r;
     (req_asym_algo, r) \<leftarrow> SpdmReqAsymAlgo_read r;
     (key_schedule_algo, r) \<leftarrow> SpdmKeyScheduleAlgo_read r;
     (other_params_support, r) \<leftarrow> SpdmAlgoOtherParams_read r;
     (session_policy, r) \<leftarrow> u8_read r;
     (runtime_content_change_support, r) \<leftarrow> bool_read r;
     (data_transfer_size, r) \<leftarrow> u32_read r;
     (max_spdm_msg_size, r) \<leftarrow> u32_read r;
     (heartbeat_period, r) \<leftarrow> u8_read r;
     (secure_spdm_version, r) \<leftarrow> slots_read SecuredMessageVersion_read MAX_SECURE_SPDM_VERSION_COUNT r;
     (mel_specification, r) \<leftarrow> SpdmMelSpecification_read r;
     (pqc_asym_algo, r) \<leftarrow> SpdmPqcAsymAlgo_read r;
     (pqc_req_asym_algo, r) \<leftarrow> SpdmPqcReqAsymAlgo_read r;
     (kem_algo, r) \<leftarrow> SpdmKemAlgo_read r;
     Some (\<lparr>cfg_spdm_version = spdm_version, cfg_req_capabilities = req_capabilities,
            cfg_rsp_capabilities = rsp_capabilities, cfg_req_ct_exponent = req_ct_exponent,
            cfg_rsp_ct_exponent = rsp_ct_exponent,
            cfg_measurement_specification = measurement_specification,
            cfg_measurement_hash_algo = measurement_hash_algo, cfg_base_hash_algo = base_hash_algo,
            cfg_base_asym_algo = base_asym_algo, cfg_dhe_algo = dhe_algo, cfg_aead_algo = aead_algo,
            cfg_req_asym_algo = req_asym_algo, cfg_key_schedule_algo = key_schedule_algo,
            cfg_other_params_support = other_params_support, cfg_session_policy = session_policy,
            cfg_runtime_content_change_support = runtime_content_change_support,
            cfg_data_transfer_size = data_transfer_size, cfg_max_spdm_msg_size = max_spdm_msg_size,
            cfg_heartbeat_period = heartbeat_period, cfg_secure_spdm_version = secure_spdm_version,
            cfg_mel_specification = mel_specification, cfg_pqc_asym_algo = pqc_asym_algo,
            cfg_pqc_req_asym_algo = pqc_req_asym_algo, cfg_kem_algo = kem_algo\<rparr>, r) }"

subsection \<open>Negotiated parameters\<close>

record SpdmNegotiateInfo =
  spdm_version_sel :: SpdmVersion
  req_capabilities_sel :: SpdmRequestCapabilityFlags
  rsp_capabilities_sel :: SpdmResponseCapabilityFlags
  req_ct_exponent_sel :: u8
  rsp_ct_exponent_sel :: u8
  measurement_specification_sel :: SpdmMeasurementSpecification
  measurement_hash_sel :: SpdmMeasurementHashAlgo
  base_hash_sel :: SpdmBaseHashAlgo
  base_asym_sel :: SpdmBaseAsymAlgo
  dhe_sel :: SpdmDheAlgo
  aead_sel :: SpdmAeadAlgo
  req_asym_sel :: SpdmReqAsymAlgo
  key_schedule_sel :: SpdmKeyScheduleAlgo
  other_params_support :: SpdmAlgoOtherParams
  termination_policy_set :: bool
  req_data_transfer_size_sel :: u32
  req_max_spdm_msg_size_sel :: u32
  rsp_data_transfer_size_sel :: u32
  rsp_max_spdm_msg_size_sel :: u32
  mel_specification_sel :: SpdmMelSpecification
  multi_key_conn_req :: bool
  multi_key_conn_rsp :: bool
  pqc_asym_sel :: SpdmPqcAsymAlgo
  pqc_req_asym_sel :: SpdmPqcReqAsymAlgo
  kem_sel :: SpdmKemAlgo

definition SpdmNegotiateInfo_default :: SpdmNegotiateInfo where
  "SpdmNegotiateInfo_default =
     \<lparr>spdm_version_sel = SpdmVersion10, req_capabilities_sel = 0, rsp_capabilities_sel = 0,
      req_ct_exponent_sel = 0, rsp_ct_exponent_sel = 0, measurement_specification_sel = 0,
      measurement_hash_sel = 0, base_hash_sel = 0, base_asym_sel = 0, dhe_sel = 0, aead_sel = 0,
      req_asym_sel = 0, key_schedule_sel = 0, other_params_support = 0,
      termination_policy_set = False, req_data_transfer_size_sel = 0, req_max_spdm_msg_size_sel = 0,
      rsp_data_transfer_size_sel = 0, rsp_max_spdm_msg_size_sel = 0, mel_specification_sel = 0,
      multi_key_conn_req = False, multi_key_conn_rsp = False, pqc_asym_sel = 0,
      pqc_req_asym_sel = 0, kem_sel = 0\<rparr>"

definition SpdmNegotiateInfo_encode :: "SpdmNegotiateInfo \<Rightarrow> encode_err encoder" where
  "SpdmNegotiateInfo_encode self = enc_seq
    [SpdmVersion_encode (spdm_version_sel self),
     SpdmRequestCapabilityFlags_encode (req_capabilities_sel self),
     SpdmResponseCapabilityFlags_encode (rsp_capabilities_sel self),
     u8_encode (req_ct_exponent_sel self),
     u8_encode (rsp_ct_exponent_sel self),
     SpdmMeasurementSpecification_encode (measurement_specification_sel self),
     SpdmMeasurementHashAlgo_encode (measurement_hash_sel self),
     SpdmBaseHashAlgo_encode (base_hash_sel self),
     SpdmBaseAsymAlgo_encode (base_asym_sel self),
     SpdmDheAlgo_encode (dhe_sel self),
     SpdmAeadAlgo_encode (aead_sel self),
     SpdmReqAsymAlgo_encode (req_asym_sel self),
     SpdmKeyScheduleAlgo_encode (key_schedule_sel self),
     SpdmAlgoOtherParams_encode (other_params_support self),
     bool_encode (termination_policy_set self),
     u32_encode (req_data_transfer_size_sel self),
     u32_encode (req_max_spdm_msg_size_sel self),
     u32_encode (rsp_data_transfer_size_sel self),
     u32_encode (rsp_max_spdm_msg_size_sel self),
     SpdmMelSpecification_encode (mel_specification_sel self),
     bool_encode (multi_key_conn_req self),
     bool_encode (multi_key_conn_rsp self),
     SpdmPqcAsymAlgo_encode (pqc_asym_sel self),
     SpdmPqcReqAsymAlgo_encode (pqc_req_asym_sel self),
     SpdmKemAlgo_encode (kem_sel self)]"

definition SpdmNegotiateInfo_read :: "SpdmNegotiateInfo decoder" where
  "SpdmNegotiateInfo_read r = do {
     (spdm_version_sel, r) \<leftarrow> SpdmVersion_read r;
     (req_capabilities_sel, r) \<leftarrow> SpdmRequestCapabilityFlags_read r;
     (rsp_capabilities_sel, r) \<leftarrow> SpdmResponseCapabilityFlags_read r;
     (req_ct_exponent_sel, r) \<leftarrow> u8_read r;
     (rsp_ct_exponent_sel, r) \<leftarrow> u8_read r;
     (measurement_specification_sel, r) \<leftarrow> SpdmMeasurementSpecification_read r;
     (measurement_hash_sel, r) \<leftarrow> SpdmMeasurementHashAlgo_read r;
     (base_hash_sel, r) \<leftarrow> SpdmBaseHashAlgo_read r;
     (base_asym_sel, r) \<leftarrow> SpdmBaseAsymAlgo_read r;
     (dhe_sel, r) \<leftarrow> SpdmDheAlgo_read r;
     (aead_sel, r) \<leftarrow> SpdmAeadAlgo_read r;
     (req_asym_sel, r) \<leftarrow> SpdmReqAsymAlgo_read r;
     (key_schedule_sel, r) \<leftarrow> SpdmKeyScheduleAlgo_read r;
     (other_params_support, r) \<leftarrow> SpdmAlgoOtherParams_read r;
     (termination_policy_set, r) \<leftarrow> bool_read r;
     (req_data_transfer_size_sel, r) \<leftarrow> u32_read r;
     (req_max_spdm_msg_size_sel, r) \<leftarrow> u32_read r;
     (rsp_data_transfer_size_sel, r) \<leftarrow> u32_read r;
     (rsp_max_spdm_msg_size_sel, r) \<leftarrow> u32_read r;
     (mel_specification_sel, r) \<leftarrow> SpdmMelSpecification_read r;
     (multi_key_conn_req, r) \<leftarrow> bool_read r;
     (multi_key_conn_rsp, r) \<leftarrow> bool_read r;
     (pqc_asym_sel, r) \<leftarrow> SpdmPqcAsymAlgo_read r;
     (pqc_req_asym_sel, r) \<leftarrow> SpdmPqcReqAsymAlgo_read r;
     (kem_sel, r) \<leftarrow> SpdmKemAlgo_read r;
     Some (\<lparr>spdm_version_sel = spdm_version_sel, req_capabilities_sel = req_capabilities_sel,
            rsp_capabilities_sel = rsp_capabilities_sel, req_ct_exponent_sel = req_ct_exponent_sel,
            rsp_ct_exponent_sel = rsp_ct_exponent_sel,
            measurement_specification_sel = measurement_specification_sel,
            measurement_hash_sel = measurement_hash_sel, base_hash_sel = base_hash_sel,
            base_asym_sel = base_asym_sel, dhe_sel = dhe_sel, aead_sel = aead_sel,
            req_asym_sel = req_asym_sel, key_schedule_sel = key_schedule_sel,
            other_params_support = other_params_support,
            termination_policy_set = termination_policy_set,
            req_data_transfer_size_sel = req_data_transfer_size_sel,
            req_max_spdm_msg_size_sel = req_max_spdm_msg_size_sel,
            rsp_data_transfer_size_sel = rsp_data_transfer_size_sel,
            rsp_max_spdm_msg_size_sel = rsp_max_spdm_msg_size_sel,
            mel_specification_sel = mel_specification_sel, multi_key_conn_req = multi_key_conn_req,
            multi_key_conn_rsp = multi_key_conn_rsp, pqc_asym_sel = pqc_asym_sel,
            pqc_req_asym_sel = pqc_req_asym_sel, kem_sel = kem_sel\<rparr>, r) }"

subsection \<open>Codec laws\<close>

text \<open>The fields' codecs as introduction rules for \<open>writes\<close> and as rewrite rules for readers.\<close>

lemmas flag_writes =
  SpdmRequestCapabilityFlags.encode_writes SpdmResponseCapabilityFlags.encode_writes
  SpdmMeasurementSpecification.encode_writes SpdmMeasurementHashAlgo.encode_writes
  SpdmBaseHashAlgo.encode_writes SpdmBaseAsymAlgo.encode_writes SpdmDheAlgo.encode_writes
  SpdmAeadAlgo.encode_writes SpdmReqAsymAlgo.encode_writes SpdmKeyScheduleAlgo.encode_writes
  SpdmAlgoOtherParams.encode_writes SpdmMelSpecification.encode_writes SpdmPqcAsymAlgo.encode_writes
  SpdmPqcReqAsymAlgo.encode_writes SpdmKemAlgo.encode_writes

lemmas flag_reads =
  SpdmRequestCapabilityFlags.read_reads [THEN readsD, simplified] SpdmResponseCapabilityFlags.read_reads [THEN readsD, simplified]
  SpdmMeasurementSpecification.read_reads [THEN readsD, simplified] SpdmMeasurementHashAlgo.read_reads [THEN readsD, simplified]
  SpdmBaseHashAlgo.read_reads [THEN readsD, simplified] SpdmBaseAsymAlgo.read_reads [THEN readsD, simplified]
  SpdmDheAlgo.read_reads [THEN readsD, simplified] SpdmAeadAlgo.read_reads [THEN readsD, simplified]
  SpdmReqAsymAlgo.read_reads [THEN readsD, simplified] SpdmKeyScheduleAlgo.read_reads [THEN readsD, simplified]
  SpdmAlgoOtherParams.read_reads [THEN readsD, simplified] SpdmMelSpecification.read_reads [THEN readsD, simplified]
  SpdmPqcAsymAlgo.read_reads [THEN readsD, simplified] SpdmPqcReqAsymAlgo.read_reads [THEN readsD, simplified]
  SpdmKemAlgo.read_reads [THEN readsD, simplified]

lemmas scalar_writes = u8.encode_writes [OF TrueI] u16.encode_writes [OF TrueI] u32.encode_writes [OF TrueI]
  u64.encode_writes [OF TrueI] SpdmVersion.encode_writes [OF TrueI]

lemmas scalar_reads = u8.read_reads [OF TrueI, THEN readsD, simplified] u16.read_reads [OF TrueI, THEN readsD, simplified]
  u32.read_reads [OF TrueI, THEN readsD, simplified] u64.read_reads [OF TrueI, THEN readsD, simplified]
  SpdmVersion.read_reads [OF TrueI, THEN readsD, simplified]

definition bool_image :: "bool \<Rightarrow> bytes" where
  "bool_image b = [if b then 1 else 0]"

interpretation bool: codec EncodeErr bool_encode bool_read bool_image "\<lambda>_. True"
proof unfold_locales
  fix b :: bool
  show "writes EncodeErr (bool_encode b) (bool_image b)"
    unfolding bool_encode_def bool_image_def by (rule u8.encode_writes) simp
  show "reads bool_read (bool_image b) b"
    by (auto intro!: readsI simp: bool_read_def bool_image_def reads_simps)
qed

text \<open>An array of options survives when its values come first.\<close>

lemma flatten_fill [simp]: "flatten (fill_slots n xs) = xs"
proof -
  have "flatten (replicate k None) = []" for k by (induction k) auto
  moreover have "flatten (map Some xs @ ys) = xs @ flatten ys" for ys by (induction xs) auto
  ultimately show ?thesis by (simp add: fill_slots_def)
qed

definition packed :: "nat \<Rightarrow> 'a option list \<Rightarrow> bool" where
  "packed n xs \<longleftrightarrow> length (flatten xs) \<le> n \<and> n < 256 \<and> xs = fill_slots n (flatten xs)"

definition slots_image :: "('a \<Rightarrow> bytes) \<Rightarrow> 'a option list \<Rightarrow> bytes" where
  "slots_image img xs = u8_image (of_nat (length (flatten xs))) @ concat (map img (flatten xs))"

lemma writes_slots:
  "(\<And>x. x \<in> set (flatten xs) \<Longrightarrow> writes EncodeErr (enc x) (img x)) \<Longrightarrow>
     writes EncodeErr (slots_encode enc xs) (slots_image img xs)"
  unfolding slots_encode_def slots_image_def
  by (intro writes_seq_Cons writes_seq_single scalar_writes writes_array)

lemma reads_slots:
  assumes "packed n xs" "\<And>x. x \<in> set (flatten xs) \<Longrightarrow> reads rd (img x) x"
  shows "reads (slots_read rd n) (slots_image img xs) xs"
proof -
  have "reads (array_read rd (length (flatten xs))) (concat (map img (flatten xs))) (flatten xs)"
    using assms(2) by (rule reads_array)
  moreover have "min (unat (of_nat (length (flatten xs)) :: u8)) n = length (flatten xs)"
    using assms(1) by (simp add: packed_def)
  ultimately show ?thesis
    using assms(1) by (simp add: reads_def slots_read_def slots_image_def reads_simps packed_def)
qed

text \<open>A byte of two nibbles.\<close>

abbreviation (input) nibble :: "u8 \<Rightarrow> bool" where
  "nibble x \<equiv> x AND 0x0F = x"

lemma nibble_less: "nibble x \<Longrightarrow> unat x < 16"
proof -
  assume "nibble x"
  then have "x = take_bit 4 x" by (simp add: take_bit_eq_mask mask_eq_exp_minus_1 and.commute)
  then have "unat x = take_bit 4 (unat x)" by (metis unsigned_take_bit_eq)
  also have "\<dots> < 2 ^ 4" by (rule take_bit_nat_less_exp)
  finally show ?thesis by simp
qed

lemma nibbles:
  assumes "nibble hi" "nibble lo"
  shows "drop_bit 4 (push_bit 4 hi + lo) = hi" "(push_bit 4 hi + lo) AND 0x0F = lo"
    "unat (push_bit 4 hi) + unat lo < 256"
proof -
  have h: "bit x n \<Longrightarrow> n < 4" if "nibble x" for x :: u8 and n
  proof -
    assume b: "bit x n"
    have "x = x AND mask 4" using that by (simp add: mask_eq_exp_minus_1)
    then have "bit (x AND mask 4) n" using b by simp
    then show "n < 4" by (simp add: bit_simps)
  qed
  have or: "push_bit 4 hi + lo = push_bit 4 hi OR lo"
    by (rule disjunctive_add_eq_or, rule bit_word_eqI) (auto simp: bit_simps dest: h [OF assms(2)])
  show "drop_bit 4 (push_bit 4 hi + lo) = hi"
    unfolding or by (rule bit_word_eqI) (auto simp: bit_simps dest: h [OF assms(1)] h [OF assms(2)])
  have m: "(0x0F :: u8) = mask 4" by (simp add: mask_eq_exp_minus_1)
  show "(push_bit 4 hi + lo) AND 0x0F = lo"
    unfolding or m by (rule bit_word_eqI) (auto simp: bit_simps dest: h [OF assms(2)])
  have "push_bit 4 hi = of_nat (unat hi * 16)" by (simp add: push_bit_eq_mult)
  then have "unat (push_bit 4 hi) = unat hi * 16"
    using nibble_less [OF assms(1)] unat_of_nat_u8 [of "unat hi * 16"] by simp
  then show "unat (push_bit 4 hi) + unat lo < 256"
    using nibble_less [OF assms(1)] nibble_less [OF assms(2)] by simp
qed

definition SecuredMessageVersion_image :: "SecuredMessageVersion \<Rightarrow> bytes" where
  "SecuredMessageVersion_image v =
     u8_image (push_bit 4 (update_version_number v) + alpha v) @
     u8_image (push_bit 4 (major_version v) + minor_version v)"

definition SecuredMessageVersion_valid :: "SecuredMessageVersion \<Rightarrow> bool" where
  "SecuredMessageVersion_valid v \<longleftrightarrow> nibble (major_version v) \<and> nibble (minor_version v)
     \<and> nibble (update_version_number v) \<and> nibble (alpha v)"

interpretation SecuredMessageVersion: codec EncodeErr SecuredMessageVersion_encode
  SecuredMessageVersion_read SecuredMessageVersion_image SecuredMessageVersion_valid
proof unfold_locales
  fix v assume v: "SecuredMessageVersion_valid v"
  have "writes EncodeErr (u8_sum_encode (push_bit 4 hi) lo) (u8_image (push_bit 4 hi + lo))"
    if "nibble hi" "nibble lo" for hi lo
    using nibbles(3) [OF that] u8.encode_writes [OF TrueI] by (simp add: u8_sum_encode_def [abs_def])
  then show "writes EncodeErr (SecuredMessageVersion_encode v) (SecuredMessageVersion_image v)"
    using v unfolding SecuredMessageVersion_encode_def SecuredMessageVersion_image_def
      SecuredMessageVersion_valid_def
    by (intro writes_seq_Cons writes_seq_single) auto
  show "reads SecuredMessageVersion_read (SecuredMessageVersion_image v) v"
    using v by (simp add: reads_def SecuredMessageVersion_read_def SecuredMessageVersion_image_def
        SecuredMessageVersion_valid_def reads_simps nibbles)
qed

subsection \<open>The configuration and the negotiated parameters on the wire\<close>

text \<open>Every set of flags is within its mask, as it is after any read.\<close>

lemmas config_reads = scalar_reads flag_reads bool.read_reads [OF TrueI, THEN readsD, simplified]
  reads_slots [OF _ SpdmVersion.read_reads [OF TrueI], THEN readsD]
  reads_slots [OF _ SecuredMessageVersion.read_reads, THEN readsD]

definition SpdmConfigInfo_image :: "SpdmConfigInfo \<Rightarrow> bytes" where
  "SpdmConfigInfo_image self =
     slots_image (\<lambda>v. u8_image (SpdmVersion_u8 v)) (cfg_spdm_version self) @
     u32_image (cfg_req_capabilities self) @
     u32_image (cfg_rsp_capabilities self) @
     u8_image (cfg_req_ct_exponent self) @
     u8_image (cfg_rsp_ct_exponent self) @
     u8_image (cfg_measurement_specification self) @
     u32_image (cfg_measurement_hash_algo self) @
     u32_image (cfg_base_hash_algo self) @
     u32_image (cfg_base_asym_algo self) @
     put_u16 (cfg_dhe_algo self) @
     put_u16 (cfg_aead_algo self) @
     put_u16 (cfg_req_asym_algo self) @
     put_u16 (cfg_key_schedule_algo self) @
     u8_image (cfg_other_params_support self) @
     u8_image (cfg_session_policy self) @
     bool_image (cfg_runtime_content_change_support self) @
     u32_image (cfg_data_transfer_size self) @
     u32_image (cfg_max_spdm_msg_size self) @
     u8_image (cfg_heartbeat_period self) @
     slots_image SecuredMessageVersion_image (cfg_secure_spdm_version self) @
     u8_image (cfg_mel_specification self) @
     u32_image (cfg_pqc_asym_algo self) @
     put_u16 (cfg_pqc_req_asym_algo self) @
     put_u16 (cfg_kem_algo self)"

definition SpdmConfigInfo_valid :: "SpdmConfigInfo \<Rightarrow> bool" where
  "SpdmConfigInfo_valid self \<longleftrightarrow>
     packed MAX_SPDM_VERSION_COUNT (cfg_spdm_version self) \<and>
     cfg_req_capabilities self AND SpdmRequestCapabilityFlags_VALID_MASK = cfg_req_capabilities self \<and>
     cfg_rsp_capabilities self AND SpdmResponseCapabilityFlags_VALID_MASK = cfg_rsp_capabilities self \<and>
     cfg_measurement_specification self AND SpdmMeasurementSpecification_VALID_MASK = cfg_measurement_specification self \<and>
     cfg_measurement_hash_algo self AND SpdmMeasurementHashAlgo_VALID_MASK = cfg_measurement_hash_algo self \<and>
     cfg_base_hash_algo self AND SpdmBaseHashAlgo_VALID_MASK = cfg_base_hash_algo self \<and>
     cfg_base_asym_algo self AND SpdmBaseAsymAlgo_VALID_MASK = cfg_base_asym_algo self \<and>
     cfg_dhe_algo self AND SpdmDheAlgo_VALID_MASK = cfg_dhe_algo self \<and>
     cfg_aead_algo self AND SpdmAeadAlgo_VALID_MASK = cfg_aead_algo self \<and>
     cfg_req_asym_algo self AND SpdmReqAsymAlgo_VALID_MASK = cfg_req_asym_algo self \<and>
     cfg_key_schedule_algo self AND SpdmKeyScheduleAlgo_VALID_MASK = cfg_key_schedule_algo self \<and>
     cfg_other_params_support self AND SpdmAlgoOtherParams_VALID_MASK = cfg_other_params_support self \<and>
     packed MAX_SECURE_SPDM_VERSION_COUNT (cfg_secure_spdm_version self) \<and>
     list_all SecuredMessageVersion_valid (flatten (cfg_secure_spdm_version self)) \<and>
     cfg_mel_specification self AND SpdmMelSpecification_VALID_MASK = cfg_mel_specification self \<and>
     cfg_pqc_asym_algo self AND SpdmPqcAsymAlgo_VALID_MASK = cfg_pqc_asym_algo self \<and>
     cfg_pqc_req_asym_algo self AND SpdmPqcReqAsymAlgo_VALID_MASK = cfg_pqc_req_asym_algo self \<and>
     cfg_kem_algo self AND SpdmKemAlgo_VALID_MASK = cfg_kem_algo self"

interpretation SpdmConfigInfo: codec EncodeErr SpdmConfigInfo_encode SpdmConfigInfo_read SpdmConfigInfo_image SpdmConfigInfo_valid
proof unfold_locales
  fix x assume x: "SpdmConfigInfo_valid x"
  show "writes EncodeErr (SpdmConfigInfo_encode x) (SpdmConfigInfo_image x)"
    using x unfolding SpdmConfigInfo_encode_def SpdmConfigInfo_image_def SpdmConfigInfo_valid_def list_all_iff
    by (intro writes_seq_Cons writes_seq_single writes_slots scalar_writes flag_writes
        bool.encode_writes SecuredMessageVersion.encode_writes) simp_all
  show "reads SpdmConfigInfo_read (SpdmConfigInfo_image x) x"
    using x by (simp add: reads_def SpdmConfigInfo_read_def SpdmConfigInfo_image_def SpdmConfigInfo_valid_def list_all_iff
        config_reads)
qed

definition SpdmNegotiateInfo_image :: "SpdmNegotiateInfo \<Rightarrow> bytes" where
  "SpdmNegotiateInfo_image self =
     u8_image (SpdmVersion_u8 (spdm_version_sel self)) @
     u32_image (req_capabilities_sel self) @
     u32_image (rsp_capabilities_sel self) @
     u8_image (req_ct_exponent_sel self) @
     u8_image (rsp_ct_exponent_sel self) @
     u8_image (measurement_specification_sel self) @
     u32_image (measurement_hash_sel self) @
     u32_image (base_hash_sel self) @
     u32_image (base_asym_sel self) @
     put_u16 (dhe_sel self) @
     put_u16 (aead_sel self) @
     put_u16 (req_asym_sel self) @
     put_u16 (key_schedule_sel self) @
     u8_image (other_params_support self) @
     bool_image (termination_policy_set self) @
     u32_image (req_data_transfer_size_sel self) @
     u32_image (req_max_spdm_msg_size_sel self) @
     u32_image (rsp_data_transfer_size_sel self) @
     u32_image (rsp_max_spdm_msg_size_sel self) @
     u8_image (mel_specification_sel self) @
     bool_image (multi_key_conn_req self) @
     bool_image (multi_key_conn_rsp self) @
     u32_image (pqc_asym_sel self) @
     put_u16 (pqc_req_asym_sel self) @
     put_u16 (kem_sel self)"

definition SpdmNegotiateInfo_valid :: "SpdmNegotiateInfo \<Rightarrow> bool" where
  "SpdmNegotiateInfo_valid self \<longleftrightarrow>
     req_capabilities_sel self AND SpdmRequestCapabilityFlags_VALID_MASK = req_capabilities_sel self \<and>
     rsp_capabilities_sel self AND SpdmResponseCapabilityFlags_VALID_MASK = rsp_capabilities_sel self \<and>
     measurement_specification_sel self AND SpdmMeasurementSpecification_VALID_MASK = measurement_specification_sel self \<and>
     measurement_hash_sel self AND SpdmMeasurementHashAlgo_VALID_MASK = measurement_hash_sel self \<and>
     base_hash_sel self AND SpdmBaseHashAlgo_VALID_MASK = base_hash_sel self \<and>
     base_asym_sel self AND SpdmBaseAsymAlgo_VALID_MASK = base_asym_sel self \<and>
     dhe_sel self AND SpdmDheAlgo_VALID_MASK = dhe_sel self \<and>
     aead_sel self AND SpdmAeadAlgo_VALID_MASK = aead_sel self \<and>
     req_asym_sel self AND SpdmReqAsymAlgo_VALID_MASK = req_asym_sel self \<and>
     key_schedule_sel self AND SpdmKeyScheduleAlgo_VALID_MASK = key_schedule_sel self \<and>
     other_params_support self AND SpdmAlgoOtherParams_VALID_MASK = other_params_support self \<and>
     mel_specification_sel self AND SpdmMelSpecification_VALID_MASK = mel_specification_sel self \<and>
     pqc_asym_sel self AND SpdmPqcAsymAlgo_VALID_MASK = pqc_asym_sel self \<and>
     pqc_req_asym_sel self AND SpdmPqcReqAsymAlgo_VALID_MASK = pqc_req_asym_sel self \<and>
     kem_sel self AND SpdmKemAlgo_VALID_MASK = kem_sel self"

interpretation SpdmNegotiateInfo: codec EncodeErr SpdmNegotiateInfo_encode SpdmNegotiateInfo_read SpdmNegotiateInfo_image SpdmNegotiateInfo_valid
proof unfold_locales
  fix x assume x: "SpdmNegotiateInfo_valid x"
  show "writes EncodeErr (SpdmNegotiateInfo_encode x) (SpdmNegotiateInfo_image x)"
    using x unfolding SpdmNegotiateInfo_encode_def SpdmNegotiateInfo_image_def SpdmNegotiateInfo_valid_def list_all_iff
    by (intro writes_seq_Cons writes_seq_single writes_slots scalar_writes flag_writes
        bool.encode_writes SecuredMessageVersion.encode_writes) simp_all
  show "reads SpdmNegotiateInfo_read (SpdmNegotiateInfo_image x) x"
    using x by (simp add: reads_def SpdmNegotiateInfo_read_def SpdmNegotiateInfo_image_def SpdmNegotiateInfo_valid_def list_all_iff
        config_reads)
qed

end
