(* ===== verification/Context.thy ===== *)
theory Context
  imports Negotiate SecuredMessage
begin

text \<open>
  The state of an endpoint: \<open>SpdmContext\<close> of \<open>spdmlib/src/common/mod.rs\<close> with its runtime,
  provisioning and peer information and its table of sessions.

  The device and the transport are not fields of the record: the device is the sequence of received
  and sent byte strings, and the transport is an argument of the operations that use it.

  The invariant of the session table is that the half of a session id which the endpoint itself
  chose is determined by the slot, so that ids are never reused while they are alive and a lookup
  finds the one session that has the id.
\<close>

subsection \<open>Runtime, provisioning and peer information\<close>

datatype SpdmConnectionState =
    SpdmConnectionNotStarted | SpdmConnectionAfterVersion | SpdmConnectionAfterCapabilities
  | SpdmConnectionNegotiated | SpdmConnectionAfterDigest | SpdmConnectionAfterCertificate
  | SpdmConnectionAuthenticated | SpdmConnectionStateUnknown u8

fun SpdmConnectionState_get_u8 :: "SpdmConnectionState \<Rightarrow> u8" where
  "SpdmConnectionState_get_u8 SpdmConnectionNotStarted = 0x0"
| "SpdmConnectionState_get_u8 SpdmConnectionAfterVersion = 0x1"
| "SpdmConnectionState_get_u8 SpdmConnectionAfterCapabilities = 0x2"
| "SpdmConnectionState_get_u8 SpdmConnectionNegotiated = 0x3"
| "SpdmConnectionState_get_u8 SpdmConnectionAfterDigest = 0x4"
| "SpdmConnectionState_get_u8 SpdmConnectionAfterCertificate = 0x5"
| "SpdmConnectionState_get_u8 SpdmConnectionAuthenticated = 0x6"
| "SpdmConnectionState_get_u8 (SpdmConnectionStateUnknown x) = x"

definition SpdmConnectionState_of_u8 :: "u8 \<Rightarrow> SpdmConnectionState" where
  "SpdmConnectionState_of_u8 x =
     (if x = 0x0 then SpdmConnectionNotStarted
      else if x = 0x1 then SpdmConnectionAfterVersion
      else if x = 0x2 then SpdmConnectionAfterCapabilities
      else if x = 0x3 then SpdmConnectionNegotiated
      else if x = 0x4 then SpdmConnectionAfterDigest
      else if x = 0x5 then SpdmConnectionAfterCertificate
      else if x = 0x6 then SpdmConnectionAuthenticated
      else SpdmConnectionStateUnknown x)"

datatype SpdmMeasurementContentChanged = NotSupported | DetectedChange | NoChange

fun SpdmMeasurementContentChanged_u8 :: "SpdmMeasurementContentChanged \<Rightarrow> u8" where
  "SpdmMeasurementContentChanged_u8 NotSupported = 0x00"
| "SpdmMeasurementContentChanged_u8 DetectedChange = 0x10"
| "SpdmMeasurementContentChanged_u8 NoChange = 0x20"

definition SpdmMeasurementContentChanged_try_from :: "u8 \<Rightarrow> SpdmMeasurementContentChanged option" where
  "SpdmMeasurementContentChanged_try_from content_changed =
     (if content_changed = 0x00 then Some NotSupported
      else if content_changed = 0x10 then Some DetectedChange
      else if content_changed = 0x20 then Some NoChange
      else None)"

definition SpdmMeasurementContentChanged_encode :: "SpdmMeasurementContentChanged \<Rightarrow> encode_err encoder" where
  "SpdmMeasurementContentChanged_encode self = u8_encode (SpdmMeasurementContentChanged_u8 self)"

definition SpdmMeasurementContentChanged_read :: "SpdmMeasurementContentChanged decoder" where
  "SpdmMeasurementContentChanged_read r = do {
     (value, r) \<leftarrow> u8_read r;
     v \<leftarrow> SpdmMeasurementContentChanged_try_from value;
     Some (v, r) }"

text \<open>As for a session, the record has the fields of both variants of the transcripts.\<close>

record 'h SpdmRuntimeInfo =
  connection_state :: SpdmConnectionState
  last_session_id :: "u32 option"
  local_used_cert_chain_slot_id :: u8
  peer_used_cert_chain_slot_id :: u8
  need_measurement_summary_hash :: bool
  need_measurement_signature :: bool
  message_a :: ManagedBuffer
  message_b :: ManagedBuffer
  message_c :: ManagedBuffer
  message_m :: ManagedBuffer
  digest_context_m1m2 :: "'h option"
  digest_context_l1l2 :: "'h option"
  content_changed :: SpdmMeasurementContentChanged
  vdm_message_transcript_before_key_exchange :: "ManagedBuffer option"

abbreviation (input) SPDM_MAX_SLOT_NUMBER :: usize where "SPDM_MAX_SLOT_NUMBER \<equiv> 8"
abbreviation (input) MAX_ROOT_CERT_SUPPORT :: usize where "MAX_ROOT_CERT_SUPPORT \<equiv> 10"
abbreviation (input) MAX_SPDM_SESSION_COUNT :: usize where "MAX_SPDM_SESSION_COUNT \<equiv> 4"

abbreviation (input) MAX_MANAGED_BUFFER_B_SIZE :: usize where
  "MAX_MANAGED_BUFFER_B_SIZE \<equiv> 24 + SPDM_MAX_HASH_SIZE * SPDM_MAX_SLOT_NUMBER + MAX_SPDM_CERT_CHAIN_DATA_SIZE"
abbreviation (input) MAX_MANAGED_BUFFER_C_SIZE :: usize where
  "MAX_MANAGED_BUFFER_C_SIZE \<equiv> 78 + SPDM_MAX_HASH_SIZE * 2 + SPDM_MAX_ASYM_SIG_SIZE + MAX_SPDM_OPAQUE_SIZE"

definition SpdmRuntimeInfo_default :: "'h SpdmRuntimeInfo" where
  "SpdmRuntimeInfo_default =
     \<lparr>connection_state = SpdmConnectionNotStarted, last_session_id = None,
      local_used_cert_chain_slot_id = 0, peer_used_cert_chain_slot_id = 0,
      need_measurement_summary_hash = False, need_measurement_signature = False,
      message_a = ManagedBuffer_default MAX_MANAGED_BUFFER_A_SIZE,
      message_b = ManagedBuffer_default MAX_MANAGED_BUFFER_B_SIZE,
      message_c = ManagedBuffer_default MAX_MANAGED_BUFFER_C_SIZE,
      message_m = ManagedBuffer_default MAX_MANAGED_BUFFER_M_SIZE,
      digest_context_m1m2 = None, digest_context_l1l2 = None, content_changed = NotSupported,
      vdm_message_transcript_before_key_exchange = None\<rparr>"

text \<open>\<open>SpdmCertChainData\<close> and \<open>SpdmCertChainBuffer\<close>: the size of the used part and the array.\<close>

record CertChain =
  cc_size :: u32
  cc_data :: bytes

definition CertChain_as_ref :: "CertChain \<Rightarrow> bytes" where
  "CertChain_as_ref c = take (unat (cc_size c)) (cc_data c)"

datatype SpdmCertificateModelType =
    SpdmCertModelTypeNone | SpdmCertModelTypeDeviceCert | SpdmCertModelTypeAliasCert
  | SpdmCertModelTypeGenericCert | SpdmCertificateModelTypeUnknown u8

fun SpdmCertificateModelType_get_u8 :: "SpdmCertificateModelType \<Rightarrow> u8" where
  "SpdmCertificateModelType_get_u8 SpdmCertModelTypeNone = 0x0"
| "SpdmCertificateModelType_get_u8 SpdmCertModelTypeDeviceCert = 0x1"
| "SpdmCertificateModelType_get_u8 SpdmCertModelTypeAliasCert = 0x2"
| "SpdmCertificateModelType_get_u8 SpdmCertModelTypeGenericCert = 0x3"
| "SpdmCertificateModelType_get_u8 (SpdmCertificateModelTypeUnknown x) = x"

definition SpdmCertificateModelType_of_u8 :: "u8 \<Rightarrow> SpdmCertificateModelType" where
  "SpdmCertificateModelType_of_u8 x =
     (if x = 0x0 then SpdmCertModelTypeNone
      else if x = 0x1 then SpdmCertModelTypeDeviceCert
      else if x = 0x2 then SpdmCertModelTypeAliasCert
      else if x = 0x3 then SpdmCertModelTypeGenericCert
      else SpdmCertificateModelTypeUnknown x)"

record SpdmProvisionInfo =
  my_cert_chain_data :: "CertChain option list"
  my_cert_chain :: "CertChain option list"
  peer_root_cert_data :: "CertChain option list"
  my_pub_key :: "CertChain option"
  peer_pub_key :: "CertChain option"
  local_supported_slot_mask :: u8
  local_key_pair_id :: "u8 option list"
  local_cert_info :: "SpdmCertificateModelType option list"
  local_key_usage_bit_mask :: "SpdmKeyUsageMask option list"

definition SpdmProvisionInfo_default :: SpdmProvisionInfo where
  "SpdmProvisionInfo_default =
     \<lparr>my_cert_chain_data = replicate SPDM_MAX_SLOT_NUMBER None,
      my_cert_chain = replicate SPDM_MAX_SLOT_NUMBER None,
      peer_root_cert_data = replicate MAX_ROOT_CERT_SUPPORT None,
      my_pub_key = None, peer_pub_key = None, local_supported_slot_mask = 0xff,
      local_key_pair_id = replicate SPDM_MAX_SLOT_NUMBER None,
      local_cert_info = replicate SPDM_MAX_SLOT_NUMBER None,
      local_key_usage_bit_mask = replicate SPDM_MAX_SLOT_NUMBER None\<rparr>"

record SpdmPeerInfo =
  peer_cert_chain :: "CertChain option list"
  peer_cert_chain_temp :: "CertChain option"
  peer_supported_slot_mask :: u8
  peer_provisioned_slot_mask :: u8
  peer_key_pair_id :: "u8 option list"
  peer_cert_info :: "SpdmCertificateModelType option list"
  peer_key_usage_bit_mask :: "SpdmKeyUsageMask option list"

definition SpdmPeerInfo_default :: SpdmPeerInfo where
  "SpdmPeerInfo_default =
     \<lparr>peer_cert_chain = replicate SPDM_MAX_SLOT_NUMBER None, peer_cert_chain_temp = None,
      peer_supported_slot_mask = 0, peer_provisioned_slot_mask = 0,
      peer_key_pair_id = replicate SPDM_MAX_SLOT_NUMBER None,
      peer_cert_info = replicate SPDM_MAX_SLOT_NUMBER None,
      peer_key_usage_bit_mask = replicate SPDM_MAX_SLOT_NUMBER None\<rparr>"

subsection \<open>The context\<close>

record 'h SpdmContext =
  config_info :: SpdmConfigInfo
  negotiate_info :: SpdmNegotiateInfo
  runtime_info :: "'h SpdmRuntimeInfo"
  provision_info :: SpdmProvisionInfo
  peer_info :: SpdmPeerInfo
  session :: "'h SpdmSession list"

definition SpdmContext_new :: "SpdmConfigInfo \<Rightarrow> SpdmProvisionInfo \<Rightarrow> 'h SpdmContext" where
  "SpdmContext_new config provision =
     \<lparr>config_info = config, negotiate_info = SpdmNegotiateInfo_default,
      runtime_info = SpdmRuntimeInfo_default, provision_info = provision,
      peer_info = SpdmPeerInfo_default, session = replicate MAX_SPDM_SESSION_COUNT SpdmSession_new\<rparr>"

definition get_hash_size :: "'h SpdmContext \<Rightarrow> u16 SpdmResult" where
  "get_hash_size self = SpdmBaseHashAlgo_get_size (base_hash_sel (negotiate_info self))"

definition get_asym_sig_size :: "'h SpdmContext \<Rightarrow> u16 SpdmResult" where
  "get_asym_sig_size self =
     (if pqc_asym_sel (negotiate_info self) \<noteq> 0
      then SpdmPqcAsymAlgo_get_sig_size (pqc_asym_sel (negotiate_info self))
      else SpdmBaseAsymAlgo_get_sig_size (base_asym_sel (negotiate_info self)))"

definition get_req_asym_sig_size :: "'h SpdmContext \<Rightarrow> u16 SpdmResult" where
  "get_req_asym_sig_size self =
     (if pqc_req_asym_sel (negotiate_info self) \<noteq> 0
      then SpdmPqcReqAsymAlgo_get_sig_size (pqc_req_asym_sel (negotiate_info self))
      else SpdmReqAsymAlgo_get_sig_size (req_asym_sel (negotiate_info self)))"

definition get_req_key_exchange_size :: "'h SpdmContext \<Rightarrow> u16 SpdmResult" where
  "get_req_key_exchange_size self =
     (if kem_sel (negotiate_info self) \<noteq> 0
      then SpdmKemAlgo_get_encap_key_size (kem_sel (negotiate_info self))
      else SpdmDheAlgo_get_key_size (dhe_sel (negotiate_info self)))"

definition get_rsp_key_exchange_size :: "'h SpdmContext \<Rightarrow> u16 SpdmResult" where
  "get_rsp_key_exchange_size self =
     (if kem_sel (negotiate_info self) \<noteq> 0
      then SpdmKemAlgo_get_cipher_text_size (kem_sel (negotiate_info self))
      else SpdmDheAlgo_get_key_size (dhe_sel (negotiate_info self)))"

definition reset_runtime_info :: "'h SpdmContext \<Rightarrow> 'h SpdmContext" where
  "reset_runtime_info self = self\<lparr>runtime_info := SpdmRuntimeInfo_default\<rparr>"

definition reset_negotiate_info :: "'h SpdmContext \<Rightarrow> 'h SpdmContext" where
  "reset_negotiate_info self = self\<lparr>negotiate_info := SpdmNegotiateInfo_default\<rparr>"

definition reset_peer_info :: "'h SpdmContext \<Rightarrow> 'h SpdmContext" where
  "reset_peer_info self = self\<lparr>peer_info := SpdmPeerInfo_default\<rparr>"

definition reset_context :: "'h SpdmContext \<Rightarrow> 'h SpdmContext" where
  "reset_context self =
     (let self = reset_peer_info (reset_negotiate_info (reset_runtime_info self))
      in self\<lparr>session := map set_default (session self)\<rparr>)"

subsection \<open>The session table\<close>

text \<open>
  A lookup that returns \<open>&mut SpdmSession\<close> is the lookup of the value, and a write through the
  reference is \<open>put_session\<close> at the id that was looked up.
\<close>

fun update_first :: "('a \<Rightarrow> bool) \<Rightarrow> ('a \<Rightarrow> 'a) \<Rightarrow> 'a list \<Rightarrow> 'a list" where
  "update_first P f [] = []"
| "update_first P f (x # xs) = (if P x then f x # xs else x # update_first P f xs)"

definition get_session_via_id :: "u32 \<Rightarrow> 'h SpdmContext \<Rightarrow> 'h SpdmSession option" where
  "get_session_via_id sid self = List.find (\<lambda>s. session_id s = sid) (session self)"

definition put_session :: "u32 \<Rightarrow> 'h SpdmSession \<Rightarrow> 'h SpdmContext \<Rightarrow> 'h SpdmContext" where
  "put_session sid s self = self\<lparr>session := update_first (\<lambda>x. session_id x = sid) (\<lambda>_. s) (session self)\<rparr>"

definition get_next_avaiable_session :: "'h SpdmContext \<Rightarrow> 'h SpdmSession option" where
  "get_next_avaiable_session self = get_session_via_id 0 self"

definition get_session_status :: "'h SpdmContext \<Rightarrow> (u32 \<times> SpdmSessionState) list" where
  "get_session_status self = map (\<lambda>s. (session_id s, session_state s)) (session self)"

abbreviation (input) INITIAL_SESSION_ID :: u16 where "INITIAL_SESSION_ID \<equiv> 0xFFFD"
abbreviation (input) INVALID_HALF_SESSION_ID :: u16 where "INVALID_HALF_SESSION_ID \<equiv> 0"

definition half_session_id :: "bool \<Rightarrow> u32 \<Rightarrow> u16" where
  "half_session_id is_requester sid =
     (let shift = (if is_requester then 0 else 16)
      in ucast (drop_bit shift (sid AND push_bit shift 0xFFFF)))"

fun next_half_loop :: "bool \<Rightarrow> u16 \<Rightarrow> 'h SpdmSession list \<Rightarrow> u16 SpdmResult" where
  "next_half_loop is_requester index [] = Err SPDM_STATUS_SESSION_NUMBER_EXCEED"
| "next_half_loop is_requester index (s # ss) =
     (if half_session_id is_requester (session_id s) = INVALID_HALF_SESSION_ID
      then Ok (INITIAL_SESSION_ID - index)
      else next_half_loop is_requester (index + 1) ss)"

definition get_next_half_session_id :: "bool \<Rightarrow> 'h SpdmContext \<Rightarrow> u16 SpdmResult" where
  "get_next_half_session_id is_requester self =
     next_half_loop is_requester 0 (take MAX_SPDM_SESSION_COUNT (session self))"


text \<open>\<open>((rsp_session_id as u32) << 16) + req_session_id as u32\<close>.\<close>

definition join_session_id :: "u16 \<Rightarrow> u16 \<Rightarrow> u32" where
  "join_session_id req rsp = push_bit 16 (ucast rsp) + ucast req"

subsection \<open>Laws of the session table\<close>

fun slots_ok :: "bool \<Rightarrow> nat \<Rightarrow> 'h SpdmSession list \<Rightarrow> bool" where
  "slots_ok b k [] \<longleftrightarrow> True"
| "slots_ok b k (s # ss) \<longleftrightarrow>
     (session_id s = INVALID_SESSION_ID \<or> half_session_id b (session_id s) = INITIAL_SESSION_ID - of_nat k)
     \<and> slots_ok b (Suc k) ss"

definition table_ok :: "bool \<Rightarrow> 'h SpdmContext \<Rightarrow> bool" where
  "table_ok b self \<longleftrightarrow> length (session self) = MAX_SPDM_SESSION_COUNT \<and> slots_ok b 0 (session self)"

definition alive :: "'h SpdmContext \<Rightarrow> u32 list" where
  "alive self = filter (\<lambda>i. i \<noteq> INVALID_SESSION_ID) (map session_id (session self))"

lemma half_mask: "(0xFFFF :: u32) = mask 16"
  by (simp add: mask_eq_exp_minus_1)

lemma half_session_id_alt:
  "half_session_id True sid = ucast sid" "half_session_id False sid = ucast (drop_bit 16 sid)"
  unfolding half_session_id_def half_mask Let_def
  by (auto intro!: bit_eqI simp: bit_simps)

lemma join_session_id_halves [simp]:
  "half_session_id True (join_session_id req rsp) = req"
  "half_session_id False (join_session_id req rsp) = rsp"
proof -
  have "push_bit 16 (ucast rsp :: u32) AND ucast req = 0"
    by (rule bit_eqI) (auto simp: bit_simps dest: bit_imp_le_length)
  then have *: "join_session_id req rsp = push_bit 16 (ucast rsp) OR ucast req"
    by (simp add: join_session_id_def disjunctive_add_eq_or)
  show "half_session_id True (join_session_id req rsp) = req"
    "half_session_id False (join_session_id req rsp) = rsp"
    unfolding * half_session_id_alt
    by (rule bit_eqI, auto simp: bit_simps dest: bit_imp_le_length)+
qed

lemma half_of_zero [simp]: "half_session_id b 0 = 0"
  by (cases b) (simp_all add: half_session_id_alt)

lemma half_ids_small:
  "k < 4 \<Longrightarrow> (0xFFFD :: u16) - of_nat k \<noteq> 0"
  "j < 4 \<Longrightarrow> k < 4 \<Longrightarrow> (0xFFFD :: u16) - of_nat j = 0xFFFD - of_nat k \<Longrightarrow> j = k"
proof -
  have cases: "k = 0 \<or> k = 1 \<or> k = 2 \<or> k = 3" if "k < 4" for k :: nat using that by arith
  show "k < 4 \<Longrightarrow> (0xFFFD :: u16) - of_nat k \<noteq> 0" by (drule cases) auto
  show "j < 4 \<Longrightarrow> k < 4 \<Longrightarrow> (0xFFFD :: u16) - of_nat j = 0xFFFD - of_nat k \<Longrightarrow> j = k"
    by (drule cases, drule cases) auto
qed

lemma slots_ok_member:
  "slots_ok b k ss \<Longrightarrow> s \<in> set ss \<Longrightarrow> session_id s \<noteq> 0 \<Longrightarrow>
     \<exists>j. k \<le> j \<and> j < k + length ss \<and> half_session_id b (session_id s) = INITIAL_SESSION_ID - of_nat j"
proof (induction ss arbitrary: k)
  case (Cons t ss)
  show ?case
  proof (cases "s = t")
    case True
    then show ?thesis using Cons.prems by (intro exI [of _ k]) auto
  next
    case False
    then have "\<exists>j. Suc k \<le> j \<and> j < Suc k + length ss
        \<and> half_session_id b (session_id s) = INITIAL_SESSION_ID - of_nat j"
      using Cons.prems by (intro Cons.IH) auto
    then show ?thesis by (elim exE) (rule_tac x = j in exI, simp)
  qed
qed simp

text \<open>An id whose own half belongs to a slot is not in a later slot.\<close>

lemma slots_ok_later:
  assumes "slots_ok b (Suc k) ss" "Suc k + length ss \<le> 4" "half_session_id b i = INITIAL_SESSION_ID - of_nat k"
  shows "i \<notin> session_id ` set ss"
proof
  assume "i \<in> session_id ` set ss"
  then obtain s where s: "s \<in> set ss" "session_id s = i" by auto
  have "i \<noteq> 0" using assms(2,3) half_ids_small(1) [of k] by auto
  with slots_ok_member [OF assms(1) s(1)] s(2) obtain j
    where "Suc k \<le> j" "j < Suc k + length ss" "half_session_id b i = INITIAL_SESSION_ID - of_nat j" by auto
  then show False using assms(2,3) half_ids_small(2) [of j k] by auto
qed

lemma slots_ok_distinct:
  "slots_ok b k ss \<Longrightarrow> k + length ss \<le> 4 \<Longrightarrow> distinct (filter (\<lambda>i. i \<noteq> 0) (map session_id ss))"
proof (induction ss arbitrary: k)
  case (Cons s ss)
  then show ?case using slots_ok_later [of b k ss "session_id s"] Cons.IH [of "Suc k"] by auto
qed simp

lemma slots_ok_update:
  "slots_ok b k ss \<Longrightarrow> session_id s = sid \<or> session_id s = 0 \<Longrightarrow> sid \<noteq> 0 \<Longrightarrow>
     slots_ok b k (update_first (\<lambda>x. session_id x = sid) (\<lambda>_. s) ss)"
  by (induction b k ss rule: slots_ok.induct) auto

lemma slots_ok_reset: "slots_ok b k (map set_default ss)"
  by (induction ss arbitrary: k) (auto simp: set_default_def)

lemma next_half_range:
  "next_half_loop b (of_nat k) ss = Ok h \<Longrightarrow> \<exists>j. k \<le> j \<and> j < k + length ss \<and> h = INITIAL_SESSION_ID - of_nat j"
proof (induction ss arbitrary: k)
  case (Cons s ss)
  show ?case
  proof (cases "half_session_id b (session_id s) = 0")
    case False
    with Cons.prems have "next_half_loop b (of_nat (Suc k)) ss = Ok h" by (simp add: add.commute)
    from Cons.IH [OF this] show ?thesis by (elim exE) (rule_tac x = j in exI, simp)
  qed (use Cons.prems in auto)
qed simp

lemma slots_ok_open:
  assumes "slots_ok b k ss" "k + length ss \<le> 4" "next_half_loop b (of_nat k) ss = Ok h"
    and h: "half_session_id b (session_id s) = h"
  shows "slots_ok b k (update_first (\<lambda>x. session_id x = 0) (\<lambda>_. s) ss) \<and> session_id s \<notin> session_id ` set ss
     \<and> List.find (\<lambda>x. session_id x = 0) ss \<noteq> None"
  using assms(1-3)
proof (induction ss arbitrary: k)
  case (Cons t ss)
  show ?case
  proof (cases "session_id t = 0")
    case True
    then have "h = INITIAL_SESSION_ID - of_nat k" using Cons.prems by simp
    moreover from this have "session_id s \<notin> session_id ` set ss"
      using slots_ok_later [of b k ss "session_id s"] Cons.prems h by auto
    moreover have "session_id s \<noteq> 0" using half_ids_small(1) [of k] calculation h Cons.prems by auto
    ultimately show ?thesis using True Cons.prems h by auto
  next
    case False
    then have t: "half_session_id b (session_id t) = INITIAL_SESSION_ID - of_nat k" using Cons.prems by simp
    then have n: "next_half_loop b (of_nat (Suc k)) ss = Ok h"
      using Cons.prems half_ids_small(1) [of k] by (simp add: add.commute split: if_splits)
    then obtain j where "Suc k \<le> j" "j < Suc k + length ss" "h = INITIAL_SESSION_ID - of_nat j"
      using next_half_range by blast
    then have "session_id s \<noteq> session_id t" using t h half_ids_small(2) [of j k] Cons.prems(2) by auto
    then show ?thesis using Cons.IH [of "Suc k"] Cons.prems n False t by auto
  qed
qed simp

text \<open>The table is full exactly when every slot holds a session.\<close>

lemma next_half_full:
  "slots_ok b k ss \<Longrightarrow> k + length ss \<le> 4 \<Longrightarrow>
     next_half_loop b (of_nat k) ss = Err SPDM_STATUS_SESSION_NUMBER_EXCEED
       \<longleftrightarrow> (\<forall>s \<in> set ss. session_id s \<noteq> 0)"
proof (induction ss arbitrary: k)
  case (Cons s ss)
  then show ?case using Cons.IH [of "Suc k"] half_ids_small(1) [of k] by (auto simp: add.commute)
qed simp

text \<open>Reading and writing the session of an id.\<close>

lemma get_session_id: "get_session_via_id sid self = Some s \<Longrightarrow> session_id s = sid"
  by (auto simp: get_session_via_id_def find_Some_iff)

lemma find_update_first:
  "List.find P xs \<noteq> None \<Longrightarrow> P y \<Longrightarrow> List.find P (update_first P (\<lambda>_. y) xs) = Some y"
  by (induction xs) auto

lemma find_update_first_other:
  "\<not> Q y \<Longrightarrow> (\<And>x. P x \<Longrightarrow> \<not> Q x) \<Longrightarrow> List.find Q (update_first P (\<lambda>_. y) xs) = List.find Q xs"
  by (induction xs) auto

lemma get_put_session [simp]:
  "get_session_via_id sid self = Some s0 \<Longrightarrow> session_id s = sid \<Longrightarrow>
     get_session_via_id sid (put_session sid s self) = Some s"
  by (simp add: get_session_via_id_def put_session_def find_update_first)

lemma get_put_session_other:
  "i \<noteq> sid \<Longrightarrow> session_id s \<noteq> i \<Longrightarrow> get_session_via_id i (put_session sid s self) = get_session_via_id i self"
  by (simp add: get_session_via_id_def put_session_def find_update_first_other)

lemma put_session_fields [simp]:
  "config_info (put_session sid s self) = config_info self"
  "negotiate_info (put_session sid s self) = negotiate_info self"
  "runtime_info (put_session sid s self) = runtime_info self"
  "provision_info (put_session sid s self) = provision_info self"
  "peer_info (put_session sid s self) = peer_info self"
  by (simp_all add: put_session_def)

lemma length_update_first [simp]: "length (update_first P f xs) = length xs"
  by (induction xs) auto

text \<open>The operations of the table keep its invariant.\<close>

lemma table_ok_new [simp]: "table_ok b (SpdmContext_new config provision)"
  by (simp add: table_ok_def SpdmContext_new_def SpdmSession_new_def numeral_eq_Suc)

lemma table_ok_session: "session c = session c' \<Longrightarrow> table_ok b c \<longleftrightarrow> table_ok b c'"
  by (simp add: table_ok_def)

lemma table_ok_put:
  assumes "table_ok b self" "session_id s = sid \<or> session_id s = 0" "sid \<noteq> 0"
  shows "table_ok b (put_session sid s self)"
  using assms slots_ok_update [of b 0 "session self" s sid] by (simp add: table_ok_def put_session_def)

lemma table_ok_reset: "table_ok b self \<Longrightarrow> table_ok b (reset_context self)"
  by (simp add: table_ok_def reset_context_def slots_ok_reset Let_def reset_peer_info_def
      reset_negotiate_info_def reset_runtime_info_def)

lemma table_ok_alive_distinct: "table_ok b self \<Longrightarrow> distinct (alive self)"
  using slots_ok_distinct [of b 0 "session self"] by (simp add: table_ok_def alive_def)

lemma table_ok_open:
  assumes "table_ok b self" "get_next_half_session_id b self = Ok h"
    and "half_session_id b (session_id s) = h"
  shows "table_ok b (put_session 0 s self)" "session_id s \<notin> set (alive self)"
    "get_next_avaiable_session self \<noteq> None"
  using assms slots_ok_open [of b 0 "session self" h s]
  by (auto simp: table_ok_def put_session_def get_next_half_session_id_def get_next_avaiable_session_def
      get_session_via_id_def alive_def)

lemma length_filter_full: "length (filter P xs) = length xs \<longleftrightarrow> (\<forall>x \<in> set xs. P x)"
  by (metis filter_id_conv length_filter_less less_irrefl)

lemma table_ok_full:
  assumes "table_ok b self"
  shows "get_next_half_session_id b self = Err SPDM_STATUS_SESSION_NUMBER_EXCEED
     \<longleftrightarrow> length (alive self) = MAX_SPDM_SESSION_COUNT"
proof -
  have len: "length (session self) = MAX_SPDM_SESSION_COUNT" using assms by (simp add: table_ok_def)
  have "length (alive self) = length (session self) \<longleftrightarrow> (\<forall>s \<in> set (session self). session_id s \<noteq> 0)"
    by (simp add: alive_def filter_map o_def length_filter_full)
  then show ?thesis
    using assms len next_half_full [of b 0 "session self"]
    by (simp add: table_ok_def get_next_half_session_id_def)
qed

text \<open>Setting up the free slot adds the id to the live ones.\<close>

lemma half_id_nonzero: "table_ok b self \<Longrightarrow> get_next_half_session_id b self = Ok h \<Longrightarrow> h \<noteq> 0"
  using next_half_range [of b 0 "session self" h] half_ids_small(1)
  by (auto simp: table_ok_def get_next_half_session_id_def)

lemma alive_opened:
  assumes "get_session_via_id 0 self = Some s0" "session_id s \<noteq> 0"
  shows "set (alive (put_session 0 s self)) = insert (session_id s) (set (alive self))"
proof -
  have "List.find (\<lambda>x. session_id x = 0) xs \<noteq> None \<Longrightarrow>
     set (filter (\<lambda>i. i \<noteq> 0) (map session_id (update_first (\<lambda>x. session_id x = 0) (\<lambda>_. s) xs)))
       = insert (session_id s) (set (filter (\<lambda>i. i \<noteq> 0) (map session_id xs)))" for xs
    using assms(2) by (induction xs) (auto simp: insert_commute simp del: set_filter)
  then show ?thesis using assms(1) by (simp add: alive_def put_session_def get_session_via_id_def)
qed

lemma get_opened:
  assumes "get_session_via_id 0 self = Some s0" "session_id s \<notin> set (alive self)" "session_id s \<noteq> 0"
  shows "get_session_via_id (session_id s) (put_session 0 s self) = Some s"
proof -
  have "List.find (\<lambda>x. session_id x = 0) xs \<noteq> None \<Longrightarrow> session_id s \<notin> session_id ` set xs \<Longrightarrow>
     List.find (\<lambda>x. session_id x = session_id s) (update_first (\<lambda>x. session_id x = 0) (\<lambda>_. s) xs) = Some s" for xs
    by (induction xs) auto
  then show ?thesis using assms by (auto simp: alive_def put_session_def get_session_via_id_def)
qed

end
