(* ===== verification/Opcode.thy ===== *)
theory Opcode
  imports Protocol
begin

text \<open>
  The codes of the messages: the enums of \<open>spdmlib/src/message\<close> that \<open>enum_builder!\<close> makes, and the
  header that every message starts with. Every enum is an instance of \<open>enum_codec\<close>.
\<close>

subsection \<open>Enums\<close>

datatype SpdmRequestResponseCode =
    SpdmResponseDigests | SpdmResponseCertificate | SpdmResponseChallengeAuth
  | SpdmResponseVersion | SpdmResponseMeasurements | SpdmResponseCapabilities
  | SpdmResponseAlgorithms | SpdmResponseVendorDefinedResponse | SpdmResponseError
  | SpdmResponseKeyExchangeRsp | SpdmResponseFinishRsp | SpdmResponsePskExchangeRsp
  | SpdmResponsePskFinishRsp | SpdmResponseHeartbeatAck | SpdmResponseKeyUpdateAck
  | SpdmResponseEncapsulatedRequest | SpdmResponseEncapsulatedResponseAck
  | SpdmResponseEndSessionAck | SpdmResponseChunkSendAck | SpdmResponseChunkResponse
  | SpdmRequestGetDigests | SpdmRequestGetCertificate | SpdmRequestChallenge
  | SpdmRequestGetVersion | SpdmRequestGetMeasurements | SpdmRequestGetCapabilities
  | SpdmRequestNegotiateAlgorithms | SpdmRequestVendorDefinedRequest | SpdmRequestResponseIfReady
  | SpdmRequestKeyExchange | SpdmRequestFinish | SpdmRequestPskExchange | SpdmRequestPskFinish
  | SpdmRequestHeartbeat | SpdmRequestKeyUpdate | SpdmRequestGetEncapsulatedRequest
  | SpdmRequestDeliverEncapsulatedResponse | SpdmRequestEndSession | SpdmRequestChunkSend
  | SpdmRequestChunkGet | SpdmRequestResponseCodeUnknown u8

fun SpdmRequestResponseCode_get_u8 :: "SpdmRequestResponseCode \<Rightarrow> u8" where
  "SpdmRequestResponseCode_get_u8 SpdmResponseDigests = 0x01"
| "SpdmRequestResponseCode_get_u8 SpdmResponseCertificate = 0x02"
| "SpdmRequestResponseCode_get_u8 SpdmResponseChallengeAuth = 0x03"
| "SpdmRequestResponseCode_get_u8 SpdmResponseVersion = 0x04"
| "SpdmRequestResponseCode_get_u8 SpdmResponseMeasurements = 0x60"
| "SpdmRequestResponseCode_get_u8 SpdmResponseCapabilities = 0x61"
| "SpdmRequestResponseCode_get_u8 SpdmResponseAlgorithms = 0x63"
| "SpdmRequestResponseCode_get_u8 SpdmResponseVendorDefinedResponse = 0x7E"
| "SpdmRequestResponseCode_get_u8 SpdmResponseError = 0x7F"
| "SpdmRequestResponseCode_get_u8 SpdmResponseKeyExchangeRsp = 0x64"
| "SpdmRequestResponseCode_get_u8 SpdmResponseFinishRsp = 0x65"
| "SpdmRequestResponseCode_get_u8 SpdmResponsePskExchangeRsp = 0x66"
| "SpdmRequestResponseCode_get_u8 SpdmResponsePskFinishRsp = 0x67"
| "SpdmRequestResponseCode_get_u8 SpdmResponseHeartbeatAck = 0x68"
| "SpdmRequestResponseCode_get_u8 SpdmResponseKeyUpdateAck = 0x69"
| "SpdmRequestResponseCode_get_u8 SpdmResponseEncapsulatedRequest = 0x6A"
| "SpdmRequestResponseCode_get_u8 SpdmResponseEncapsulatedResponseAck = 0x6B"
| "SpdmRequestResponseCode_get_u8 SpdmResponseEndSessionAck = 0x6C"
| "SpdmRequestResponseCode_get_u8 SpdmResponseChunkSendAck = 0x05"
| "SpdmRequestResponseCode_get_u8 SpdmResponseChunkResponse = 0x06"
| "SpdmRequestResponseCode_get_u8 SpdmRequestGetDigests = 0x81"
| "SpdmRequestResponseCode_get_u8 SpdmRequestGetCertificate = 0x82"
| "SpdmRequestResponseCode_get_u8 SpdmRequestChallenge = 0x83"
| "SpdmRequestResponseCode_get_u8 SpdmRequestGetVersion = 0x84"
| "SpdmRequestResponseCode_get_u8 SpdmRequestGetMeasurements = 0xE0"
| "SpdmRequestResponseCode_get_u8 SpdmRequestGetCapabilities = 0xE1"
| "SpdmRequestResponseCode_get_u8 SpdmRequestNegotiateAlgorithms = 0xE3"
| "SpdmRequestResponseCode_get_u8 SpdmRequestVendorDefinedRequest = 0xFE"
| "SpdmRequestResponseCode_get_u8 SpdmRequestResponseIfReady = 0xFF"
| "SpdmRequestResponseCode_get_u8 SpdmRequestKeyExchange = 0xE4"
| "SpdmRequestResponseCode_get_u8 SpdmRequestFinish = 0xE5"
| "SpdmRequestResponseCode_get_u8 SpdmRequestPskExchange = 0xE6"
| "SpdmRequestResponseCode_get_u8 SpdmRequestPskFinish = 0xE7"
| "SpdmRequestResponseCode_get_u8 SpdmRequestHeartbeat = 0xE8"
| "SpdmRequestResponseCode_get_u8 SpdmRequestKeyUpdate = 0xE9"
| "SpdmRequestResponseCode_get_u8 SpdmRequestGetEncapsulatedRequest = 0xEA"
| "SpdmRequestResponseCode_get_u8 SpdmRequestDeliverEncapsulatedResponse = 0xEB"
| "SpdmRequestResponseCode_get_u8 SpdmRequestEndSession = 0xEC"
| "SpdmRequestResponseCode_get_u8 SpdmRequestChunkSend = 0x85"
| "SpdmRequestResponseCode_get_u8 SpdmRequestChunkGet = 0x86"
| "SpdmRequestResponseCode_get_u8 (SpdmRequestResponseCodeUnknown x) = x"

definition SpdmRequestResponseCode_of_u8 :: "u8 \<Rightarrow> SpdmRequestResponseCode" where
  "SpdmRequestResponseCode_of_u8 x =
     (if x = 0x01 then SpdmResponseDigests
      else if x = 0x02 then SpdmResponseCertificate
      else if x = 0x03 then SpdmResponseChallengeAuth
      else if x = 0x04 then SpdmResponseVersion
      else if x = 0x60 then SpdmResponseMeasurements
      else if x = 0x61 then SpdmResponseCapabilities
      else if x = 0x63 then SpdmResponseAlgorithms
      else if x = 0x7E then SpdmResponseVendorDefinedResponse
      else if x = 0x7F then SpdmResponseError
      else if x = 0x64 then SpdmResponseKeyExchangeRsp
      else if x = 0x65 then SpdmResponseFinishRsp
      else if x = 0x66 then SpdmResponsePskExchangeRsp
      else if x = 0x67 then SpdmResponsePskFinishRsp
      else if x = 0x68 then SpdmResponseHeartbeatAck
      else if x = 0x69 then SpdmResponseKeyUpdateAck
      else if x = 0x6A then SpdmResponseEncapsulatedRequest
      else if x = 0x6B then SpdmResponseEncapsulatedResponseAck
      else if x = 0x6C then SpdmResponseEndSessionAck
      else if x = 0x05 then SpdmResponseChunkSendAck
      else if x = 0x06 then SpdmResponseChunkResponse
      else if x = 0x81 then SpdmRequestGetDigests
      else if x = 0x82 then SpdmRequestGetCertificate
      else if x = 0x83 then SpdmRequestChallenge
      else if x = 0x84 then SpdmRequestGetVersion
      else if x = 0xE0 then SpdmRequestGetMeasurements
      else if x = 0xE1 then SpdmRequestGetCapabilities
      else if x = 0xE3 then SpdmRequestNegotiateAlgorithms
      else if x = 0xFE then SpdmRequestVendorDefinedRequest
      else if x = 0xFF then SpdmRequestResponseIfReady
      else if x = 0xE4 then SpdmRequestKeyExchange
      else if x = 0xE5 then SpdmRequestFinish
      else if x = 0xE6 then SpdmRequestPskExchange
      else if x = 0xE7 then SpdmRequestPskFinish
      else if x = 0xE8 then SpdmRequestHeartbeat
      else if x = 0xE9 then SpdmRequestKeyUpdate
      else if x = 0xEA then SpdmRequestGetEncapsulatedRequest
      else if x = 0xEB then SpdmRequestDeliverEncapsulatedResponse
      else if x = 0xEC then SpdmRequestEndSession
      else if x = 0x85 then SpdmRequestChunkSend
      else if x = 0x86 then SpdmRequestChunkGet
      else SpdmRequestResponseCodeUnknown x)"

abbreviation SpdmRequestResponseCode_encode :: "SpdmRequestResponseCode \<Rightarrow> encode_err encoder" where
  "SpdmRequestResponseCode_encode \<equiv> enum_encode u8_encode SpdmRequestResponseCode_get_u8"

abbreviation SpdmRequestResponseCode_read :: "SpdmRequestResponseCode decoder" where
  "SpdmRequestResponseCode_read \<equiv> enum_read u8_read SpdmRequestResponseCode_of_u8"

datatype SpdmErrorCode =
    SpdmErrorInvalidRequest | SpdmErrorBusy | SpdmErrorUnexpectedRequest | SpdmErrorUnspecified
  | SpdmErrorDecryptError | SpdmErrorUnsupportedRequest | SpdmErrorRequestInFlight
  | SpdmErrorInvalidResponseCode | SpdmErrorSessionLimitExceeded | SpdmErrorSessionRequired
  | SpdmErrorResetRequired | SpdmErrorResponseTooLarge | SpdmErrorRequestTooLarge
  | SpdmErrorLargeResponse | SpdmErrorMessageLost | SpdmErrorVersionMismatch
  | SpdmErrorResponseNotReady | SpdmErrorRequestResynch | SpdmErrorVendorDefined
  | SpdmErrorCodeUnknown u8

fun SpdmErrorCode_get_u8 :: "SpdmErrorCode \<Rightarrow> u8" where
  "SpdmErrorCode_get_u8 SpdmErrorInvalidRequest = 0x1"
| "SpdmErrorCode_get_u8 SpdmErrorBusy = 0x3"
| "SpdmErrorCode_get_u8 SpdmErrorUnexpectedRequest = 0x4"
| "SpdmErrorCode_get_u8 SpdmErrorUnspecified = 0x5"
| "SpdmErrorCode_get_u8 SpdmErrorDecryptError = 0x6"
| "SpdmErrorCode_get_u8 SpdmErrorUnsupportedRequest = 0x7"
| "SpdmErrorCode_get_u8 SpdmErrorRequestInFlight = 0x8"
| "SpdmErrorCode_get_u8 SpdmErrorInvalidResponseCode = 0x9"
| "SpdmErrorCode_get_u8 SpdmErrorSessionLimitExceeded = 0xA"
| "SpdmErrorCode_get_u8 SpdmErrorSessionRequired = 0xB"
| "SpdmErrorCode_get_u8 SpdmErrorResetRequired = 0xC"
| "SpdmErrorCode_get_u8 SpdmErrorResponseTooLarge = 0xD"
| "SpdmErrorCode_get_u8 SpdmErrorRequestTooLarge = 0xE"
| "SpdmErrorCode_get_u8 SpdmErrorLargeResponse = 0xF"
| "SpdmErrorCode_get_u8 SpdmErrorMessageLost = 0x10"
| "SpdmErrorCode_get_u8 SpdmErrorVersionMismatch = 0x41"
| "SpdmErrorCode_get_u8 SpdmErrorResponseNotReady = 0x42"
| "SpdmErrorCode_get_u8 SpdmErrorRequestResynch = 0x43"
| "SpdmErrorCode_get_u8 SpdmErrorVendorDefined = 0xFF"
| "SpdmErrorCode_get_u8 (SpdmErrorCodeUnknown x) = x"

definition SpdmErrorCode_of_u8 :: "u8 \<Rightarrow> SpdmErrorCode" where
  "SpdmErrorCode_of_u8 x =
     (if x = 0x1 then SpdmErrorInvalidRequest
      else if x = 0x3 then SpdmErrorBusy
      else if x = 0x4 then SpdmErrorUnexpectedRequest
      else if x = 0x5 then SpdmErrorUnspecified
      else if x = 0x6 then SpdmErrorDecryptError
      else if x = 0x7 then SpdmErrorUnsupportedRequest
      else if x = 0x8 then SpdmErrorRequestInFlight
      else if x = 0x9 then SpdmErrorInvalidResponseCode
      else if x = 0xA then SpdmErrorSessionLimitExceeded
      else if x = 0xB then SpdmErrorSessionRequired
      else if x = 0xC then SpdmErrorResetRequired
      else if x = 0xD then SpdmErrorResponseTooLarge
      else if x = 0xE then SpdmErrorRequestTooLarge
      else if x = 0xF then SpdmErrorLargeResponse
      else if x = 0x10 then SpdmErrorMessageLost
      else if x = 0x41 then SpdmErrorVersionMismatch
      else if x = 0x42 then SpdmErrorResponseNotReady
      else if x = 0x43 then SpdmErrorRequestResynch
      else if x = 0xFF then SpdmErrorVendorDefined
      else SpdmErrorCodeUnknown x)"

abbreviation SpdmErrorCode_encode :: "SpdmErrorCode \<Rightarrow> encode_err encoder" where
  "SpdmErrorCode_encode \<equiv> enum_encode u8_encode SpdmErrorCode_get_u8"

abbreviation SpdmErrorCode_read :: "SpdmErrorCode decoder" where
  "SpdmErrorCode_read \<equiv> enum_read u8_read SpdmErrorCode_of_u8"

datatype SpdmKeyUpdateOperation =
    SpdmUpdateSingleKey | SpdmUpdateAllKeys | SpdmVerifyNewKey | SpdmKeyUpdateOperationUnknown u8

fun SpdmKeyUpdateOperation_get_u8 :: "SpdmKeyUpdateOperation \<Rightarrow> u8" where
  "SpdmKeyUpdateOperation_get_u8 SpdmUpdateSingleKey = 0x1"
| "SpdmKeyUpdateOperation_get_u8 SpdmUpdateAllKeys = 0x2"
| "SpdmKeyUpdateOperation_get_u8 SpdmVerifyNewKey = 0x3"
| "SpdmKeyUpdateOperation_get_u8 (SpdmKeyUpdateOperationUnknown x) = x"

definition SpdmKeyUpdateOperation_of_u8 :: "u8 \<Rightarrow> SpdmKeyUpdateOperation" where
  "SpdmKeyUpdateOperation_of_u8 x =
     (if x = 0x1 then SpdmUpdateSingleKey
      else if x = 0x2 then SpdmUpdateAllKeys
      else if x = 0x3 then SpdmVerifyNewKey
      else SpdmKeyUpdateOperationUnknown x)"

abbreviation SpdmKeyUpdateOperation_encode :: "SpdmKeyUpdateOperation \<Rightarrow> encode_err encoder" where
  "SpdmKeyUpdateOperation_encode \<equiv> enum_encode u8_encode SpdmKeyUpdateOperation_get_u8"

abbreviation SpdmKeyUpdateOperation_read :: "SpdmKeyUpdateOperation decoder" where
  "SpdmKeyUpdateOperation_read \<equiv> enum_read u8_read SpdmKeyUpdateOperation_of_u8"

datatype SpdmMeasurementOperation =
    SpdmMeasurementQueryTotalNumber | SpdmMeasurementRequestAll
  | SpdmMeasurementOperationUnknown u8

fun SpdmMeasurementOperation_get_u8 :: "SpdmMeasurementOperation \<Rightarrow> u8" where
  "SpdmMeasurementOperation_get_u8 SpdmMeasurementQueryTotalNumber = 0x0"
| "SpdmMeasurementOperation_get_u8 SpdmMeasurementRequestAll = 0xFF"
| "SpdmMeasurementOperation_get_u8 (SpdmMeasurementOperationUnknown x) = x"

definition SpdmMeasurementOperation_of_u8 :: "u8 \<Rightarrow> SpdmMeasurementOperation" where
  "SpdmMeasurementOperation_of_u8 x =
     (if x = 0x0 then SpdmMeasurementQueryTotalNumber
      else if x = 0xFF then SpdmMeasurementRequestAll
      else SpdmMeasurementOperationUnknown x)"

abbreviation SpdmMeasurementOperation_encode :: "SpdmMeasurementOperation \<Rightarrow> encode_err encoder" where
  "SpdmMeasurementOperation_encode \<equiv> enum_encode u8_encode SpdmMeasurementOperation_get_u8"

abbreviation SpdmMeasurementOperation_read :: "SpdmMeasurementOperation decoder" where
  "SpdmMeasurementOperation_read \<equiv> enum_read u8_read SpdmMeasurementOperation_of_u8"

datatype SpdmMeasurementSummaryHashType =
    SpdmMeasurementSummaryHashTypeNone | SpdmMeasurementSummaryHashTypeTcb
  | SpdmMeasurementSummaryHashTypeAll | SpdmMeasurementSummaryHashTypeUnknown u8

fun SpdmMeasurementSummaryHashType_get_u8 :: "SpdmMeasurementSummaryHashType \<Rightarrow> u8" where
  "SpdmMeasurementSummaryHashType_get_u8 SpdmMeasurementSummaryHashTypeNone = 0x0"
| "SpdmMeasurementSummaryHashType_get_u8 SpdmMeasurementSummaryHashTypeTcb = 0x1"
| "SpdmMeasurementSummaryHashType_get_u8 SpdmMeasurementSummaryHashTypeAll = 0xFF"
| "SpdmMeasurementSummaryHashType_get_u8 (SpdmMeasurementSummaryHashTypeUnknown x) = x"

definition SpdmMeasurementSummaryHashType_of_u8 :: "u8 \<Rightarrow> SpdmMeasurementSummaryHashType" where
  "SpdmMeasurementSummaryHashType_of_u8 x =
     (if x = 0x0 then SpdmMeasurementSummaryHashTypeNone
      else if x = 0x1 then SpdmMeasurementSummaryHashTypeTcb
      else if x = 0xFF then SpdmMeasurementSummaryHashTypeAll
      else SpdmMeasurementSummaryHashTypeUnknown x)"

abbreviation SpdmMeasurementSummaryHashType_encode :: "SpdmMeasurementSummaryHashType \<Rightarrow> encode_err encoder" where
  "SpdmMeasurementSummaryHashType_encode \<equiv> enum_encode u8_encode SpdmMeasurementSummaryHashType_get_u8"

abbreviation SpdmMeasurementSummaryHashType_read :: "SpdmMeasurementSummaryHashType decoder" where
  "SpdmMeasurementSummaryHashType_read \<equiv> enum_read u8_read SpdmMeasurementSummaryHashType_of_u8"

subsection \<open>The header\<close>

record SpdmMessageHeader =
  version :: SpdmVersion
  request_response_code :: SpdmRequestResponseCode

definition SpdmMessageHeader_encode :: "SpdmMessageHeader \<Rightarrow> encode_err encoder" where
  "SpdmMessageHeader_encode self =
     enc_seq [SpdmVersion_encode (version self), SpdmRequestResponseCode_encode (request_response_code self)]"

definition SpdmMessageHeader_read :: "SpdmMessageHeader decoder" where
  "SpdmMessageHeader_read r = do {
     (version, r) \<leftarrow> SpdmVersion_read r;
     (request_response_code, r) \<leftarrow> SpdmRequestResponseCode_read r;
     Some (\<lparr>version = version, request_response_code = request_response_code\<rparr>, r) }"

subsection \<open>Laws\<close>

interpretation SpdmRequestResponseCode:
  enum_codec u8_encode u8_read u8_image SpdmRequestResponseCode_get_u8 SpdmRequestResponseCode_of_u8
  by unfold_locales (simp add: SpdmRequestResponseCode_of_u8_def)

interpretation SpdmErrorCode:
  enum_codec u8_encode u8_read u8_image SpdmErrorCode_get_u8 SpdmErrorCode_of_u8
  by unfold_locales (simp add: SpdmErrorCode_of_u8_def)

interpretation SpdmKeyUpdateOperation:
  enum_codec u8_encode u8_read u8_image SpdmKeyUpdateOperation_get_u8 SpdmKeyUpdateOperation_of_u8
  by unfold_locales (simp add: SpdmKeyUpdateOperation_of_u8_def)

interpretation SpdmMeasurementOperation:
  enum_codec u8_encode u8_read u8_image SpdmMeasurementOperation_get_u8 SpdmMeasurementOperation_of_u8
  by unfold_locales (simp add: SpdmMeasurementOperation_of_u8_def)

interpretation SpdmMeasurementSummaryHashType:
  enum_codec u8_encode u8_read u8_image SpdmMeasurementSummaryHashType_get_u8 SpdmMeasurementSummaryHashType_of_u8
  by unfold_locales (simp add: SpdmMeasurementSummaryHashType_of_u8_def)

text \<open>A message that was read never carries an \<open>Unknown\<close> with a listed code.\<close>

lemma SpdmRequestResponseCode_of_get [simp]:
  "(\<And>x. c \<noteq> SpdmRequestResponseCodeUnknown x) \<Longrightarrow> SpdmRequestResponseCode_of_u8 (SpdmRequestResponseCode_get_u8 c) = c"
  by (cases c) (simp_all add: SpdmRequestResponseCode_of_u8_def)

definition SpdmMessageHeader_image :: "SpdmMessageHeader \<Rightarrow> bytes" where
  "SpdmMessageHeader_image h =
     u8_image (SpdmVersion_u8 (version h)) @ u8_image (SpdmRequestResponseCode_get_u8 (request_response_code h))"

definition SpdmMessageHeader_valid :: "SpdmMessageHeader \<Rightarrow> bool" where
  "SpdmMessageHeader_valid h \<longleftrightarrow>
     SpdmRequestResponseCode_of_u8 (SpdmRequestResponseCode_get_u8 (request_response_code h)) = request_response_code h"

interpretation SpdmMessageHeader:
  codec EncodeErr SpdmMessageHeader_encode SpdmMessageHeader_read SpdmMessageHeader_image SpdmMessageHeader_valid
proof unfold_locales
  fix h assume h: "SpdmMessageHeader_valid h"
  show "writes EncodeErr (SpdmMessageHeader_encode h) (SpdmMessageHeader_image h)"
    unfolding SpdmMessageHeader_encode_def SpdmMessageHeader_image_def
    by (intro writes_seq_Cons writes_seq_single SpdmVersion.encode_writes SpdmRequestResponseCode.encode_writes)
      (use h in \<open>simp_all add: SpdmMessageHeader_valid_def\<close>)
  show "reads SpdmMessageHeader_read (SpdmMessageHeader_image h) h"
    using h
    by (simp add: reads_def SpdmMessageHeader_read_def SpdmMessageHeader_image_def SpdmMessageHeader_valid_def
        SpdmVersion.read_reads [THEN readsD, simplified] SpdmRequestResponseCode.read_reads [THEN readsD, simplified])
qed

end
