(* ===== verification/Transcript.thy ===== *)
theory Transcript
  imports Context Opcode
begin

text \<open>
  The transcripts of \<open>spdmlib/src/common/mod.rs\<close>: the appending and resetting of message A, B, C, M,
  K and F, the transcript hash TH of a session, the hashes of certificate certs and the input of a
  signature.

  The source has two variants of the transcripts. With the feature \<open>hashed-transcript-data\<close>, which
  is a default feature, they are running hashes; these operations have the names of the source.
  Without it they are the messages themselves; those operations have the suffix \<open>_raw\<close>. The laws
  relate the two: the transcript hashes agree.
\<close>

subsection \<open>Running hashes\<close>

text \<open>A sequence of \<open>hash_ctx_update(ctx, m)?\<close>; an update that fails leaves the context alone.\<close>

fun hash_updates :: "'h Crypto \<Rightarrow> bytes list \<Rightarrow> 'h \<Rightarrow> unit SpdmResult \<times> 'h" where
  "hash_updates C [] h = (Ok (), h)"
| "hash_updates C (m # ms) h =
     (case hash_ctx_update C h m of Inl e \<Rightarrow> (Inl e, h) | Inr h \<Rightarrow> hash_updates C ms h)"

text \<open>
  A context that is created when it is first fed: \<open>first\<close> is what goes in front of the first message.
\<close>

definition feed ::
  "'h Crypto \<Rightarrow> SpdmStatus \<Rightarrow> SpdmBaseHashAlgo \<Rightarrow> bytes list \<Rightarrow> bytes \<Rightarrow> 'h option \<Rightarrow>
     unit SpdmResult \<times> 'h option" where
  "feed C err algo first msg ctx =
     (case ctx of
        Some h \<Rightarrow> (let (res, h) = hash_updates C [msg] h in (res, Some h))
      | None \<Rightarrow> (case hash_ctx_init C algo of
            None \<Rightarrow> (Err err, None)
          | Some h \<Rightarrow> (let (res, h) = hash_updates C (first @ [msg]) h in (res, Some h))))"

subsection \<open>Message A, B, C and M\<close>

definition append_message_a :: "bytes \<Rightarrow> 'h SpdmContext \<Rightarrow> unit SpdmResult \<times> 'h SpdmContext" where
  "append_message_a msg self =
     (case ManagedBuffer_append_message msg (message_a (runtime_info self)) of
        None \<Rightarrow> (Err SPDM_STATUS_BUFFER_FULL, self)
      | Some (_, m) \<Rightarrow> (Ok (), self\<lparr>runtime_info := (runtime_info self)\<lparr>message_a := m\<rparr>\<rparr>))"

definition reset_message_a :: "'h SpdmContext \<Rightarrow> 'h SpdmContext" where
  "reset_message_a self = self\<lparr>runtime_info := (runtime_info self)
     \<lparr>message_a := ManagedBuffer_reset_message (message_a (runtime_info self))\<rparr>\<rparr>"

definition append_message_b :: "'h Crypto \<Rightarrow> bytes \<Rightarrow> 'h SpdmContext \<Rightarrow> unit SpdmResult \<times> 'h SpdmContext" where
  "append_message_b C msg self =
     (let (res, ctx) = feed C SPDM_STATUS_INVALID_STATE_LOCAL (base_hash_sel (negotiate_info self))
            [ManagedBuffer_as_ref (message_a (runtime_info self))] msg (digest_context_m1m2 (runtime_info self))
      in (res, self\<lparr>runtime_info := (runtime_info self)\<lparr>digest_context_m1m2 := ctx\<rparr>\<rparr>))"

definition reset_message_b :: "'h SpdmContext \<Rightarrow> 'h SpdmContext" where
  "reset_message_b self = self\<lparr>runtime_info := (runtime_info self)\<lparr>digest_context_m1m2 := None\<rparr>\<rparr>"

definition append_message_c :: "'h Crypto \<Rightarrow> bytes \<Rightarrow> 'h SpdmContext \<Rightarrow> unit SpdmResult \<times> 'h SpdmContext" where
  "append_message_c C msg self =
     (let (res, ctx) = feed C SPDM_STATUS_CRYPTO_ERROR (base_hash_sel (negotiate_info self))
            [ManagedBuffer_as_ref (message_a (runtime_info self))] msg (digest_context_m1m2 (runtime_info self))
      in (res, self\<lparr>runtime_info := (runtime_info self)\<lparr>digest_context_m1m2 := ctx\<rparr>\<rparr>))"

definition reset_message_c :: "'h SpdmContext \<Rightarrow> 'h SpdmContext" where
  "reset_message_c self = self\<lparr>runtime_info := (runtime_info self)\<lparr>digest_context_m1m2 := None\<rparr>\<rparr>"

definition append_message_m ::
  "'h Crypto \<Rightarrow> u32 option \<Rightarrow> bytes \<Rightarrow> 'h SpdmContext \<Rightarrow> unit SpdmResult \<times> 'h SpdmContext" where
  "append_message_m C sid msg self =
     (let algo = base_hash_sel (negotiate_info self);
          first = (if SpdmVersion12 \<le> spdm_version_sel (negotiate_info self)
                   then [ManagedBuffer_as_ref (message_a (runtime_info self))] else [])
      in case sid of
           Some i \<Rightarrow> (case get_session_via_id i self of
               None \<Rightarrow> (Err SPDM_STATUS_INVALID_STATE_LOCAL, self)
             | Some s \<Rightarrow>
                 (let (res, ctx) = feed C SPDM_STATUS_CRYPTO_ERROR algo first msg
                        (s_digest_context_l1l2 (s_runtime_info s))
                  in (res, put_session i (s\<lparr>s_runtime_info := (s_runtime_info s)\<lparr>s_digest_context_l1l2 := ctx\<rparr>\<rparr>) self)))
         | None \<Rightarrow>
             (let (res, ctx) = feed C SPDM_STATUS_CRYPTO_ERROR algo first msg (digest_context_l1l2 (runtime_info self))
              in (res, self\<lparr>runtime_info := (runtime_info self)\<lparr>digest_context_l1l2 := ctx\<rparr>\<rparr>)))"

definition reset_message_m :: "u32 option \<Rightarrow> 'h SpdmContext \<Rightarrow> 'h SpdmContext" where
  "reset_message_m sid self =
     (case sid of
        Some i \<Rightarrow> (case get_session_via_id i self of
            None \<Rightarrow> self
          | Some s \<Rightarrow> put_session i (s\<lparr>s_runtime_info := (s_runtime_info s)\<lparr>s_digest_context_l1l2 := None\<rparr>\<rparr>) self)
      | None \<Rightarrow> self\<lparr>runtime_info := (runtime_info self)\<lparr>digest_context_l1l2 := None\<rparr>\<rparr>)"

definition append_message_b_raw :: "bytes \<Rightarrow> 'h SpdmContext \<Rightarrow> unit SpdmResult \<times> 'h SpdmContext" where
  "append_message_b_raw msg self =
     (case ManagedBuffer_append_message msg (message_b (runtime_info self)) of
        None \<Rightarrow> (Err SPDM_STATUS_BUFFER_FULL, self)
      | Some (_, m) \<Rightarrow> (Ok (), self\<lparr>runtime_info := (runtime_info self)\<lparr>message_b := m\<rparr>\<rparr>))"

definition append_message_c_raw :: "bytes \<Rightarrow> 'h SpdmContext \<Rightarrow> unit SpdmResult \<times> 'h SpdmContext" where
  "append_message_c_raw msg self =
     (case ManagedBuffer_append_message msg (message_c (runtime_info self)) of
        None \<Rightarrow> (Err SPDM_STATUS_BUFFER_FULL, self)
      | Some (_, m) \<Rightarrow> (Ok (), self\<lparr>runtime_info := (runtime_info self)\<lparr>message_c := m\<rparr>\<rparr>))"

subsection \<open>Message K and F\<close>

abbreviation upd_srt ::
  "('h SpdmSessionRuntimeInfo \<Rightarrow> 'h SpdmSessionRuntimeInfo) \<Rightarrow> 'h SpdmSession \<Rightarrow> 'h SpdmSession" where
  "upd_srt f s \<equiv> s\<lparr>s_runtime_info := f (s_runtime_info s)\<rparr>"

definition append_message_k ::
  "'h Crypto \<Rightarrow> u32 \<Rightarrow> bytes \<Rightarrow> 'h SpdmContext \<Rightarrow> unit SpdmResult \<times> 'h SpdmContext" where
  "append_message_k C sid msg self =
     (case get_session_via_id sid self of
        None \<Rightarrow> (Err SPDM_STATUS_INVALID_STATE_LOCAL, self)
      | Some s \<Rightarrow>
          (let first = ManagedBuffer_as_ref (s_message_a (s_runtime_info s)) #
                 (case vdm_message_transcript_before_key_exchange (runtime_info self) of
                    Some vdm \<Rightarrow> [ManagedBuffer_as_ref vdm]
                  | None \<Rightarrow> (case rsp_cert_hash (s_runtime_info s) of
                        Some cert_hash \<Rightarrow> [Sized_as_ref cert_hash] | None \<Rightarrow> []));
               (res, ctx) = feed C SPDM_STATUS_CRYPTO_ERROR (base_hash_algo (crypto_param s)) first msg
                 (digest_context_th (s_runtime_info s))
           in (res, put_session sid (upd_srt (\<lambda>r. r\<lparr>digest_context_th := ctx\<rparr>) s) self)))"

definition reset_message_k :: "u32 \<Rightarrow> 'h SpdmContext \<Rightarrow> 'h SpdmContext SpdmResult" where
  "reset_message_k sid self =
     (case get_session_via_id sid self of
        None \<Rightarrow> panic
      | Some s \<Rightarrow> Ok (put_session sid (upd_srt (\<lambda>r. r\<lparr>digest_context_th := None\<rparr>) s) self))"

abbreviation (input) SPDM_PUB_KEY_SLOT_ID_KEY_EXCHANGE :: u8 where "SPDM_PUB_KEY_SLOT_ID_KEY_EXCHANGE \<equiv> 0xFF"
abbreviation (input) SPDM_PUB_KEY_SLOT_ID_KEY_EXCHANGE_RSP :: u8 where "SPDM_PUB_KEY_SLOT_ID_KEY_EXCHANGE_RSP \<equiv> 0xF"

text \<open>
  The digest of the certificate chain, or of the provisioned public key, of a slot. The callers
  differ in the slot id that stands for the public key and in the status when nothing is there.
\<close>

definition slot_digest ::
  "'h Crypto \<Rightarrow> SpdmBaseHashAlgo \<Rightarrow> SpdmStatus \<Rightarrow> u8 \<Rightarrow> u8 \<Rightarrow> CertChain option \<Rightarrow> CertChain option list \<Rightarrow>
     SpdmDigestStruct option SpdmResult" where
  "slot_digest C algo missing pub_key_id slot pub_key certs =
     (if slot = pub_key_id
      then bindR (ok_or (Fail SPDM_STATUS_INVALID_PARAMETER) pub_key) (\<lambda>k. Ok (hash_all C algo (CertChain_as_ref k)))
      else bindR (slot_at certs (unat slot)) (\<lambda>chain.
           bindR (ok_or (Fail missing) chain) (\<lambda>chain.
           bindR (ok_or (Fail SPDM_STATUS_CRYPTO_ERROR) (hash_all C algo (CertChain_as_ref chain))) (\<lambda>d.
           Ok (Some d)))))"

definition mut_cert_digest ::
  "'h Crypto \<Rightarrow> bool \<Rightarrow> 'h SpdmContext \<Rightarrow> SpdmDigestStruct option SpdmResult" where
  "mut_cert_digest C is_requester self =
     (let algo = base_hash_sel (negotiate_info self)
      in if is_requester
         then slot_digest C algo SPDM_STATUS_INVALID_STATE_LOCAL SPDM_PUB_KEY_SLOT_ID_KEY_EXCHANGE_RSP
                (local_used_cert_chain_slot_id (runtime_info self))
                (my_pub_key (provision_info self)) (my_cert_chain (provision_info self))
         else slot_digest C algo SPDM_STATUS_INVALID_STATE_LOCAL SPDM_PUB_KEY_SLOT_ID_KEY_EXCHANGE_RSP
                (peer_used_cert_chain_slot_id (runtime_info self))
                (peer_pub_key (provision_info self)) (peer_cert_chain (peer_info self)))"

text \<open>What goes in front of the first bytes of message F.\<close>

definition message_f_prefix ::
  "'h Crypto \<Rightarrow> bool \<Rightarrow> 'h SpdmSession \<Rightarrow> 'h SpdmContext \<Rightarrow> bytes list SpdmResult" where
  "message_f_prefix C is_requester s self =
     (if message_f_initialized (s_runtime_info s) \<or> use_psk s \<or> mut_auth_requested s = 0 then Ok []
      else case vdm_message_transcript_before_finish (s_runtime_info s) of
             Some vdm \<Rightarrow> Ok [ManagedBuffer_as_ref vdm]
           | None \<Rightarrow> bindR (mut_cert_digest C is_requester self) (\<lambda>d.
               Ok (case d of Some d \<Rightarrow> [Sized_as_ref d] | None \<Rightarrow> [])))"

definition append_message_f ::
  "'h Crypto \<Rightarrow> bool \<Rightarrow> u32 \<Rightarrow> bytes \<Rightarrow> 'h SpdmContext \<Rightarrow> unit SpdmResult \<times> 'h SpdmContext" where
  "append_message_f C is_requester sid msg self =
     (case get_session_via_id sid self of
        None \<Rightarrow> (Err SPDM_STATUS_INVALID_STATE_LOCAL, self)
      | Some s \<Rightarrow> (case digest_context_th (s_runtime_info s) of
            None \<Rightarrow> (Err SPDM_STATUS_INVALID_STATE_LOCAL, self)
          | Some h \<Rightarrow> (case message_f_prefix C is_requester s self of
                Inl e \<Rightarrow> (Inl e, self)
              | Inr first \<Rightarrow> (case hash_updates C first h of
                    (Inl e, h) \<Rightarrow> (Inl e, put_session sid (upd_srt (\<lambda>r. r\<lparr>digest_context_th := Some h\<rparr>) s) self)
                  | (Inr _, h) \<Rightarrow>
                      (let (res, h) = hash_updates C [msg] h
                       in (res, put_session sid (upd_srt (\<lambda>r. r
                            \<lparr>digest_context_th := Some h, message_f_initialized := True\<rparr>) s) self))))))"

definition reset_message_f :: "u32 \<Rightarrow> 'h SpdmContext \<Rightarrow> 'h SpdmContext SpdmResult" where
  "reset_message_f sid self =
     (case get_session_via_id sid self of
        None \<Rightarrow> panic
      | Some s \<Rightarrow> Ok (put_session sid (upd_srt (\<lambda>r. r\<lparr>digest_context_th := None\<rparr>) s) self))"

definition append_message_k_raw :: "u32 \<Rightarrow> bytes \<Rightarrow> 'h SpdmContext \<Rightarrow> unit SpdmResult \<times> 'h SpdmContext" where
  "append_message_k_raw sid msg self =
     (case get_session_via_id sid self of
        None \<Rightarrow> (Err SPDM_STATUS_INVALID_STATE_LOCAL, self)
      | Some s \<Rightarrow> (case ManagedBuffer_append_message msg (s_message_k (s_runtime_info s)) of
            None \<Rightarrow> (Err SPDM_STATUS_BUFFER_FULL, self)
          | Some (_, m) \<Rightarrow> (Ok (), put_session sid (upd_srt (\<lambda>r. r\<lparr>s_message_k := m\<rparr>) s) self)))"

definition append_message_f_raw :: "u32 \<Rightarrow> bytes \<Rightarrow> 'h SpdmContext \<Rightarrow> unit SpdmResult \<times> 'h SpdmContext" where
  "append_message_f_raw sid msg self =
     (case get_session_via_id sid self of
        None \<Rightarrow> (Err SPDM_STATUS_INVALID_STATE_LOCAL, self)
      | Some s \<Rightarrow> (case ManagedBuffer_append_message msg (s_message_f (s_runtime_info s)) of
            None \<Rightarrow> (Err SPDM_STATUS_BUFFER_FULL, self)
          | Some (_, m) \<Rightarrow> (Ok (), put_session sid (upd_srt (\<lambda>r. r\<lparr>s_message_f := m\<rparr>) s) self)))"

subsection \<open>The transcript hash of a session\<close>

definition calc_req_transcript_hash :: "'h Crypto \<Rightarrow> 'h SpdmSession \<Rightarrow> SpdmDigestStruct SpdmResult" where
  "calc_req_transcript_hash C s =
     bindR (ok_or (Fail SPDM_STATUS_INVALID_STATE_LOCAL) (digest_context_th (s_runtime_info s))) (\<lambda>h.
     ok_or (Fail SPDM_STATUS_CRYPTO_ERROR) (hash_ctx_finalize C h))"

definition calc_rsp_transcript_hash :: "'h Crypto \<Rightarrow> 'h SpdmSession \<Rightarrow> SpdmDigestStruct SpdmResult" where
  "calc_rsp_transcript_hash C s =
     bindR (ok_or (Fail SPDM_STATUS_INVALID_STATE_LOCAL) (digest_context_th (s_runtime_info s))) (\<lambda>h.
     ok_or (Fail SPDM_STATUS_CRYPTO_ERROR) (hash_ctx_finalize C h))"

abbreviation (input) MAX_MANAGED_BUFFER_TH_SIZE :: usize where
  "MAX_MANAGED_BUFFER_TH_SIZE \<equiv> MAX_MANAGED_BUFFER_A_SIZE + SPDM_MAX_HASH_SIZE + MAX_MANAGED_BUFFER_K_SIZE +
     SPDM_MAX_HASH_SIZE + MAX_MANAGED_BUFFER_F_SIZE"

text \<open>A sequence of \<open>message.append_message(m).ok_or(SPDM_STATUS_BUFFER_FULL)?\<close>.\<close>

fun append_all :: "bytes list \<Rightarrow> ManagedBuffer \<Rightarrow> ManagedBuffer SpdmResult" where
  "append_all [] m = Ok m"
| "append_all (bs # bss) m =
     bindR (ok_or (Fail SPDM_STATUS_BUFFER_FULL) (ManagedBuffer_append_message bs m)) (\<lambda>(_, m). append_all bss m)"

text \<open>
  \<open>slot_digest\<close> as the transcript data use it: a hash that is missing is \<open>SPDM_STATUS_CRYPTO_ERROR\<close>
  for the public key, too.
\<close>

definition slot_hash ::
  "'h Crypto \<Rightarrow> SpdmBaseHashAlgo \<Rightarrow> SpdmStatus \<Rightarrow> u8 \<Rightarrow> u8 \<Rightarrow> CertChain option \<Rightarrow> CertChain option list \<Rightarrow>
     SpdmDigestStruct SpdmResult" where
  "slot_hash C algo missing pub_key_id slot pub_key certs =
     bindR (slot_digest C algo missing pub_key_id slot pub_key certs) (ok_or (Fail SPDM_STATUS_CRYPTO_ERROR))"

definition calc_transcript_data ::
  "bool \<Rightarrow> bool \<Rightarrow> SpdmDigestStruct SpdmResult \<Rightarrow> SpdmDigestStruct SpdmResult \<Rightarrow> ManagedBuffer \<Rightarrow>
     ManagedBuffer option \<Rightarrow> ManagedBuffer option \<Rightarrow> 'h SpdmContext \<Rightarrow> ManagedBuffer SpdmResult" where
  "calc_transcript_data psk is_mut_auth rsp_hash req_hash k f vdm_finish self =
     bindR (append_all [ManagedBuffer_as_ref (message_a (runtime_info self))]
        (ManagedBuffer_default MAX_MANAGED_BUFFER_TH_SIZE)) (\<lambda>m.
     bindR (if psk then Ok m
            else case vdm_message_transcript_before_key_exchange (runtime_info self) of
                   Some vdm \<Rightarrow> append_all [ManagedBuffer_as_ref vdm] m
                 | None \<Rightarrow> bindR rsp_hash (\<lambda>d. append_all [Sized_as_ref d] m)) (\<lambda>m.
     bindR (append_all [ManagedBuffer_as_ref k] m) (\<lambda>m.
     bindR (if \<not> psk \<and> is_mut_auth
            then case vdm_finish of
                   Some vdm \<Rightarrow> append_all [ManagedBuffer_as_ref vdm] m
                 | None \<Rightarrow> bindR req_hash (\<lambda>d. append_all [Sized_as_ref d] m)
            else Ok m) (\<lambda>m.
     case f of Some f \<Rightarrow> append_all [ManagedBuffer_as_ref f] m | None \<Rightarrow> Ok m))))"

definition calc_req_transcript_data ::
  "'h Crypto \<Rightarrow> bool \<Rightarrow> bool \<Rightarrow> ManagedBuffer \<Rightarrow> ManagedBuffer option \<Rightarrow> ManagedBuffer option \<Rightarrow>
     'h SpdmContext \<Rightarrow> ManagedBuffer SpdmResult" where
  "calc_req_transcript_data C psk is_mut_auth k f vdm_finish self =
     calc_transcript_data psk is_mut_auth
       (slot_hash C (base_hash_sel (negotiate_info self)) SPDM_STATUS_INVALID_PARAMETER
          SPDM_PUB_KEY_SLOT_ID_KEY_EXCHANGE (peer_used_cert_chain_slot_id (runtime_info self))
          (peer_pub_key (provision_info self)) (peer_cert_chain (peer_info self)))
       (slot_hash C (base_hash_sel (negotiate_info self)) SPDM_STATUS_INVALID_PARAMETER
          SPDM_PUB_KEY_SLOT_ID_KEY_EXCHANGE_RSP (local_used_cert_chain_slot_id (runtime_info self))
          (my_pub_key (provision_info self)) (my_cert_chain (provision_info self)))
       k f vdm_finish self"

definition calc_rsp_transcript_data ::
  "'h Crypto \<Rightarrow> bool \<Rightarrow> bool \<Rightarrow> ManagedBuffer \<Rightarrow> ManagedBuffer option \<Rightarrow> ManagedBuffer option \<Rightarrow>
     'h SpdmContext \<Rightarrow> ManagedBuffer SpdmResult" where
  "calc_rsp_transcript_data C psk is_mut_auth k f vdm_finish self =
     calc_transcript_data psk is_mut_auth
       (slot_hash C (base_hash_sel (negotiate_info self)) SPDM_STATUS_INVALID_STATE_LOCAL
          SPDM_PUB_KEY_SLOT_ID_KEY_EXCHANGE (local_used_cert_chain_slot_id (runtime_info self))
          (my_pub_key (provision_info self)) (my_cert_chain (provision_info self)))
       (slot_hash C (base_hash_sel (negotiate_info self)) SPDM_STATUS_INVALID_PARAMETER
          SPDM_PUB_KEY_SLOT_ID_KEY_EXCHANGE_RSP (peer_used_cert_chain_slot_id (runtime_info self))
          (peer_pub_key (provision_info self)) (peer_cert_chain (peer_info self)))
       k f vdm_finish self"

definition calc_req_transcript_hash_raw ::
  "'h Crypto \<Rightarrow> bool \<Rightarrow> bool \<Rightarrow> 'h SpdmSession \<Rightarrow> 'h SpdmContext \<Rightarrow> SpdmDigestStruct SpdmResult" where
  "calc_req_transcript_hash_raw C psk is_mut_auth s self =
     bindR (calc_req_transcript_data C psk is_mut_auth (s_message_k (s_runtime_info s))
        (Some (s_message_f (s_runtime_info s))) (vdm_message_transcript_before_finish (s_runtime_info s)) self) (\<lambda>m.
     ok_or (Fail SPDM_STATUS_CRYPTO_ERROR) (hash_all C (base_hash_sel (negotiate_info self)) (ManagedBuffer_as_ref m)))"

definition calc_rsp_transcript_hash_raw ::
  "'h Crypto \<Rightarrow> bool \<Rightarrow> bool \<Rightarrow> 'h SpdmSession \<Rightarrow> 'h SpdmContext \<Rightarrow> SpdmDigestStruct SpdmResult" where
  "calc_rsp_transcript_hash_raw C psk is_mut_auth s self =
     bindR (calc_rsp_transcript_data C psk is_mut_auth (s_message_k (s_runtime_info s))
        (Some (s_message_f (s_runtime_info s))) (vdm_message_transcript_before_finish (s_runtime_info s)) self) (\<lambda>m.
     ok_or (Fail SPDM_STATUS_CRYPTO_ERROR) (hash_all C (base_hash_sel (negotiate_info self)) (ManagedBuffer_as_ref m)))"

subsection \<open>Certificate certs and signatures\<close>

definition certchain_hash ::
  "'h Crypto \<Rightarrow> bool \<Rightarrow> usize \<Rightarrow> SpdmBaseHashAlgo \<Rightarrow> CertChain option list \<Rightarrow> SpdmDigestStruct option SpdmResult" where
  "certchain_hash C psk slot algo certs =
     (if psk then Ok None
      else bindR (slot_at certs slot) (\<lambda>chain.
        Ok (case chain of None \<Rightarrow> None | Some c \<Rightarrow> hash_all C algo (CertChain_as_ref c))))"

definition get_certchain_hash_local ::
  "'h Crypto \<Rightarrow> bool \<Rightarrow> usize \<Rightarrow> 'h SpdmContext \<Rightarrow> SpdmDigestStruct option SpdmResult" where
  "get_certchain_hash_local C psk slot self =
     certchain_hash C psk slot (base_hash_sel (negotiate_info self)) (my_cert_chain (provision_info self))"

definition get_certchain_hash_peer ::
  "'h Crypto \<Rightarrow> bool \<Rightarrow> usize \<Rightarrow> 'h SpdmContext \<Rightarrow> SpdmDigestStruct option SpdmResult" where
  "get_certchain_hash_peer C psk slot self =
     certchain_hash C psk slot (base_hash_sel (negotiate_info self)) (peer_cert_chain (peer_info self))"

text \<open>"dmtf-spdm-v1.x.*" four times, with the digits of the version.\<close>

definition get_signing_prefix_context :: "'h SpdmContext \<Rightarrow> bytes" where
  "get_signing_prefix_context self =
     (let v = SpdmVersion_u8 (spdm_version_sel (negotiate_info self));
          prefix = [0x64, 0x6d, 0x74, 0x66, 0x2d, 0x73, 0x70, 0x64, 0x6d, 0x2d, 0x76,
                    0x30 + (drop_bit 4 v AND 0xF), 0x2e, 0x30 + (v AND 0xF), 0x2e, 0x2a]
      in prefix @ prefix @ prefix @ prefix)"

abbreviation (input) MAX_MANAGED_BUFFER_12SIGN_SIZE :: usize where
  "MAX_MANAGED_BUFFER_12SIGN_SIZE \<equiv> 64 + 36 + SPDM_MAX_HASH_SIZE"

text \<open>The message that is signed: prefix, zero padding, context string and hash.\<close>

definition signing_message ::
  "usize \<Rightarrow> bytes \<Rightarrow> SpdmDigestStruct \<Rightarrow> 'h SpdmContext \<Rightarrow> ManagedBuffer SpdmResult" where
  "signing_message zero_pad sign_context digest self =
     append_all [get_signing_prefix_context self, replicate zero_pad 0, sign_context, Sized_as_ref digest]
       (ManagedBuffer_default MAX_MANAGED_BUFFER_12SIGN_SIZE)"

subsection \<open>Reset by request code\<close>

definition reset_buffer_via_request_code ::
  "SpdmRequestResponseCode \<Rightarrow> u32 option \<Rightarrow> 'h SpdmContext \<Rightarrow> 'h SpdmContext" where
  "reset_buffer_via_request_code opcode sid self =
     (let self = (if opcode \<noteq> SpdmRequestGetMeasurements then reset_message_m sid self else self)
      in if opcode \<in> {SpdmRequestGetMeasurements, SpdmRequestKeyExchange, SpdmRequestFinish,
              SpdmRequestPskExchange, SpdmRequestPskFinish, SpdmRequestKeyUpdate, SpdmRequestHeartbeat,
              SpdmRequestEndSession}
         then if SpdmConnectionState_get_u8 (connection_state (runtime_info self))
                   < SpdmConnectionState_get_u8 SpdmConnectionAuthenticated
              then reset_message_c (reset_message_b self) else self
         else if opcode = SpdmRequestGetDigests then reset_message_b self
         else self)"

subsection \<open>Laws\<close>

text \<open>
  What the code relies on of the streaming hash: a context that was created for an algorithm takes
  every update, and its value is the hash of everything it was fed.
\<close>

definition hash_stream_ok :: "'h Crypto \<Rightarrow> bool" where
  "hash_stream_ok C \<longleftrightarrow> (\<forall>algo h ms. hash_ctx_init C algo = Some h \<longrightarrow>
     fst (hash_updates C ms h) = Ok ()
     \<and> hash_ctx_finalize C (snd (hash_updates C ms h)) = hash_all C algo (concat ms))"

lemma hash_updates_append:
  "fst (hash_updates C ms h) = Ok () \<Longrightarrow> hash_updates C (ms @ ns) h = hash_updates C ns (snd (hash_updates C ms h))"
  by (induction ms arbitrary: h) (auto split: sum.splits)

text \<open>A context that has been fed the bytes \<open>bs\<close>.\<close>

definition fed :: "'h Crypto \<Rightarrow> SpdmBaseHashAlgo \<Rightarrow> bytes \<Rightarrow> 'h \<Rightarrow> bool" where
  "fed C algo bs h \<longleftrightarrow> (\<exists>h0 ms. hash_ctx_init C algo = Some h0 \<and> h = snd (hash_updates C ms h0) \<and> concat ms = bs)"

lemma fed_finalize: "hash_stream_ok C \<Longrightarrow> fed C algo bs h \<Longrightarrow> hash_ctx_finalize C h = hash_all C algo bs"
  by (auto simp: fed_def hash_stream_ok_def)

lemma fed_updates:
  assumes "hash_stream_ok C" "fed C algo bs h"
  shows "fst (hash_updates C ms h) = Ok () \<and> fed C algo (bs @ concat ms) (snd (hash_updates C ms h))"
proof -
  from assms(2) obtain h0 ns where h: "hash_ctx_init C algo = Some h0" "h = snd (hash_updates C ns h0)" "concat ns = bs"
    by (auto simp: fed_def)
  have all: "fst (hash_updates C xs h0) = Ok ()" for xs using assms(1) h(1) by (auto simp: hash_stream_ok_def)
  have "hash_updates C (ns @ ms) h0 = hash_updates C ms h" using hash_updates_append [OF all] h(2) by simp
  then show ?thesis using all [of "ns @ ms"] h by (auto simp: fed_def intro!: exI [of _ "ns @ ms"])
qed

text \<open>Feeding never fails once the algorithm is known, and appends.\<close>

lemma feed_first:
  assumes "hash_stream_ok C" "feed C err algo first msg None = (Ok (), ctx)"
  shows "\<exists>h. ctx = Some h \<and> fed C algo (concat first @ msg) h"
proof -
  obtain h0 where h0: "hash_ctx_init C algo = Some h0" using assms(2) by (auto simp: feed_def split: option.splits)
  then have "fed C algo [] h0" by (auto simp: fed_def intro!: exI [of _ "[]"])
  from fed_updates [OF assms(1) this, of "first @ [msg]"] show ?thesis
    using assms(2) h0 by (auto simp: feed_def Let_def split: prod.splits)
qed

lemma feed_more:
  assumes "hash_stream_ok C" "fed C algo bs h"
  shows "feed C err algo' first msg (Some h) = (Ok (), Some (snd (hash_updates C [msg] h)))"
    and "fed C algo (bs @ msg) (snd (hash_updates C [msg] h))"
  using fed_updates [OF assms, of "[msg]"] by (auto simp: feed_def Let_def split: prod.splits)

text \<open>The transcript of a session as a byte string, in the two variants.\<close>

definition th_hashed :: "'h Crypto \<Rightarrow> u32 \<Rightarrow> SpdmBaseHashAlgo \<Rightarrow> bytes \<Rightarrow> 'h SpdmContext \<Rightarrow> bool" where
  "th_hashed C sid algo bs self \<longleftrightarrow>
     (\<exists>s h. get_session_via_id sid self = Some s \<and> digest_context_th (s_runtime_info s) = Some h \<and> fed C algo bs h
       \<and> (use_psk s \<or> mut_auth_requested s = 0))"

definition th_raw :: "u32 \<Rightarrow> bytes \<Rightarrow> bytes \<Rightarrow> 'h SpdmContext \<Rightarrow> 'h SpdmContext \<Rightarrow> bool" where
  "th_raw sid ks fs self0 self \<longleftrightarrow>
     (\<exists>s. get_session_via_id sid self = Some s
       \<and> ManagedBuffer_ok MAX_MANAGED_BUFFER_K_SIZE (s_message_k (s_runtime_info s))
       \<and> ManagedBuffer_ok MAX_MANAGED_BUFFER_F_SIZE (s_message_f (s_runtime_info s))
       \<and> ManagedBuffer_as_ref (s_message_k (s_runtime_info s)) = ks
       \<and> ManagedBuffer_as_ref (s_message_f (s_runtime_info s)) = fs)
     \<and> negotiate_info self = negotiate_info self0 \<and> runtime_info self = runtime_info self0
     \<and> provision_info self = provision_info self0 \<and> peer_info self = peer_info self0"

text \<open>What goes in front of message K in the hashed variant.\<close>

definition message_k_prefix :: "'h SpdmSession \<Rightarrow> 'h SpdmContext \<Rightarrow> bytes" where
  "message_k_prefix s self = ManagedBuffer_as_ref (s_message_a (s_runtime_info s)) @
     (case vdm_message_transcript_before_key_exchange (runtime_info self) of
        Some vdm \<Rightarrow> ManagedBuffer_as_ref vdm
      | None \<Rightarrow> (case rsp_cert_hash (s_runtime_info s) of Some d \<Rightarrow> Sized_as_ref d | None \<Rightarrow> []))"

lemma append_k_first:
  assumes "hash_stream_ok C" "get_session_via_id sid self = Some s" "digest_context_th (s_runtime_info s) = None"
    and "use_psk s \<or> mut_auth_requested s = 0" "append_message_k C sid msg self = (Ok (), self')"
  shows "th_hashed C sid (base_hash_algo (crypto_param s)) (message_k_prefix s self @ msg) self'"
proof -
  define first where "first = ManagedBuffer_as_ref (s_message_a (s_runtime_info s)) #
     (case vdm_message_transcript_before_key_exchange (runtime_info self) of
        Some vdm \<Rightarrow> [ManagedBuffer_as_ref vdm]
      | None \<Rightarrow> (case rsp_cert_hash (s_runtime_info s) of Some d \<Rightarrow> [Sized_as_ref d] | None \<Rightarrow> []))"
  obtain ctx where ctx: "feed C SPDM_STATUS_CRYPTO_ERROR (base_hash_algo (crypto_param s)) first msg None = (Ok (), ctx)"
    and self': "self' = put_session sid (upd_srt (\<lambda>r. r\<lparr>digest_context_th := ctx\<rparr>) s) self"
    using assms(2,3,5) unfolding append_message_k_def first_def Let_def
    by (auto split: prod.splits)
  have "concat first = message_k_prefix s self"
    by (simp add: first_def message_k_prefix_def split: option.splits)
  with feed_first [OF assms(1) ctx] self' assms(2,4) get_session_id [OF assms(2)] show ?thesis
    by (auto simp: th_hashed_def)
qed

lemma append_k_more:
  assumes "hash_stream_ok C" "th_hashed C sid algo bs self" "append_message_k C sid msg self = (Ok (), self')"
  shows "th_hashed C sid algo (bs @ msg) self'"
proof -
  obtain s h where s: "get_session_via_id sid self = Some s" "digest_context_th (s_runtime_info s) = Some h"
    "fed C algo bs h" "use_psk s \<or> mut_auth_requested s = 0" using assms(2) by (auto simp: th_hashed_def)
  have "session_id s = sid" by (rule get_session_id [OF s(1)])
  with feed_more [OF assms(1) s(3)] assms(3) s show ?thesis
    by (auto simp: append_message_k_def th_hashed_def Let_def simp del: hash_updates.simps)
qed

lemma append_f_more:
  assumes "hash_stream_ok C" "th_hashed C sid algo bs self" "append_message_f C b sid msg self = (Ok (), self')"
  shows "th_hashed C sid algo (bs @ msg) self'"
proof -
  obtain s h where s: "get_session_via_id sid self = Some s" "digest_context_th (s_runtime_info s) = Some h"
    "fed C algo bs h" "use_psk s \<or> mut_auth_requested s = 0" using assms(2) by (auto simp: th_hashed_def)
  have "message_f_prefix C b s self = Ok []" using s(4) by (auto simp: message_f_prefix_def)
  moreover have "session_id s = sid" by (rule get_session_id [OF s(1)])
  ultimately show ?thesis using fed_updates [OF assms(1) s(3), of "[msg]"] assms(3) s
    by (auto simp: append_message_f_def th_hashed_def Let_def split: prod.splits)
qed

lemma append_k_raw:
  assumes "th_raw sid ks fs self0 self" "append_message_k_raw sid msg self = (Ok (), self')"
  shows "th_raw sid (ks @ msg) fs self0 self'"
proof -
  obtain s where s: "get_session_via_id sid self = Some s" using assms(1) by (auto simp: th_raw_def)
  moreover have "session_id s = sid" by (rule get_session_id [OF s])
  ultimately show ?thesis using assms
    by (auto simp: th_raw_def append_message_k_raw_def ManagedBuffer_append_Some split: option.splits)
qed

lemma append_f_raw:
  assumes "th_raw sid ks fs self0 self" "append_message_f_raw sid msg self = (Ok (), self')"
  shows "th_raw sid ks (fs @ msg) self0 self'"
proof -
  obtain s where s: "get_session_via_id sid self = Some s" using assms(1) by (auto simp: th_raw_def)
  moreover have "session_id s = sid" by (rule get_session_id [OF s])
  ultimately show ?thesis using assms
    by (auto simp: th_raw_def append_message_f_raw_def ManagedBuffer_append_Some split: option.splits)
qed

text \<open>Sequences of appends.\<close>

lemma run_steps_inv:
  assumes "\<And>m bs s s'. P bs s \<Longrightarrow> f m s = (Ok (), s') \<Longrightarrow> P (bs @ m) s'"
    and "P bs s" "run_steps (map f ms) s = (Ok (), s')"
  shows "P (bs @ concat ms) s'"
  using assms(2,3)
proof (induction ms arbitrary: bs s)
  case (Cons m ms)
  obtain s1 where "f m s = (Ok (), s1)" "run_steps (map f ms) s1 = (Ok (), s')"
    using Cons.prems(2) by (auto split: prod.splits sum.splits)
  with Cons.IH [OF assms(1) [OF Cons.prems(1)]] show ?case by simp
qed simp

lemma run_steps_append:
  "run_steps (xs @ ys) s = (Ok (), s') \<longleftrightarrow> (\<exists>t. run_steps xs s = (Ok (), t) \<and> run_steps ys t = (Ok (), s'))"
  by (induction xs arbitrary: s) (auto split: prod.splits sum.splits)

lemma append_all_Ok:
  "append_all bss m = Ok m' \<Longrightarrow> ManagedBuffer_ok n m \<Longrightarrow>
     ManagedBuffer_ok n m' \<and> ManagedBuffer_as_ref m' = ManagedBuffer_as_ref m @ concat bss"
  by (induction bss m arbitrary: m' rule: append_all.induct)
    (fastforce simp: bindR_eq_Inr dest: ManagedBuffer_append_Some)+

lemma append_all_fits:
  assumes "ManagedBuffer_ok n m" "length (ManagedBuffer_as_ref m) + length (concat bss) \<le> n"
  shows "\<exists>m'. append_all bss m = Ok m' \<and> ManagedBuffer_as_ref m' = ManagedBuffer_as_ref m @ concat bss"
  using assms
proof (induction bss arbitrary: m)
  case (Cons bs bss)
  then obtain m1 where m1: "ManagedBuffer_append_message bs m = Some (length bs, m1)" "ManagedBuffer_ok n m1"
    "ManagedBuffer_as_ref m1 = ManagedBuffer_as_ref m @ bs"
    using ManagedBuffer_append_fits [of n m bs] by auto
  then show ?case using Cons.IH [of m1] Cons.prems by auto
qed simp

lemma append_all_append: "append_all (xs @ ys) m = bindR (append_all xs m) (append_all ys)"
proof (induction xs arbitrary: m)
  case (Cons x xs)
  then show ?case by (cases "ManagedBuffer_append_message x m") auto
qed simp

lemma calc_transcript_data_Ok:
  assumes "calc_transcript_data psk False rsp req k (Some f) vdm self = Ok m"
  shows "ManagedBuffer_as_ref m = ManagedBuffer_as_ref (message_a (runtime_info self)) @
     (if psk then []
      else case vdm_message_transcript_before_key_exchange (runtime_info self) of
             Some v \<Rightarrow> ManagedBuffer_as_ref v | None \<Rightarrow> Sized_as_ref (projr rsp)) @
     ManagedBuffer_as_ref k @ ManagedBuffer_as_ref f"
proof -
  let ?mid = "if psk then []
      else case vdm_message_transcript_before_key_exchange (runtime_info self) of
             Some v \<Rightarrow> [ManagedBuffer_as_ref v] | None \<Rightarrow> [Sized_as_ref (projr rsp)]"
  have "append_all ([ManagedBuffer_as_ref (message_a (runtime_info self))] @ ?mid @ [ManagedBuffer_as_ref k] @
      [ManagedBuffer_as_ref f]) (ManagedBuffer_default MAX_MANAGED_BUFFER_TH_SIZE) = Ok m"
    using assms unfolding calc_transcript_data_def append_all_append
    by (cases psk; cases "vdm_message_transcript_before_key_exchange (runtime_info self)")
      (auto simp: bindR_eq_Inr simp del: append_all.simps(2))
  from append_all_Ok [OF this ManagedBuffer_default_ok] show ?thesis by (simp split: option.splits)
qed

text \<open>The hash that each variant computes is the hash of the byte string.\<close>

lemma calc_rsp_transcript_hash_fed:
  assumes "hash_stream_ok C" "th_hashed C sid algo bs self" "get_session_via_id sid self = Some s"
  shows "calc_rsp_transcript_hash C s = ok_or (Fail SPDM_STATUS_CRYPTO_ERROR) (hash_all C algo bs)"
  using assms by (auto simp: th_hashed_def calc_rsp_transcript_hash_def fed_finalize)

lemma calc_rsp_transcript_hash_raw_fed:
  assumes "th_raw sid ks fs self0 self" "get_session_via_id sid self = Some s"
    and "calc_rsp_transcript_hash_raw C psk False s self = Ok d"
    and rsp: "\<not> psk \<Longrightarrow> vdm_message_transcript_before_key_exchange (runtime_info self0) = None \<Longrightarrow>
       slot_hash C (base_hash_sel (negotiate_info self0)) SPDM_STATUS_INVALID_STATE_LOCAL
          SPDM_PUB_KEY_SLOT_ID_KEY_EXCHANGE (local_used_cert_chain_slot_id (runtime_info self0))
          (my_pub_key (provision_info self0)) (my_cert_chain (provision_info self0)) = Ok cert_hash"
  shows "hash_all C (base_hash_sel (negotiate_info self0)) (ManagedBuffer_as_ref (message_a (runtime_info self0)) @
     (if psk then []
      else case vdm_message_transcript_before_key_exchange (runtime_info self0) of
             Some v \<Rightarrow> ManagedBuffer_as_ref v | None \<Rightarrow> Sized_as_ref cert_hash) @ ks @ fs) = Some d"
proof -
  have s: "ManagedBuffer_as_ref (s_message_k (s_runtime_info s)) = ks"
    "ManagedBuffer_as_ref (s_message_f (s_runtime_info s)) = fs"
    "negotiate_info self = negotiate_info self0" "runtime_info self = runtime_info self0"
    "provision_info self = provision_info self0"
    using assms(1,2) by (auto simp: th_raw_def)
  from assms(3) obtain m where
    m: "calc_rsp_transcript_data C psk False (s_message_k (s_runtime_info s)) (Some (s_message_f (s_runtime_info s)))
          (vdm_message_transcript_before_finish (s_runtime_info s)) self = Ok m"
    and d: "hash_all C (base_hash_sel (negotiate_info self)) (ManagedBuffer_as_ref m) = Some d"
    by (auto simp: calc_rsp_transcript_hash_raw_def bindR_eq_Inr)
  from calc_transcript_data_Ok [OF m [unfolded calc_rsp_transcript_data_def]] d show ?thesis
    using rsp by (auto simp: s split: if_splits option.splits)
qed

text \<open>A run of message K and then message F, from a new session.\<close>

lemma hashed_run:
  assumes "hash_stream_ok C" "get_session_via_id sid self = Some s" "digest_context_th (s_runtime_info s) = None"
    and "use_psk s \<or> mut_auth_requested s = 0"
    and "run_steps (map (append_message_k C sid) (k # ks) @ map (append_message_f C b sid) fs) self = (Ok (), h)"
  shows "th_hashed C sid (base_hash_algo (crypto_param s)) (message_k_prefix s self @ concat (k # ks) @ concat fs) h"
proof -
  obtain h1 h2 where run: "append_message_k C sid k self = (Ok (), h1)"
    "run_steps (map (append_message_k C sid) ks) h1 = (Ok (), h2)"
    "run_steps (map (append_message_f C b sid) fs) h2 = (Ok (), h)"
    using assms(5) by (auto simp: run_steps_append split: prod.splits sum.splits)
  note th = append_k_first [OF assms(1-4) run(1)]
  from run_steps_inv [where P = "th_hashed C sid (base_hash_algo (crypto_param s))" and f = "append_message_k C sid",
      OF append_k_more [OF assms(1)] th run(2)]
  have "th_hashed C sid (base_hash_algo (crypto_param s)) ((message_k_prefix s self @ k) @ concat ks) h2" .
  from run_steps_inv [where P = "th_hashed C sid (base_hash_algo (crypto_param s))" and f = "append_message_f C b sid",
      OF append_f_more [OF assms(1)] this run(3)] show ?thesis by simp
qed

lemma raw_run:
  assumes "get_session_via_id sid self = Some s"
    and "s_message_k (s_runtime_info s) = ManagedBuffer_default MAX_MANAGED_BUFFER_K_SIZE"
      "s_message_f (s_runtime_info s) = ManagedBuffer_default MAX_MANAGED_BUFFER_F_SIZE"
    and "run_steps (map (append_message_k_raw sid) ks @ map (append_message_f_raw sid) fs) self = (Ok (), r)"
  shows "th_raw sid (concat ks) (concat fs) self r"
proof -
  have "th_raw sid [] [] self self" using assms(1-3) by (auto simp: th_raw_def)
  moreover obtain r1 where run: "run_steps (map (append_message_k_raw sid) ks) self = (Ok (), r1)"
    "run_steps (map (append_message_f_raw sid) fs) r1 = (Ok (), r)"
    using assms(4) by (auto simp: run_steps_append)
  ultimately have "th_raw sid ([] @ concat ks) [] self r1"
    by (intro run_steps_inv [where P = "\<lambda>bs. th_raw sid bs [] self" and f = "append_message_k_raw sid"])
      (auto intro: append_k_raw)
  then have "th_raw sid (concat ks) ([] @ concat fs) self r" using run(2)
    by (intro run_steps_inv [where P = "\<lambda>bs. th_raw sid (concat ks) bs self" and f = "append_message_f_raw sid"])
      (auto intro: append_f_raw)
  then show ?thesis by simp
qed

end
