(* ===== verification/Payload.thy ===== *)
theory Payload
  imports Transcript
begin

text \<open>
  The trait \<open>SpdmCodec\<close> of \<open>spdmlib/src/common/spdm_codec.rs\<close>: codecs that depend on what the
  connection has negotiated. An encoder returns a status, or panics; a reader returns an option, or
  panics, because the size of a digest or a signature is only known once an algorithm was selected.

  The locale \<open>spdm_codec\<close> is the contract of such a pair, as \<open>codec\<close> is of a plain one.
\<close>

type_synonym 'a spdm_decoder = "Reader \<Rightarrow> ('a \<times> Reader) popt"

text \<open>\<open>x.encode(bytes).map_err(|_| SPDM_STATUS_BUFFER_FULL)?\<close>.\<close>

definition full :: "encode_err encoder \<Rightarrow> fault encoder" where
  "full e w = map_err (encode_fault SPDM_STATUS_BUFFER_FULL) (e w)"

text \<open>An encoder that reports \<open>n\<close> whatever it has written, and an assertion in an encoder.\<close>

definition counting :: "usize \<Rightarrow> 'e encoder \<Rightarrow> 'e encoder" where
  "counting n e w = bindR (e w) (\<lambda>(_, w). Inr (n, w))"

definition asserting :: "bool \<Rightarrow> fault encoder \<Rightarrow> fault encoder" where
  "asserting b e w = (if b then e w else panic)"

text \<open>A byte string with its size: what is written are the bytes; the size is known when reading.\<close>

definition sized_spdm_encode :: "Sized \<Rightarrow> fault encoder" where
  "sized_spdm_encode d = counting (unat (data_size d)) (full (array_encode u8_encode (Sized_as_ref d)))"

definition sized_spdm_read :: "usize \<Rightarrow> u16 SpdmResult \<Rightarrow> Sized spdm_decoder" where
  "sized_spdm_read n sel r =
     bindR (or_panic sel) (\<lambda>sz.
     bindR (or_none (array_read u8_read (min (unat sz) n) r)) (\<lambda>(bs, r).
     Inr (\<lparr>data_size = sz, data = copy_at 0 bs (replicate n 0)\<rparr>, r)))"

definition SpdmDigestStruct_spdm_encode :: "'h SpdmContext \<Rightarrow> SpdmDigestStruct \<Rightarrow> fault encoder" where
  "SpdmDigestStruct_spdm_encode ctx self =
     asserting (get_hash_size ctx = Ok (data_size self)) (sized_spdm_encode self)"

definition SpdmDigestStruct_spdm_read :: "'h SpdmContext \<Rightarrow> SpdmDigestStruct spdm_decoder" where
  "SpdmDigestStruct_spdm_read ctx = sized_spdm_read SPDM_MAX_HASH_SIZE (get_hash_size ctx)"

definition SpdmSignatureStruct_spdm_encode :: "'h SpdmContext \<Rightarrow> SpdmSignatureStruct \<Rightarrow> fault encoder" where
  "SpdmSignatureStruct_spdm_encode ctx self =
     asserting (get_asym_sig_size ctx = Ok (data_size self)) (sized_spdm_encode self)"

definition SpdmSignatureStruct_spdm_read :: "'h SpdmContext \<Rightarrow> SpdmSignatureStruct spdm_decoder" where
  "SpdmSignatureStruct_spdm_read ctx = sized_spdm_read SPDM_MAX_ASYM_SIG_SIZE (get_asym_sig_size ctx)"

definition SpdmReqExchangeStruct_spdm_encode :: "'h SpdmContext \<Rightarrow> Sized \<Rightarrow> fault encoder" where
  "SpdmReqExchangeStruct_spdm_encode ctx self = sized_spdm_encode self"

definition SpdmReqExchangeStruct_spdm_read :: "'h SpdmContext \<Rightarrow> Sized spdm_decoder" where
  "SpdmReqExchangeStruct_spdm_read ctx =
     sized_spdm_read SPDM_MAX_REQ_KEY_EXCHANGE_SIZE (get_req_key_exchange_size ctx)"

definition SpdmRspExchangeStruct_spdm_encode :: "'h SpdmContext \<Rightarrow> Sized \<Rightarrow> fault encoder" where
  "SpdmRspExchangeStruct_spdm_encode ctx self = sized_spdm_encode self"

definition SpdmRspExchangeStruct_spdm_read :: "'h SpdmContext \<Rightarrow> Sized spdm_decoder" where
  "SpdmRspExchangeStruct_spdm_read ctx =
     sized_spdm_read SPDM_MAX_RSP_KEY_EXCHANGE_SIZE (get_rsp_key_exchange_size ctx)"

subsection \<open>Laws\<close>

text \<open>\<open>sreads rd bs x\<close>: wherever \<open>bs\<close> comes next, \<open>rd\<close> returns \<open>x\<close> and has consumed \<open>bs\<close>.\<close>

definition sreads :: "'a spdm_decoder \<Rightarrow> bytes \<Rightarrow> 'a \<Rightarrow> bool" where
  "sreads rd bs x \<longleftrightarrow> (\<forall>pre post. rd (rdr pre (bs @ post)) = Inr (x, rdr (pre @ bs) post))"

lemma sreadsD: "sreads rd bs x \<Longrightarrow> rd (rdr pre (bs @ post)) = Inr (x, rdr (pre @ bs) post)"
  by (simp add: sreads_def)

lemma sreads_lift: "reads rd bs x \<Longrightarrow> sreads (\<lambda>r. or_none (rd r)) bs x"
  by (simp add: sreads_def readsD)

abbreviation (input) swrites :: "fault encoder \<Rightarrow> bytes \<Rightarrow> bool" where
  "swrites \<equiv> writes (Fail SPDM_STATUS_BUFFER_FULL)"

lemma writes_full: "writes EncodeErr e bs \<Longrightarrow> swrites (full e) bs"
  using writes_map_err [of EncodeErr e bs "encode_fault SPDM_STATUS_BUFFER_FULL"]
  by (simp add: full_def [abs_def])

lemma writes_counting: "writes err e bs \<Longrightarrow> n = length bs \<Longrightarrow> writes err (counting n e) bs"
  by (auto simp: writes_def counting_def)

lemma writes_asserting: "b \<Longrightarrow> swrites e bs \<Longrightarrow> swrites (asserting b e) bs"
  by (simp add: asserting_def [abs_def])

lemma writes_if:
  "(b \<Longrightarrow> writes err e bs) \<Longrightarrow> (\<not> b \<Longrightarrow> writes err e' bs') \<Longrightarrow>
     writes err (if b then e else e') (if b then bs else bs')"
  by simp

lemma writes_nothing: "writes err (\<lambda>w. Inr (0, w)) []"
  by (simp add: writes_def)

text \<open>
  A value survives a connection: it is encoded in some number of bytes, refused with
  \<open>SPDM_STATUS_BUFFER_FULL\<close> where the buffer is shorter, and read back where it was written.
\<close>

definition spdm_survives :: "('a \<Rightarrow> fault encoder) \<Rightarrow> 'a spdm_decoder \<Rightarrow> 'a \<Rightarrow> bool" where
  "spdm_survives enc rd x \<longleftrightarrow> (\<exists>n. \<forall>buf.
     if length buf < n then enc x (Writer_init buf) = Err SPDM_STATUS_BUFFER_FULL
     else \<exists>w. enc x (Writer_init buf) = Inr (n, w) \<and> length (wr_buf w) = length buf
       \<and> Writer_used_slice w = take n (wr_buf w)
       \<and> (\<forall>rest. rd (Reader_init (take n (wr_buf w) @ rest)) = Inr (x, rdr (take n (wr_buf w)) rest)))"

locale spdm_codec =
  fixes encode :: "'a \<Rightarrow> fault encoder"
    and read :: "'a spdm_decoder"
    and image :: "'a \<Rightarrow> bytes"
    and valid :: "'a \<Rightarrow> bool"
  assumes encode_writes: "valid x \<Longrightarrow> writes (Fail SPDM_STATUS_BUFFER_FULL) (encode x) (image x)"
    and read_reads: "valid x \<Longrightarrow> sreads read (image x) x"
begin

lemma read_image: "valid x \<Longrightarrow> read (rdr pre (image x @ post)) = Inr (x, rdr (pre @ image x) post)"
  by (rule sreadsD [OF read_reads])

lemma survives: "valid x \<Longrightarrow> spdm_survives encode read x"
  unfolding spdm_survives_def
proof (rule exI [of _ "length (image x)"], rule allI)
  fix buf assume x: "valid x"
  let ?w = "Writer_append (image x) (Writer_init buf)"
  have enc: "encode x (Writer_init buf) = (if length buf < length (image x) then Err SPDM_STATUS_BUFFER_FULL
      else Inr (length (image x), ?w))"
    using writesD [OF encode_writes [OF x] writer_ok_init, of buf] by simp
  show "if length buf < length (image x) then encode x (Writer_init buf) = Err SPDM_STATUS_BUFFER_FULL
     else \<exists>w. encode x (Writer_init buf) = Inr (length (image x), w) \<and> length (wr_buf w) = length buf
       \<and> Writer_used_slice w = take (length (image x)) (wr_buf w)
       \<and> (\<forall>rest. read (Reader_init (take (length (image x)) (wr_buf w) @ rest))
            = Inr (x, rdr (take (length (image x)) (wr_buf w)) rest))"
  proof (cases "length buf < length (image x)")
    case False
    then have w: "wr_buf ?w = image x @ drop (length (image x)) buf" "Writer_used_slice ?w = image x"
      by (simp_all add: Writer_append_init copy_at_def Writer_used_slice_def)
    have "read (Reader_init (image x @ rest)) = Inr (x, rdr (image x) rest)" for rest
      using read_image [OF x, of "[]" rest] by (simp add: Reader_init_rdr)
    then show ?thesis unfolding if_not_P [OF False] using enc w False
      by (intro exI [of _ ?w] conjI allI) simp_all
  qed (use enc in simp)
qed

text \<open>No two values start with the bytes of each other.\<close>

lemma image_prefix_free: "valid x \<Longrightarrow> valid y \<Longrightarrow> image x @ a = image y @ b \<Longrightarrow> x = y \<and> a = b"
  by (metis Pair_inject append_Nil rdr_eq_iff read_image sum.inject(2))

end

lemma spdm_codec_lift:
  assumes "codec EncodeErr enc rd img val"
  shows "spdm_codec (\<lambda>x. full (enc x)) (\<lambda>r. or_none (rd r)) img val"
  using codec.encode_writes [OF assms] codec.read_reads [OF assms]
  by unfold_locales (auto intro: writes_full sreads_lift)

text \<open>A byte string of a negotiated size.\<close>

definition sized_valid :: "usize \<Rightarrow> u16 SpdmResult \<Rightarrow> Sized \<Rightarrow> bool" where
  "sized_valid n sel d \<longleftrightarrow> Sized_canonical n d \<and> sel = Ok (data_size d)"

lemma writes_sized: "Sized_ok n d \<Longrightarrow> swrites (sized_spdm_encode d) (Sized_as_ref d)"
  unfolding sized_spdm_encode_def by (intro writes_counting writes_full writes_bytes) simp

lemma sreads_sized: "sized_valid n sel d \<Longrightarrow> sreads (sized_spdm_read n sel) (Sized_as_ref d) d"
proof -
  assume d: "sized_valid n sel d"
  then have ok: "Sized_ok n d" "Sized_canonical n d" by (simp_all add: sized_valid_def Sized_canonical_def)
  then have len: "length (Sized_as_ref d) = min (unat (data_size d)) n"
    using length_Sized_as_ref [OF ok(1)] ok(1) by (simp add: Sized_ok_def)
  have "copy_at 0 (Sized_as_ref d) (replicate n 0) = data d"
    using ok(1) Sized_canonical_data [OF ok(2)] by (simp add: copy_at_def)
  then show ?thesis using d
    by (simp add: sreads_def sized_spdm_read_def sized_valid_def array_read_u8 [OF len])
qed

lemma sized_spdm_codec:
  assumes "\<And>d. sized_valid n sel d \<Longrightarrow> enc d = sized_spdm_encode d"
  shows "spdm_codec enc (sized_spdm_read n sel) Sized_as_ref (sized_valid n sel)"
proof unfold_locales
  fix d assume d: "sized_valid n sel d"
  show "swrites (enc d) (Sized_as_ref d)"
    unfolding assms [OF d] by (rule writes_sized [of n]) (use d in \<open>simp add: sized_valid_def Sized_canonical_def\<close>)
qed (rule sreads_sized)

interpretation digest: spdm_codec "SpdmDigestStruct_spdm_encode ctx" "SpdmDigestStruct_spdm_read ctx"
  Sized_as_ref "sized_valid SPDM_MAX_HASH_SIZE (get_hash_size ctx)" for ctx
  unfolding SpdmDigestStruct_spdm_read_def
  by (rule sized_spdm_codec) (auto simp: SpdmDigestStruct_spdm_encode_def asserting_def [abs_def] sized_valid_def)

interpretation signature: spdm_codec "SpdmSignatureStruct_spdm_encode ctx" "SpdmSignatureStruct_spdm_read ctx"
  Sized_as_ref "sized_valid SPDM_MAX_ASYM_SIG_SIZE (get_asym_sig_size ctx)" for ctx
  unfolding SpdmSignatureStruct_spdm_read_def
  by (rule sized_spdm_codec) (auto simp: SpdmSignatureStruct_spdm_encode_def asserting_def [abs_def] sized_valid_def)

interpretation req_exchange: spdm_codec "SpdmReqExchangeStruct_spdm_encode ctx" "SpdmReqExchangeStruct_spdm_read ctx"
  Sized_as_ref "sized_valid SPDM_MAX_REQ_KEY_EXCHANGE_SIZE (get_req_key_exchange_size ctx)" for ctx
  unfolding SpdmReqExchangeStruct_spdm_read_def
  by (rule sized_spdm_codec) (auto simp: SpdmReqExchangeStruct_spdm_encode_def)

interpretation rsp_exchange: spdm_codec "SpdmRspExchangeStruct_spdm_encode ctx" "SpdmRspExchangeStruct_spdm_read ctx"
  Sized_as_ref "sized_valid SPDM_MAX_RSP_KEY_EXCHANGE_SIZE (get_rsp_key_exchange_size ctx)" for ctx
  unfolding SpdmRspExchangeStruct_spdm_read_def
  by (rule sized_spdm_codec) (auto simp: SpdmRspExchangeStruct_spdm_encode_def)

end
