(* ===== verification/Opaque.thy ===== *)
theory Opaque
  imports Payload
begin

text \<open>
  Opaque data of \<open>spdmlib/src/common/opaque.rs\<close>: the headers of an opaque data list, the selection
  and the list of secured message versions that key exchange carries, and the opaque field itself.
\<close>

abbreviation (input) DMTF_SPEC_ID :: u32 where "DMTF_SPEC_ID \<equiv> 0x444D5446"
abbreviation (input) DMTF_OPAQUE_VERSION :: u8 where "DMTF_OPAQUE_VERSION \<equiv> 0x01"
abbreviation (input) SM_DATA_VERSION :: u8 where "SM_DATA_VERSION \<equiv> 0x01"
abbreviation (input) DMTF_ID :: u8 where "DMTF_ID \<equiv> 0x00"
abbreviation (input) DMTF_VENDOR_LEN :: u8 where "DMTF_VENDOR_LEN \<equiv> 0x00"
abbreviation (input) OPAQUE_LIST_TOTAL_ELEMENTS :: u8 where "OPAQUE_LIST_TOTAL_ELEMENTS \<equiv> 0x01"

subsection \<open>Headers\<close>

definition GeneralOpaqueDataHeader_encode :: "encode_err encoder" where
  "GeneralOpaqueDataHeader_encode =
     enc_seq [u32_encode DMTF_SPEC_ID, u8_encode DMTF_OPAQUE_VERSION, u8_encode OPAQUE_LIST_TOTAL_ELEMENTS,
              u16_encode 0]"

definition GeneralOpaqueDataHeader_read :: "unit decoder" where
  "GeneralOpaqueDataHeader_read r = do {
     (spec_id, r) \<leftarrow> u32_read r;
     (opaque_version, r) \<leftarrow> u8_read r;
     (opaque_list_total_elements, r) \<leftarrow> u8_read r;
     (_, r) \<leftarrow> u16_read r;
     if spec_id \<noteq> DMTF_SPEC_ID \<or> opaque_version \<noteq> DMTF_OPAQUE_VERSION \<or> opaque_list_total_elements = 0
     then None else Some ((), r) }"

definition FM1OpaqueDataHeader_encode :: "encode_err encoder" where
  "FM1OpaqueDataHeader_encode = enc_seq [u8_encode OPAQUE_LIST_TOTAL_ELEMENTS, u24_encode 0]"

definition FM1OpaqueDataHeader_read :: "unit decoder" where
  "FM1OpaqueDataHeader_read r = do {
     (opaque_list_total_elements, r) \<leftarrow> u8_read r;
     (_, r) \<leftarrow> u24_read r;
     if opaque_list_total_elements = 0 then None else Some ((), r) }"

datatype SMDataId = VersionSelectionSmDataId | SupportedVersionList

fun SMDataId_u8 :: "SMDataId \<Rightarrow> u8" where
  "SMDataId_u8 VersionSelectionSmDataId = 0"
| "SMDataId_u8 SupportedVersionList = 1"

definition SMDataId_try_from :: "u8 \<Rightarrow> SMDataId option" where
  "SMDataId_try_from untrusted =
     (if untrusted = 0 then Some VersionSelectionSmDataId
      else if untrusted = 1 then Some SupportedVersionList
      else None)"

text \<open>\<open>TryFrom<u8> for SecuredMessageVersion\<close>, which never fails.\<close>

definition SecuredMessageVersion_try_from :: "u8 \<Rightarrow> SecuredMessageVersion" where
  "SecuredMessageVersion_try_from untrusted_smv =
     \<lparr>major_version = drop_bit 4 untrusted_smv, minor_version = untrusted_smv AND 0x0F,
      update_version_number = 0, alpha = 0\<rparr>"

subsection \<open>Lists of versions\<close>

record SecuredMessageVersionList =
  version_count :: u8
  versions_list :: "SecuredMessageVersion list"

definition SecuredMessageVersionList_encode :: "SecuredMessageVersionList \<Rightarrow> encode_err encoder" where
  "SecuredMessageVersionList_encode self =
     enc_seq [u8_encode (version_count self),
              array_encode SecuredMessageVersion_encode (take (unat (version_count self)) (versions_list self)),
              (\<lambda>w. if length (versions_list self) < unat (version_count self) then Inl EncodePanic else Inr (0, w))]"

definition SecuredMessageVersionList_read :: "SecuredMessageVersionList decoder" where
  "SecuredMessageVersionList_read r = do {
     (version_count, r) \<leftarrow> u8_read r;
     if MAX_SECURE_SPDM_VERSION_COUNT < unat version_count then None
     else do {
       (vs, r) \<leftarrow> array_read SecuredMessageVersion_read (unat version_count) r;
       Some (\<lparr>version_count = version_count,
              versions_list = copy_at 0 vs (replicate MAX_SECURE_SPDM_VERSION_COUNT SecuredMessageVersion_default)\<rparr>, r) } }"

definition SMVersionSelOpaque_encode :: "SecuredMessageVersion \<Rightarrow> encode_err encoder" where
  "SMVersionSelOpaque_encode secured_message_version =
     enc_seq [u8_encode DMTF_ID, u8_encode DMTF_VENDOR_LEN, u16_encode 4, u8_encode SM_DATA_VERSION,
              u8_encode (SMDataId_u8 VersionSelectionSmDataId),
              SecuredMessageVersion_encode secured_message_version]"

definition SMVersionSelOpaque_read :: "SecuredMessageVersion decoder" where
  "SMVersionSelOpaque_read r = do {
     (dmtf_id, r) \<leftarrow> u8_read r;
     (dmtf_vendor_len, r) \<leftarrow> u8_read r;
     (opaque_element_data_len, r) \<leftarrow> u16_read r;
     (sm_data_version, r) \<leftarrow> u8_read r;
     (sm_data_id, r) \<leftarrow> u8_read r;
     sm_data_id \<leftarrow> SMDataId_try_from sm_data_id;
     (secured_message_version, r) \<leftarrow> SecuredMessageVersion_read r;
     if dmtf_id \<noteq> DMTF_ID \<or> dmtf_vendor_len \<noteq> DMTF_VENDOR_LEN \<or> opaque_element_data_len \<noteq> 4
       \<or> sm_data_version \<noteq> SM_DATA_VERSION \<or> sm_data_id \<noteq> VersionSelectionSmDataId
     then None else Some (secured_message_version, r) }"

definition SMSupportedVerListOpaque_encode :: "SecuredMessageVersionList \<Rightarrow> encode_err encoder" where
  "SMSupportedVerListOpaque_encode self w =
     bindR (enc_seq [u8_encode DMTF_ID, u8_encode DMTF_VENDOR_LEN,
                     u16_encode (3 + 2 * ucast (version_count self)), u8_encode SM_DATA_VERSION,
                     u8_encode (SMDataId_u8 SupportedVersionList),
                     SecuredMessageVersionList_encode self] w) (\<lambda>(cnt, w).
     bindR (if cnt mod 4 \<noteq> 0 then array_encode u8_encode (replicate (4 - cnt mod 4) 0) w else Inr (0, w)) (\<lambda>(n, w).
     Inr (cnt + n, w)))"

definition SMSupportedVerListOpaque_read :: "SecuredMessageVersionList decoder" where
  "SMSupportedVerListOpaque_read r = do {
     (dmtf_id, r) \<leftarrow> u8_read r;
     (dmtf_vendor_len, r) \<leftarrow> u8_read r;
     (opaque_element_data_len, r) \<leftarrow> u16_read r;
     (sm_data_version, r) \<leftarrow> u8_read r;
     (sm_data_id, r) \<leftarrow> u8_read r;
     sm_data_id \<leftarrow> SMDataId_try_from sm_data_id;
     (secured_message_version_list, r) \<leftarrow> SecuredMessageVersionList_read r;
     if dmtf_id \<noteq> DMTF_ID \<or> dmtf_vendor_len \<noteq> DMTF_VENDOR_LEN
       \<or> opaque_element_data_len \<noteq> 3 + 2 * ucast (version_count secured_message_version_list)
       \<or> sm_data_version \<noteq> SM_DATA_VERSION \<or> sm_data_id \<noteq> SupportedVersionList
     then None
     else do {
       let cnt = 7 + 2 * unat (version_count secured_message_version_list);
       (_, r) \<leftarrow> (if cnt mod 4 \<noteq> 0 then array_read u8_read (4 - cnt mod 4) r else Some ([], r));
       Some (secured_message_version_list, r) } }"

text \<open>The header of the list in front, by version and negotiated format.\<close>

definition opaque_header_encode :: "'h SpdmContext \<Rightarrow> fault encoder" where
  "opaque_header_encode ctx w =
     (if SpdmVersion12 \<le> spdm_version_sel (negotiate_info ctx)
      then if contains (other_params_support (negotiate_info ctx)) SpdmAlgoOtherParams_OPAQUE_DATA_FMT1
           then full FM1OpaqueDataHeader_encode w
           else Err SPDM_STATUS_UNSUPPORTED_CAP
      else full GeneralOpaqueDataHeader_encode w)"

definition opaque_header_read :: "'h SpdmContext \<Rightarrow> unit decoder" where
  "opaque_header_read ctx r =
     (if SpdmVersion12 \<le> spdm_version_sel (negotiate_info ctx)
      then if contains (other_params_support (negotiate_info ctx)) SpdmAlgoOtherParams_OPAQUE_DATA_FMT1
           then FM1OpaqueDataHeader_read r
           else None
      else GeneralOpaqueDataHeader_read r)"

definition SMVersionSelOpaque_spdm_encode :: "'h SpdmContext \<Rightarrow> SecuredMessageVersion \<Rightarrow> fault encoder" where
  "SMVersionSelOpaque_spdm_encode ctx self =
     enc_seq [opaque_header_encode ctx, full (SMVersionSelOpaque_encode self)]"

definition SMVersionSelOpaque_spdm_read :: "'h SpdmContext \<Rightarrow> SecuredMessageVersion decoder" where
  "SMVersionSelOpaque_spdm_read ctx r = do { (_, r) \<leftarrow> opaque_header_read ctx r; SMVersionSelOpaque_read r }"

definition SMSupportedVerListOpaque_spdm_encode :: "'h SpdmContext \<Rightarrow> SecuredMessageVersionList \<Rightarrow> fault encoder" where
  "SMSupportedVerListOpaque_spdm_encode ctx self =
     enc_seq [opaque_header_encode ctx, full (SMSupportedVerListOpaque_encode self)]"

definition SMSupportedVerListOpaque_spdm_read :: "'h SpdmContext \<Rightarrow> SecuredMessageVersionList decoder" where
  "SMSupportedVerListOpaque_spdm_read ctx r = do { (_, r) \<leftarrow> opaque_header_read ctx r; SMSupportedVerListOpaque_read r }"

subsection \<open>The opaque field\<close>

type_synonym SpdmOpaqueStruct = Sized

definition SpdmOpaqueStruct_default :: SpdmOpaqueStruct where
  "SpdmOpaqueStruct_default = Sized_default MAX_SPDM_OPAQUE_SIZE"

definition SpdmOpaqueStruct_spdm_encode :: "SpdmOpaqueStruct \<Rightarrow> fault encoder" where
  "SpdmOpaqueStruct_spdm_encode self =
     enc_seq [full (u16_encode (data_size self)), full (array_encode u8_encode (Sized_as_ref self))]"

definition SpdmOpaqueStruct_spdm_read :: "SpdmOpaqueStruct decoder" where
  "SpdmOpaqueStruct_spdm_read r = do {
     (sz, r) \<leftarrow> u16_read r;
     if sz > of_nat MAX_SPDM_OPAQUE_SIZE then None
     else do {
       (bs, r) \<leftarrow> array_read u8_read (min (unat sz) MAX_SPDM_OPAQUE_SIZE) r;
       Some (\<lparr>data_size = sz, data = copy_at 0 bs (replicate MAX_SPDM_OPAQUE_SIZE 0)\<rparr>, r) } }"

definition from_sm_version_sel_opaque ::
  "'h SpdmContext \<Rightarrow> SecuredMessageVersion \<Rightarrow> SpdmOpaqueStruct SpdmResult" where
  "from_sm_version_sel_opaque ctx v =
     bindR (SMVersionSelOpaque_spdm_encode ctx v (Writer_init (replicate MAX_SPDM_OPAQUE_SIZE 0))) (\<lambda>(n, w).
     Ok \<lparr>data_size = of_nat n, data = wr_buf w\<rparr>)"

definition to_sm_version_sel_opaque ::
  "'h SpdmContext \<Rightarrow> SpdmOpaqueStruct \<Rightarrow> SecuredMessageVersion SpdmResult" where
  "to_sm_version_sel_opaque ctx self =
     map_err Fail (ok_or SPDM_STATUS_INVALID_PARAMETER
       (map_option fst (SMVersionSelOpaque_spdm_read ctx (Reader_init (Sized_as_ref self)))))"

definition from_sm_supported_ver_list_opaque ::
  "'h SpdmContext \<Rightarrow> SecuredMessageVersionList \<Rightarrow> SpdmOpaqueStruct SpdmResult" where
  "from_sm_supported_ver_list_opaque ctx v =
     bindR (SMSupportedVerListOpaque_spdm_encode ctx v (Writer_init (replicate MAX_SPDM_OPAQUE_SIZE 0))) (\<lambda>(n, w).
     Ok \<lparr>data_size = of_nat n, data = wr_buf w\<rparr>)"

definition to_sm_supported_ver_list_opaque ::
  "'h SpdmContext \<Rightarrow> SpdmOpaqueStruct \<Rightarrow> SecuredMessageVersionList SpdmResult" where
  "to_sm_supported_ver_list_opaque ctx self =
     map_err Fail (ok_or SPDM_STATUS_INVALID_PARAMETER
       (map_option fst (SMSupportedVerListOpaque_spdm_read ctx (Reader_init (Sized_as_ref self)))))"

definition rsp_get_dmtf_supported_secure_spdm_version_list ::
  "'h SpdmContext \<Rightarrow> SpdmOpaqueStruct \<Rightarrow> SecuredMessageVersionList option" where
  "rsp_get_dmtf_supported_secure_spdm_version_list ctx self =
     (case to_sm_supported_ver_list_opaque ctx self of Inl _ \<Rightarrow> None | Inr vs \<Rightarrow> Some vs)"

definition req_get_dmtf_secure_spdm_version_selection ::
  "'h SpdmContext \<Rightarrow> SpdmOpaqueStruct \<Rightarrow> SecuredMessageVersion option" where
  "req_get_dmtf_secure_spdm_version_selection ctx self =
     (case to_sm_version_sel_opaque ctx self of Inl _ \<Rightarrow> None | Inr v \<Rightarrow> Some v)"

subsection \<open>Laws\<close>

text \<open>Zeros after an encoding, as many as its length asks for.\<close>

lemma writes_padded:
  assumes "writes EncodeErr e bs"
  shows "writes EncodeErr (\<lambda>w. bindR (e w) (\<lambda>(cnt, w). bindR (array_encode u8_encode (replicate (f cnt) 0) w)
     (\<lambda>(n, w). Inr (cnt + n, w)))) (bs @ replicate (f (length bs)) 0)"
proof -
  have "bindR (e w) (\<lambda>(cnt, w). bindR (array_encode u8_encode (replicate (f cnt) 0) w) (\<lambda>(n, w). Inr (cnt + n, w)))
      = bindR (e w) (\<lambda>(cnt, w). bindR (array_encode u8_encode (replicate (f (length bs)) 0) w) (\<lambda>(n, w). Inr (cnt + n, w)))"
    if "writer_ok w" for w
    using writesD [OF assms that] by simp
  then show ?thesis
    using writes_then [OF assms writes_bytes, of "replicate (f (length bs)) 0"] by (simp add: writes_def)
qed

lemma pad_encoder:
  "(if n \<noteq> 0 then array_encode u8_encode (replicate k 0) w else Inr (0, w)) =
     array_encode u8_encode (replicate (if n \<noteq> 0 then k else 0) 0) w"
  by (simp add: array_encode_def)

definition GeneralOpaqueDataHeader_image :: bytes where
  "GeneralOpaqueDataHeader_image = u32_image DMTF_SPEC_ID @ u8_image DMTF_OPAQUE_VERSION @
     u8_image OPAQUE_LIST_TOTAL_ELEMENTS @ put_u16 0"

definition FM1OpaqueDataHeader_image :: bytes where
  "FM1OpaqueDataHeader_image = u8_image OPAQUE_LIST_TOTAL_ELEMENTS @ u24_image 0"

interpretation GeneralOpaqueDataHeader: codec EncodeErr "\<lambda>_. GeneralOpaqueDataHeader_encode"
  GeneralOpaqueDataHeader_read "\<lambda>_. GeneralOpaqueDataHeader_image" "\<lambda>_. True"
proof unfold_locales
  show "writes EncodeErr GeneralOpaqueDataHeader_encode GeneralOpaqueDataHeader_image"
    unfolding GeneralOpaqueDataHeader_encode_def GeneralOpaqueDataHeader_image_def
    by (intro writes_seq_Cons writes_seq_single scalar_writes)
  show "reads GeneralOpaqueDataHeader_read GeneralOpaqueDataHeader_image x" for x
    by (simp add: reads_def GeneralOpaqueDataHeader_read_def GeneralOpaqueDataHeader_image_def scalar_reads)
qed

interpretation FM1OpaqueDataHeader: codec EncodeErr "\<lambda>_. FM1OpaqueDataHeader_encode"
  FM1OpaqueDataHeader_read "\<lambda>_. FM1OpaqueDataHeader_image" "\<lambda>_. True"
proof unfold_locales
  show "writes EncodeErr FM1OpaqueDataHeader_encode FM1OpaqueDataHeader_image"
    unfolding FM1OpaqueDataHeader_encode_def FM1OpaqueDataHeader_image_def
    by (intro writes_seq_Cons writes_seq_single scalar_writes u24.encode_writes) simp_all
  show "reads FM1OpaqueDataHeader_read FM1OpaqueDataHeader_image x" for x
    by (simp add: reads_def FM1OpaqueDataHeader_read_def FM1OpaqueDataHeader_image_def scalar_reads
        u24.read_reads [THEN readsD, simplified])
qed

definition SecuredMessageVersionList_valid :: "SecuredMessageVersionList \<Rightarrow> bool" where
  "SecuredMessageVersionList_valid v \<longleftrightarrow>
     (\<exists>vs. length vs \<le> MAX_SECURE_SPDM_VERSION_COUNT \<and> version_count v = of_nat (length vs)
       \<and> versions_list v = vs @ replicate (MAX_SECURE_SPDM_VERSION_COUNT - length vs) SecuredMessageVersion_default
       \<and> list_all SecuredMessageVersion_valid vs)"

definition SecuredMessageVersionList_image :: "SecuredMessageVersionList \<Rightarrow> bytes" where
  "SecuredMessageVersionList_image v = u8_image (version_count v) @
     concat (map SecuredMessageVersion_image (take (unat (version_count v)) (versions_list v)))"

interpretation SecuredMessageVersionList: codec EncodeErr SecuredMessageVersionList_encode
  SecuredMessageVersionList_read SecuredMessageVersionList_image SecuredMessageVersionList_valid
proof unfold_locales
  fix v assume "SecuredMessageVersionList_valid v"
  then obtain vs where vs: "length vs \<le> 3" "version_count v = of_nat (length vs)"
    "versions_list v = vs @ replicate (3 - length vs) SecuredMessageVersion_default" "list_all SecuredMessageVersion_valid vs"
    by (auto simp: SecuredMessageVersionList_valid_def)
  then have n: "unat (version_count v) = length vs" by simp
  have "writes EncodeErr (\<lambda>w. if length (versions_list v) < unat (version_count v) then Inl EncodePanic else Inr (0, w)) []"
    using vs(1) n by (simp add: vs(3) writes_def)
  moreover have "writes EncodeErr (array_encode SecuredMessageVersion_encode (take (unat (version_count v)) (versions_list v)))
      (concat (map SecuredMessageVersion_image vs))"
    unfolding n vs(3) using vs(4) by (auto simp: list_all_iff intro!: writes_array SecuredMessageVersion.encode_writes)
  ultimately have "writes EncodeErr (SecuredMessageVersionList_encode v)
      (u8_image (version_count v) @ concat (map SecuredMessageVersion_image vs) @ [])"
    unfolding SecuredMessageVersionList_encode_def by (intro writes_seq_Cons writes_seq_single scalar_writes)
  then show "writes EncodeErr (SecuredMessageVersionList_encode v) (SecuredMessageVersionList_image v)"
    using n vs(3) by (simp add: SecuredMessageVersionList_image_def)
  have "reads (array_read SecuredMessageVersion_read (length vs)) (concat (map SecuredMessageVersion_image vs)) vs"
    by (rule reads_array) (use vs in \<open>auto simp: list_all_iff SecuredMessageVersion.read_reads\<close>)
  then show "reads SecuredMessageVersionList_read (SecuredMessageVersionList_image v) v"
    using vs(1,3) n
    by (simp add: reads_def SecuredMessageVersionList_read_def SecuredMessageVersionList_image_def scalar_reads copy_at_def)
qed

definition SMVersionSelOpaque_image :: "SecuredMessageVersion \<Rightarrow> bytes" where
  "SMVersionSelOpaque_image v = u8_image DMTF_ID @ u8_image DMTF_VENDOR_LEN @ put_u16 4 @
     u8_image SM_DATA_VERSION @ u8_image 0 @ SecuredMessageVersion_image v"

interpretation SMVersionSelOpaque: codec EncodeErr SMVersionSelOpaque_encode
  SMVersionSelOpaque_read SMVersionSelOpaque_image SecuredMessageVersion_valid
proof unfold_locales
  fix v assume v: "SecuredMessageVersion_valid v"
  show "writes EncodeErr (SMVersionSelOpaque_encode v) (SMVersionSelOpaque_image v)"
    unfolding SMVersionSelOpaque_encode_def SMVersionSelOpaque_image_def SMDataId_u8.simps
    by (intro writes_seq_Cons writes_seq_single scalar_writes SecuredMessageVersion.encode_writes v)
  show "reads SMVersionSelOpaque_read (SMVersionSelOpaque_image v) v"
    by (simp add: reads_def SMVersionSelOpaque_read_def SMVersionSelOpaque_image_def scalar_reads
        SMDataId_try_from_def SecuredMessageVersion.read_reads [OF v, THEN readsD, simplified])
qed

definition SMSupportedVerListOpaque_image :: "SecuredMessageVersionList \<Rightarrow> bytes" where
  "SMSupportedVerListOpaque_image v =
     (let bs = u8_image DMTF_ID @ u8_image DMTF_VENDOR_LEN @ put_u16 (3 + 2 * ucast (version_count v)) @
                 u8_image SM_DATA_VERSION @ u8_image 1 @ SecuredMessageVersionList_image v
      in bs @ replicate (if length bs mod 4 \<noteq> 0 then 4 - length bs mod 4 else 0) 0)"

lemma SecuredMessageVersionList_image_length:
  assumes "SecuredMessageVersionList_valid v"
  shows "length (SecuredMessageVersionList_image v) = 1 + 2 * unat (version_count v)" "unat (version_count v) \<le> 3"
proof -
  have "length (concat (map SecuredMessageVersion_image vs)) = 2 * length vs" for vs
    by (induction vs) (simp_all add: SecuredMessageVersion_image_def)
  then show "length (SecuredMessageVersionList_image v) = 1 + 2 * unat (version_count v)" "unat (version_count v) \<le> 3"
    using assms by (auto simp: SecuredMessageVersionList_valid_def SecuredMessageVersionList_image_def)
qed

interpretation SMSupportedVerListOpaque: codec EncodeErr SMSupportedVerListOpaque_encode
  SMSupportedVerListOpaque_read SMSupportedVerListOpaque_image SecuredMessageVersionList_valid
proof unfold_locales
  fix v assume v: "SecuredMessageVersionList_valid v"
  define bs where "bs = u8_image DMTF_ID @ u8_image DMTF_VENDOR_LEN @ put_u16 (3 + 2 * ucast (version_count v)) @
                 u8_image SM_DATA_VERSION @ u8_image 1 @ SecuredMessageVersionList_image v"
  define pad where "pad = (if length bs mod 4 \<noteq> 0 then 4 - length bs mod 4 else 0)"
  have img: "SMSupportedVerListOpaque_image v = bs @ replicate pad 0"
    by (simp add: SMSupportedVerListOpaque_image_def bs_def pad_def Let_def)
  have len: "length bs = 7 + 2 * unat (version_count v)"
    by (simp add: bs_def SecuredMessageVersionList_image_length [OF v])
  have "writes EncodeErr (enc_seq [u8_encode DMTF_ID, u8_encode DMTF_VENDOR_LEN,
      u16_encode (3 + 2 * ucast (version_count v)), u8_encode SM_DATA_VERSION,
      u8_encode (SMDataId_u8 SupportedVersionList), SecuredMessageVersionList_encode v]) bs"
    unfolding bs_def SMDataId_u8.simps
    by (intro writes_seq_Cons writes_seq_single scalar_writes SecuredMessageVersionList.encode_writes v)
  from writes_padded [OF this, of "\<lambda>n. if n mod 4 \<noteq> 0 then 4 - n mod 4 else 0"]
  show "writes EncodeErr (SMSupportedVerListOpaque_encode v) (SMSupportedVerListOpaque_image v)"
    unfolding img pad_def SMSupportedVerListOpaque_encode_def [abs_def] pad_encoder .
  have "array_read u8_read pad (rdr pre (replicate pad 0 @ post)) = Some (replicate pad 0, rdr (pre @ replicate pad 0) post)"
    for pre post by (rule array_read_u8) simp
  moreover have "pad = (if (7 + 2 * unat (version_count v)) mod 4 \<noteq> 0 then 4 - (7 + 2 * unat (version_count v)) mod 4 else 0)"
    by (simp add: pad_def len)
  ultimately show "reads SMSupportedVerListOpaque_read (SMSupportedVerListOpaque_image v) v"
    unfolding img
    by (auto simp: reads_def SMSupportedVerListOpaque_read_def bs_def scalar_reads SMDataId_try_from_def Let_def
        SecuredMessageVersionList.read_reads [OF v, THEN readsD, simplified])
qed

text \<open>The formats of opaque data that the endpoint knows.\<close>

definition opaque_ok :: "'h SpdmContext \<Rightarrow> bool" where
  "opaque_ok ctx \<longleftrightarrow> SpdmVersion12 \<le> spdm_version_sel (negotiate_info ctx) \<longrightarrow>
     contains (other_params_support (negotiate_info ctx)) SpdmAlgoOtherParams_OPAQUE_DATA_FMT1"

definition opaque_header_image :: "'h SpdmContext \<Rightarrow> bytes" where
  "opaque_header_image ctx = (if SpdmVersion12 \<le> spdm_version_sel (negotiate_info ctx)
     then FM1OpaqueDataHeader_image else GeneralOpaqueDataHeader_image)"

lemma opaque_header_laws:
  assumes "opaque_ok ctx"
  shows "swrites (opaque_header_encode ctx) (opaque_header_image ctx)"
    and "reads (opaque_header_read ctx) (opaque_header_image ctx) ()"
  using assms writes_full [OF FM1OpaqueDataHeader.encode_writes] writes_full [OF GeneralOpaqueDataHeader.encode_writes]
    FM1OpaqueDataHeader.read_reads GeneralOpaqueDataHeader.read_reads
  by (simp_all add: opaque_ok_def opaque_header_encode_def opaque_header_image_def opaque_header_read_def
      writes_def reads_def)

interpretation sel_opaque: spdm_codec "SMVersionSelOpaque_spdm_encode ctx" "\<lambda>r. or_none (SMVersionSelOpaque_spdm_read ctx r)"
  "\<lambda>v. opaque_header_image ctx @ SMVersionSelOpaque_image v" "\<lambda>v. opaque_ok ctx \<and> SecuredMessageVersion_valid v" for ctx
proof unfold_locales
  fix v assume "opaque_ok ctx \<and> SecuredMessageVersion_valid v"
  then show "swrites (SMVersionSelOpaque_spdm_encode ctx v) (opaque_header_image ctx @ SMVersionSelOpaque_image v)"
    "sreads (\<lambda>r. or_none (SMVersionSelOpaque_spdm_read ctx r)) (opaque_header_image ctx @ SMVersionSelOpaque_image v) v"
    using opaque_header_laws(2) [of ctx, THEN readsD] SMVersionSelOpaque.read_reads [of v, THEN readsD]
    by (auto simp: SMVersionSelOpaque_spdm_encode_def SMVersionSelOpaque_spdm_read_def sreads_def
        intro!: writes_seq_Cons writes_seq_single opaque_header_laws(1) writes_full SMVersionSelOpaque.encode_writes)
qed

interpretation list_opaque: spdm_codec "SMSupportedVerListOpaque_spdm_encode ctx"
  "\<lambda>r. or_none (SMSupportedVerListOpaque_spdm_read ctx r)"
  "\<lambda>v. opaque_header_image ctx @ SMSupportedVerListOpaque_image v"
  "\<lambda>v. opaque_ok ctx \<and> SecuredMessageVersionList_valid v" for ctx
proof unfold_locales
  fix v assume "opaque_ok ctx \<and> SecuredMessageVersionList_valid v"
  then show "swrites (SMSupportedVerListOpaque_spdm_encode ctx v) (opaque_header_image ctx @ SMSupportedVerListOpaque_image v)"
    "sreads (\<lambda>r. or_none (SMSupportedVerListOpaque_spdm_read ctx r))
       (opaque_header_image ctx @ SMSupportedVerListOpaque_image v) v"
    using opaque_header_laws(2) [of ctx, THEN readsD] SMSupportedVerListOpaque.read_reads [of v, THEN readsD]
    by (auto simp: SMSupportedVerListOpaque_spdm_encode_def SMSupportedVerListOpaque_spdm_read_def sreads_def
        intro!: writes_seq_Cons writes_seq_single opaque_header_laws(1) writes_full SMSupportedVerListOpaque.encode_writes)
qed

interpretation opaque: spdm_codec SpdmOpaqueStruct_spdm_encode "\<lambda>r. or_none (SpdmOpaqueStruct_spdm_read r)"
  Sized_image "Sized_canonical MAX_SPDM_OPAQUE_SIZE"
proof unfold_locales
  fix d assume d: "Sized_canonical MAX_SPDM_OPAQUE_SIZE d"
  show "swrites (SpdmOpaqueStruct_spdm_encode d) (Sized_image d)"
    unfolding SpdmOpaqueStruct_spdm_encode_def Sized_image_def
    by (intro writes_seq_Cons writes_seq_single writes_full scalar_writes writes_bytes)
  have "SpdmOpaqueStruct_spdm_read = Sized_read MAX_SPDM_OPAQUE_SIZE"
    by (simp add: fun_eq_iff SpdmOpaqueStruct_spdm_read_def Sized_read_def)
  then show "sreads (\<lambda>r. or_none (SpdmOpaqueStruct_spdm_read r)) (Sized_image d) d"
    using sreads_lift [OF Sized_read_reads [OF d]] by simp
qed

text \<open>What is packed into an opaque field is found there.\<close>

lemma packed_opaque:
  assumes "swrites e bs" "length bs \<le> MAX_SPDM_OPAQUE_SIZE"
  shows "bindR (e (Writer_init (replicate MAX_SPDM_OPAQUE_SIZE 0))) (\<lambda>(n, w). Ok \<lparr>data_size = of_nat n, data = wr_buf w\<rparr>)
      = Ok \<lparr>data_size = of_nat (length bs), data = copy_at 0 bs (replicate MAX_SPDM_OPAQUE_SIZE 0)\<rparr>"
  using writesD [OF assms(1) writer_ok_init, of "replicate MAX_SPDM_OPAQUE_SIZE 0"] assms(2)
  by (simp add: Writer_append_init)

lemma Sized_as_ref_packed:
  "length bs \<le> MAX_SPDM_OPAQUE_SIZE \<Longrightarrow>
     Sized_as_ref \<lparr>data_size = of_nat (length bs), data = copy_at 0 bs (replicate MAX_SPDM_OPAQUE_SIZE 0)\<rparr> = bs"
  by (simp add: Sized_as_ref_def copy_at_def)

lemma opaque_header_image_length: "length (opaque_header_image ctx) \<le> 8"
  by (simp add: opaque_header_image_def FM1OpaqueDataHeader_image_def GeneralOpaqueDataHeader_image_def)

lemma sel_opaque_packed:
  assumes "opaque_ok ctx" "SecuredMessageVersion_valid v"
  shows "\<exists>d. from_sm_version_sel_opaque ctx v = Ok d \<and> req_get_dmtf_secure_spdm_version_selection ctx d = Some v"
proof -
  let ?bs = "opaque_header_image ctx @ SMVersionSelOpaque_image v"
  have len: "length ?bs \<le> MAX_SPDM_OPAQUE_SIZE"
    using opaque_header_image_length [of ctx] by (simp add: SMVersionSelOpaque_image_def SecuredMessageVersion_image_def)
  have v: "opaque_ok ctx \<and> SecuredMessageVersion_valid v" using assms by simp
  show ?thesis
    using packed_opaque [OF sel_opaque.encode_writes [OF v] len] Sized_as_ref_packed [OF len]
      sel_opaque.read_image [OF v, of "[]" "[]"]
    by (auto simp: from_sm_version_sel_opaque_def req_get_dmtf_secure_spdm_version_selection_def
        to_sm_version_sel_opaque_def Reader_init_rdr)
qed

lemma list_opaque_packed:
  assumes "opaque_ok ctx" "SecuredMessageVersionList_valid v"
  shows "\<exists>d. from_sm_supported_ver_list_opaque ctx v = Ok d
    \<and> rsp_get_dmtf_supported_secure_spdm_version_list ctx d = Some v"
proof -
  let ?bs = "opaque_header_image ctx @ SMSupportedVerListOpaque_image v"
  have len: "length ?bs \<le> MAX_SPDM_OPAQUE_SIZE"
    using opaque_header_image_length [of ctx] SecuredMessageVersionList_image_length [OF assms(2)]
    by (simp add: SMSupportedVerListOpaque_image_def Let_def) linarith
  have v: "opaque_ok ctx \<and> SecuredMessageVersionList_valid v" using assms by simp
  show ?thesis
    using packed_opaque [OF list_opaque.encode_writes [OF v] len] Sized_as_ref_packed [OF len]
      list_opaque.read_image [OF v, of "[]" "[]"]
    by (auto simp: from_sm_supported_ver_list_opaque_def rsp_get_dmtf_supported_secure_spdm_version_list_def
        to_sm_supported_ver_list_opaque_def Reader_init_rdr)
qed

end
