(* ===== verification/MsgConnect.thy ===== *)
theory MsgConnect
  imports Opaque
begin

text \<open>
  The messages that set up a connection: version, capabilities and algorithms, of
  \<open>spdmlib/src/message/version.rs\<close>, \<open>capability.rs\<close> and \<open>algorithm.rs\<close>. What a reader refuses is part
  of the model: the combinations of capability flags and of algorithm selections that the source
  checks are predicates of their own.
\<close>

text \<open>The two bytes \<open>param1\<close> and \<open>param2\<close> when they are written as zero and ignored.\<close>

definition params_encode :: "fault encoder" where
  "params_encode = counting 2 (enc_seq [full (u8_encode 0), full (u8_encode 0)])"

definition params_read :: "unit decoder" where
  "params_read r = do { (_, r) \<leftarrow> u8_read r; (_, r) \<leftarrow> u8_read r; Some ((), r) }"

text \<open>\<open>n\<close> bytes that are written as zero, and ignored.\<close>

definition zeros_encode :: "nat \<Rightarrow> fault encoder" where
  "zeros_encode n = full (array_encode u8_encode (replicate n 0))"

definition skip_read :: "nat \<Rightarrow> unit decoder" where
  "skip_read n r = do { (_, r) \<leftarrow> array_read u8_read n r; Some ((), r) }"

subsection \<open>GET_VERSION and VERSION\<close>

definition SpdmGetVersionRequestPayload_spdm_encode :: "fault encoder" where
  "SpdmGetVersionRequestPayload_spdm_encode = params_encode"

definition SpdmGetVersionRequestPayload_spdm_read :: "unit decoder" where
  "SpdmGetVersionRequestPayload_spdm_read = params_read"

record SpdmVersionStruct =
  vs_update :: u8
  vs_version :: SpdmVersion

definition SpdmVersionStruct_encode :: "SpdmVersionStruct \<Rightarrow> encode_err encoder" where
  "SpdmVersionStruct_encode self = enc_seq [u8_encode (vs_update self), SpdmVersion_encode (vs_version self)]"

definition SpdmVersionStruct_read :: "SpdmVersionStruct decoder" where
  "SpdmVersionStruct_read r = do {
     (update, r) \<leftarrow> u8_read r;
     (version, r) \<leftarrow> SpdmVersion_read r;
     Some (\<lparr>vs_update = update, vs_version = version\<rparr>, r) }"

record SpdmVersionResponsePayload =
  version_number_entry_count :: u8
  versions :: "SpdmVersionStruct list"

abbreviation (input) MAX_SPDM_VERSION_COUNT :: usize where "MAX_SPDM_VERSION_COUNT \<equiv> 5"

definition SpdmVersionStruct_default :: SpdmVersionStruct where
  "SpdmVersionStruct_default = \<lparr>vs_update = 0, vs_version = SpdmVersion10\<rparr>"

definition SpdmVersionResponsePayload_spdm_encode :: "SpdmVersionResponsePayload \<Rightarrow> fault encoder" where
  "SpdmVersionResponsePayload_spdm_encode self =
     enc_seq [full (u8_encode 0), full (u8_encode 0), full (u8_encode 0),
              full (u8_encode (version_number_entry_count self)),
              full (array_encode SpdmVersionStruct_encode
                (take (unat (version_number_entry_count self)) (versions self)))]"

text \<open>
  The loop over the entries: the versions found so far, in order. An entry of a version that was
  seen or that is not known is skipped; one below 1.0 ends the reading.
\<close>

fun version_entries :: "bytes \<Rightarrow> SpdmVersionStruct list \<Rightarrow> SpdmVersionStruct list option" where
  "version_entries (update # v # rest) found =
     (case SpdmVersion_try_from v of
        Some ver \<Rightarrow>
          if ver \<in> vs_version ` set found then version_entries rest found
          else version_entries rest (found @ [\<lparr>vs_update = update, vs_version = ver\<rparr>])
      | None \<Rightarrow> if v < 0x10 then None else version_entries rest found)"
| "version_entries _ found = Some found"

definition SpdmVersionResponsePayload_spdm_read :: "SpdmVersionResponsePayload decoder" where
  "SpdmVersionResponsePayload_spdm_read r = do {
     (_, r) \<leftarrow> u8_read r;
     (_, r) \<leftarrow> u8_read r;
     (_, r) \<leftarrow> u8_read r;
     (count, r) \<leftarrow> u8_read r;
     if count = 0 then None
     else do {
       (rest, r) \<leftarrow> Reader_take (unat count * 2) r;
       vs \<leftarrow> version_entries rest [];
       Some (\<lparr>version_number_entry_count = of_nat (length vs),
              versions = copy_at 0 vs (replicate MAX_SPDM_VERSION_COUNT SpdmVersionStruct_default)\<rparr>, r) } }"

subsection \<open>GET_CAPABILITIES and CAPABILITIES\<close>

record SpdmGetCapabilitiesRequestPayload =
  gc_ct_exponent :: u8
  gc_flags :: SpdmRequestCapabilityFlags
  gc_data_transfer_size :: u32
  gc_max_spdm_msg_size :: u32
  gc_ex_flags :: SpdmRequestCapabilityExFlags

abbreviation ver_sel :: "'h SpdmContext \<Rightarrow> SpdmVersion" where
  "ver_sel ctx \<equiv> spdm_version_sel (negotiate_info ctx)"

definition SpdmGetCapabilitiesRequestPayload_spdm_encode ::
  "'h SpdmContext \<Rightarrow> SpdmGetCapabilitiesRequestPayload \<Rightarrow> fault encoder" where
  "SpdmGetCapabilitiesRequestPayload_spdm_encode ctx self = enc_seq
     ([full (u8_encode 0), full (u8_encode 0)] @
      (if SpdmVersion11 \<le> ver_sel ctx
       then [full (u8_encode 0), full (u8_encode (gc_ct_exponent self)),
             (if SpdmVersion14 \<le> ver_sel ctx then full (SpdmRequestCapabilityExFlags_encode (gc_ex_flags self))
              else full (u16_encode 0)),
             full (SpdmRequestCapabilityFlags_encode (gc_flags self))]
       else []) @
      (if SpdmVersion12 \<le> ver_sel ctx
       then [full (u32_encode (gc_data_transfer_size self)), full (u32_encode (gc_max_spdm_msg_size self))]
       else []))"

definition req_capability_ok :: "SpdmVersion \<Rightarrow> SpdmRequestCapabilityFlags \<Rightarrow> bool" where
  "req_capability_ok ver flags \<longleftrightarrow>
     (let has = contains flags in
       \<not> has SpdmRequestCapabilityFlags_PSK_RSVD
     \<and> (if has SpdmRequestCapabilityFlags_KEY_EX_CAP \<or> has SpdmRequestCapabilityFlags_PSK_CAP then has SpdmRequestCapabilityFlags_MAC_CAP
        else \<not> (has SpdmRequestCapabilityFlags_MAC_CAP \<or> has SpdmRequestCapabilityFlags_ENCRYPT_CAP \<or> has SpdmRequestCapabilityFlags_HANDSHAKE_IN_THE_CLEAR_CAP
                 \<or> has SpdmRequestCapabilityFlags_HBEAT_CAP \<or> has SpdmRequestCapabilityFlags_KEY_UPD_CAP)
           \<and> \<not> (SpdmVersion13 \<le> ver \<and> has SpdmRequestCapabilityFlags_EVENT_CAP))
     \<and> \<not> (\<not> has SpdmRequestCapabilityFlags_KEY_EX_CAP \<and> has SpdmRequestCapabilityFlags_PSK_CAP \<and> has SpdmRequestCapabilityFlags_HANDSHAKE_IN_THE_CLEAR_CAP)
     \<and> (if has SpdmRequestCapabilityFlags_CERT_CAP \<or> has SpdmRequestCapabilityFlags_PUB_KEY_ID_CAP
        then \<not> (has SpdmRequestCapabilityFlags_CERT_CAP \<and> has SpdmRequestCapabilityFlags_PUB_KEY_ID_CAP) \<and> \<not> (\<not> has SpdmRequestCapabilityFlags_CHAL_CAP \<and> \<not> has SpdmRequestCapabilityFlags_KEY_EX_CAP)
        else \<not> (has SpdmRequestCapabilityFlags_CHAL_CAP \<or> has SpdmRequestCapabilityFlags_MUT_AUTH_CAP)
           \<and> \<not> (SpdmVersion13 \<le> ver \<and> has SpdmRequestCapabilityFlags_EP_INFO_CAP_SIG))
     \<and> \<not> (ver = SpdmVersion11 \<and> has SpdmRequestCapabilityFlags_MUT_AUTH_CAP \<and> \<not> has SpdmRequestCapabilityFlags_ENCAP_CAP)
     \<and> (SpdmVersion13 \<le> ver \<longrightarrow>
          \<not> (has SpdmRequestCapabilityFlags_EP_INFO_CAP_NO_SIG \<and> has SpdmRequestCapabilityFlags_EP_INFO_CAP_SIG)
        \<and> \<not> (has SpdmRequestCapabilityFlags_MULTI_KEY_CAP_ONLY \<and> has SpdmRequestCapabilityFlags_MULTI_KEY_CAP_CONN_SEL)
        \<and> \<not> (has SpdmRequestCapabilityFlags_PUB_KEY_ID_CAP \<and> (has SpdmRequestCapabilityFlags_MULTI_KEY_CAP_ONLY \<or> has SpdmRequestCapabilityFlags_MULTI_KEY_CAP_CONN_SEL))))"

definition transfer_sizes_read :: "SpdmVersion \<Rightarrow> (u32 \<times> u32) decoder" where
  "transfer_sizes_read ver r =
     (if SpdmVersion12 \<le> ver
      then do {
        (data_transfer_size, r) \<leftarrow> u32_read r;
        (max_spdm_msg_size, r) \<leftarrow> u32_read r;
        if data_transfer_size < 42 \<or> max_spdm_msg_size < data_transfer_size then None
        else Some ((data_transfer_size, max_spdm_msg_size), r) }
      else Some ((0, 0), r))"

definition req_capability_read ::
  "SpdmVersion \<Rightarrow> (u8 \<times> SpdmRequestCapabilityExFlags \<times> SpdmRequestCapabilityFlags) decoder" where
  "req_capability_read ver r =
     (if SpdmVersion11 \<le> ver
      then do {
        (_, r) \<leftarrow> u8_read r;
        (ct_exponent, r) \<leftarrow> u8_read r;
        (ex_flags, r) \<leftarrow> (if SpdmVersion14 \<le> ver then SpdmRequestCapabilityExFlags_read r
                         else do { (_, r) \<leftarrow> u16_read r; Some (0, r) });
        (flags, r) \<leftarrow> SpdmRequestCapabilityFlags_read r;
        if req_capability_ok ver flags then Some ((ct_exponent, ex_flags, flags), r) else None }
      else Some ((0, 0, 0), r))"

definition SpdmGetCapabilitiesRequestPayload_spdm_read ::
  "'h SpdmContext \<Rightarrow> SpdmGetCapabilitiesRequestPayload decoder" where
  "SpdmGetCapabilitiesRequestPayload_spdm_read ctx r = do {
     (_, r) \<leftarrow> (if SpdmVersion13 \<le> ver_sel ctx
       then do {
         (param1, r) \<leftarrow> SpdmCapabilityParam1_read r;
         if contains param1 SpdmCapabilityParam1_SUPPORTED_ALGOS_EXT_CAP
           \<and> \<not> contains (cfg_rsp_capabilities (config_info ctx)) SpdmResponseCapabilityFlags_CHUNK_CAP
         then None else Some (param1, r) }
       else u8_read r);
     (_, r) \<leftarrow> u8_read r;
     ((ct_exponent, ex_flags, flags), r) \<leftarrow> req_capability_read (ver_sel ctx) r;
     ((data_transfer_size, max_spdm_msg_size), r) \<leftarrow> transfer_sizes_read (ver_sel ctx) r;
     Some (\<lparr>gc_ct_exponent = ct_exponent, gc_flags = flags, gc_data_transfer_size = data_transfer_size,
            gc_max_spdm_msg_size = max_spdm_msg_size, gc_ex_flags = ex_flags\<rparr>, r) }"

record SpdmCapabilitiesResponsePayload =
  rc_ct_exponent :: u8
  rc_flags :: SpdmResponseCapabilityFlags
  rc_data_transfer_size :: u32
  rc_max_spdm_msg_size :: u32
  rc_ex_flags :: SpdmResponseCapabilityExFlags

definition SpdmCapabilitiesResponsePayload_spdm_encode ::
  "'h SpdmContext \<Rightarrow> SpdmCapabilitiesResponsePayload \<Rightarrow> fault encoder" where
  "SpdmCapabilitiesResponsePayload_spdm_encode ctx self = enc_seq
     ([full (u8_encode 0), full (u8_encode 0), full (u8_encode 0), full (u8_encode (rc_ct_exponent self)),
       (if SpdmVersion14 \<le> ver_sel ctx then full (SpdmResponseCapabilityExFlags_encode (rc_ex_flags self))
        else full (u16_encode 0)),
       full (SpdmResponseCapabilityFlags_encode (rc_flags self))] @
      (if SpdmVersion12 \<le> ver_sel ctx
       then [full (u32_encode (rc_data_transfer_size self)), full (u32_encode (rc_max_spdm_msg_size self))]
       else []))"

definition rsp_capability_10_ok :: "SpdmResponseCapabilityFlags \<Rightarrow> bool" where
  "rsp_capability_10_ok flags \<longleftrightarrow>
     (let has = contains flags in
      if \<not> has SpdmResponseCapabilityFlags_MEAS_CAP_SIG then has SpdmResponseCapabilityFlags_CERT_CAP = has SpdmResponseCapabilityFlags_CHAL_CAP else has SpdmResponseCapabilityFlags_CERT_CAP)"

definition rsp_capability_11_ok :: "SpdmVersion \<Rightarrow> SpdmResponseCapabilityFlags \<Rightarrow> bool" where
  "rsp_capability_11_ok ver flags \<longleftrightarrow>
     (let has = contains flags;
          psk = has SpdmResponseCapabilityFlags_PSK_CAP_WITHOUT_CONTEXT \<or> has SpdmResponseCapabilityFlags_PSK_CAP_WITH_CONTEXT in
       \<not> (has SpdmResponseCapabilityFlags_PSK_CAP_WITHOUT_CONTEXT \<and> has SpdmResponseCapabilityFlags_PSK_CAP_WITH_CONTEXT)
     \<and> (if has SpdmResponseCapabilityFlags_KEY_EX_CAP \<or> psk then has SpdmResponseCapabilityFlags_MAC_CAP
        else \<not> (has SpdmResponseCapabilityFlags_MAC_CAP \<or> has SpdmResponseCapabilityFlags_ENCRYPT_CAP \<or> has SpdmResponseCapabilityFlags_HANDSHAKE_IN_THE_CLEAR_CAP
                 \<or> has SpdmResponseCapabilityFlags_HBEAT_CAP \<or> has SpdmResponseCapabilityFlags_KEY_UPD_CAP)
           \<and> \<not> (SpdmVersion13 \<le> ver \<and> has SpdmResponseCapabilityFlags_EVENT_CAP))
     \<and> \<not> (\<not> has SpdmResponseCapabilityFlags_KEY_EX_CAP \<and> psk \<and> has SpdmResponseCapabilityFlags_HANDSHAKE_IN_THE_CLEAR_CAP)
     \<and> (if has SpdmResponseCapabilityFlags_CERT_CAP \<or> has SpdmResponseCapabilityFlags_PUB_KEY_ID_CAP
        then \<not> (has SpdmResponseCapabilityFlags_CERT_CAP \<and> has SpdmResponseCapabilityFlags_PUB_KEY_ID_CAP)
           \<and> \<not> (\<not> has SpdmResponseCapabilityFlags_CHAL_CAP \<and> \<not> has SpdmResponseCapabilityFlags_KEY_EX_CAP \<and> \<not> has SpdmResponseCapabilityFlags_MEAS_CAP_SIG)
        else \<not> (has SpdmResponseCapabilityFlags_CHAL_CAP \<or> has SpdmResponseCapabilityFlags_KEY_EX_CAP \<or> has SpdmResponseCapabilityFlags_MEAS_CAP_SIG \<or> has SpdmResponseCapabilityFlags_MUT_AUTH_CAP)
           \<and> \<not> (SpdmVersion13 \<le> ver \<and> has SpdmResponseCapabilityFlags_EP_INFO_CAP_SIG)))"

definition rsp_capability_ok :: "SpdmVersion \<Rightarrow> SpdmResponseCapabilityFlags \<Rightarrow> bool" where
  "rsp_capability_ok ver flags \<longleftrightarrow>
     (let has = contains flags in
       \<not> (has SpdmResponseCapabilityFlags_MEAS_CAP_NO_SIG \<and> has SpdmResponseCapabilityFlags_MEAS_CAP_SIG)
     \<and> \<not> ((\<not> has SpdmResponseCapabilityFlags_MEAS_CAP_NO_SIG \<and> \<not> has SpdmResponseCapabilityFlags_MEAS_CAP_SIG) \<and> has SpdmResponseCapabilityFlags_MEAS_FRESH_CAP)
     \<and> (if ver < SpdmVersion11 then rsp_capability_10_ok flags else rsp_capability_11_ok ver flags)
     \<and> \<not> (ver = SpdmVersion11 \<and> has SpdmResponseCapabilityFlags_MUT_AUTH_CAP \<and> \<not> has SpdmResponseCapabilityFlags_ENCAP_CAP)
     \<and> (SpdmVersion12 \<le> ver \<longrightarrow>
          \<not> (\<not> has SpdmResponseCapabilityFlags_CERT_CAP \<and> (has SpdmResponseCapabilityFlags_ALIAS_CERT_CAP \<or> has SpdmResponseCapabilityFlags_SET_CERT_CAP))
        \<and> \<not> (has SpdmResponseCapabilityFlags_CSR_CAP \<and> \<not> has SpdmResponseCapabilityFlags_SET_CERT_CAP)
        \<and> \<not> (has SpdmResponseCapabilityFlags_CERT_INSTALL_RESET_CAP \<and> \<not> has SpdmResponseCapabilityFlags_CSR_CAP \<and> \<not> has SpdmResponseCapabilityFlags_SET_CERT_CAP))
     \<and> (SpdmVersion13 \<le> ver \<longrightarrow>
          \<not> (has SpdmResponseCapabilityFlags_EP_INFO_CAP_NO_SIG \<and> has SpdmResponseCapabilityFlags_EP_INFO_CAP_SIG)
        \<and> \<not> (has SpdmResponseCapabilityFlags_MULTI_KEY_CAP_ONLY \<and> has SpdmResponseCapabilityFlags_MULTI_KEY_CAP_CONN_SEL)
        \<and> (has SpdmResponseCapabilityFlags_MULTI_KEY_CAP_ONLY \<or> has SpdmResponseCapabilityFlags_MULTI_KEY_CAP_CONN_SEL \<longrightarrow>
             \<not> has SpdmResponseCapabilityFlags_PUB_KEY_ID_CAP \<and> has SpdmResponseCapabilityFlags_GET_KEY_PAIR_INFO_CAP)))"

definition SpdmCapabilitiesResponsePayload_spdm_read ::
  "'h SpdmContext \<Rightarrow> SpdmCapabilitiesResponsePayload decoder" where
  "SpdmCapabilitiesResponsePayload_spdm_read ctx r = do {
     (_, r) \<leftarrow> u8_read r;
     (_, r) \<leftarrow> u8_read r;
     (_, r) \<leftarrow> u8_read r;
     (ct_exponent, r) \<leftarrow> u8_read r;
     (ex_flags, r) \<leftarrow> (if SpdmVersion14 \<le> ver_sel ctx then SpdmResponseCapabilityExFlags_read r
                      else do { (_, r) \<leftarrow> u16_read r; Some (0, r) });
     (flags, r) \<leftarrow> SpdmResponseCapabilityFlags_read r;
     if \<not> rsp_capability_ok (ver_sel ctx) flags then None
     else do {
       ((data_transfer_size, max_spdm_msg_size), r) \<leftarrow> transfer_sizes_read (ver_sel ctx) r;
       Some (\<lparr>rc_ct_exponent = ct_exponent, rc_flags = flags, rc_data_transfer_size = data_transfer_size,
              rc_max_spdm_msg_size = max_spdm_msg_size, rc_ex_flags = ex_flags\<rparr>, r) } }"

subsection \<open>NEGOTIATE_ALGORITHMS and ALGORITHMS\<close>

abbreviation (input) MAX_SUPPORTED_ALG_STRUCTURE_COUNT :: usize where "MAX_SUPPORTED_ALG_STRUCTURE_COUNT \<equiv> 6"

definition SpdmAlgStruct_default :: SpdmAlgStruct where
  "SpdmAlgStruct_default = \<lparr>alg_type = SpdmAlgTypeUnknown 0, alg_supported = SpdmAlgoUnknown\<rparr>"

record SpdmNegotiateAlgorithmsRequestPayload =
  na_measurement_specification :: SpdmMeasurementSpecification
  na_other_params_support :: SpdmAlgoOtherParams
  na_base_asym_algo :: SpdmBaseAsymAlgo
  na_base_hash_algo :: SpdmBaseHashAlgo
  na_pqc_asym_algo :: SpdmPqcAsymAlgo
  na_mel_specification :: SpdmMelSpecification
  na_alg_struct_count :: u8
  na_alg_struct :: "SpdmAlgStruct list"

text \<open>\<open>length += ((2 + alg_fixed_count) * alg_struct_count) as u16\<close>, where the product is a \<open>u8\<close> and
  panics when it overflows.\<close>

definition alg_length :: "u16 \<Rightarrow> SpdmVersion \<Rightarrow> u8 \<Rightarrow> u16 option" where
  "alg_length base ver count =
     (if SpdmVersion11 \<le> ver
      then if 256 \<le> 4 * unat count then None else Some (base + 4 * ucast count)
      else Some base)"

definition alg_length_encode :: "u16 option \<Rightarrow> fault encoder" where
  "alg_length_encode len w = (case len of None \<Rightarrow> panic | Some n \<Rightarrow> full (u16_encode n) w)"

definition SpdmNegotiateAlgorithmsRequestPayload_spdm_encode ::
  "'h SpdmContext \<Rightarrow> SpdmNegotiateAlgorithmsRequestPayload \<Rightarrow> fault encoder" where
  "SpdmNegotiateAlgorithmsRequestPayload_spdm_encode ctx self = enc_seq
     ([full (u8_encode (if SpdmVersion11 \<le> ver_sel ctx then na_alg_struct_count self else 0)),
       full (u8_encode 0),
       alg_length_encode (alg_length 32 (ver_sel ctx) (na_alg_struct_count self)),
       full (SpdmMeasurementSpecification_encode (na_measurement_specification self)),
       (if SpdmVersion12 \<le> ver_sel ctx then full (SpdmAlgoOtherParams_encode (na_other_params_support self))
        else full (u8_encode 0)),
       full (SpdmBaseAsymAlgo_encode (na_base_asym_algo self)),
       full (SpdmBaseHashAlgo_encode (na_base_hash_algo self)),
       (if SpdmVersion14 \<le> ver_sel ctx then full (SpdmPqcAsymAlgo_encode (na_pqc_asym_algo self))
        else zeros_encode 4),
       zeros_encode 8,
       full (u8_encode 0), full (u8_encode 0), full (u8_encode 0),
       (if SpdmVersion13 \<le> ver_sel ctx then full (SpdmMelSpecification_encode (na_mel_specification self))
        else full (u8_encode 0))] @
      (if SpdmVersion11 \<le> ver_sel ctx
       then [full (array_encode SpdmAlgStruct_encode (take (unat (na_alg_struct_count self)) (na_alg_struct self)))]
       else []))"

text \<open>The number of algorithm structures, and the kind of one.\<close>

definition alg_count_read :: "SpdmVersion \<Rightarrow> u8 decoder" where
  "alg_count_read ver r = do {
     (count, r) \<leftarrow> u8_read r;
     if SpdmVersion11 \<le> ver
     then if count > of_nat MAX_SUPPORTED_ALG_STRUCTURE_COUNT then None else Some (count, r)
     else Some (0, r) }"

fun alg_kind :: "SpdmAlg \<Rightarrow> nat option" where
  "alg_kind (SpdmAlgoDhe _) = Some 0"
| "alg_kind (SpdmAlgoAead _) = Some 1"
| "alg_kind (SpdmAlgoReqAsym _) = Some 2"
| "alg_kind (SpdmAlgoKeySchedule _) = Some 3"
| "alg_kind (SpdmAlgoPqcReqAsym _) = Some 4"
| "alg_kind (SpdmAlgoKem _) = Some 5"
| "alg_kind SpdmAlgoUnknown = None"

text \<open>
  The loop over the algorithm structures: their types increase, no kind comes twice, and each
  passes the check \<open>ok\<close>.
\<close>

fun alg_structs_read ::
  "(SpdmAlg \<Rightarrow> bool) \<Rightarrow> nat \<Rightarrow> u8 \<Rightarrow> nat list \<Rightarrow> SpdmAlgStruct list decoder" where
  "alg_structs_read ok 0 current seen r = Some ([], r)"
| "alg_structs_read ok (Suc n) current seen r = do {
     (alg, r) \<leftarrow> SpdmAlgStruct_read r;
     if SpdmAlgType_get_u8 (alg_type alg) \<le> current then None
     else (case alg_kind (alg_supported alg) of
         None \<Rightarrow> None
       | Some k \<Rightarrow>
           if k \<in> set seen \<or> \<not> ok (alg_supported alg) then None
           else do {
             (algs, r) \<leftarrow> alg_structs_read ok n (SpdmAlgType_get_u8 (alg_type alg)) (k # seen) r;
             Some (alg # algs, r) }) }"

definition alg_array :: "SpdmAlgStruct list \<Rightarrow> SpdmAlgStruct list" where
  "alg_array algs = copy_at 0 algs (replicate MAX_SUPPORTED_ALG_STRUCTURE_COUNT SpdmAlgStruct_default)"

definition SpdmNegotiateAlgorithmsRequestPayload_spdm_read ::
  "'h SpdmContext \<Rightarrow> SpdmNegotiateAlgorithmsRequestPayload decoder" where
  "SpdmNegotiateAlgorithmsRequestPayload_spdm_read ctx r = do {
     let ver = ver_sel ctx;
     (alg_struct_count, r) \<leftarrow> alg_count_read ver r;
     (_, r) \<leftarrow> u8_read r;
     (len, r) \<leftarrow> u16_read r;
     (measurement_specification, r) \<leftarrow> SpdmMeasurementSpecification_read r;
     (other_params, r) \<leftarrow> (if SpdmVersion12 \<le> ver then SpdmAlgoOtherParams_read r
                           else do { (_, r) \<leftarrow> u8_read r; Some (0, r) });
     (base_asym_algo, r) \<leftarrow> SpdmBaseAsymAlgo_read r;
     (hash_algo, r) \<leftarrow> SpdmBaseHashAlgo_read r;
     (pqc_asym_algo, r) \<leftarrow> (if SpdmVersion14 \<le> ver then SpdmPqcAsymAlgo_read r
                           else do { (_, r) \<leftarrow> skip_read 4 r; Some (0, r) });
     (_, r) \<leftarrow> skip_read 8 r;
     (ext_asym_count, r) \<leftarrow> u8_read r;
     if ext_asym_count \<noteq> 0 then None
     else do {
       (ext_hash_count, r) \<leftarrow> u8_read r;
       if ext_hash_count \<noteq> 0 then None
       else do {
         (_, r) \<leftarrow> u8_read r;
         (mel_specification, r) \<leftarrow> (if SpdmVersion13 \<le> ver then SpdmMelSpecification_read r
                                    else do { (_, r) \<leftarrow> u8_read r; Some (0, r) });
         (algs, r) \<leftarrow> (if SpdmVersion11 \<le> ver
                      then alg_structs_read (\<lambda>_. True) (unat alg_struct_count) 0 [] r else Some ([], r));
         if alg_length 32 ver alg_struct_count \<noteq> Some len then None
         else Some (\<lparr>na_measurement_specification = measurement_specification,
                     na_other_params_support = other_params, na_base_asym_algo = base_asym_algo,
                     na_base_hash_algo = hash_algo, na_pqc_asym_algo = pqc_asym_algo,
                     na_mel_specification = mel_specification, na_alg_struct_count = alg_struct_count,
                     na_alg_struct = alg_array algs\<rparr>, r) } } }"

record SpdmAlgorithmsResponsePayload =
  al_measurement_specification_sel :: SpdmMeasurementSpecification
  al_other_params_selection :: SpdmAlgoOtherParams
  al_measurement_hash_algo :: SpdmMeasurementHashAlgo
  al_base_asym_sel :: SpdmBaseAsymAlgo
  al_base_hash_sel :: SpdmBaseHashAlgo
  al_pqc_asym_sel :: SpdmPqcAsymAlgo
  al_mel_specification_sel :: SpdmMelSpecification
  al_alg_struct_count :: u8
  al_alg_struct :: "SpdmAlgStruct list"

definition SpdmAlgorithmsResponsePayload_spdm_encode ::
  "'h SpdmContext \<Rightarrow> SpdmAlgorithmsResponsePayload \<Rightarrow> fault encoder" where
  "SpdmAlgorithmsResponsePayload_spdm_encode ctx self = enc_seq
     ([full (u8_encode (if SpdmVersion11 \<le> ver_sel ctx then al_alg_struct_count self else 0)),
       full (u8_encode 0),
       alg_length_encode (alg_length 36 (ver_sel ctx) (al_alg_struct_count self)),
       full (SpdmMeasurementSpecification_encode (al_measurement_specification_sel self)),
       (if SpdmVersion12 \<le> ver_sel ctx then full (SpdmAlgoOtherParams_encode (al_other_params_selection self))
        else full (u8_encode 0)),
       full (SpdmMeasurementHashAlgo_encode (al_measurement_hash_algo self)),
       full (SpdmBaseAsymAlgo_encode (al_base_asym_sel self)),
       full (SpdmBaseHashAlgo_encode (al_base_hash_sel self)),
       (if SpdmVersion14 \<le> ver_sel ctx then full (SpdmPqcAsymAlgo_encode (al_pqc_asym_sel self))
        else zeros_encode 4),
       zeros_encode 7,
       (if SpdmVersion13 \<le> ver_sel ctx then full (SpdmMelSpecification_encode (al_mel_specification_sel self))
        else full (u8_encode 0)),
       full (u8_encode 0), full (u8_encode 0), full (u16_encode 0)] @
      (if SpdmVersion11 \<le> ver_sel ctx
       then [full (array_encode SpdmAlgStruct_encode (take (unat (al_alg_struct_count self)) (al_alg_struct self)))]
       else []))"

text \<open>The capabilities that both sides have.\<close>

abbreviation rsp_has :: "'h SpdmContext \<Rightarrow> SpdmResponseCapabilityFlags \<Rightarrow> bool" where
  "rsp_has ctx \<equiv> contains (rsp_capabilities_sel (negotiate_info ctx))"

abbreviation req_has :: "'h SpdmContext \<Rightarrow> SpdmRequestCapabilityFlags \<Rightarrow> bool" where
  "req_has ctx \<equiv> contains (req_capabilities_sel (negotiate_info ctx))"

definition both_key_ex :: "'h SpdmContext \<Rightarrow> bool" where
  "both_key_ex ctx \<longleftrightarrow> rsp_has ctx SpdmResponseCapabilityFlags_KEY_EX_CAP \<and> req_has ctx SpdmRequestCapabilityFlags_KEY_EX_CAP"

definition both_psk :: "'h SpdmContext \<Rightarrow> bool" where
  "both_psk ctx \<longleftrightarrow> (rsp_has ctx SpdmResponseCapabilityFlags_PSK_CAP_WITHOUT_CONTEXT \<or> rsp_has ctx SpdmResponseCapabilityFlags_PSK_CAP_WITH_CONTEXT)
     \<and> req_has ctx SpdmRequestCapabilityFlags_PSK_CAP"

definition rsp_signs :: "'h SpdmContext \<Rightarrow> bool" where
  "rsp_signs ctx \<longleftrightarrow> rsp_has ctx SpdmResponseCapabilityFlags_CERT_CAP \<or> rsp_has ctx SpdmResponseCapabilityFlags_CHAL_CAP \<or> rsp_has ctx SpdmResponseCapabilityFlags_MEAS_CAP_SIG \<or> both_key_ex ctx"

definition rsp_measures :: "'h SpdmContext \<Rightarrow> bool" where
  "rsp_measures ctx \<longleftrightarrow> rsp_has ctx SpdmResponseCapabilityFlags_MEAS_CAP_NO_SIG \<or> rsp_has ctx SpdmResponseCapabilityFlags_MEAS_CAP_SIG"

text \<open>The check of one selected algorithm, and of the selections together.\<close>

fun alg_sel_ok :: "'h SpdmContext \<Rightarrow> SpdmAlg \<Rightarrow> bool" where
  "alg_sel_ok ctx (SpdmAlgoDhe v) = is_no_more_than_one_selected v"
| "alg_sel_ok ctx (SpdmAlgoAead v) = (is_no_more_than_one_selected v
     \<and> ((rsp_has ctx SpdmResponseCapabilityFlags_ENCRYPT_CAP \<and> req_has ctx SpdmRequestCapabilityFlags_ENCRYPT_CAP) \<or> (rsp_has ctx SpdmResponseCapabilityFlags_MAC_CAP \<and> req_has ctx SpdmRequestCapabilityFlags_MAC_CAP)
          \<longrightarrow> SpdmAeadAlgo_is_valid_one_select v))"
| "alg_sel_ok ctx (SpdmAlgoReqAsym v) = is_no_more_than_one_selected v"
| "alg_sel_ok ctx (SpdmAlgoKeySchedule v) = (is_no_more_than_one_selected v
     \<and> (both_key_ex ctx \<or> both_psk ctx \<longrightarrow> SpdmKeyScheduleAlgo_is_valid_one_select v))"
| "alg_sel_ok ctx (SpdmAlgoPqcReqAsym v) = is_no_more_than_one_selected v"
| "alg_sel_ok ctx (SpdmAlgoKem v) = is_no_more_than_one_selected v"
| "alg_sel_ok ctx SpdmAlgoUnknown = False"

definition sel_dhe :: "SpdmAlgStruct list \<Rightarrow> SpdmDheAlgo" where
  "sel_dhe algs = fold (\<lambda>a acc. case alg_supported a of SpdmAlgoDhe v \<Rightarrow> v | _ \<Rightarrow> acc) algs 0"

definition sel_kem :: "SpdmAlgStruct list \<Rightarrow> SpdmKemAlgo" where
  "sel_kem algs = fold (\<lambda>a acc. case alg_supported a of SpdmAlgoKem v \<Rightarrow> v | _ \<Rightarrow> acc) algs 0"

definition sel_req_asym :: "SpdmAlgStruct list \<Rightarrow> SpdmReqAsymAlgo" where
  "sel_req_asym algs = fold (\<lambda>a acc. case alg_supported a of SpdmAlgoReqAsym v \<Rightarrow> v | _ \<Rightarrow> acc) algs 0"

definition sel_pqc_req_asym :: "SpdmAlgStruct list \<Rightarrow> SpdmPqcReqAsymAlgo" where
  "sel_pqc_req_asym algs = fold (\<lambda>a acc. case alg_supported a of SpdmAlgoPqcReqAsym v \<Rightarrow> v | _ \<Rightarrow> acc) algs 0"

definition alg_sels_ok :: "'h SpdmContext \<Rightarrow> SpdmAlgStruct list \<Rightarrow> bool" where
  "alg_sels_ok ctx algs \<longleftrightarrow>
     (let dhe = SpdmDheAlgo_is_valid_one_select (sel_dhe algs);
          kem = SpdmKemAlgo_is_valid_one_select (sel_kem algs);
          req = SpdmReqAsymAlgo_is_valid_one_select (sel_req_asym algs);
          pqc = SpdmPqcReqAsymAlgo_is_valid_one_select (sel_pqc_req_asym algs)
      in \<not> (dhe \<and> kem) \<and> \<not> (both_key_ex ctx \<and> \<not> dhe \<and> \<not> kem)
       \<and> \<not> (req \<and> pqc)
       \<and> \<not> (rsp_has ctx SpdmResponseCapabilityFlags_MUT_AUTH_CAP \<and> req_has ctx SpdmRequestCapabilityFlags_MUT_AUTH_CAP \<and> \<not> req \<and> \<not> pqc))"

definition measurement_sel_ok :: "'h SpdmContext \<Rightarrow> SpdmMeasurementSpecification \<Rightarrow> bool" where
  "measurement_sel_ok ctx m \<longleftrightarrow> is_no_more_than_one_selected m
     \<and> (rsp_measures ctx \<longrightarrow> SpdmMeasurementSpecification_is_valid_one_select m)"

definition other_params_sel_ok :: "'h SpdmContext \<Rightarrow> SpdmAlgoOtherParams \<Rightarrow> bool" where
  "other_params_sel_ok ctx p \<longleftrightarrow>
     \<not> (SpdmVersion12 \<le> ver_sel ctx
        \<and> (rsp_has ctx SpdmResponseCapabilityFlags_KEY_EX_CAP \<or> rsp_has ctx SpdmResponseCapabilityFlags_PSK_CAP_WITHOUT_CONTEXT \<or> rsp_has ctx SpdmResponseCapabilityFlags_PSK_CAP_WITH_CONTEXT)
        \<and> \<not> contains p SpdmAlgoOtherParams_OPAQUE_DATA_FMT1)"

definition measurement_hash_ok :: "'h SpdmContext \<Rightarrow> SpdmMeasurementHashAlgo \<Rightarrow> bool" where
  "measurement_hash_ok ctx m \<longleftrightarrow> is_no_more_than_one_selected m
     \<and> (rsp_measures ctx \<longrightarrow> SpdmMeasurementHashAlgo_is_valid_one_select m)"

definition base_hash_ok :: "'h SpdmContext \<Rightarrow> SpdmBaseHashAlgo \<Rightarrow> bool" where
  "base_hash_ok ctx h \<longleftrightarrow> is_no_more_than_one_selected h
     \<and> (rsp_signs ctx \<or> both_psk ctx \<longrightarrow> SpdmBaseHashAlgo_is_valid_one_select h)"

definition asym_sel_ok :: "'h SpdmContext \<Rightarrow> SpdmBaseAsymAlgo \<Rightarrow> SpdmPqcAsymAlgo \<Rightarrow> bool" where
  "asym_sel_ok ctx a p \<longleftrightarrow> is_no_more_than_one_selected p
     \<and> \<not> (SpdmBaseAsymAlgo_is_valid_one_select a \<and> SpdmPqcAsymAlgo_is_valid_one_select p)
     \<and> \<not> (rsp_signs ctx \<and> \<not> SpdmBaseAsymAlgo_is_valid_one_select a \<and> \<not> SpdmPqcAsymAlgo_is_valid_one_select p)"

text \<open>The reader of ALGORITHMS up to the reserved bytes, and the rest.\<close>

definition alg_sel_read ::
  "'h SpdmContext \<Rightarrow> (SpdmMeasurementSpecification \<times> SpdmAlgoOtherParams \<times> SpdmMeasurementHashAlgo \<times>
     SpdmBaseAsymAlgo \<times> SpdmBaseHashAlgo \<times> SpdmPqcAsymAlgo) decoder" where
  "alg_sel_read ctx r = do {
     (ms, r) \<leftarrow> SpdmMeasurementSpecification_read r;
     if \<not> measurement_sel_ok ctx ms then None
     else do {
       (op, r) \<leftarrow> (if SpdmVersion12 \<le> ver_sel ctx then SpdmAlgoOtherParams_read r
                  else do { (_, r) \<leftarrow> u8_read r; Some (0, r) });
       if \<not> other_params_sel_ok ctx op then None
       else do {
         (mh, r) \<leftarrow> SpdmMeasurementHashAlgo_read r;
         if \<not> measurement_hash_ok ctx mh then None
         else do {
           (ba, r) \<leftarrow> SpdmBaseAsymAlgo_read r;
           if \<not> is_no_more_than_one_selected ba then None
           else do {
             (bh, r) \<leftarrow> SpdmBaseHashAlgo_read r;
             if \<not> base_hash_ok ctx bh then None
             else do {
               (pa, r) \<leftarrow> (if SpdmVersion12 \<le> ver_sel ctx then SpdmPqcAsymAlgo_read r
                          else do { (_, r) \<leftarrow> skip_read 4 r; Some (0, r) });
               if \<not> asym_sel_ok ctx ba pa then None
               else Some ((ms, op, mh, ba, bh, pa), r) } } } } } }"

definition SpdmAlgorithmsResponsePayload_spdm_read ::
  "'h SpdmContext \<Rightarrow> SpdmAlgorithmsResponsePayload decoder" where
  "SpdmAlgorithmsResponsePayload_spdm_read ctx r = do {
     let ver = ver_sel ctx;
     (alg_struct_count, r) \<leftarrow> alg_count_read ver r;
     (_, r) \<leftarrow> u8_read r;
     (len, r) \<leftarrow> u16_read r;
     ((ms, op, mh, ba, bh, pa), r) \<leftarrow> alg_sel_read ctx r;
     (_, r) \<leftarrow> skip_read 7 r;
     (mel, r) \<leftarrow> (if SpdmVersion13 \<le> ver then SpdmMelSpecification_read r
                 else do { (_, r) \<leftarrow> u8_read r; Some (0, r) });
     (ext_asym_count, r) \<leftarrow> u8_read r;
     if ext_asym_count \<noteq> 0 then None
     else do {
       (ext_hash_count, r) \<leftarrow> u8_read r;
       if ext_hash_count \<noteq> 0 then None
       else do {
         (_, r) \<leftarrow> u16_read r;
         (algs, r) \<leftarrow> (if SpdmVersion11 \<le> ver
                      then do {
                        (algs, r) \<leftarrow> alg_structs_read (alg_sel_ok ctx) (unat alg_struct_count) 0 [] r;
                        if alg_sels_ok ctx algs then Some (algs, r) else None }
                      else Some ([], r));
         if alg_length 36 ver alg_struct_count \<noteq> Some len then None
         else Some (\<lparr>al_measurement_specification_sel = ms, al_other_params_selection = op,
                     al_measurement_hash_algo = mh, al_base_asym_sel = ba, al_base_hash_sel = bh,
                     al_pqc_asym_sel = pa, al_mel_specification_sel = mel,
                     al_alg_struct_count = alg_struct_count, al_alg_struct = alg_array algs\<rparr>, r) } } }"

subsection \<open>Laws\<close>

lemma enc_seq_append:
  "enc_seq (xs @ ys) w = bindR (enc_seq xs w) (\<lambda>(n, w). bindR (enc_seq ys w) (\<lambda>(m, w). Inr (n + m, w)))"
proof (induction xs arbitrary: w)
  case Nil
  then show ?case by (cases "enc_seq ys w") (auto simp: enc_seq.simps)
next
  case (Cons x xs)
  show ?case
  proof (cases "x w")
    case (Inr p)
    then show ?thesis
      by (cases p; cases "enc_seq xs (snd p)"; cases "enc_seq ys (snd (projr (enc_seq xs (snd p))))")
        (auto simp: enc_seq.simps Cons.IH)
  qed (simp add: enc_seq.simps)
qed

lemma writes_seq_append:
  assumes "writes err (enc_seq xs) a" "writes err (enc_seq ys) b"
  shows "writes err (enc_seq (xs @ ys)) (a @ b)"
  using writes_then [OF assms] by (simp add: writes_def enc_seq_append)

lemma writes_seq_if:
  "(c \<Longrightarrow> writes err (enc_seq xs) a) \<Longrightarrow> writes err (enc_seq (if c then xs else [])) (if c then a else [])"
  by (simp add: writes_seq_Nil)

lemma writes_params: "swrites params_encode [0, 0]"
proof -
  have "swrites (enc_seq [full (u8_encode 0), full (u8_encode 0)]) (u8_image 0 @ u8_image 0)"
    by (intro writes_seq_Cons writes_seq_single writes_full scalar_writes)
  then show ?thesis unfolding params_encode_def by (intro writes_counting) simp_all
qed

lemma reads_params: "params_read (rdr pre (a # b # post)) = Some ((), rdr (pre @ [a, b]) post)"
  by (simp add: params_read_def reads_simps)

lemma writes_zeros: "swrites (zeros_encode n) (replicate n 0)"
  unfolding zeros_encode_def by (intro writes_full writes_bytes)

lemma reads_zeros: "skip_read n (rdr pre (replicate n 0 @ post)) = Some ((), rdr (pre @ replicate n 0) post)"
  by (simp add: skip_read_def array_read_u8)

text \<open>VERSION\<close>

definition SpdmVersionStruct_image :: "SpdmVersionStruct \<Rightarrow> bytes" where
  "SpdmVersionStruct_image v = [vs_update v, SpdmVersion_u8 (vs_version v)]"

interpretation SpdmVersionStruct: codec EncodeErr SpdmVersionStruct_encode SpdmVersionStruct_read
  SpdmVersionStruct_image "\<lambda>_. True"
proof unfold_locales
  fix v :: SpdmVersionStruct
  have "writes EncodeErr (SpdmVersionStruct_encode v) (u8_image (vs_update v) @ u8_image (SpdmVersion_u8 (vs_version v)))"
    unfolding SpdmVersionStruct_encode_def by (intro writes_seq_Cons writes_seq_single scalar_writes)
  then show "writes EncodeErr (SpdmVersionStruct_encode v) (SpdmVersionStruct_image v)"
    by (simp add: SpdmVersionStruct_image_def)
  show "reads SpdmVersionStruct_read (SpdmVersionStruct_image v) v"
    by (simp add: reads_def SpdmVersionStruct_read_def SpdmVersionStruct_image_def scalar_reads)
qed

lemma version_entries_distinct:
  "distinct (map vs_version (found @ vs)) \<Longrightarrow>
     version_entries (concat (map SpdmVersionStruct_image vs)) found = Some (found @ vs)"
  by (induction vs arbitrary: found) (auto simp: SpdmVersionStruct_image_def)

text \<open>What a reader accepts: different versions in the order in which they first come.\<close>

lemma version_entries_sound:
  "version_entries bs found = Some vs \<Longrightarrow> distinct (map vs_version found) \<Longrightarrow> distinct (map vs_version vs)"
  by (induction bs found rule: version_entries.induct) (auto split: option.splits if_splits)

lemma version_count_bound: "distinct (vs :: SpdmVersion list) \<Longrightarrow> length vs \<le> 5"
proof -
  assume d: "distinct vs"
  have "set vs \<subseteq> {SpdmVersion10, SpdmVersion11, SpdmVersion12, SpdmVersion13, SpdmVersion14}"
    using SpdmVersion.exhaust by blast
  then have "card (set vs) \<le> card {SpdmVersion10, SpdmVersion11, SpdmVersion12, SpdmVersion13, SpdmVersion14}"
    by (intro card_mono) simp_all
  then show ?thesis using d by (simp add: distinct_card)
qed

definition SpdmVersionResponsePayload_valid :: "SpdmVersionResponsePayload \<Rightarrow> bool" where
  "SpdmVersionResponsePayload_valid p \<longleftrightarrow>
     (\<exists>vs. vs \<noteq> [] \<and> distinct (map vs_version vs) \<and> version_number_entry_count p = of_nat (length vs)
       \<and> versions p = vs @ replicate (MAX_SPDM_VERSION_COUNT - length vs) SpdmVersionStruct_default)"

definition SpdmVersionResponsePayload_image :: "SpdmVersionResponsePayload \<Rightarrow> bytes" where
  "SpdmVersionResponsePayload_image p = u8_image 0 @ u8_image 0 @ u8_image 0 @
     u8_image (version_number_entry_count p) @
     concat (map SpdmVersionStruct_image (take (unat (version_number_entry_count p)) (versions p)))"

interpretation version_rsp: spdm_codec SpdmVersionResponsePayload_spdm_encode
  "\<lambda>r. or_none (SpdmVersionResponsePayload_spdm_read r)" SpdmVersionResponsePayload_image SpdmVersionResponsePayload_valid
proof unfold_locales
  fix p assume "SpdmVersionResponsePayload_valid p"
  then obtain vs where vs: "vs \<noteq> []" "distinct (map vs_version vs)" "version_number_entry_count p = of_nat (length vs)"
    "versions p = vs @ replicate (5 - length vs) SpdmVersionStruct_default"
    by (auto simp: SpdmVersionResponsePayload_valid_def)
  have le: "length vs \<le> 5" using version_count_bound [OF vs(2)] by simp
  then have n: "unat (version_number_entry_count p) = length vs" using vs(3) by simp
  show "swrites (SpdmVersionResponsePayload_spdm_encode p) (SpdmVersionResponsePayload_image p)"
    unfolding SpdmVersionResponsePayload_spdm_encode_def SpdmVersionResponsePayload_image_def
    by (intro writes_seq_Cons writes_seq_single writes_full scalar_writes writes_array SpdmVersionStruct.encode_writes TrueI)
  have len: "length (concat (map SpdmVersionStruct_image vs)) = length vs * 2"
    by (induction vs) (simp_all add: SpdmVersionStruct_image_def)
  have "version_number_entry_count p \<noteq> 0" using vs(1) n by auto
  moreover have "version_entries (concat (map SpdmVersionStruct_image vs)) [] = Some vs"
    using version_entries_distinct [of "[]" vs] vs(2) by simp
  ultimately show "sreads (\<lambda>r. or_none (SpdmVersionResponsePayload_spdm_read r)) (SpdmVersionResponsePayload_image p) p"
    using le vs(3,4) n
    by (simp add: sreads_def SpdmVersionResponsePayload_spdm_read_def SpdmVersionResponsePayload_image_def scalar_reads
        Reader_take_append [OF len] copy_at_def)
qed

text \<open>CAPABILITIES\<close>

definition transfer_sizes_ok :: "SpdmVersion \<Rightarrow> u32 \<Rightarrow> u32 \<Rightarrow> bool" where
  "transfer_sizes_ok ver d m \<longleftrightarrow> (if SpdmVersion12 \<le> ver then 42 \<le> d \<and> d \<le> m else d = 0 \<and> m = 0)"

definition transfer_sizes_image :: "SpdmVersion \<Rightarrow> u32 \<Rightarrow> u32 \<Rightarrow> bytes" where
  "transfer_sizes_image ver d m = (if SpdmVersion12 \<le> ver then u32_image d @ u32_image m else [])"

lemma reads_transfer_sizes:
  "transfer_sizes_ok ver d m \<Longrightarrow> reads (transfer_sizes_read ver) (transfer_sizes_image ver d m) (d, m)"
  by (simp add: reads_def transfer_sizes_read_def transfer_sizes_image_def transfer_sizes_ok_def scalar_reads not_less)

lemma writes_transfer_sizes:
  "swrites (enc_seq (if SpdmVersion12 \<le> ver then [full (u32_encode d), full (u32_encode m)] else []))
     (transfer_sizes_image ver d m)"
  unfolding transfer_sizes_image_def
  by (intro writes_seq_if writes_seq_Cons writes_seq_single writes_full scalar_writes)

definition SpdmGetCapabilitiesRequestPayload_valid ::
  "'h SpdmContext \<Rightarrow> SpdmGetCapabilitiesRequestPayload \<Rightarrow> bool" where
  "SpdmGetCapabilitiesRequestPayload_valid ctx p \<longleftrightarrow>
     (if SpdmVersion11 \<le> ver_sel ctx
      then gc_flags p AND SpdmRequestCapabilityFlags_VALID_MASK = gc_flags p \<and> req_capability_ok (ver_sel ctx) (gc_flags p)
      else gc_ct_exponent p = 0 \<and> gc_flags p = 0)
     \<and> (if SpdmVersion14 \<le> ver_sel ctx then gc_ex_flags p AND SpdmRequestCapabilityExFlags_VALID_MASK = gc_ex_flags p
        else gc_ex_flags p = 0)
     \<and> transfer_sizes_ok (ver_sel ctx) (gc_data_transfer_size p) (gc_max_spdm_msg_size p)"

definition SpdmGetCapabilitiesRequestPayload_image ::
  "'h SpdmContext \<Rightarrow> SpdmGetCapabilitiesRequestPayload \<Rightarrow> bytes" where
  "SpdmGetCapabilitiesRequestPayload_image ctx p =
     (u8_image 0 @ u8_image 0) @
     (if SpdmVersion11 \<le> ver_sel ctx
      then u8_image 0 @ u8_image (gc_ct_exponent p) @
           (if SpdmVersion14 \<le> ver_sel ctx then put_u16 (gc_ex_flags p) else put_u16 0) @ u32_image (gc_flags p)
      else []) @
     transfer_sizes_image (ver_sel ctx) (gc_data_transfer_size p) (gc_max_spdm_msg_size p)"

lemmas ex_flag_writes = SpdmRequestCapabilityExFlags.encode_writes SpdmResponseCapabilityExFlags.encode_writes

lemmas ex_flag_reads = SpdmRequestCapabilityExFlags.read_reads [THEN readsD, simplified]
  SpdmResponseCapabilityExFlags.read_reads [THEN readsD, simplified]
  SpdmCapabilityParam1.read_reads [THEN readsD, simplified]

interpretation capabilities_req: spdm_codec "SpdmGetCapabilitiesRequestPayload_spdm_encode ctx"
  "\<lambda>r. or_none (SpdmGetCapabilitiesRequestPayload_spdm_read ctx r)" "SpdmGetCapabilitiesRequestPayload_image ctx"
  "SpdmGetCapabilitiesRequestPayload_valid ctx" for ctx
proof unfold_locales
  fix p assume p: "SpdmGetCapabilitiesRequestPayload_valid ctx p"
  show "swrites (SpdmGetCapabilitiesRequestPayload_spdm_encode ctx p) (SpdmGetCapabilitiesRequestPayload_image ctx p)"
    unfolding SpdmGetCapabilitiesRequestPayload_spdm_encode_def SpdmGetCapabilitiesRequestPayload_image_def
    by (intro writes_seq_append writes_transfer_sizes writes_seq_if writes_seq_Cons writes_seq_single writes_if
        writes_full scalar_writes flag_writes ex_flag_writes)
      (use p in \<open>simp_all add: SpdmGetCapabilitiesRequestPayload_valid_def\<close>)
  have "SpdmCapabilityParam1_read (rdr pre (0 # post)) = Some (0, rdr (pre @ [0]) post)" for pre post
    using SpdmCapabilityParam1.read_reads [of 0, THEN readsD, simplified] by simp
  then show "sreads (\<lambda>r. or_none (SpdmGetCapabilitiesRequestPayload_spdm_read ctx r))
      (SpdmGetCapabilitiesRequestPayload_image ctx p) p"
    using p unfolding SpdmGetCapabilitiesRequestPayload_valid_def
    by (cases "ver_sel ctx")
      (simp_all add: sreads_def SpdmGetCapabilitiesRequestPayload_spdm_read_def contains_def req_capability_read_def
        SpdmGetCapabilitiesRequestPayload_image_def SpdmVersion_order scalar_reads flag_reads ex_flag_reads
        transfer_sizes_read_def transfer_sizes_image_def transfer_sizes_ok_def not_less)
qed

definition SpdmCapabilitiesResponsePayload_valid ::
  "'h SpdmContext \<Rightarrow> SpdmCapabilitiesResponsePayload \<Rightarrow> bool" where
  "SpdmCapabilitiesResponsePayload_valid ctx p \<longleftrightarrow>
     rc_flags p AND SpdmResponseCapabilityFlags_VALID_MASK = rc_flags p \<and> rsp_capability_ok (ver_sel ctx) (rc_flags p)
     \<and> (if SpdmVersion14 \<le> ver_sel ctx then rc_ex_flags p AND SpdmResponseCapabilityExFlags_VALID_MASK = rc_ex_flags p
        else rc_ex_flags p = 0)
     \<and> transfer_sizes_ok (ver_sel ctx) (rc_data_transfer_size p) (rc_max_spdm_msg_size p)"

definition SpdmCapabilitiesResponsePayload_image ::
  "'h SpdmContext \<Rightarrow> SpdmCapabilitiesResponsePayload \<Rightarrow> bytes" where
  "SpdmCapabilitiesResponsePayload_image ctx p =
     (u8_image 0 @ u8_image 0 @ u8_image 0 @ u8_image (rc_ct_exponent p) @
      (if SpdmVersion14 \<le> ver_sel ctx then put_u16 (rc_ex_flags p) else put_u16 0) @ u32_image (rc_flags p)) @
     transfer_sizes_image (ver_sel ctx) (rc_data_transfer_size p) (rc_max_spdm_msg_size p)"

interpretation capabilities_rsp: spdm_codec "SpdmCapabilitiesResponsePayload_spdm_encode ctx"
  "\<lambda>r. or_none (SpdmCapabilitiesResponsePayload_spdm_read ctx r)" "SpdmCapabilitiesResponsePayload_image ctx"
  "SpdmCapabilitiesResponsePayload_valid ctx" for ctx
proof unfold_locales
  fix p assume p: "SpdmCapabilitiesResponsePayload_valid ctx p"
  show "swrites (SpdmCapabilitiesResponsePayload_spdm_encode ctx p) (SpdmCapabilitiesResponsePayload_image ctx p)"
    unfolding SpdmCapabilitiesResponsePayload_spdm_encode_def SpdmCapabilitiesResponsePayload_image_def
    by (intro writes_seq_append writes_transfer_sizes writes_seq_Cons writes_seq_single writes_if
        writes_full scalar_writes flag_writes ex_flag_writes)
      (use p in \<open>simp_all add: SpdmCapabilitiesResponsePayload_valid_def\<close>)
  show "sreads (\<lambda>r. or_none (SpdmCapabilitiesResponsePayload_spdm_read ctx r))
      (SpdmCapabilitiesResponsePayload_image ctx p) p"
    using p unfolding SpdmCapabilitiesResponsePayload_valid_def
    by (cases "ver_sel ctx")
      (simp_all add: sreads_def SpdmCapabilitiesResponsePayload_spdm_read_def
        SpdmCapabilitiesResponsePayload_image_def SpdmVersion_order scalar_reads flag_reads ex_flag_reads
        transfer_sizes_read_def transfer_sizes_image_def transfer_sizes_ok_def not_less)
qed

text \<open>ALGORITHMS\<close>

fun algs_ok :: "(SpdmAlg \<Rightarrow> bool) \<Rightarrow> u8 \<Rightarrow> nat list \<Rightarrow> SpdmAlgStruct list \<Rightarrow> bool" where
  "algs_ok ok current seen [] \<longleftrightarrow> True"
| "algs_ok ok current seen (a # as) \<longleftrightarrow> SpdmAlgStruct_valid a \<and> current < SpdmAlgType_get_u8 (alg_type a)
     \<and> ok (alg_supported a)
     \<and> (case alg_kind (alg_supported a) of None \<Rightarrow> False
        | Some k \<Rightarrow> k \<notin> set seen \<and> algs_ok ok (SpdmAlgType_get_u8 (alg_type a)) (k # seen) as)"

lemma alg_structs_reads:
  "algs_ok ok current seen algs \<Longrightarrow>
     alg_structs_read ok (length algs) current seen (rdr pre (concat (map SpdmAlgStruct_image algs) @ post))
       = Some (algs, rdr (pre @ concat (map SpdmAlgStruct_image algs)) post)"
  by (induction ok current seen algs arbitrary: pre rule: algs_ok.induct)
    (auto simp: SpdmAlgStruct.read_reads [THEN readsD, simplified] not_le split: option.splits)

lemma algs_ok_valid: "algs_ok ok current seen algs \<Longrightarrow> a \<in> set algs \<Longrightarrow> SpdmAlgStruct_valid a"
  by (induction ok current seen algs rule: algs_ok.induct) (auto split: option.splits)

lemma alg_structs_writes:
  "algs_ok ok current seen algs \<Longrightarrow>
     writes EncodeErr (array_encode SpdmAlgStruct_encode algs) (concat (map SpdmAlgStruct_image algs))"
  by (intro writes_array SpdmAlgStruct.encode_writes) (rule algs_ok_valid)

definition alg_part_valid :: "(SpdmAlg \<Rightarrow> bool) \<Rightarrow> SpdmVersion \<Rightarrow> u8 \<Rightarrow> SpdmAlgStruct list \<Rightarrow> bool" where
  "alg_part_valid ok ver count arr \<longleftrightarrow> unat count \<le> 6 \<and> unat count \<le> length arr \<and> arr = alg_array (take (unat count) arr)
     \<and> (if SpdmVersion11 \<le> ver then algs_ok ok 0 [] (take (unat count) arr) else count = 0)"

lemma alg_part_facts:
  assumes "alg_part_valid ok ver count arr" and algs: "algs = take (unat count) arr"
  shows "unat count \<le> 6" "length algs = unat count" "arr = alg_array algs"
    "SpdmVersion11 \<le> ver \<Longrightarrow> algs_ok ok 0 [] algs" "\<not> SpdmVersion11 \<le> ver \<Longrightarrow> algs = [] \<and> count = 0" "take (unat count) (alg_array algs) = algs"
proof -
  have "unat count \<le> 6 \<and> length algs = unat count \<and> arr = alg_array algs
      \<and> (if SpdmVersion11 \<le> ver then algs_ok ok 0 [] algs else count = 0)"
    using assms unfolding alg_part_valid_def by (metis length_take min.absorb2)
  then show "unat count \<le> 6" "length algs = unat count" "arr = alg_array algs"
    "SpdmVersion11 \<le> ver \<Longrightarrow> algs_ok ok 0 [] algs" "\<not> SpdmVersion11 \<le> ver \<Longrightarrow> algs = [] \<and> count = 0" "take (unat count) (alg_array algs) = algs"
    by (auto simp: alg_array_def copy_at_def)
qed

lemma writes_alg_length:
  "unat count \<le> 6 \<Longrightarrow> swrites (alg_length_encode (alg_length base ver count)) (put_u16 (the (alg_length base ver count)))"
  using writes_full [OF u16.encode_writes [OF TrueI]]
  by (simp add: alg_length_def alg_length_encode_def writes_def)

lemma alg_length_Some: "unat count \<le> 6 \<Longrightarrow> alg_length base ver count = Some (the (alg_length base ver count))"
  by (simp add: alg_length_def)

lemma alg_count_small: "unat (count :: u8) \<le> 6 \<Longrightarrow> \<not> 6 < count"
  by (simp add: word_less_nat_alt)

definition SpdmNegotiateAlgorithmsRequestPayload_valid ::
  "'h SpdmContext \<Rightarrow> SpdmNegotiateAlgorithmsRequestPayload \<Rightarrow> bool" where
  "SpdmNegotiateAlgorithmsRequestPayload_valid ctx p \<longleftrightarrow>
     na_measurement_specification p AND SpdmMeasurementSpecification_VALID_MASK = na_measurement_specification p
     \<and> (if SpdmVersion12 \<le> ver_sel ctx
        then na_other_params_support p AND SpdmAlgoOtherParams_VALID_MASK = na_other_params_support p
        else na_other_params_support p = 0)
     \<and> na_base_asym_algo p AND SpdmBaseAsymAlgo_VALID_MASK = na_base_asym_algo p
     \<and> na_base_hash_algo p AND SpdmBaseHashAlgo_VALID_MASK = na_base_hash_algo p
     \<and> (if SpdmVersion14 \<le> ver_sel ctx then na_pqc_asym_algo p AND SpdmPqcAsymAlgo_VALID_MASK = na_pqc_asym_algo p
        else na_pqc_asym_algo p = 0)
     \<and> (if SpdmVersion13 \<le> ver_sel ctx
        then na_mel_specification p AND SpdmMelSpecification_VALID_MASK = na_mel_specification p
        else na_mel_specification p = 0)
     \<and> alg_part_valid (\<lambda>_. True) (ver_sel ctx) (na_alg_struct_count p) (na_alg_struct p)"

definition SpdmNegotiateAlgorithmsRequestPayload_image ::
  "'h SpdmContext \<Rightarrow> SpdmNegotiateAlgorithmsRequestPayload \<Rightarrow> bytes" where
  "SpdmNegotiateAlgorithmsRequestPayload_image ctx p =
     (u8_image (if SpdmVersion11 \<le> ver_sel ctx then na_alg_struct_count p else 0) @ u8_image 0 @
      put_u16 (the (alg_length 32 (ver_sel ctx) (na_alg_struct_count p))) @
      u8_image (na_measurement_specification p) @
      (if SpdmVersion12 \<le> ver_sel ctx then u8_image (na_other_params_support p) else u8_image 0) @
      u32_image (na_base_asym_algo p) @ u32_image (na_base_hash_algo p) @
      (if SpdmVersion14 \<le> ver_sel ctx then u32_image (na_pqc_asym_algo p) else replicate 4 0) @
      replicate 8 0 @ u8_image 0 @ u8_image 0 @ u8_image 0 @
      (if SpdmVersion13 \<le> ver_sel ctx then u8_image (na_mel_specification p) else u8_image 0)) @
     (if SpdmVersion11 \<le> ver_sel ctx
      then concat (map SpdmAlgStruct_image (take (unat (na_alg_struct_count p)) (na_alg_struct p))) else [])"

interpretation algorithms_req: spdm_codec "SpdmNegotiateAlgorithmsRequestPayload_spdm_encode ctx"
  "\<lambda>r. or_none (SpdmNegotiateAlgorithmsRequestPayload_spdm_read ctx r)"
  "SpdmNegotiateAlgorithmsRequestPayload_image ctx" "SpdmNegotiateAlgorithmsRequestPayload_valid ctx" for ctx
proof unfold_locales
  fix p assume p: "SpdmNegotiateAlgorithmsRequestPayload_valid ctx p"
  define algs where "algs = take (unat (na_alg_struct_count p)) (na_alg_struct p)"
  have "alg_part_valid (\<lambda>_. True) (ver_sel ctx) (na_alg_struct_count p) (na_alg_struct p)"
    using p by (simp add: SpdmNegotiateAlgorithmsRequestPayload_valid_def)
  note part = alg_part_facts [OF this algs_def]
  show "swrites (SpdmNegotiateAlgorithmsRequestPayload_spdm_encode ctx p) (SpdmNegotiateAlgorithmsRequestPayload_image ctx p)"
    unfolding SpdmNegotiateAlgorithmsRequestPayload_spdm_encode_def SpdmNegotiateAlgorithmsRequestPayload_image_def
    by (intro writes_seq_append writes_seq_Cons writes_seq_single writes_seq_if writes_if writes_alg_length writes_zeros
        writes_full scalar_writes flag_writes alg_structs_writes)
      (use p part(1,4) in \<open>simp_all add: SpdmNegotiateAlgorithmsRequestPayload_valid_def algs_def\<close>)
  note algs_read = alg_structs_reads [OF part(4), unfolded part(2)]
  show "sreads (\<lambda>r. or_none (SpdmNegotiateAlgorithmsRequestPayload_spdm_read ctx r))
      (SpdmNegotiateAlgorithmsRequestPayload_image ctx p) p"
    using p part(1,3,5,6) algs_read alg_count_small [OF part(1)] alg_length_Some [OF part(1), of 32 "ver_sel ctx"]
    unfolding SpdmNegotiateAlgorithmsRequestPayload_valid_def
    by (cases "ver_sel ctx")
      (simp_all add: sreads_def SpdmNegotiateAlgorithmsRequestPayload_spdm_read_def alg_count_read_def
        SpdmNegotiateAlgorithmsRequestPayload_image_def SpdmVersion_order scalar_reads flag_reads reads_zeros)
qed

definition SpdmAlgorithmsResponsePayload_valid ::
  "'h SpdmContext \<Rightarrow> SpdmAlgorithmsResponsePayload \<Rightarrow> bool" where
  "SpdmAlgorithmsResponsePayload_valid ctx p \<longleftrightarrow>
     al_measurement_specification_sel p AND SpdmMeasurementSpecification_VALID_MASK = al_measurement_specification_sel p
     \<and> measurement_sel_ok ctx (al_measurement_specification_sel p)
     \<and> (if SpdmVersion12 \<le> ver_sel ctx
        then al_other_params_selection p AND SpdmAlgoOtherParams_VALID_MASK = al_other_params_selection p
        else al_other_params_selection p = 0)
     \<and> other_params_sel_ok ctx (al_other_params_selection p)
     \<and> al_measurement_hash_algo p AND SpdmMeasurementHashAlgo_VALID_MASK = al_measurement_hash_algo p
     \<and> measurement_hash_ok ctx (al_measurement_hash_algo p)
     \<and> al_base_asym_sel p AND SpdmBaseAsymAlgo_VALID_MASK = al_base_asym_sel p
     \<and> is_no_more_than_one_selected (al_base_asym_sel p)
     \<and> al_base_hash_sel p AND SpdmBaseHashAlgo_VALID_MASK = al_base_hash_sel p
     \<and> base_hash_ok ctx (al_base_hash_sel p)
     \<and> (if SpdmVersion14 \<le> ver_sel ctx then al_pqc_asym_sel p AND SpdmPqcAsymAlgo_VALID_MASK = al_pqc_asym_sel p
        else al_pqc_asym_sel p = 0)
     \<and> asym_sel_ok ctx (al_base_asym_sel p) (al_pqc_asym_sel p)
     \<and> (if SpdmVersion13 \<le> ver_sel ctx
        then al_mel_specification_sel p AND SpdmMelSpecification_VALID_MASK = al_mel_specification_sel p
        else al_mel_specification_sel p = 0)
     \<and> (SpdmVersion11 \<le> ver_sel ctx \<longrightarrow>
          alg_sels_ok ctx (take (unat (al_alg_struct_count p)) (al_alg_struct p)))
     \<and> alg_part_valid (alg_sel_ok ctx) (ver_sel ctx) (al_alg_struct_count p) (al_alg_struct p)"

definition SpdmAlgorithmsResponsePayload_image ::
  "'h SpdmContext \<Rightarrow> SpdmAlgorithmsResponsePayload \<Rightarrow> bytes" where
  "SpdmAlgorithmsResponsePayload_image ctx p =
     (u8_image (if SpdmVersion11 \<le> ver_sel ctx then al_alg_struct_count p else 0) @ u8_image 0 @
      put_u16 (the (alg_length 36 (ver_sel ctx) (al_alg_struct_count p))) @
      u8_image (al_measurement_specification_sel p) @
      (if SpdmVersion12 \<le> ver_sel ctx then u8_image (al_other_params_selection p) else u8_image 0) @
      u32_image (al_measurement_hash_algo p) @ u32_image (al_base_asym_sel p) @ u32_image (al_base_hash_sel p) @
      (if SpdmVersion14 \<le> ver_sel ctx then u32_image (al_pqc_asym_sel p) else replicate 4 0) @
      replicate 7 0 @
      (if SpdmVersion13 \<le> ver_sel ctx then u8_image (al_mel_specification_sel p) else u8_image 0) @
      u8_image 0 @ u8_image 0 @ put_u16 0) @
     (if SpdmVersion11 \<le> ver_sel ctx
      then concat (map SpdmAlgStruct_image (take (unat (al_alg_struct_count p)) (al_alg_struct p))) else [])"

text \<open>Before version 1.4 the reader takes the reserved bytes for an empty set of algorithms.\<close>

lemma pqc_asym_zeros: "SpdmPqcAsymAlgo_read (rdr pre (replicate 4 0 @ post)) = Some (0, rdr (pre @ replicate 4 0) post)"
proof -
  have "u32_image 0 = replicate 4 0" by (simp add: u32_image_def numeral_eq_Suc)
  then show ?thesis using SpdmPqcAsymAlgo.read_reads [of 0, THEN readsD, of pre post] by simp
qed

interpretation algorithms_rsp: spdm_codec "SpdmAlgorithmsResponsePayload_spdm_encode ctx"
  "\<lambda>r. or_none (SpdmAlgorithmsResponsePayload_spdm_read ctx r)"
  "SpdmAlgorithmsResponsePayload_image ctx" "SpdmAlgorithmsResponsePayload_valid ctx" for ctx
proof unfold_locales
  fix p assume p: "SpdmAlgorithmsResponsePayload_valid ctx p"
  define algs where "algs = take (unat (al_alg_struct_count p)) (al_alg_struct p)"
  have "alg_part_valid (alg_sel_ok ctx) (ver_sel ctx) (al_alg_struct_count p) (al_alg_struct p)"
    using p by (simp add: SpdmAlgorithmsResponsePayload_valid_def)
  note part = alg_part_facts [OF this algs_def]
  show "swrites (SpdmAlgorithmsResponsePayload_spdm_encode ctx p) (SpdmAlgorithmsResponsePayload_image ctx p)"
    unfolding SpdmAlgorithmsResponsePayload_spdm_encode_def SpdmAlgorithmsResponsePayload_image_def
    by (intro writes_seq_append writes_seq_Cons writes_seq_single writes_seq_if writes_if writes_alg_length writes_zeros
        writes_full scalar_writes flag_writes alg_structs_writes)
      (use p part(1,4) in \<open>simp_all add: SpdmAlgorithmsResponsePayload_valid_def algs_def\<close>)
  note algs_read = alg_structs_reads [OF part(4), unfolded part(2)]
  have sel: "\<not> SpdmVersion14 \<le> ver_sel ctx \<Longrightarrow> asym_sel_ok ctx (al_base_asym_sel p) 0"
    "\<not> SpdmVersion12 \<le> ver_sel ctx \<Longrightarrow> other_params_sel_ok ctx 0"
    using p by (auto simp: SpdmAlgorithmsResponsePayload_valid_def)
  show "sreads (\<lambda>r. or_none (SpdmAlgorithmsResponsePayload_spdm_read ctx r))
      (SpdmAlgorithmsResponsePayload_image ctx p) p"
    using p part(1,3,5,6) sel algs_read alg_count_small [OF part(1)] alg_length_Some [OF part(1), of 36 "ver_sel ctx"]
    unfolding SpdmAlgorithmsResponsePayload_valid_def
    by (cases "ver_sel ctx")
      (simp_all add: sreads_def SpdmAlgorithmsResponsePayload_spdm_read_def alg_count_read_def alg_sel_read_def
        SpdmAlgorithmsResponsePayload_image_def SpdmVersion_order scalar_reads flag_reads reads_zeros pqc_asym_zeros)
qed

end
