(* ===== verification/MsgSession.thy ===== *)
theory MsgSession
  imports MsgConnect
begin

text \<open>
  The messages that open, use and close a session: KEY_EXCHANGE, FINISH, PSK_EXCHANGE, PSK_FINISH,
  HEARTBEAT, KEY_UPDATE and END_SESSION with their responses
  (\<open>src/spdmlib/src/message/key_exchange.rs\<close>, \<open>finish.rs\<close>, \<open>psk_exchange.rs\<close>, \<open>psk_finish.rs\<close>,
  \<open>heartbeat.rs\<close>, \<open>key_update.rs\<close>, \<open>end_session.rs\<close>). The laws interpret \<open>spdm_codec\<close> for each
  message.
\<close>

subsection \<open>Parts of messages\<close>

text \<open>\<open>SpdmNonceStruct\<close>, \<open>SpdmRandomStruct\<close> and the context structures: arrays of a fixed size.\<close>

abbreviation (input) MAX_SPDM_PSK_CONTEXT_SIZE :: usize where "MAX_SPDM_PSK_CONTEXT_SIZE \<equiv> 64"

definition fixed_encode :: "usize \<Rightarrow> bytes \<Rightarrow> encode_err encoder" where
  "fixed_encode n bs = counting n (array_encode u8_encode bs)"

definition fixed_read :: "usize \<Rightarrow> bytes decoder" where
  "fixed_read n = array_read u8_read n"

text \<open>A part that is only there under a condition reads as a default value otherwise.\<close>

definition opt_spdm_read :: "bool \<Rightarrow> 'a spdm_decoder \<Rightarrow> 'a \<Rightarrow> 'a spdm_decoder" where
  "opt_spdm_read c rd d r = (if c then rd r else Inr (d, r))"

text \<open>The contents of a sized structure whose size came earlier in the message.\<close>

definition sized_rest_read :: "usize \<Rightarrow> u16 \<Rightarrow> Sized decoder" where
  "sized_rest_read n sz r = do {
     (bs, r) \<leftarrow> array_read u8_read (min (unat sz) n) r;
     Some (\<lparr>data_size = sz, data = copy_at 0 bs (replicate n 0)\<rparr>, r) }"

abbreviation (input) SpdmDigestStruct_default :: SpdmDigestStruct where
  "SpdmDigestStruct_default \<equiv> Sized_default SPDM_MAX_HASH_SIZE"

abbreviation (input) SpdmSignatureStruct_default :: SpdmSignatureStruct where
  "SpdmSignatureStruct_default \<equiv> Sized_default SPDM_MAX_ASYM_SIG_SIZE"

definition in_clear_text :: "'h SpdmContext \<Rightarrow> bool" where
  "in_clear_text ctx \<longleftrightarrow>
     contains (req_capabilities_sel (negotiate_info ctx)) SpdmRequestCapabilityFlags_HANDSHAKE_IN_THE_CLEAR_CAP
   \<and> contains (rsp_capabilities_sel (negotiate_info ctx)) SpdmResponseCapabilityFlags_HANDSHAKE_IN_THE_CLEAR_CAP"

definition summary_type_ok :: "'h SpdmContext \<Rightarrow> SpdmMeasurementSummaryHashType \<Rightarrow> bool" where
  "summary_type_ok ctx t \<longleftrightarrow>
     (case t of
        SpdmMeasurementSummaryHashTypeNone \<Rightarrow> True
      | SpdmMeasurementSummaryHashTypeUnknown _ \<Rightarrow> False
      | _ \<Rightarrow> rsp_has ctx SpdmResponseCapabilityFlags_MEAS_CAP_SIG \<or> rsp_has ctx SpdmResponseCapabilityFlags_MEAS_CAP_NO_SIG)"

definition summary_type_read :: "'h SpdmContext \<Rightarrow> SpdmMeasurementSummaryHashType decoder" where
  "summary_type_read ctx r = do {
     (t, r) \<leftarrow> enum_read u8_read SpdmMeasurementSummaryHashType_of_u8 r;
     if summary_type_ok ctx t then Some (t, r) else None }"

definition slot_id_read :: "u8 decoder" where
  "slot_id_read r = do {
     (slot_id, r) \<leftarrow> u8_read r;
     if of_nat SPDM_MAX_SLOT_NUMBER \<le> slot_id \<and> slot_id \<noteq> 0xFF then None else Some (slot_id, r) }"

subsection \<open>KEY_EXCHANGE and KEY_EXCHANGE_RSP\<close>

record SpdmKeyExchangeRequestPayload =
  ke_measurement_summary_hash_type :: SpdmMeasurementSummaryHashType
  ke_slot_id :: u8
  ke_req_session_id :: u16
  ke_session_policy :: u8
  ke_random :: bytes
  ke_exchange :: Sized
  ke_opaque :: SpdmOpaqueStruct

abbreviation (input) KEY_EXCHANGE_REQUESTER_SESSION_POLICY_TERMINATION_POLICY_MASK :: u8 where
  "KEY_EXCHANGE_REQUESTER_SESSION_POLICY_TERMINATION_POLICY_MASK \<equiv> 1"
abbreviation (input) KEY_EXCHANGE_REQUESTER_SESSION_POLICY_EVENT_ALL_POLICY_MASK :: u8 where
  "KEY_EXCHANGE_REQUESTER_SESSION_POLICY_EVENT_ALL_POLICY_MASK \<equiv> 2"

definition session_policy_masked :: "SpdmVersion \<Rightarrow> u8 \<Rightarrow> u8" where
  "session_policy_masked ver policy =
     (if SpdmVersion13 \<le> ver
      then policy AND (KEY_EXCHANGE_REQUESTER_SESSION_POLICY_TERMINATION_POLICY_MASK
                       OR KEY_EXCHANGE_REQUESTER_SESSION_POLICY_EVENT_ALL_POLICY_MASK)
      else if ver = SpdmVersion12
      then policy AND KEY_EXCHANGE_REQUESTER_SESSION_POLICY_TERMINATION_POLICY_MASK
      else 0)"

definition SpdmKeyExchangeRequestPayload_spdm_encode ::
  "'h SpdmContext \<Rightarrow> SpdmKeyExchangeRequestPayload \<Rightarrow> fault encoder" where
  "SpdmKeyExchangeRequestPayload_spdm_encode ctx self = enc_seq
     [full (enum_encode u8_encode SpdmMeasurementSummaryHashType_get_u8 (ke_measurement_summary_hash_type self)),
      full (u8_encode (ke_slot_id self)),
      full (u16_encode (ke_req_session_id self)),
      (if SpdmVersion12 \<le> ver_sel ctx
       then full (u8_encode (session_policy_masked (ver_sel ctx) (ke_session_policy self)))
       else full (u8_encode 0)),
      full (u8_encode 0),
      full (fixed_encode SPDM_RANDOM_SIZE (ke_random self)),
      SpdmReqExchangeStruct_spdm_encode ctx (ke_exchange self),
      SpdmOpaqueStruct_spdm_encode (ke_opaque self)]"

definition SpdmKeyExchangeRequestPayload_spdm_read ::
  "'h SpdmContext \<Rightarrow> SpdmKeyExchangeRequestPayload spdm_decoder" where
  "SpdmKeyExchangeRequestPayload_spdm_read ctx r =
     bindR (or_none (summary_type_read ctx r)) (\<lambda>(t, r).
     bindR (or_none (slot_id_read r)) (\<lambda>(slot_id, r).
     bindR (or_none (u16_read r)) (\<lambda>(req_session_id, r).
     bindR (or_none (u8_read r)) (\<lambda>(policy, r).
     bindR (or_none (u8_read r)) (\<lambda>(_, r).
     bindR (or_none (fixed_read SPDM_RANDOM_SIZE r)) (\<lambda>(random, r).
     bindR (SpdmReqExchangeStruct_spdm_read ctx r) (\<lambda>(exchange, r).
     bindR (or_none (SpdmOpaqueStruct_spdm_read r)) (\<lambda>(opq, r).
     Inr (\<lparr>ke_measurement_summary_hash_type = t, ke_slot_id = slot_id, ke_req_session_id = req_session_id,
           ke_session_policy = session_policy_masked (ver_sel ctx) policy, ke_random = random,
           ke_exchange = exchange, ke_opaque = opq\<rparr>, r)))))))))"

type_synonym SpdmKeyExchangeMutAuthAttributes = u8

abbreviation (input) MUT_AUTH_REQ :: SpdmKeyExchangeMutAuthAttributes where "MUT_AUTH_REQ \<equiv> 1"
abbreviation (input) MUT_AUTH_REQ_WITH_ENCAP_REQUEST :: SpdmKeyExchangeMutAuthAttributes where
  "MUT_AUTH_REQ_WITH_ENCAP_REQUEST \<equiv> 2"
abbreviation (input) MUT_AUTH_REQ_WITH_GET_DIGESTS :: SpdmKeyExchangeMutAuthAttributes where
  "MUT_AUTH_REQ_WITH_GET_DIGESTS \<equiv> 4"

definition SpdmKeyExchangeMutAuthAttributes_encode :: "SpdmKeyExchangeMutAuthAttributes \<Rightarrow> encode_err encoder" where
  "SpdmKeyExchangeMutAuthAttributes_encode self = u8_encode self"

definition SpdmKeyExchangeMutAuthAttributes_read :: "SpdmKeyExchangeMutAuthAttributes decoder" where
  "SpdmKeyExchangeMutAuthAttributes_read r = do {
     (bits, r) \<leftarrow> u8_read r;
     v \<leftarrow> from_bits 7 (bits AND 7);
     Some (v, r) }"

record SpdmKeyExchangeResponsePayload =
  ker_heartbeat_period :: u8
  ker_rsp_session_id :: u16
  ker_mut_auth_req :: SpdmKeyExchangeMutAuthAttributes
  ker_req_slot_id :: u8
  ker_random :: bytes
  ker_exchange :: Sized
  ker_measurement_summary_hash :: SpdmDigestStruct
  ker_opaque :: SpdmOpaqueStruct
  ker_signature :: SpdmSignatureStruct
  ker_verify_data :: SpdmDigestStruct

definition SpdmKeyExchangeResponsePayload_spdm_encode ::
  "'h SpdmContext \<Rightarrow> SpdmKeyExchangeResponsePayload \<Rightarrow> fault encoder" where
  "SpdmKeyExchangeResponsePayload_spdm_encode ctx self = enc_seq
     ([full (u8_encode (ker_heartbeat_period self)),
       full (u8_encode 0),
       full (u16_encode (ker_rsp_session_id self)),
       full (SpdmKeyExchangeMutAuthAttributes_encode (ker_mut_auth_req self)),
       full (u8_encode (ker_req_slot_id self)),
       full (fixed_encode SPDM_RANDOM_SIZE (ker_random self)),
       SpdmRspExchangeStruct_spdm_encode ctx (ker_exchange self)] @
      (if need_measurement_summary_hash (runtime_info ctx)
       then [SpdmDigestStruct_spdm_encode ctx (ker_measurement_summary_hash self)] else []) @
      [SpdmOpaqueStruct_spdm_encode (ker_opaque self),
       SpdmSignatureStruct_spdm_encode ctx (ker_signature self)] @
      (if \<not> in_clear_text ctx then [SpdmDigestStruct_spdm_encode ctx (ker_verify_data self)] else []))"

definition mut_auth_req_ok :: "SpdmKeyExchangeMutAuthAttributes \<Rightarrow> bool" where
  "mut_auth_req_ok a \<longleftrightarrow> a = 0 \<or> a = MUT_AUTH_REQ \<or> a = MUT_AUTH_REQ_WITH_ENCAP_REQUEST
     \<or> a = MUT_AUTH_REQ_WITH_GET_DIGESTS"

definition rsp_slot_ok :: "u8 \<Rightarrow> bool" where
  "rsp_slot_ok slot_id \<longleftrightarrow> slot_id < of_nat SPDM_MAX_SLOT_NUMBER \<or> slot_id = 0xF"

definition SpdmKeyExchangeResponsePayload_spdm_read ::
  "'h SpdmContext \<Rightarrow> SpdmKeyExchangeResponsePayload spdm_decoder" where
  "SpdmKeyExchangeResponsePayload_spdm_read ctx r =
     bindR (or_none (u8_read r)) (\<lambda>(heartbeat, r).
     bindR (or_none (u8_read r)) (\<lambda>(_, r).
     bindR (or_none (u16_read r)) (\<lambda>(rsp_session_id, r).
     bindR (or_none (SpdmKeyExchangeMutAuthAttributes_read r)) (\<lambda>(mut_auth, r).
     bindR (or_none (u8_read r)) (\<lambda>(slot, r).
     if \<not> rsp_slot_ok (slot AND 0xF) then Inl ENone
     else if \<not> mut_auth_req_ok mut_auth then Inl ENone
     else
       bindR (or_none (fixed_read SPDM_RANDOM_SIZE r)) (\<lambda>(random, r).
       bindR (SpdmRspExchangeStruct_spdm_read ctx r) (\<lambda>(exchange, r).
       bindR (opt_spdm_read (need_measurement_summary_hash (runtime_info ctx))
                (SpdmDigestStruct_spdm_read ctx) SpdmDigestStruct_default r) (\<lambda>(summary, r).
       bindR (or_none (SpdmOpaqueStruct_spdm_read r)) (\<lambda>(opq, r).
       bindR (SpdmSignatureStruct_spdm_read ctx r) (\<lambda>(signature, r).
       bindR (opt_spdm_read (\<not> in_clear_text ctx) (SpdmDigestStruct_spdm_read ctx) SpdmDigestStruct_default r)
         (\<lambda>(verify_data, r).
       Inr (\<lparr>ker_heartbeat_period = heartbeat, ker_rsp_session_id = rsp_session_id,
             ker_mut_auth_req = mut_auth, ker_req_slot_id = slot AND 0xF, ker_random = random,
             ker_exchange = exchange, ker_measurement_summary_hash = summary, ker_opaque = opq,
             ker_signature = signature, ker_verify_data = verify_data\<rparr>, r))))))))))))"

subsection \<open>FINISH and FINISH_RSP\<close>

type_synonym SpdmFinishRequestAttributes = u8

abbreviation (input) SIGNATURE_INCLUDED :: SpdmFinishRequestAttributes where "SIGNATURE_INCLUDED \<equiv> 1"

definition SpdmFinishRequestAttributes_encode :: "SpdmFinishRequestAttributes \<Rightarrow> encode_err encoder" where
  "SpdmFinishRequestAttributes_encode self = u8_encode self"

definition SpdmFinishRequestAttributes_read :: "SpdmFinishRequestAttributes decoder" where
  "SpdmFinishRequestAttributes_read r = do {
     (bits, r) \<leftarrow> u8_read r;
     v \<leftarrow> from_bits 1 (bits AND 1);
     Some (v, r) }"

record SpdmFinishRequestPayload =
  fin_finish_request_attributes :: SpdmFinishRequestAttributes
  fin_req_slot_id :: u8
  fin_signature :: SpdmSignatureStruct
  fin_verify_data :: SpdmDigestStruct
  fin_opaque :: SpdmOpaqueStruct

definition SpdmFinishRequestPayload_spdm_encode ::
  "'h SpdmContext \<Rightarrow> SpdmFinishRequestPayload \<Rightarrow> fault encoder" where
  "SpdmFinishRequestPayload_spdm_encode ctx self = enc_seq
     ([full (SpdmFinishRequestAttributes_encode (fin_finish_request_attributes self)),
       full (u8_encode (fin_req_slot_id self))] @
      (if SpdmVersion14 \<le> ver_sel ctx then [SpdmOpaqueStruct_spdm_encode (fin_opaque self)] else []) @
      (if contains (fin_finish_request_attributes self) SIGNATURE_INCLUDED
       then [SpdmSignatureStruct_spdm_encode ctx (fin_signature self)] else []) @
      [SpdmDigestStruct_spdm_encode ctx (fin_verify_data self)])"

definition opaque_14_read :: "'h SpdmContext \<Rightarrow> SpdmOpaqueStruct spdm_decoder" where
  "opaque_14_read ctx = opt_spdm_read (SpdmVersion14 \<le> ver_sel ctx)
     (\<lambda>r. or_none (SpdmOpaqueStruct_spdm_read r)) SpdmOpaqueStruct_default"

definition SpdmFinishRequestPayload_spdm_read ::
  "'h SpdmContext \<Rightarrow> SpdmFinishRequestPayload spdm_decoder" where
  "SpdmFinishRequestPayload_spdm_read ctx r =
     bindR (or_none (SpdmFinishRequestAttributes_read r)) (\<lambda>(attributes, r).
     bindR (or_none (slot_id_read r)) (\<lambda>(req_slot_id, r).
     bindR (opaque_14_read ctx r) (\<lambda>(opq, r).
     bindR (opt_spdm_read (contains attributes SIGNATURE_INCLUDED) (SpdmSignatureStruct_spdm_read ctx)
              SpdmSignatureStruct_default r) (\<lambda>(signature, r).
     bindR (SpdmDigestStruct_spdm_read ctx r) (\<lambda>(verify_data, r).
     Inr (\<lparr>fin_finish_request_attributes = attributes, fin_req_slot_id = req_slot_id,
           fin_signature = signature, fin_verify_data = verify_data, fin_opaque = opq\<rparr>, r))))))"

record SpdmFinishResponsePayload =
  finr_verify_data :: SpdmDigestStruct
  finr_opaque :: SpdmOpaqueStruct

definition SpdmFinishResponsePayload_spdm_encode ::
  "'h SpdmContext \<Rightarrow> SpdmFinishResponsePayload \<Rightarrow> fault encoder" where
  "SpdmFinishResponsePayload_spdm_encode ctx self = enc_seq
     ([full (u8_encode 0), full (u8_encode 0)] @
      (if SpdmVersion14 \<le> ver_sel ctx then [SpdmOpaqueStruct_spdm_encode (finr_opaque self)] else []) @
      (if in_clear_text ctx then [SpdmDigestStruct_spdm_encode ctx (finr_verify_data self)] else []))"

definition SpdmFinishResponsePayload_spdm_read ::
  "'h SpdmContext \<Rightarrow> SpdmFinishResponsePayload spdm_decoder" where
  "SpdmFinishResponsePayload_spdm_read ctx r =
     bindR (or_none (u8_read r)) (\<lambda>(_, r).
     bindR (or_none (u8_read r)) (\<lambda>(_, r).
     bindR (opaque_14_read ctx r) (\<lambda>(opq, r).
     bindR (opt_spdm_read (in_clear_text ctx) (SpdmDigestStruct_spdm_read ctx) SpdmDigestStruct_default r)
       (\<lambda>(verify_data, r).
     Inr (\<lparr>finr_verify_data = verify_data, finr_opaque = opq\<rparr>, r)))))"

subsection \<open>PSK_EXCHANGE and PSK_EXCHANGE_RSP\<close>

type_synonym SpdmPskContextStruct = Sized

record SpdmPskExchangeRequestPayload =
  pe_measurement_summary_hash_type :: SpdmMeasurementSummaryHashType
  pe_req_session_id :: u16
  pe_psk_hint :: SpdmPskHintStruct
  pe_psk_context :: SpdmPskContextStruct
  pe_opaque :: SpdmOpaqueStruct

definition SpdmPskExchangeRequestPayload_spdm_encode ::
  "SpdmPskExchangeRequestPayload \<Rightarrow> fault encoder" where
  "SpdmPskExchangeRequestPayload_spdm_encode self = enc_seq
     [full (enum_encode u8_encode SpdmMeasurementSummaryHashType_get_u8 (pe_measurement_summary_hash_type self)),
      full (u8_encode 0),
      full (u16_encode (pe_req_session_id self)),
      full (u16_encode (data_size (pe_psk_hint self))),
      full (u16_encode (data_size (pe_psk_context self))),
      full (u16_encode (data_size (pe_opaque self))),
      full (array_encode u8_encode (Sized_as_ref (pe_psk_hint self))),
      full (array_encode u8_encode (Sized_as_ref (pe_psk_context self))),
      full (array_encode u8_encode (Sized_as_ref (pe_opaque self)))]"

definition bounded_size_read :: "usize \<Rightarrow> u16 decoder" where
  "bounded_size_read n r = do {
     (sz, r) \<leftarrow> u16_read r;
     if of_nat n < sz then None else Some (sz, r) }"

definition SpdmPskExchangeRequestPayload_spdm_read ::
  "'h SpdmContext \<Rightarrow> SpdmPskExchangeRequestPayload decoder" where
  "SpdmPskExchangeRequestPayload_spdm_read ctx r = do {
     (t, r) \<leftarrow> summary_type_read ctx r;
     (_, r) \<leftarrow> u8_read r;
     (req_session_id, r) \<leftarrow> u16_read r;
     (hint_size, r) \<leftarrow> bounded_size_read MAX_SPDM_PSK_HINT_SIZE r;
     (context_size, r) \<leftarrow> bounded_size_read MAX_SPDM_PSK_CONTEXT_SIZE r;
     (opaque_size, r) \<leftarrow> bounded_size_read MAX_SPDM_OPAQUE_SIZE r;
     (hint, r) \<leftarrow> sized_rest_read MAX_SPDM_PSK_HINT_SIZE hint_size r;
     (psk_context, r) \<leftarrow> sized_rest_read MAX_SPDM_PSK_CONTEXT_SIZE context_size r;
     (opq, r) \<leftarrow> sized_rest_read MAX_SPDM_OPAQUE_SIZE opaque_size r;
     Some (\<lparr>pe_measurement_summary_hash_type = t, pe_req_session_id = req_session_id, pe_psk_hint = hint,
            pe_psk_context = psk_context, pe_opaque = opq\<rparr>, r) }"

record SpdmPskExchangeResponsePayload =
  per_heartbeat_period :: u8
  per_rsp_session_id :: u16
  per_measurement_summary_hash :: SpdmDigestStruct
  per_psk_context :: SpdmPskContextStruct
  per_opaque :: SpdmOpaqueStruct
  per_verify_data :: SpdmDigestStruct

definition psk_without_context :: "'h SpdmContext \<Rightarrow> bool" where
  "psk_without_context ctx = rsp_has ctx SpdmResponseCapabilityFlags_PSK_CAP_WITHOUT_CONTEXT"

definition SpdmPskExchangeResponsePayload_spdm_encode ::
  "'h SpdmContext \<Rightarrow> SpdmPskExchangeResponsePayload \<Rightarrow> fault encoder" where
  "SpdmPskExchangeResponsePayload_spdm_encode ctx self = enc_seq
     ([full (u8_encode (per_heartbeat_period self)),
       full (u8_encode 0),
       full (u16_encode (per_rsp_session_id self)),
       full (u16_encode 0),
       (if psk_without_context ctx then full (u16_encode 0)
        else full (u16_encode (data_size (per_psk_context self)))),
       full (u16_encode (data_size (per_opaque self)))] @
      (if need_measurement_summary_hash (runtime_info ctx)
       then [SpdmDigestStruct_spdm_encode ctx (per_measurement_summary_hash self)] else []) @
      (if \<not> psk_without_context ctx
       then [full (array_encode u8_encode (Sized_as_ref (per_psk_context self)))] else []) @
      [full (array_encode u8_encode (Sized_as_ref (per_opaque self))),
       SpdmDigestStruct_spdm_encode ctx (per_verify_data self)])"

definition SpdmPskExchangeResponsePayload_spdm_read ::
  "'h SpdmContext \<Rightarrow> SpdmPskExchangeResponsePayload spdm_decoder" where
  "SpdmPskExchangeResponsePayload_spdm_read ctx r =
     bindR (or_none (u8_read r)) (\<lambda>(heartbeat, r).
     bindR (or_none (u8_read r)) (\<lambda>(_, r).
     bindR (or_none (u16_read r)) (\<lambda>(rsp_session_id, r).
     bindR (or_none (u16_read r)) (\<lambda>(_, r).
     bindR (or_none (u16_read r)) (\<lambda>(context_size, r).
     if (psk_without_context ctx \<and> context_size \<noteq> 0) \<or> (\<not> psk_without_context ctx \<and> context_size = 0)
     then Inl ENone
     else if of_nat MAX_SPDM_PSK_CONTEXT_SIZE < context_size then Inl ENone
     else
       bindR (or_none (bounded_size_read MAX_SPDM_OPAQUE_SIZE r)) (\<lambda>(opaque_size, r).
       bindR (opt_spdm_read (need_measurement_summary_hash (runtime_info ctx))
                (SpdmDigestStruct_spdm_read ctx) SpdmDigestStruct_default r) (\<lambda>(summary, r).
       bindR (or_none (sized_rest_read MAX_SPDM_PSK_CONTEXT_SIZE context_size r)) (\<lambda>(psk_context, r).
       bindR (or_none (sized_rest_read MAX_SPDM_OPAQUE_SIZE opaque_size r)) (\<lambda>(opq, r).
       bindR (SpdmDigestStruct_spdm_read ctx r) (\<lambda>(verify_data, r).
       Inr (\<lparr>per_heartbeat_period = heartbeat, per_rsp_session_id = rsp_session_id,
             per_measurement_summary_hash = summary, per_psk_context = psk_context, per_opaque = opq,
             per_verify_data = verify_data\<rparr>, r)))))))))))"

subsection \<open>PSK_FINISH and PSK_FINISH_RSP\<close>

record SpdmPskFinishRequestPayload =
  pf_verify_data :: SpdmDigestStruct
  pf_opaque :: SpdmOpaqueStruct

definition SpdmPskFinishRequestPayload_spdm_encode ::
  "'h SpdmContext \<Rightarrow> SpdmPskFinishRequestPayload \<Rightarrow> fault encoder" where
  "SpdmPskFinishRequestPayload_spdm_encode ctx self = enc_seq
     ([full (u8_encode 0), full (u8_encode 0)] @
      (if SpdmVersion14 \<le> ver_sel ctx then [SpdmOpaqueStruct_spdm_encode (pf_opaque self)] else []) @
      [SpdmDigestStruct_spdm_encode ctx (pf_verify_data self)])"

definition SpdmPskFinishRequestPayload_spdm_read ::
  "'h SpdmContext \<Rightarrow> SpdmPskFinishRequestPayload spdm_decoder" where
  "SpdmPskFinishRequestPayload_spdm_read ctx r =
     bindR (or_none (u8_read r)) (\<lambda>(_, r).
     bindR (or_none (u8_read r)) (\<lambda>(_, r).
     bindR (opaque_14_read ctx r) (\<lambda>(opq, r).
     bindR (SpdmDigestStruct_spdm_read ctx r) (\<lambda>(verify_data, r).
     Inr (\<lparr>pf_verify_data = verify_data, pf_opaque = opq\<rparr>, r)))))"

definition SpdmPskFinishResponsePayload_spdm_encode :: "'h SpdmContext \<Rightarrow> SpdmOpaqueStruct \<Rightarrow> fault encoder" where
  "SpdmPskFinishResponsePayload_spdm_encode ctx opq = enc_seq
     ([full (u8_encode 0), full (u8_encode 0)] @
      (if SpdmVersion14 \<le> ver_sel ctx then [SpdmOpaqueStruct_spdm_encode opq] else []))"

definition SpdmPskFinishResponsePayload_spdm_read :: "'h SpdmContext \<Rightarrow> SpdmOpaqueStruct spdm_decoder" where
  "SpdmPskFinishResponsePayload_spdm_read ctx r =
     bindR (or_none (u8_read r)) (\<lambda>(_, r).
     bindR (or_none (u8_read r)) (\<lambda>(_, r).
     opaque_14_read ctx r))"

subsection \<open>HEARTBEAT, KEY_UPDATE and END_SESSION\<close>

text \<open>HEARTBEAT, HEARTBEAT_ACK and END_SESSION_ACK have two reserved bytes: \<open>params_encode\<close> and
  \<open>params_read\<close>. KEY_UPDATE_ACK has the fields of KEY_UPDATE.\<close>

record SpdmKeyUpdateRequestPayload =
  ku_key_update_operation :: SpdmKeyUpdateOperation
  ku_tag :: u8

definition SpdmKeyUpdateRequestPayload_spdm_encode :: "SpdmKeyUpdateRequestPayload \<Rightarrow> fault encoder" where
  "SpdmKeyUpdateRequestPayload_spdm_encode self = enc_seq
     [full (enum_encode u8_encode SpdmKeyUpdateOperation_get_u8 (ku_key_update_operation self)),
      full (u8_encode (ku_tag self))]"

definition SpdmKeyUpdateRequestPayload_spdm_read :: "SpdmKeyUpdateRequestPayload decoder" where
  "SpdmKeyUpdateRequestPayload_spdm_read r = do {
     (operation, r) \<leftarrow> enum_read u8_read SpdmKeyUpdateOperation_of_u8 r;
     (tag, r) \<leftarrow> u8_read r;
     case operation of
       SpdmKeyUpdateOperationUnknown _ \<Rightarrow> None
     | _ \<Rightarrow> Some (\<lparr>ku_key_update_operation = operation, ku_tag = tag\<rparr>, r) }"

type_synonym SpdmEndSessionRequestAttributes = u8

definition SpdmEndSessionRequestAttributes_read :: "SpdmEndSessionRequestAttributes decoder" where
  "SpdmEndSessionRequestAttributes_read r = do {
     (bits, r) \<leftarrow> u8_read r;
     v \<leftarrow> from_bits 1 (bits AND 1);
     Some (v, r) }"

definition SpdmEndSessionRequestPayload_spdm_encode :: "SpdmEndSessionRequestAttributes \<Rightarrow> fault encoder" where
  "SpdmEndSessionRequestPayload_spdm_encode attributes = enc_seq
     [full (u8_encode attributes), full (u8_encode 0)]"

definition SpdmEndSessionRequestPayload_spdm_read :: "SpdmEndSessionRequestAttributes decoder" where
  "SpdmEndSessionRequestPayload_spdm_read r = do {
     (attributes, r) \<leftarrow> SpdmEndSessionRequestAttributes_read r;
     (_, r) \<leftarrow> u8_read r;
     Some (attributes, r) }"

subsection \<open>Laws\<close>

lemma writes_fixed: "length bs = n \<Longrightarrow> swrites (full (fixed_encode n bs)) bs"
  unfolding fixed_encode_def by (intro writes_full writes_counting writes_bytes) simp

lemma reads_fixed: "length bs = n \<Longrightarrow> fixed_read n (rdr pre (bs @ post)) = Some (bs, rdr (pre @ bs) post)"
  by (simp add: fixed_read_def array_read_u8)

lemma opt_reads:
  "(c \<Longrightarrow> rd (rdr pre (bs @ post)) = Inr (x, rdr (pre @ bs) post)) \<Longrightarrow> (\<not> c \<Longrightarrow> x = d) \<Longrightarrow>
     opt_spdm_read c rd d (rdr pre ((if c then bs else []) @ post)) = Inr (x, rdr (pre @ (if c then bs else [])) post)"
  by (auto simp: opt_spdm_read_def)

lemma sized_rest_reads:
  assumes "Sized_canonical n d"
  shows "sized_rest_read n (data_size d) (rdr pre (Sized_as_ref d @ post)) = Some (d, rdr (pre @ Sized_as_ref d) post)"
proof -
  have "Sized_ok n d" using assms by (simp add: Sized_canonical_def)
  moreover from this have "copy_at 0 (Sized_as_ref d) (replicate n 0) = data d"
    using Sized_canonical_data [OF assms] by (simp add: copy_at_def)
  ultimately show ?thesis
    by (simp add: sized_rest_read_def array_read_u8 length_Sized_as_ref [of n] Sized_ok_def min_def)
qed

lemma summary_type_reads:
  "summary_type_ok ctx t \<Longrightarrow>
     summary_type_read ctx (rdr pre (u8_image (SpdmMeasurementSummaryHashType_get_u8 t) @ post))
       = Some (t, rdr (pre @ u8_image (SpdmMeasurementSummaryHashType_get_u8 t)) post)"
  by (cases t) (auto simp: summary_type_read_def summary_type_ok_def enum_read_def scalar_reads
      SpdmMeasurementSummaryHashType_of_u8_def)

definition req_slot_ok :: "u8 \<Rightarrow> bool" where
  "req_slot_ok slot_id \<longleftrightarrow> slot_id < of_nat SPDM_MAX_SLOT_NUMBER \<or> slot_id = 0xFF"

lemma slot_id_reads:
  "req_slot_ok s \<Longrightarrow> slot_id_read (rdr pre (u8_image s @ post)) = Some (s, rdr (pre @ u8_image s) post)"
  by (auto simp: slot_id_read_def req_slot_ok_def scalar_reads)

lemma bounded_size_reads:
  "Sized_canonical n d \<Longrightarrow> bounded_size_read n (rdr pre (put_u16 (data_size d) @ post))
     = Some (data_size d, rdr (pre @ put_u16 (data_size d)) post)"
  by (auto simp: bounded_size_read_def scalar_reads Sized_canonical_def Sized_ok_def word_less_nat_alt)

lemma enum_writes: "writes EncodeErr (enum_encode u8_encode get v) (u8_image (get v))"
  unfolding enum_encode_def by (rule u8.encode_writes [OF TrueI])

lemmas part_writes = writes_seq_append writes_seq_Cons writes_seq_single writes_seq_if writes_if
  writes_full scalar_writes writes_fixed writes_bytes writes_params enum_writes
  digest.encode_writes signature.encode_writes req_exchange.encode_writes rsp_exchange.encode_writes
  opaque.encode_writes

lemmas part_reads = scalar_reads reads_fixed opt_reads sized_rest_reads summary_type_reads [simplified]
  slot_id_reads [simplified]
  bounded_size_reads digest.read_image signature.read_image req_exchange.read_image rsp_exchange.read_image
  opaque.read_image

text \<open>KEY_EXCHANGE\<close>

definition SpdmKeyExchangeRequestPayload_valid :: "'h SpdmContext \<Rightarrow> SpdmKeyExchangeRequestPayload \<Rightarrow> bool" where
  "SpdmKeyExchangeRequestPayload_valid ctx p \<longleftrightarrow>
     summary_type_ok ctx (ke_measurement_summary_hash_type p) \<and> req_slot_ok (ke_slot_id p)
   \<and> session_policy_masked (ver_sel ctx) (ke_session_policy p) = ke_session_policy p
   \<and> length (ke_random p) = SPDM_RANDOM_SIZE
   \<and> sized_valid SPDM_MAX_REQ_KEY_EXCHANGE_SIZE (get_req_key_exchange_size ctx) (ke_exchange p)
   \<and> Sized_canonical MAX_SPDM_OPAQUE_SIZE (ke_opaque p)"

definition SpdmKeyExchangeRequestPayload_image :: "SpdmKeyExchangeRequestPayload \<Rightarrow> bytes" where
  "SpdmKeyExchangeRequestPayload_image p =
     u8_image (SpdmMeasurementSummaryHashType_get_u8 (ke_measurement_summary_hash_type p)) @
     u8_image (ke_slot_id p) @ put_u16 (ke_req_session_id p) @ u8_image (ke_session_policy p) @ u8_image 0 @
     ke_random p @ Sized_as_ref (ke_exchange p) @ Sized_image (ke_opaque p)"

lemma policy_masked_old: "\<not> SpdmVersion12 \<le> ver \<Longrightarrow> session_policy_masked ver p = 0"
  by (cases ver) (simp_all add: session_policy_masked_def SpdmVersion_order)

interpretation key_exchange_req: spdm_codec "SpdmKeyExchangeRequestPayload_spdm_encode ctx"
  "SpdmKeyExchangeRequestPayload_spdm_read ctx" SpdmKeyExchangeRequestPayload_image
  "SpdmKeyExchangeRequestPayload_valid ctx" for ctx
proof unfold_locales
  fix p assume p: "SpdmKeyExchangeRequestPayload_valid ctx p"
  then have policy: "(if SpdmVersion12 \<le> ver_sel ctx
       then full (u8_encode (session_policy_masked (ver_sel ctx) (ke_session_policy p)))
       else full (u8_encode 0)) = full (u8_encode (ke_session_policy p))"
    using policy_masked_old [of "ver_sel ctx" "ke_session_policy p"]
    by (auto simp: SpdmKeyExchangeRequestPayload_valid_def)
  show "swrites (SpdmKeyExchangeRequestPayload_spdm_encode ctx p) (SpdmKeyExchangeRequestPayload_image p)"
    unfolding SpdmKeyExchangeRequestPayload_spdm_encode_def SpdmKeyExchangeRequestPayload_image_def policy
    by (intro part_writes) (use p in \<open>simp_all add: SpdmKeyExchangeRequestPayload_valid_def\<close>)
  show "sreads (SpdmKeyExchangeRequestPayload_spdm_read ctx) (SpdmKeyExchangeRequestPayload_image p) p"
    using p by (simp add: sreads_def SpdmKeyExchangeRequestPayload_spdm_read_def
        SpdmKeyExchangeRequestPayload_image_def SpdmKeyExchangeRequestPayload_valid_def part_reads)
qed

definition SpdmKeyExchangeResponsePayload_valid :: "'h SpdmContext \<Rightarrow> SpdmKeyExchangeResponsePayload \<Rightarrow> bool" where
  "SpdmKeyExchangeResponsePayload_valid ctx p \<longleftrightarrow>
     mut_auth_req_ok (ker_mut_auth_req p) \<and> rsp_slot_ok (ker_req_slot_id p) \<and> length (ker_random p) = SPDM_RANDOM_SIZE
   \<and> sized_valid SPDM_MAX_RSP_KEY_EXCHANGE_SIZE (get_rsp_key_exchange_size ctx) (ker_exchange p)
   \<and> (if need_measurement_summary_hash (runtime_info ctx)
      then sized_valid SPDM_MAX_HASH_SIZE (get_hash_size ctx) (ker_measurement_summary_hash p)
      else ker_measurement_summary_hash p = SpdmDigestStruct_default)
   \<and> Sized_canonical MAX_SPDM_OPAQUE_SIZE (ker_opaque p)
   \<and> sized_valid SPDM_MAX_ASYM_SIG_SIZE (get_asym_sig_size ctx) (ker_signature p)
   \<and> (if \<not> in_clear_text ctx then sized_valid SPDM_MAX_HASH_SIZE (get_hash_size ctx) (ker_verify_data p)
      else ker_verify_data p = SpdmDigestStruct_default)"

definition SpdmKeyExchangeResponsePayload_image ::
  "'h SpdmContext \<Rightarrow> SpdmKeyExchangeResponsePayload \<Rightarrow> bytes" where
  "SpdmKeyExchangeResponsePayload_image ctx p =
     (u8_image (ker_heartbeat_period p) @ u8_image 0 @ put_u16 (ker_rsp_session_id p) @
      u8_image (ker_mut_auth_req p) @ u8_image (ker_req_slot_id p) @ ker_random p @ Sized_as_ref (ker_exchange p)) @
     (if need_measurement_summary_hash (runtime_info ctx) then Sized_as_ref (ker_measurement_summary_hash p) else []) @
     (Sized_image (ker_opaque p) @ Sized_as_ref (ker_signature p)) @
     (if \<not> in_clear_text ctx then Sized_as_ref (ker_verify_data p) else [])"

interpretation SpdmKeyExchangeMutAuthAttributes: flag_codec u8_encode u8_read u8_image 7
  SpdmKeyExchangeMutAuthAttributes_encode SpdmKeyExchangeMutAuthAttributes_read
  by unfold_locales (simp_all add: SpdmKeyExchangeMutAuthAttributes_encode_def SpdmKeyExchangeMutAuthAttributes_read_def)

lemma mut_auth_req_bits: "mut_auth_req_ok a \<Longrightarrow> a AND 7 = a"
  by (auto simp: mut_auth_req_ok_def)

lemma rsp_slot_low: "rsp_slot_ok s \<Longrightarrow> s AND 0xF = s"
proof -
  assume "rsp_slot_ok s"
  then have "s \<le> 0xF" by (auto simp: rsp_slot_ok_def word_less_nat_alt word_le_nat_alt)
  then have "unat s < 2 ^ 4" by (simp add: word_le_nat_alt)
  then have "take_bit 4 s = s" by (simp add: word_unat_eq_iff unsigned_take_bit_eq take_bit_nat_eq_self)
  moreover have "(0xF :: u8) = mask 4" by (simp add: mask_eq_exp_minus_1)
  ultimately show ?thesis by (simp add: take_bit_eq_mask)
qed

interpretation key_exchange_rsp: spdm_codec "SpdmKeyExchangeResponsePayload_spdm_encode ctx"
  "SpdmKeyExchangeResponsePayload_spdm_read ctx" "SpdmKeyExchangeResponsePayload_image ctx"
  "SpdmKeyExchangeResponsePayload_valid ctx" for ctx
proof unfold_locales
  fix p assume p: "SpdmKeyExchangeResponsePayload_valid ctx p"
  then have attr: "ker_mut_auth_req p AND 7 = ker_mut_auth_req p" "ker_req_slot_id p AND 0xF = ker_req_slot_id p"
    using mut_auth_req_bits rsp_slot_low by (auto simp: SpdmKeyExchangeResponsePayload_valid_def)
  show "swrites (SpdmKeyExchangeResponsePayload_spdm_encode ctx p) (SpdmKeyExchangeResponsePayload_image ctx p)"
    unfolding SpdmKeyExchangeResponsePayload_spdm_encode_def SpdmKeyExchangeResponsePayload_image_def
    by (intro part_writes SpdmKeyExchangeMutAuthAttributes.encode_writes)
      (use p attr in \<open>simp_all add: SpdmKeyExchangeResponsePayload_valid_def\<close>)
  show "sreads (SpdmKeyExchangeResponsePayload_spdm_read ctx) (SpdmKeyExchangeResponsePayload_image ctx p) p"
    using p attr SpdmKeyExchangeMutAuthAttributes.read_reads [THEN readsD, OF attr(1)]
    by (simp add: sreads_def SpdmKeyExchangeResponsePayload_spdm_read_def
        SpdmKeyExchangeResponsePayload_image_def SpdmKeyExchangeResponsePayload_valid_def part_reads)
qed

text \<open>FINISH\<close>

interpretation SpdmFinishRequestAttributes: flag_codec u8_encode u8_read u8_image 1
  SpdmFinishRequestAttributes_encode SpdmFinishRequestAttributes_read
  by unfold_locales (simp_all add: SpdmFinishRequestAttributes_encode_def SpdmFinishRequestAttributes_read_def)

definition opaque_14_valid :: "'h SpdmContext \<Rightarrow> SpdmOpaqueStruct \<Rightarrow> bool" where
  "opaque_14_valid ctx d \<longleftrightarrow>
     (if SpdmVersion14 \<le> ver_sel ctx then Sized_canonical MAX_SPDM_OPAQUE_SIZE d else d = SpdmOpaqueStruct_default)"

lemma opaque_14_reads:
  "opaque_14_valid ctx d \<Longrightarrow>
     opaque_14_read ctx (rdr pre ((if SpdmVersion14 \<le> ver_sel ctx then Sized_image d else []) @ post))
       = Inr (d, rdr (pre @ (if SpdmVersion14 \<le> ver_sel ctx then Sized_image d else [])) post)"
  unfolding opaque_14_read_def opaque_14_valid_def by (intro opt_reads) (simp_all add: opaque.read_image)

lemma opaque_14_writes:
  "opaque_14_valid ctx d \<Longrightarrow> SpdmVersion14 \<le> ver_sel ctx \<Longrightarrow> Sized_canonical MAX_SPDM_OPAQUE_SIZE d"
  by (simp add: opaque_14_valid_def)

definition SpdmFinishRequestPayload_valid :: "'h SpdmContext \<Rightarrow> SpdmFinishRequestPayload \<Rightarrow> bool" where
  "SpdmFinishRequestPayload_valid ctx p \<longleftrightarrow>
     fin_finish_request_attributes p AND 1 = fin_finish_request_attributes p \<and> req_slot_ok (fin_req_slot_id p)
   \<and> opaque_14_valid ctx (fin_opaque p)
   \<and> (if contains (fin_finish_request_attributes p) SIGNATURE_INCLUDED
      then sized_valid SPDM_MAX_ASYM_SIG_SIZE (get_asym_sig_size ctx) (fin_signature p)
      else fin_signature p = SpdmSignatureStruct_default)
   \<and> sized_valid SPDM_MAX_HASH_SIZE (get_hash_size ctx) (fin_verify_data p)"

definition SpdmFinishRequestPayload_image :: "'h SpdmContext \<Rightarrow> SpdmFinishRequestPayload \<Rightarrow> bytes" where
  "SpdmFinishRequestPayload_image ctx p =
     (u8_image (fin_finish_request_attributes p) @ u8_image (fin_req_slot_id p)) @
     (if SpdmVersion14 \<le> ver_sel ctx then Sized_image (fin_opaque p) else []) @
     (if contains (fin_finish_request_attributes p) SIGNATURE_INCLUDED then Sized_as_ref (fin_signature p) else []) @
     Sized_as_ref (fin_verify_data p)"

interpretation finish_req: spdm_codec "SpdmFinishRequestPayload_spdm_encode ctx"
  "SpdmFinishRequestPayload_spdm_read ctx" "SpdmFinishRequestPayload_image ctx"
  "SpdmFinishRequestPayload_valid ctx" for ctx
proof unfold_locales
  fix p assume p: "SpdmFinishRequestPayload_valid ctx p"
  show "swrites (SpdmFinishRequestPayload_spdm_encode ctx p) (SpdmFinishRequestPayload_image ctx p)"
    unfolding SpdmFinishRequestPayload_spdm_encode_def SpdmFinishRequestPayload_image_def
    by (intro part_writes SpdmFinishRequestAttributes.encode_writes)
      (use p opaque_14_writes in \<open>auto simp: SpdmFinishRequestPayload_valid_def\<close>)
  show "sreads (SpdmFinishRequestPayload_spdm_read ctx) (SpdmFinishRequestPayload_image ctx p) p"
    using p SpdmFinishRequestAttributes.read_reads [THEN readsD, of "fin_finish_request_attributes p"]
    by (cases "contains (fin_finish_request_attributes p) SIGNATURE_INCLUDED")
      (simp_all add: sreads_def SpdmFinishRequestPayload_spdm_read_def signature.read_image [simplified]
        SpdmFinishRequestPayload_image_def SpdmFinishRequestPayload_valid_def part_reads opaque_14_reads opt_spdm_read_def)
qed

definition SpdmFinishResponsePayload_valid :: "'h SpdmContext \<Rightarrow> SpdmFinishResponsePayload \<Rightarrow> bool" where
  "SpdmFinishResponsePayload_valid ctx p \<longleftrightarrow> opaque_14_valid ctx (finr_opaque p)
   \<and> (if in_clear_text ctx then sized_valid SPDM_MAX_HASH_SIZE (get_hash_size ctx) (finr_verify_data p)
      else finr_verify_data p = SpdmDigestStruct_default)"

definition SpdmFinishResponsePayload_image :: "'h SpdmContext \<Rightarrow> SpdmFinishResponsePayload \<Rightarrow> bytes" where
  "SpdmFinishResponsePayload_image ctx p =
     (u8_image 0 @ u8_image 0) @ (if SpdmVersion14 \<le> ver_sel ctx then Sized_image (finr_opaque p) else []) @
     (if in_clear_text ctx then Sized_as_ref (finr_verify_data p) else [])"

interpretation finish_rsp: spdm_codec "SpdmFinishResponsePayload_spdm_encode ctx"
  "SpdmFinishResponsePayload_spdm_read ctx" "SpdmFinishResponsePayload_image ctx"
  "SpdmFinishResponsePayload_valid ctx" for ctx
proof unfold_locales
  fix p assume p: "SpdmFinishResponsePayload_valid ctx p"
  show "swrites (SpdmFinishResponsePayload_spdm_encode ctx p) (SpdmFinishResponsePayload_image ctx p)"
    unfolding SpdmFinishResponsePayload_spdm_encode_def SpdmFinishResponsePayload_image_def
    by (intro part_writes) (use p opaque_14_writes in \<open>auto simp: SpdmFinishResponsePayload_valid_def\<close>)
  show "sreads (SpdmFinishResponsePayload_spdm_read ctx) (SpdmFinishResponsePayload_image ctx p) p"
    using p by (simp add: sreads_def SpdmFinishResponsePayload_spdm_read_def
        SpdmFinishResponsePayload_image_def SpdmFinishResponsePayload_valid_def part_reads opaque_14_reads opt_spdm_read_def)
qed

text \<open>PSK_EXCHANGE\<close>

definition SpdmPskExchangeRequestPayload_valid :: "'h SpdmContext \<Rightarrow> SpdmPskExchangeRequestPayload \<Rightarrow> bool" where
  "SpdmPskExchangeRequestPayload_valid ctx p \<longleftrightarrow>
     summary_type_ok ctx (pe_measurement_summary_hash_type p)
   \<and> Sized_canonical MAX_SPDM_PSK_HINT_SIZE (pe_psk_hint p)
   \<and> Sized_canonical MAX_SPDM_PSK_CONTEXT_SIZE (pe_psk_context p)
   \<and> Sized_canonical MAX_SPDM_OPAQUE_SIZE (pe_opaque p)"

definition SpdmPskExchangeRequestPayload_image :: "SpdmPskExchangeRequestPayload \<Rightarrow> bytes" where
  "SpdmPskExchangeRequestPayload_image p =
     u8_image (SpdmMeasurementSummaryHashType_get_u8 (pe_measurement_summary_hash_type p)) @ u8_image 0 @
     put_u16 (pe_req_session_id p) @ put_u16 (data_size (pe_psk_hint p)) @ put_u16 (data_size (pe_psk_context p)) @
     put_u16 (data_size (pe_opaque p)) @ Sized_as_ref (pe_psk_hint p) @ Sized_as_ref (pe_psk_context p) @
     Sized_as_ref (pe_opaque p)"

interpretation psk_exchange_req: spdm_codec SpdmPskExchangeRequestPayload_spdm_encode
  "\<lambda>r. or_none (SpdmPskExchangeRequestPayload_spdm_read ctx r)" SpdmPskExchangeRequestPayload_image
  "SpdmPskExchangeRequestPayload_valid ctx" for ctx
proof unfold_locales
  fix p assume p: "SpdmPskExchangeRequestPayload_valid ctx p"
  show "swrites (SpdmPskExchangeRequestPayload_spdm_encode p) (SpdmPskExchangeRequestPayload_image p)"
    unfolding SpdmPskExchangeRequestPayload_spdm_encode_def SpdmPskExchangeRequestPayload_image_def
    by (intro part_writes)
  show "sreads (\<lambda>r. or_none (SpdmPskExchangeRequestPayload_spdm_read ctx r)) (SpdmPskExchangeRequestPayload_image p) p"
    using p by (simp add: sreads_def SpdmPskExchangeRequestPayload_spdm_read_def
        SpdmPskExchangeRequestPayload_image_def SpdmPskExchangeRequestPayload_valid_def part_reads)
qed

definition SpdmPskExchangeResponsePayload_valid :: "'h SpdmContext \<Rightarrow> SpdmPskExchangeResponsePayload \<Rightarrow> bool" where
  "SpdmPskExchangeResponsePayload_valid ctx p \<longleftrightarrow>
     Sized_canonical MAX_SPDM_PSK_CONTEXT_SIZE (per_psk_context p)
   \<and> (psk_without_context ctx \<longleftrightarrow> data_size (per_psk_context p) = 0)
   \<and> Sized_canonical MAX_SPDM_OPAQUE_SIZE (per_opaque p)
   \<and> (if need_measurement_summary_hash (runtime_info ctx)
      then sized_valid SPDM_MAX_HASH_SIZE (get_hash_size ctx) (per_measurement_summary_hash p)
      else per_measurement_summary_hash p = SpdmDigestStruct_default)
   \<and> sized_valid SPDM_MAX_HASH_SIZE (get_hash_size ctx) (per_verify_data p)"

definition SpdmPskExchangeResponsePayload_image ::
  "'h SpdmContext \<Rightarrow> SpdmPskExchangeResponsePayload \<Rightarrow> bytes" where
  "SpdmPskExchangeResponsePayload_image ctx p =
     (u8_image (per_heartbeat_period p) @ u8_image 0 @ put_u16 (per_rsp_session_id p) @ put_u16 0 @
      put_u16 (data_size (per_psk_context p)) @ put_u16 (data_size (per_opaque p))) @
     (if need_measurement_summary_hash (runtime_info ctx) then Sized_as_ref (per_measurement_summary_hash p) else []) @
     (if \<not> psk_without_context ctx then Sized_as_ref (per_psk_context p) else []) @
     (Sized_as_ref (per_opaque p) @ Sized_as_ref (per_verify_data p))"

lemma Sized_as_ref_empty: "data_size d = 0 \<Longrightarrow> Sized_as_ref d = []"
  by (simp add: Sized_as_ref_def)

interpretation psk_exchange_rsp: spdm_codec "SpdmPskExchangeResponsePayload_spdm_encode ctx"
  "SpdmPskExchangeResponsePayload_spdm_read ctx" "SpdmPskExchangeResponsePayload_image ctx"
  "SpdmPskExchangeResponsePayload_valid ctx" for ctx
proof unfold_locales
  fix p assume p: "SpdmPskExchangeResponsePayload_valid ctx p"
  have size: "(if psk_without_context ctx then full (u16_encode 0)
      else full (u16_encode (data_size (per_psk_context p)))) = full (u16_encode (data_size (per_psk_context p)))"
    using p by (simp add: SpdmPskExchangeResponsePayload_valid_def)
  show "swrites (SpdmPskExchangeResponsePayload_spdm_encode ctx p) (SpdmPskExchangeResponsePayload_image ctx p)"
    unfolding SpdmPskExchangeResponsePayload_spdm_encode_def SpdmPskExchangeResponsePayload_image_def size
    by (intro part_writes) (use p in \<open>simp_all add: SpdmPskExchangeResponsePayload_valid_def\<close>)
  have nonempty: "(if \<not> psk_without_context ctx then Sized_as_ref (per_psk_context p) else [])
      = Sized_as_ref (per_psk_context p)"
    using p by (simp add: SpdmPskExchangeResponsePayload_valid_def Sized_as_ref_empty)
  have small: "\<not> 64 < data_size (per_psk_context p)"
    using p by (simp add: SpdmPskExchangeResponsePayload_valid_def Sized_canonical_def Sized_ok_def word_less_nat_alt)
  show "sreads (SpdmPskExchangeResponsePayload_spdm_read ctx) (SpdmPskExchangeResponsePayload_image ctx p) p"
    using p small unfolding SpdmPskExchangeResponsePayload_image_def nonempty
    by (simp add: sreads_def SpdmPskExchangeResponsePayload_spdm_read_def
        SpdmPskExchangeResponsePayload_valid_def part_reads opt_spdm_read_def)
qed

text \<open>PSK_FINISH\<close>

definition SpdmPskFinishRequestPayload_valid :: "'h SpdmContext \<Rightarrow> SpdmPskFinishRequestPayload \<Rightarrow> bool" where
  "SpdmPskFinishRequestPayload_valid ctx p \<longleftrightarrow> opaque_14_valid ctx (pf_opaque p)
   \<and> sized_valid SPDM_MAX_HASH_SIZE (get_hash_size ctx) (pf_verify_data p)"

definition SpdmPskFinishRequestPayload_image :: "'h SpdmContext \<Rightarrow> SpdmPskFinishRequestPayload \<Rightarrow> bytes" where
  "SpdmPskFinishRequestPayload_image ctx p =
     (u8_image 0 @ u8_image 0) @ (if SpdmVersion14 \<le> ver_sel ctx then Sized_image (pf_opaque p) else []) @
     Sized_as_ref (pf_verify_data p)"

interpretation psk_finish_req: spdm_codec "SpdmPskFinishRequestPayload_spdm_encode ctx"
  "SpdmPskFinishRequestPayload_spdm_read ctx" "SpdmPskFinishRequestPayload_image ctx"
  "SpdmPskFinishRequestPayload_valid ctx" for ctx
proof unfold_locales
  fix p assume p: "SpdmPskFinishRequestPayload_valid ctx p"
  show "swrites (SpdmPskFinishRequestPayload_spdm_encode ctx p) (SpdmPskFinishRequestPayload_image ctx p)"
    unfolding SpdmPskFinishRequestPayload_spdm_encode_def SpdmPskFinishRequestPayload_image_def
    by (intro part_writes) (use p opaque_14_writes in \<open>auto simp: SpdmPskFinishRequestPayload_valid_def\<close>)
  show "sreads (SpdmPskFinishRequestPayload_spdm_read ctx) (SpdmPskFinishRequestPayload_image ctx p) p"
    using p by (simp add: sreads_def SpdmPskFinishRequestPayload_spdm_read_def
        SpdmPskFinishRequestPayload_image_def SpdmPskFinishRequestPayload_valid_def part_reads opaque_14_reads opt_spdm_read_def)
qed

interpretation psk_finish_rsp: spdm_codec "SpdmPskFinishResponsePayload_spdm_encode ctx"
  "SpdmPskFinishResponsePayload_spdm_read ctx"
  "\<lambda>d. (u8_image 0 @ u8_image 0) @ (if SpdmVersion14 \<le> ver_sel ctx then Sized_image d else [])"
  "opaque_14_valid ctx" for ctx
proof unfold_locales
  fix d assume d: "opaque_14_valid ctx d"
  show "swrites (SpdmPskFinishResponsePayload_spdm_encode ctx d)
      ((u8_image 0 @ u8_image 0) @ (if SpdmVersion14 \<le> ver_sel ctx then Sized_image d else []))"
    unfolding SpdmPskFinishResponsePayload_spdm_encode_def
    by (intro part_writes) (use d opaque_14_writes in auto)
  show "sreads (SpdmPskFinishResponsePayload_spdm_read ctx)
      ((u8_image 0 @ u8_image 0) @ (if SpdmVersion14 \<le> ver_sel ctx then Sized_image d else [])) d"
    using d by (simp add: sreads_def SpdmPskFinishResponsePayload_spdm_read_def part_reads opaque_14_reads opt_spdm_read_def)
qed

text \<open>KEY_UPDATE and END_SESSION\<close>

definition known_operation :: "SpdmKeyUpdateOperation \<Rightarrow> bool" where
  "known_operation k \<longleftrightarrow> k = SpdmUpdateSingleKey \<or> k = SpdmUpdateAllKeys \<or> k = SpdmVerifyNewKey"

interpretation key_update: spdm_codec SpdmKeyUpdateRequestPayload_spdm_encode
  "\<lambda>r. or_none (SpdmKeyUpdateRequestPayload_spdm_read r)"
  "\<lambda>p. u8_image (SpdmKeyUpdateOperation_get_u8 (ku_key_update_operation p)) @ u8_image (ku_tag p)"
  "\<lambda>p. known_operation (ku_key_update_operation p)"
proof unfold_locales
  fix p :: SpdmKeyUpdateRequestPayload assume p: "known_operation (ku_key_update_operation p)"
  show "swrites (SpdmKeyUpdateRequestPayload_spdm_encode p)
      (u8_image (SpdmKeyUpdateOperation_get_u8 (ku_key_update_operation p)) @ u8_image (ku_tag p))"
    unfolding SpdmKeyUpdateRequestPayload_spdm_encode_def by (intro part_writes)
  show "sreads (\<lambda>r. or_none (SpdmKeyUpdateRequestPayload_spdm_read r))
      (u8_image (SpdmKeyUpdateOperation_get_u8 (ku_key_update_operation p)) @ u8_image (ku_tag p)) p"
    using p by (cases p) (auto simp: sreads_def SpdmKeyUpdateRequestPayload_spdm_read_def enum_read_def
        known_operation_def SpdmKeyUpdateOperation_of_u8_def part_reads)
qed

interpretation end_session: spdm_codec SpdmEndSessionRequestPayload_spdm_encode
  "\<lambda>r. or_none (SpdmEndSessionRequestPayload_spdm_read r)" "\<lambda>a. u8_image a @ u8_image 0" "\<lambda>a. a AND 1 = a"
proof unfold_locales
  fix a :: u8 assume a: "a AND 1 = a"
  show "swrites (SpdmEndSessionRequestPayload_spdm_encode a) (u8_image a @ u8_image 0)"
    unfolding SpdmEndSessionRequestPayload_spdm_encode_def by (intro part_writes)
  show "sreads (\<lambda>r. or_none (SpdmEndSessionRequestPayload_spdm_read r)) (u8_image a @ u8_image 0) a"
    using a from_bits_masked [of 1 a]
    by (simp add: sreads_def SpdmEndSessionRequestPayload_spdm_read_def SpdmEndSessionRequestAttributes_read_def part_reads)
qed

end
