(* ===== verification/SampleContext.thy ===== *)
theory SampleContext
  imports SampleProvider MsgSession
begin

text \<open>
  A concrete endpoint: the context of a responder with the algorithms of the sample session selected,
  used to show that the hypotheses of the properties can hold together.
\<close>

lemma sample_updates: "hash_updates sample_crypto ms h = (Ok (), h @ concat ms)"
  by (induction ms arbitrary: h) (simp_all add: sample_crypto_def)

lemma sample_hash_stream_ok: "hash_stream_ok sample_crypto"
proof -
  have "decode_u64 (put_u64 x @ bs) = Some x" for x bs
    using decode_put_u64 [of x] by (simp add: put_u64_def)
  moreover have "ucast (ucast n :: u64) = n" for n :: u16
    by (rule bit_word_eqI) (simp add: bit_simps)
  ultimately show ?thesis
    by (auto simp: hash_stream_ok_def sample_updates) (auto simp: sample_crypto_def split: if_splits)
qed

definition sample_config :: SpdmConfigInfo where
  "sample_config =
     \<lparr>cfg_spdm_version = [None, None, Some SpdmVersion12, None, None],
      cfg_req_capabilities = 0, cfg_rsp_capabilities = 0, cfg_req_ct_exponent = 0, cfg_rsp_ct_exponent = 0,
      cfg_measurement_specification = 1, cfg_measurement_hash_algo = 4,
      cfg_base_hash_algo = SpdmBaseHashAlgo_TPM_ALG_SHA_384, cfg_base_asym_algo = 0x80,
      cfg_dhe_algo = SpdmDheAlgo_SECP_384_R1, cfg_aead_algo = SpdmAeadAlgo_AES_256_GCM,
      cfg_req_asym_algo = 0, cfg_key_schedule_algo = SpdmKeyScheduleAlgo_SPDM_KEY_SCHEDULE,
      cfg_other_params_support = 0, cfg_session_policy = 0, cfg_runtime_content_change_support = False,
      cfg_data_transfer_size = 4096, cfg_max_spdm_msg_size = 4096, cfg_heartbeat_period = 0,
      cfg_secure_spdm_version = [None, None, None], cfg_mel_specification = 0, cfg_pqc_asym_algo = 0,
      cfg_pqc_req_asym_algo = 0, cfg_kem_algo = 0\<rparr>"

definition sample_context :: "bytes SpdmContext" where
  "sample_context =
     (SpdmContext_new sample_config SpdmProvisionInfo_default)
       \<lparr>negotiate_info := SpdmNegotiateInfo_default
          \<lparr>spdm_version_sel := SpdmVersion12, base_hash_sel := SpdmBaseHashAlgo_TPM_ALG_SHA_384\<rparr>\<rparr>"

text \<open>The same endpoint with a session of a pre-shared key in the first slot.\<close>

definition sample_psk_session :: "bytes SpdmSession" where
  "sample_psk_session = set_crypto_param SpdmBaseHashAlgo_TPM_ALG_SHA_384 0 0 SpdmAeadAlgo_AES_256_GCM
     SpdmKeyScheduleAlgo_SPDM_KEY_SCHEDULE (SpdmSession_new\<lparr>session_id := 0xFFFDFFFD, use_psk := True\<rparr>)"

definition sample_psk_context :: "bytes SpdmContext" where
  "sample_psk_context = put_session 0 sample_psk_session sample_context"

lemma sample_psk_context_fields [simp]:
  "negotiate_info sample_psk_context = SpdmNegotiateInfo_default
     \<lparr>spdm_version_sel := SpdmVersion12, base_hash_sel := SpdmBaseHashAlgo_TPM_ALG_SHA_384\<rparr>"
  "runtime_info sample_psk_context = SpdmRuntimeInfo_default"
  by (simp_all add: sample_psk_context_def sample_context_def SpdmContext_new_def)

lemma sample_psk_session_fields [simp]:
  "session_id sample_psk_session = 0xFFFDFFFD" "use_psk sample_psk_session" "mut_auth_requested sample_psk_session = 0"
  "base_hash_algo (crypto_param sample_psk_session) = SpdmBaseHashAlgo_TPM_ALG_SHA_384"
  "s_runtime_info sample_psk_session = SpdmSessionRuntimeInfo_default"
  by (simp_all add: sample_psk_session_def set_crypto_param_def SpdmSession_new_def)

lemma sample_psk_get [simp]: "get_session_via_id 0xFFFDFFFD sample_psk_context = Some sample_psk_session"
  by (simp add: sample_psk_context_def sample_context_def SpdmContext_new_def put_session_def
      get_session_via_id_def numeral_eq_Suc SpdmSession_new_def)

lemma sample_psk_hashed:
  "\<exists>h sh. run_steps (map (append_message_k sample_crypto 0xFFFDFFFD) ([1, 2] # []) @
       map (append_message_f sample_crypto False 0xFFFDFFFD) [[3]]) sample_psk_context = (Ok (), h)
     \<and> get_session_via_id 0xFFFDFFFD h = Some sh"
proof -
  have "hash_ctx_init sample_crypto SpdmBaseHashAlgo_TPM_ALG_SHA_384 \<noteq> None" by (simp add: sample_crypto_def)
  then show ?thesis
    by (auto simp: append_message_k_def feed_def sample_updates append_message_f_def message_f_prefix_def
        SpdmSessionRuntimeInfo_default_def SpdmRuntimeInfo_default_def Let_def simp del: hash_updates.simps)
qed

lemma sample_psk_raw:
  "\<exists>r sr d. run_steps (map (append_message_k_raw 0xFFFDFFFD) ([1, 2] # []) @
       map (append_message_f_raw 0xFFFDFFFD) [[3]]) sample_psk_context = (Ok (), r)
     \<and> get_session_via_id 0xFFFDFFFD r = Some sr \<and> calc_rsp_transcript_hash_raw sample_crypto True False sr r = Ok d"
proof -
  obtain k where k: "ManagedBuffer_append_message [1, 2] (ManagedBuffer_default MAX_MANAGED_BUFFER_K_SIZE) = Some (length [1 :: u8, 2], k)"
    "ManagedBuffer_as_ref k = [1, 2]"
    using ManagedBuffer_append_fits [OF ManagedBuffer_default_ok, of MAX_MANAGED_BUFFER_K_SIZE "[1, 2]"] by auto
  obtain f where f: "ManagedBuffer_append_message [3] (ManagedBuffer_default MAX_MANAGED_BUFFER_F_SIZE) = Some (1, f)"
    "ManagedBuffer_as_ref f = [3]"
    using ManagedBuffer_append_fits [OF ManagedBuffer_default_ok, of MAX_MANAGED_BUFFER_F_SIZE "[3]"] by auto
  obtain m where m: "bindR (append_all [[]] (ManagedBuffer_default MAX_MANAGED_BUFFER_TH_SIZE)) (\<lambda>m.
      bindR (append_all [[1, 2]] m) (append_all [[3]])) = Ok m"
    using append_all_fits [OF ManagedBuffer_default_ok, of MAX_MANAGED_BUFFER_TH_SIZE "[[]] @ [[1, 2]] @ [[3]]"]
    unfolding append_all_append by auto
  define s1 where "s1 = upd_srt (\<lambda>r. r\<lparr>s_message_k := k\<rparr>) sample_psk_session"
  define s2 where "s2 = upd_srt (\<lambda>r. r\<lparr>s_message_f := f\<rparr>) s1"
  define r1 where "r1 = put_session 0xFFFDFFFD s1 sample_psk_context"
  define r2 where "r2 = put_session 0xFFFDFFFD s2 r1"
  have "append_message_k_raw 0xFFFDFFFD [1, 2] sample_psk_context = (Ok (), r1)"
    using k by (simp add: append_message_k_raw_def SpdmSessionRuntimeInfo_default_def r1_def s1_def)
  moreover have g1: "get_session_via_id 0xFFFDFFFD r1 = Some s1" by (simp add: r1_def s1_def)
  moreover from this have "append_message_f_raw 0xFFFDFFFD [3] r1 = (Ok (), r2)"
    using f by (simp add: append_message_f_raw_def SpdmSessionRuntimeInfo_default_def r2_def s2_def s1_def)
  moreover have "get_session_via_id 0xFFFDFFFD r2 = Some s2"
    using g1 by (simp add: r2_def s2_def s1_def)
  moreover have "calc_rsp_transcript_hash_raw sample_crypto True False s2 r2
      = ok_or (Fail SPDM_STATUS_CRYPTO_ERROR) (hash_all sample_crypto SpdmBaseHashAlgo_TPM_ALG_SHA_384 (ManagedBuffer_as_ref m))"
    using m k(2) f(2)
    by (simp add: calc_rsp_transcript_hash_raw_def calc_rsp_transcript_data_def calc_transcript_data_def
        s2_def s1_def r2_def r1_def SpdmRuntimeInfo_default_def del: append_all.simps)
  ultimately show ?thesis by (auto simp: sample_crypto_def)
qed

text \<open>A VERSION response, and a secured message version.\<close>

definition sample_version_rsp :: SpdmVersionResponsePayload where
  "sample_version_rsp = \<lparr>version_number_entry_count = 2,
     versions = [\<lparr>vs_update = 0, vs_version = SpdmVersion12\<rparr>, \<lparr>vs_update = 0, vs_version = SpdmVersion11\<rparr>]
       @ replicate 3 SpdmVersionStruct_default\<rparr>"

definition sample_sm_version :: SecuredMessageVersion where
  "sample_sm_version = \<lparr>major_version = 1, minor_version = 1, update_version_number = 0, alpha = 0\<rparr>"

end
