(* ===== verification/MsgInfo.thy ===== *)
theory MsgInfo
  imports MsgSession
begin

text \<open>
  The messages that deliver certificates and measurements and carry vendor defined data: GET_DIGESTS,
  GET_CERTIFICATE, CHALLENGE, GET_MEASUREMENTS and VENDOR_DEFINED with their responses
  (\<open>src/spdmlib/src/message/digest.rs\<close>, \<open>certificate.rs\<close>, \<open>challenge.rs\<close>, \<open>measurement.rs\<close>, \<open>vendor.rs\<close>), and
  the measurement record of \<open>common/spdm_codec.rs\<close>.
\<close>

subsection \<open>GET_DIGESTS and DIGESTS\<close>

definition SpdmGetDigestsRequestPayload_spdm_encode :: "fault encoder" where
  "SpdmGetDigestsRequestPayload_spdm_encode = enc_seq [full (u8_encode 0), full (u8_encode 0)]"

definition SpdmGetDigestsRequestPayload_spdm_read :: "unit decoder" where
  "SpdmGetDigestsRequestPayload_spdm_read = params_read"

record SpdmDigestsResponsePayload =
  dg_slot_mask :: u8
  dg_digests :: "SpdmDigestStruct list"
  dg_supported_slot_mask :: u8
  dg_key_pair_id :: "u8 list"
  dg_certificate_info :: "SpdmCertificateModelType list"
  dg_key_usage_mask :: "SpdmKeyUsageMask list"

definition slot_count :: "u8 \<Rightarrow> usize" where
  "slot_count slot_mask = length (filter (\<lambda>i. slot_mask AND push_bit i 1 \<noteq> 0) [0..<8])"

definition multi_key_rsp :: "'h SpdmContext \<Rightarrow> bool" where
  "multi_key_rsp ctx \<longleftrightarrow> SpdmVersion13 \<le> ver_sel ctx \<and> multi_key_conn_rsp (negotiate_info ctx)"

definition SpdmDigestsResponsePayload_spdm_encode ::
  "'h SpdmContext \<Rightarrow> SpdmDigestsResponsePayload \<Rightarrow> fault encoder" where
  "SpdmDigestsResponsePayload_spdm_encode ctx self =
     (let count = slot_count (dg_slot_mask self) in enc_seq
       ([full (u8_encode (if SpdmVersion13 \<le> ver_sel ctx then dg_supported_slot_mask self else 0)),
         full (u8_encode (dg_slot_mask self))] @
        map (SpdmDigestStruct_spdm_encode ctx) (take count (dg_digests self)) @
        (if multi_key_rsp ctx
         then [full (array_encode u8_encode (take count (dg_key_pair_id self))),
               full (array_encode (enum_encode u8_encode SpdmCertificateModelType_get_u8) (take count (dg_certificate_info self))),
               full (array_encode SpdmKeyUsageMask_encode (take count (dg_key_usage_mask self)))]
         else [])))"

fun spdm_read_vec :: "'a spdm_decoder \<Rightarrow> nat \<Rightarrow> 'a list spdm_decoder" where
  "spdm_read_vec rd 0 r = Inr ([], r)"
| "spdm_read_vec rd (Suc n) r =
     bindR (rd r) (\<lambda>(x, r). bindR (spdm_read_vec rd n r) (\<lambda>(xs, r). Inr (x # xs, r)))"

text \<open>The slots that a message does not fill have a default value.\<close>

definition slot_array :: "'a \<Rightarrow> 'a list \<Rightarrow> 'a list" where
  "slot_array d xs = copy_at 0 xs (replicate SPDM_MAX_SLOT_NUMBER d)"

definition key_info_read ::
  "nat \<Rightarrow> (u8 list \<times> SpdmCertificateModelType list \<times> SpdmKeyUsageMask list) decoder" where
  "key_info_read n r = do {
     (ids, r) \<leftarrow> array_read u8_read n r;
     (infos, r) \<leftarrow> array_read (enum_read u8_read SpdmCertificateModelType_of_u8) n r;
     (masks, r) \<leftarrow> array_read SpdmKeyUsageMask_read n r;
     Some ((ids, infos, masks), r) }"

definition SpdmDigestsResponsePayload_spdm_read ::
  "'h SpdmContext \<Rightarrow> SpdmDigestsResponsePayload spdm_decoder" where
  "SpdmDigestsResponsePayload_spdm_read ctx r =
     bindR (or_none (u8_read r)) (\<lambda>(param1, r).
     bindR (or_none (u8_read r)) (\<lambda>(slot_mask, r).
     bindR (spdm_read_vec (SpdmDigestStruct_spdm_read ctx) (slot_count slot_mask) r) (\<lambda>(digests, r).
     bindR (opt_spdm_read (multi_key_rsp ctx) (\<lambda>r. or_none (key_info_read (slot_count slot_mask) r)) ([], [], []) r)
       (\<lambda>((ids, infos, masks), r).
     Inr (\<lparr>dg_slot_mask = slot_mask, dg_digests = slot_array SpdmDigestStruct_default digests,
           dg_supported_slot_mask = (if SpdmVersion13 \<le> ver_sel ctx then param1 else 0),
           dg_key_pair_id = slot_array 0 ids, dg_certificate_info = slot_array SpdmCertModelTypeNone infos,
           dg_key_usage_mask = slot_array 0 masks\<rparr>, r)))))"

subsection \<open>GET_CERTIFICATE and CERTIFICATE\<close>

abbreviation (input) MAX_SPDM_CERT_PORTION_LEN :: usize where "MAX_SPDM_CERT_PORTION_LEN \<equiv> 512"

record SpdmGetCertificateRequestPayload =
  gce_slot_id :: u8
  gce_offset :: u32
  gce_length :: u32

text \<open>Both sides use large responses.\<close>

definition large_resp :: "'h SpdmContext \<Rightarrow> bool" where
  "large_resp ctx \<longleftrightarrow> SpdmVersion14 \<le> ver_sel ctx
     \<and> rsp_has ctx SpdmResponseCapabilityFlags_LARGE_RESP_CAP \<and> req_has ctx SpdmRequestCapabilityFlags_LARGE_RESP_CAP"

text \<open>The first parameter and two lengths, of 16 bits or of 32 bits after two zero fields.\<close>

definition cert_header_encode :: "'h SpdmContext \<Rightarrow> u8 \<Rightarrow> u32 \<Rightarrow> u32 \<Rightarrow> fault encoder list" where
  "cert_header_encode ctx slot_id a b =
     [full (u8_encode (slot_id AND 0xF OR (if large_resp ctx then 0x80 else 0x00))), full (u8_encode 0)] @
     (if large_resp ctx
      then [full (u16_encode 0), full (u16_encode 0), full (u32_encode a), full (u32_encode b)]
      else [full (u16_encode (ucast (a AND 0xffff))), full (u16_encode (ucast (b AND 0xffff)))])"

definition cert_header_read :: "'h SpdmContext \<Rightarrow> (u8 \<times> u32 \<times> u32) decoder" where
  "cert_header_read ctx r = do {
     (param1, r) \<leftarrow> u8_read r;
     let slot_id = param1 AND 0xF;
     let large = (param1 AND 0x80 \<noteq> 0);
     if of_nat SPDM_MAX_SLOT_NUMBER \<le> slot_id \<or> (large \<and> \<not> large_resp ctx) then None
     else do {
       (_, r) \<leftarrow> u8_read r;
       if large
       then do {
         (_, r) \<leftarrow> u16_read r;
         (_, r) \<leftarrow> u16_read r;
         (a, r) \<leftarrow> u32_read r;
         (b, r) \<leftarrow> u32_read r;
         Some ((slot_id, a, b), r) }
       else do {
         (a, r) \<leftarrow> u16_read r;
         (b, r) \<leftarrow> u16_read r;
         Some ((slot_id, ucast a, ucast b), r) } } }"

definition SpdmGetCertificateRequestPayload_spdm_encode ::
  "'h SpdmContext \<Rightarrow> SpdmGetCertificateRequestPayload \<Rightarrow> fault encoder" where
  "SpdmGetCertificateRequestPayload_spdm_encode ctx self =
     enc_seq (cert_header_encode ctx (gce_slot_id self) (gce_offset self) (gce_length self))"

definition SpdmGetCertificateRequestPayload_spdm_read ::
  "'h SpdmContext \<Rightarrow> SpdmGetCertificateRequestPayload decoder" where
  "SpdmGetCertificateRequestPayload_spdm_read ctx r = do {
     ((slot_id, offset, len), r) \<leftarrow> cert_header_read ctx r;
     Some (\<lparr>gce_slot_id = slot_id, gce_offset = offset, gce_length = len\<rparr>, r) }"

record SpdmCertificateResponsePayload =
  cer_slot_id :: u8
  cer_portion_length :: u32
  cer_remainder_length :: u32
  cer_cert_chain :: bytes

definition SpdmCertificateResponsePayload_spdm_encode ::
  "'h SpdmContext \<Rightarrow> SpdmCertificateResponsePayload \<Rightarrow> fault encoder" where
  "SpdmCertificateResponsePayload_spdm_encode ctx self = enc_seq
     (cert_header_encode ctx (cer_slot_id self) (cer_portion_length self) (cer_remainder_length self) @
      [full (array_encode u8_encode (take (unat (cer_portion_length self)) (cer_cert_chain self)))])"

definition SpdmCertificateResponsePayload_spdm_read ::
  "'h SpdmContext \<Rightarrow> SpdmCertificateResponsePayload decoder" where
  "SpdmCertificateResponsePayload_spdm_read ctx r = do {
     ((slot_id, portion_length, remainder_length), r) \<leftarrow> cert_header_read ctx r;
     (bs, r) \<leftarrow> array_read u8_read (min (unat portion_length) MAX_SPDM_CERT_PORTION_LEN) r;
     Some (\<lparr>cer_slot_id = slot_id, cer_portion_length = portion_length, cer_remainder_length = remainder_length,
            cer_cert_chain = copy_at 0 bs (replicate MAX_SPDM_CERT_PORTION_LEN 0)\<rparr>, r) }"

subsection \<open>CHALLENGE and CHALLENGE_AUTH\<close>

record SpdmChallengeRequestPayload =
  ch_slot_id :: u8
  ch_measurement_summary_hash_type :: SpdmMeasurementSummaryHashType
  ch_nonce :: bytes
  ch_context :: bytes

definition SpdmChallengeRequestPayload_spdm_encode ::
  "'h SpdmContext \<Rightarrow> SpdmChallengeRequestPayload \<Rightarrow> fault encoder" where
  "SpdmChallengeRequestPayload_spdm_encode ctx self = enc_seq
     ([full (u8_encode (ch_slot_id self)),
       full (enum_encode u8_encode SpdmMeasurementSummaryHashType_get_u8 (ch_measurement_summary_hash_type self)),
       full (fixed_encode SPDM_NONCE_SIZE (ch_nonce self))] @
      (if SpdmVersion13 \<le> ver_sel ctx then [full (fixed_encode SPDM_CHALLENGE_CONTEXT_SIZE (ch_context self))] else []))"

definition opt_fixed_read :: "bool \<Rightarrow> usize \<Rightarrow> bytes decoder" where
  "opt_fixed_read c n r = (if c then fixed_read n r else Some (replicate n 0, r))"

definition SpdmChallengeRequestPayload_spdm_read :: "'h SpdmContext \<Rightarrow> SpdmChallengeRequestPayload decoder" where
  "SpdmChallengeRequestPayload_spdm_read ctx r = do {
     (slot_id, r) \<leftarrow> slot_id_read r;
     (t, r) \<leftarrow> summary_type_read ctx r;
     (nonce, r) \<leftarrow> fixed_read SPDM_NONCE_SIZE r;
     (requester_context, r) \<leftarrow> opt_fixed_read (SpdmVersion13 \<le> ver_sel ctx) SPDM_CHALLENGE_CONTEXT_SIZE r;
     Some (\<lparr>ch_slot_id = slot_id, ch_measurement_summary_hash_type = t, ch_nonce = nonce,
            ch_context = requester_context\<rparr>, r) }"

type_synonym SpdmChallengeAuthAttribute = u8

abbreviation (input) BASIC_MUT_AUTH_REQ :: SpdmChallengeAuthAttribute where "BASIC_MUT_AUTH_REQ \<equiv> 0x80"

record SpdmChallengeAuthResponsePayload =
  cha_slot_id :: u8
  cha_slot_mask :: u8
  cha_challenge_auth_attribute :: SpdmChallengeAuthAttribute
  cha_cert_chain_hash :: SpdmDigestStruct
  cha_nonce :: bytes
  cha_measurement_summary_hash :: SpdmDigestStruct
  cha_opaque :: SpdmOpaqueStruct
  cha_requester_context :: bytes
  cha_signature :: SpdmSignatureStruct

text \<open>An addition of bytes, which panics when it overflows.\<close>

definition sum_encode :: "u8 \<Rightarrow> u8 \<Rightarrow> fault encoder" where
  "sum_encode a b = asserting (unat a + unat b < 256) (full (u8_encode (a + b)))"

definition SpdmChallengeAuthResponsePayload_spdm_encode ::
  "'h SpdmContext \<Rightarrow> SpdmChallengeAuthResponsePayload \<Rightarrow> fault encoder" where
  "SpdmChallengeAuthResponsePayload_spdm_encode ctx self = enc_seq
     ([sum_encode (cha_slot_id self) (cha_challenge_auth_attribute self),
       full (u8_encode (cha_slot_mask self)),
       SpdmDigestStruct_spdm_encode ctx (cha_cert_chain_hash self),
       full (fixed_encode SPDM_NONCE_SIZE (cha_nonce self))] @
      (if need_measurement_summary_hash (runtime_info ctx)
       then [SpdmDigestStruct_spdm_encode ctx (cha_measurement_summary_hash self)] else []) @
      [SpdmOpaqueStruct_spdm_encode (cha_opaque self)] @
      (if SpdmVersion13 \<le> ver_sel ctx
       then [full (fixed_encode SPDM_CHALLENGE_CONTEXT_SIZE (cha_requester_context self))] else []) @
      [SpdmSignatureStruct_spdm_encode ctx (cha_signature self)])"

definition SpdmChallengeAuthResponsePayload_spdm_read ::
  "'h SpdmContext \<Rightarrow> SpdmChallengeAuthResponsePayload spdm_decoder" where
  "SpdmChallengeAuthResponsePayload_spdm_read ctx r =
     bindR (or_none (u8_read r)) (\<lambda>(param1, r).
     let slot_id = param1 AND 0xF in
     if of_nat SPDM_MAX_SLOT_NUMBER \<le> slot_id \<and> slot_id \<noteq> 0xF then Inl ENone
     else bindR (or_none (u8_read r)) (\<lambda>(slot_mask, r).
       bindR (SpdmDigestStruct_spdm_read ctx r) (\<lambda>(cert_chain_hash, r).
       bindR (or_none (fixed_read SPDM_NONCE_SIZE r)) (\<lambda>(nonce, r).
       bindR (opt_spdm_read (need_measurement_summary_hash (runtime_info ctx)) (SpdmDigestStruct_spdm_read ctx)
                SpdmDigestStruct_default r) (\<lambda>(msh, r).
       bindR (or_none (SpdmOpaqueStruct_spdm_read r)) (\<lambda>(opq, r).
       bindR (or_none (opt_fixed_read (SpdmVersion13 \<le> ver_sel ctx) SPDM_CHALLENGE_CONTEXT_SIZE r)) (\<lambda>(requester_context, r).
       bindR (SpdmSignatureStruct_spdm_read ctx r) (\<lambda>(sig, r).
       Inr (\<lparr>cha_slot_id = slot_id, cha_slot_mask = slot_mask,
             cha_challenge_auth_attribute = param1 AND BASIC_MUT_AUTH_REQ,
             cha_cert_chain_hash = cert_chain_hash, cha_nonce = nonce, cha_measurement_summary_hash = msh,
             cha_opaque = opq, cha_requester_context = requester_context, cha_signature = sig\<rparr>, r)))))))))"

subsection \<open>Measurement records\<close>

abbreviation (input) MAX_SPDM_MEASUREMENT_VALUE_LEN :: usize where "MAX_SPDM_MEASUREMENT_VALUE_LEN \<equiv> 1024"

datatype SpdmDmtfMeasurementType =
    SpdmDmtfMeasurementRom | SpdmDmtfMeasurementFirmware | SpdmDmtfMeasurementHardwareConfig
  | SpdmDmtfMeasurementFirmwareConfig | SpdmDmtfMeasurementManifest
  | SpdmDmtfMeasurementStructuredRepresentationMode | SpdmDmtfMeasurementMutableFirmwareVersionNumber
  | SpdmDmtfMeasurementMutableFirmwareSecurityVersionNumber | SpdmDmtfMeasurementHashExtendMeasurement
  | SpdmDmtfMeasurementInformational | SpdmDmtfMeasurementStructuredManifest
  | SpdmDmtfMeasurementTypeUnknown u8

fun SpdmDmtfMeasurementType_get_u8 :: "SpdmDmtfMeasurementType \<Rightarrow> u8" where
  "SpdmDmtfMeasurementType_get_u8 SpdmDmtfMeasurementRom = 0x0"
| "SpdmDmtfMeasurementType_get_u8 SpdmDmtfMeasurementFirmware = 0x1"
| "SpdmDmtfMeasurementType_get_u8 SpdmDmtfMeasurementHardwareConfig = 0x2"
| "SpdmDmtfMeasurementType_get_u8 SpdmDmtfMeasurementFirmwareConfig = 0x3"
| "SpdmDmtfMeasurementType_get_u8 SpdmDmtfMeasurementManifest = 0x4"
| "SpdmDmtfMeasurementType_get_u8 SpdmDmtfMeasurementStructuredRepresentationMode = 0x5"
| "SpdmDmtfMeasurementType_get_u8 SpdmDmtfMeasurementMutableFirmwareVersionNumber = 0x6"
| "SpdmDmtfMeasurementType_get_u8 SpdmDmtfMeasurementMutableFirmwareSecurityVersionNumber = 0x7"
| "SpdmDmtfMeasurementType_get_u8 SpdmDmtfMeasurementHashExtendMeasurement = 0x8"
| "SpdmDmtfMeasurementType_get_u8 SpdmDmtfMeasurementInformational = 0x9"
| "SpdmDmtfMeasurementType_get_u8 SpdmDmtfMeasurementStructuredManifest = 0xA"
| "SpdmDmtfMeasurementType_get_u8 (SpdmDmtfMeasurementTypeUnknown x) = x"

datatype SpdmDmtfMeasurementRepresentation =
    SpdmDmtfMeasurementDigest | SpdmDmtfMeasurementRawBit | SpdmDmtfMeasurementRepresentationUnknown u8

fun SpdmDmtfMeasurementRepresentation_get_u8 :: "SpdmDmtfMeasurementRepresentation \<Rightarrow> u8" where
  "SpdmDmtfMeasurementRepresentation_get_u8 SpdmDmtfMeasurementDigest = 0x0"
| "SpdmDmtfMeasurementRepresentation_get_u8 SpdmDmtfMeasurementRawBit = 0x80"
| "SpdmDmtfMeasurementRepresentation_get_u8 (SpdmDmtfMeasurementRepresentationUnknown x) = x"

record SpdmDmtfMeasurementStructure =
  dm_type :: SpdmDmtfMeasurementType
  dm_representation :: SpdmDmtfMeasurementRepresentation
  dm_value_size :: u16
  dm_value :: bytes

definition SpdmDmtfMeasurementStructure_spdm_encode :: "SpdmDmtfMeasurementStructure \<Rightarrow> fault encoder" where
  "SpdmDmtfMeasurementStructure_spdm_encode self = enc_seq
     [sum_encode (SpdmDmtfMeasurementType_get_u8 (dm_type self))
        (SpdmDmtfMeasurementRepresentation_get_u8 (dm_representation self)),
      full (u16_encode (dm_value_size self)),
      full (array_encode u8_encode (take (unat (dm_value_size self)) (dm_value self)))]"

text \<open>The type of a measurement, where some types need one representation.\<close>

definition measurement_type :: "u8 \<Rightarrow> SpdmDmtfMeasurementRepresentation \<Rightarrow> SpdmDmtfMeasurementType option" where
  "measurement_type v rep =
     (let only = (\<lambda>r t. if rep = r then Some t else None) in
      if v = 0 then Some SpdmDmtfMeasurementRom
      else if v = 1 then Some SpdmDmtfMeasurementFirmware
      else if v = 2 then Some SpdmDmtfMeasurementHardwareConfig
      else if v = 3 then Some SpdmDmtfMeasurementFirmwareConfig
      else if v = 4 then Some SpdmDmtfMeasurementManifest
      else if v = 5 then only SpdmDmtfMeasurementRawBit SpdmDmtfMeasurementStructuredRepresentationMode
      else if v = 6 then only SpdmDmtfMeasurementRawBit SpdmDmtfMeasurementMutableFirmwareVersionNumber
      else if v = 7 then only SpdmDmtfMeasurementRawBit SpdmDmtfMeasurementMutableFirmwareSecurityVersionNumber
      else if v = 8 then only SpdmDmtfMeasurementDigest SpdmDmtfMeasurementHashExtendMeasurement
      else if v = 9 then only SpdmDmtfMeasurementRawBit SpdmDmtfMeasurementInformational
      else if v = 0xA then Some SpdmDmtfMeasurementStructuredManifest
      else Some (SpdmDmtfMeasurementTypeUnknown v))"

definition SpdmDmtfMeasurementStructure_spdm_read ::
  "'h SpdmContext \<Rightarrow> SpdmDmtfMeasurementStructure spdm_decoder" where
  "SpdmDmtfMeasurementStructure_spdm_read ctx r =
     bindR (or_none (u8_read r)) (\<lambda>(final_value, r).
     let rep = (if final_value AND 0x80 = 0 then SpdmDmtfMeasurementDigest else SpdmDmtfMeasurementRawBit) in
     bindR (or_none (measurement_type (final_value AND 0x7f) rep)) (\<lambda>t.
     bindR (or_none (u16_read r)) (\<lambda>(value_size, r).
     if MAX_SPDM_MEASUREMENT_VALUE_LEN < unat value_size then Inl ENone
     else bindR (if rep = SpdmDmtfMeasurementDigest
                 then bindR (or_panic (SpdmMeasurementHashAlgo_get_size (measurement_hash_sel (negotiate_info ctx)))) (\<lambda>h.
                      Inr (value_size = h
                           \<and> measurement_hash_sel (negotiate_info ctx) \<noteq> SpdmMeasurementHashAlgo_RAW_BIT_STREAM))
                 else Inr True) (\<lambda>ok.
       if \<not> ok then Inl ENone
       else bindR (or_none (array_read u8_read (unat value_size) r)) (\<lambda>(bs, r).
         Inr (\<lparr>dm_type = t, dm_representation = rep, dm_value_size = value_size,
               dm_value = copy_at 0 bs (replicate MAX_SPDM_MEASUREMENT_VALUE_LEN 0)\<rparr>, r))))))"

record SpdmMeasurementBlockStructure =
  mb_index :: u8
  mb_measurement_specification :: SpdmMeasurementSpecification
  mb_measurement_size :: u16
  mb_measurement :: SpdmDmtfMeasurementStructure

definition SpdmMeasurementBlockStructure_spdm_encode :: "SpdmMeasurementBlockStructure \<Rightarrow> fault encoder" where
  "SpdmMeasurementBlockStructure_spdm_encode self = enc_seq
     [full (u8_encode (mb_index self)),
      full (SpdmMeasurementSpecification_encode (mb_measurement_specification self)),
      full (u16_encode (mb_measurement_size self)),
      SpdmDmtfMeasurementStructure_spdm_encode (mb_measurement self)]"

definition SpdmMeasurementBlockStructure_spdm_read ::
  "'h SpdmContext \<Rightarrow> SpdmMeasurementBlockStructure spdm_decoder" where
  "SpdmMeasurementBlockStructure_spdm_read ctx r =
     bindR (or_none (u8_read r)) (\<lambda>(index, r).
     bindR (or_none (SpdmMeasurementSpecification_read r)) (\<lambda>(spec, r).
     if spec \<noteq> SpdmMeasurementSpecification_DMTF then Inl ENone
     else bindR (or_none (u16_read r)) (\<lambda>(sz, r).
       if 3 + MAX_SPDM_MEASUREMENT_VALUE_LEN < unat sz then Inl ENone
       else bindR (SpdmDmtfMeasurementStructure_spdm_read ctx r) (\<lambda>(m, r).
         if sz \<noteq> 3 + dm_value_size m then Inl ENone
         else Inr (\<lparr>mb_index = index, mb_measurement_specification = spec, mb_measurement_size = sz,
                    mb_measurement = m\<rparr>, r)))))"

record SpdmMeasurementRecordStructure =
  mr_number_of_blocks :: u8
  mr_measurement_record_length :: u24
  mr_measurement_record_data :: bytes

definition SpdmMeasurementRecordStructure_default :: SpdmMeasurementRecordStructure where
  "SpdmMeasurementRecordStructure_default =
     \<lparr>mr_number_of_blocks = 0, mr_measurement_record_length = 0,
      mr_measurement_record_data = replicate MAX_SPDM_MEASUREMENT_RECORD_SIZE 0\<rparr>"

text \<open>The loop over the blocks, whose indices increase, ends at the end of the record.\<close>

fun verify_blocks :: "'h SpdmContext \<Rightarrow> nat \<Rightarrow> u8 \<Rightarrow> Reader \<Rightarrow> bool popt" where
  "verify_blocks ctx 0 cur r = Inr (\<not> Reader_any_left r)"
| "verify_blocks ctx (Suc n) cur r =
     (case SpdmMeasurementBlockStructure_spdm_read ctx r of
        Inl EPanic \<Rightarrow> Inl EPanic
      | Inl ENone \<Rightarrow> Inr False
      | Inr (block, r) \<Rightarrow> if mb_index block \<le> cur then Inr False else verify_blocks ctx n (mb_index block) r)"

definition verify_measurement_record :: "'h SpdmContext \<Rightarrow> SpdmMeasurementRecordStructure \<Rightarrow> bool popt" where
  "verify_measurement_record ctx self =
     (if length (mr_measurement_record_data self) < unat (mr_measurement_record_length self) then Inl EPanic
      else verify_blocks ctx (unat (mr_number_of_blocks self)) 0
             (Reader_init (take (unat (mr_measurement_record_length self)) (mr_measurement_record_data self))))"

definition SpdmMeasurementRecordStructure_spdm_encode :: "SpdmMeasurementRecordStructure \<Rightarrow> fault encoder" where
  "SpdmMeasurementRecordStructure_spdm_encode self = enc_seq
     [full (u8_encode (mr_number_of_blocks self)),
      full (u24_encode (mr_measurement_record_length self)),
      full (array_encode u8_encode (take (unat (mr_measurement_record_length self)) (mr_measurement_record_data self)))]"

definition SpdmMeasurementRecordStructure_spdm_read ::
  "'h SpdmContext \<Rightarrow> SpdmMeasurementRecordStructure spdm_decoder" where
  "SpdmMeasurementRecordStructure_spdm_read ctx r =
     bindR (or_none (u8_read r)) (\<lambda>(number_of_blocks, r).
     bindR (or_none (u24_read r)) (\<lambda>(len, r).
     if MAX_SPDM_MEASUREMENT_RECORD_SIZE < unat len then Inl ENone
     else bindR (or_none (array_read u8_read (unat len) r)) (\<lambda>(bs, r).
       let mr = \<lparr>mr_number_of_blocks = number_of_blocks, mr_measurement_record_length = len,
                 mr_measurement_record_data = copy_at 0 bs (replicate MAX_SPDM_MEASUREMENT_RECORD_SIZE 0)\<rparr> in
       bindR (verify_measurement_record ctx mr) (\<lambda>ok. if ok then Inr (mr, r) else Inl ENone))))"

subsection \<open>GET_MEASUREMENTS and MEASUREMENTS\<close>

type_synonym SpdmMeasurementAttributes = u8

abbreviation (input) SIGNATURE_REQUESTED :: SpdmMeasurementAttributes where "SIGNATURE_REQUESTED \<equiv> 1"
abbreviation (input) SpdmMeasurementAttributes_VALID_MASK :: SpdmMeasurementAttributes where
  "SpdmMeasurementAttributes_VALID_MASK \<equiv> 7"

definition SpdmMeasurementAttributes_read :: "SpdmMeasurementAttributes decoder" where
  "SpdmMeasurementAttributes_read r = do {
     (bits, r) \<leftarrow> u8_read r;
     v \<leftarrow> from_bits SpdmMeasurementAttributes_VALID_MASK (bits AND SpdmMeasurementAttributes_VALID_MASK);
     Some (v, r) }"

record SpdmGetMeasurementsRequestPayload =
  gm_measurement_attributes :: SpdmMeasurementAttributes
  gm_measurement_operation :: SpdmMeasurementOperation
  gm_nonce :: bytes
  gm_slot_id :: u8
  gm_context :: bytes

definition SpdmGetMeasurementsRequestPayload_spdm_encode ::
  "'h SpdmContext \<Rightarrow> SpdmGetMeasurementsRequestPayload \<Rightarrow> fault encoder" where
  "SpdmGetMeasurementsRequestPayload_spdm_encode ctx self = enc_seq
     ([full (u8_encode (gm_measurement_attributes self)),
       full (SpdmMeasurementOperation_encode (gm_measurement_operation self))] @
      (if contains (gm_measurement_attributes self) SIGNATURE_REQUESTED
       then [full (fixed_encode SPDM_NONCE_SIZE (gm_nonce self))] @
            (if SpdmVersion11 \<le> ver_sel ctx then [full (u8_encode (gm_slot_id self))] else [])
       else []) @
      (if SpdmVersion13 \<le> ver_sel ctx then [full (fixed_encode SPDM_MEASUREMENTS_CONTEXT_SIZE (gm_context self))] else []))"

definition measurement_slot_ok :: "u8 \<Rightarrow> bool" where
  "measurement_slot_ok slot_id \<longleftrightarrow> \<not> (of_nat SPDM_MAX_SLOT_NUMBER \<le> slot_id \<and> slot_id \<noteq> 0xF)"

definition SpdmGetMeasurementsRequestPayload_spdm_read ::
  "'h SpdmContext \<Rightarrow> SpdmGetMeasurementsRequestPayload decoder" where
  "SpdmGetMeasurementsRequestPayload_spdm_read ctx r = do {
     (attributes, r) \<leftarrow> SpdmMeasurementAttributes_read r;
     (operation, r) \<leftarrow> SpdmMeasurementOperation_read r;
     let sig_requested = contains attributes SIGNATURE_REQUESTED;
     (nonce, r) \<leftarrow> opt_fixed_read sig_requested SPDM_NONCE_SIZE r;
     (slot_id, r) \<leftarrow> (if sig_requested \<and> SpdmVersion11 \<le> ver_sel ctx
                     then do { (s, r) \<leftarrow> u8_read r; Some (s AND 0xF, r) } else Some (0, r));
     if \<not> measurement_slot_ok slot_id then None
     else do {
       (requester_context, r) \<leftarrow> opt_fixed_read (SpdmVersion13 \<le> ver_sel ctx) SPDM_MEASUREMENTS_CONTEXT_SIZE r;
       Some (\<lparr>gm_measurement_attributes = attributes, gm_measurement_operation = operation, gm_nonce = nonce,
              gm_slot_id = slot_id, gm_context = requester_context\<rparr>, r) } }"

record SpdmMeasurementsResponsePayload =
  ms_number_of_measurement :: u8
  ms_content_changed :: SpdmMeasurementContentChanged
  ms_slot_id :: u8
  ms_measurement_record :: SpdmMeasurementRecordStructure
  ms_nonce :: bytes
  ms_opaque :: SpdmOpaqueStruct
  ms_requester_context :: bytes
  ms_signature :: SpdmSignatureStruct
  ms_measurement_operation :: SpdmMeasurementOperation

definition SpdmMeasurementsResponsePayload_spdm_encode ::
  "'h SpdmContext \<Rightarrow> SpdmMeasurementsResponsePayload \<Rightarrow> fault encoder" where
  "SpdmMeasurementsResponsePayload_spdm_encode ctx self =
     (let sig_requested = need_measurement_signature (runtime_info ctx) in enc_seq
       ([full (u8_encode (if ms_measurement_operation self = SpdmMeasurementQueryTotalNumber
                          then ms_number_of_measurement self else 0)),
         full (u8_encode (if SpdmVersion12 \<le> ver_sel ctx \<and> sig_requested
                          then ms_slot_id self OR SpdmMeasurementContentChanged_u8 (ms_content_changed self)
                          else if SpdmVersion11 \<le> ver_sel ctx \<and> sig_requested then ms_slot_id self else 0)),
         SpdmMeasurementRecordStructure_spdm_encode (ms_measurement_record self),
         full (fixed_encode SPDM_NONCE_SIZE (ms_nonce self)),
         SpdmOpaqueStruct_spdm_encode (ms_opaque self)] @
        (if SpdmVersion13 \<le> ver_sel ctx
         then [full (fixed_encode SPDM_MEASUREMENTS_CONTEXT_SIZE (ms_requester_context self))] else []) @
        (if sig_requested then [SpdmSignatureStruct_spdm_encode ctx (ms_signature self)] else [])))"

definition SpdmMeasurementsResponsePayload_spdm_read ::
  "'h SpdmContext \<Rightarrow> SpdmMeasurementsResponsePayload spdm_decoder" where
  "SpdmMeasurementsResponsePayload_spdm_read ctx r =
     bindR (or_none (u8_read r)) (\<lambda>(number_of_measurement, r).
     bindR (or_none (u8_read r)) (\<lambda>(param2, r).
     if \<not> measurement_slot_ok (param2 AND 0xF) then Inl ENone
     else bindR (or_none (SpdmMeasurementContentChanged_try_from (param2 AND 0x30))) (\<lambda>changed.
       bindR (SpdmMeasurementRecordStructure_spdm_read ctx r) (\<lambda>(mr, r).
       bindR (or_none (fixed_read SPDM_NONCE_SIZE r)) (\<lambda>(nonce, r).
       bindR (or_none (SpdmOpaqueStruct_spdm_read r)) (\<lambda>(opq, r).
       bindR (or_none (opt_fixed_read (SpdmVersion13 \<le> ver_sel ctx) SPDM_MEASUREMENTS_CONTEXT_SIZE r)) (\<lambda>(requester_context, r).
       bindR (opt_spdm_read (need_measurement_signature (runtime_info ctx)) (SpdmSignatureStruct_spdm_read ctx)
                SpdmSignatureStruct_default r) (\<lambda>(sig, r).
       Inr (\<lparr>ms_number_of_measurement = number_of_measurement, ms_content_changed = changed,
             ms_slot_id = param2 AND 0xF, ms_measurement_record = mr, ms_nonce = nonce, ms_opaque = opq,
             ms_requester_context = requester_context, ms_signature = sig,
             ms_measurement_operation = SpdmMeasurementOperationUnknown 0\<rparr>, r)))))))))"

subsection \<open>VENDOR_DEFINED\<close>

abbreviation (input) MAX_SPDM_VENDOR_DEFINED_PAYLOAD_SIZE :: usize where
  "MAX_SPDM_VENDOR_DEFINED_PAYLOAD_SIZE \<equiv> 4096 - 7 - 6"
abbreviation (input) MAX_SPDM_VENDOR_DEFINED_VENDOR_ID_LEN :: usize where
  "MAX_SPDM_VENDOR_DEFINED_VENDOR_ID_LEN \<equiv> 0xFF"
abbreviation (input) USE_LARGE_PAYLOAD :: u8 where "USE_LARGE_PAYLOAD \<equiv> 0x80"

text \<open>\<open>RegistryOrStandardsBodyID\<close> is carried as its number.\<close>

record VendorIDStruct =
  vid_len :: u8
  vid_vendor_id :: bytes

definition VendorIDStruct_encode :: "VendorIDStruct \<Rightarrow> encode_err encoder" where
  "VendorIDStruct_encode self =
     enc_seq [u8_encode (vid_len self), array_encode u8_encode (take (unat (vid_len self)) (vid_vendor_id self))]"

definition VendorIDStruct_read :: "VendorIDStruct decoder" where
  "VendorIDStruct_read r = do {
     (len, r) \<leftarrow> u8_read r;
     (bs, r) \<leftarrow> array_read u8_read (min (unat len) MAX_SPDM_VENDOR_DEFINED_VENDOR_ID_LEN) r;
     Some (\<lparr>vid_len = len, vid_vendor_id = copy_at 0 bs (replicate MAX_SPDM_VENDOR_DEFINED_VENDOR_ID_LEN 0)\<rparr>, r) }"

text \<open>\<open>VendorDefinedReqPayloadStruct\<close> and \<open>VendorDefinedRspPayloadStruct\<close>, plain and large.\<close>

record VendorDefinedPayloadStruct =
  vp_length :: u32
  vp_payload :: bytes

definition VendorDefinedPayload_encode :: "bool \<Rightarrow> VendorDefinedPayloadStruct \<Rightarrow> encode_err encoder" where
  "VendorDefinedPayload_encode large self = enc_seq
     ((if large then [u16_encode 0, u32_encode (vp_length self)] else [u16_encode (ucast (vp_length self))]) @
      [array_encode u8_encode (take (unat (vp_length self)) (vp_payload self))])"

definition VendorDefinedPayload_read :: "bool \<Rightarrow> VendorDefinedPayloadStruct decoder" where
  "VendorDefinedPayload_read large r = do {
     (len, r) \<leftarrow> (if large then do { (_, r) \<leftarrow> u16_read r; u32_read r }
                 else do { (n, r) \<leftarrow> u16_read r; Some (ucast n, r) });
     if MAX_SPDM_VENDOR_DEFINED_PAYLOAD_SIZE < unat len then None
     else do {
       (bs, r) \<leftarrow> array_read u8_read (unat len) r;
       Some (\<lparr>vp_length = len, vp_payload = copy_at 0 bs (replicate MAX_SPDM_VENDOR_DEFINED_PAYLOAD_SIZE 0)\<rparr>, r) } }"

text \<open>\<open>SpdmVendorDefinedRequestPayload\<close> and \<open>SpdmVendorDefinedResponsePayload\<close>, which have one layout.\<close>

record SpdmVendorDefinedPayload =
  vd_standard_id :: u16
  vd_vendor_id :: VendorIDStruct
  vd_payload :: VendorDefinedPayloadStruct

definition SpdmVendorDefinedPayload_spdm_encode :: "'h SpdmContext \<Rightarrow> SpdmVendorDefinedPayload \<Rightarrow> fault encoder" where
  "SpdmVendorDefinedPayload_spdm_encode ctx self = enc_seq
     [full (u8_encode (if large_resp ctx then USE_LARGE_PAYLOAD else 0)), full (u8_encode 0),
      full (u16_encode (vd_standard_id self)),
      full (VendorIDStruct_encode (vd_vendor_id self)),
      full (VendorDefinedPayload_encode (large_resp ctx) (vd_payload self))]"

definition SpdmVendorDefinedPayload_spdm_read :: "'h SpdmContext \<Rightarrow> SpdmVendorDefinedPayload decoder" where
  "SpdmVendorDefinedPayload_spdm_read ctx r = do {
     (param1, r) \<leftarrow> u8_read r;
     (_, r) \<leftarrow> u8_read r;
     let large = contains (param1 AND USE_LARGE_PAYLOAD) USE_LARGE_PAYLOAD;
     if large \<and> \<not> large_resp ctx then None
     else do {
       (standard_id, r) \<leftarrow> u16_read r;
       (vendor_id, r) \<leftarrow> VendorIDStruct_read r;
       (payload, r) \<leftarrow> VendorDefinedPayload_read large r;
       Some (\<lparr>vd_standard_id = standard_id, vd_vendor_id = vendor_id, vd_payload = payload\<rparr>, r) } }"

end
