(* ===== verification/Handler.thy ===== *)
theory Handler
  imports MsgInfo
begin

text \<open>
  What the request handlers of the responder share (\<open>src/spdmlib/src/responder\<close>): the services that
  both endpoints call, error responses (\<open>error_rsp.rs\<close>), the reading of the header and of the payload, and the
  encoding of a response.

  A handler takes the received bytes, the writer over the response buffer and the context, and
  returns its status, the bytes to send and the context. The construct
  \<open>if .. { self.write_spdm_error(code, 0, writer); return (Err(s), Some(writer.used_slice())); }\<close>
  is \<open>refuse\<close>. The laws give one rule per construct for properties of everything a handler can
  return.
\<close>

subsection \<open>Services\<close>

text \<open>
  The callbacks an integrator registers: cryptography, secrets and measurements, and the handlers of
  vendor defined and application messages. What fills a buffer returns the filled buffer.
\<close>

type_synonym 'h reply = "unit SpdmResult \<times> bytes option \<times> 'h SpdmContext"

text \<open>\<open>SpdmTransportEncap\<close>: the operations of a transport binding, which fill the buffer they are given.\<close>

record TransportEncap =
  tp_encap :: "bytes \<Rightarrow> bytes \<Rightarrow> bool \<Rightarrow> (usize \<times> bytes) SpdmResult"
  tp_decap :: "bytes \<Rightarrow> bytes \<Rightarrow> (usize \<times> bool \<times> bytes) SpdmResult"
  tp_encap_app :: "bytes \<Rightarrow> bytes \<Rightarrow> bool \<Rightarrow> (usize \<times> bytes) SpdmResult"
  tp_decap_app :: "bytes \<Rightarrow> bytes \<Rightarrow> (usize \<times> bool \<times> bytes) SpdmResult"
  tp_sequence_number_count :: u8
  tp_max_random_count :: u16

datatype SpdmDer = SpdmDerCertChain bytes | SpdmDerPubKeyRfc7250 bytes

record 'h Services =
  svc_crypto :: "'h Crypto"
  svc_get_random :: "usize \<Rightarrow> bytes SpdmResult"
  svc_get_cert_from_cert_chain :: "bytes \<Rightarrow> int \<Rightarrow> (usize \<times> usize) SpdmResult"
  svc_verify_cert_chain :: "bytes \<Rightarrow> unit SpdmResult"
  svc_kem_generate_key_pair ::
    "SpdmKemAlgo \<Rightarrow> (Sized \<times> (Sized \<Rightarrow> SpdmSharedSecretFinalKeyStruct option)) option"
  svc_kem_encap_key :: "SpdmKemAlgo \<Rightarrow> Sized \<Rightarrow> (Sized \<times> SpdmSharedSecretFinalKeyStruct) option"
  svc_dhe_generate_key_pair ::
    "SpdmDheAlgo \<Rightarrow> (Sized \<times> (Sized \<Rightarrow> SpdmSharedSecretFinalKeyStruct option)) option"
  svc_asym_sign :: "'h SpdmContext \<Rightarrow> SpdmBaseHashAlgo \<Rightarrow> SpdmBaseAsymAlgo \<Rightarrow> bytes \<Rightarrow> SpdmSignatureStruct option"
  svc_pqc_asym_sign :: "'h SpdmContext \<Rightarrow> SpdmBaseHashAlgo \<Rightarrow> SpdmPqcAsymAlgo \<Rightarrow> bytes \<Rightarrow> SpdmSignatureStruct option"
  svc_asym_verify :: "SpdmBaseHashAlgo \<Rightarrow> SpdmBaseAsymAlgo \<Rightarrow> SpdmDer \<Rightarrow> bytes \<Rightarrow> SpdmSignatureStruct \<Rightarrow> unit SpdmResult"
  svc_pqc_asym_verify :: "SpdmBaseHashAlgo \<Rightarrow> SpdmPqcAsymAlgo \<Rightarrow> bytes \<Rightarrow> bytes \<Rightarrow> SpdmSignatureStruct \<Rightarrow> unit SpdmResult"
  svc_measurement_summary_hash :: "SpdmVersion \<Rightarrow> SpdmBaseHashAlgo \<Rightarrow> SpdmMeasurementSpecification \<Rightarrow>
    SpdmMeasurementHashAlgo \<Rightarrow> SpdmMeasurementSummaryHashType \<Rightarrow> SpdmDigestStruct option"
  svc_measurement_collection :: "SpdmVersion \<Rightarrow> SpdmMeasurementSpecification \<Rightarrow> SpdmMeasurementHashAlgo \<Rightarrow> usize \<Rightarrow>
    SpdmMeasurementRecordStructure option"
  svc_vendor_defined_request_handler :: "VendorIDStruct \<Rightarrow> VendorDefinedPayloadStruct \<Rightarrow> VendorDefinedPayloadStruct SpdmResult"
  svc_vendor_defined_request_handler_ex :: "(u32 option \<Rightarrow> bytes \<Rightarrow> bytes \<Rightarrow> 'h SpdmContext \<Rightarrow> 'h reply) option"
  svc_app_message :: "u32 \<Rightarrow> bytes \<Rightarrow> usize \<Rightarrow> Writer \<Rightarrow> 'h SpdmContext \<Rightarrow> 'h reply"
  svc_transport :: TransportEncap

definition spdm_asym_sign :: "'h Services \<Rightarrow> 'h SpdmContext \<Rightarrow> bytes \<Rightarrow> SpdmSignatureStruct option" where
  "spdm_asym_sign S self bs =
     (let n = negotiate_info self in
      if pqc_asym_sel n \<noteq> 0 then svc_pqc_asym_sign S self (base_hash_sel n) (pqc_asym_sel n) bs
      else svc_asym_sign S self (base_hash_sel n) (base_asym_sel n) bs)"

fun SpdmDer_bytes :: "SpdmDer \<Rightarrow> bytes" where
  "SpdmDer_bytes (SpdmDerCertChain bs) = bs"
| "SpdmDer_bytes (SpdmDerPubKeyRfc7250 bs) = bs"

definition spdm_asym_verify ::
  "'h Services \<Rightarrow> SpdmBaseHashAlgo \<Rightarrow> SpdmBaseAsymAlgo \<Rightarrow> SpdmPqcAsymAlgo \<Rightarrow> SpdmDer \<Rightarrow> bytes \<Rightarrow>
     SpdmSignatureStruct \<Rightarrow> unit SpdmResult" where
  "spdm_asym_verify S hash base_asym pqc der bs sig =
     (if pqc \<noteq> 0 then svc_pqc_asym_verify S hash pqc (SpdmDer_bytes der) bs sig
      else svc_asym_verify S hash base_asym der bs sig)"

subsection \<open>Error responses\<close>

text \<open>Writing byte after byte, up to the end of the buffer.\<close>

fun push_all :: "bytes \<Rightarrow> Writer \<Rightarrow> Writer" where
  "push_all [] w = w"
| "push_all (b # bs) w = (case Writer_push b w of None \<Rightarrow> w | Some (_, w) \<Rightarrow> push_all bs w)"

text \<open>The ERROR message has a header, the code and the data; a failure to encode it is ignored.\<close>

definition write_spdm_error :: "SpdmErrorCode \<Rightarrow> u8 \<Rightarrow> Writer \<Rightarrow> 'h SpdmContext \<Rightarrow> Writer" where
  "write_spdm_error error_code param w self =
     push_all [SpdmVersion_u8 (ver_sel self), SpdmRequestResponseCode_get_u8 SpdmResponseError,
               SpdmErrorCode_get_u8 error_code, param] (Writer_clear w)"

definition refuse :: "SpdmErrorCode \<Rightarrow> SpdmStatus \<Rightarrow> Writer \<Rightarrow> 'h SpdmContext \<Rightarrow> 'h reply" where
  "refuse error_code status w self =
     (Err status, Some (Writer_used_slice (write_spdm_error error_code 0 w self)), self)"

definition abort :: "'h SpdmContext \<Rightarrow> 'h reply" where
  "abort self = (panic, None, self)"

definition write_error_response :: "SpdmErrorCode \<Rightarrow> bytes \<Rightarrow> Writer \<Rightarrow> 'h SpdmContext \<Rightarrow> 'h reply" where
  "write_error_response error_code bs w self =
     (case SpdmMessageHeader_read (Reader_init bs) of
        None \<Rightarrow> refuse SpdmErrorInvalidRequest SPDM_STATUS_INVALID_MSG_FIELD w self
      | Some (hdr, _) \<Rightarrow>
          if version hdr \<noteq> ver_sel self
          then refuse SpdmErrorVersionMismatch SPDM_STATUS_INVALID_MSG_FIELD w self
          else let param = (if error_code = SpdmErrorUnsupportedRequest
                                 then SpdmRequestResponseCode_get_u8 (request_response_code hdr) else 0)
               in (Ok (), Some (Writer_used_slice (write_spdm_error error_code param w self)), self))"

subsection \<open>Steps of a handler\<close>

abbreviation upd_neg :: "(SpdmNegotiateInfo \<Rightarrow> SpdmNegotiateInfo) \<Rightarrow> 'h SpdmContext \<Rightarrow> 'h SpdmContext" where
  "upd_neg f self \<equiv> self\<lparr>negotiate_info := f (negotiate_info self)\<rparr>"

abbreviation upd_rt :: "('h SpdmRuntimeInfo \<Rightarrow> 'h SpdmRuntimeInfo) \<Rightarrow> 'h SpdmContext \<Rightarrow> 'h SpdmContext" where
  "upd_rt f self \<equiv> self\<lparr>runtime_info := f (runtime_info self)\<rparr>"

abbreviation local_fault :: "Writer \<Rightarrow> 'h SpdmContext \<Rightarrow> 'h reply" where
  "local_fault \<equiv> refuse SpdmErrorUnspecified SPDM_STATUS_INVALID_STATE_LOCAL"

abbreviation bad_field :: "Writer \<Rightarrow> 'h SpdmContext \<Rightarrow> 'h reply" where
  "bad_field \<equiv> refuse SpdmErrorInvalidRequest SPDM_STATUS_INVALID_MSG_FIELD"

abbreviation unexpected :: "Writer \<Rightarrow> 'h SpdmContext \<Rightarrow> 'h reply" where
  "unexpected \<equiv> refuse SpdmErrorUnexpectedRequest SPDM_STATUS_INVALID_STATE_PEER"

text \<open>A call whose error is answered by \<open>bad\<close>, and one whose missing result is.\<close>

definition attempt ::
  "'a SpdmResult \<Rightarrow> 'h SpdmContext \<Rightarrow> (SpdmStatus \<Rightarrow> 'h reply) \<Rightarrow> ('a \<Rightarrow> 'h reply) \<Rightarrow> 'h reply" where
  "attempt m self bad k = (case m of Inr x \<Rightarrow> k x | Inl (Fail e) \<Rightarrow> bad e | Inl Panic \<Rightarrow> abort self)"

definition attempt_step ::
  "unit SpdmResult \<times> 'h SpdmContext \<Rightarrow> ('h SpdmContext \<Rightarrow> 'h reply) \<Rightarrow> ('h SpdmContext \<Rightarrow> 'h reply) \<Rightarrow> 'h reply" where
  "attempt_step m bad k = (case m of (res, self) \<Rightarrow> attempt res self (\<lambda>_. bad self) (\<lambda>_. k self))"

definition parsed :: "'a popt \<Rightarrow> 'h SpdmContext \<Rightarrow> 'h reply \<Rightarrow> ('a \<Rightarrow> 'h reply) \<Rightarrow> 'h reply" where
  "parsed m self bad k = (case m of Inr x \<Rightarrow> k x | Inl ENone \<Rightarrow> bad | Inl EPanic \<Rightarrow> abort self)"

text \<open>A size or a conversion that panics when it is not defined.\<close>

definition certain :: "'a SpdmResult \<Rightarrow> 'h SpdmContext \<Rightarrow> ('a \<Rightarrow> 'h reply) \<Rightarrow> 'h reply" where
  "certain m self k = attempt m self (\<lambda>_. abort self) k"

definition present :: "'a option \<Rightarrow> 'h reply \<Rightarrow> ('a \<Rightarrow> 'h reply) \<Rightarrow> 'h reply" where
  "present m bad k = (case m of Some x \<Rightarrow> k x | None \<Rightarrow> bad)"

text \<open>The check of the header that most handlers start with.\<close>

definition with_header :: "bytes \<Rightarrow> Writer \<Rightarrow> 'h SpdmContext \<Rightarrow> (Reader \<Rightarrow> 'h reply) \<Rightarrow> 'h reply" where
  "with_header bs w self k =
     (case SpdmMessageHeader_read (Reader_init bs) of
        None \<Rightarrow> refuse SpdmErrorInvalidRequest SPDM_STATUS_INVALID_MSG_FIELD w self
      | Some (hdr, r) \<Rightarrow>
          if version hdr \<noteq> ver_sel self
          then refuse SpdmErrorVersionMismatch SPDM_STATUS_INVALID_MSG_FIELD w self
          else k r)"

text \<open>\<open>SpdmMessage::spdm_encode\<close>: the header and the payload.\<close>

definition message_encode :: "SpdmVersion \<Rightarrow> SpdmRequestResponseCode \<Rightarrow> fault encoder \<Rightarrow> fault encoder" where
  "message_encode ver code payload =
     enc_seq [full (SpdmMessageHeader_encode \<lparr>version = ver, request_response_code = code\<rparr>), payload]"

definition respond ::
  "SpdmVersion \<Rightarrow> SpdmRequestResponseCode \<Rightarrow> fault encoder \<Rightarrow> Writer \<Rightarrow> 'h SpdmContext \<Rightarrow> (Writer \<Rightarrow> 'h reply) \<Rightarrow> 'h reply" where
  "respond ver code payload w self k =
     attempt (message_encode ver code payload w) self
       (\<lambda>_. refuse SpdmErrorUnspecified SPDM_STATUS_INVALID_STATE_LOCAL w self) (\<lambda>(_, w). k w)"

text \<open>The end of most handlers: the response is sent.\<close>

definition reply_ok :: "Writer \<Rightarrow> 'h SpdmContext \<Rightarrow> 'h reply" where
  "reply_ok w self = (Ok (), Some (Writer_used_slice w), self)"

text \<open>\<open>writer.mut_used_slice()[at..at + n].copy_from_slice(bs)\<close>, which panics unless the range lies in
  the used part and has the length of \<open>bs\<close>.\<close>

definition patch :: "usize \<Rightarrow> usize \<Rightarrow> bytes \<Rightarrow> Writer \<Rightarrow> Writer option" where
  "patch at n bs w =
     (if at + n \<le> Writer_used w \<and> length bs = n then Some (w\<lparr>wr_buf := copy_at at bs (wr_buf w)\<rparr>) else None)"

text \<open>The session of an id, which the handlers look up again after each change of the context.\<close>

definition with_session :: "u32 \<Rightarrow> Writer \<Rightarrow> 'h SpdmContext \<Rightarrow> ('h SpdmSession \<Rightarrow> 'h reply) \<Rightarrow> 'h reply" where
  "with_session sid w self k = present (get_session_via_id sid self) (local_fault w self) k"

text \<open>\<open>if result.is_err()\<close>, tear the session down; a panic does not come back.\<close>

definition teardown_session :: "u32 \<Rightarrow> 'h SpdmContext \<Rightarrow> 'h SpdmContext" where
  "teardown_session sid self =
     (case get_session_via_id sid self of None \<Rightarrow> self | Some s \<Rightarrow> put_session sid (session_teardown s) self)"

fun teardown_on_error :: "u32 \<Rightarrow> 'h reply \<Rightarrow> 'h reply" where
  "teardown_on_error sid (Inl (Fail e), out, self) = (Inl (Fail e), out, teardown_session sid self)"
| "teardown_on_error sid (Inl Panic, out, self) = (Inl Panic, out, self)"
| "teardown_on_error sid (Inr x, out, self) = (Inr x, out, self)"

subsection \<open>Laws\<close>

text \<open>\<open>yields Q rp\<close>: \<open>Q\<close> holds of the status, the response and the context of the reply.\<close>

definition yields :: "(unit SpdmResult \<Rightarrow> bytes option \<Rightarrow> 'h SpdmContext \<Rightarrow> bool) \<Rightarrow> 'h reply \<Rightarrow> bool" where
  "yields Q rp \<longleftrightarrow> Q (fst rp) (fst (snd rp)) (snd (snd rp))"

lemma yields_tuple [simp]: "yields Q (res, out, self) = Q res out self"
  by (simp add: yields_def)

lemma yields_if: "(b \<Longrightarrow> yields Q x) \<Longrightarrow> (\<not> b \<Longrightarrow> yields Q y) \<Longrightarrow> yields Q (if b then x else y)"
  by simp

lemma yields_attempt:
  assumes "\<And>e. m = Err e \<Longrightarrow> yields Q (bad e)" "\<And>x. m = Ok x \<Longrightarrow> yields Q (k x)" "m = panic \<Longrightarrow> yields Q (abort self)"
  shows "yields Q (attempt m self bad k)"
  using assms by (auto simp: attempt_def split: sum.splits fault.splits)

lemma yields_attempt_step:
  assumes "\<And>e s. m = (Err e, s) \<Longrightarrow> yields Q (bad s)" "\<And>s. m = (Ok (), s) \<Longrightarrow> yields Q (k s)"
    and "\<And>s. m = (panic, s) \<Longrightarrow> yields Q (abort s)"
  shows "yields Q (attempt_step m bad k)"
  using assms by (cases m) (auto simp: attempt_step_def intro!: yields_attempt)

lemma yields_parsed:
  assumes "m = Inl ENone \<Longrightarrow> yields Q bad" "\<And>x. m = Inr x \<Longrightarrow> yields Q (k x)" "m = Inl EPanic \<Longrightarrow> yields Q (abort self)"
  shows "yields Q (parsed m self bad k)"
  using assms by (auto simp: parsed_def split: sum.splits opt_err.splits)

lemma yields_present:
  assumes "m = None \<Longrightarrow> yields Q bad" "\<And>x. m = Some x \<Longrightarrow> yields Q (k x)"
  shows "yields Q (present m bad k)"
  using assms by (auto simp: present_def split: option.splits)

lemma yields_certain:
  assumes "yields Q (abort self)" "\<And>x. m = Ok x \<Longrightarrow> yields Q (k x)"
  shows "yields Q (certain m self k)"
  unfolding certain_def using assms by (intro yields_attempt)

lemma yields_let: "(\<And>x. x = v \<Longrightarrow> yields Q (k x)) \<Longrightarrow> yields Q (let x = v in k x)"
  by simp

lemma yields_prod: "(\<And>a b. p = (a, b) \<Longrightarrow> yields Q (k a b)) \<Longrightarrow> yields Q (case p of (a, b) \<Rightarrow> k a b)"
  by (cases p) simp

lemma yields_option:
  assumes "m = None \<Longrightarrow> yields Q a" "\<And>x. m = Some x \<Longrightarrow> yields Q (b x)"
  shows "yields Q (case m of None \<Rightarrow> a | Some x \<Rightarrow> b x)"
  using assms by (cases m) auto

lemma yields_with_header:
  assumes "\<And>c st. yields Q (refuse c st w self)"
    and "\<And>hdr r. SpdmMessageHeader_read (Reader_init bs) = Some (hdr, r) \<Longrightarrow> version hdr = ver_sel self \<Longrightarrow> yields Q (k r)"
  shows "yields Q (with_header bs w self k)"
  using assms by (auto simp: with_header_def split: option.splits)

lemma yields_respond:
  assumes "yields Q (refuse SpdmErrorUnspecified SPDM_STATUS_INVALID_STATE_LOCAL w self)" "yields Q (abort self)"
    and "\<And>n w'. message_encode ver code payload w = Ok (n, w') \<Longrightarrow> yields Q (k w')"
  shows "yields Q (respond ver code payload w self k)"
  using assms by (auto simp: respond_def intro!: yields_attempt)

lemma yields_with_session:
  assumes "get_session_via_id sid self = None \<Longrightarrow> yields Q (local_fault w self)"
    and "\<And>s. get_session_via_id sid self = Some s \<Longrightarrow> yields Q (k s)"
  shows "yields Q (with_session sid w self k)"
  unfolding with_session_def using assms by (intro yields_present)

lemmas yields_intros = yields_if yields_attempt_step yields_attempt yields_parsed yields_present yields_certain
  yields_with_header yields_with_session yields_respond yields_let yields_prod yields_option

end
