(* ===== verification/RspConnect.thy ===== *)
theory RspConnect
  imports Handler
begin

text \<open>
  The responder's handlers of GET_VERSION, GET_CAPABILITIES and NEGOTIATE_ALGORITHMS
  (\<open>responder/version_rsp.rs\<close>, \<open>capability_rsp.rs\<close>, \<open>algorithm_rsp.rs\<close>) and the construction of the
  responder's certificate chains (\<open>construct_my_cert_chain\<close> of \<open>common/mod.rs\<close>).
\<close>

subsection \<open>GET_VERSION\<close>

definition version_payload :: "SpdmConfigInfo \<Rightarrow> SpdmVersionResponsePayload option" where
  "version_payload config =
     (let vs = map (\<lambda>v. \<lparr>vs_update = 0, vs_version = v\<rparr>) (flatten (cfg_spdm_version config))
      in if length vs \<le> MAX_SPDM_VERSION_COUNT
         then Some \<lparr>version_number_entry_count = of_nat (length vs),
                    versions = copy_at 0 vs (replicate MAX_SPDM_VERSION_COUNT SpdmVersionStruct_default)\<rparr>
         else None)"

definition handle_spdm_version :: "bytes \<Rightarrow> Writer \<Rightarrow> 'h SpdmContext \<Rightarrow> 'h reply" where
  "handle_spdm_version bs w self =
     (case SpdmMessageHeader_read (Reader_init bs) of
        None \<Rightarrow> bad_field w self
      | Some (hdr, r) \<Rightarrow>
          if version hdr \<noteq> SpdmVersion10
          then refuse SpdmErrorVersionMismatch SPDM_STATUS_INVALID_MSG_FIELD w self
          else let self = reset_buffer_via_request_code SpdmRequestGetVersion None self in
            present (SpdmGetVersionRequestPayload_spdm_read r) (bad_field w self) (\<lambda>(_, r).
            let self = reset_context self in
            attempt_step (append_message_a (take (Reader_used r) bs) self) (local_fault w) (\<lambda>self.
            present (version_payload (config_info self)) (abort self) (\<lambda>payload.
            respond SpdmVersion10 SpdmResponseVersion (SpdmVersionResponsePayload_spdm_encode payload) w self (\<lambda>w.
            attempt_step (append_message_a (Writer_used_slice w) self) (local_fault w) (reply_ok w))))))"

subsection \<open>GET_CAPABILITIES\<close>

definition select_capabilities ::
  "SpdmGetCapabilitiesRequestPayload \<Rightarrow> SpdmConfigInfo \<Rightarrow> SpdmNegotiateInfo \<Rightarrow> SpdmNegotiateInfo" where
  "select_capabilities req config n =
     (let n = n\<lparr>req_ct_exponent_sel := gc_ct_exponent req, req_capabilities_sel := gc_flags req,
                rsp_ct_exponent_sel := cfg_rsp_ct_exponent config,
                rsp_capabilities_sel := cfg_rsp_capabilities config\<rparr>
      in if SpdmVersion12 \<le> spdm_version_sel n
         then n\<lparr>req_data_transfer_size_sel := gc_data_transfer_size req,
                req_max_spdm_msg_size_sel := gc_max_spdm_msg_size req,
                rsp_data_transfer_size_sel := cfg_data_transfer_size config,
                rsp_max_spdm_msg_size_sel := cfg_max_spdm_msg_size config\<rparr>
         else n)"

definition handle_spdm_capability :: "bytes \<Rightarrow> Writer \<Rightarrow> 'h SpdmContext \<Rightarrow> 'h reply" where
  "handle_spdm_capability bs w self =
     (if connection_state (runtime_info self) \<noteq> SpdmConnectionAfterVersion then unexpected w self
      else case SpdmMessageHeader_read (Reader_init bs) of
        None \<Rightarrow> refuse SpdmErrorInvalidRequest SPDM_STATUS_INVALID_STATE_PEER w self
      | Some (hdr, r) \<Rightarrow>
          if version hdr < SpdmVersion10 then bad_field w self
          else let self = upd_neg (\<lambda>n. n\<lparr>spdm_version_sel := version hdr\<rparr>) self;
                   self = reset_buffer_via_request_code SpdmRequestGetCapabilities None self in
            present (SpdmGetCapabilitiesRequestPayload_spdm_read self r) (bad_field w self) (\<lambda>(get_capabilities, r).
            let self = upd_neg (select_capabilities get_capabilities (config_info self)) self in
            attempt_step (append_message_a (take (Reader_used r) bs) self) (local_fault w) (\<lambda>self.
            respond (ver_sel self) SpdmResponseCapabilities
              (SpdmCapabilitiesResponsePayload_spdm_encode self
                \<lparr>rc_ct_exponent = cfg_rsp_ct_exponent (config_info self),
                 rc_flags = cfg_rsp_capabilities (config_info self),
                 rc_data_transfer_size = cfg_data_transfer_size (config_info self),
                 rc_max_spdm_msg_size = cfg_max_spdm_msg_size (config_info self), rc_ex_flags = 0\<rparr>) w self (\<lambda>w.
            attempt_step (append_message_a (Writer_used_slice w) self) (local_fault w) (reply_ok w)))))"

subsection \<open>Certificate chains\<close>

text \<open>
  A chain with the hash of its root in front: size, hash and the chain. A slice out of range
  panics.
\<close>

definition cert_chain_buffer :: "'h Services \<Rightarrow> SpdmBaseHashAlgo \<Rightarrow> CertChain \<Rightarrow> CertChain SpdmResult" where
  "cert_chain_buffer S algo chain =
     (if length (cc_data chain) < unat (cc_size chain) then panic
      else bindR (svc_get_cert_from_cert_chain S (CertChain_as_ref chain) 0) (\<lambda>(root_begin, root_end).
        if root_end < root_begin \<or> length (cc_data chain) < root_end then panic
        else case hash_all (svc_crypto S) algo (take (root_end - root_begin) (drop root_begin (cc_data chain))) of
               None \<Rightarrow> Err SPDM_STATUS_CRYPTO_ERROR
             | Some root_hash \<Rightarrow>
                 let total = 4 + unat (data_size root_hash) + unat (cc_size chain);
                     room = 4 + SPDM_MAX_HASH_SIZE + MAX_SPDM_CERT_CHAIN_DATA_SIZE
                 in if length (data root_hash) < unat (data_size root_hash) \<or> room < total then panic
                    else Ok \<lparr>cc_size = of_nat total,
                             cc_data = copy_at 0 (u32_image (of_nat total) @ Sized_as_ref root_hash @ CertChain_as_ref chain)
                                         (replicate room 0)\<rparr>))"

fun construct_slots :: "'h Services \<Rightarrow> nat list \<Rightarrow> 'h SpdmContext \<Rightarrow> unit SpdmResult \<times> 'h SpdmContext" where
  "construct_slots S [] self = (Ok (), self)"
| "construct_slots S (slot_id # rest) self =
     (case (slot_at (my_cert_chain (provision_info self)) slot_id,
            slot_at (my_cert_chain_data (provision_info self)) slot_id) of
        (Inr None, Inr (Some chain)) \<Rightarrow>
          (case cert_chain_buffer S (base_hash_sel (negotiate_info self)) chain of
             Inl e \<Rightarrow> (Inl e, self)
           | Inr buffer \<Rightarrow> construct_slots S rest (self\<lparr>provision_info := (provision_info self)
               \<lparr>my_cert_chain := (my_cert_chain (provision_info self))[slot_id := Some buffer]\<rparr>\<rparr>))
      | (Inl e, _) \<Rightarrow> (Inl e, self)
      | (Inr None, Inl e) \<Rightarrow> (Inl e, self)
      | _ \<Rightarrow> construct_slots S rest self)"

definition construct_my_cert_chain :: "'h Services \<Rightarrow> 'h SpdmContext \<Rightarrow> unit SpdmResult \<times> 'h SpdmContext" where
  "construct_my_cert_chain S self = construct_slots S [0..<SPDM_MAX_SLOT_NUMBER] self"

subsection \<open>NEGOTIATE_ALGORITHMS\<close>

text \<open>The negotiation of several key pairs per slot; the second component is false when the request is refused.\<close>

definition select_multi_key ::
  "SpdmAlgoOtherParams \<Rightarrow> SpdmConfigInfo \<Rightarrow> SpdmNegotiateInfo \<Rightarrow> SpdmNegotiateInfo \<times> bool" where
  "select_multi_key params config n =
     (if spdm_version_sel n < SpdmVersion13 then (n, True)
      else let req = contains (req_capabilities_sel n); rsp = contains (cfg_rsp_capabilities config);
               n = n\<lparr>multi_key_conn_req :=
                 (if req SpdmRequestCapabilityFlags_MULTI_KEY_CAP_ONLY then True
                  else if req SpdmRequestCapabilityFlags_MULTI_KEY_CAP_CONN_SEL
                  then contains (cfg_other_params_support config) SpdmAlgoOtherParams_MULTI_KEY_CONN
                  else False)\<rparr>
           in if contains params SpdmAlgoOtherParams_MULTI_KEY_CONN
              then if \<not> rsp SpdmResponseCapabilityFlags_MULTI_KEY_CAP_ONLY
                      \<and> \<not> rsp SpdmResponseCapabilityFlags_MULTI_KEY_CAP_CONN_SEL
                   then (n, False) else (n\<lparr>multi_key_conn_rsp := True\<rparr>, True)
              else if rsp SpdmResponseCapabilityFlags_MULTI_KEY_CAP_ONLY then (n, False)
                   else (n\<lparr>multi_key_conn_rsp := False\<rparr>, True))"

fun select_alg :: "SpdmAlg \<Rightarrow> SpdmNegotiateInfo \<Rightarrow> SpdmNegotiateInfo option" where
  "select_alg (SpdmAlgoDhe v) n = (if SpdmDheAlgo_is_valid v then Some (n\<lparr>dhe_sel := v\<rparr>) else None)"
| "select_alg (SpdmAlgoAead v) n = (if SpdmAeadAlgo_is_valid v then Some (n\<lparr>aead_sel := v\<rparr>) else None)"
| "select_alg (SpdmAlgoReqAsym v) n = (if SpdmReqAsymAlgo_is_valid v then Some (n\<lparr>req_asym_sel := v\<rparr>) else None)"
| "select_alg (SpdmAlgoKeySchedule v) n =
     (if SpdmKeyScheduleAlgo_is_valid v then Some (n\<lparr>key_schedule_sel := v\<rparr>) else None)"
| "select_alg (SpdmAlgoPqcReqAsym v) n =
     (if SpdmVersion14 \<le> spdm_version_sel n
      then if SpdmPqcReqAsymAlgo_is_valid v then Some (n\<lparr>pqc_req_asym_sel := v\<rparr>) else None
      else Some n)"
| "select_alg (SpdmAlgoKem v) n =
     (if SpdmVersion14 \<le> spdm_version_sel n
      then if SpdmKemAlgo_is_valid v then Some (n\<lparr>kem_sel := v\<rparr>) else None
      else Some n)"
| "select_alg SpdmAlgoUnknown n = Some n"

fun select_algs :: "SpdmAlgStruct list \<Rightarrow> SpdmNegotiateInfo \<Rightarrow> SpdmNegotiateInfo \<times> bool" where
  "select_algs [] n = (n, True)"
| "select_algs (alg # algs) n =
     (case select_alg (alg_supported alg) n of None \<Rightarrow> (n, False) | Some n \<Rightarrow> select_algs algs n)"

text \<open>What the request asks for, recorded up to the point where it is refused.\<close>

definition record_request ::
  "SpdmNegotiateAlgorithmsRequestPayload \<Rightarrow> SpdmConfigInfo \<Rightarrow> SpdmNegotiateInfo \<Rightarrow> SpdmNegotiateInfo \<times> bool" where
  "record_request req config n =
     (let n = n\<lparr>measurement_specification_sel := na_measurement_specification req\<rparr>
      in case select_multi_key (na_other_params_support req) config n of
           (n, False) \<Rightarrow> (n, False)
         | (n, True) \<Rightarrow>
             let n = n\<lparr>base_hash_sel := na_base_hash_algo req, base_asym_sel := na_base_asym_algo req,
                       mel_specification_sel :=
                         (if SpdmVersion13 \<le> spdm_version_sel n
                            \<and> contains (cfg_rsp_capabilities config) SpdmResponseCapabilityFlags_MEL_CAP
                          then na_mel_specification req else 0)\<rparr>;
                 n = (if SpdmVersion14 \<le> spdm_version_sel n then n\<lparr>pqc_asym_sel := na_pqc_asym_algo req\<rparr> else n)
             in select_algs (take (unat (na_alg_struct_count req)) (na_alg_struct req)) n)"

definition PQC_FIRST :: bool where "PQC_FIRST = False"

text \<open>Of a classical and a post-quantum algorithm that are both selected, one is given up.\<close>

definition settle_pqc :: "SpdmNegotiateInfo \<Rightarrow> SpdmNegotiateInfo" where
  "settle_pqc n =
     (let n = (if SpdmPqcAsymAlgo_is_valid (pqc_asym_sel n) \<and> SpdmBaseAsymAlgo_is_valid (base_asym_sel n)
               then if PQC_FIRST then n\<lparr>base_asym_sel := 0\<rparr> else n\<lparr>pqc_asym_sel := 0\<rparr> else n);
          n = (if SpdmPqcReqAsymAlgo_is_valid (pqc_req_asym_sel n) \<and> SpdmReqAsymAlgo_is_valid (req_asym_sel n)
               then if PQC_FIRST then n\<lparr>req_asym_sel := 0\<rparr> else n\<lparr>pqc_req_asym_sel := 0\<rparr> else n)
      in if SpdmKemAlgo_is_valid (kem_sel n) \<and> SpdmDheAlgo_is_valid (dhe_sel n)
         then if PQC_FIRST then n\<lparr>dhe_sel := 0\<rparr> else n\<lparr>kem_sel := 0\<rparr> else n)"

definition prioritize_all :: "SpdmConfigInfo \<Rightarrow> SpdmNegotiateInfo \<Rightarrow> SpdmNegotiateInfo" where
  "prioritize_all config n =
     (let n = n\<lparr>
        measurement_specification_sel := SpdmMeasurementSpecification_prioritize (measurement_specification_sel n)
          (cfg_measurement_specification config),
        measurement_hash_sel := cfg_measurement_hash_algo config,
        base_hash_sel := SpdmBaseHashAlgo_prioritize (base_hash_sel n) (cfg_base_hash_algo config),
        base_asym_sel := SpdmBaseAsymAlgo_prioritize (base_asym_sel n) (cfg_base_asym_algo config),
        pqc_asym_sel := SpdmPqcAsymAlgo_prioritize (pqc_asym_sel n) (cfg_pqc_asym_algo config),
        mel_specification_sel := SpdmMelSpecification_prioritize (mel_specification_sel n) (cfg_mel_specification config),
        dhe_sel := SpdmDheAlgo_prioritize (dhe_sel n) (cfg_dhe_algo config),
        aead_sel := SpdmAeadAlgo_prioritize (aead_sel n) (cfg_aead_algo config),
        req_asym_sel := SpdmReqAsymAlgo_prioritize (req_asym_sel n) (cfg_req_asym_algo config),
        key_schedule_sel := SpdmKeyScheduleAlgo_prioritize (key_schedule_sel n) (cfg_key_schedule_algo config)\<rparr>
      in if SpdmVersion14 \<le> spdm_version_sel n
         then settle_pqc (n\<lparr>
           pqc_req_asym_sel := SpdmPqcReqAsymAlgo_prioritize (pqc_req_asym_sel n) (cfg_pqc_req_asym_algo config),
           kem_sel := SpdmKemAlgo_prioritize (kem_sel n) (cfg_kem_algo config)\<rparr>)
         else n)"

definition select_other_params ::
  "SpdmAlgoOtherParams \<Rightarrow> SpdmConfigInfo \<Rightarrow> SpdmNegotiateInfo \<Rightarrow> SpdmAlgoOtherParams" where
  "select_other_params params config n =
     (let req = contains (req_capabilities_sel n);
          common = (if SpdmVersion12 \<le> spdm_version_sel n then params AND cfg_other_params_support config else 0)
      in if SpdmVersion13 \<le> spdm_version_sel n
            \<and> (req SpdmRequestCapabilityFlags_MULTI_KEY_CAP_ONLY
               \<or> req SpdmRequestCapabilityFlags_MULTI_KEY_CAP_CONN_SEL
                 \<and> contains (cfg_other_params_support config) SpdmAlgoOtherParams_MULTI_KEY_CONN)
         then common OR SpdmAlgoOtherParams_MULTI_KEY_CONN else common)"

text \<open>The algorithm structures of the response: one for each selection that is valid.\<close>

definition selected_algs :: "SpdmNegotiateInfo \<Rightarrow> SpdmAlgStruct list" where
  "selected_algs n =
     (if SpdmDheAlgo_is_valid (dhe_sel n)
      then [\<lparr>alg_type = SpdmAlgTypeDHE, alg_supported = SpdmAlgoDhe (dhe_sel n)\<rparr>] else []) @
     (if SpdmAeadAlgo_is_valid (aead_sel n)
      then [\<lparr>alg_type = SpdmAlgTypeAEAD, alg_supported = SpdmAlgoAead (aead_sel n)\<rparr>] else []) @
     (if SpdmReqAsymAlgo_is_valid (req_asym_sel n)
      then [\<lparr>alg_type = SpdmAlgTypeReqAsym, alg_supported = SpdmAlgoReqAsym (req_asym_sel n)\<rparr>] else []) @
     (if SpdmKeyScheduleAlgo_is_valid (key_schedule_sel n)
      then [\<lparr>alg_type = SpdmAlgTypeKeySchedule, alg_supported = SpdmAlgoKeySchedule (key_schedule_sel n)\<rparr>] else []) @
     (if SpdmVersion14 \<le> spdm_version_sel n \<and> SpdmPqcReqAsymAlgo_is_valid (pqc_req_asym_sel n)
      then [\<lparr>alg_type = SpdmAlgTypePqcReqAsym, alg_supported = SpdmAlgoPqcReqAsym (pqc_req_asym_sel n)\<rparr>] else []) @
     (if SpdmVersion14 \<le> spdm_version_sel n \<and> SpdmKemAlgo_is_valid (kem_sel n)
      then [\<lparr>alg_type = SpdmAlgTypeKEM, alg_supported = SpdmAlgoKem (kem_sel n)\<rparr>] else [])"

definition algorithms_payload :: "SpdmNegotiateInfo \<Rightarrow> SpdmAlgorithmsResponsePayload" where
  "algorithms_payload n =
     \<lparr>al_measurement_specification_sel = measurement_specification_sel n,
      al_other_params_selection = other_params_support n,
      al_measurement_hash_algo = measurement_hash_sel n, al_base_asym_sel = base_asym_sel n,
      al_base_hash_sel = base_hash_sel n, al_pqc_asym_sel = pqc_asym_sel n,
      al_mel_specification_sel = mel_specification_sel n,
      al_alg_struct_count = of_nat (length (selected_algs n)), al_alg_struct = alg_array (selected_algs n)\<rparr>"

definition handle_spdm_algorithm :: "'h Services \<Rightarrow> bytes \<Rightarrow> Writer \<Rightarrow> 'h SpdmContext \<Rightarrow> 'h reply" where
  "handle_spdm_algorithm S bs w self =
     (if connection_state (runtime_info self) \<noteq> SpdmConnectionAfterCapabilities then unexpected w self
      else with_header bs w self (\<lambda>r.
        let self = reset_buffer_via_request_code SpdmRequestNegotiateAlgorithms None self in
        present (SpdmNegotiateAlgorithmsRequestPayload_spdm_read self r) (bad_field w self) (\<lambda>(req, r).
        case record_request req (config_info self) (negotiate_info self) of (n, accepted) \<Rightarrow>
        let self = self\<lparr>negotiate_info := n\<rparr> in
        if \<not> accepted then bad_field w self
        else attempt_step (append_message_a (take (Reader_used r) bs) self) (local_fault w) (\<lambda>self.
          let self = upd_neg (prioritize_all (config_info self)) self in
          attempt_step (construct_my_cert_chain S self) (local_fault w) (\<lambda>self.
          let self = upd_neg (\<lambda>n. n\<lparr>other_params_support :=
                        select_other_params (na_other_params_support req) (config_info self) n\<rparr>) self in
          respond (ver_sel self) SpdmResponseAlgorithms
            (SpdmAlgorithmsResponsePayload_spdm_encode self (algorithms_payload (negotiate_info self))) w self (\<lambda>w.
          attempt_step (append_message_a (Writer_used_slice w) self) (local_fault w) (reply_ok w)))))))"

end
