(* ===== verification/RspSession.thy ===== *)
theory RspSession
  imports Handler
begin

text \<open>
  The responder's handlers that open a session and finish its handshake:
  \<open>responder/key_exchange_rsp.rs\<close>, \<open>finish_rsp.rs\<close>, \<open>psk_exchange_rsp.rs\<close> and \<open>psk_finish_rsp.rs\<close>, with
  running transcript hashes and without mutual authentication, as the default features are.

  A handler that opens a session has two parts: what comes before the session exists, and what
  comes after, whose errors tear the session down.
\<close>

abbreviation crypto_fault :: "Writer \<Rightarrow> 'h SpdmContext \<Rightarrow> 'h reply" where
  "crypto_fault \<equiv> refuse SpdmErrorUnspecified SPDM_STATUS_CRYPTO_ERROR"

abbreviation session_limit :: "Writer \<Rightarrow> 'h SpdmContext \<Rightarrow> 'h reply" where
  "session_limit \<equiv> refuse SpdmErrorSessionLimitExceeded SPDM_STATUS_INVALID_STATE_LOCAL"

subsection \<open>Parts that KEY_EXCHANGE and PSK_EXCHANGE share\<close>

text \<open>The hash over the measurements, when the request asks for it; \<open>st\<close> is the status if there is none.\<close>

definition with_summary_hash ::
  "'h Services \<Rightarrow> SpdmStatus \<Rightarrow> SpdmMeasurementSummaryHashType \<Rightarrow> Writer \<Rightarrow> 'h SpdmContext \<Rightarrow>
     (SpdmDigestStruct \<Rightarrow> 'h SpdmContext \<Rightarrow> 'h reply) \<Rightarrow> 'h reply" where
  "with_summary_hash S st t w self k =
     (if t = SpdmMeasurementSummaryHashTypeTcb \<or> t = SpdmMeasurementSummaryHashTypeAll
      then let self = upd_rt (\<lambda>r. r\<lparr>need_measurement_summary_hash := True\<rparr>) self;
               n = negotiate_info self in
        present (svc_measurement_summary_hash S (spdm_version_sel n) (base_hash_sel n)
                   (measurement_specification_sel n) (measurement_hash_sel n) t)
          (refuse SpdmErrorUnspecified st w self)
          (\<lambda>h. if data_size h = 0 then refuse SpdmErrorUnspecified st w self else k h self)
      else k SpdmDigestStruct_default (upd_rt (\<lambda>r. r\<lparr>need_measurement_summary_hash := False\<rparr>) self))"

text \<open>The last version of the peer's list that is also a version of the own list.\<close>

definition select_sm_version ::
  "SecuredMessageVersion list \<Rightarrow> SecuredMessageVersion list \<Rightarrow> SecuredMessageVersion option" where
  "select_sm_version offered own =
     fold (\<lambda>v sel. fold (\<lambda>l sel. if SecuredMessageVersion_eq v l then Some l else sel) own sel) offered None"

definition with_sm_version ::
  "SpdmOpaqueStruct \<Rightarrow> Writer \<Rightarrow> 'h SpdmContext \<Rightarrow> (SpdmOpaqueStruct \<Rightarrow> 'h reply) \<Rightarrow> 'h reply" where
  "with_sm_version opq w self k =
     (case rsp_get_dmtf_supported_secure_spdm_version_list self opq of
        None \<Rightarrow> k SpdmOpaqueStruct_default
      | Some vs \<Rightarrow>
          if version_count vs > of_nat MAX_SECURE_SPDM_VERSION_COUNT then bad_field w self
          else present (select_sm_version (take (unat (version_count vs)) (versions_list vs))
                          (flatten (cfg_secure_spdm_version (config_info self))))
            (bad_field w self)
            (\<lambda>v. attempt (from_sm_version_sel_opaque self v) self
               (\<lambda>_. refuse SpdmErrorUnsupportedRequest SPDM_STATUS_INVALID_MSG_FIELD w self) k))"

text \<open>The last byte of the selected version's opaque data is the version.\<close>

definition take_sm_version :: "SpdmOpaqueStruct \<Rightarrow> 'h SpdmSession \<Rightarrow> 'h SpdmSession" where
  "take_sm_version opq s =
     (if data_size opq = 0 then s
      else s\<lparr>secure_spdm_version_sel := SecuredMessageVersion_try_from (data opq ! (unat (data_size opq) - 1))\<rparr>)"

definition fresh_session ::
  "'h Services \<Rightarrow> 'h SpdmContext \<Rightarrow> bool \<Rightarrow> 'h SpdmSession \<Rightarrow> 'h SpdmSession" where
  "fresh_session S self psk s =
     (let n = negotiate_info self in
      set_transport_param (tp_sequence_number_count (svc_transport S)) (tp_max_random_count (svc_transport S))
        (set_crypto_param (base_hash_sel n) (dhe_sel n) (kem_sel n) (aead_sel n) (key_schedule_sel n)
           (s\<lparr>use_psk := psk\<rparr>)))"

text \<open>The header check of the two requests, which version 1.0 does not have.\<close>

definition with_session_header :: "bytes \<Rightarrow> Writer \<Rightarrow> 'h SpdmContext \<Rightarrow> (Reader \<Rightarrow> 'h reply) \<Rightarrow> 'h reply" where
  "with_session_header bs w self k =
     (if SpdmConnectionState_get_u8 (connection_state (runtime_info self))
           < SpdmConnectionState_get_u8 SpdmConnectionNegotiated
      then unexpected w self
      else with_header bs w self (\<lambda>r.
        if ver_sel self < SpdmVersion11
        then refuse SpdmErrorUnsupportedRequest SPDM_STATUS_INVALID_MSG_FIELD w self
        else k r))"

text \<open>\<open>th1\<close> and the handshake secrets of the session, from the transcript so far.\<close>

definition with_handshake_secret ::
  "'h Services \<Rightarrow> u32 \<Rightarrow> Writer \<Rightarrow> 'h SpdmContext \<Rightarrow> ('h SpdmContext \<Rightarrow> 'h reply) \<Rightarrow> 'h reply" where
  "with_handshake_secret S sid w self k =
     with_session sid w self (\<lambda>s.
     attempt (calc_rsp_transcript_hash (svc_crypto S) s) self (\<lambda>_. crypto_fault w self) (\<lambda>th.
     case generate_handshake_secret (svc_crypto S) (ver_sel self) th (s\<lparr>th1 := th\<rparr>) of (res, s) \<Rightarrow>
     let self = put_session sid s self in
     attempt res self (\<lambda>e. refuse SpdmErrorUnspecified e w self) (\<lambda>_. k self)))"

text \<open>The responder's HMAC over the transcript; its failure tears the session down.\<close>

definition with_response_hmac ::
  "'h Services \<Rightarrow> u32 \<Rightarrow> Writer \<Rightarrow> 'h SpdmContext \<Rightarrow> (SpdmDigestStruct \<Rightarrow> 'h SpdmContext \<Rightarrow> 'h reply) \<Rightarrow> 'h reply" where
  "with_response_hmac S sid w self k =
     with_session sid w self (\<lambda>s.
     attempt (calc_rsp_transcript_hash (svc_crypto S) s) self (\<lambda>_. crypto_fault w self) (\<lambda>th.
     attempt (generate_hmac_with_response_finished_key (svc_crypto S) (Sized_as_ref th) s) self
       (\<lambda>_. crypto_fault w (put_session sid (session_teardown s) self)) (\<lambda>mac.
     attempt_step (append_message_k (svc_crypto S) sid (Sized_as_ref mac) self)
       (\<lambda>self. with_session sid w self (\<lambda>s. local_fault w (put_session sid (session_teardown s) self)))
       (\<lambda>self. k mac self))))"

subsection \<open>KEY_EXCHANGE\<close>

text \<open>The conversions between the exchange data of a message and of an algorithm, which assert the size.\<close>

definition exchange_cast :: "usize \<Rightarrow> Sized \<Rightarrow> Sized SpdmResult" where
  "exchange_cast n s =
     (if unat (data_size s) \<le> n \<and> unat (data_size s) \<le> length (data s)
      then Ok \<lparr>data_size = data_size s, data = copy_at 0 (Sized_as_ref s) (replicate n 0)\<rparr> else panic)"

definition with_exchange ::
  "'h Services \<Rightarrow> Sized \<Rightarrow> Writer \<Rightarrow> 'h SpdmContext \<Rightarrow>
     (SpdmSharedSecretFinalKeyStruct \<Rightarrow> Sized \<Rightarrow> 'h reply) \<Rightarrow> 'h reply" where
  "with_exchange S peer w self k =
     (if kem_sel (negotiate_info self) \<noteq> 0
      then certain (exchange_cast SPDM_MAX_KEM_ENCAP_KEY_SIZE peer) self (\<lambda>peer.
           present (svc_kem_encap_key S (kem_sel (negotiate_info self)) peer) (crypto_fault w self) (\<lambda>(cipher, final).
           certain (exchange_cast SPDM_MAX_REQ_KEY_EXCHANGE_SIZE cipher) self (\<lambda>exchange. k final exchange)))
      else present (svc_dhe_generate_key_pair S (dhe_sel (negotiate_info self))) (crypto_fault w self)
           (\<lambda>(my_exchange, compute_final_key).
           certain (exchange_cast SPDM_MAX_DHE_KEY_SIZE peer) self (\<lambda>peer.
           certain (exchange_cast SPDM_MAX_RSP_KEY_EXCHANGE_SIZE my_exchange) self (\<lambda>exchange.
           present (compute_final_key peer) (crypto_fault w self) (\<lambda>final. k final exchange)))))"

text \<open>The hash that goes into the transcript for the responder's certificate chain or public key.\<close>

definition key_exchange_cert_hash :: "'h Services \<Rightarrow> u8 \<Rightarrow> 'h SpdmContext \<Rightarrow> SpdmDigestStruct option SpdmResult" where
  "key_exchange_cert_hash S slot_id self =
     (if slot_id = SPDM_PUB_KEY_SLOT_ID_KEY_EXCHANGE
      then Ok (case my_pub_key (provision_info self) of
                 Some pk \<Rightarrow> hash_all (svc_crypto S) (base_hash_sel (negotiate_info self)) (CertChain_as_ref pk)
               | None \<Rightarrow> None)
      else if unat slot_id < SPDM_MAX_SLOT_NUMBER
      then get_certchain_hash_local (svc_crypto S) False (unat slot_id) self else Ok None)"

abbreviation (input) SPDM_KEY_EXCHANGE_RESPONSE_SIGN_CONTEXT :: bytes where
  "SPDM_KEY_EXCHANGE_RESPONSE_SIGN_CONTEXT \<equiv>
    [0x72, 0x65, 0x73, 0x70, 0x6f, 0x6e, 0x64, 0x65, 0x72, 0x2d, 0x6b, 0x65, 0x79, 0x5f, 0x65, 0x78,
     0x63, 0x68, 0x61, 0x6e, 0x67, 0x65, 0x5f, 0x72, 0x73, 0x70, 0x20, 0x73, 0x69, 0x67, 0x6e, 0x69,
     0x6e, 0x67]"

definition generate_key_exchange_rsp_signature ::
  "'h Services \<Rightarrow> 'h SpdmContext \<Rightarrow> 'h SpdmSession \<Rightarrow> SpdmSignatureStruct SpdmResult" where
  "generate_key_exchange_rsp_signature S self s =
     bindR (calc_rsp_transcript_hash (svc_crypto S) s) (\<lambda>th.
     if SpdmVersion12 \<le> ver_sel self
     then bindR (signing_message 2 SPDM_KEY_EXCHANGE_RESPONSE_SIGN_CONTEXT th self) (\<lambda>m.
          ok_or (Fail SPDM_STATUS_CRYPTO_ERROR) (spdm_asym_sign S self (ManagedBuffer_as_ref m)))
     else Err SPDM_STATUS_INVALID_STATE_LOCAL)"

text \<open>Once the session exists: response, transcript, signature, secrets, HMAC.\<close>

definition key_exchange_finishing ::
  "'h Services \<Rightarrow> u32 \<Rightarrow> SpdmOpaqueStruct \<Rightarrow> usize \<Rightarrow> usize \<Rightarrow> Writer \<Rightarrow> 'h SpdmContext \<Rightarrow> 'h reply" where
  "key_exchange_finishing S sid opq temp_used hash_len w self =
     (let finish = (\<lambda>w self. with_session sid w self (\<lambda>s.
            let self = put_session sid ((take_sm_version opq (s\<lparr>heartbeat_period :=
                           cfg_heartbeat_period (config_info self)\<rparr>))\<lparr>session_state := SpdmSessionHandshaking\<rparr>) self;
                self = (if in_clear_text self then upd_rt (\<lambda>r. r\<lparr>last_session_id := Some sid\<rparr>) self else self)
            in reply_ok w self))
      in with_handshake_secret S sid w self (\<lambda>self.
         if in_clear_text self then finish w self
         else with_response_hmac S sid w self (\<lambda>mac self.
              present (patch temp_used hash_len (Sized_as_ref mac) w) (abort self) (\<lambda>w. finish w self))))"

definition key_exchange_signing ::
  "'h Services \<Rightarrow> u32 \<Rightarrow> bytes \<Rightarrow> SpdmOpaqueStruct \<Rightarrow> Writer \<Rightarrow> 'h SpdmContext \<Rightarrow> 'h reply" where
  "key_exchange_signing S sid req opq w self =
     certain (get_asym_sig_size self) self (\<lambda>sig_len.
     certain (get_hash_size self) self (\<lambda>hash_len.
     let tail = unat sig_len + (if in_clear_text self then 0 else unat hash_len);
         temp_used = Writer_used w - tail in
     if Writer_used w < tail then abort self
     else attempt_step (append_message_k (svc_crypto S) sid req self) (crypto_fault w) (\<lambda>self.
       attempt_step (append_message_k (svc_crypto S) sid (take temp_used (Writer_used_slice w)) self) (local_fault w) (\<lambda>self.
       with_session sid w self (\<lambda>s.
       attempt (generate_key_exchange_rsp_signature S self s) self (\<lambda>_. crypto_fault w self) (\<lambda>sig.
       attempt_step (append_message_k (svc_crypto S) sid (Sized_as_ref sig) self) (local_fault w) (\<lambda>self.
       present (patch temp_used (unat sig_len) (Sized_as_ref sig) w) (abort self) (\<lambda>w.
       key_exchange_finishing S sid opq (temp_used + unat sig_len) (unat hash_len) w self))))))))"

definition key_exchange_in_session ::
  "'h Services \<Rightarrow> u32 \<Rightarrow> u16 \<Rightarrow> bytes \<Rightarrow> Sized \<Rightarrow> SpdmDigestStruct \<Rightarrow> SpdmOpaqueStruct \<Rightarrow> Writer \<Rightarrow>
     'h SpdmContext \<Rightarrow> 'h reply" where
  "key_exchange_in_session S sid rsp_session_id req exchange msh opq w self =
     attempt (svc_get_random S SPDM_RANDOM_SIZE) self (\<lambda>_. crypto_fault w self) (\<lambda>random.
     certain (get_asym_sig_size self) self (\<lambda>sig_len.
     certain (get_hash_size self) self (\<lambda>hash_len.
     respond (ver_sel self) SpdmResponseKeyExchangeRsp
       (SpdmKeyExchangeResponsePayload_spdm_encode self
          \<lparr>ker_heartbeat_period = cfg_heartbeat_period (config_info self), ker_rsp_session_id = rsp_session_id,
           ker_mut_auth_req = 0, ker_req_slot_id = 0, ker_random = random, ker_exchange = exchange,
           ker_measurement_summary_hash = msh, ker_opaque = opq,
           ker_signature = \<lparr>data_size = sig_len, data = replicate SPDM_MAX_ASYM_SIG_SIZE 0xbb\<rparr>,
           ker_verify_data = \<lparr>data_size = hash_len, data = replicate SPDM_MAX_HASH_SIZE 0xcc\<rparr>\<rparr>) w self (\<lambda>w.
     key_exchange_signing S sid req opq w self))))"

text \<open>The session is set up in a free slot and given the shared secret.\<close>

definition key_exchange_open ::
  "'h Services \<Rightarrow> bytes \<Rightarrow> SpdmKeyExchangeRequestPayload \<Rightarrow> SpdmDigestStruct \<Rightarrow> SpdmOpaqueStruct \<Rightarrow>
     SpdmSharedSecretFinalKeyStruct \<Rightarrow> Sized \<Rightarrow> Writer \<Rightarrow> 'h SpdmContext \<Rightarrow> 'h reply" where
  "key_exchange_open S req ke msh opq final exchange w self =
     attempt (get_next_half_session_id False self) self (\<lambda>_. session_limit w self) (\<lambda>rsp_session_id.
     certain (key_exchange_cert_hash S (ke_slot_id ke) self) self (\<lambda>cert_hash.
     if cert_hash = None then bad_field w self
     else present (get_next_avaiable_session self) (session_limit w self) (\<lambda>s.
       let sid = join_session_id (ke_req_session_id ke) rsp_session_id in
       certain (session_setup sid s) self (\<lambda>s.
       teardown_on_error sid
         (case set_shared_secret (svc_crypto S) (ver_sel self) final
                 ((fresh_session S self False s)\<lparr>mut_auth_requested := 0\<rparr>) of
            (Inl Panic, s) \<Rightarrow> abort (put_session INVALID_SESSION_ID s self)
          | (Inl (Fail _), s) \<Rightarrow> crypto_fault w (put_session INVALID_SESSION_ID (session_teardown s) self)
          | (Inr _, s) \<Rightarrow>
              let s = upd_srt (\<lambda>r. r\<lparr>s_message_a := message_a (runtime_info self), rsp_cert_hash := cert_hash,
                                   req_cert_hash := None\<rparr>) s;
                  self = put_session INVALID_SESSION_ID s self in
              key_exchange_in_session S sid rsp_session_id req exchange msh opq w self)))))"

definition handle_spdm_key_exchange :: "'h Services \<Rightarrow> bytes \<Rightarrow> Writer \<Rightarrow> 'h SpdmContext \<Rightarrow> 'h reply" where
  "handle_spdm_key_exchange S bs w self =
     with_session_header bs w self (\<lambda>r.
     let self = reset_buffer_via_request_code SpdmRequestKeyExchange None self in
     parsed (SpdmKeyExchangeRequestPayload_spdm_read self r) self (bad_field w self) (\<lambda>(ke, r).
     with_summary_hash S SPDM_STATUS_INVALID_MSG_FIELD (ke_measurement_summary_hash_type ke) w self (\<lambda>msh self.
     let self = upd_neg (\<lambda>n. n\<lparr>termination_policy_set :=
           (ke_session_policy ke AND KEY_EXCHANGE_REQUESTER_SESSION_POLICY_TERMINATION_POLICY_MASK = 1)\<rparr>) self in
     if ke_session_policy ke AND KEY_EXCHANGE_REQUESTER_SESSION_POLICY_EVENT_ALL_POLICY_MASK = 2
        \<and> rsp_has self SpdmResponseCapabilityFlags_EVENT_CAP
     then (Err SPDM_STATUS_INVALID_MSG_FIELD, Some (Writer_used_slice w), self)
     else with_sm_version (ke_opaque ke) w self (\<lambda>opq.
       let slot_id = ke_slot_id ke in
       if SPDM_MAX_SLOT_NUMBER \<le> unat slot_id \<and> slot_id \<noteq> SPDM_PUB_KEY_SLOT_ID_KEY_EXCHANGE then bad_field w self
       else certain (if unat slot_id < SPDM_MAX_SLOT_NUMBER
                     then bindR (slot_at (my_cert_chain (provision_info self)) (unat slot_id)) (\<lambda>c. Ok (c \<noteq> None))
                     else Ok True) self (\<lambda>provisioned.
         if \<not> provisioned then bad_field w self
         else let self = upd_rt (\<lambda>r. r\<lparr>local_used_cert_chain_slot_id := slot_id\<rparr>) self in
           with_exchange S (ke_exchange ke) w self (\<lambda>final exchange.
           key_exchange_open S (take (Reader_used r) bs) ke msh opq final exchange w self))))))"

subsection \<open>FINISH\<close>

text \<open>
  The peer's certificates in a slot, without size and root hash, or its public key, where \<open>pub_key_id\<close>
  is the slot id that stands for the key.
\<close>

definition slot_der :: "u8 \<Rightarrow> u8 \<Rightarrow> 'h SpdmContext \<Rightarrow> SpdmDer SpdmResult" where
  "slot_der pub_key_id slot_id self =
     (if slot_id = pub_key_id
      then bindR (ok_or (Fail SPDM_STATUS_INVALID_PARAMETER) (peer_pub_key (provision_info self))) (\<lambda>pk.
           bindR (slice 0 (unat (cc_size pk)) (cc_data pk)) (\<lambda>bs. Ok (SpdmDerPubKeyRfc7250 bs)))
      else bindR (slot_at (peer_cert_chain (peer_info self)) (unat slot_id)) (\<lambda>c.
           bindR (ok_or (Fail SPDM_STATUS_INVALID_PARAMETER) c) (\<lambda>c.
           bindR (get_hash_size self) (\<lambda>h.
           bindR (slice (4 + unat h) (unat (cc_size c)) (cc_data c)) (\<lambda>bs. Ok (SpdmDerCertChain bs))))))"

definition peer_der :: "'h SpdmContext \<Rightarrow> SpdmDer SpdmResult" where
  "peer_der self = slot_der SPDM_PUB_KEY_SLOT_ID_KEY_EXCHANGE_RSP (peer_used_cert_chain_slot_id (runtime_info self)) self"

abbreviation (input) SPDM_FINISH_SIGN_CONTEXT :: bytes where
  "SPDM_FINISH_SIGN_CONTEXT \<equiv>
    [0x72, 0x65, 0x71, 0x75, 0x65, 0x73, 0x74, 0x65, 0x72, 0x2d, 0x66, 0x69, 0x6e, 0x69, 0x73, 0x68,
     0x20, 0x73, 0x69, 0x67, 0x6e, 0x69, 0x6e, 0x67]"

definition verify_finish_req_signature ::
  "'h Services \<Rightarrow> SpdmSignatureStruct \<Rightarrow> 'h SpdmSession \<Rightarrow> 'h SpdmContext \<Rightarrow> unit SpdmResult" where
  "verify_finish_req_signature S sig s self =
     bindR (calc_rsp_transcript_hash (svc_crypto S) s) (\<lambda>th.
     bindR (peer_der self) (\<lambda>der.
     if SpdmVersion12 \<le> ver_sel self
     then bindR (signing_message 12 SPDM_FINISH_SIGN_CONTEXT th self) (\<lambda>m.
       spdm_asym_verify S (base_hash_sel (negotiate_info self))
         (SpdmReqAsymAlgo_to_base (req_asym_sel (negotiate_info self)))
         (SpdmPqcReqAsymAlgo_to_base (pqc_req_asym_sel (negotiate_info self))) der (ManagedBuffer_as_ref m) sig)
     else Err SPDM_STATUS_INVALID_STATE_LOCAL))"

text \<open>\<open>th2\<close> and the data secrets, at the end of FINISH and of PSK_FINISH.\<close>

definition finish_data_secret :: "'h Services \<Rightarrow> u32 \<Rightarrow> Writer \<Rightarrow> 'h SpdmContext \<Rightarrow> 'h reply" where
  "finish_data_secret S sid w self =
     with_session sid w self (\<lambda>s.
     attempt (calc_rsp_transcript_hash (svc_crypto S) s) self (\<lambda>_. crypto_fault w self) (\<lambda>th.
     case generate_data_secret (svc_crypto S) (ver_sel self) th (s\<lparr>th2 := th\<rparr>) of (res, s) \<Rightarrow>
     let self = put_session sid s self in
     attempt res self (\<lambda>e. refuse SpdmErrorUnspecified e w self) (\<lambda>_. reply_ok w self)))"

text \<open>The signature of the requester, when the session asks for mutual authentication.\<close>

definition with_finish_signature ::
  "'h Services \<Rightarrow> u32 \<Rightarrow> bool \<Rightarrow> SpdmSignatureStruct \<Rightarrow> Writer \<Rightarrow> 'h SpdmContext \<Rightarrow>
     ('h SpdmContext \<Rightarrow> 'h reply) \<Rightarrow> 'h reply" where
  "with_finish_signature S sid is_mut_auth sig w self k =
     (if is_mut_auth
      then with_session sid w self (\<lambda>s.
           attempt (verify_finish_req_signature S sig s self) self
             (\<lambda>_. refuse SpdmErrorDecryptError SPDM_STATUS_CRYPTO_ERROR w self) (\<lambda>_.
           attempt_step (append_message_f (svc_crypto S) False sid (Sized_as_ref sig) self) (local_fault w) k))
      else k self)"

text \<open>The check of the requester's HMAC over the transcript.\<close>

definition with_verified_hmac ::
  "'h Services \<Rightarrow> u32 \<Rightarrow> SpdmDigestStruct \<Rightarrow> Writer \<Rightarrow> 'h SpdmContext \<Rightarrow> ('h SpdmContext \<Rightarrow> 'h reply) \<Rightarrow> 'h reply" where
  "with_verified_hmac S sid mac w self k =
     with_session sid w self (\<lambda>s.
     attempt (calc_rsp_transcript_hash (svc_crypto S) s) self (\<lambda>_. crypto_fault w self) (\<lambda>th.
     attempt (verify_hmac_with_request_finished_key (svc_crypto S) (Sized_as_ref th) mac s) self
       (\<lambda>_. refuse SpdmErrorDecryptError SPDM_STATUS_CRYPTO_ERROR w self) (\<lambda>_.
     attempt_step (append_message_f (svc_crypto S) False sid (Sized_as_ref mac) self) (local_fault w) k)))"

text \<open>The response, with the responder's HMAC when the handshake is in the clear.\<close>

definition finish_response :: "'h Services \<Rightarrow> u32 \<Rightarrow> usize \<Rightarrow> Writer \<Rightarrow> 'h SpdmContext \<Rightarrow> 'h reply" where
  "finish_response S sid hash_len w self =
     respond (ver_sel self) SpdmResponseFinishRsp
       (SpdmFinishResponsePayload_spdm_encode self
          \<lparr>finr_verify_data = \<lparr>data_size = of_nat hash_len, data = replicate SPDM_MAX_HASH_SIZE 0xcc\<rparr>,
           finr_opaque = SpdmOpaqueStruct_default\<rparr>) w self (\<lambda>w.
     let used = Writer_used w in
     if in_clear_text self
     then if used < hash_len then abort self
          else attempt_step (append_message_f (svc_crypto S) False sid (take (used - hash_len) (Writer_used_slice w)) self)
                 (local_fault w) (\<lambda>self.
            with_session sid w self (\<lambda>s.
            attempt (calc_rsp_transcript_hash (svc_crypto S) s) self (\<lambda>_. crypto_fault w self) (\<lambda>th.
            attempt (generate_hmac_with_response_finished_key (svc_crypto S) (Sized_as_ref th) s) self
              (\<lambda>_. crypto_fault w self) (\<lambda>mac.
            attempt_step (append_message_f (svc_crypto S) False sid (Sized_as_ref mac) self) (local_fault w) (\<lambda>self.
            present (patch (used - hash_len) hash_len (Sized_as_ref mac) w) (abort self) (\<lambda>w.
            finish_data_secret S sid w self))))))
     else attempt_step (append_message_f (svc_crypto S) False sid (Writer_used_slice w) self) (local_fault w) (\<lambda>self.
          finish_data_secret S sid w self))"

definition write_spdm_finish_response :: "'h Services \<Rightarrow> u32 \<Rightarrow> bytes \<Rightarrow> Writer \<Rightarrow> 'h SpdmContext \<Rightarrow> 'h reply" where
  "write_spdm_finish_response S sid bs w self =
     with_header bs w self (\<lambda>r.
     let self = reset_buffer_via_request_code SpdmRequestFinish (Some sid) self in
     parsed (SpdmFinishRequestPayload_spdm_read self r) self (bad_field w self) (\<lambda>(req, r).
     let opaque_total = (if SpdmVersion14 \<le> ver_sel self then 2 + unat (data_size (fin_opaque req)) else 0) in
     certain (slice 0 (4 + opaque_total) bs) self (\<lambda>first.
     attempt_step (append_message_f (svc_crypto S) False sid first self) (local_fault w) (\<lambda>self.
     with_session sid w self (\<lambda>s.
     let is_mut_auth = (mut_auth_requested s \<noteq> 0) in
     if is_mut_auth \<noteq> contains (fin_finish_request_attributes req) SIGNATURE_INCLUDED then bad_field w self
     else with_finish_signature S sid is_mut_auth (fin_signature req) w self (\<lambda>self.
       certain (get_hash_size self) self (\<lambda>hash_len.
       with_session sid w self (\<lambda>s.
       if use_psk s then bad_field w self
       else with_verified_hmac S sid (fin_verify_data req) w self (\<lambda>self.
         finish_response S sid (unat hash_len) w self)))))))))"

definition handle_spdm_finish :: "'h Services \<Rightarrow> u32 \<Rightarrow> bytes \<Rightarrow> Writer \<Rightarrow> 'h SpdmContext \<Rightarrow> 'h reply" where
  "handle_spdm_finish S sid bs w self = teardown_on_error sid (write_spdm_finish_response S sid bs w self)"

subsection \<open>PSK_EXCHANGE\<close>

text \<open>A session without PSK context is established at once: its data secrets are generated here.\<close>

definition psk_exchange_establish ::
  "'h Services \<Rightarrow> u32 \<Rightarrow> Writer \<Rightarrow> 'h SpdmContext \<Rightarrow> ('h SpdmContext \<Rightarrow> 'h reply) \<Rightarrow> 'h reply" where
  "psk_exchange_establish S sid w self k =
     (if psk_without_context self
      then with_session sid w self (\<lambda>s.
           attempt (calc_rsp_transcript_hash (svc_crypto S) s) self (\<lambda>_. crypto_fault w self) (\<lambda>th.
           case generate_data_secret (svc_crypto S) (ver_sel self) th (s\<lparr>th2 := th\<rparr>) of (res, s) \<Rightarrow>
           attempt res (put_session sid s self) (\<lambda>_. crypto_fault w (put_session sid s self)) (\<lambda>_.
           k (put_session sid (s\<lparr>session_state := SpdmSessionEstablished\<rparr>) self))))
      else k self)"

definition psk_exchange_finishing ::
  "'h Services \<Rightarrow> u32 \<Rightarrow> SpdmOpaqueStruct \<Rightarrow> usize \<Rightarrow> Writer \<Rightarrow> 'h SpdmContext \<Rightarrow> 'h reply" where
  "psk_exchange_finishing S sid opq hash_len w self =
     with_handshake_secret S sid w self (\<lambda>self.
     with_response_hmac S sid w self (\<lambda>mac self.
     present (patch (Writer_used w - hash_len) hash_len (Sized_as_ref mac) w) (abort self) (\<lambda>w.
     with_session sid w self (\<lambda>s.
     let self = put_session sid (s\<lparr>session_state := SpdmSessionHandshaking\<rparr>) self in
     psk_exchange_establish S sid w self (\<lambda>self.
     with_session sid w self (\<lambda>s.
     reply_ok w (put_session sid (take_sm_version opq (s\<lparr>heartbeat_period :=
       cfg_heartbeat_period (config_info self)\<rparr>)) self)))))))"

definition psk_exchange_in_session ::
  "'h Services \<Rightarrow> u32 \<Rightarrow> u16 \<Rightarrow> bytes \<Rightarrow> SpdmPskContextStruct \<Rightarrow> SpdmDigestStruct \<Rightarrow> SpdmOpaqueStruct \<Rightarrow> Writer \<Rightarrow>
     'h SpdmContext \<Rightarrow> 'h reply" where
  "psk_exchange_in_session S sid rsp_session_id req psk_context msh opq w self =
     certain (get_hash_size self) self (\<lambda>hash_len.
     respond (ver_sel self) SpdmResponsePskExchangeRsp
       (SpdmPskExchangeResponsePayload_spdm_encode self
          \<lparr>per_heartbeat_period = cfg_heartbeat_period (config_info self), per_rsp_session_id = rsp_session_id,
           per_measurement_summary_hash = msh, per_psk_context = psk_context, per_opaque = opq,
           per_verify_data = \<lparr>data_size = hash_len, data = replicate SPDM_MAX_HASH_SIZE 0xcc\<rparr>\<rparr>) w self (\<lambda>w.
     if Writer_used w < unat hash_len then abort self
     else attempt_step (append_message_k (svc_crypto S) sid req self) (local_fault w) (\<lambda>self.
       attempt_step (append_message_k (svc_crypto S) sid
           (take (Writer_used w - unat hash_len) (Writer_used_slice w)) self) (local_fault w) (\<lambda>self.
       psk_exchange_finishing S sid opq (unat hash_len) w self))))"

text \<open>
  The context is filled with random bytes only when the responder has no context: then its length
  is zero, and otherwise it is sent as zeros.
\<close>

definition with_psk_context ::
  "'h Services \<Rightarrow> Writer \<Rightarrow> 'h SpdmContext \<Rightarrow> (SpdmPskContextStruct \<Rightarrow> 'h reply) \<Rightarrow> 'h reply" where
  "with_psk_context S w self k =
     (if psk_without_context self
      then attempt (svc_get_random S MAX_SPDM_PSK_CONTEXT_SIZE) self (\<lambda>_. crypto_fault w self) (\<lambda>random.
           k \<lparr>data_size = 0, data = random\<rparr>)
      else k \<lparr>data_size = of_nat MAX_SPDM_PSK_CONTEXT_SIZE, data = replicate MAX_SPDM_PSK_CONTEXT_SIZE 0\<rparr>)"

definition psk_exchange_open ::
  "'h Services \<Rightarrow> bytes \<Rightarrow> SpdmPskExchangeRequestPayload \<Rightarrow> SpdmDigestStruct \<Rightarrow> SpdmOpaqueStruct \<Rightarrow>
     SpdmPskContextStruct \<Rightarrow> Writer \<Rightarrow> 'h SpdmContext \<Rightarrow> 'h reply" where
  "psk_exchange_open S req pe msh opq psk_context w self =
     attempt (get_next_half_session_id False self) self (\<lambda>_. session_limit w self) (\<lambda>rsp_session_id.
     present (get_next_avaiable_session self) (session_limit w self) (\<lambda>s.
     let sid = join_session_id (pe_req_session_id pe) rsp_session_id in
     certain (session_setup sid s) self (\<lambda>s.
     let s = upd_srt (\<lambda>r. r\<lparr>psk_hint := Some (pe_psk_hint pe), s_message_a := message_a (runtime_info self),
               rsp_cert_hash := None, req_cert_hash := None\<rparr>) (fresh_session S self True s);
         self = put_session INVALID_SESSION_ID s self in
     teardown_on_error sid (psk_exchange_in_session S sid rsp_session_id req psk_context msh opq w self))))"

definition handle_spdm_psk_exchange :: "'h Services \<Rightarrow> bytes \<Rightarrow> Writer \<Rightarrow> 'h SpdmContext \<Rightarrow> 'h reply" where
  "handle_spdm_psk_exchange S bs w self =
     with_session_header bs w self (\<lambda>r.
     let self = reset_buffer_via_request_code SpdmRequestPskExchange None self in
     present (SpdmPskExchangeRequestPayload_spdm_read self r) (bad_field w self) (\<lambda>(pe, r).
     with_summary_hash S SPDM_STATUS_CRYPTO_ERROR (pe_measurement_summary_hash_type pe) w self (\<lambda>msh self.
     with_sm_version (pe_opaque pe) w self (\<lambda>opq.
     with_psk_context S w self (\<lambda>psk_context.
     psk_exchange_open S (take (Reader_used r) bs) pe msh opq psk_context w self)))))"

subsection \<open>PSK_FINISH\<close>

definition write_spdm_psk_finish_response :: "'h Services \<Rightarrow> u32 \<Rightarrow> bytes \<Rightarrow> Writer \<Rightarrow> 'h SpdmContext \<Rightarrow> 'h reply" where
  "write_spdm_psk_finish_response S sid bs w self =
     with_header bs w self (\<lambda>r.
     let self = reset_buffer_via_request_code SpdmRequestPskFinish (Some sid) self in
     parsed (SpdmPskFinishRequestPayload_spdm_read self r) self (bad_field w self) (\<lambda>(req, r).
     certain (get_hash_size self) self (\<lambda>hash_len.
     if Reader_used r < unat hash_len then abort self
     else with_session sid w self (\<lambda>s.
       if \<not> use_psk s then bad_field w self
       else attempt_step (append_message_f (svc_crypto S) False sid (take (Reader_used r - unat hash_len) bs) self)
              (local_fault w) (\<lambda>self.
         with_verified_hmac S sid (pf_verify_data req) w self (\<lambda>self.
         respond (ver_sel self) SpdmResponsePskFinishRsp
           (SpdmPskFinishResponsePayload_spdm_encode self SpdmOpaqueStruct_default) w self (\<lambda>w.
         attempt_step (append_message_f (svc_crypto S) False sid (Writer_used_slice w) self) (local_fault w) (\<lambda>self.
         finish_data_secret S sid w self))))))))"

definition handle_spdm_psk_finish :: "'h Services \<Rightarrow> u32 \<Rightarrow> bytes \<Rightarrow> Writer \<Rightarrow> 'h SpdmContext \<Rightarrow> 'h reply" where
  "handle_spdm_psk_finish S sid bs w self = teardown_on_error sid (write_spdm_psk_finish_response S sid bs w self)"

subsection \<open>HEARTBEAT, KEY_UPDATE and END_SESSION\<close>

definition SpdmHeartbeatRequestPayload_spdm_read :: "unit decoder" where
  "SpdmHeartbeatRequestPayload_spdm_read = params_read"

definition SpdmHeartbeatResponsePayload_spdm_encode :: "fault encoder" where
  "SpdmHeartbeatResponsePayload_spdm_encode = params_encode"

definition handle_spdm_heartbeat :: "u32 \<Rightarrow> bytes \<Rightarrow> Writer \<Rightarrow> 'h SpdmContext \<Rightarrow> 'h reply" where
  "handle_spdm_heartbeat sid bs w self =
     with_header bs w self (\<lambda>r.
     let self = reset_buffer_via_request_code SpdmRequestHeartbeat (Some sid) self in
     present (SpdmHeartbeatRequestPayload_spdm_read r) (bad_field w self) (\<lambda>_.
     respond (ver_sel self) SpdmResponseHeartbeatAck SpdmHeartbeatResponsePayload_spdm_encode w self (\<lambda>w.
     reply_ok w self)))"

text \<open>The results of the updates are ignored; the session is what they leave. A panic is not ignored.\<close>

definition ignore_result :: "unit SpdmResult \<times> 'a \<Rightarrow> 'a popt" where
  "ignore_result m = (case m of (Inl Panic, _) \<Rightarrow> Inl EPanic | (_, s) \<Rightarrow> Inr s)"

definition key_update_session :: "'h Crypto \<Rightarrow> SpdmVersion \<Rightarrow> SpdmKeyUpdateOperation \<Rightarrow> 'h SpdmSession \<Rightarrow> 'h SpdmSession popt" where
  "key_update_session C ver op s =
     (if op = SpdmUpdateSingleKey then ignore_result (create_data_secret_update C ver True False s)
      else if op = SpdmUpdateAllKeys
      then bindR (ignore_result (create_data_secret_update C ver True True s)) (\<lambda>s.
           Inr (activate_data_secret_update ver False True True s))
      else if op = SpdmVerifyNewKey then Inr (activate_data_secret_update ver True False True s)
      else Inl ENone)"

definition handle_spdm_key_update :: "'h Services \<Rightarrow> u32 \<Rightarrow> bytes \<Rightarrow> Writer \<Rightarrow> 'h SpdmContext \<Rightarrow> 'h reply" where
  "handle_spdm_key_update S sid bs w self =
     with_header bs w self (\<lambda>r.
     let self = reset_buffer_via_request_code SpdmRequestKeyUpdate (Some sid) self in
     present (SpdmKeyUpdateRequestPayload_spdm_read r) (bad_field w self) (\<lambda>(req, r).
     with_session sid w self (\<lambda>s.
     parsed (key_update_session (svc_crypto S) (ver_sel self) (ku_key_update_operation req) s) self (bad_field w self) (\<lambda>s.
     let self = put_session sid s self in
     respond (ver_sel self) SpdmResponseKeyUpdateAck (SpdmKeyUpdateRequestPayload_spdm_encode req) w self (\<lambda>w.
     reply_ok w self)))))"

definition SpdmEndSessionResponsePayload_spdm_encode :: "fault encoder" where
  "SpdmEndSessionResponsePayload_spdm_encode = params_encode"

definition handle_spdm_end_session :: "u32 \<Rightarrow> bytes \<Rightarrow> Writer \<Rightarrow> 'h SpdmContext \<Rightarrow> 'h reply" where
  "handle_spdm_end_session sid bs w self =
     with_header bs w self (\<lambda>r.
     present (SpdmEndSessionRequestPayload_spdm_read r) (bad_field w self) (\<lambda>_.
     let self = reset_buffer_via_request_code SpdmRequestEndSession (Some sid) self in
     respond (ver_sel self) SpdmResponseEndSessionAck SpdmEndSessionResponsePayload_spdm_encode w self (\<lambda>w.
     reply_ok w self)))"

subsection \<open>Laws\<close>

text \<open>What a handler can return, one rule per part.\<close>

lemma yields_with_summary_hash:
  assumes "\<And>b c st. yields Q (refuse c st w (upd_rt (\<lambda>r. r\<lparr>need_measurement_summary_hash := b\<rparr>) self))"
    and "\<And>h b. yields Q (k h (upd_rt (\<lambda>r. r\<lparr>need_measurement_summary_hash := b\<rparr>) self))"
  shows "yields Q (with_summary_hash S st t w self k)"
  unfolding with_summary_hash_def Let_def by (intro yields_if yields_present assms)

lemma yields_with_sm_version:
  assumes "\<And>c st. yields Q (refuse c st w self)" "yields Q (abort self)" "\<And>v. yields Q (k v)"
  shows "yields Q (with_sm_version opq w self k)"
  unfolding with_sm_version_def by (intro yields_option yields_if yields_present yields_attempt assms)

lemma yields_with_session_header:
  assumes "\<And>c st. yields Q (refuse c st w self)"
    and "\<And>hdr r. SpdmMessageHeader_read (Reader_init bs) = Some (hdr, r) \<Longrightarrow> version hdr = ver_sel self \<Longrightarrow>
      SpdmConnectionState_get_u8 SpdmConnectionNegotiated \<le> SpdmConnectionState_get_u8 (connection_state (runtime_info self)) \<Longrightarrow>
      SpdmVersion11 \<le> ver_sel self \<Longrightarrow> yields Q (k r)"
  shows "yields Q (with_session_header bs w self k)"
  unfolding with_session_header_def by (intro yields_if yields_with_header assms; simp)

lemma yields_with_exchange:
  assumes "\<And>c st. yields Q (refuse c st w self)" "yields Q (abort self)" "\<And>f e. yields Q (k f e)"
  shows "yields Q (with_exchange S peer w self k)"
  unfolding with_exchange_def by (intro yields_if yields_certain yields_present yields_prod assms)

lemma yields_with_psk_context:
  assumes "\<And>c st. yields Q (refuse c st w self)" "yields Q (abort self)" "\<And>v. yields Q (k v)"
  shows "yields Q (with_psk_context S w self k)"
  unfolding with_psk_context_def by (intro yields_if yields_attempt assms)

lemmas yields_session_parts = yields_with_summary_hash yields_with_sm_version yields_with_session_header
  yields_with_exchange yields_with_psk_context

end
