(* ===== verification/RspInfo.thy ===== *)
theory RspInfo
  imports RspSession
begin

text \<open>
  The responder's handlers that deliver certificates, measurements and vendor defined data:
  \<open>responder/digest_rsp.rs\<close>, \<open>certificate_rsp.rs\<close>, \<open>challenge_rsp.rs\<close>, \<open>measurement_rsp.rs\<close> and
  \<open>vendor_rsp.rs\<close>, with running transcript hashes.
\<close>

abbreviation upd_prov :: "(SpdmProvisionInfo \<Rightarrow> SpdmProvisionInfo) \<Rightarrow> 'h SpdmContext \<Rightarrow> 'h SpdmContext" where
  "upd_prov f self \<equiv> self\<lparr>provision_info := f (provision_info self)\<rparr>"

abbreviation certs :: "'h SpdmContext \<Rightarrow> CertChain option list" where
  "certs self \<equiv> my_cert_chain (provision_info self)"

text \<open>The beginning of the four requests that need a negotiated connection.\<close>

definition with_negotiated_header :: "bytes \<Rightarrow> Writer \<Rightarrow> 'h SpdmContext \<Rightarrow> (Reader \<Rightarrow> 'h reply) \<Rightarrow> 'h reply" where
  "with_negotiated_header bs w self k =
     (if SpdmConnectionState_get_u8 (connection_state (runtime_info self))
           < SpdmConnectionState_get_u8 SpdmConnectionNegotiated
      then unexpected w self else with_header bs w self k)"

text \<open>A message of the transcript B, outside a session only.\<close>

definition with_message_b ::
  "'h Services \<Rightarrow> u32 option \<Rightarrow> bytes \<Rightarrow> Writer \<Rightarrow> 'h SpdmContext \<Rightarrow> ('h SpdmContext \<Rightarrow> 'h reply) \<Rightarrow> 'h reply" where
  "with_message_b S sid msg w self k =
     (case sid of None \<Rightarrow> attempt_step (append_message_b (svc_crypto S) msg self) (local_fault w) k | Some _ \<Rightarrow> k self)"

definition provisioned_slots :: "'h SpdmContext \<Rightarrow> usize list" where
  "provisioned_slots self = filter (\<lambda>i. certs self ! i \<noteq> None) [0..<SPDM_MAX_SLOT_NUMBER]"

definition provisioned_mask :: "'h SpdmContext \<Rightarrow> u8" where
  "provisioned_mask self = fold (\<lambda>i mask. mask OR push_bit i 1) (provisioned_slots self) 0"

subsection \<open>GET_DIGESTS\<close>

text \<open>The key information of the provisioned slots; a slot without it panics.\<close>

definition key_infos ::
  "'h SpdmContext \<Rightarrow> (u8 list \<times> SpdmCertificateModelType list \<times> SpdmKeyUsageMask list) option" where
  "key_infos self =
     (if multi_key_rsp self
      then let p = provision_info self; slots = provisioned_slots self in do {
        ids \<leftarrow> those (map (\<lambda>i. local_key_pair_id p ! i) slots);
        infos \<leftarrow> those (map (\<lambda>i. local_cert_info p ! i) slots);
        masks \<leftarrow> those (map (\<lambda>i. local_key_usage_bit_mask p ! i) slots);
        Some (ids, infos, masks) }
      else Some ([], [], []))"

fun patch_digests ::
  "'h Services \<Rightarrow> CertChain option list \<Rightarrow> usize \<Rightarrow> Writer \<Rightarrow> 'h SpdmContext \<Rightarrow> (Writer \<Rightarrow> 'h reply) \<Rightarrow> 'h reply" where
  "patch_digests S [] at w self k = k w"
| "patch_digests S (None # cs) at w self k = patch_digests S cs at w self k"
| "patch_digests S (Some c # cs) at w self k =
     (case hash_all (svc_crypto S) (base_hash_sel (negotiate_info self)) (CertChain_as_ref c) of
        None \<Rightarrow> (Err SPDM_STATUS_CRYPTO_ERROR, Some (Writer_used_slice w), self)
      | Some h \<Rightarrow> present (patch at (unat (data_size h)) (Sized_as_ref h) w) (abort self) (\<lambda>w.
          patch_digests S cs (at + unat (data_size h)) w self k))"

abbreviation (input) SPDM_DIGESTS_RESPONSE_DIGEST_FIELD_BYTE_OFFSET :: usize where
  "SPDM_DIGESTS_RESPONSE_DIGEST_FIELD_BYTE_OFFSET \<equiv> 4"

definition handle_spdm_digest :: "'h Services \<Rightarrow> bytes \<Rightarrow> u32 option \<Rightarrow> Writer \<Rightarrow> 'h SpdmContext \<Rightarrow> 'h reply" where
  "handle_spdm_digest S bs sid w self =
     with_negotiated_header bs w self (\<lambda>r.
     let self = reset_buffer_via_request_code SpdmRequestGetDigests sid self in
     present (SpdmGetDigestsRequestPayload_spdm_read r) (bad_field w self) (\<lambda>(_, r).
     with_message_b S sid (take (Reader_used r) bs) w self (\<lambda>self.
     certain (get_hash_size self) self (\<lambda>digest_size.
     present (key_infos self) (abort self) (\<lambda>(ids, infos, masks).
     respond (ver_sel self) SpdmResponseDigests
       (SpdmDigestsResponsePayload_spdm_encode self
          \<lparr>dg_slot_mask = provisioned_mask self,
           dg_digests = replicate SPDM_MAX_SLOT_NUMBER \<lparr>data_size = digest_size, data = replicate SPDM_MAX_HASH_SIZE 0xff\<rparr>,
           dg_supported_slot_mask = local_supported_slot_mask (provision_info self),
           dg_key_pair_id = slot_array 0 ids, dg_certificate_info = slot_array SpdmCertModelTypeNone infos,
           dg_key_usage_mask = slot_array 0 masks\<rparr>) w self (\<lambda>w.
     patch_digests S (certs self) SPDM_DIGESTS_RESPONSE_DIGEST_FIELD_BYTE_OFFSET w self (\<lambda>w.
     with_message_b S sid (Writer_used_slice w) w self (reply_ok w))))))))"

subsection \<open>GET_CERTIFICATE\<close>

text \<open>The portion of a chain that answers a request: its bytes and the length of what is left.\<close>

definition cert_portion :: "CertChain \<Rightarrow> u32 \<Rightarrow> u32 \<Rightarrow> (bytes \<times> u32) SpdmResult" where
  "cert_portion chain offset len =
     (let len = min len (of_nat MAX_SPDM_CERT_PORTION_LEN);
          len = min len (cc_size chain - offset)
      in bindR (slice (unat offset) (unat offset + unat len) (cc_data chain)) (\<lambda>bs.
         Ok (bs, cc_size chain - (len + offset))))"

definition handle_spdm_certificate :: "'h Services \<Rightarrow> bytes \<Rightarrow> u32 option \<Rightarrow> Writer \<Rightarrow> 'h SpdmContext \<Rightarrow> 'h reply" where
  "handle_spdm_certificate S bs sid w self =
     with_negotiated_header bs w self (\<lambda>r.
     let self = reset_buffer_via_request_code SpdmRequestGetCertificate sid self in
     present (SpdmGetCertificateRequestPayload_spdm_read self r) (bad_field w self) (\<lambda>(req, r).
     with_message_b S sid (take (Reader_used r) bs) w self (\<lambda>self.
     if SPDM_MAX_SLOT_NUMBER \<le> unat (gce_slot_id req) then bad_field w self
     else certain (slot_at (certs self) (unat (gce_slot_id req))) self (\<lambda>chain.
       present chain (refuse SpdmErrorInvalidRequest SPDM_STATUS_INVALID_STATE_LOCAL w self) (\<lambda>chain.
       if cc_size chain \<le> gce_offset req then bad_field w self
       else certain (cert_portion chain (gce_offset req) (gce_length req)) self (\<lambda>(portion, remainder).
         respond (ver_sel self) SpdmResponseCertificate
           (SpdmCertificateResponsePayload_spdm_encode self
              \<lparr>cer_slot_id = gce_slot_id req, cer_portion_length = of_nat (length portion),
               cer_remainder_length = remainder,
               cer_cert_chain = copy_at 0 portion (replicate MAX_SPDM_CERT_PORTION_LEN 0)\<rparr>) w self (\<lambda>w.
         with_message_b S sid (Writer_used_slice w) w self (reply_ok w))))))))"

subsection \<open>CHALLENGE\<close>

abbreviation (input) SPDM_PUB_KEY_SLOT_ID_CHALLENGE :: u8 where "SPDM_PUB_KEY_SLOT_ID_CHALLENGE \<equiv> 0xFF"
abbreviation (input) SPDM_PUB_KEY_SLOT_ID_CHALLENGE_AUTH :: u8 where "SPDM_PUB_KEY_SLOT_ID_CHALLENGE_AUTH \<equiv> 0xF"

abbreviation (input) SPDM_CHALLENGE_AUTH_SIGN_CONTEXT :: bytes where
  "SPDM_CHALLENGE_AUTH_SIGN_CONTEXT \<equiv>
    [0x72, 0x65, 0x73, 0x70, 0x6f, 0x6e, 0x64, 0x65, 0x72, 0x2d, 0x63, 0x68, 0x61, 0x6c, 0x6c, 0x65,
     0x6e, 0x67, 0x65, 0x5f, 0x61, 0x75, 0x74, 0x68, 0x20, 0x73, 0x69, 0x67, 0x6e, 0x69, 0x6e, 0x67]"

definition generate_challenge_auth_signature :: "'h Services \<Rightarrow> 'h SpdmContext \<Rightarrow> SpdmSignatureStruct SpdmResult" where
  "generate_challenge_auth_signature S self =
     bindR (ok_or (Fail SPDM_STATUS_INVALID_STATE_LOCAL) (digest_context_m1m2 (runtime_info self))) (\<lambda>h.
     bindR (ok_or (Fail SPDM_STATUS_CRYPTO_ERROR) (hash_ctx_finalize (svc_crypto S) h)) (\<lambda>d.
     if SpdmVersion12 \<le> ver_sel self
     then bindR (signing_message 4 SPDM_CHALLENGE_AUTH_SIGN_CONTEXT d self) (\<lambda>m.
          ok_or (Fail SPDM_STATUS_CRYPTO_ERROR) (spdm_asym_sign S self (ManagedBuffer_as_ref m)))
     else Err SPDM_STATUS_INVALID_STATE_LOCAL))"

text \<open>
  The chain or the public key that a slot id names, where \<open>pub_key_id\<close> is the id of the public key;
  the status of a refusal is that of the first check that fails.
\<close>

definition with_slot_chain ::
  "u8 \<Rightarrow> u8 \<Rightarrow> Writer \<Rightarrow> 'h SpdmContext \<Rightarrow> (CertChain \<Rightarrow> 'h reply) \<Rightarrow> 'h reply" where
  "with_slot_chain pub_key_id slot_id w self k =
     (let missing = refuse SpdmErrorInvalidRequest SPDM_STATUS_INVALID_STATE_LOCAL w self in
      if slot_id \<noteq> pub_key_id
      then if SPDM_MAX_SLOT_NUMBER \<le> unat slot_id then bad_field w self
           else certain (slot_at (certs self) (unat slot_id)) self (\<lambda>chain. present chain missing k)
      else present (my_pub_key (provision_info self)) missing k)"

definition challenge_sign :: "'h Services \<Rightarrow> Writer \<Rightarrow> 'h SpdmContext \<Rightarrow> 'h reply" where
  "challenge_sign S w self =
     certain (get_asym_sig_size self) self (\<lambda>sig_len.
     if Writer_used w < unat sig_len then abort self
     else attempt_step (append_message_c (svc_crypto S) (take (Writer_used w - unat sig_len) (Writer_used_slice w)) self)
            (local_fault w) (\<lambda>self.
       attempt (generate_challenge_auth_signature S self) self (\<lambda>_. local_fault w self) (\<lambda>sig.
       present (patch (Writer_used w - unat sig_len) (unat sig_len) (Sized_as_ref sig) w) (abort self) (\<lambda>w.
       reply_ok w (reset_message_c (reset_message_b self))))))"

definition handle_spdm_challenge :: "'h Services \<Rightarrow> bytes \<Rightarrow> Writer \<Rightarrow> 'h SpdmContext \<Rightarrow> 'h reply" where
  "handle_spdm_challenge S bs w self =
     with_negotiated_header bs w self (\<lambda>r.
     let self = reset_buffer_via_request_code SpdmRequestChallenge None self in
     present (SpdmChallengeRequestPayload_spdm_read self r) (bad_field w self) (\<lambda>(ch, r).
     with_summary_hash S SPDM_STATUS_INVALID_STATE_LOCAL (ch_measurement_summary_hash_type ch) w self (\<lambda>msh self.
     with_slot_chain SPDM_PUB_KEY_SLOT_ID_CHALLENGE (ch_slot_id ch) w self (\<lambda>chain.
     attempt_step (append_message_c (svc_crypto S) (take (Reader_used r) bs) self) (local_fault w) (\<lambda>self.
     present (hash_all (svc_crypto S) (base_hash_sel (negotiate_info self)) (CertChain_as_ref chain))
       (crypto_fault w self) (\<lambda>cert_hash.
     attempt (svc_get_random S SPDM_NONCE_SIZE) self (\<lambda>_. local_fault w self) (\<lambda>nonce.
     certain (get_asym_sig_size self) self (\<lambda>sig_len.
     let pub_key = (ch_slot_id ch = SPDM_PUB_KEY_SLOT_ID_CHALLENGE) in
     respond (ver_sel self) SpdmResponseChallengeAuth
       (SpdmChallengeAuthResponsePayload_spdm_encode self
          \<lparr>cha_slot_id = (if pub_key then SPDM_PUB_KEY_SLOT_ID_CHALLENGE_AUTH else ch_slot_id ch),
           cha_slot_mask = (if pub_key then 0x00 else provisioned_mask self),
           cha_challenge_auth_attribute = 0, cha_cert_chain_hash = cert_hash, cha_nonce = nonce,
           cha_measurement_summary_hash = msh, cha_opaque = SpdmOpaqueStruct_default,
           cha_requester_context = (if SpdmVersion13 \<le> ver_sel self then ch_context ch
                                    else replicate SPDM_CHALLENGE_CONTEXT_SIZE 0),
           cha_signature = \<lparr>data_size = sig_len, data = replicate SPDM_MAX_ASYM_SIG_SIZE 0xbb\<rparr>\<rparr>) w self (\<lambda>w.
     challenge_sign S w self)))))))))"

subsection \<open>GET_MEASUREMENTS\<close>

abbreviation (input) SPDM_PUB_KEY_SLOT_ID_MEASUREMENT :: u8 where "SPDM_PUB_KEY_SLOT_ID_MEASUREMENT \<equiv> 0xF"

abbreviation (input) SPDM_MEASUREMENTS_SIGN_CONTEXT :: bytes where
  "SPDM_MEASUREMENTS_SIGN_CONTEXT \<equiv>
    [0x72, 0x65, 0x73, 0x70, 0x6f, 0x6e, 0x64, 0x65, 0x72, 0x2d, 0x6d, 0x65, 0x61, 0x73, 0x75, 0x72,
     0x65, 0x6d, 0x65, 0x6e, 0x74, 0x73, 0x20, 0x73, 0x69, 0x67, 0x6e, 0x69, 0x6e, 0x67]"

definition generate_measurement_signature ::
  "'h Services \<Rightarrow> u32 option \<Rightarrow> 'h SpdmContext \<Rightarrow> SpdmSignatureStruct SpdmResult" where
  "generate_measurement_signature S sid self =
     bindR (case sid of
              Some i \<Rightarrow> bindR (ok_or (Fail SPDM_STATUS_INVALID_STATE_LOCAL) (get_session_via_id i self)) (\<lambda>s.
                       ok_or Panic (s_digest_context_l1l2 (s_runtime_info s)))
            | None \<Rightarrow> ok_or Panic (digest_context_l1l2 (runtime_info self))) (\<lambda>h.
     bindR (ok_or (Fail SPDM_STATUS_CRYPTO_ERROR) (hash_ctx_finalize (svc_crypto S) h)) (\<lambda>d.
     if SpdmVersion12 \<le> ver_sel self
     then bindR (signing_message 6 SPDM_MEASUREMENTS_SIGN_CONTEXT d self) (\<lambda>m.
          ok_or (Fail SPDM_STATUS_CRYPTO_ERROR) (spdm_asym_sign S self (ManagedBuffer_as_ref m)))
     else Err SPDM_STATUS_INVALID_STATE_LOCAL))"

definition with_measurement_slot ::
  "SpdmGetMeasurementsRequestPayload \<Rightarrow> Writer \<Rightarrow> 'h SpdmContext \<Rightarrow> ('h SpdmContext \<Rightarrow> 'h reply) \<Rightarrow> 'h reply" where
  "with_measurement_slot req w self k =
     (let sig_requested = contains (gm_measurement_attributes req) SIGNATURE_REQUESTED;
          self = upd_rt (\<lambda>r. r\<lparr>need_measurement_signature := sig_requested\<rparr>) self in
      if sig_requested then with_slot_chain SPDM_PUB_KEY_SLOT_ID_MEASUREMENT (gm_slot_id req) w self (\<lambda>_. k self)
      else if gm_slot_id req \<noteq> 0 then bad_field w self else k self)"

definition with_measurement_record ::
  "'h Services \<Rightarrow> SpdmMeasurementOperation \<Rightarrow> Writer \<Rightarrow> 'h SpdmContext \<Rightarrow>
     (u8 \<Rightarrow> SpdmMeasurementRecordStructure \<Rightarrow> 'h reply) \<Rightarrow> 'h reply" where
  "with_measurement_record S op w self k =
     (let n = negotiate_info self;
          collect = svc_measurement_collection S (spdm_version_sel n) (measurement_specification_sel n)
                      (measurement_hash_sel n) in
      present (collect (unat (SpdmMeasurementOperation_get_u8 SpdmMeasurementQueryTotalNumber))) (local_fault w self) (\<lambda>meas.
      let number = mr_number_of_blocks meas in
      case op of
        SpdmMeasurementRequestAll \<Rightarrow>
          present (collect (unat (SpdmMeasurementOperation_get_u8 SpdmMeasurementRequestAll))) (local_fault w self) (k number)
      | SpdmMeasurementOperationUnknown index \<Rightarrow>
          if number < index then bad_field w self
          else present (collect (unat index)) (local_fault w self) (k number)
      | SpdmMeasurementQueryTotalNumber \<Rightarrow> k number SpdmMeasurementRecordStructure_default))"

definition measurement_sign ::
  "'h Services \<Rightarrow> u32 option \<Rightarrow> bool \<Rightarrow> Writer \<Rightarrow> 'h SpdmContext \<Rightarrow> 'h reply" where
  "measurement_sign S sid sig_requested w self =
     (if sig_requested
      then certain (get_asym_sig_size self) self (\<lambda>sig_len.
        if Writer_used w < unat sig_len then abort self
        else attempt_step (append_message_m (svc_crypto S) sid (take (Writer_used w - unat sig_len) (Writer_used_slice w)) self)
               (local_fault w) (\<lambda>self.
          attempt (generate_measurement_signature S sid self) self (\<lambda>_. local_fault w self) (\<lambda>sig.
          present (patch (Writer_used w - unat sig_len) (unat sig_len) (Sized_as_ref sig) w) (abort self) (\<lambda>w.
          reply_ok w (reset_message_m sid self)))))
      else attempt_step (append_message_m (svc_crypto S) sid (Writer_used_slice w) self) (local_fault w) (reply_ok w))"

definition write_spdm_measurement_response ::
  "'h Services \<Rightarrow> u32 option \<Rightarrow> bytes \<Rightarrow> Writer \<Rightarrow> 'h SpdmContext \<Rightarrow> 'h reply" where
  "write_spdm_measurement_response S sid bs w self =
     with_negotiated_header bs w self (\<lambda>r.
     let self = reset_buffer_via_request_code SpdmRequestGetMeasurements sid self in
     present (SpdmGetMeasurementsRequestPayload_spdm_read self r) (bad_field w self) (\<lambda>(req, r).
     certain (get_asym_sig_size self) self (\<lambda>sig_len.
     with_measurement_slot req w self (\<lambda>self.
     attempt_step (append_message_m (svc_crypto S) sid (take (Reader_used r) bs) self) (local_fault w) (\<lambda>self.
     with_measurement_record S (gm_measurement_operation req) w self (\<lambda>number meas.
     attempt (svc_get_random S SPDM_NONCE_SIZE) self (\<lambda>_. crypto_fault w self) (\<lambda>nonce.
     respond (ver_sel self) SpdmResponseMeasurements
       (SpdmMeasurementsResponsePayload_spdm_encode self
          \<lparr>ms_number_of_measurement = number,
           ms_content_changed = (if cfg_runtime_content_change_support (config_info self) \<and> SpdmVersion12 \<le> ver_sel self
                                 then content_changed (runtime_info self) else NotSupported),
           ms_slot_id = gm_slot_id req, ms_measurement_record = meas, ms_nonce = nonce,
           ms_opaque = SpdmOpaqueStruct_default, ms_requester_context = gm_context req,
           ms_signature = \<lparr>data_size = sig_len, data = replicate SPDM_MAX_ASYM_SIG_SIZE 0x60\<rparr>,
           ms_measurement_operation = gm_measurement_operation req\<rparr>) w self (\<lambda>w.
     measurement_sign S sid (contains (gm_measurement_attributes req) SIGNATURE_REQUESTED) w self))))))))"

text \<open>An error, other than that of a peer that is not ready, resets the transcript.\<close>

definition handle_spdm_measurement :: "'h Services \<Rightarrow> u32 option \<Rightarrow> bytes \<Rightarrow> Writer \<Rightarrow> 'h SpdmContext \<Rightarrow> 'h reply" where
  "handle_spdm_measurement S sid bs w self =
     (case write_spdm_measurement_response S sid bs w self of
        (Inl (Fail e), out, self) \<Rightarrow>
          (Inl (Fail e), out, if e \<noteq> SPDM_STATUS_NOT_READY_PEER then reset_message_m sid self else self)
      | rp \<Rightarrow> rp)"

subsection \<open>VENDOR_DEFINED_REQUEST\<close>

definition write_spdm_vendor_defined_response ::
  "'h Services \<Rightarrow> u32 option \<Rightarrow> bytes \<Rightarrow> Writer \<Rightarrow> 'h SpdmContext \<Rightarrow> 'h reply" where
  "write_spdm_vendor_defined_response S sid bs w self =
     with_header bs w self (\<lambda>r.
     let self = reset_buffer_via_request_code SpdmRequestVendorDefinedRequest sid self in
     present (SpdmVendorDefinedPayload_spdm_read self r) (bad_field w self) (\<lambda>(req, r).
     attempt (svc_vendor_defined_request_handler S (vd_vendor_id req) (vd_payload req)) self
       (\<lambda>e. refuse SpdmErrorUnspecified e w self) (\<lambda>payload.
     respond (ver_sel self) SpdmResponseVendorDefinedResponse
       (SpdmVendorDefinedPayload_spdm_encode self (req\<lparr>vd_payload := payload\<rparr>)) w self (\<lambda>w.
     reply_ok w self))))"

definition handle_spdm_vendor_defined_request ::
  "'h Services \<Rightarrow> u32 option \<Rightarrow> bytes \<Rightarrow> Writer \<Rightarrow> 'h SpdmContext \<Rightarrow> 'h reply" where
  "handle_spdm_vendor_defined_request S sid bs w self =
     (case svc_vendor_defined_request_handler_ex S of
        Some handler \<Rightarrow> handler sid bs (Writer_left_slice w) self
      | None \<Rightarrow> write_spdm_vendor_defined_response S sid bs w self)"

subsection \<open>Laws\<close>

lemma yields_with_negotiated_header:
  assumes "\<And>c st. yields Q (refuse c st w self)"
    and "\<And>hdr r. SpdmMessageHeader_read (Reader_init bs) = Some (hdr, r) \<Longrightarrow> version hdr = ver_sel self \<Longrightarrow>
      SpdmConnectionState_get_u8 SpdmConnectionNegotiated \<le> SpdmConnectionState_get_u8 (connection_state (runtime_info self)) \<Longrightarrow>
      yields Q (k r)"
  shows "yields Q (with_negotiated_header bs w self k)"
  unfolding with_negotiated_header_def by (intro yields_if yields_with_header assms; simp)

lemma yields_with_slot_chain:
  assumes "\<And>c st. yields Q (refuse c st w self)" "yields Q (abort self)" "\<And>chain. yields Q (k chain)"
  shows "yields Q (with_slot_chain pub_key_id slot_id w self k)"
  unfolding with_slot_chain_def Let_def by (intro yields_if yields_certain yields_present assms)

lemma yields_with_measurement_slot:
  assumes "\<And>c st b. yields Q (refuse c st w (upd_rt (\<lambda>r. r\<lparr>need_measurement_signature := b\<rparr>) self))"
    and "\<And>b. yields Q (abort (upd_rt (\<lambda>r. r\<lparr>need_measurement_signature := b\<rparr>) self))"
    and "yields Q (k (upd_rt (\<lambda>r. r\<lparr>need_measurement_signature :=
           contains (gm_measurement_attributes req) SIGNATURE_REQUESTED\<rparr>) self))"
  shows "yields Q (with_measurement_slot req w self k)"
  unfolding with_measurement_slot_def Let_def by (intro yields_if yields_with_slot_chain assms)

lemma yields_with_measurement_record:
  assumes "\<And>c st. yields Q (refuse c st w self)" "\<And>n r. yields Q (k n r)"
  shows "yields Q (with_measurement_record S op w self k)"
  unfolding with_measurement_record_def Let_def
  by (cases op) (auto intro!: yields_present assms)

lemmas yields_info_parts = yields_with_negotiated_header yields_with_slot_chain yields_with_measurement_slot
  yields_with_measurement_record

end
