(* ===== verification/Dispatch.thy ===== *)
theory Dispatch
  imports RspConnect RspInfo
begin

text \<open>
  The responder's message loop (\<open>responder/context.rs\<close>): the dispatch of a request to its handler, the
  sending of the response with the change of state that follows it, and \<open>process_message\<close>, which takes
  one packet from the device to the packet that answers it. The secured path of the context
  (\<open>encode_secured_message\<close>, \<open>decode_secured_message\<close> of \<open>common/mod.rs\<close>) is here, too.

  The device is not state: the packet it received is an argument, what it is given to send is part of
  the result, and whether sending succeeds is the argument \<open>dev\<close>. The watchdog has no state that the
  library reads, so its calls are left out.
\<close>

abbreviation (input) MAX_SPDM_MSG_SIZE :: usize where "MAX_SPDM_MSG_SIZE \<equiv> 4096"
abbreviation (input) SPDM_DATA_TRANSFER_SIZE :: usize where "SPDM_DATA_TRANSFER_SIZE \<equiv> 4096"
abbreviation (input) SPDM_SENDER_DATA_TRANSFER_SIZE :: usize where "SPDM_SENDER_DATA_TRANSFER_SIZE \<equiv> 4096"

subsection \<open>Secured messages of the context\<close>

definition encode_secured_message ::
  "TransportEncap \<Rightarrow> 'h Crypto \<Rightarrow> u32 \<Rightarrow> bytes \<Rightarrow> bytes \<Rightarrow> bool \<Rightarrow> bool \<Rightarrow> 'h SpdmContext \<Rightarrow>
     (usize \<times> bytes) SpdmResult \<times> 'h SpdmContext" where
  "encode_secured_message T C sid send_buffer transport_buffer is_requester is_app_message self =
     (case tp_encap_app T send_buffer (replicate SENDER_BUFFER_SIZE 0) is_app_message of
        Inl e \<Rightarrow> (Inl e, self)
      | Inr (used, app_buffer) \<Rightarrow>
          (case get_session_via_id sid self of
             None \<Rightarrow> (Err SPDM_STATUS_INVALID_PARAMETER, self)
           | Some s \<Rightarrow>
               (case encode_spdm_secured_message C (take used app_buffer) (replicate SENDER_BUFFER_SIZE 0) is_requester s of
                  (res, s) \<Rightarrow>
                    (bindR res (\<lambda>(encode_size, encoded).
                       tp_encap T (take encode_size encoded) transport_buffer True), put_session sid s self))))"

definition decode_secured_message ::
  "TransportEncap \<Rightarrow> 'h Crypto \<Rightarrow> u32 \<Rightarrow> bytes \<Rightarrow> bytes \<Rightarrow> 'h SpdmContext \<Rightarrow>
     (usize \<times> bytes) SpdmResult \<times> 'h SpdmContext" where
  "decode_secured_message T C sid transport_buffer receive_buffer self =
     (case tp_decap T transport_buffer (replicate RECEIVER_BUFFER_SIZE 0) of
        Inl e \<Rightarrow> (Inl e, self)
      | Inr (used, secured_message, encoded) \<Rightarrow>
          if \<not> secured_message then (Err SPDM_STATUS_DECAP_FAIL, self)
          else (case get_session_via_id sid self of
              None \<Rightarrow> (Err SPDM_STATUS_INVALID_PARAMETER, self)
            | Some s \<Rightarrow>
                (case decode_spdm_secured_message C (take used encoded) (replicate RECEIVER_BUFFER_SIZE 0) False s of
                   (res, s) \<Rightarrow>
                     (bindR res (\<lambda>(decode_size, app_buffer).
                      bindR (tp_decap_app T (take decode_size app_buffer) receive_buffer) (\<lambda>(used, _, buf).
                      Ok (used, buf))), put_session sid s self))))"

subsection \<open>Dispatch\<close>

definition dispatch_message :: "'h Services \<Rightarrow> bytes \<Rightarrow> Writer \<Rightarrow> 'h SpdmContext \<Rightarrow> 'h reply" where
  "dispatch_message S bs w self =
     (case SpdmMessageHeader_read (Reader_init bs) of
        None \<Rightarrow> (Err SPDM_STATUS_UNSUPPORTED_CAP, None, self)
      | Some (hdr, _) \<Rightarrow>
          (case request_response_code hdr of
             SpdmRequestGetVersion \<Rightarrow> handle_spdm_version bs w self
           | SpdmRequestGetCapabilities \<Rightarrow> handle_spdm_capability bs w self
           | SpdmRequestNegotiateAlgorithms \<Rightarrow> handle_spdm_algorithm S bs w self
           | SpdmRequestGetDigests \<Rightarrow> handle_spdm_digest S bs None w self
           | SpdmRequestGetCertificate \<Rightarrow> handle_spdm_certificate S bs None w self
           | SpdmRequestChallenge \<Rightarrow> handle_spdm_challenge S bs w self
           | SpdmRequestGetMeasurements \<Rightarrow> handle_spdm_measurement S None bs w self
           | SpdmRequestKeyExchange \<Rightarrow> handle_spdm_key_exchange S bs w self
           | SpdmRequestPskExchange \<Rightarrow> handle_spdm_psk_exchange S bs w self
           | SpdmRequestVendorDefinedRequest \<Rightarrow> handle_spdm_vendor_defined_request S None bs w self
           | SpdmRequestFinish \<Rightarrow>
               (case if in_clear_text self then last_session_id (runtime_info self) else None of
                  Some sid \<Rightarrow>
                    (case get_session_via_id sid self of
                       Some s \<Rightarrow> if session_state s = SpdmSessionHandshaking then handle_spdm_finish S sid bs w self
                                 else write_error_response SpdmErrorUnexpectedRequest bs w self
                     | None \<Rightarrow> write_error_response SpdmErrorUnexpectedRequest bs w self)
                | None \<Rightarrow> write_error_response SpdmErrorUnexpectedRequest bs w self)
           | SpdmRequestPskFinish \<Rightarrow> write_error_response SpdmErrorUnexpectedRequest bs w self
           | SpdmRequestHeartbeat \<Rightarrow> write_error_response SpdmErrorUnexpectedRequest bs w self
           | SpdmRequestKeyUpdate \<Rightarrow> write_error_response SpdmErrorUnexpectedRequest bs w self
           | SpdmRequestEndSession \<Rightarrow> write_error_response SpdmErrorUnexpectedRequest bs w self
           | _ \<Rightarrow> write_error_response SpdmErrorUnsupportedRequest bs w self))"

text \<open>The requests that a session answers while it shakes hands, and once it is established.\<close>

definition dispatch_handshaking :: "'h Services \<Rightarrow> u32 \<Rightarrow> bytes \<Rightarrow> Writer \<Rightarrow> 'h SpdmContext \<Rightarrow> 'h reply" where
  "dispatch_handshaking S sid bs w self =
     (case SpdmMessageHeader_read (Reader_init bs) of
        None \<Rightarrow> (Err SPDM_STATUS_UNSUPPORTED_CAP, None, self)
      | Some (hdr, _) \<Rightarrow>
          (let code = request_response_code hdr in
           if code = SpdmRequestFinish then handle_spdm_finish S sid bs w self
           else if code = SpdmRequestPskFinish then handle_spdm_psk_finish S sid bs w self
           else if code = SpdmRequestVendorDefinedRequest then handle_spdm_vendor_defined_request S (Some sid) bs w self
           else if code \<in> {SpdmRequestGetVersion, SpdmRequestGetCapabilities, SpdmRequestNegotiateAlgorithms,
                SpdmRequestGetDigests, SpdmRequestGetCertificate, SpdmRequestChallenge, SpdmRequestGetMeasurements,
                SpdmRequestKeyExchange, SpdmRequestPskExchange, SpdmRequestHeartbeat, SpdmRequestKeyUpdate,
                SpdmRequestEndSession}
           then write_error_response SpdmErrorUnexpectedRequest bs w self
           else write_error_response SpdmErrorUnsupportedRequest bs w self))"

definition dispatch_established :: "'h Services \<Rightarrow> u32 \<Rightarrow> bytes \<Rightarrow> Writer \<Rightarrow> 'h SpdmContext \<Rightarrow> 'h reply" where
  "dispatch_established S sid bs w self =
     (case SpdmMessageHeader_read (Reader_init bs) of
        None \<Rightarrow> (Err SPDM_STATUS_UNSUPPORTED_CAP, None, self)
      | Some (hdr, _) \<Rightarrow>
          (let code = request_response_code hdr in
           if code = SpdmRequestGetDigests then handle_spdm_digest S bs (Some sid) w self
           else if code = SpdmRequestGetCertificate then handle_spdm_certificate S bs (Some sid) w self
           else if code = SpdmRequestGetMeasurements then handle_spdm_measurement S (Some sid) bs w self
           else if code = SpdmRequestHeartbeat then handle_spdm_heartbeat sid bs w self
           else if code = SpdmRequestKeyUpdate then handle_spdm_key_update S sid bs w self
           else if code = SpdmRequestEndSession then handle_spdm_end_session sid bs w self
           else if code = SpdmRequestVendorDefinedRequest then handle_spdm_vendor_defined_request S (Some sid) bs w self
           else if code \<in> {SpdmRequestGetVersion, SpdmRequestGetCapabilities, SpdmRequestNegotiateAlgorithms,
                SpdmRequestChallenge, SpdmRequestKeyExchange, SpdmRequestPskExchange, SpdmRequestFinish,
                SpdmRequestPskFinish}
           then write_error_response SpdmErrorUnexpectedRequest bs w self
           else write_error_response SpdmErrorUnsupportedRequest bs w self))"

definition dispatch_secured_message :: "'h Services \<Rightarrow> u32 \<Rightarrow> bytes \<Rightarrow> Writer \<Rightarrow> 'h SpdmContext \<Rightarrow> 'h reply" where
  "dispatch_secured_message S sid bs w self =
     (case get_session_via_id sid self of
        None \<Rightarrow> (Err SPDM_STATUS_UNSUPPORTED_CAP, None, self)
      | Some s \<Rightarrow>
          (case session_state s of
             SpdmSessionHandshaking \<Rightarrow>
               if in_clear_text self then (Err SPDM_STATUS_UNSUPPORTED_CAP, None, self)
               else dispatch_handshaking S sid bs w self
           | SpdmSessionEstablished \<Rightarrow> dispatch_established S sid bs w self
           | _ \<Rightarrow> (Err SPDM_STATUS_UNSUPPORTED_CAP, None, self)))"

subsection \<open>Sending\<close>

text \<open>A response that the peer cannot take is replaced by an error.\<close>

definition limit_response :: "u32 option \<Rightarrow> bytes \<Rightarrow> bool \<Rightarrow> 'h SpdmContext \<Rightarrow> bytes" where
  "limit_response sid send_buffer is_app_message self =
     (let n = negotiate_info self;
          w = Writer_init (replicate SPDM_SENDER_DATA_TRANSFER_SIZE 0);
          error = (\<lambda>code. Writer_used_slice (write_spdm_error code 0 w self)) in
      if req_max_spdm_msg_size_sel n \<noteq> 0 \<and> unat (req_max_spdm_msg_size_sel n) < length send_buffer
      then error SpdmErrorResponseTooLarge
      else if is_app_message \<and> sid = None then error SpdmErrorSessionRequired
      else if (req_data_transfer_size_sel n \<noteq> 0 \<and> unat (req_data_transfer_size_sel n) < length send_buffer)
              \<or> SPDM_SENDER_DATA_TRANSFER_SIZE < length send_buffer
      then error SpdmErrorResponseTooLarge
      else send_buffer)"

abbreviation set_connection_state :: "SpdmConnectionState \<Rightarrow> 'h SpdmContext \<Rightarrow> 'h SpdmContext" where
  "set_connection_state st \<equiv> upd_rt (\<lambda>r. r\<lparr>connection_state := st\<rparr>)"

definition raise_connection_state :: "SpdmConnectionState \<Rightarrow> 'h SpdmContext \<Rightarrow> 'h SpdmContext" where
  "raise_connection_state st self =
     (if SpdmConnectionState_get_u8 (connection_state (runtime_info self)) < SpdmConnectionState_get_u8 st
      then set_connection_state st self else self)"

definition establish_session :: "u32 \<Rightarrow> 'h SpdmContext \<Rightarrow> unit SpdmResult \<times> 'h SpdmContext" where
  "establish_session sid self =
     (case get_session_via_id sid self of
        None \<Rightarrow> (Err SPDM_STATUS_INVALID_STATE_LOCAL, self)
      | Some s \<Rightarrow> (Ok (), put_session sid (s\<lparr>session_state := SpdmSessionEstablished\<rparr>) self))"

text \<open>What the response code that was sent makes of the connection and of the session.\<close>

definition after_send :: "u32 option \<Rightarrow> u8 \<Rightarrow> 'h SpdmContext \<Rightarrow> unit SpdmResult \<times> 'h SpdmContext" where
  "after_send sid opcode self =
     (let code = SpdmRequestResponseCode_get_u8 in
      if opcode = code SpdmResponseVersion then (Ok (), set_connection_state SpdmConnectionAfterVersion self)
      else if opcode = code SpdmResponseCapabilities then (Ok (), set_connection_state SpdmConnectionAfterCapabilities self)
      else if opcode = code SpdmResponseAlgorithms then (Ok (), set_connection_state SpdmConnectionNegotiated self)
      else if opcode = code SpdmResponseDigests then (Ok (), raise_connection_state SpdmConnectionAfterDigest self)
      else if opcode = code SpdmResponseCertificate then (Ok (), raise_connection_state SpdmConnectionAfterCertificate self)
      else if opcode = code SpdmResponseChallengeAuth then (Ok (), set_connection_state SpdmConnectionAuthenticated self)
      else if opcode = code SpdmResponseFinishRsp \<and> sid = None then
        (case last_session_id (runtime_info self) of
           None \<Rightarrow> (Err SPDM_STATUS_INVALID_STATE_LOCAL, self)
         | Some i \<Rightarrow> (case establish_session i self of
               (Inl e, self) \<Rightarrow> (Inl e, self)
             | (Inr _, self) \<Rightarrow> (Ok (), upd_rt (\<lambda>r. r\<lparr>last_session_id := None\<rparr>) self)))
      else if opcode = code SpdmResponseEndSessionAck then
        (case sid of
           None \<Rightarrow> (panic, self)
         | Some i \<Rightarrow> (case get_session_via_id i self of
               None \<Rightarrow> (Err SPDM_STATUS_INVALID_STATE_LOCAL, self)
             | Some s \<Rightarrow> (Ok (), put_session i (session_teardown s) self)))
      else if opcode = code SpdmResponseFinishRsp \<or> opcode = code SpdmResponsePskFinishRsp then
        (case sid of None \<Rightarrow> (Ok (), self) | Some i \<Rightarrow> establish_session i self)
      else (Ok (), self))"

definition send_message ::
  "'h Services \<Rightarrow> (bytes \<Rightarrow> unit SpdmResult) \<Rightarrow> u32 option \<Rightarrow> bytes \<Rightarrow> bool \<Rightarrow> 'h SpdmContext \<Rightarrow> 'h reply" where
  "send_message S dev sid send_buffer is_app_message self =
     (let send_buffer = limit_response sid send_buffer is_app_message self;
          transport_buffer = replicate SENDER_BUFFER_SIZE 0 in
      case (case sid of
              Some i \<Rightarrow> encode_secured_message (svc_transport S) (svc_crypto S) i send_buffer transport_buffer False is_app_message self
            | None \<Rightarrow> (tp_encap (svc_transport S) send_buffer transport_buffer False, self)) of
        (Inl e, self) \<Rightarrow> (Inl e, None, self)
      | (Inr (used, buf), self) \<Rightarrow>
          (case dev (take used buf) of
             Inl e \<Rightarrow> (Inl e, None, self)
           | Inr _ \<Rightarrow>
               if length send_buffer < 2 then (panic, Some (take used buf), self)
               else case after_send sid (send_buffer ! 1) self of (res, self) \<Rightarrow> (res, Some (take used buf), self)))"

subsection \<open>One packet\<close>

text \<open>\<open>Result<SpdmResult, usize>\<close>: the packet is left to the caller, or it was processed; \<open>Crashed\<close> is a panic.\<close>

datatype outcome = Unprocessed usize | Processed "SpdmStatus option" | Crashed

fun outcome_of :: "unit SpdmResult \<Rightarrow> outcome" where
  "outcome_of (Inr _) = Processed None"
| "outcome_of (Inl (Fail e)) = Processed (Some e)"
| "outcome_of (Inl Panic) = Crashed"

text \<open>Send what a handler returned; a failure to send replaces its status.\<close>

definition answer ::
  "'h Services \<Rightarrow> (bytes \<Rightarrow> unit SpdmResult) \<Rightarrow> u32 option \<Rightarrow> bool \<Rightarrow> 'h reply \<Rightarrow> outcome \<times> bytes option \<times> 'h SpdmContext" where
  "answer S dev sid is_app_message rp =
     (case rp of
        (Inl Panic, _, self) \<Rightarrow> (Crashed, None, self)
      | (status, None, self) \<Rightarrow> (outcome_of status, None, self)
      | (status, Some send_buffer, self) \<Rightarrow>
          (case send_message S dev sid send_buffer is_app_message self of
             (Inl e, sent, self) \<Rightarrow> (outcome_of (Inl e), sent, self)
           | (Inr _, sent, self) \<Rightarrow> (outcome_of status, sent, self)))"

definition process_secured ::
  "'h Services \<Rightarrow> (bytes \<Rightarrow> unit SpdmResult) \<Rightarrow> usize \<Rightarrow> bytes \<Rightarrow> Writer \<Rightarrow> 'h SpdmContext \<Rightarrow>
     outcome \<times> bytes option \<times> 'h SpdmContext" where
  "process_secured S dev app_handle packet w self =
     (let used = length packet in
      case u32_read (Reader_init packet) of
        None \<Rightarrow> (Unprocessed used, None, self)
      | Some (sid, _) \<Rightarrow>
          (case get_session_via_id sid self of
             None \<Rightarrow> (Unprocessed used, None, self)
           | Some s \<Rightarrow>
               (case decode_spdm_secured_message (svc_crypto S) packet (replicate RECEIVER_BUFFER_SIZE 0) True s of
                  (Inl Panic, s) \<Rightarrow> (Crashed, None, put_session sid s self)
                | (Inl (Fail _), s) \<Rightarrow> (Unprocessed used, None, put_session sid s self)
                | (Inr (decode_size, app_buffer), s) \<Rightarrow>
                    (let self = put_session sid s self in
                     case tp_decap_app (svc_transport S) (take decode_size app_buffer) (replicate SPDM_DATA_TRANSFER_SIZE 0) of
                       Inl Panic \<Rightarrow> (Crashed, None, self)
                     | Inl (Fail _) \<Rightarrow> (Unprocessed used, None, self)
                     | Inr (n, is_app_message, buf) \<Rightarrow>
                         if is_app_message
                         then answer S dev (Some sid) True (svc_app_message S sid (take n buf) app_handle w self)
                         else answer S dev (Some sid) False (dispatch_secured_message S sid (take n buf) w self)))))"

text \<open>
  \<open>received\<close> is what the device returned: the packet, or how much it read before it failed. The
  timeout of a request with cryptography is \<open>2 << req_ct_exponent_sel\<close>, where a shift by the width of
  \<open>usize\<close> or more panics.
\<close>

definition process_message ::
  "'h Services \<Rightarrow> (bytes \<Rightarrow> unit SpdmResult) \<Rightarrow> bool \<Rightarrow> usize \<Rightarrow> usize + bytes \<Rightarrow> 'h SpdmContext \<Rightarrow>
     outcome \<times> bytes option \<times> 'h SpdmContext" where
  "process_message S dev crypto_request app_handle received self =
     (if crypto_request \<and> 64 \<le> unat (req_ct_exponent_sel (negotiate_info self)) then (Crashed, None, self)
      else case received of
        Inl used \<Rightarrow> (Unprocessed used, None, self)
      | Inr packet \<Rightarrow>
          (case tp_decap (svc_transport S) packet (replicate RECEIVER_BUFFER_SIZE 0) of
             Inl Panic \<Rightarrow> (Crashed, None, self)
           | Inl (Fail _) \<Rightarrow> (Unprocessed (length packet), None, self)
           | Inr (used, secured_message, buf) \<Rightarrow>
               let w = Writer_init (replicate MAX_SPDM_MSG_SIZE 0) in
               if secured_message then process_secured S dev app_handle (take used buf) w self
               else answer S dev None False (dispatch_message S (take used buf) w self)))"

end
