(* ===== verification/Frames.thy ===== *)
theory Frames
  imports Dispatch
begin

text \<open>
  What a handler leaves alone. \<open>env\<close> is the context without the transcripts: the operations on the
  transcripts keep it, so that the properties of the responder's state need not look at them.
\<close>

text \<open>A session up to its transcripts, and a context up to the transcripts.\<close>

definition core :: "'h SpdmSession \<Rightarrow> 'h SpdmSession" where
  "core s = s\<lparr>s_runtime_info := SpdmSessionRuntimeInfo_default\<rparr>"

definition basis ::
  "'h SpdmContext \<Rightarrow> SpdmConfigInfo \<times> SpdmNegotiateInfo \<times> SpdmProvisionInfo \<times> SpdmPeerInfo \<times> SpdmConnectionState" where
  "basis self =
     (config_info self, negotiate_info self, provision_info self, peer_info self, connection_state (runtime_info self))"

definition env where
  "env self =
     (basis self, last_session_id (runtime_info self), map core (session self),
      need_measurement_summary_hash (runtime_info self), need_measurement_signature (runtime_info self))"

lemma core_fields:
  assumes "core s = core t"
  shows "session_id s = session_id t" "session_state s = session_state t" "use_psk s = use_psk t"
    "mut_auth_requested s = mut_auth_requested t" "handshake_secret s = handshake_secret t"
    "crypto_param s = crypto_param t"
proof -
  have "session_id (core s) = session_id (core t)" "session_state (core s) = session_state (core t)"
    "use_psk (core s) = use_psk (core t)" "mut_auth_requested (core s) = mut_auth_requested (core t)"
    "handshake_secret (core s) = handshake_secret (core t)" "crypto_param (core s) = crypto_param (core t)"
    by (simp_all add: assms)
  then show "session_id s = session_id t" "session_state s = session_state t" "use_psk s = use_psk t"
    "mut_auth_requested s = mut_auth_requested t" "handshake_secret s = handshake_secret t"
    "crypto_param s = crypto_param t"
    by (simp_all add: core_def)
qed

lemma core_srt [simp]: "core (s\<lparr>s_runtime_info := r\<rparr>) = core s"
  by (simp add: core_def)

lemma map_core_update:
  assumes "List.find (\<lambda>x. session_id x = sid) ss = Some s" "core t = core s"
  shows "map core (update_first (\<lambda>x. session_id x = sid) (\<lambda>_. t) ss) = map core ss"
  using assms by (induction ss) (auto split: if_splits)

lemma env_put [simp]:
  "get_session_via_id sid self = Some s \<Longrightarrow> core t = core s \<Longrightarrow> env (put_session sid t self) = env self"
  by (simp add: env_def basis_def get_session_via_id_def put_session_def map_core_update)

lemma env_runtime [simp]:
  "env (self\<lparr>runtime_info := (runtime_info self)\<lparr>message_a := m\<rparr>\<rparr>) = env self"
  "env (self\<lparr>runtime_info := (runtime_info self)\<lparr>digest_context_m1m2 := d\<rparr>\<rparr>) = env self"
  "env (self\<lparr>runtime_info := (runtime_info self)\<lparr>digest_context_l1l2 := d\<rparr>\<rparr>) = env self"
  by (simp_all add: env_def basis_def)

lemma env_eqD:
  assumes "env a = env b"
  shows "config_info a = config_info b" "negotiate_info a = negotiate_info b"
    "provision_info a = provision_info b" "peer_info a = peer_info b"
    "connection_state (runtime_info a) = connection_state (runtime_info b)"
    "last_session_id (runtime_info a) = last_session_id (runtime_info b)"
    "need_measurement_summary_hash (runtime_info a) = need_measurement_summary_hash (runtime_info b)"
    "need_measurement_signature (runtime_info a) = need_measurement_signature (runtime_info b)"
    "map core (session a) = map core (session b)" "basis a = basis b"
  using assms by (simp_all add: env_def basis_def)

lemma find_core:
  "map core xs = map core ys \<Longrightarrow> List.find (\<lambda>x. session_id x = sid) xs = Some s \<Longrightarrow>
     \<exists>t. List.find (\<lambda>x. session_id x = sid) ys = Some t \<and> core t = core s"
proof (induction xs arbitrary: ys)
  case (Cons x xs)
  then obtain y ys' where y: "ys = y # ys'" "core x = core y" "map core xs = map core ys'" by (cases ys) auto
  then show ?case using Cons core_fields(1) [OF y(2)] by (auto split: if_splits)
qed simp

lemma env_session:
  assumes "env a = env b" "get_session_via_id sid a = Some s"
  obtains t where "get_session_via_id sid b = Some t" "core t = core s"
  using find_core [OF env_eqD(9) [OF assms(1)]] assms(2) unfolding get_session_via_id_def by blast

text \<open>The operations on the transcripts.\<close>

lemma env_append_a: "append_message_a m self = (res, self') \<Longrightarrow> env self' = env self"
  by (auto simp: append_message_a_def split: option.splits)

lemma env_append_b: "append_message_b C m self = (res, self') \<Longrightarrow> env self' = env self"
  by (auto simp: append_message_b_def Let_def split: prod.splits)

lemma env_append_c: "append_message_c C m self = (res, self') \<Longrightarrow> env self' = env self"
  by (auto simp: append_message_c_def Let_def split: prod.splits)

lemma env_append_m: "append_message_m C sid m self = (res, self') \<Longrightarrow> env self' = env self"
  by (auto simp: append_message_m_def Let_def split: prod.splits option.splits)

lemma env_append_k: "append_message_k C sid m self = (res, self') \<Longrightarrow> env self' = env self"
  by (auto simp: append_message_k_def Let_def split: prod.splits option.splits)

lemma env_append_f: "append_message_f C b sid m self = (res, self') \<Longrightarrow> env self' = env self"
  by (auto simp: append_message_f_def Let_def split: prod.splits option.splits sum.splits)

lemma env_reset [simp]:
  "env (reset_message_a self) = env self" "env (reset_message_b self) = env self"
  "env (reset_message_c self) = env self" "env (reset_message_m sid self) = env self"
  "env (reset_buffer_via_request_code c sid self) = env self"
proof -
  show "env (reset_message_a self) = env self" by (simp add: reset_message_a_def)
  show bc: "env (reset_message_b self) = env self" "env (reset_message_c self) = env self" for self :: "'h SpdmContext"
    by (simp_all add: reset_message_b_def reset_message_c_def)
  show m: "env (reset_message_m sid self) = env self" for self :: "'h SpdmContext"
    by (auto simp: reset_message_m_def split: option.splits)
  show "env (reset_buffer_via_request_code c sid self) = env self"
    by (simp add: reset_buffer_via_request_code_def Let_def bc m)
qed

lemmas env_appends = env_append_a env_append_b env_append_c env_append_m env_append_k env_append_f

lemma env_sizes: "env a = env b \<Longrightarrow> get_asym_sig_size a = get_asym_sig_size b" "env a = env b \<Longrightarrow> get_hash_size a = get_hash_size b"
  "env a = env b \<Longrightarrow> in_clear_text a = in_clear_text b"
  by (auto dest: env_eqD simp: get_asym_sig_size_def get_hash_size_def in_clear_text_def)

lemma sizes_upd [simp]:
  "get_asym_sig_size (upd_rt f self) = get_asym_sig_size self" "get_hash_size (upd_rt f self) = get_hash_size self"
  "in_clear_text (upd_rt f self) = in_clear_text self"
  "get_asym_sig_size (put_session sid s self) = get_asym_sig_size self"
  "get_hash_size (put_session sid s self) = get_hash_size self"
  "in_clear_text (put_session sid s self) = in_clear_text self"
  by (simp_all add: get_asym_sig_size_def get_hash_size_def in_clear_text_def)

subsection \<open>The life of sessions\<close>

definition life :: "'h SpdmSession \<Rightarrow> u32 \<times> SpdmSessionState" where
  "life s = (session_id s, session_state s)"

abbreviation dead :: "u32 \<times> SpdmSessionState" where "dead \<equiv> (INVALID_SESSION_ID, SpdmSessionNotStarted)"

lemma life_upd [simp]:
  "life (s\<lparr>handshake_secret := a\<rparr>) = life s" "life (s\<lparr>application_secret := b\<rparr>) = life s"
  "life (s\<lparr>application_secret_backup := b\<rparr>) = life s" "life (s\<lparr>shared_secret_root := c\<rparr>) = life s"
  "life (s\<lparr>requester_backup_valid := d\<rparr>) = life s" "life (s\<lparr>responder_backup_valid := d\<rparr>) = life s"
  "life (s\<lparr>th1 := e\<rparr>) = life s" "life (s\<lparr>th2 := e\<rparr>) = life s" "life (s\<lparr>heartbeat_period := f\<rparr>) = life s"
  "life (s\<lparr>secure_spdm_version_sel := g\<rparr>) = life s" "life (s\<lparr>s_runtime_info := h\<rparr>) = life s"
  "life (s\<lparr>use_psk := i\<rparr>) = life s" "life (s\<lparr>mut_auth_requested := j\<rparr>) = life s"
  "life (s\<lparr>session_state := k\<rparr>) = (session_id s, k)"
  "life (set_default s) = (INVALID_SESSION_ID, SpdmSessionNotStarted)" "life (session_teardown s) = (INVALID_SESSION_ID, SpdmSessionNotStarted)"
  by (simp_all add: life_def session_teardown_def)

lemma status_life: "get_session_status self = map life (session self)"
  by (simp add: get_session_status_def life_def)

lemma life_core: "core s = core t \<Longrightarrow> life s = life t"
  using core_fields(1,2) [of s t] by (simp add: life_def)

lemma life_of_core [simp]: "life (core s) = life s"
  by (simp add: life_def core_def)

lemma status_env:
  assumes "env a = env b"
  shows "get_session_status a = get_session_status b"
proof -
  have "map life (map core (session a)) = map life (map core (session b))"
    using env_eqD(9) [OF assms] by simp
  then show ?thesis by (simp add: status_life comp_def)
qed

lemma map_update_first:
  "(\<And>x. P x = Q (f x)) \<Longrightarrow> map f (update_first P (\<lambda>_. t) xs) = update_first Q (\<lambda>_. f t) (map f xs)"
  by (induction xs) auto

lemma status_put:
  "get_session_status (put_session sid s self) =
     update_first (\<lambda>x. fst x = sid) (\<lambda>_. life s) (get_session_status self)"
  unfolding status_life put_session_def
  by (simp add: map_update_first [where Q = "\<lambda>x. fst x = sid"] life_def)

lemma update_first_same: "List.find P xs = Some x \<Longrightarrow> update_first P (\<lambda>_. x) xs = xs"
  by (induction xs) (auto split: if_splits)

lemma update_first_none: "List.find P xs = None \<Longrightarrow> update_first P f xs = xs"
  by (induction xs) (auto split: if_splits)

lemma status_find:
  "List.find (\<lambda>x. fst x = sid) (get_session_status self) = map_option life (get_session_via_id sid self)"
proof -
  have "List.find (\<lambda>x. fst x = sid) (map life xs) = map_option life (List.find (\<lambda>s. session_id s = sid) xs)" for xs :: "'h SpdmSession list"
    by (induction xs) (auto simp: life_def)
  then show ?thesis by (simp add: status_life get_session_via_id_def)
qed

lemma status_put_same:
  "get_session_via_id sid self = Some s \<Longrightarrow> life t = life s \<Longrightarrow>
     get_session_status (put_session sid t self) = get_session_status self"
  by (simp add: status_put status_find update_first_same)

lemma basis_put [simp]: "basis (put_session sid s self) = basis self"
  by (simp add: basis_def)

text \<open>Key generation and the protection of messages keep the id and the state, or wipe the session.\<close>

lemma run_steps_keeps:
  "(\<And>m s. m \<in> set ms \<Longrightarrow> f (snd (m s)) = f s) \<Longrightarrow> f (snd (run_steps ms s)) = f s"
proof (induction ms arbitrary: s)
  case (Cons m ms)
  have "f (snd (m s)) = f s" using Cons.prems by simp
  then show ?case using Cons by (cases "m s") (auto split: sum.splits)
qed simp

lemma assign_or_fail_keeps: "(\<And>x s. f (upd x s) = f s) \<Longrightarrow> f (snd (assign_or_fail g upd s)) = f s"
  by (simp add: assign_or_fail_def split: sum.splits)

lemma life_run_steps:
  "(\<And>m s. m \<in> set ms \<Longrightarrow> life (snd (m s)) = life s) \<Longrightarrow> life s = l \<Longrightarrow> life (snd (run_steps ms s)) = l"
  using run_steps_keeps [where f = life] by blast

lemmas life_assign = assign_or_fail_keeps [where f = life]

lemma life_generate [simp]:
  "life (snd (generate_handshake_secret C ver th s)) = life s"
  "life (snd (generate_data_secret C ver th s)) = life s"
  unfolding generate_handshake_secret_def generate_data_secret_def Let_def
  by (rule life_run_steps; auto simp del: run_steps.simps intro!: life_assign)+

lemma life_set_shared_secret [simp]: "life (snd (set_shared_secret C ver ss s)) = life s"
  unfolding set_shared_secret_def Let_def by (subst life_assign) (auto split: prod.splits)

lemma life_update_secret [simp]:
  "life (snd (update_requester_secret C ver s)) = life s"
  "life (snd (update_responder_secret C ver s)) = life s"
  unfolding update_requester_secret_def update_responder_secret_def Let_def
  by (rule life_run_steps; auto simp del: run_steps.simps intro!: life_assign)+

lemma life_create_update [simp]: "life (snd (create_data_secret_update C ver a b s)) = life s"
  unfolding create_data_secret_update_def by (rule life_run_steps) auto

lemma life_activate_update [simp]: "life (activate_data_secret_update ver a b c s) = life s"
  by (simp add: activate_data_secret_update_def Let_def)

end
