(* ===== verification/Replies.thy ===== *)
theory Replies
  imports Frames
begin

text \<open>
  What the responder's handlers answer: every reply is an ERROR message or has the response code of
  the request it answers. The second byte of a reply is what \<open>send_message\<close> acts on.
\<close>

subsection \<open>Encoders append\<close>

text \<open>\<open>grows k e\<close>: where the encoder succeeds it has appended at least \<open>k\<close> bytes.\<close>

definition grows :: "nat \<Rightarrow> 'e encoder \<Rightarrow> bool" where
  "grows k e \<longleftrightarrow> (\<forall>w n w'. writer_ok w \<longrightarrow> e w = Inr (n, w') \<longrightarrow>
     (\<exists>bs. k \<le> length bs \<and> length bs \<le> Writer_left w \<and> w' = Writer_append bs w))"

lemma growsD:
  assumes "grows k e" "writer_ok w" "e w = Inr (n, w')"
  obtains bs where "k \<le> length bs" "length bs \<le> Writer_left w" "w' = Writer_append bs w"
  using assms unfolding grows_def by blast

lemma grows_writes: "writes err e bs \<Longrightarrow> k \<le> length bs \<Longrightarrow> grows k e"
  by (auto simp: grows_def writes_def split: if_splits)

lemma grows_mono: "grows k e \<Longrightarrow> j \<le> k \<Longrightarrow> grows j e"
  unfolding grows_def by (meson order_trans)

lemma grows_map:
  assumes "grows k e" "\<And>w n w'. f w = Inr (n, w') \<Longrightarrow> \<exists>m. e w = Inr (m, w')"
  shows "grows k f"
  unfolding grows_def using assms(2) growsD [OF assms(1)] by blast

lemma grows_full: "grows k e \<Longrightarrow> grows k (full e)"
  by (erule grows_map) (auto simp: full_def)

lemma grows_counting: "grows k e \<Longrightarrow> grows k (counting n e)"
  by (erule grows_map) (auto simp: counting_def bindR_eq_Inr)

lemma grows_asserting: "(b \<Longrightarrow> grows k e) \<Longrightarrow> grows k (asserting b e)"
  by (cases b) (auto simp: asserting_def [abs_def] grows_def)

lemma grows_then:
  assumes "grows j e" "grows k e'"
  shows "grows (j + k) (\<lambda>w. bindR (e w) (\<lambda>(n, w). bindR (e' w) (\<lambda>(m, w). Inr (n + m, w))))"
  unfolding grows_def
proof (intro allI impI)
  fix w n w'
  assume w: "writer_ok w" and r: "bindR (e w) (\<lambda>(n, w). bindR (e' w) (\<lambda>(m, w). Inr (n + m, w))) = Inr (n, w')"
  from r obtain n1 w1 n2 where 1: "e w = Inr (n1, w1)" and 2: "e' w1 = Inr (n2, w')"
    by (auto simp: bindR_eq_Inr)
  from growsD [OF assms(1) w 1] obtain a
    where a: "j \<le> length a" "length a \<le> Writer_left w" "w1 = Writer_append a w" .
  then have "writer_ok w1" using w by simp
  from growsD [OF assms(2) this 2] obtain b
    where b: "k \<le> length b" "length b \<le> Writer_left w1" "w' = Writer_append b w1" .
  show "\<exists>bs. j + k \<le> length bs \<and> length bs \<le> Writer_left w \<and> w' = Writer_append bs w"
    using a b w by (intro exI [of _ "a @ b"]) (simp add: Writer_append_append)
qed

lemma grows_nothing: "grows 0 (enc_seq [])"
  by (rule grows_writes [OF writes_seq_Nil]) simp

lemma grows_append: "grows j (enc_seq xs) \<Longrightarrow> grows k (enc_seq ys) \<Longrightarrow> grows (j + k) (enc_seq (xs @ ys))"
  using grows_then [of j "enc_seq xs" k "enc_seq ys"] by (simp add: enc_seq_append [abs_def] grows_def)

lemma grows_Cons: "grows j e \<Longrightarrow> grows k (enc_seq es) \<Longrightarrow> grows (j + k) (enc_seq (e # es))"
  using grows_then [of j e k "enc_seq es"] by (simp add: enc_seq.simps(2) [abs_def] grows_def)

lemma grows_seq: "(\<And>e. e \<in> set es \<Longrightarrow> grows 0 e) \<Longrightarrow> grows 0 (enc_seq es)"
  by (induction es) (auto intro: grows_nothing grows_Cons [of 0 _ 0, simplified])

lemma grows_array: "(\<And>x. x \<in> set xs \<Longrightarrow> grows 0 (enc x)) \<Longrightarrow> grows 0 (array_encode enc xs)"
proof -
  assume "\<And>x. x \<in> set xs \<Longrightarrow> grows 0 (enc x)"
  then have "grows 0 (enc_seq (map enc xs))" by (intro grows_seq) auto
  moreover have "enc_each enc xs w = Inr w' \<Longrightarrow> \<exists>n. enc_seq (map enc xs) w = Inr (n, w')" for w w'
    by (induction xs arbitrary: w) (force simp: enc_seq.simps bindR_eq_Inr)+
  ultimately show ?thesis
    by (elim grows_map) (auto simp: array_encode_def bindR_eq_Inr Let_def)
qed

lemma grows_sized: "grows (length (Sized_as_ref d)) (sized_spdm_encode d)"
  unfolding sized_spdm_encode_def by (intro grows_counting grows_full grows_writes [OF writes_bytes]) simp

lemmas grows_scalar = scalar_writes [THEN grows_writes, OF le0]
  writes_bytes [THEN grows_writes, OF le0]

lemma grows_u24: "grows 0 (u24_encode v)"
  unfolding u24_encode_def by (rule grows_seq) (auto intro: writes_push_u8 [THEN grows_writes, OF le0])

lemma grows_leaf:
  "grows 0 (enum_encode u8_encode f x)" "grows 0 (fixed_encode n bs)" "grows 0 (sized_spdm_encode d)"
  "grows 0 (sum_encode a b)" "grows 0 (zeros_encode n)" "grows 0 (alg_length_encode len)" "grows 0 params_encode"
  "grows 0 (SpdmOpaqueStruct_spdm_encode opq)" "grows 0 (SpdmDigestStruct_spdm_encode ctx h)"
  "grows 0 (SpdmSignatureStruct_spdm_encode ctx sig)" "grows 0 (SpdmRspExchangeStruct_spdm_encode ctx d)"
proof -
  show enum: "grows 0 (enum_encode u8_encode f x)" unfolding enum_encode_def by (rule grows_scalar)
  show "grows 0 (fixed_encode n bs)" unfolding fixed_encode_def by (intro grows_counting grows_scalar)
  show sized: "grows 0 (sized_spdm_encode d)" by (rule grows_mono [OF grows_sized]) simp
  show "grows 0 (sum_encode a b)" unfolding sum_encode_def by (intro grows_asserting grows_full grows_scalar)
  show "grows 0 (zeros_encode n)" unfolding zeros_encode_def by (intro grows_full grows_scalar)
  show "grows 0 (alg_length_encode len)"
    using grows_full [OF grows_scalar(2)] by (cases len) (simp_all add: alg_length_encode_def [abs_def] grows_def)
  show "grows 0 params_encode" by (rule grows_writes [OF writes_params]) simp
  show "grows 0 (SpdmOpaqueStruct_spdm_encode opq)"
    unfolding SpdmOpaqueStruct_spdm_encode_def by (rule grows_seq) (auto intro: grows_full grows_scalar)
  show "grows 0 (SpdmDigestStruct_spdm_encode ctx h)" "grows 0 (SpdmSignatureStruct_spdm_encode ctx sig)"
    unfolding SpdmDigestStruct_spdm_encode_def SpdmSignatureStruct_spdm_encode_def
    by (intro grows_asserting grows_mono [OF grows_sized] le0)+
  show "grows 0 (SpdmRspExchangeStruct_spdm_encode ctx d)"
    unfolding SpdmRspExchangeStruct_spdm_encode_def by (rule grows_mono [OF grows_sized]) simp
qed

lemmas grows_parts = grows_full grows_scalar grows_u24 grows_leaf

lemma grows_flags:
  "grows 0 (SpdmResponseCapabilityFlags_encode f)" "grows 0 (SpdmResponseCapabilityExFlags_encode x)"
  "grows 0 (SpdmMeasurementSpecification_encode a)" "grows 0 (SpdmAlgoOtherParams_encode b)"
  "grows 0 (SpdmMeasurementHashAlgo_encode c)" "grows 0 (SpdmBaseAsymAlgo_encode d)"
  "grows 0 (SpdmBaseHashAlgo_encode e)" "grows 0 (SpdmPqcAsymAlgo_encode g)"
  "grows 0 (SpdmMelSpecification_encode h)" "grows 0 (SpdmKeyUsageMask_encode k)"
  "grows 0 (SpdmKeyExchangeMutAuthAttributes_encode m)" "grows 0 (SpdmVersionStruct_encode v)"
  unfolding SpdmResponseCapabilityFlags_encode_def SpdmResponseCapabilityExFlags_encode_def
    SpdmMeasurementSpecification_encode_def SpdmAlgoOtherParams_encode_def SpdmMeasurementHashAlgo_encode_def
    SpdmBaseAsymAlgo_encode_def SpdmBaseHashAlgo_encode_def SpdmPqcAsymAlgo_encode_def
    SpdmMelSpecification_encode_def SpdmKeyUsageMask_encode_def SpdmKeyExchangeMutAuthAttributes_encode_def
  by (rule grows_scalar)+ (auto simp: SpdmVersionStruct_encode_def intro!: grows_seq grows_parts)

lemma grows_alg: "grows 0 (SpdmAlgStruct_encode s)"
proof -
  have "grows 0 (SpdmAlg_encode a)" for a
    by (cases a) (auto simp: SpdmDheAlgo_encode_def SpdmAeadAlgo_encode_def SpdmReqAsymAlgo_encode_def
        SpdmKeyScheduleAlgo_encode_def SpdmKemAlgo_encode_def SpdmPqcReqAsymAlgo_encode_def
        intro!: grows_seq grows_scalar grows_writes [OF writes_nothing])
  then show ?thesis
    unfolding SpdmAlgStruct_encode_def Let_def by (intro grows_seq) (auto intro: grows_parts)
qed

text \<open>Every response payload.\<close>

lemma grows_payload:
  "grows 0 (SpdmVersionResponsePayload_spdm_encode a)"
  "grows 0 (SpdmCapabilitiesResponsePayload_spdm_encode ctx b)"
  "grows 0 (SpdmAlgorithmsResponsePayload_spdm_encode ctx c)"
  "grows 0 (SpdmDigestsResponsePayload_spdm_encode ctx d)"
  "grows 0 (SpdmCertificateResponsePayload_spdm_encode ctx e)"
  "grows 0 (SpdmPskFinishResponsePayload_spdm_encode ctx f)"
  "grows 0 (SpdmKeyUpdateRequestPayload_spdm_encode g)"
  "grows 0 (SpdmMeasurementRecordStructure_spdm_encode h)"
  unfolding SpdmVersionResponsePayload_spdm_encode_def SpdmCapabilitiesResponsePayload_spdm_encode_def
    SpdmAlgorithmsResponsePayload_spdm_encode_def SpdmDigestsResponsePayload_spdm_encode_def
    SpdmCertificateResponsePayload_spdm_encode_def SpdmPskFinishResponsePayload_spdm_encode_def
    SpdmKeyUpdateRequestPayload_spdm_encode_def SpdmMeasurementRecordStructure_spdm_encode_def
    cert_header_encode_def Let_def
  by (rule grows_seq, auto split: if_splits intro: grows_parts grows_flags grows_alg grows_array)+

lemma grows_vendor: "grows 0 (SpdmVendorDefinedPayload_spdm_encode ctx v)"
proof -
  have "grows 0 (VendorIDStruct_encode a)" "grows 0 (VendorDefinedPayload_encode l b)" for a l b
    unfolding VendorIDStruct_encode_def VendorDefinedPayload_encode_def
    by (rule grows_seq, auto split: if_splits intro: grows_parts)+
  then show ?thesis
    unfolding SpdmVendorDefinedPayload_spdm_encode_def by (intro grows_seq) (auto split: if_splits intro: grows_parts)
qed

text \<open>The payloads whose end is overwritten hold at least what is overwritten.\<close>

lemma sig_size_bound: "get_asym_sig_size ctx = Ok n \<Longrightarrow> unat n \<le> SPDM_MAX_ASYM_SIG_SIZE"
  by (auto simp: get_asym_sig_size_def SpdmPqcAsymAlgo_get_sig_size_def SpdmBaseAsymAlgo_get_sig_size_def
      split: if_splits)

lemma hash_size_bound: "get_hash_size ctx = Ok n \<Longrightarrow> unat n \<le> SPDM_MAX_HASH_SIZE"
  by (auto simp: get_hash_size_def SpdmBaseHashAlgo_get_size_def split: if_splits)

lemma grows_tail:
  "(\<And>e. e \<in> set xs \<Longrightarrow> grows 0 e) \<Longrightarrow> grows k (enc_seq ys) \<Longrightarrow> grows k (enc_seq (xs @ ys))"
  using grows_append [of 0 xs k ys] grows_seq [of xs] by simp

lemma grows_signature:
  assumes "get_asym_sig_size ctx = Ok n"
  shows "grows (unat n) (SpdmSignatureStruct_spdm_encode ctx \<lparr>data_size = n, data = replicate SPDM_MAX_ASYM_SIG_SIZE b\<rparr>)"
  unfolding SpdmSignatureStruct_spdm_encode_def using sig_size_bound [OF assms]
  by (intro grows_asserting grows_mono [OF grows_sized]) (simp add: Sized_as_ref_def)

lemma grows_digest:
  assumes "get_hash_size ctx = Ok n"
  shows "grows (unat n) (SpdmDigestStruct_spdm_encode ctx \<lparr>data_size = n, data = replicate SPDM_MAX_HASH_SIZE b\<rparr>)"
  unfolding SpdmDigestStruct_spdm_encode_def using hash_size_bound [OF assms]
  by (intro grows_asserting grows_mono [OF grows_sized]) (simp add: Sized_as_ref_def)

lemma grows_single: "grows k e \<Longrightarrow> grows k (enc_seq [e])"
  using grows_Cons [OF _ grows_nothing] by simp

lemma grows_challenge_auth:
  assumes "get_asym_sig_size ctx = Ok n" "cha_signature p = \<lparr>data_size = n, data = replicate SPDM_MAX_ASYM_SIG_SIZE b\<rparr>"
  shows "grows (unat n) (SpdmChallengeAuthResponsePayload_spdm_encode ctx p)"
  unfolding SpdmChallengeAuthResponsePayload_spdm_encode_def append_assoc [symmetric] assms(2)
  by (rule grows_tail [OF _ grows_single [OF grows_signature [OF assms(1)]]])
    (auto split: if_splits intro: grows_parts)

lemma grows_measurements:
  assumes "get_asym_sig_size ctx = Ok n" "ms_signature p = \<lparr>data_size = n, data = replicate SPDM_MAX_ASYM_SIG_SIZE b\<rparr>"
  shows "grows (if need_measurement_signature (runtime_info ctx) then unat n else 0)
     (SpdmMeasurementsResponsePayload_spdm_encode ctx p)"
  unfolding SpdmMeasurementsResponsePayload_spdm_encode_def append_assoc [symmetric] assms(2) Let_def
  by (rule grows_tail)
    (auto split: if_splits
      intro: grows_parts grows_payload grows_single grows_signature [OF assms(1), simplified] grows_nothing)

lemma grows_key_exchange:
  assumes "get_asym_sig_size ctx = Ok n" "ker_signature p = \<lparr>data_size = n, data = replicate SPDM_MAX_ASYM_SIG_SIZE b\<rparr>"
    and "get_hash_size ctx = Ok h" "ker_verify_data p = \<lparr>data_size = h, data = replicate SPDM_MAX_HASH_SIZE c\<rparr>"
  shows "grows (unat n + (if in_clear_text ctx then 0 else unat h)) (SpdmKeyExchangeResponsePayload_spdm_encode ctx p)"
proof -
  let ?tail = "[SpdmOpaqueStruct_spdm_encode (ker_opaque p), SpdmSignatureStruct_spdm_encode ctx (ker_signature p)] @
    (if \<not> in_clear_text ctx then [SpdmDigestStruct_spdm_encode ctx (ker_verify_data p)] else [])"
  have "grows (0 + (unat n + (if in_clear_text ctx then 0 else unat h))) (enc_seq ?tail)"
    unfolding assms(2,4) append_Cons append_Nil
    by (intro grows_Cons grows_leaf grows_signature [OF assms(1)])
      (auto intro: grows_single grows_digest [OF assms(3)] grows_nothing)
  then show ?thesis
    unfolding SpdmKeyExchangeResponsePayload_spdm_encode_def
    by - (rule grows_tail, (auto intro: grows_parts grows_flags)[1], rule grows_tail,
        (auto split: if_splits intro: grows_parts)[1], simp)
qed

lemma grows_finish_rsp:
  assumes "get_hash_size ctx = Ok h" "finr_verify_data p = \<lparr>data_size = h, data = replicate SPDM_MAX_HASH_SIZE c\<rparr>"
  shows "grows (if in_clear_text ctx then unat h else 0) (SpdmFinishResponsePayload_spdm_encode ctx p)"
  unfolding SpdmFinishResponsePayload_spdm_encode_def assms(2)
  by (rule grows_tail, (auto intro: grows_parts)[1], rule grows_tail)
    (auto split: if_splits intro: grows_parts grows_single grows_digest [OF assms(1)] grows_nothing)

lemma grows_psk_exchange:
  assumes "get_hash_size ctx = Ok h" "per_verify_data p = \<lparr>data_size = h, data = replicate SPDM_MAX_HASH_SIZE c\<rparr>"
  shows "grows (unat h) (SpdmPskExchangeResponsePayload_spdm_encode ctx p)"
proof -
  have "grows (0 + (unat h + 0)) (enc_seq [full (array_encode u8_encode (Sized_as_ref (per_opaque p))),
      SpdmDigestStruct_spdm_encode ctx (per_verify_data p)])"
    unfolding assms(2) by (intro grows_Cons grows_digest [OF assms(1)] grows_nothing grows_parts)
  then show ?thesis
    unfolding SpdmPskExchangeResponsePayload_spdm_encode_def
    by - (intro grows_tail; auto split: if_splits intro: grows_parts)
qed

subsection \<open>The code of a reply\<close>

text \<open>A writer that holds a message with the code \<open>c\<close>, and a reply that is such a message or an ERROR.\<close>

definition carries :: "u8 \<Rightarrow> Writer \<Rightarrow> bool" where
  "carries c w \<longleftrightarrow> writer_ok w \<and> 2 \<le> Writer_used w \<and> wr_buf w ! 1 = c"

definition answers :: "u8 \<Rightarrow> bytes option \<Rightarrow> bool" where
  "answers c out \<longleftrightarrow> (\<forall>m. out = Some m \<longrightarrow> 1 < length m \<longrightarrow>
     m ! 1 = c \<or> m ! 1 = SpdmRequestResponseCode_get_u8 SpdmResponseError)"

abbreviation replies :: "u8 \<Rightarrow> 'h reply \<Rightarrow> bool" where
  "replies c \<equiv> yields (\<lambda>_ out _. answers c out)"

lemma carries_ok [dest]: "carries c w \<Longrightarrow> writer_ok w"
  by (simp add: carries_def)

lemma push_all_append:
  "writer_ok w \<Longrightarrow> push_all bs w = Writer_append (take (Writer_left w) bs) w"
proof (induction bs arbitrary: w)
  case (Cons b bs)
  show ?case
  proof (cases "Writer_left w")
    case (Suc n)
    then show ?thesis using Cons by (simp add: Writer_push_eq Writer_append_append)
  qed (use Cons.prems in \<open>simp add: Writer_push_eq\<close>)
qed simp

lemma writer_ok_clear [simp]: "writer_ok (Writer_clear w)"
  by (simp add: Writer_clear_def writer_ok_def)

lemma Writer_clear_used [simp]: "Writer_used_slice (Writer_clear w) = []"
  by (simp add: Writer_clear_def Writer_used_slice_def)

lemma write_spdm_error_used:
  "Writer_used_slice (write_spdm_error code param w self) =
     take (length (wr_buf w)) [SpdmVersion_u8 (ver_sel self), SpdmRequestResponseCode_get_u8 SpdmResponseError,
       SpdmErrorCode_get_u8 code, param]"
  unfolding write_spdm_error_def push_all_append [OF writer_ok_clear]
  by (simp add: Writer_left_def) (simp add: Writer_clear_def)

lemma answers_error: "answers c (Some (Writer_used_slice (write_spdm_error code param w self)))"
  by (auto simp: answers_def write_spdm_error_used)

lemma replies_refuse [intro!]: "replies c (refuse code st w self)"
  by (simp add: refuse_def answers_error)

lemma replies_abort [intro!]: "replies c (abort self)"
  by (simp add: abort_def answers_def)

lemma replies_ok: "carries c w \<Longrightarrow> replies c (reply_ok w self)"
  by (auto simp: reply_ok_def answers_def carries_def Writer_used_slice_def)

lemma carries_respond:
  assumes "message_encode ver code payload (Writer_init buf) = Ok (n, w)" "grows k payload"
  shows "carries (SpdmRequestResponseCode_get_u8 code) w \<and> k + 2 \<le> Writer_used w"
proof -
  let ?hdr = "[SpdmVersion_u8 ver, SpdmRequestResponseCode_get_u8 code]"
  have "writes EncodeErr (SpdmMessageHeader_encode \<lparr>version = ver, request_response_code = code\<rparr>) ?hdr"
    using writes_seq_Cons [OF scalar_writes(5) writes_seq_single [OF enum_writes]]
    by (simp add: SpdmMessageHeader_encode_def)
  then have hdr: "swrites (full (SpdmMessageHeader_encode \<lparr>version = ver, request_response_code = code\<rparr>)) ?hdr"
    by (rule writes_full)
  obtain n1 w1 n2 where 1: "full (SpdmMessageHeader_encode \<lparr>version = ver, request_response_code = code\<rparr>) (Writer_init buf) = Ok (n1, w1)"
    and 2: "payload w1 = Ok (n2, w)"
    using assms(1) by (auto simp: message_encode_def enc_seq.simps bindR_eq_Inr)
  from 1 have w1: "w1 = Writer_append ?hdr (Writer_init buf)" and len: "2 \<le> length buf"
    using writesD [OF hdr writer_ok_init, of buf] by (auto split: if_splits)
  then have "writer_ok w1" by simp
  from growsD [OF assms(2) this 2] obtain bs
    where bs: "k \<le> length bs" "length bs \<le> Writer_left w1" "w = Writer_append bs w1" .
  then have "w = Writer_append (?hdr @ bs) (Writer_init buf)" "length (?hdr @ bs) \<le> length buf"
    using w1 len by (simp_all add: Writer_append_append)
  then show ?thesis using bs(1)
    by (simp add: carries_def Writer_append_init copy_at_def nth_append)
qed

lemma replies_respond:
  assumes "w = Writer_init buf" "grows k payload"
    and "\<And>w. carries (SpdmRequestResponseCode_get_u8 code) w \<Longrightarrow> k + 2 \<le> Writer_used w \<Longrightarrow> replies c (f w)"
  shows "replies c (respond ver code payload w self f)"
  unfolding assms(1) by (rule yields_respond) (use carries_respond [OF _ assms(2)] assms(3) in auto)

lemma carries_patch:
  assumes "patch at n bs w = Some w'" "carries c w" "2 \<le> at"
  shows "carries c w' \<and> Writer_used w' = Writer_used w"
  using assms
  by (auto simp: patch_def carries_def writer_ok_def Writer_used_def copy_at_def nth_append split: if_splits)

lemma replies_respond_plain:
  assumes "grows 0 payload" "\<And>w. carries (SpdmRequestResponseCode_get_u8 code) w \<Longrightarrow> replies c (f w)"
  shows "replies c (respond ver code payload (Writer_init buf) self f)"
  using replies_respond [OF refl assms(1)] assms(2) by blast

lemmas replies_parts = yields_if yields_attempt_step yields_attempt yields_parsed yields_present yields_certain
  yields_with_header yields_with_session yields_prod yields_option yields_session_parts yields_info_parts
  replies_refuse replies_abort replies_ok

lemmas replies_intros = replies_parts yields_let replies_respond_plain grows_payload grows_vendor grows_leaf

abbreviation code_of :: "SpdmRequestResponseCode \<Rightarrow> u8" where "code_of \<equiv> SpdmRequestResponseCode_get_u8"

text \<open>The handlers, one by one.\<close>

lemma version_replies: "replies (code_of SpdmResponseVersion) (handle_spdm_version bs (Writer_init buf) self)"
  unfolding handle_spdm_version_def by (intro replies_intros)

lemma capability_replies: "replies (code_of SpdmResponseCapabilities) (handle_spdm_capability bs (Writer_init buf) self)"
  unfolding handle_spdm_capability_def by (intro replies_intros)

lemma algorithm_replies: "replies (code_of SpdmResponseAlgorithms) (handle_spdm_algorithm S bs (Writer_init buf) self)"
  unfolding handle_spdm_algorithm_def by (intro replies_intros)

lemma heartbeat_replies: "replies (code_of SpdmResponseHeartbeatAck) (handle_spdm_heartbeat sid bs (Writer_init buf) self)"
  unfolding handle_spdm_heartbeat_def SpdmHeartbeatResponsePayload_spdm_encode_def by (intro replies_intros)

lemma key_update_replies: "replies (code_of SpdmResponseKeyUpdateAck) (handle_spdm_key_update S sid bs (Writer_init buf) self)"
  unfolding handle_spdm_key_update_def by (intro replies_intros)

lemma end_session_replies: "replies (code_of SpdmResponseEndSessionAck) (handle_spdm_end_session sid bs (Writer_init buf) self)"
  unfolding handle_spdm_end_session_def SpdmEndSessionResponsePayload_spdm_encode_def by (intro replies_intros)

lemma certificate_replies:
  "replies (code_of SpdmResponseCertificate) (handle_spdm_certificate S bs sid (Writer_init buf) self)"
  unfolding handle_spdm_certificate_def with_message_b_def by (intro replies_intros)

lemma answers_used: "carries c w \<Longrightarrow> answers c (Some (Writer_used_slice w))"
  by (auto simp: answers_def carries_def Writer_used_slice_def)

lemma patch_digests_replies:
  assumes "carries c w" "2 \<le> at" "\<And>w. carries c w \<Longrightarrow> replies c (k w)"
  shows "replies c (patch_digests S cs at w self k)"
  using assms(1,2)
proof (induction cs arbitrary: at w)
  case (Cons chain cs)
  show ?case
  proof (cases chain)
    case (Some ch)
    have "replies c (patch_digests S cs (at + unat (data_size h)) w' self k)"
      if "patch at (unat (data_size h)) (Sized_as_ref h) w = Some w'" for h w'
      using carries_patch [OF that Cons(2,3)] Cons(1,3) by auto
    then show ?thesis
      by (auto simp: Some answers_used [OF Cons(2)] intro!: yields_option yields_present)
  qed (use Cons in auto)
qed (auto intro: assms(3))

lemma digest_replies:
  "replies (code_of SpdmResponseDigests) (handle_spdm_digest S bs sid (Writer_init buf) self)"
  unfolding handle_spdm_digest_def with_message_b_def
  by (intro replies_intros patch_digests_replies) simp_all

lemma challenge_sign_replies:
  assumes "carries c w" "\<And>n. get_asym_sig_size self = Ok n \<Longrightarrow> unat n + 2 \<le> Writer_used w"
  shows "replies c (challenge_sign S w self)"
  unfolding challenge_sign_def
  by (intro replies_parts) (use assms carries_patch [OF _ assms(1)] in fastforce)

lemma challenge_replies:
  "replies (code_of SpdmResponseChallengeAuth) (handle_spdm_challenge S bs (Writer_init buf) self)"
  unfolding handle_spdm_challenge_def Let_def
  by (intro replies_parts replies_respond [OF refl grows_challenge_auth] challenge_sign_replies)
    (assumption | simp)+

lemma measurement_sign_replies:
  assumes "carries c w" "\<And>n. get_asym_sig_size self = Ok n \<Longrightarrow> (if sig then unat n else 0) + 2 \<le> Writer_used w"
  shows "replies c (measurement_sign S sid sig w self)"
  unfolding measurement_sign_def
  by (intro replies_parts) (use assms carries_patch [OF _ assms(1)] in fastforce)+

lemma sig_size_append_m:
  assumes "get_asym_sig_size (reset_buffer_via_request_code c sid self) = Ok n"
    and "append_message_m C sid m (upd_rt (\<lambda>r. r\<lparr>need_measurement_signature := b\<rparr>) (reset_buffer_via_request_code c sid self)) = (res, self')"
  shows "get_asym_sig_size self' = Ok n" "need_measurement_signature (runtime_info self') = b"
  using env_sizes(1) [OF env_append_m [OF assms(2)]] assms(1) env_eqD(8) [OF env_append_m [OF assms(2)]] by simp_all

lemma sig_fits_append_m:
  assumes "get_asym_sig_size (reset_buffer_via_request_code c sid self) = Ok n"
    and "append_message_m C sid m (upd_rt (\<lambda>r. r\<lparr>need_measurement_signature := b\<rparr>) (reset_buffer_via_request_code c sid self)) = (res, self')"
    and "(if need_measurement_signature (runtime_info self') then unat n else 0) + 2 \<le> u" "get_asym_sig_size self' = Ok n'"
  shows "(if b then unat n' else 0) + 2 \<le> u"
  using sig_size_append_m [OF assms(1,2)] assms(3,4) by auto

lemma write_measurement_replies:
  "replies (code_of SpdmResponseMeasurements) (write_spdm_measurement_response S sid bs (Writer_init buf) self)"
  unfolding write_spdm_measurement_response_def Let_def
  by (intro replies_parts replies_respond [OF refl grows_measurements [OF sig_size_append_m(1)]] measurement_sign_replies)
    (assumption | rule sig_fits_append_m | simp)+

lemma measurement_replies:
  "replies (code_of SpdmResponseMeasurements) (handle_spdm_measurement S sid bs (Writer_init buf) self)"
  using write_measurement_replies [of S sid bs buf self]
  by (auto simp: handle_spdm_measurement_def yields_def split: prod.splits sum.splits fault.splits)

lemma vendor_write_replies:
  "replies (code_of SpdmResponseVendorDefinedResponse) (write_spdm_vendor_defined_response S sid bs (Writer_init buf) self)"
  unfolding write_spdm_vendor_defined_response_def by (intro replies_intros)

lemma error_replies: "replies c (write_error_response e bs w self)"
  unfolding write_error_response_def Let_def by (intro yields_option yields_prod yields_if replies_refuse) (simp add: answers_error)

lemma replies_teardown: "replies c rp \<Longrightarrow> replies c (teardown_on_error sid rp)"
  by (cases "(sid, rp)" rule: teardown_on_error.cases) auto

lemma psk_finish_replies:
  "replies (code_of SpdmResponsePskFinishRsp) (handle_spdm_psk_finish S sid bs (Writer_init buf) self)"
  unfolding handle_spdm_psk_finish_def write_spdm_psk_finish_response_def with_verified_hmac_def finish_data_secret_def
  by (intro replies_teardown replies_intros)

lemma finish_response_replies:
  assumes "get_hash_size self = Ok h"
  shows "replies (code_of SpdmResponseFinishRsp) (finish_response S sid (unat h) (Writer_init buf) self)"
  unfolding finish_response_def finish_data_secret_def Let_def
proof (rule replies_respond [OF refl grows_finish_rsp [OF assms]], goal_cases)
  case (2 w)
  note patch2 = carries_patch [OF _ 2(1)]
  show ?case
    by (intro replies_parts yields_let) (use 2 patch2 in fastforce)+
qed simp

lemma finish_replies:
  "replies (code_of SpdmResponseFinishRsp) (handle_spdm_finish S sid bs (Writer_init buf) self)"
proof -
  have h: "get_hash_size s' = Ok h" if "get_hash_size s = Ok h" "append_message_f C b sid m s = (res, s')" for s s' :: "'a SpdmContext" and h C b sid m res
    using env_sizes(2) [OF env_append_f [OF that(2)]] that(1) by simp
  show ?thesis
    unfolding handle_spdm_finish_def write_spdm_finish_response_def with_verified_hmac_def with_finish_signature_def Let_def
    by (intro replies_teardown replies_parts finish_response_replies) (erule h, assumption)+
qed

lemma key_exchange_finishing_replies:
  assumes "carries c w" "2 \<le> temp_used"
  shows "replies c (key_exchange_finishing S sid opq temp_used hash_len w self)"
  unfolding key_exchange_finishing_def with_handshake_secret_def with_response_hmac_def Let_def
  by (intro replies_parts) (use assms carries_patch [OF _ assms(1)] in fastforce)+

lemma key_exchange_signing_replies:
  assumes "carries c w"
    and "\<And>n h. get_asym_sig_size self = Ok n \<Longrightarrow> get_hash_size self = Ok h \<Longrightarrow>
      unat n + (if in_clear_text self then 0 else unat h) + 2 \<le> Writer_used w"
  shows "replies c (key_exchange_signing S sid req opq w self)"
  unfolding key_exchange_signing_def Let_def
  by (intro replies_parts key_exchange_finishing_replies)
    (use assms carries_patch [OF _ assms(1)] in fastforce)+

lemma key_exchange_in_session_replies:
  "replies (code_of SpdmResponseKeyExchangeRsp)
     (key_exchange_in_session S sid rsp_session_id req exchange msh opq (Writer_init buf) self)"
  unfolding key_exchange_in_session_def
  by (intro replies_parts replies_respond [OF refl grows_key_exchange] key_exchange_signing_replies)
    (assumption | simp split: if_splits)+

lemma key_exchange_replies:
  "replies (code_of SpdmResponseKeyExchangeRsp) (handle_spdm_key_exchange S bs (Writer_init buf) self)"
proof -
  have "replies (code_of SpdmResponseKeyExchangeRsp)
     (key_exchange_open S req ke msh opq final exchange (Writer_init buf) self)" for req ke msh opq final exchange self
    unfolding key_exchange_open_def Let_def
    by (intro replies_parts replies_teardown)
      (auto split: prod.splits sum.splits fault.splits intro: key_exchange_in_session_replies [simplified])
  moreover have "replies c (Err e, Some (Writer_used_slice (Writer_init buf)), self)" for c e self
    by (simp add: answers_def)
  ultimately show ?thesis
    unfolding handle_spdm_key_exchange_def Let_def by (intro replies_parts)
qed

lemma psk_exchange_replies:
  "replies (code_of SpdmResponsePskExchangeRsp) (handle_spdm_psk_exchange S bs (Writer_init buf) self)"
proof -
  have "replies c (psk_exchange_finishing S sid opq hash_len w self)"
    if "carries c w" "hash_len + 2 \<le> Writer_used w" for c sid opq hash_len w self
    unfolding psk_exchange_finishing_def psk_exchange_establish_def with_handshake_secret_def with_response_hmac_def Let_def
    by (intro replies_parts) (use that carries_patch [OF _ that(1)] in fastforce)+
  then have "replies (code_of SpdmResponsePskExchangeRsp)
     (psk_exchange_in_session S sid rsp_session_id req psk_context msh opq (Writer_init buf) self)"
    for sid rsp_session_id req psk_context msh opq self
    unfolding psk_exchange_in_session_def
    by (intro replies_parts replies_respond [OF refl grows_psk_exchange]) (assumption | simp)+
  then show ?thesis
    unfolding handle_spdm_psk_exchange_def psk_exchange_open_def Let_def
    by (intro replies_parts replies_teardown)
qed

end
