(* ===== verification/Effects.thy ===== *)
theory Effects
  imports Replies
begin

text \<open>
  What the handlers do to the responder's state. The \<open>view\<close> of a context is what is configured,
  negotiated, provisioned and known of the peer, the state of the connection, the session that is
  finished in the clear, and the id and the state of every session. Most handlers leave it alone.
\<close>

definition view where
  "view self = (basis self, last_session_id (runtime_info self), get_session_status self)"

lemma view_env: "env a = env b \<Longrightarrow> view a = view b"
  using status_env [of a b] env_eqD(6,10) [of a b] by (simp add: view_def)

lemma view_append:
  "append_message_a m self = (res, self') \<Longrightarrow> view self' = view self"
  "append_message_b C m self = (res, self') \<Longrightarrow> view self' = view self"
  "append_message_c C m self = (res, self') \<Longrightarrow> view self' = view self"
  "append_message_m C sid m self = (res, self') \<Longrightarrow> view self' = view self"
  "append_message_k C i m self = (res, self') \<Longrightarrow> view self' = view self"
  "append_message_f C b i m self = (res, self') \<Longrightarrow> view self' = view self"
  by (auto intro: view_env env_appends)

lemma view_reset [simp]:
  "view (reset_message_a self) = view self" "view (reset_message_b self) = view self"
  "view (reset_message_c self) = view self" "view (reset_message_m sid self) = view self"
  "view (reset_buffer_via_request_code c sid self) = view self"
  by (auto intro: view_env)

lemma view_flags [simp]:
  "view (upd_rt (\<lambda>r. r\<lparr>need_measurement_summary_hash := a\<rparr>) self) = view self"
  "view (upd_rt (\<lambda>r. r\<lparr>need_measurement_signature := a\<rparr>) self) = view self"
  "view (upd_rt (\<lambda>r. r\<lparr>local_used_cert_chain_slot_id := i\<rparr>) self) = view self"
  by (simp_all add: view_def basis_def get_session_status_def)

abbreviation quiet :: "'h SpdmContext \<Rightarrow> 'h reply \<Rightarrow> bool" where
  "quiet self \<equiv> yields (\<lambda>_ _ s. view s = view self)"

lemma quiet_leaf [simp]:
  "quiet self (refuse c st w s) \<longleftrightarrow> view s = view self" "quiet self (abort s) \<longleftrightarrow> view s = view self"
  "quiet self (reply_ok w s) \<longleftrightarrow> view s = view self"
  by (simp_all add: refuse_def abort_def reply_ok_def)

lemma quiet_attempt_step:
  assumes "\<And>res s. m = (res, s) \<Longrightarrow> view s = view self"
    and "\<And>s. view s = view self \<Longrightarrow> quiet self (bad s)" "\<And>s. view s = view self \<Longrightarrow> m = (Ok (), s) \<Longrightarrow> quiet self (k s)"
  shows "quiet self (attempt_step m bad k)"
  using assms by (intro yields_attempt_step) auto

subsection \<open>Handlers that leave the view alone\<close>

lemma error_quiet: "quiet self (write_error_response e bs w self)"
  unfolding write_error_response_def by (auto split: option.splits simp: Let_def)

lemma heartbeat_quiet: "quiet self (handle_spdm_heartbeat sid bs w self)"
  unfolding handle_spdm_heartbeat_def Let_def by (intro yields_intros) simp_all

lemma end_session_quiet: "quiet self (handle_spdm_end_session sid bs w self)"
  unfolding handle_spdm_end_session_def Let_def by (intro yields_intros) simp_all

lemma certificate_quiet: "quiet self (handle_spdm_certificate S bs sid w self)"
  unfolding handle_spdm_certificate_def with_message_b_def
  by (intro yields_intros yields_info_parts) (auto dest!: view_append)

lemma patch_digests_quiet:
  "view s = view self \<Longrightarrow> (\<And>w. quiet self (k w)) \<Longrightarrow> quiet self (patch_digests S cs at w s k)"
proof (induction cs arbitrary: at w)
  case (Cons c cs)
  then show ?case by (cases c) (auto intro!: yields_intros)
qed simp

lemma digest_quiet: "quiet self (handle_spdm_digest S bs sid w self)"
  unfolding handle_spdm_digest_def with_message_b_def
  by (intro yields_intros yields_info_parts patch_digests_quiet) (auto dest!: view_append)

lemma challenge_quiet: "quiet self (handle_spdm_challenge S bs w self)"
  unfolding handle_spdm_challenge_def challenge_sign_def
  by (intro yields_intros yields_info_parts yields_session_parts) (auto dest!: view_append)

lemma write_measurement_quiet: "quiet self (write_spdm_measurement_response S sid bs w self)"
  unfolding write_spdm_measurement_response_def measurement_sign_def
  by (intro yields_intros yields_info_parts yields_session_parts) (auto dest!: view_append)

lemma measurement_quiet: "quiet self (handle_spdm_measurement S sid bs w self)"
  using write_measurement_quiet [of self S sid bs w]
  by (auto simp: handle_spdm_measurement_def yields_def split: prod.splits sum.splits fault.splits)

lemma vendor_write_quiet: "quiet self (write_spdm_vendor_defined_response S sid bs w self)"
  unfolding write_spdm_vendor_defined_response_def by (intro yields_intros) auto

subsection \<open>Version, capabilities and algorithms\<close>

lemma view_eqD:
  assumes "view a = view b"
  shows "config_info a = config_info b" "negotiate_info a = negotiate_info b"
    "provision_info a = provision_info b" "peer_info a = peer_info b"
    "connection_state (runtime_info a) = connection_state (runtime_info b)"
    "last_session_id (runtime_info a) = last_session_id (runtime_info b)"
    "get_session_status a = get_session_status b"
  using assms by (simp_all add: view_def basis_def)

lemma status_reset: "get_session_status (reset_context self) = map (\<lambda>_. dead) (get_session_status self)"
  by (simp add: status_life reset_context_def reset_peer_info_def reset_negotiate_info_def reset_runtime_info_def Let_def)

lemma view_reset_context: "view a = view b \<Longrightarrow> view (reset_context a) = view (reset_context b)"
  using view_eqD [of a b]
  by (simp add: view_def [of "reset_context _"] status_reset) (simp add: basis_def reset_context_def
      reset_peer_info_def reset_negotiate_info_def reset_runtime_info_def SpdmRuntimeInfo_default_def Let_def)

lemma version_effect:
  "yields (\<lambda>_ _ s. view s = view self \<or> view s = view (reset_context self)) (handle_spdm_version bs w self)"
proof -
  have "view (reset_context (reset_buffer_via_request_code c sid self)) = view (reset_context self)" for c sid
    by (rule view_reset_context) simp
  then show ?thesis
    unfolding handle_spdm_version_def Let_def
    by (intro yields_intros) (auto dest!: view_append simp: refuse_def abort_def reply_ok_def)
qed

text \<open>A change of what is negotiated and provisioned only.\<close>

definition renegotiated :: "'h SpdmContext \<Rightarrow> 'h SpdmContext \<Rightarrow> bool" where
  "renegotiated self s \<longleftrightarrow> config_info s = config_info self \<and> peer_info s = peer_info self
     \<and> connection_state (runtime_info s) = connection_state (runtime_info self)
     \<and> last_session_id (runtime_info s) = last_session_id (runtime_info self)
     \<and> get_session_status s = get_session_status self"

lemma renegotiated_view: "view s = view s' \<Longrightarrow> renegotiated self s' \<Longrightarrow> renegotiated self s"
  using view_eqD [of s s'] by (simp add: renegotiated_def)

lemma renegotiated_upd:
  "renegotiated self (s\<lparr>negotiate_info := n\<rparr>) = renegotiated self s"
  "renegotiated self (s\<lparr>provision_info := p\<rparr>) = renegotiated self s"
  "renegotiated self self"
  by (simp_all add: renegotiated_def get_session_status_def)

lemma renegotiated_slots: "construct_slots S is s = (res, s') \<Longrightarrow> renegotiated self s \<Longrightarrow> renegotiated self s'"
  by (induction S "is" s arbitrary: s' rule: construct_slots.induct)
    (auto simp: renegotiated_upd split: sum.splits option.splits)

lemma renegotiated_reset [simp]: "renegotiated self (reset_buffer_via_request_code c sid s) = renegotiated self s"
  using renegotiated_view [of "reset_buffer_via_request_code c sid s" s] renegotiated_view [of s "reset_buffer_via_request_code c sid s"]
  by auto

lemma renegotiated_append_a: "append_message_a m s = (res, s') \<Longrightarrow> renegotiated self s \<Longrightarrow> renegotiated self s'"
  by (rule renegotiated_view [OF view_append(1)])

lemma renegotiated_leaf [simp]:
  "yields (\<lambda>_ _. renegotiated self) (refuse c st w s) \<longleftrightarrow> renegotiated self s"
  "yields (\<lambda>_ _. renegotiated self) (abort s) \<longleftrightarrow> renegotiated self s"
  "yields (\<lambda>_ _. renegotiated self) (reply_ok w s) \<longleftrightarrow> renegotiated self s"
  by (simp_all add: refuse_def abort_def reply_ok_def)

lemma capability_effect: "yields (\<lambda>_ _. renegotiated self) (handle_spdm_capability bs w self)"
  unfolding handle_spdm_capability_def Let_def
  by (intro yields_intros)
    (auto simp: renegotiated_upd dest!: renegotiated_append_a [where self = self])

lemma algorithm_effect: "yields (\<lambda>_ _. renegotiated self) (handle_spdm_algorithm S bs w self)"
  unfolding handle_spdm_algorithm_def Let_def construct_my_cert_chain_def
  by (intro yields_intros)
    (auto simp: renegotiated_upd dest!: renegotiated_append_a [where self = self] renegotiated_slots [where self = self])

lemma capability_refused:
  "connection_state (runtime_info self) \<noteq> SpdmConnectionAfterVersion \<Longrightarrow>
     handle_spdm_capability bs w self = unexpected w self"
  by (simp add: handle_spdm_capability_def)

lemma algorithm_refused:
  "connection_state (runtime_info self) \<noteq> SpdmConnectionAfterCapabilities \<Longrightarrow>
     handle_spdm_algorithm S bs w self = unexpected w self"
  by (simp add: handle_spdm_algorithm_def)

subsection \<open>Key update and the end of the handshake\<close>

lemma view_put_same:
  "get_session_via_id sid self = Some s \<Longrightarrow> life t = life s \<Longrightarrow> view (put_session sid t self) = view self"
  by (simp add: view_def status_put_same)

lemma key_update_effect: "quiet self (handle_spdm_key_update S sid bs w self)"
proof -
  have "life s' = life s" if "key_update_session C ver op s = Inr s'" for C :: "'a Crypto" and ver op s s'
    using that
    by (auto simp: key_update_session_def ignore_result_def bindR_eq_Inr split: if_splits prod.splits sum.splits fault.splits)
      (metis life_create_update snd_conv)+
  then show ?thesis
    unfolding handle_spdm_key_update_def Let_def
    by (intro yields_intros) (auto simp: view_put_same)
qed

text \<open>What a session must show before it is established: the HMAC under its own key over its transcript.\<close>

definition hmac_checked :: "'h Services \<Rightarrow> u32 \<Rightarrow> bool \<Rightarrow> bytes list \<Rightarrow> SpdmDigestStruct \<Rightarrow> 'h SpdmContext \<Rightarrow> bool" where
  "hmac_checked S sid psk msgs mac self \<longleftrightarrow>
     (\<exists>self' s th. run_steps (map (append_message_f (svc_crypto S) False sid) msgs) self = (Ok (), self')
        \<and> get_session_via_id sid self' = Some s \<and> use_psk s = psk
        \<and> calc_rsp_transcript_hash (svc_crypto S) s = Ok th
        \<and> verify_hmac_with_request_finished_key (svc_crypto S) (Sized_as_ref th) mac s = Ok ())"

definition finish_checked :: "'h Services \<Rightarrow> u32 \<Rightarrow> bytes \<Rightarrow> 'h SpdmContext \<Rightarrow> bool" where
  "finish_checked S sid bs self \<longleftrightarrow>
     (\<exists>hdr r req r'. SpdmMessageHeader_read (Reader_init bs) = Some (hdr, r)
        \<and> (let self = reset_buffer_via_request_code SpdmRequestFinish (Some sid) self;
               n = 4 + (if SpdmVersion14 \<le> ver_sel self then 2 + unat (data_size (fin_opaque req)) else 0) in
           SpdmFinishRequestPayload_spdm_read self r = Inr (req, r')
           \<and> hmac_checked S sid False
               (take n bs # (if contains (fin_finish_request_attributes req) SIGNATURE_INCLUDED
                             then [Sized_as_ref (fin_signature req)] else []))
               (fin_verify_data req) self))"

definition psk_finish_checked :: "'h Services \<Rightarrow> u32 \<Rightarrow> bytes \<Rightarrow> 'h SpdmContext \<Rightarrow> bool" where
  "psk_finish_checked S sid bs self \<longleftrightarrow>
     (\<exists>hdr r req r' h. SpdmMessageHeader_read (Reader_init bs) = Some (hdr, r)
        \<and> (let self = reset_buffer_via_request_code SpdmRequestPskFinish (Some sid) self in
           SpdmPskFinishRequestPayload_spdm_read self r = Inr (req, r') \<and> get_hash_size self = Ok h
           \<and> hmac_checked S sid True [take (Reader_used r' - unat h) bs] (pf_verify_data req) self))"

lemma finish_data_secret_quiet:
  "view s = view self \<Longrightarrow> quiet self (finish_data_secret S sid w s)"
proof -
  have "life s' = life t" if "generate_data_secret C ver th (t\<lparr>th2 := th'\<rparr>) = (res, s')" for C :: "'a Crypto" and ver th t th' res s'
    using life_generate(2) [of C ver th "t\<lparr>th2 := th'\<rparr>"] that by simp
  then show "view s = view self \<Longrightarrow> ?thesis"
    unfolding finish_data_secret_def Let_def
    by (intro yields_intros) (auto simp: view_put_same)
qed

lemma finish_response_quiet: "view s = view self \<Longrightarrow> quiet self (finish_response S sid n w s)"
  unfolding finish_response_def Let_def
  by (intro yields_intros finish_data_secret_quiet) (auto dest!: view_append)

abbreviation quiet_if :: "'h SpdmContext \<Rightarrow> bool \<Rightarrow> 'h reply \<Rightarrow> bool" where
  "quiet_if self P \<equiv> yields (\<lambda>res _ s. view s = view self \<and> (res = Ok () \<longrightarrow> P))"

lemma quiet_if_leaf [simp]:
  "quiet_if self P (refuse c st w s) \<longleftrightarrow> view s = view self" "quiet_if self P (abort s) \<longleftrightarrow> view s = view self"
  by (simp_all add: refuse_def abort_def)

lemma quiet_ifI: "P \<Longrightarrow> quiet self rp \<Longrightarrow> quiet_if self P rp"
  by (simp add: yields_def)

lemma with_verified_hmac_effect:
  assumes "view s0 = view self" "run_steps (map (append_message_f (svc_crypto S) False sid) msgs) self0 = (Ok (), s0)"
    and "get_session_via_id sid s0 = Some t" "use_psk t = psk" "hmac_checked S sid psk msgs mac self0 \<Longrightarrow> P"
    and "\<And>s. view s = view self \<Longrightarrow> quiet self (k s)"
  shows "quiet_if self P (with_verified_hmac S sid mac w s0 k)"
proof -
  have "P" if "calc_rsp_transcript_hash (svc_crypto S) t = Ok th"
    "verify_hmac_with_request_finished_key (svc_crypto S) (Sized_as_ref th) mac t = Ok ()" for th
    using that assms(2-5) unfolding hmac_checked_def by blast
  then show ?thesis
    unfolding with_verified_hmac_def using assms(1,3)
    by (intro yields_with_session yields_attempt yields_attempt_step)
      (auto dest!: view_append intro!: quiet_ifI assms(6))
qed

lemma with_finish_signature_effect:
  assumes "view s0 = view self" "run_steps (map (append_message_f (svc_crypto S) False sid) msgs) self0 = (Ok (), s0)"
    and "\<And>s. view s = view self \<Longrightarrow>
      run_steps (map (append_message_f (svc_crypto S) False sid) (msgs @ (if b then [Sized_as_ref sig] else []))) self0 = (Ok (), s) \<Longrightarrow>
      quiet_if self P (k s)"
  shows "quiet_if self P (with_finish_signature S sid b sig w s0 k)"
proof (cases b)
  case True
  have "quiet_if self P (k s)" if "append_message_f (svc_crypto S) False sid (Sized_as_ref sig) s0 = (Ok (), s)" for s
    using assms(1,2) that True view_append(6) [OF that] by (intro assms(3)) (simp_all add: run_steps_append)
  with True show ?thesis
    unfolding with_finish_signature_def using assms(1)
    by (auto intro!: yields_with_session yields_attempt yields_attempt_step dest: view_append)
qed (use assms in \<open>simp add: with_finish_signature_def\<close>)

lemma finish_tail_effect:
  assumes "SpdmMessageHeader_read (Reader_init bs) = Some (hdr, r)"
    and "self0 = reset_buffer_via_request_code SpdmRequestFinish (Some sid) self"
    and "SpdmFinishRequestPayload_spdm_read self0 r = Inr (req, r')"
    and "append_message_f (svc_crypto S) False sid
           (take (4 + (if SpdmVersion14 \<le> ver_sel self0 then 2 + unat (data_size (fin_opaque req)) else 0)) bs) self0 = (Ok (), s0)"
    and "b = contains (fin_finish_request_attributes req) SIGNATURE_INCLUDED"
  shows "quiet_if self (finish_checked S sid bs self)
    (with_finish_signature S sid b (fin_signature req) w s0 (\<lambda>self.
       certain (get_hash_size self) self (\<lambda>hash_len.
       with_session sid w self (\<lambda>s.
       if use_psk s then bad_field w self
       else with_verified_hmac S sid (fin_verify_data req) w self (\<lambda>self.
         finish_response S sid (unat hash_len) w self)))))"
proof (rule with_finish_signature_effect [OF _ _])
  show "view s0 = view self" using assms(2) view_append(6) [OF assms(4)] by simp
  show "run_steps (map (append_message_f (svc_crypto S) False sid)
      [take (4 + (if SpdmVersion14 \<le> ver_sel self0 then 2 + unat (data_size (fin_opaque req)) else 0)) bs]) self0 = (Ok (), s0)"
    using assms(4) by simp
next
  fix s
  assume s: "view s = view self" and run: "run_steps (map (append_message_f (svc_crypto S) False sid)
      ([take (4 + (if SpdmVersion14 \<le> ver_sel self0 then 2 + unat (data_size (fin_opaque req)) else 0)) bs]
        @ (if b then [Sized_as_ref (fin_signature req)] else []))) self0 = (Ok (), s)"
  have "finish_checked S sid bs self" if "hmac_checked S sid False
      ([take (4 + (if SpdmVersion14 \<le> ver_sel self0 then 2 + unat (data_size (fin_opaque req)) else 0)) bs]
        @ (if b then [Sized_as_ref (fin_signature req)] else [])) (fin_verify_data req) self0"
    using that assms(1-3,5) unfolding finish_checked_def Let_def by auto
  then show "quiet_if self (finish_checked S sid bs self) (certain (get_hash_size s) s (\<lambda>hash_len.
       with_session sid w s (\<lambda>t. if use_psk t then bad_field w s
       else with_verified_hmac S sid (fin_verify_data req) w s (\<lambda>self. finish_response S sid (unat hash_len) w self))))"
    using s by (intro yields_certain yields_with_session yields_if with_verified_hmac_effect [OF s run])
      (auto intro: finish_response_quiet)
qed

lemma write_finish_effect: "quiet_if self (finish_checked S sid bs self) (write_spdm_finish_response S sid bs w self)"
  unfolding write_spdm_finish_response_def Let_def
  by (intro yields_with_header yields_parsed yields_certain yields_attempt_step yields_with_session yields_if
    yields_prod finish_tail_effect [OF _ refl])
   (auto dest!: view_append simp: slice_def split: if_splits)

lemma write_psk_finish_effect:
  "quiet_if self (psk_finish_checked S sid bs self) (write_spdm_psk_finish_response S sid bs w self)"
  unfolding write_spdm_psk_finish_response_def Let_def
proof (intro yields_with_header yields_parsed yields_certain yields_attempt_step yields_with_session yields_if yields_prod)
  let ?self = "reset_buffer_via_request_code SpdmRequestPskFinish (Some sid) self"
  fix hdr r x req r' hash_len t s
  assume hdr: "SpdmMessageHeader_read (Reader_init bs) = Some (hdr, r)"
    and req: "SpdmPskFinishRequestPayload_spdm_read ?self r = Inr x" "x = (req, r')"
    and hash_len: "get_hash_size ?self = Ok hash_len"
    and t: "get_session_via_id sid ?self = Some t" "\<not> \<not> use_psk t"
    and app: "append_message_f (svc_crypto S) False sid (take (Reader_used r' - unat hash_len) bs) ?self = (Ok (), s)"
  have s: "view s = view self" using view_append(6) [OF app] by simp
  obtain u where u: "get_session_via_id sid s = Some u" "core u = core t"
    using env_session [OF env_append_f [OF app, symmetric] t(1)] by auto
  have "psk_finish_checked S sid bs self"
    if "hmac_checked S sid True [take (Reader_used r' - unat hash_len) bs] (pf_verify_data req) ?self"
    using that hdr req hash_len unfolding psk_finish_checked_def Let_def by auto
  moreover have run: "run_steps (map (append_message_f (svc_crypto S) False sid)
      [take (Reader_used r' - unat hash_len) bs]) ?self = (Ok (), s)"
    using app by simp
  ultimately show "quiet_if self (psk_finish_checked S sid bs self)
     (with_verified_hmac S sid (pf_verify_data req) w s (\<lambda>self.
        respond (ver_sel self) SpdmResponsePskFinishRsp (SpdmPskFinishResponsePayload_spdm_encode self SpdmOpaqueStruct_default) w self
          (\<lambda>w. attempt_step (append_message_f (svc_crypto S) False sid (Writer_used_slice w) self) (local_fault w)
             (finish_data_secret S sid w))))"
    using t(2) u core_fields(3) [OF u(2)]
    by (intro with_verified_hmac_effect [OF s run])
      (auto intro!: yields_respond yields_attempt_step finish_data_secret_quiet dest: view_append)
qed (auto dest!: view_append)

lemma view_teardown:
  "view (teardown_session sid self) =
     (basis self, last_session_id (runtime_info self), update_first (\<lambda>x. fst x = sid) (\<lambda>_. dead) (get_session_status self))"
  by (auto simp: teardown_session_def view_def status_put update_first_none status_find split: option.splits)

text \<open>A finished handshake leaves the sessions alone; an error tears the session down.\<close>

definition finish_outcome :: "'h SpdmContext \<Rightarrow> u32 \<Rightarrow> bool \<Rightarrow> 'h reply \<Rightarrow> bool" where
  "finish_outcome self sid P = yields (\<lambda>res _ s.
     if (\<exists>e. res = Err e)
     then view s = (basis self, last_session_id (runtime_info self), update_first (\<lambda>x. fst x = sid) (\<lambda>_. dead) (get_session_status self))
     else view s = view self \<and> (res = Ok () \<longrightarrow> P))"

lemma finish_outcomeI: "quiet_if self P rp \<Longrightarrow> finish_outcome self sid P (teardown_on_error sid rp)"
  unfolding finish_outcome_def
  by (cases "(sid, rp)" rule: teardown_on_error.cases) (auto simp: view_teardown, auto simp: view_def)

lemma finish_effect: "finish_outcome self sid (finish_checked S sid bs self) (handle_spdm_finish S sid bs w self)"
  unfolding handle_spdm_finish_def by (rule finish_outcomeI [OF write_finish_effect])

lemma psk_finish_effect:
  "finish_outcome self sid (psk_finish_checked S sid bs self) (handle_spdm_psk_finish S sid bs w self)"
  unfolding handle_spdm_psk_finish_def by (rule finish_outcomeI [OF write_psk_finish_effect])

subsection \<open>The opening of a session\<close>

definition opened :: "u32 \<Rightarrow> SpdmSessionState \<Rightarrow> (u32 \<times> SpdmSessionState) list \<Rightarrow> (u32 \<times> SpdmSessionState) list" where
  "opened sid st xs = update_first (\<lambda>x. fst x = INVALID_SESSION_ID) (\<lambda>_. (sid, st)) xs"

lemma update_opened:
  "sid \<notin> fst ` set xs \<Longrightarrow>
     update_first (\<lambda>x. fst x = sid) (\<lambda>_. y) (opened sid st xs) = update_first (\<lambda>x. fst x = INVALID_SESSION_ID) (\<lambda>_. y) xs"
  unfolding opened_def by (induction xs) auto

lemma update_first_absent: "sid \<notin> fst ` set xs \<Longrightarrow> update_first (\<lambda>x. fst x = sid) f xs = xs"
  by (induction xs) auto

lemma opened_dead:
  "\<forall>x \<in> set xs. fst x = INVALID_SESSION_ID \<longrightarrow> snd x = SpdmSessionNotStarted \<Longrightarrow>
     update_first (\<lambda>x. fst x = INVALID_SESSION_ID) (\<lambda>_. dead) xs = xs"
  by (induction xs) (auto simp: prod_eq_iff)

text \<open>The context while the session \<open>sid\<close> is being opened, with the table \<open>xs\<close> before it.\<close>

definition inside where
  "inside sid xs B L st s \<longleftrightarrow> basis s = B \<and> last_session_id (runtime_info s) = L
     \<and> sid \<notin> fst ` set xs \<and> get_session_status s = opened sid st xs"

definition closed where
  "closed xs B L s \<longleftrightarrow> basis s = B \<and> last_session_id (runtime_info s) = L
     \<and> get_session_status s = update_first (\<lambda>x. fst x = INVALID_SESSION_ID) (\<lambda>_. dead) xs"

text \<open>A success has \<open>G\<close>; an error leaves the session to be torn down, or already torn down.\<close>

definition open_post where
  "open_post sid xs B L G res out s \<longleftrightarrow> res = panic \<or>
     (if res = Ok () then G s else (\<exists>st. inside sid xs B L st s) \<or> closed xs B L s)"

abbreviation opens where
  "opens sid xs B L G \<equiv> yields (open_post sid xs B L G)"

lemma opens_leaf:
  "inside sid xs B L st s \<Longrightarrow> opens sid xs B L G (refuse c e w s)"
  "closed xs B L s \<Longrightarrow> opens sid xs B L G (refuse c e w s)"
  "opens sid xs B L G (abort s)"
  "G s \<Longrightarrow> opens sid xs B L G (reply_ok w s)"
  by (auto simp: open_post_def refuse_def abort_def reply_ok_def)

lemma inside_append: "inside sid xs B L st s \<Longrightarrow> append_message_k C i m s = (res, s') \<Longrightarrow> inside sid xs B L st s'"
  using view_append(5) [of C i m s res s'] by (auto simp: inside_def view_def)

lemma inside_put: "inside sid xs B L st s \<Longrightarrow> life t = (sid, st') \<Longrightarrow> inside sid xs B L st' (put_session sid t s)"
  by (auto simp: inside_def status_put update_opened) (simp add: opened_def)

lemma inside_life:
  assumes "inside sid xs B L st s" "get_session_via_id sid s = Some t"
  shows "life t = (sid, st)"
proof -
  have "List.find (\<lambda>x. fst x = sid) (opened sid st xs) \<in> {None, Some (sid, st)}" if "sid \<notin> fst ` set xs" for xs
    using that unfolding opened_def by (induction xs) auto
  then show ?thesis using assms status_find [of sid s] by (force simp: inside_def)
qed

lemma inside_teardown: "inside sid xs B L st s \<Longrightarrow> closed xs B L (put_session sid (session_teardown t) s)"
  by (auto simp: inside_def closed_def status_put update_opened)

lemma teardown_fields:
  "basis (teardown_session sid s) = basis s" "last_session_id (runtime_info (teardown_session sid s)) = last_session_id (runtime_info s)"
  "get_session_status (teardown_session sid s) = update_first (\<lambda>x. fst x = sid) (\<lambda>_. dead) (get_session_status s)"
  using view_teardown [of sid s] by (simp_all add: view_def)

lemma closed_teardown:
  assumes "(\<exists>st. inside sid xs B L st s) \<or> closed xs B L s" "sid \<notin> fst ` set xs" "sid \<noteq> INVALID_SESSION_ID"
  shows "closed xs B L (teardown_session sid s)"
proof -
  have "update_first (\<lambda>x. fst x = sid) (\<lambda>_. dead) (update_first (\<lambda>x. fst x = INVALID_SESSION_ID) (\<lambda>_. dead) xs)
      = update_first (\<lambda>x. fst x = INVALID_SESSION_ID) (\<lambda>_. dead) xs"
    using assms(2,3) by (induction xs) (auto simp: update_first_absent)
  then show ?thesis using assms(1)
    by (elim disjE exE) (simp_all add: closed_def inside_def teardown_fields update_opened)
qed

lemma opens_teardown:
  assumes "opens sid xs B L G rp" "sid \<notin> fst ` set xs" "sid \<noteq> INVALID_SESSION_ID"
  shows "yields (\<lambda>res _ s. res = panic \<or> (if res = Ok () then G s else closed xs B L s)) (teardown_on_error sid rp)"
  using assms(1)
  by (cases "(sid, rp)" rule: teardown_on_error.cases) (auto simp: open_post_def intro: closed_teardown [OF _ assms(2,3)])

lemma opens_attempt:
  assumes "inside sid xs B L st s" "\<And>x. m = Ok x \<Longrightarrow> opens sid xs B L G (k x)"
  shows "opens sid xs B L G (attempt m s (\<lambda>e. refuse (c e) (f e) w s) k)"
  by (intro yields_attempt opens_leaf(1) [OF assms(1)] opens_leaf(3) assms(2))

lemma opens_append_k:
  assumes "inside sid xs B L st s" "\<And>s. inside sid xs B L st s \<Longrightarrow> opens sid xs B L G (k s)"
  shows "opens sid xs B L G (attempt_step (append_message_k C i m s) (refuse c e w) k)"
  by (intro yields_attempt_step opens_leaf(1) [OF inside_append [OF assms(1)]] opens_leaf(3) assms(2) inside_append [OF assms(1)])

lemma opens_with_session:
  assumes "inside sid xs B L st s" "\<And>t. get_session_via_id sid s = Some t \<Longrightarrow> life t = (sid, st) \<Longrightarrow> opens sid xs B L G (k t)"
  shows "opens sid xs B L G (with_session sid w s k)"
  by (intro yields_with_session opens_leaf(1) [OF assms(1)] assms(2) inside_life [OF assms(1)])

lemma opens_certain: "(\<And>x. m = Ok x \<Longrightarrow> opens sid xs B L G (k x)) \<Longrightarrow> opens sid xs B L G (certain m s k)"
  by (intro yields_certain opens_leaf(3))

lemma opens_patch: "(\<And>x. opens sid xs B L G (k x)) \<Longrightarrow> opens sid xs B L G (present m (abort s) k)"
  by (intro yields_present opens_leaf(3))

lemma opens_respond:
  assumes "inside sid xs B L st s" "\<And>w. opens sid xs B L G (k w)"
  shows "opens sid xs B L G (respond ver code payload w s k)"
  by (intro yields_respond opens_leaf(1) [OF assms(1)] opens_leaf(3) assms(2))

lemma opens_with_handshake_secret:
  assumes "inside sid xs B L st s" "\<And>s. inside sid xs B L st s \<Longrightarrow> opens sid xs B L G (k s)"
  shows "opens sid xs B L G (with_handshake_secret S sid w s k)"
  unfolding with_handshake_secret_def
proof (rule opens_with_session [OF assms(1)], rule opens_attempt [OF assms(1)], unfold Let_def, rule yields_prod)
  fix t th res t'
  assume "life t = (sid, st)" "generate_handshake_secret (svc_crypto S) (ver_sel s) th (t\<lparr>th1 := th\<rparr>) = (res, t')"
  then have "life t' = (sid, st)" using life_generate(1) [of "svc_crypto S" "ver_sel s" th "t\<lparr>th1 := th\<rparr>"] by simp
  with assms(1) have "inside sid xs B L st (put_session sid t' s)" by (rule inside_put)
  then show "opens sid xs B L G (attempt res (put_session sid t' s)
      (\<lambda>e. refuse SpdmErrorUnspecified e w (put_session sid t' s)) (\<lambda>_. k (put_session sid t' s)))"
    by (intro opens_attempt assms(2))
qed

lemma opens_with_response_hmac:
  assumes "inside sid xs B L st s" "\<And>mac s. inside sid xs B L st s \<Longrightarrow> opens sid xs B L G (k mac s)"
  shows "opens sid xs B L G (with_response_hmac S sid w s k)"
  unfolding with_response_hmac_def
proof (rule opens_with_session [OF assms(1)], rule opens_attempt [OF assms(1)],
    rule yields_attempt, goal_cases)
  case (2 t th mac)
  note ins = inside_append [OF assms(1)]
  show ?case
    by (intro yields_attempt_step opens_with_session [OF ins] opens_leaf(2) [OF inside_teardown [OF ins]] opens_leaf(3) assms(2) ins)
qed (intro opens_leaf(2,3) inside_teardown [OF assms(1)])+


text \<open>What a handler that opens a session leaves: a new session, or the table as it was.\<close>

lemma life_take_sm_version [simp]: "life (take_sm_version opq s) = life s"
  by (simp add: take_sm_version_def)

lemma key_exchange_finishing_opens:
  assumes "inside sid xs B L st s"
    and "\<And>s L'. inside sid xs B L' SpdmSessionHandshaking s \<Longrightarrow> L' = L \<or> L' = Some sid \<Longrightarrow> G s"
  shows "opens sid xs B L G (key_exchange_finishing S sid opq n hash_len w s)"
proof -
  have fin: "opens sid xs B L G (with_session sid w s (\<lambda>t.
      let s = put_session sid ((take_sm_version opq (t\<lparr>heartbeat_period := hb\<rparr>))\<lparr>session_state := SpdmSessionHandshaking\<rparr>) s;
          s = (if in_clear_text s then upd_rt (\<lambda>r. r\<lparr>last_session_id := Some sid\<rparr>) s else s)
      in reply_ok w s))" if s: "inside sid xs B L st s" for s w hb
  proof (rule opens_with_session [OF s], unfold Let_def, rule opens_leaf(4))
    fix t :: "'a SpdmSession"
    assume "life t = (sid, st)"
    then have "session_id (take_sm_version opq (t\<lparr>heartbeat_period := hb\<rparr>)) = sid"
      by (simp add: take_sm_version_def life_def)
    then have i: "inside sid xs B L SpdmSessionHandshaking
       (put_session sid ((take_sm_version opq (t\<lparr>heartbeat_period := hb\<rparr>))\<lparr>session_state := SpdmSessionHandshaking\<rparr>) s)"
      (is "inside _ _ _ _ _ ?s") by (intro inside_put [OF s]) simp
    moreover have "inside sid xs B (Some sid) SpdmSessionHandshaking (upd_rt (\<lambda>r. r\<lparr>last_session_id := Some sid\<rparr>) ?s)"
      using i by (simp add: inside_def basis_def get_session_status_def)
    ultimately show "G (if in_clear_text ?s then upd_rt (\<lambda>r. r\<lparr>last_session_id := Some sid\<rparr>) ?s else ?s)"
      using assms(2) by auto
  qed
  show ?thesis
    unfolding key_exchange_finishing_def
    by (subst Let_def) (intro opens_with_handshake_secret [OF assms(1)] yields_if fin opens_with_response_hmac opens_patch)
qed

lemma key_exchange_in_session_opens:
  assumes "inside sid xs B L st s"
    and "\<And>s L'. inside sid xs B L' SpdmSessionHandshaking s \<Longrightarrow> L' = L \<or> L' = Some sid \<Longrightarrow> G s"
  shows "opens sid xs B L G (key_exchange_in_session S sid rsp_session_id req exchange msh opq w s)"
  unfolding key_exchange_in_session_def key_exchange_signing_def Let_def
  by (intro opens_attempt [OF assms(1)] opens_certain opens_respond [OF assms(1)] yields_if opens_leaf(3)
      opens_append_k [OF assms(1)] opens_append_k opens_with_session opens_attempt opens_patch key_exchange_finishing_opens assms(2))

lemma yields_mono: "yields P rp \<Longrightarrow> (\<And>res out s. P res out s \<Longrightarrow> Q res out s) \<Longrightarrow> yields Q rp"
  by (simp add: yields_def)

text \<open>The table of a responder between two messages: a free slot holds nothing.\<close>

definition clean :: "'h SpdmContext \<Rightarrow> bool" where
  "clean self \<longleftrightarrow> table_ok False self
     \<and> (\<forall>x \<in> set (get_session_status self). fst x = INVALID_SESSION_ID \<longrightarrow> snd x = SpdmSessionNotStarted)"

definition fresh_id :: "'h SpdmContext \<Rightarrow> u32 \<Rightarrow> bool" where
  "fresh_id self sid \<longleftrightarrow> get_next_half_session_id False self = Ok (half_session_id False sid)"

lemma alive_status: "set (alive self) = fst ` set (get_session_status self) - {INVALID_SESSION_ID}"
  by (force simp: alive_def get_session_status_def)

lemma fresh_id_new:
  assumes "table_ok False self" "fresh_id self sid"
  shows "sid \<noteq> INVALID_SESSION_ID" "sid \<notin> fst ` set (get_session_status self)"
proof -
  have "half_session_id False sid \<noteq> 0" using assms half_id_nonzero by (auto simp: fresh_id_def)
  then show "sid \<noteq> INVALID_SESSION_ID" by auto
  moreover have "session_id ((SpdmSession_new :: 'a SpdmSession)\<lparr>session_id := sid\<rparr>) \<notin> set (alive self)"
    using assms by (intro table_ok_open(2)) (auto simp: fresh_id_def)
  ultimately show "sid \<notin> fst ` set (get_session_status self)" by (simp add: alive_status)
qed

lemma inside_open:
  assumes "table_ok False self" "fresh_id self sid" "life t = (sid, st)"
  shows "inside sid (get_session_status self) (basis self) (last_session_id (runtime_info self)) st (put_session INVALID_SESSION_ID t self)"
  using fresh_id_new [OF assms(1,2)] assms(3) by (simp add: inside_def status_put opened_def)

text \<open>What a handler that opens a session leaves: a new session, or the table as it was.\<close>

definition exchange_post where
  "exchange_post self B L st res out s \<longleftrightarrow> res = panic \<or> basis s = B \<and>
     (if res = Ok ()
      then \<exists>sid. fresh_id self sid \<and> last_session_id (runtime_info s) \<in> {L, Some sid}
             \<and> get_session_status s = opened sid st (get_session_status self)
      else last_session_id (runtime_info s) = L \<and> get_session_status s = get_session_status self)"

lemma exchange_leaf:
  "view s = (B, L, get_session_status self) \<Longrightarrow> yields (exchange_post self B L st) (refuse c e w s)"
  "yields (exchange_post self B L st) (abort s)"
  by (auto simp: exchange_post_def refuse_def abort_def view_def)

lemma exchange_opens:
  assumes "clean self" "fresh_id self sid"
    and "opens sid (get_session_status self) B L
      (\<lambda>s. \<exists>L'. inside sid (get_session_status self) B L' st s \<and> (L' = L \<or> L' = Some sid)) rp"
  shows "yields (exchange_post self B L st) (teardown_on_error sid rp)"
proof -
  have ok: "table_ok False self" using assms(1) by (simp add: clean_def)
  have "closed (get_session_status self) B L s \<longleftrightarrow> basis s = B \<and> last_session_id (runtime_info s) = L
      \<and> get_session_status s = get_session_status self" for s
    using assms(1) by (simp add: closed_def clean_def opened_dead)
  with assms(2) show ?thesis
    by (intro yields_mono [OF opens_teardown [OF assms(3) fresh_id_new(2,1) [OF ok assms(2)]]])
      (auto simp: exchange_post_def inside_def split: if_splits)
qed

lemma life_fresh [simp]: "life (fresh_session S c psk s) = life s"
  by (simp add: fresh_session_def set_transport_param_def set_crypto_param_def Let_def life_def)

lemma next_half_status:
  "map session_id xs = map session_id ys \<Longrightarrow> next_half_loop b i xs = next_half_loop b i ys"
proof (induction b i xs arbitrary: ys rule: next_half_loop.induct)
  case (2 b i s ss)
  then show ?case by (cases ys) auto
qed simp

lemma slots_ok_status:
  "map session_id xs = map session_id ys \<Longrightarrow> slots_ok b k xs = slots_ok b k ys"
proof (induction b k xs arbitrary: ys rule: slots_ok.induct)
  case (2 b k s ss)
  then show ?case by (cases ys) auto
qed simp

lemma status_ids: "get_session_status a = get_session_status b \<Longrightarrow> map session_id (session a) = map session_id (session b)"
  by (drule arg_cong [of _ _ "map fst"]) (simp add: get_session_status_def comp_def)

lemma table_ok_status: "get_session_status a = get_session_status b \<Longrightarrow> table_ok x a \<longleftrightarrow> table_ok x b"
  using slots_ok_status [OF status_ids, of a b x 0] arg_cong [OF status_ids, of a b length]
  by (simp add: table_ok_def)

lemma clean_status: "get_session_status a = get_session_status b \<Longrightarrow> clean a \<longleftrightarrow> clean b"
  using table_ok_status [of a b] by (simp add: clean_def)

lemma fresh_id_status:
  assumes "get_session_status a = get_session_status b"
  shows "fresh_id a sid \<longleftrightarrow> fresh_id b sid"
proof -
  have "map session_id (take n (session a)) = map session_id (take n (session b))" for n
    using status_ids [OF assms] by (simp flip: take_map)
  then show ?thesis
    using next_half_status [of "take MAX_SPDM_SESSION_COUNT (session a)" "take MAX_SPDM_SESSION_COUNT (session b)"]
    by (simp add: fresh_id_def get_next_half_session_id_def)
qed

lemma life_setup: "session_setup sid s = Ok t \<Longrightarrow> life t = (sid, SpdmSessionNotStarted)"
  by (auto simp: session_setup_def life_def split: if_splits)

lemma key_exchange_open_effect:
  assumes "clean self"
  shows "yields (exchange_post self (basis self) (last_session_id (runtime_info self)) SpdmSessionHandshaking)
     (key_exchange_open S req ke msh opq final exchange w self)"
  unfolding key_exchange_open_def Let_def
proof (intro yields_attempt yields_certain yields_if yields_present exchange_leaf; (simp add: view_def; fail)?)
  fix h cert_hash and s s0 :: "'a SpdmSession"
  let ?sid = "join_session_id (ke_req_session_id ke) h" and ?xs = "get_session_status self"
  let ?B = "basis self" and ?L = "last_session_id (runtime_info self)"
  assume h: "get_next_half_session_id False self = Ok h" and s: "session_setup ?sid s = Ok s0"
  have fresh: "fresh_id self ?sid" using h by (simp add: fresh_id_def)
  have tab: "table_ok False self" using assms by (simp add: clean_def)
  obtain res t where g: "set_shared_secret (svc_crypto S) (ver_sel self) final ((fresh_session S self False s0)\<lparr>mut_auth_requested := 0\<rparr>) = (res, t)"
    by fastforce
  then have t: "life t = (?sid, SpdmSessionNotStarted)"
    using life_setup [OF s] life_set_shared_secret [of "svc_crypto S" "ver_sel self" final "(fresh_session S self False s0)\<lparr>mut_auth_requested := 0\<rparr>"]
    by simp
  have closed: "closed ?xs ?B ?L (put_session INVALID_SESSION_ID (session_teardown t) self)"
    by (simp add: closed_def status_put)
  show "yields (exchange_post self ?B ?L SpdmSessionHandshaking) (teardown_on_error ?sid
     (case set_shared_secret (svc_crypto S) (ver_sel self) final ((fresh_session S self False s0)\<lparr>mut_auth_requested := 0\<rparr>) of
        (Inl (Fail _), s) \<Rightarrow> crypto_fault w (put_session INVALID_SESSION_ID (session_teardown s) self)
      | (Inl Panic, s) \<Rightarrow> abort (put_session INVALID_SESSION_ID s self)
      | (Inr _, s) \<Rightarrow> key_exchange_in_session S ?sid h req exchange msh opq w
          (put_session INVALID_SESSION_ID (upd_srt (\<lambda>r. r\<lparr>s_message_a := message_a (runtime_info self),
             rsp_cert_hash := cert_hash, req_cert_hash := None\<rparr>) s) self)))"
    unfolding g using t closed
    by (intro exchange_opens [OF assms fresh])
      (auto split: sum.splits fault.splits
        intro!: opens_leaf(2,3) key_exchange_in_session_opens [OF inside_open [OF tab fresh, of _ SpdmSessionNotStarted]])
qed

abbreviation with_policy :: "bool \<Rightarrow> 'h SpdmContext \<Rightarrow> 'h SpdmContext" where
  "with_policy b self \<equiv> upd_neg (\<lambda>n. n\<lparr>termination_policy_set := b\<rparr>) self"

definition negotiated :: "'h SpdmContext \<Rightarrow> bool" where
  "negotiated self \<longleftrightarrow> SpdmConnectionState_get_u8 SpdmConnectionNegotiated
     \<le> SpdmConnectionState_get_u8 (connection_state (runtime_info self))"

text \<open>KEY_EXCHANGE and PSK_EXCHANGE: the termination policy may change; a session only in a negotiated connection.\<close>

definition outcome_post where
  "outcome_post self st res out s \<longleftrightarrow>
     (\<exists>b. exchange_post self (basis (with_policy b self)) (last_session_id (runtime_info self)) st res out s)
     \<and> (res = Ok () \<longrightarrow> negotiated self)"

abbreviation exchange_outcome :: "'h SpdmContext \<Rightarrow> SpdmSessionState \<Rightarrow> 'h reply \<Rightarrow> bool" where
  "exchange_outcome self st \<equiv> yields (outcome_post self st)"

lemma view_policy_same: "view (with_policy (termination_policy_set (negotiate_info self)) self) = view self"
  by (simp add: view_def basis_def get_session_status_def)

lemma view_policy: "view a = view b \<Longrightarrow> view (with_policy x a) = view (with_policy x b)"
  by (simp add: view_def basis_def get_session_status_def)

lemma exchange_outcome_err:
  "view s = view (with_policy b self) \<Longrightarrow> exchange_outcome self st (Err e, out, s)"
  by (auto simp: outcome_post_def exchange_post_def view_def get_session_status_def intro!: exI [of _ b])

lemma exchange_outcome_leaf:
  "view s = view (with_policy b self) \<Longrightarrow> exchange_outcome self st (refuse c e w s)"
  "view s = view self \<Longrightarrow> exchange_outcome self st (refuse c e w s)"
  "exchange_outcome self st (abort s)"
  using exchange_outcome_err [of s] exchange_outcome_err [of s "termination_policy_set (negotiate_info self)" self]
  by (simp_all add: view_policy_same refuse_def abort_def outcome_post_def exchange_post_def)

lemma exchange_outcome_open:
  assumes "view s0 = view (with_policy b self)" "negotiated self"
    and "yields (exchange_post s0 (basis s0) (last_session_id (runtime_info s0)) st) rp"
  shows "exchange_outcome self st rp"
proof -
  have "get_session_status s0 = get_session_status self" "basis s0 = basis (with_policy b self)"
    "last_session_id (runtime_info s0) = last_session_id (runtime_info self)"
    using assms(1) by (simp_all add: view_def get_session_status_def)
  with assms(2,3) show ?thesis
    by (elim yields_mono) (auto simp: outcome_post_def exchange_post_def fresh_id_status [of s0 self])
qed

lemma key_exchange_effect:
  assumes "clean self"
  shows "exchange_outcome self SpdmSessionHandshaking (handle_spdm_key_exchange S bs w self)"
proof -
  let ?r = "reset_buffer_via_request_code SpdmRequestKeyExchange None self"
  let ?s = "\<lambda>b. upd_rt (\<lambda>r. r\<lparr>need_measurement_summary_hash := b\<rparr>) ?r"
  let ?t = "\<lambda>x b i. upd_rt (\<lambda>r. r\<lparr>local_used_cert_chain_slot_id := i\<rparr>) (with_policy x (?s b))"
  have r: "view ?r = view self" "view (?s b) = view self" for b by simp_all
  have p: "view (with_policy x (?s b)) = view (with_policy x self)" for x b by (rule view_policy) simp
  have t: "view (?t x b i) = view (with_policy x self)" for x b i using p by (simp only: view_flags)
  have clean: "clean (?t x b i)" for x b i
    using assms view_eqD(7) [OF t [of i x b]] by (subst clean_status [of _ self]) (simp_all add: get_session_status_def)
  show ?thesis
    unfolding handle_spdm_key_exchange_def Let_def
    by (intro yields_with_session_header yields_parsed yields_prod yields_with_summary_hash yields_if yields_with_sm_version
        yields_certain yields_with_exchange exchange_outcome_leaf(3) exchange_outcome_leaf(1) [OF p] exchange_outcome_leaf(1) [OF t]
        exchange_outcome_leaf(2) [OF r(1)] exchange_outcome_leaf(2) [OF r(2)] exchange_outcome_leaf(2) [OF refl] exchange_outcome_err [OF p]
        exchange_outcome_open [OF t _ key_exchange_open_effect] clean)
      (simp add: negotiated_def)
qed

lemma psk_basis: "basis a = basis b \<Longrightarrow> psk_without_context a = psk_without_context b"
  by (simp add: basis_def psk_without_context_def)

definition psk_state :: "'h SpdmContext \<Rightarrow> SpdmSessionState" where
  "psk_state self = (if psk_without_context self then SpdmSessionEstablished else SpdmSessionHandshaking)"

lemma psk_exchange_establish_opens:
  assumes "inside sid xs B L SpdmSessionHandshaking s"
    and "\<And>s'. inside sid xs B L (psk_state s) s' \<Longrightarrow> opens sid xs B L G (k s')"
  shows "opens sid xs B L G (psk_exchange_establish S sid w s k)"
  unfolding psk_exchange_establish_def
proof (rule yields_if)
  assume psk: "psk_without_context s"
  show "opens sid xs B L G (with_session sid w s (\<lambda>t.
     attempt (calc_rsp_transcript_hash (svc_crypto S) t) s (\<lambda>_. crypto_fault w s) (\<lambda>th.
     case generate_data_secret (svc_crypto S) (ver_sel s) th (t\<lparr>th2 := th\<rparr>) of (res, t) \<Rightarrow>
     attempt res (put_session sid t s) (\<lambda>_. crypto_fault w (put_session sid t s)) (\<lambda>_.
     k (put_session sid (t\<lparr>session_state := SpdmSessionEstablished\<rparr>) s)))))"
  proof (rule opens_with_session [OF assms(1)], rule opens_attempt [OF assms(1)], rule yields_prod)
    fix t t' :: "'a SpdmSession" and th res
    assume "life t = (sid, SpdmSessionHandshaking)"
      and "generate_data_secret (svc_crypto S) (ver_sel s) th (t\<lparr>th2 := th\<rparr>) = (res, t')"
    then have t: "life t' = (sid, SpdmSessionHandshaking)"
      using life_generate(2) [of "svc_crypto S" "ver_sel s" th "t\<lparr>th2 := th\<rparr>"] by simp
    have "inside sid xs B L (psk_state s) (put_session sid (t'\<lparr>session_state := SpdmSessionEstablished\<rparr>) s)"
      using t psk by (intro inside_put [OF assms(1)]) (simp add: psk_state_def life_def)
    then show "opens sid xs B L G (attempt res (put_session sid t' s) (\<lambda>_. crypto_fault w (put_session sid t' s)) (\<lambda>_.
         k (put_session sid (t'\<lparr>session_state := SpdmSessionEstablished\<rparr>) s)))"
      by (intro opens_attempt [OF inside_put [OF assms(1) t]] assms(2))
  qed
qed (use assms in \<open>simp add: psk_state_def\<close>)

lemma psk_exchange_finishing_opens:
  assumes "inside sid xs B L st s" "\<And>s'. inside sid xs B L (psk_state s) s' \<Longrightarrow> G s'"
  shows "opens sid xs B L G (psk_exchange_finishing S sid opq hash_len w s)"
proof -
  have st: "psk_state s' = psk_state s" if "inside sid xs B L st' s'" for s' st'
    using psk_basis [of s' s] that assms(1) by (simp add: inside_def psk_state_def)
  have G: "opens sid xs B L G (with_session sid w s' (\<lambda>t. reply_ok w (put_session sid (take_sm_version opq (t\<lparr>heartbeat_period := hb\<rparr>)) s')))"
    if i: "inside sid xs B L (psk_state s) s'" for s' w hb
    by (intro opens_with_session [OF i] opens_leaf(4) assms(2) inside_put [OF i]) simp
  have E: "opens sid xs B L G (with_session sid w s' (\<lambda>t. k (put_session sid (t\<lparr>session_state := SpdmSessionHandshaking\<rparr>) s')))"
    if i: "inside sid xs B L st s'" and k: "\<And>s'. inside sid xs B L SpdmSessionHandshaking s' \<Longrightarrow> opens sid xs B L G (k s')" for s' w k
    by (intro opens_with_session [OF i] k inside_put [OF i]) (simp add: life_def)
  show ?thesis
    unfolding psk_exchange_finishing_def Let_def
    by (intro opens_with_handshake_secret [OF assms(1)] opens_with_response_hmac opens_patch E
        psk_exchange_establish_opens G) (simp_all add: st)
qed

lemma psk_exchange_in_session_opens:
  assumes "inside sid xs B L st s" "\<And>s'. inside sid xs B L (psk_state s) s' \<Longrightarrow> G s'"
  shows "opens sid xs B L G (psk_exchange_in_session S sid rsp_session_id req psk_context msh opq w s)"
proof -
  have st: "psk_state s' = psk_state s" if "inside sid xs B L st' s'" for s' st'
    using psk_basis [of s' s] that assms(1) by (simp add: inside_def psk_state_def)
  show ?thesis
    unfolding psk_exchange_in_session_def
    by (intro opens_certain opens_respond [OF assms(1)] yields_if opens_leaf(3) opens_append_k [OF assms(1)] opens_append_k
        psk_exchange_finishing_opens) (auto simp: st intro: assms(2))
qed

lemma psk_exchange_open_effect:
  assumes "clean self"
  shows "yields (exchange_post self (basis self) (last_session_id (runtime_info self)) (psk_state self))
     (psk_exchange_open S req pe msh opq psk_context w self)"
  unfolding psk_exchange_open_def Let_def
proof (intro yields_attempt yields_certain yields_present exchange_leaf; (simp add: view_def; fail)?)
  fix h and s s0 :: "'a SpdmSession"
  let ?sid = "join_session_id (pe_req_session_id pe) h"
  assume h: "get_next_half_session_id False self = Ok h" and s: "session_setup ?sid s = Ok s0"
  have fresh: "fresh_id self ?sid" using h by (simp add: fresh_id_def)
  have tab: "table_ok False self" using assms by (simp add: clean_def)
  let ?s = "upd_srt (\<lambda>r. r\<lparr>psk_hint := Some (pe_psk_hint pe), s_message_a := message_a (runtime_info self),
               rsp_cert_hash := None, req_cert_hash := None\<rparr>) (fresh_session S self True s0)"
  have "life ?s = (?sid, SpdmSessionNotStarted)" using life_setup [OF s] by simp
  note i = inside_open [OF tab fresh this]
  have st: "psk_state (put_session INVALID_SESSION_ID ?s self) = psk_state self"
    using psk_basis [of "put_session INVALID_SESSION_ID ?s self" self] by (simp add: psk_state_def)
  show "yields (exchange_post self (basis self) (last_session_id (runtime_info self)) (psk_state self))
     (teardown_on_error ?sid (psk_exchange_in_session S ?sid h req psk_context msh opq w (put_session INVALID_SESSION_ID ?s self)))"
    by (intro exchange_opens [OF assms fresh] psk_exchange_in_session_opens [OF i]) (auto simp only: st)
qed

lemma psk_exchange_effect:
  assumes "clean self"
  shows "exchange_outcome self (psk_state self) (handle_spdm_psk_exchange S bs w self)"
proof -
  let ?r = "reset_buffer_via_request_code SpdmRequestPskExchange None self"
  let ?s = "\<lambda>b. upd_rt (\<lambda>r. r\<lparr>need_measurement_summary_hash := b\<rparr>) ?r"
  have r: "view ?r = view self" "view (?s b) = view self" for b by simp_all
  have p: "view (?s b) = view (with_policy (termination_policy_set (negotiate_info self)) self)" for b
    using r by (simp only: view_policy_same)
  have clean: "clean (?s b)" for b
    using assms view_eqD(7) [OF r(2) [of b]] by (subst clean_status [of _ self])
  have st: "psk_state (?s b) = psk_state self" for b
    using view_eqD(2) [OF r(2) [of b]] by (simp add: psk_state_def psk_without_context_def)
  have o: "yields (exchange_post (?s b) (basis (?s b)) (last_session_id (runtime_info (?s b))) (psk_state self))
     (psk_exchange_open S req pe msh opq psk_context w (?s b))" for b req pe msh opq psk_context
    using psk_exchange_open_effect [OF clean [of b], of S req pe msh opq psk_context w] unfolding st .
  show ?thesis
    unfolding handle_spdm_psk_exchange_def Let_def
    by (intro yields_with_session_header yields_present yields_prod yields_with_summary_hash yields_with_sm_version
        yields_with_psk_context exchange_outcome_leaf(3) exchange_outcome_leaf(2) [OF r(1)] exchange_outcome_leaf(2) [OF r(2)]
        exchange_outcome_leaf(2) [OF refl] exchange_outcome_open [OF p _ o])
      (simp add: negotiated_def)
qed

end
