(* ===== verification/Machine.thy ===== *)
theory Machine
  imports Effects
begin

text \<open>
  The abstract responder: a connection state and the identifiers and states of the sessions. The
  concrete context is mapped to it by \<open>abs_of\<close>; \<open>resp_step\<close> has a rule for each transition that a
  message may cause, with what guards it, and \<open>resp_inv\<close> is its invariant. The lemmas on sending say
  how \<open>send_message\<close> and \<open>after_send\<close> move the abstract state, given the response code.
\<close>

subsection \<open>Sending\<close>

lemma life_wipe: "life t = l \<Longrightarrow> life (snd (r, wipe_on_overflow r' t)) \<in> {l, dead}"
  by (auto simp: wipe_on_overflow_def split: sum.splits fault.splits)

lemma life_secured:
  "life (snd (encode_spdm_secured_message C a b r s)) \<in> {life s, dead}"
  "life (snd (decode_spdm_secured_message C a b r s)) \<in> {life s, dead}"
  unfolding encode_spdm_secured_message_def decode_spdm_secured_message_def Let_def
  by (cases "session_state s"; simp only: SpdmSessionState.case prod.case split: if_split; intro conjI impI life_wipe; simp)+

text \<open>Nothing but the sequence numbers of the session changes, or the session is wiped.\<close>

definition kept :: "u32 option \<Rightarrow> 'h SpdmContext \<Rightarrow> 'h SpdmContext \<Rightarrow> bool" where
  "kept sid s s' \<longleftrightarrow> basis s' = basis s \<and> last_session_id (runtime_info s') = last_session_id (runtime_info s)
     \<and> (get_session_status s' = get_session_status s
        \<or> (\<exists>i. sid = Some i \<and> get_session_status s' = update_first (\<lambda>x. fst x = i) (\<lambda>_. dead) (get_session_status s)))"

lemma kept_refl [simp]: "kept sid s s"
  by (simp add: kept_def)

lemma kept_put:
  assumes "get_session_via_id i s = Some t" "life t' \<in> {life t, dead}"
  shows "kept (Some i) s (put_session i t' s)"
  using assms by (auto simp: kept_def status_put_same) (simp add: status_put)

lemma encode_secured_kept:
  assumes "encode_secured_message T C i m buf r a s = (res, s')"
  shows "kept (Some i) s s'"
proof (cases "tp_encap_app T m (replicate SENDER_BUFFER_SIZE 0) a")
  case (Inr p)
  obtain used app where p: "p = (used, app)" by fastforce
  show ?thesis
  proof (cases "get_session_via_id i s")
    case (Some t)
    let ?e = "encode_spdm_secured_message C (take used app) (replicate SENDER_BUFFER_SIZE 0) r t"
    have "s' = put_session i (snd ?e) s"
      using assms Inr p Some by (auto simp: encode_secured_message_def split: prod.splits)
    then show ?thesis by (simp only: kept_put [OF Some life_secured(1)])
  qed (use assms Inr p in \<open>auto simp: encode_secured_message_def\<close>)
qed (use assms in \<open>auto simp: encode_secured_message_def\<close>)

lemma limit_response_code: "answers c (Some m) \<Longrightarrow> answers c (Some (limit_response sid m a s))"
  by (auto simp: limit_response_def Let_def answers_error)

lemma after_send_error: "after_send sid (code_of SpdmResponseError) s = (Ok (), s)"
  by (simp add: after_send_def)

lemma send_cases:
  assumes "send_message S dev sid m a s = (res, sent, s')" "answers c (Some m)" "res \<noteq> panic"
  obtains s1 where "kept sid s s1" "s' = s1 \<or> (\<exists>r. after_send sid c s1 = (r, s'))"
proof -
  let ?m = "limit_response sid m a s"
  obtain e s1 where e: "(case sid of
      Some i \<Rightarrow> encode_secured_message (svc_transport S) (svc_crypto S) i ?m (replicate SENDER_BUFFER_SIZE 0) False a s
    | None \<Rightarrow> (tp_encap (svc_transport S) ?m (replicate SENDER_BUFFER_SIZE 0) False, s)) = (e, s1)"
    by fastforce
  then have k: "kept sid s s1" by (auto split: option.splits dest: encode_secured_kept)
  have "send_message S dev sid m a s = (case e of
      Inl x \<Rightarrow> (Inl x, None, s1)
    | Inr (used, buf) \<Rightarrow> (case dev (take used buf) of
        Inl x \<Rightarrow> (Inl x, None, s1)
      | Inr _ \<Rightarrow> if length ?m < 2 then (panic, Some (take used buf), s1)
               else case after_send sid (?m ! 1) s1 of (r, s2) \<Rightarrow> (r, Some (take used buf), s2)))"
    unfolding send_message_def Let_def e by (auto split: sum.splits)
  with assms(1,3) have "s' = s1 \<or> (\<exists>r. after_send sid (?m ! 1) s1 = (r, s')) \<and> 2 \<le> length ?m"
    by (auto split: sum.splits prod.splits if_splits)
  moreover have "?m ! 1 = c \<or> ?m ! 1 = code_of SpdmResponseError" if "2 \<le> length ?m"
    using limit_response_code [OF assms(2), of sid a s] that by (simp add: answers_def)
  ultimately show ?thesis using that [OF k] after_send_error [of sid s1] by auto
qed

subsection \<open>The abstract responder\<close>

type_synonym abs = "SpdmConnectionState \<times> (u32 \<times> SpdmSessionState) list"

definition abs_of :: "'h SpdmContext \<Rightarrow> abs" where
  "abs_of self = (connection_state (runtime_info self), get_session_status self)"

definition at_least :: "SpdmConnectionState \<Rightarrow> SpdmConnectionState \<Rightarrow> bool" where
  "at_least c d \<longleftrightarrow> SpdmConnectionState_get_u8 c \<le> SpdmConnectionState_get_u8 d"

definition ids_ok :: "u32 list \<Rightarrow> bool" where
  "ids_ok ids \<longleftrightarrow> length ids = MAX_SPDM_SESSION_COUNT \<and>
     (\<forall>k < length ids. ids ! k = INVALID_SESSION_ID \<or> half_session_id False (ids ! k) = INITIAL_SESSION_ID - of_nat k)"

inductive resp_step :: "(u32 \<Rightarrow> bool) \<Rightarrow> bool \<Rightarrow> abs \<Rightarrow> abs \<Rightarrow> bool" for V P where
  restart: "resp_step V P (c, xs) (SpdmConnectionNotStarted, map (\<lambda>_. dead) xs)"
| version: "resp_step V P (SpdmConnectionNotStarted, xs) (SpdmConnectionAfterVersion, xs)"
| capabilities: "resp_step V P (SpdmConnectionAfterVersion, xs) (SpdmConnectionAfterCapabilities, xs)"
| algorithms: "resp_step V P (SpdmConnectionAfterCapabilities, xs) (SpdmConnectionNegotiated, xs)"
| advance: "at_least SpdmConnectionNegotiated c \<Longrightarrow>
    c' \<in> {SpdmConnectionAfterDigest, SpdmConnectionAfterCertificate} \<and> \<not> at_least c' c \<or> c' = SpdmConnectionAuthenticated \<Longrightarrow>
    resp_step V P (c, xs) (c', xs)"
| open_session: "at_least SpdmConnectionNegotiated c \<Longrightarrow> sid \<noteq> INVALID_SESSION_ID \<Longrightarrow> sid \<notin> fst ` set xs \<Longrightarrow>
    ids_ok (map fst (opened sid st xs)) \<Longrightarrow>
    st = SpdmSessionHandshaking \<or> P \<and> st = SpdmSessionEstablished \<Longrightarrow> resp_step V P (c, xs) (c, opened sid st xs)"
| establish: "V i \<Longrightarrow> (i, SpdmSessionHandshaking) \<in> set xs \<Longrightarrow>
    resp_step V P (c, xs) (c, update_first (\<lambda>x. fst x = i) (\<lambda>_. (i, SpdmSessionEstablished)) xs)"
| close: "resp_step V P (c, xs) (c, update_first (\<lambda>x. fst x = i) (\<lambda>_. dead) xs)"

abbreviation resp_steps :: "(u32 \<Rightarrow> bool) \<Rightarrow> bool \<Rightarrow> abs \<Rightarrow> abs \<Rightarrow> bool" where
  "resp_steps V P \<equiv> (resp_step V P)\<^sup>*\<^sup>*"

lemma abs_view: "view a = view b \<Longrightarrow> abs_of a = abs_of b"
  by (simp add: abs_of_def view_def basis_def)

lemma kept_steps: "kept sid s s' \<Longrightarrow> resp_steps V P (abs_of s) (abs_of s')"
  unfolding kept_def abs_of_def basis_def using resp_step.close [of V P] by (auto 0 4)

lemma abs_reset: "abs_of (reset_context s) = (SpdmConnectionNotStarted, map (\<lambda>_. dead) (get_session_status s))"
  unfolding abs_of_def status_reset
  by (simp add: reset_context_def reset_peer_info_def reset_negotiate_info_def reset_runtime_info_def SpdmRuntimeInfo_default_def Let_def)


lemma table_ok_ids: "table_ok False self \<longleftrightarrow> ids_ok (map fst (get_session_status self))"
proof -
  have "slots_ok False j ss \<longleftrightarrow> (\<forall>k < length ss. session_id (ss ! k) = 0
      \<or> half_session_id False (session_id (ss ! k)) = INITIAL_SESSION_ID - of_nat (j + k))" for j and ss :: "'a SpdmSession list"
  proof (induction ss arbitrary: j)
    case (Cons s ss)
    then show ?case by (simp add: All_less_Suc2)
  qed simp
  from this [of 0] show ?thesis
    by (auto simp: table_ok_def ids_ok_def get_session_status_def comp_def)
qed

definition resp_inv :: "abs \<Rightarrow> bool" where
  "resp_inv a \<longleftrightarrow> (case a of (c, xs) \<Rightarrow>
     ids_ok (map fst xs) \<and> (\<forall>x \<in> set xs. if fst x = INVALID_SESSION_ID then snd x = SpdmSessionNotStarted
        else at_least SpdmConnectionNegotiated c))"

lemma clean_inv: "resp_inv (abs_of self) \<Longrightarrow> clean self"
  by (auto simp: resp_inv_def clean_def table_ok_ids abs_of_def)

lemma update_first_cases: "x \<in> set (update_first P (\<lambda>_. y) xs) \<Longrightarrow> x \<in> set xs \<or> x = y"
  by (induction xs) (auto split: if_splits)

lemma ids_ok_update:
  assumes "ids_ok (map fst xs)" "fst y = i \<or> fst y = INVALID_SESSION_ID"
  shows "ids_ok (map fst (update_first (\<lambda>x. fst x = i) (\<lambda>_. y) xs))"
proof -
  have "length (update_first (\<lambda>x. fst x = i) (\<lambda>_. y) xs) = length xs" by simp
  moreover have "k < length xs \<Longrightarrow> fst (update_first (\<lambda>x. fst x = i) (\<lambda>_. y) xs ! k) \<in> {fst (xs ! k), INVALID_SESSION_ID}" for k
    using assms(2) by (induction xs arbitrary: k) (auto simp: nth_Cons split: nat.splits)
  ultimately show ?thesis using assms(1) unfolding ids_ok_def by fastforce
qed

lemma resp_step_inv: "resp_step V P a b \<Longrightarrow> resp_inv a \<Longrightarrow> resp_inv b"
proof (induction rule: resp_step.induct)
  case (restart c xs)
  then show ?case by (auto simp: resp_inv_def ids_ok_def)
next
  case (advance c c' xs)
  then have "at_least SpdmConnectionNegotiated c'" by (auto simp: at_least_def)
  then show ?case using advance.prems by (auto simp: resp_inv_def)
next
  case (open_session c sid xs st)
  then show ?case by (fastforce simp: resp_inv_def opened_def dest: update_first_cases)
next
  case (establish i xs c)
  then have "i \<noteq> INVALID_SESSION_ID" "at_least SpdmConnectionNegotiated c" by (auto simp: resp_inv_def split: if_splits)
  then show ?case using establish.prems
    by (auto simp: resp_inv_def ids_ok_update dest!: update_first_cases)
next
  case (close c xs i)
  then show ?case by (auto simp: resp_inv_def ids_ok_update dest!: update_first_cases)
qed (auto simp: resp_inv_def at_least_def word_le_nat_alt split: if_splits)

lemma resp_steps_inv: "resp_steps V P a b \<Longrightarrow> resp_inv a \<Longrightarrow> resp_inv b"
  by (induction rule: rtranclp_induct) (auto intro: resp_step_inv)

definition control_codes :: "u8 set" where
  "control_codes = code_of ` {SpdmResponseVersion, SpdmResponseCapabilities, SpdmResponseAlgorithms, SpdmResponseDigests,
     SpdmResponseCertificate, SpdmResponseChallengeAuth, SpdmResponseFinishRsp, SpdmResponseEndSessionAck,
     SpdmResponsePskFinishRsp}"

lemma after_send_harmless: "c \<notin> control_codes \<Longrightarrow> after_send sid c s = (Ok (), s)"
  by (simp add: after_send_def control_codes_def Let_def)

definition answered where
  "answered S dev sid a rp s' \<longleftrightarrow> (\<exists>out sent. answer S dev sid a rp = (out, sent, s') \<and> out \<noteq> Crashed)"

lemma outcome_crashed: "outcome_of (Inl e) \<noteq> Crashed \<Longrightarrow> (Inl e :: unit SpdmResult) \<noteq> panic"
  by auto

lemma answer_cases:
  assumes "answered S dev sid a (res, out, s) s'" "answers c out"
  obtains s1 where "res \<noteq> panic" "kept sid s s1" "s' = s1 \<or> (\<exists>r. after_send sid c s1 = (r, s'))"
proof -
  obtain o1 sent where ans: "answer S dev sid a (res, out, s) = (o1, sent, s')" and o1: "o1 \<noteq> Crashed"
    using assms(1) by (auto simp: answered_def)
  have res: "res \<noteq> panic" using ans o1 by (auto simp: answer_def split: option.splits)
  then have ans': "answer S dev sid a (res, out, s) = (case out of None \<Rightarrow> (outcome_of res, None, s)
     | Some m \<Rightarrow> (case send_message S dev sid m a s of
         (Inl e, sent, s) \<Rightarrow> (outcome_of (Inl e), sent, s) | (Inr _, sent, s) \<Rightarrow> (outcome_of res, sent, s)))"
    by (cases res; cases out) (auto simp: answer_def split: sum.splits fault.splits prod.splits)
  show thesis
  proof (cases out)
    case None
    then show thesis using ans ans' that [OF res kept_refl] by simp
  next
    case (Some m)
    obtain r sent' s2 where snd: "send_message S dev sid m a s = (r, sent', s2)" by (cases "send_message S dev sid m a s") auto
    then have s2: "s2 = s'" using ans ans' Some by (auto split: sum.splits)
    have "r \<noteq> panic" using ans ans' Some snd o1 by auto
    from send_cases [OF snd _ this] assms(2) Some obtain s1
      where "kept sid s s1" "s2 = s1 \<or> (\<exists>r. after_send sid c s1 = (r, s2))" by blast
    then show thesis using that [OF res] s2 by blast
  qed
qed

abbreviation refines :: "(u32 \<Rightarrow> bool) \<Rightarrow> bool \<Rightarrow> 'h SpdmContext \<Rightarrow> 'h SpdmContext \<Rightarrow> bool" where
  "refines V P s s' \<equiv> resp_steps V P (abs_of s) (abs_of s')"

lemma harmless_refines:
  assumes "quiet self rp" "replies c rp" "c \<notin> control_codes" "answered S dev sid a rp s'"
  shows "refines V P self s'"
proof -
  obtain res out s where rp: "rp = (res, out, s)" by (cases rp)
  then have "answered S dev sid a (res, out, s) s'" "answers c out" using assms by auto
  from answer_cases [OF this] obtain s1
    where "kept sid s s1" "s' = s1 \<or> (\<exists>r. after_send sid c s1 = (r, s'))" by blast
  then have "kept sid s s'" using after_send_harmless [OF assms(3), of sid s1] by auto
  then show ?thesis using kept_steps [of sid s s' V P] abs_view [of s self] assms(1) rp by simp
qed

lemma after_send_codes:
  "after_send sid (code_of SpdmResponseVersion) s = (Ok (), set_connection_state SpdmConnectionAfterVersion s)"
  "after_send sid (code_of SpdmResponseCapabilities) s = (Ok (), set_connection_state SpdmConnectionAfterCapabilities s)"
  "after_send sid (code_of SpdmResponseAlgorithms) s = (Ok (), set_connection_state SpdmConnectionNegotiated s)"
  "after_send sid (code_of SpdmResponseDigests) s = (Ok (), raise_connection_state SpdmConnectionAfterDigest s)"
  "after_send sid (code_of SpdmResponseCertificate) s = (Ok (), raise_connection_state SpdmConnectionAfterCertificate s)"
  "after_send sid (code_of SpdmResponseChallengeAuth) s = (Ok (), set_connection_state SpdmConnectionAuthenticated s)"
  by (simp_all add: after_send_def)

lemma abs_connection:
  "abs_of (set_connection_state c s) = (c, get_session_status s)"
  "abs_of (raise_connection_state c s) =
     (if at_least c (connection_state (runtime_info s)) then abs_of s else (c, get_session_status s))"
  by (auto simp: abs_of_def raise_connection_state_def at_least_def get_session_status_def)

lemma advance_steps:
  assumes "at_least SpdmConnectionNegotiated (connection_state (runtime_info s))"
  shows "refines V P s (set_connection_state SpdmConnectionAuthenticated s)"
    "c \<in> {SpdmConnectionAfterDigest, SpdmConnectionAfterCertificate} \<Longrightarrow> refines V P s (raise_connection_state c s)"
  unfolding abs_connection using assms resp_step.advance [of "connection_state (runtime_info s)" _ V P "get_session_status s"]
  by (auto simp: abs_of_def)

text \<open>How an answer with a given code ends, when the handler left the view alone.\<close>

lemma answered_view:
  assumes "quiet self rp" "replies c rp" "answered S dev sid a rp s'"
  obtains s1 where "refines V P self s1" "basis s1 = basis self" "s' = s1 \<or> (\<exists>r. after_send sid c s1 = (r, s'))"
proof -
  obtain res out s where rp: "rp = (res, out, s)" by (cases rp)
  then have "answered S dev sid a (res, out, s) s'" "answers c out" using assms by auto
  from answer_cases [OF this] obtain s1
    where s1: "kept sid s s1" "s' = s1 \<or> (\<exists>r. after_send sid c s1 = (r, s'))" by blast
  have "view s = view self" using assms(1) rp by simp
  then have "refines V P self s1" "basis s1 = basis self"
    using kept_steps [OF s1(1), of V P] abs_view [of s self] s1(1) by (simp_all add: kept_def view_def)
  then show thesis using that s1(2) by blast
qed

lemma info_refines:
  assumes "quiet self rp" "replies c rp" "negotiated self" "answered S dev sid a rp s'"
    and "c \<in> code_of ` {SpdmResponseDigests, SpdmResponseCertificate, SpdmResponseChallengeAuth}"
  shows "refines V P self s'"
proof -
  obtain s1 where s1: "refines V P self s1" "basis s1 = basis self" "s' = s1 \<or> (\<exists>r. after_send sid c s1 = (r, s'))"
    using answered_view [OF assms(1,2,4)] by metis
  have "at_least SpdmConnectionNegotiated (connection_state (runtime_info s1))"
    using s1(2) assms(3) by (simp add: basis_def negotiated_def at_least_def)
  note adv = advance_steps [OF this, where V = V and P = P]
  have "refines V P s1 s'"
    using s1(3) assms(5) adv(1) adv(2) [of SpdmConnectionAfterDigest] adv(2) [of SpdmConnectionAfterCertificate]
    by (elim disjE exE imageE insertE emptyE) (simp_all only: after_send_codes prod.inject rtranclp.rtrancl_refl, auto)
  with s1(1) show ?thesis by simp
qed

end
