(* ===== verification/Responder.thy ===== *)
theory Responder
  imports Machine
begin

text \<open>
  The responder refines the abstract machine: a refinement lemma for each handler, for the three
  dispatchers, for a protected packet and for \<open>process_message\<close>.
\<close>

subsection \<open>The connection\<close>

abbreviation error_code :: u8 where "error_code \<equiv> code_of SpdmResponseError"

lemma error_harmless: "error_code \<notin> control_codes"
  by (simp add: control_codes_def)

text \<open>The answer is an ERROR, or the code takes effect on the context that the handler left.\<close>

lemma answered_split:
  assumes "answered S dev sid a (res, out, s) s'" "answers c out"
  obtains "res \<noteq> panic" "kept sid s s'" | s1 r where "res \<noteq> panic" "kept sid s s1" "\<not> answers error_code out" "after_send sid c s1 = (r, s')"
proof (cases "answers error_code out")
  case True
  from answer_cases [OF assms(1) True] obtain s1
    where "res \<noteq> panic" "kept sid s s1" "s' = s1 \<or> (\<exists>r. after_send sid error_code s1 = (r, s'))" by blast
  then have "kept sid s s'" by (auto simp only: after_send_error prod.inject)
  then show ?thesis using that(1) \<open>res \<noteq> panic\<close> by blast
next
  case False
  from answer_cases [OF assms] obtain s1
    where "res \<noteq> panic" "kept sid s s1" "s' = s1 \<or> (\<exists>r. after_send sid c s1 = (r, s'))" by blast
  then show ?thesis using that False by blast
qed

lemma version_error:
  "yields (\<lambda>_ out s. view s = view self \<and> answers error_code out \<or> view s = view (reset_context self))
     (handle_spdm_version bs w self)"
proof -
  have "view (reset_context (reset_buffer_via_request_code c sid self)) = view (reset_context self)" for c sid
    by (rule view_reset_context) simp
  then show ?thesis
    unfolding handle_spdm_version_def Let_def
    by (intro yields_intros) (auto dest!: view_append simp: refuse_def abort_def reply_ok_def answers_error)
qed

lemma version_refines:
  assumes "answered S dev None a (handle_spdm_version bs (Writer_init buf) self) s'"
  shows "refines V P self s'"
proof -
  obtain res out s where rp: "handle_spdm_version bs (Writer_init buf) self = (res, out, s)"
    by (cases "handle_spdm_version bs (Writer_init buf) self")
  have s: "view s = view self \<and> answers error_code out \<or> view s = view (reset_context self)" and c: "answers (code_of SpdmResponseVersion) out"
    using version_error [of self bs "Writer_init buf"] version_replies [of bs buf self] rp by simp_all
  have step: "refines V P self s"
    using s abs_view [of s self] abs_view [of s "reset_context self"] resp_step.restart [of V P] unfolding abs_reset
    by (auto simp: abs_of_def [of self])
  from answered_split [OF assms [unfolded rp] c] show ?thesis
  proof cases
    case 1
    then show ?thesis using step kept_steps [of None s s' V P] by simp
  next
    case (2 s1 r)
    then have "view s = view (reset_context self)" using s by simp
    then have "connection_state (runtime_info s1) = SpdmConnectionNotStarted"
      using 2(2) abs_view [of s "reset_context self"] unfolding abs_reset by (simp add: abs_of_def kept_def basis_def)
    moreover have "s' = set_connection_state SpdmConnectionAfterVersion s1" using 2(4) unfolding after_send_codes by simp
    ultimately have "refines V P s1 s'"
      using resp_step.version [of V P "get_session_status s1"] by (auto simp: abs_connection) (auto simp: abs_of_def)
    then show ?thesis using step kept_steps [OF 2(2), of V P] by simp
  qed
qed

text \<open>A reply that is an ERROR whenever the connection is not in the state \<open>c\<close> moves it from \<open>c\<close> to \<open>c'\<close>.\<close>

lemma move_refines:
  fixes self :: "'h SpdmContext"
  assumes "yields (\<lambda>_ _. renegotiated self) rp" "replies (code_of code) rp"
    and "connection_state (runtime_info self) \<noteq> c \<Longrightarrow> replies error_code rp"
    and "\<And>s :: 'h SpdmContext. after_send None (code_of code) s = (Ok (), set_connection_state c' s)"
    and "\<And>xs. resp_step V P (c, xs) (c', xs)" "answered S dev None a rp s'"
  shows "refines V P self s'"
proof -
  obtain res out s where rp: "rp = (res, out, s)" by (cases rp)
  have s: "abs_of s = abs_of self" using assms(1) rp by (simp add: renegotiated_def abs_of_def)
  have c: "answers (code_of code) out" using assms(2) rp by simp
  from answered_split [OF assms(6) [unfolded rp] c] show ?thesis
  proof cases
    case 1
    then show ?thesis using s kept_steps [of None s s' V P] by simp
  next
    case (2 s1 r)
    then have "connection_state (runtime_info self) = c" using assms(3) rp by auto
    then have "connection_state (runtime_info s1) = c" using 2(2) s by (simp add: kept_def basis_def abs_of_def)
    moreover have "s' = set_connection_state c' s1" using 2(4) unfolding assms(4) by simp
    ultimately have "refines V P s1 s'"
      using assms(5) [of "get_session_status s1"] by (auto simp: abs_connection) (auto simp: abs_of_def)
    then show ?thesis using s kept_steps [OF 2(2), of V P] by simp
  qed
qed

lemma capability_refines:
  "answered S dev None a (handle_spdm_capability bs (Writer_init buf) self) s' \<Longrightarrow> refines V P self s'"
  by (rule move_refines [OF capability_effect capability_replies _ after_send_codes(2) resp_step.capabilities])
    (auto simp: capability_refused)

lemma algorithm_refines:
  "answered S dev None a (handle_spdm_algorithm S' bs (Writer_init buf) self) s' \<Longrightarrow> refines V P self s'"
  by (rule move_refines [OF algorithm_effect algorithm_replies _ after_send_codes(3) resp_step.algorithms])
    (auto simp: algorithm_refused)

text \<open>An error that a handler returns is one it has answered with ERROR.\<close>

abbreviation loud :: "'h reply \<Rightarrow> bool" where
  "loud \<equiv> yields (\<lambda>res out _. (\<exists>e. res = Err e) \<longrightarrow> answers error_code out)"

lemma loud_leaf: "loud (refuse c e w s)" "loud (abort s)" "loud (reply_ok w s)"
  by (simp_all add: refuse_def abort_def reply_ok_def answers_error)

lemma loud_teardown: "loud rp \<Longrightarrow> loud (teardown_on_error sid rp)"
  by (induction sid rp rule: teardown_on_error.induct) auto

lemma finish_loud: "loud (handle_spdm_finish S sid bs w self)"
  unfolding handle_spdm_finish_def write_spdm_finish_response_def with_verified_hmac_def with_finish_signature_def
    finish_response_def finish_data_secret_def Let_def
  by (intro loud_teardown yields_intros loud_leaf)

lemma psk_finish_loud: "loud (handle_spdm_psk_finish S sid bs w self)"
  unfolding handle_spdm_psk_finish_def write_spdm_psk_finish_response_def with_verified_hmac_def finish_data_secret_def Let_def
  by (intro loud_teardown yields_intros loud_leaf)

text \<open>The closing of a session, and its establishment.\<close>

lemma after_send_close:
  "after_send None (code_of SpdmResponseEndSessionAck) s = (panic, s)"
  "after_send (Some i) (code_of SpdmResponseEndSessionAck) s = (r, s') \<Longrightarrow> kept (Some i) s s'"
proof -
  assume "after_send (Some i) (code_of SpdmResponseEndSessionAck) s = (r, s')"
  then have "s' = s \<or> s' = teardown_session i s"
    by (auto simp: after_send_def Let_def teardown_session_def split: option.splits)
  then show "kept (Some i) s s'" by (auto simp: kept_def teardown_fields)
qed (simp add: after_send_def)

lemma end_refines:
  assumes "quiet self rp" "replies (code_of SpdmResponseEndSessionAck) rp" "answered S dev sid a rp s'"
  shows "refines V P self s'"
proof -
  obtain s1 where s1: "refines V P self s1" "s' = s1 \<or> (\<exists>r. after_send sid (code_of SpdmResponseEndSessionAck) s1 = (r, s'))"
    using answered_view [OF assms] by metis
  then have "refines V P s1 s'"
    by (cases sid) (auto simp only: after_send_close(1) prod.inject rtranclp.rtrancl_refl dest!: after_send_close(2) intro: kept_steps)
  with s1(1) show ?thesis by simp
qed

lemma ids_ok_unique:
  assumes "ids_ok (map fst xs)" "i \<noteq> INVALID_SESSION_ID"
  shows "i \<notin> fst ` set (update_first (\<lambda>x. fst x = i) (\<lambda>_. dead) xs)"
proof -
  have "k = l" if "k < length xs" "l < length xs" "fst (xs ! k) = i" "fst (xs ! l) = i" for k l
  proof -
    have "half_session_id False i = INITIAL_SESSION_ID - of_nat n" if "n < length xs" "fst (xs ! n) = i" for n
      using assms that by (auto simp: ids_ok_def)
    from this [OF that(1,3)] this [OF that(2,4)] have "(of_nat k :: u16) = of_nat l" by simp
    then have "unat (of_nat k :: u16) = unat (of_nat l :: u16)" by simp
    moreover have "k < 2 ^ 16" "l < 2 ^ 16" using assms(1) that by (auto simp: ids_ok_def)
    ultimately show "k = l" by (simp add: unat_of_nat)
  qed
  with assms(2) show ?thesis
  proof (induction xs)
    case (Cons x xs)
    show ?case
    proof (cases "fst x = i")
      case True
      then have "i \<noteq> fst (xs ! k)" if "k < length xs" for k using Cons.prems(2) [of 0 "Suc k"] that by auto
      then show ?thesis using True Cons.prems(1) by (fastforce simp: in_set_conv_nth)
    next
      case False
      have "k = l" if "k < length xs" "l < length xs" "fst (xs ! k) = i" "fst (xs ! l) = i" for k l
        using Cons.prems(2) [of "Suc k" "Suc l"] that by simp
      then show ?thesis using False Cons.IH Cons.prems(1) by auto
    qed
  qed simp
qed

lemma establish_abs:
  assumes "establish_session i s = (r, s')"
  shows "s' = s \<or> (i \<in> fst ` set (get_session_status s) \<and> last_session_id (runtime_info s') = last_session_id (runtime_info s)
    \<and> abs_of s' = (connection_state (runtime_info s), update_first (\<lambda>x. fst x = i) (\<lambda>_. (i, SpdmSessionEstablished)) (get_session_status s)))"
proof (cases "get_session_via_id i s")
  case (Some t)
  then have t: "session_id t = i" by (auto simp: get_session_via_id_def find_Some_iff)
  have "i \<in> fst ` set (get_session_status s)" using Some by (force simp: get_session_via_id_def find_Some_iff get_session_status_def)
  then show ?thesis using assms Some t by (auto simp: establish_session_def abs_of_def status_put)
qed (use assms in \<open>simp add: establish_session_def\<close>)

lemma after_send_finish:
  assumes "after_send sid c s = (r, s')" "c \<in> code_of ` {SpdmResponseFinishRsp, SpdmResponsePskFinishRsp}"
    and "sid = Some i \<or> sid = None \<and> last_session_id (runtime_info s) = Some i"
  shows "abs_of s' = abs_of s \<or> (i \<in> fst ` set (get_session_status s)
    \<and> abs_of s' = (connection_state (runtime_info s), update_first (\<lambda>x. fst x = i) (\<lambda>_. (i, SpdmSessionEstablished)) (get_session_status s)))"
proof -
  obtain r0 s0 where e: "establish_session i s = (r0, s0)" by fastforce
  have "s' = s \<or> s' = s0 \<or> s' = upd_rt (\<lambda>r. r\<lparr>last_session_id := None\<rparr>) s0"
    using assms(1,2,3) e by (auto simp: after_send_def Let_def split: option.splits sum.splits)
  moreover have "abs_of (upd_rt (\<lambda>r. r\<lparr>last_session_id := None\<rparr>) s0) = abs_of s0"
    by (simp add: abs_of_def get_session_status_def)
  ultimately show ?thesis using establish_abs [OF e] by auto
qed

text \<open>The session under handshake is established by the answer to a finish request that was verified.\<close>

lemma finish_refines:
  assumes "finish_outcome self i Q rp" "loud rp" "replies c rp" "answered S dev sid a rp s'"
    and "c \<in> code_of ` {SpdmResponseFinishRsp, SpdmResponsePskFinishRsp}"
    and "sid = Some i \<or> sid = None \<and> last_session_id (runtime_info self) = Some i"
    and "get_session_via_id i self = Some t" "session_state t = SpdmSessionHandshaking"
    and "resp_inv (abs_of self)" "Q \<Longrightarrow> V i"
  shows "refines V P self s'"
proof -
  obtain res out s where rp: "rp = (res, out, s)" by (cases rp)
  let ?xs = "get_session_status self"
  have out: "if \<exists>e. res = Err e then abs_of s = (connection_state (runtime_info self), update_first (\<lambda>x. fst x = i) (\<lambda>_. dead) ?xs)
     else view s = view self \<and> (res = Ok () \<longrightarrow> Q)"
    using assms(1) by (auto simp: rp finish_outcome_def abs_of_def view_def basis_def split: if_splits)
  have step: "refines V P self s"
    using out resp_step.close [of V P "connection_state (runtime_info self)" ?xs i] abs_view [of s self]
    by (auto simp: abs_of_def [of self] split: if_splits)
  have c: "answers c out" using assms(3) rp by simp
  from answered_split [OF assms(4) [unfolded rp] c] show ?thesis
  proof cases
    case 1
    then show ?thesis using step kept_steps [of sid s s' V P] by simp
  next
    case (2 s1 r)
    then have "\<nexists>e. res = Err e" using assms(2) rp by auto
    moreover from this have "res = Ok ()" using 2(1) by (cases res; cases "projl res") auto
    ultimately have s: "view s = view self" and Q: "Q" using out by simp_all
    have find: "List.find (\<lambda>x. fst x = i) ?xs = Some (i, SpdmSessionHandshaking)"
      using assms(7,8) by (auto simp: status_find life_def get_session_via_id_def find_Some_iff)
    then have h: "(i, SpdmSessionHandshaking) \<in> set ?xs" by (auto simp: find_Some_iff)
    have i: "i \<noteq> INVALID_SESSION_ID" "ids_ok (map fst ?xs)" using assms(9) h by (auto simp: resp_inv_def abs_of_def split: if_splits)
    have "sid = Some i \<or> sid = None \<and> last_session_id (runtime_info s1) = Some i"
      using assms(6) 2(2) s by (auto simp: kept_def view_def)
    from after_send_finish [OF 2(4) assms(5) this] have "abs_of s' = abs_of s1 \<or> (i \<in> fst ` set (get_session_status s1)
      \<and> abs_of s' = (connection_state (runtime_info s1), update_first (\<lambda>x. fst x = i) (\<lambda>_. (i, SpdmSessionEstablished)) (get_session_status s1)))" .
    then have "refines V P s1 s'"
    proof
      assume e: "i \<in> fst ` set (get_session_status s1)
        \<and> abs_of s' = (connection_state (runtime_info s1), update_first (\<lambda>x. fst x = i) (\<lambda>_. (i, SpdmSessionEstablished)) (get_session_status s1))"
      then have "get_session_status s1 = ?xs"
        using 2(2) s assms(6) ids_ok_unique [OF i(2,1)] by (auto simp: kept_def view_def)
      then show ?thesis
        using e h assms(10) [OF Q] resp_step.establish [of V i ?xs P "connection_state (runtime_info s1)"] by (auto simp: abs_of_def [of s1])
    qed simp
    then show ?thesis using step kept_steps [OF 2(2), of V P] by simp
  qed
qed

lemma basis_connection: "basis s = basis (with_policy b self) \<Longrightarrow> connection_state (runtime_info s) = connection_state (runtime_info self)"
  by (simp add: basis_def)

lemma opened_ids:
  assumes "table_ok False self" "fresh_id self sid"
  shows "ids_ok (map fst (opened sid st (get_session_status self)))"
proof -
  have "table_ok False (put_session INVALID_SESSION_ID ((SpdmSession_new :: 'a SpdmSession)\<lparr>session_id := sid, session_state := st\<rparr>) self)"
    using assms by (intro table_ok_open(1)) (auto simp: fresh_id_def)
  then show ?thesis by (simp add: table_ok_ids status_put opened_def life_def)
qed

text \<open>The answer to an exchange opens a session under a new identifier, or leaves the table as it was.\<close>

lemma exchange_refines:
  assumes "exchange_outcome self st rp" "replies c rp" "c \<notin> control_codes" "answered S dev sid a rp s'"
    and "st = SpdmSessionHandshaking \<or> P \<and> st = SpdmSessionEstablished" "resp_inv (abs_of self)"
  shows "refines V P self s'"
proof -
  obtain res out s where rp: "rp = (res, out, s)" by (cases rp)
  have c: "answers c out" using assms(2) rp by simp
  have ok: "table_ok False self" using clean_inv [OF assms(6)] by (simp add: clean_def)
  obtain s1 where s1: "res \<noteq> panic" "kept sid s s1" "s' = s1 \<or> (\<exists>r. after_send sid c s1 = (r, s'))"
    using answer_cases [OF assms(4) [unfolded rp] c] .
  then have "s' = s1" using after_send_harmless [OF assms(3), of sid s1] by auto
  have post: "outcome_post self st res out s" using assms(1) rp by simp
  then have conn: "connection_state (runtime_info s) = connection_state (runtime_info self)"
    using s1(1) basis_connection [of s] by (auto simp: outcome_post_def exchange_post_def)
  have "refines V P self s"
  proof (cases "res = Ok ()")
    case True
    then obtain i where i: "fresh_id self i" "get_session_status s = opened i st (get_session_status self)" and n: "negotiated self"
      using post by (auto simp: outcome_post_def exchange_post_def)
    have "resp_step V P (connection_state (runtime_info self), get_session_status self)
        (connection_state (runtime_info self), opened i st (get_session_status self))"
      using n fresh_id_new [OF ok i(1)] opened_ids [OF ok i(1)] assms(5)
      by (intro resp_step.open_session) (auto simp: negotiated_def at_least_def)
    then show ?thesis using conn i(2) by (auto simp: abs_of_def)
  next
    case False
    then show ?thesis using post s1(1) conn by (auto simp: outcome_post_def exchange_post_def abs_of_def)
  qed
  then show ?thesis using kept_steps [OF s1(2), of V P] \<open>s' = s1\<close> by simp
qed

text \<open>
  What the responder's transitions rest on of the vendor's handler and of the application: they leave
  the connection and the sessions alone, and their messages do not carry the code of a response that
  \<open>send_message\<close> takes for a transition.
\<close>

definition vendor_ok :: "'h Services \<Rightarrow> bool" where
  "vendor_ok S \<longleftrightarrow> (\<forall>h sid bs out self. svc_vendor_defined_request_handler_ex S = Some h \<longrightarrow>
     quiet self (h sid bs out self) \<and> (\<exists>c. c \<notin> control_codes \<and> replies c (h sid bs out self)))"

definition app_ok :: "'h Services \<Rightarrow> bool" where
  "app_ok S \<longleftrightarrow> (\<forall>sid bs handle w self. quiet self (svc_app_message S sid bs handle w self)
     \<and> (\<exists>c. c \<notin> control_codes \<and> replies c (svc_app_message S sid bs handle w self)))"

lemma vendor_refines:
  assumes "vendor_ok S" "answered S dev sid' a (handle_spdm_vendor_defined_request S sid bs (Writer_init buf) self) s'"
  shows "refines V P self s'"
proof (cases "svc_vendor_defined_request_handler_ex S")
  case None
  then show ?thesis using assms(2)
    by (intro harmless_refines [OF vendor_write_quiet vendor_write_replies])
      (auto simp: handle_spdm_vendor_defined_request_def control_codes_def)
next
  case (Some h)
  with assms(1) obtain c where "quiet self (h sid bs (Writer_left_slice (Writer_init buf)) self)" "c \<notin> control_codes"
    "replies c (h sid bs (Writer_left_slice (Writer_init buf)) self)" unfolding vendor_ok_def by blast
  with Some assms(2) show ?thesis
    by (intro harmless_refines [where c = c]) (auto simp: handle_spdm_vendor_defined_request_def)
qed

lemma error_refines: "answered S dev sid a (write_error_response e bs w self) s' \<Longrightarrow> refines V P self s'"
  by (rule harmless_refines [OF error_quiet error_replies error_harmless])

lemma silent_refines: "answered S dev sid a (Err e, None, self) s' \<Longrightarrow> refines V P self s'"
  by (rule harmless_refines [OF _ _ error_harmless]) (simp_all add: answers_def)

text \<open>A finish request for the session, whose verification data the responder has checked.\<close>

definition finish_verified :: "'h Services \<Rightarrow> bytes \<Rightarrow> 'h SpdmContext \<Rightarrow> u32 \<Rightarrow> bool" where
  "finish_verified S bs self sid \<longleftrightarrow> finish_checked S sid bs self \<or> psk_finish_checked S sid bs self"

lemma measurement_refines:
  "answered S dev sid' a (handle_spdm_measurement S sid bs (Writer_init buf) self) s' \<Longrightarrow> refines V P self s'"
  by (rule harmless_refines [OF measurement_quiet measurement_replies]) (simp add: control_codes_def)

lemma key_exchange_refines:
  assumes "answered S dev sid' a (handle_spdm_key_exchange S bs (Writer_init buf) self) s'" "resp_inv (abs_of self)"
  shows "refines V P self s'"
  by (rule exchange_refines [OF key_exchange_effect [OF clean_inv [OF assms(2)]] key_exchange_replies _ assms(1) _ assms(2)])
    (simp_all add: control_codes_def)

lemma psk_exchange_refines:
  assumes "answered S dev sid' a (handle_spdm_psk_exchange S bs (Writer_init buf) self) s'" "resp_inv (abs_of self)"
  shows "refines V (psk_without_context self) self s'"
  by (rule exchange_refines [OF psk_exchange_effect [OF clean_inv [OF assms(2)]] psk_exchange_replies _ assms(1) _ assms(2)])
    (simp_all add: control_codes_def psk_state_def)

lemma unexpected_refines: "answered S dev sid a (refuse c e w self) s' \<Longrightarrow> refines V P self s'"
  by (rule harmless_refines [OF _ _ error_harmless]) (simp_all add: refuse_def answers_error)

lemma guarded_refines:
  assumes "rp = with_negotiated_header bs w self k"
    and "quiet self rp" "replies c rp" "c \<in> code_of ` {SpdmResponseDigests, SpdmResponseCertificate, SpdmResponseChallengeAuth}"
    and "answered S dev sid a rp s'"
  shows "refines V P self s'"
proof (cases "negotiated self")
  case True
  then show ?thesis by (rule info_refines [OF assms(2,3) _ assms(5,4)])
next
  case False
  then have "rp = unexpected w self" unfolding assms(1) with_negotiated_header_def negotiated_def by (simp only: not_le if_True)
  then show ?thesis using assms(5) by (simp only: unexpected_refines)
qed

lemma digest_refines:
  "answered S dev sid' a (handle_spdm_digest S bs sid (Writer_init buf) self) s' \<Longrightarrow> refines V P self s'"
  by (rule guarded_refines [OF handle_spdm_digest_def digest_quiet digest_replies]) simp_all

lemma certificate_refines:
  "answered S dev sid' a (handle_spdm_certificate S bs sid (Writer_init buf) self) s' \<Longrightarrow> refines V P self s'"
  by (rule guarded_refines [OF handle_spdm_certificate_def certificate_quiet certificate_replies]) simp_all

lemma challenge_refines:
  "answered S dev sid' a (handle_spdm_challenge S bs (Writer_init buf) self) s' \<Longrightarrow> refines V P self s'"
  by (rule guarded_refines [OF handle_spdm_challenge_def challenge_quiet challenge_replies]) simp_all

lemma finish_request_refines:
  assumes "answered S dev sid a (handle_spdm_finish S i bs (Writer_init buf) self) s'" "resp_inv (abs_of self)"
    and "sid = Some i \<or> sid = None \<and> last_session_id (runtime_info self) = Some i"
    and "get_session_via_id i self = Some t" "session_state t = SpdmSessionHandshaking"
  shows "refines (finish_verified S bs self) P self s'"
  by (rule finish_refines [OF finish_effect finish_loud finish_replies assms(1) _ assms(3-5,2)])
    (simp_all add: finish_verified_def)

lemma psk_finish_request_refines:
  assumes "answered S dev (Some i) a (handle_spdm_psk_finish S i bs (Writer_init buf) self) s'" "resp_inv (abs_of self)"
    and "get_session_via_id i self = Some t" "session_state t = SpdmSessionHandshaking"
  shows "refines (finish_verified S bs self) P self s'"
  by (rule finish_refines [OF psk_finish_effect psk_finish_loud psk_finish_replies assms(1) _ _ assms(3,4,2)])
    (simp_all add: finish_verified_def)

lemma dispatch_message_refines:
  assumes "answered S dev None False (dispatch_message S bs (Writer_init buf) self) s'" "vendor_ok S" "resp_inv (abs_of self)"
  shows "refines (finish_verified S bs self) (psk_without_context self) self s'"
proof (cases "SpdmMessageHeader_read (Reader_init bs)")
  case None
  then show ?thesis using assms(1) by (simp add: dispatch_message_def silent_refines)
next
  case (Some p)
  obtain hdr r where p: "p = (hdr, r)" by fastforce
  show ?thesis
    using assms Some p
    by (cases "request_response_code hdr")
      (auto simp: dispatch_message_def split: option.splits if_splits
        intro: version_refines capability_refines algorithm_refines digest_refines certificate_refines challenge_refines
          measurement_refines key_exchange_refines psk_exchange_refines vendor_refines error_refines finish_request_refines)
qed

lemma dispatch_secured_refines:
  assumes "answered S dev (Some i) False (dispatch_secured_message S i bs (Writer_init buf) self) s'" "vendor_ok S" "resp_inv (abs_of self)"
  shows "refines (finish_verified S bs self) P self s'"
proof -
  note cases = digest_refines certificate_refines measurement_refines vendor_refines error_refines
    silent_refines finish_request_refines psk_finish_request_refines
    harmless_refines [OF heartbeat_quiet heartbeat_replies] harmless_refines [OF key_update_effect key_update_replies]
    end_refines [OF end_session_quiet end_session_replies]
  have codes: "code_of SpdmResponseHeartbeatAck \<notin> control_codes" "code_of SpdmResponseKeyUpdateAck \<notin> control_codes"
    by (simp_all add: control_codes_def)
  show ?thesis
    using assms codes
    unfolding dispatch_secured_message_def dispatch_handshaking_def dispatch_established_def Let_def
    by (auto split: option.splits SpdmSessionState.splits prod.splits if_splits intro: cases)
qed

subsection \<open>One packet\<close>

text \<open>The request in a packet, with the session that it was protected by and the context that has decrypted it.\<close>

definition request_of :: "'h Services \<Rightarrow> bytes \<Rightarrow> 'h SpdmContext \<Rightarrow> (u32 option \<times> bytes \<times> 'h SpdmContext) option" where
  "request_of S packet self =
     (case tp_decap (svc_transport S) packet (replicate RECEIVER_BUFFER_SIZE 0) of
        Inr (used, False, buf) \<Rightarrow> Some (None, take used buf, self)
      | Inr (used, True, buf) \<Rightarrow>
          (case u32_read (Reader_init (take used buf)) of
             Some (sid, _) \<Rightarrow>
               (case get_session_via_id sid self of
                  Some s \<Rightarrow>
                    (case decode_spdm_secured_message (svc_crypto S) (take used buf) (replicate RECEIVER_BUFFER_SIZE 0) True s of
                       (Inr (n, app), s) \<Rightarrow>
                         (case tp_decap_app (svc_transport S) (take n app) (replicate SPDM_DATA_TRANSFER_SIZE 0) of
                            Inr (m, False, msg) \<Rightarrow> Some (Some sid, take m msg, put_session sid s self)
                          | _ \<Rightarrow> None)
                     | _ \<Rightarrow> None)
                | None \<Rightarrow> None)
           | None \<Rightarrow> None)
      | _ \<Rightarrow> None)"

text \<open>The packet holds a finish request for the session whose verification data is right.\<close>

definition genuine_finish :: "'h Services \<Rightarrow> usize + bytes \<Rightarrow> 'h SpdmContext \<Rightarrow> u32 \<Rightarrow> bool" where
  "genuine_finish S received self i \<longleftrightarrow>
     (\<exists>packet sid bs s. received = Inr packet \<and> request_of S packet self = Some (sid, bs, s) \<and> finish_verified S bs s i)"

lemma resp_step_mono: "resp_step V P a b \<Longrightarrow> (\<And>i. V i \<Longrightarrow> V' i) \<Longrightarrow> (P \<Longrightarrow> P') \<Longrightarrow> resp_step V' P' a b"
  by (induction rule: resp_step.induct) (auto intro: resp_step.intros)

lemma resp_steps_mono:
  assumes "resp_steps V P a b" "\<And>i. V i \<Longrightarrow> V' i" "P \<Longrightarrow> P'"
  shows "resp_steps V' P' a b"
  using assms(1) by (induction rule: rtranclp_induct) (auto dest: resp_step_mono [OF _ assms(2,3)] intro: rtranclp.rtrancl_into_rtrancl)

lemma kept_inv: "kept sid s s' \<Longrightarrow> resp_inv (abs_of s) \<Longrightarrow> resp_inv (abs_of s')"
  by (rule resp_steps_inv [OF kept_steps])

lemma app_refines:
  assumes "app_ok S" "answered S dev sid a (svc_app_message S i bs h w self) s'"
  shows "refines V P self s'"
proof -
  obtain c where "quiet self (svc_app_message S i bs h w self)" "c \<notin> control_codes" "replies c (svc_app_message S i bs h w self)"
    using assms(1) unfolding app_ok_def by blast
  with assms(2) show ?thesis by (intro harmless_refines)
qed

lemma process_secured_cases:
  assumes "process_secured S dev h packet w self = (out, sent, s')" "out \<noteq> Crashed"
    and "tp_decap (svc_transport S) raw (replicate RECEIVER_BUFFER_SIZE 0) = Inr (used, True, rbuf)" "packet = take used rbuf"
  obtains i where "kept (Some i) self s'"
  | i m s where "kept (Some i) self s" "answered S dev (Some i) True (svc_app_message S i m h w s) s'"
  | i m s where "kept (Some i) self s" "answered S dev (Some i) False (dispatch_secured_message S i m w s) s'"
      "request_of S raw self = Some (Some i, m, s)"
proof (cases "\<exists>i r s. u32_read (Reader_init packet) = Some (i, r) \<and> get_session_via_id i self = Some s")
  case True
  then obtain i r s where s: "u32_read (Reader_init packet) = Some (i, r)" "get_session_via_id i self = Some s" by blast
  obtain d s0 where d: "decode_spdm_secured_message (svc_crypto S) packet (replicate RECEIVER_BUFFER_SIZE 0) True s = (d, s0)"
    by fastforce
  let ?self = "put_session i s0 self"
  have k: "kept (Some i) self ?self"
    using kept_put [OF s(2) life_secured(2) [of "svc_crypto S" packet "replicate RECEIVER_BUFFER_SIZE 0" True s]] d by simp
  show thesis
  proof (cases "\<exists>n app m msg a. d = Inr (n, app) \<and>
      tp_decap_app (svc_transport S) (take n app) (replicate SPDM_DATA_TRANSFER_SIZE 0) = Inr (m, a, msg)")
    case True
    then obtain n app m msg a where t: "d = Inr (n, app)"
      "tp_decap_app (svc_transport S) (take n app) (replicate SPDM_DATA_TRANSFER_SIZE 0) = Inr (m, a, msg)" by blast
    show thesis
      using assms s d t that(2,3) [OF k, of "take m msg"]
      by (cases a) (auto simp: process_secured_def answered_def request_of_def)
  next
    case False
    then have "s' = ?self"
      using assms(1) s d by (auto simp: process_secured_def Let_def split: sum.splits fault.splits prod.splits)
    then show thesis using that(1) [of i] k by simp
  qed
next
  case False
  then have "s' = self"
    using assms(1) by (auto simp: process_secured_def Let_def split: option.splits)
  then show thesis using that(1) by simp
qed

lemma process_secured_refines:
  assumes "process_secured S dev h packet (Writer_init buf) self = (out, sent, s')" "out \<noteq> Crashed"
    and "tp_decap (svc_transport S) raw (replicate RECEIVER_BUFFER_SIZE 0) = Inr (used, True, rbuf)" "packet = take used rbuf"
    and "resp_inv (abs_of self)" "vendor_ok S" "app_ok S"
  shows "refines (genuine_finish S (Inr raw) self) P self s'"
  using assms(1-4)
proof (cases rule: process_secured_cases)
  case (1 i)
  then show ?thesis by (rule kept_steps)
next
  case (2 i m s)
  then show ?thesis using kept_steps [OF 2(1)] app_refines [OF assms(7) 2(2)] by (meson rtranclp_trans)
next
  case (3 i m s)
  from dispatch_secured_refines [OF 3(2) assms(6) kept_inv [OF 3(1) assms(5)]]
  have "refines (genuine_finish S (Inr raw) self) P s s'"
    by (rule resp_steps_mono) (use 3(3) in \<open>auto simp: genuine_finish_def\<close>)
  then show ?thesis using kept_steps [OF 3(1)] by (meson rtranclp_trans)
qed

lemma process_refines:
  assumes "process_message S dev c h received self = (out, sent, s')" "out \<noteq> Crashed"
    and "resp_inv (abs_of self)" "vendor_ok S" "app_ok S"
  shows "refines (genuine_finish S received self) (psk_without_context self) self s'"
proof (cases "\<exists>packet used a buf. received = Inr packet
    \<and> tp_decap (svc_transport S) packet (replicate RECEIVER_BUFFER_SIZE 0) = Inr (used, a, buf)")
  case True
  then obtain packet used a buf where r: "received = Inr packet"
    "tp_decap (svc_transport S) packet (replicate RECEIVER_BUFFER_SIZE 0) = Inr (used, a, buf)" by blast
  let ?w = "Writer_init (replicate MAX_SPDM_MSG_SIZE 0)"
  show ?thesis
  proof (cases a)
    case True
    then have "process_secured S dev h (take used buf) ?w self = (out, sent, s')"
      using assms(1,2) r by (auto simp: process_message_def split: if_splits)
    then show ?thesis
      unfolding r(1) using r(2) True by (intro process_secured_refines [OF _ assms(2) _ refl assms(3-5)]) simp_all
  next
    case False
    then have "answered S dev None False (dispatch_message S (take used buf) ?w self) s'"
      using assms(1,2) r by (auto simp: process_message_def answered_def split: if_splits)
    from dispatch_message_refines [OF this assms(4,3)] show ?thesis
      using r False by (elim resp_steps_mono) (auto simp: genuine_finish_def request_of_def)
  qed
next
  case False
  then have "s' = self"
    using assms(1) by (auto simp: process_message_def split: if_splits sum.splits fault.splits prod.splits)
  then show ?thesis by simp
qed

subsection \<open>The life of a responder\<close>

lemma new_status: "get_session_status (SpdmContext_new config provision) = replicate MAX_SPDM_SESSION_COUNT dead"
  by (simp add: get_session_status_def SpdmContext_new_def SpdmSession_new_def)

lemma new_inv: "resp_inv (abs_of (SpdmContext_new config provision))"
  by (simp add: resp_inv_def abs_of_def new_status ids_ok_def)

text \<open>
  The contexts of a responder that starts fresh and has processed packets, whatever the device
  delivered; a panic ends its life. The services may change from packet to packet.
\<close>

inductive alive_context :: "SpdmConfigInfo \<Rightarrow> SpdmProvisionInfo \<Rightarrow> 'h SpdmContext \<Rightarrow> bool"
  for config :: SpdmConfigInfo and provision :: SpdmProvisionInfo where
  start: "alive_context config provision (SpdmContext_new config provision)"
| serve: "alive_context config provision self \<Longrightarrow> vendor_ok S \<Longrightarrow> app_ok S \<Longrightarrow>
    process_message S dev c h received self = (out, sent, s') \<Longrightarrow> out \<noteq> Crashed \<Longrightarrow>
    alive_context config provision s'"

lemma alive_inv: "alive_context config provision self \<Longrightarrow> resp_inv (abs_of self)"
proof (induction rule: alive_context.induct)
  case start
  show ?case by (rule new_inv)
next
  case (serve self S dev c h received out sent s')
  then show ?case by (blast intro: resp_steps_inv [OF process_refines])
qed

lemma inv_distinct: "resp_inv (abs_of self) \<Longrightarrow> distinct (alive self)"
  using clean_inv [of self] table_ok_alive_distinct [of False self] by (simp add: clean_def)

lemma resp_steps_established:
  assumes "resp_steps V P a b" "(i, SpdmSessionEstablished) \<in> set (snd b)"
  shows "(i, SpdmSessionEstablished) \<in> set (snd a) \<or> V i \<or> P"
  using assms
proof (induction rule: rtranclp_induct)
  case (step b c)
  from step.hyps(2) step.prems have "(i, SpdmSessionEstablished) \<in> set (snd b) \<or> V i \<or> P"
    by (cases rule: resp_step.cases) (auto simp: opened_def dest!: update_first_cases)
  then show ?case using step.IH by auto
qed simp

end
