(* ===== verification/Transport.thy ===== *)
theory Transport
  imports Status
begin

text \<open>
  The two transport bindings, \<open>mctp_transport/src/header.rs\<close> and \<open>pcidoe_transport/src/header.rs\<close>,
  which implement the trait \<open>SpdmTransportEncap\<close> of \<open>spdmlib/src/common/mod.rs\<close>: framing and
  unframing of SPDM and secured messages.

  An operation that fills a caller's buffer returns the number of bytes and the new contents of
  the buffer. The locale \<open>transport_encap\<close> states what the sender and the receiver of a message
  rely on: what one side frames, the other unframes to the same message and the same
  \<open>secured_message\<close> flag. Both bindings interpret it.
\<close>

subsection \<open>MCTP\<close>

datatype MctpMessageType =
    MctpMessageTypeMctpControl | MctpMessageTypePldm | MctpMessageTypeNcsi
  | MctpMessageTypeEthernet | MctpMessageTypeNvme | MctpMessageTypeSpdm
  | MctpMessageTypeSecuredMctp | MctpMessageTypeVendorDefinedPci
  | MctpMessageTypeVendorDefinedIana | MctpMessageTypeUnknown u8

fun MctpMessageType_get_u8 :: "MctpMessageType \<Rightarrow> u8" where
  "MctpMessageType_get_u8 MctpMessageTypeMctpControl = 0x00"
| "MctpMessageType_get_u8 MctpMessageTypePldm = 0x01"
| "MctpMessageType_get_u8 MctpMessageTypeNcsi = 0x02"
| "MctpMessageType_get_u8 MctpMessageTypeEthernet = 0x03"
| "MctpMessageType_get_u8 MctpMessageTypeNvme = 0x04"
| "MctpMessageType_get_u8 MctpMessageTypeSpdm = 0x05"
| "MctpMessageType_get_u8 MctpMessageTypeSecuredMctp = 0x06"
| "MctpMessageType_get_u8 MctpMessageTypeVendorDefinedPci = 0x7E"
| "MctpMessageType_get_u8 MctpMessageTypeVendorDefinedIana = 0x7F"
| "MctpMessageType_get_u8 (MctpMessageTypeUnknown x) = x"

definition MctpMessageType_of_u8 :: "u8 \<Rightarrow> MctpMessageType" where
  "MctpMessageType_of_u8 x =
     (if x = 0x00 then MctpMessageTypeMctpControl
      else if x = 0x01 then MctpMessageTypePldm
      else if x = 0x02 then MctpMessageTypeNcsi
      else if x = 0x03 then MctpMessageTypeEthernet
      else if x = 0x04 then MctpMessageTypeNvme
      else if x = 0x05 then MctpMessageTypeSpdm
      else if x = 0x06 then MctpMessageTypeSecuredMctp
      else if x = 0x7E then MctpMessageTypeVendorDefinedPci
      else if x = 0x7F then MctpMessageTypeVendorDefinedIana
      else MctpMessageTypeUnknown x)"

record MctpMessageHeader =
  mctp_type :: MctpMessageType

definition MctpMessageHeader_encode :: "MctpMessageHeader \<Rightarrow> encode_err encoder" where
  "MctpMessageHeader_encode h = enum_encode u8_encode MctpMessageType_get_u8 (mctp_type h)"

definition MctpMessageHeader_read :: "MctpMessageHeader decoder" where
  "MctpMessageHeader_read r = do {
     (ty, r) \<leftarrow> enum_read u8_read MctpMessageType_of_u8 r;
     Some (\<lparr>mctp_type = ty\<rparr>, r) }"

text \<open>Copying the payload behind a header of \<open>header_size\<close> bytes.\<close>

definition mctp_encap :: "bytes \<Rightarrow> bytes \<Rightarrow> bool \<Rightarrow> (usize \<times> bytes) SpdmResult" where
  "mctp_encap spdm_buffer transport_buffer secured_message =
     (let payload_len = length spdm_buffer;
          mctp_header = \<lparr>mctp_type = if secured_message then MctpMessageTypeSecuredMctp
                                     else MctpMessageTypeSpdm\<rparr>
      in bindR (map_err (encode_fault SPDM_STATUS_ENCAP_FAIL)
                  (MctpMessageHeader_encode mctp_header (Writer_init transport_buffer)))
           (\<lambda>(_, writer).
             let header_size = Writer_used writer
             in if length transport_buffer < header_size + payload_len
                then Err SPDM_STATUS_ENCAP_FAIL
                else Ok (header_size + payload_len, copy_at header_size spdm_buffer (wr_buf writer))))"

definition mctp_decap :: "bytes \<Rightarrow> bytes \<Rightarrow> (usize \<times> bool \<times> bytes) SpdmResult" where
  "mctp_decap transport_buffer spdm_buffer =
     (case MctpMessageHeader_read (Reader_init transport_buffer) of
        None \<Rightarrow> Err SPDM_STATUS_DECAP_FAIL
      | Some (mctp_header, reader) \<Rightarrow>
          bindR (case mctp_type mctp_header of
                   MctpMessageTypeSpdm \<Rightarrow> Ok False
                 | MctpMessageTypeSecuredMctp \<Rightarrow> Ok True
                 | _ \<Rightarrow> Err SPDM_STATUS_DECAP_FAIL)
            (\<lambda>secured_message.
              let header_size = Reader_used reader;
                  payload_size = length transport_buffer - header_size
              in if length spdm_buffer < payload_size then Err SPDM_STATUS_DECAP_FAIL
                 else Ok (payload_size, secured_message,
                          copy_at 0 (drop header_size transport_buffer) spdm_buffer)))"

definition mctp_encap_app :: "bytes \<Rightarrow> bytes \<Rightarrow> bool \<Rightarrow> (usize \<times> bytes) SpdmResult" where
  "mctp_encap_app spdm_buffer app_buffer is_app_message =
     (let payload_len = length spdm_buffer;
          mctp_header = (if is_app_message then \<lparr>mctp_type = MctpMessageTypePldm\<rparr>
                         else \<lparr>mctp_type = MctpMessageTypeSpdm\<rparr>)
      in bindR (map_err (encode_fault SPDM_STATUS_ENCAP_APP_FAIL)
                  (MctpMessageHeader_encode mctp_header (Writer_init app_buffer)))
           (\<lambda>(_, writer).
             let header_size = Writer_used writer
             in if length app_buffer < header_size + payload_len
                then Err SPDM_STATUS_ENCAP_APP_FAIL
                else Ok (header_size + payload_len, copy_at header_size spdm_buffer (wr_buf writer))))"

definition mctp_decap_app :: "bytes \<Rightarrow> bytes \<Rightarrow> (usize \<times> bool \<times> bytes) SpdmResult" where
  "mctp_decap_app app_buffer spdm_buffer =
     (case MctpMessageHeader_read (Reader_init app_buffer) of
        None \<Rightarrow> Err SPDM_STATUS_DECAP_APP_FAIL
      | Some (mctp_header, reader) \<Rightarrow>
          bindR (case mctp_type mctp_header of
                   MctpMessageTypeSpdm \<Rightarrow> Ok False
                 | MctpMessageTypePldm \<Rightarrow> Ok True
                 | _ \<Rightarrow> Err SPDM_STATUS_DECAP_APP_FAIL)
            (\<lambda>is_app_message.
              let header_size = Reader_used reader;
                  payload_size = length app_buffer - header_size
              in if length spdm_buffer < payload_size then Err SPDM_STATUS_DECAP_APP_FAIL
                 else Ok (payload_size, is_app_message,
                          copy_at 0 (drop header_size app_buffer) spdm_buffer)))"

definition mctp_get_sequence_number_count :: u8 where
  "mctp_get_sequence_number_count = 2"

definition mctp_get_max_random_count :: u16 where
  "mctp_get_max_random_count = 32"

subsection \<open>PCI DOE\<close>

datatype PciDoeVendorId = PciDoeVendorIdPciSig | PciDoeVendorIdUnknown u16

fun PciDoeVendorId_get_u16 :: "PciDoeVendorId \<Rightarrow> u16" where
  "PciDoeVendorId_get_u16 PciDoeVendorIdPciSig = 0x0001"
| "PciDoeVendorId_get_u16 (PciDoeVendorIdUnknown x) = x"

definition PciDoeVendorId_of_u16 :: "u16 \<Rightarrow> PciDoeVendorId" where
  "PciDoeVendorId_of_u16 x = (if x = 0x0001 then PciDoeVendorIdPciSig else PciDoeVendorIdUnknown x)"

datatype PciDoeDataObjectType =
    PciDoeDataObjectTypeDoeDiscovery | PciDoeDataObjectTypeSpdm | PciDoeDataObjectTypeSecuredSpdm
  | PciDoeDataObjectTypeSpdmWithConnectionID | PciDoeDataObjectTypeSecuredSpdmWithConnectionID
  | PciDoeDataObjectTypeUnknown u8

fun PciDoeDataObjectType_get_u8 :: "PciDoeDataObjectType \<Rightarrow> u8" where
  "PciDoeDataObjectType_get_u8 PciDoeDataObjectTypeDoeDiscovery = 0x00"
| "PciDoeDataObjectType_get_u8 PciDoeDataObjectTypeSpdm = 0x01"
| "PciDoeDataObjectType_get_u8 PciDoeDataObjectTypeSecuredSpdm = 0x02"
| "PciDoeDataObjectType_get_u8 PciDoeDataObjectTypeSpdmWithConnectionID = 0x03"
| "PciDoeDataObjectType_get_u8 PciDoeDataObjectTypeSecuredSpdmWithConnectionID = 0x04"
| "PciDoeDataObjectType_get_u8 (PciDoeDataObjectTypeUnknown x) = x"

definition PciDoeDataObjectType_of_u8 :: "u8 \<Rightarrow> PciDoeDataObjectType" where
  "PciDoeDataObjectType_of_u8 x =
     (if x = 0x00 then PciDoeDataObjectTypeDoeDiscovery
      else if x = 0x01 then PciDoeDataObjectTypeSpdm
      else if x = 0x02 then PciDoeDataObjectTypeSecuredSpdm
      else if x = 0x03 then PciDoeDataObjectTypeSpdmWithConnectionID
      else if x = 0x04 then PciDoeDataObjectTypeSecuredSpdmWithConnectionID
      else PciDoeDataObjectTypeUnknown x)"

record PciDoeMessageHeader =
  vendor_id :: PciDoeVendorId
  data_object_type :: PciDoeDataObjectType
  payload_length :: u32
  connection_id :: u16

text \<open>
  \<open>(payload_length + 8) >> 2\<close> is the length in dwords; the addition overflows for a payload of
  \<open>2\<^sup>3\<^sup>2 - 8\<close> bytes or more. The panics of the code come after the first three fields are written,
  so a full buffer is reported before them.
\<close>

definition PciDoeMessageHeader_encode :: "PciDoeMessageHeader \<Rightarrow> encode_err encoder" where
  "PciDoeMessageHeader_encode h w =
     bindR (enc_seq [enum_encode u16_encode PciDoeVendorId_get_u16 (vendor_id h),
                     enum_encode u8_encode PciDoeDataObjectType_get_u8 (data_object_type h),
                     u8_encode 0] w)
       (\<lambda>(cnt, w).
         if 2 ^ 32 \<le> unat (payload_length h) + 8 then Inl EncodePanic else
         let length = drop_bit 2 (payload_length h + 8) in
         if length > 0x40000 then Inl EncodePanic else
         let length = (if length = 0x40000 then 0 else length) in
         if connection_id h \<ge> 0x1000 then Inl EncodePanic else
         let header2 = length OR drop_bit 18 (ucast (connection_id h)) in
         bindR (u32_encode header2 w) (\<lambda>(n, w). Inr (cnt + n, w)))"

text \<open>\<open>(length << 2).checked_sub(8)?\<close>: None when the shifted length is below 8.\<close>

definition PciDoeMessageHeader_read :: "PciDoeMessageHeader decoder" where
  "PciDoeMessageHeader_read r = do {
     (vid, r) \<leftarrow> enum_read u16_read PciDoeVendorId_of_u16 r;
     (dot, r) \<leftarrow> enum_read u8_read PciDoeDataObjectType_of_u8 r;
     (_, r) \<leftarrow> u8_read r;
     (header2, r) \<leftarrow> u32_read r;
     let length = header2 AND 0x3ffff;
     let cid = (ucast (drop_bit 18 header2) :: u16) AND 0x0fff;
     let length = (if length = 0 then 0x40000 else length);
     if length < 2 then None
     else if push_bit 2 length < 8 then None
     else Some (\<lparr>vendor_id = vid, data_object_type = dot, payload_length = push_bit 2 length - 8,
                 connection_id = cid\<rparr>, r) }"

definition pcidoe_encap :: "bytes \<Rightarrow> bytes \<Rightarrow> bool \<Rightarrow> (usize \<times> bytes) SpdmResult" where
  "pcidoe_encap spdm_buffer transport_buffer secured_message =
     (let payload_len = length spdm_buffer;
          aligned_payload_len = (payload_len + 3) div 4 * 4;
          pcidoe_header = \<lparr>vendor_id = PciDoeVendorIdPciSig,
            data_object_type = (if secured_message then PciDoeDataObjectTypeSecuredSpdm
                                else PciDoeDataObjectTypeSpdm),
            payload_length = of_nat aligned_payload_len, connection_id = 0\<rparr>
      in bindR (map_err (encode_fault SPDM_STATUS_ENCAP_FAIL)
                  (PciDoeMessageHeader_encode pcidoe_header (Writer_init transport_buffer)))
           (\<lambda>(_, writer).
             let header_size = Writer_used writer
             in if length transport_buffer < header_size + aligned_payload_len
                then Err SPDM_STATUS_ENCAP_FAIL
                else Ok (header_size + aligned_payload_len,
                         copy_at header_size spdm_buffer (wr_buf writer))))"

definition pcidoe_decap :: "bytes \<Rightarrow> bytes \<Rightarrow> (usize \<times> bool \<times> bytes) SpdmResult" where
  "pcidoe_decap transport_buffer spdm_buffer =
     bindR (ok_or (Fail SPDM_STATUS_DECAP_FAIL) (PciDoeMessageHeader_read (Reader_init transport_buffer)))
       (\<lambda>(pcidoe_header, reader).
         bindR (case vendor_id pcidoe_header of
                  PciDoeVendorIdPciSig \<Rightarrow> Ok () | _ \<Rightarrow> Err SPDM_STATUS_DECAP_FAIL)
           (\<lambda>_. bindR (case data_object_type pcidoe_header of
                        PciDoeDataObjectTypeSpdm \<Rightarrow> Ok False
                      | PciDoeDataObjectTypeSecuredSpdm \<Rightarrow> Ok True
                      | _ \<Rightarrow> Err SPDM_STATUS_DECAP_FAIL)
             (\<lambda>secured_message.
               let header_size = Reader_used reader;
                   payload_size = unat (payload_length pcidoe_header)
               in if length transport_buffer < header_size + payload_size
                  then Err SPDM_STATUS_DECAP_FAIL
                  else if length spdm_buffer < payload_size then Err SPDM_STATUS_DECAP_FAIL
                  else Ok (payload_size, secured_message,
                           copy_at 0 (take payload_size (drop header_size transport_buffer))
                             spdm_buffer))))"

text \<open>The slices of \<open>encap_app\<close> and \<open>decap_app\<close> panic when the target is the shorter buffer.\<close>

definition pcidoe_encap_app :: "bytes \<Rightarrow> bytes \<Rightarrow> bool \<Rightarrow> (usize \<times> bytes) SpdmResult" where
  "pcidoe_encap_app spdm_buffer app_buffer is_app_message =
     (if length app_buffer < length spdm_buffer then panic
      else Ok (length spdm_buffer, copy_at 0 spdm_buffer app_buffer))"

definition pcidoe_decap_app :: "bytes \<Rightarrow> bytes \<Rightarrow> (usize \<times> bool \<times> bytes) SpdmResult" where
  "pcidoe_decap_app app_buffer spdm_buffer =
     (if length spdm_buffer < length app_buffer then panic
      else Ok (length app_buffer, False, copy_at 0 app_buffer spdm_buffer))"

definition pcidoe_get_sequence_number_count :: u8 where
  "pcidoe_get_sequence_number_count = 0"

definition pcidoe_get_max_random_count :: u16 where
  "pcidoe_get_max_random_count = 0"


subsection \<open>Headers as codecs\<close>

interpretation MctpMessageType:
  enum_codec u8_encode u8_read u8_image MctpMessageType_get_u8 MctpMessageType_of_u8
  by unfold_locales (simp add: MctpMessageType_of_u8_def)

interpretation PciDoeVendorId:
  enum_codec u16_encode u16_read put_u16 PciDoeVendorId_get_u16 PciDoeVendorId_of_u16
  by unfold_locales (simp add: PciDoeVendorId_of_u16_def)

interpretation PciDoeDataObjectType:
  enum_codec u8_encode u8_read u8_image PciDoeDataObjectType_get_u8 PciDoeDataObjectType_of_u8
  by unfold_locales (simp add: PciDoeDataObjectType_of_u8_def)

definition mctp_image :: "MctpMessageHeader \<Rightarrow> bytes" where
  "mctp_image h = u8_image (MctpMessageType_get_u8 (mctp_type h))"

definition mctp_valid :: "MctpMessageHeader \<Rightarrow> bool" where
  "mctp_valid h \<longleftrightarrow> MctpMessageType_of_u8 (MctpMessageType_get_u8 (mctp_type h)) = mctp_type h"

interpretation MctpMessageHeader:
  codec EncodeErr MctpMessageHeader_encode MctpMessageHeader_read mctp_image mctp_valid
proof unfold_locales
  fix h assume "mctp_valid h"
  then have v: "MctpMessageType_of_u8 (MctpMessageType_get_u8 (mctp_type h)) = mctp_type h"
    by (simp add: mctp_valid_def)
  show "writes EncodeErr (MctpMessageHeader_encode h) (mctp_image h)"
    unfolding MctpMessageHeader_encode_def mctp_image_def
    by (rule MctpMessageType.encode_writes) (rule v)
  show "reads MctpMessageHeader_read (mctp_image h) h"
    using readsD [OF MctpMessageType.read_reads [OF v]]
    by (auto intro!: readsI simp: MctpMessageHeader_read_def mctp_image_def)
qed

text \<open>
  The dword count of a DOE object with a payload of \<open>p\<close> bytes, where \<open>0\<close> stands for \<open>2\<^sup>1\<^sup>8\<close>.
\<close>

definition doe_dwords :: "u32 \<Rightarrow> u32" where
  "doe_dwords p = (let length = drop_bit 2 (p + 8) in if length = 0x40000 then 0 else length)"

definition doe_payload_ok :: "u32 \<Rightarrow> bool" where
  "doe_payload_ok p \<longleftrightarrow> unat p \<le> 1048568 \<and> 4 dvd unat p"

definition doe_image :: "PciDoeMessageHeader \<Rightarrow> bytes" where
  "doe_image h = put_u16 (PciDoeVendorId_get_u16 (vendor_id h)) @
     u8_image (PciDoeDataObjectType_get_u8 (data_object_type h)) @ [0] @
     u32_image (doe_dwords (payload_length h))"

definition doe_valid :: "PciDoeMessageHeader \<Rightarrow> bool" where
  "doe_valid h \<longleftrightarrow> doe_payload_ok (payload_length h)
     \<and> PciDoeVendorId_of_u16 (PciDoeVendorId_get_u16 (vendor_id h)) = vendor_id h
     \<and> PciDoeDataObjectType_of_u8 (PciDoeDataObjectType_get_u8 (data_object_type h)) = data_object_type h"

lemma doe_length:
  assumes "doe_payload_ok p"
  shows "unat (p + 8) = unat p + 8"
    and "unat (drop_bit 2 (p + 8)) = (unat p + 8) div 4"
    and "push_bit 2 (drop_bit 2 (p + 8)) = p + 8"
    and "2 \<le> drop_bit 2 (p + 8)" and "drop_bit 2 (p + 8) \<le> 0x40000"
proof -
  show 8: "unat (p + 8) = unat p + 8"
    using assms by (simp add: doe_payload_ok_def unat_word_ariths)
  show d: "unat (drop_bit 2 (p + 8)) = (unat p + 8) div 4"
    by (simp only: unat_drop_bit_eq 8) (simp add: drop_bit_eq_div)
  show "push_bit 2 (drop_bit 2 (p + 8)) = p + 8"
  proof -
    have "unat (push_bit 2 (drop_bit 2 (p + 8))) = unat (p + 8)"
      using assms
      by (simp only: unsigned_push_bit_eq d 8)
        (auto simp: push_bit_eq_mult take_bit_eq_mod doe_payload_ok_def)
    then show ?thesis by (simp only: word_unat_eq_iff)
  qed
  show "2 \<le> drop_bit 2 (p + 8)" "drop_bit 2 (p + 8) \<le> 0x40000"
    using assms by (auto simp: word_le_nat_alt d doe_payload_ok_def)
qed

lemma doe_dwords_fields:
  assumes "doe_payload_ok p"
  shows "doe_dwords p AND 0x3ffff = doe_dwords p" and "drop_bit 18 (doe_dwords p) = 0"
    and "(if doe_dwords p = 0 then 0x40000 else doe_dwords p) = drop_bit 2 (p + 8)"
proof -
  have le: "unat (doe_dwords p) < 2 ^ 18"
    using assms by (auto simp: doe_dwords_def Let_def doe_length word_unat_eq_iff doe_payload_ok_def)
  then have t: "take_bit 18 (doe_dwords p) = doe_dwords p"
    by (simp add: word_unat_eq_iff unsigned_take_bit_eq take_bit_nat_eq_self)
  then show "doe_dwords p AND 0x3ffff = doe_dwords p"
    by (simp add: take_bit_eq_mask mask_eq_exp_minus_1)
  show "drop_bit 18 (doe_dwords p) = 0"
    using le by (simp only: word_unat_eq_iff unat_drop_bit_eq) (simp add: drop_bit_eq_div)
  show "(if doe_dwords p = 0 then 0x40000 else doe_dwords p) = drop_bit 2 (p + 8)"
    using doe_length(4) [OF assms] by (auto simp: doe_dwords_def Let_def)
qed

lemma doe_connection_id_shift: "drop_bit 18 (ucast (c :: u16) :: u32) = 0"
  by (rule bit_word_eqI) (auto simp: bit_simps dest: bit_imp_le_length)



lemma doe_encode_writes:
  assumes "doe_valid h" and "connection_id h < 0x1000"
  shows "writes EncodeErr (PciDoeMessageHeader_encode h) (doe_image h)"
proof -
  have p: "doe_payload_ok (payload_length h)" using assms by (simp add: doe_valid_def)
  let ?es = "[enum_encode u16_encode PciDoeVendorId_get_u16 (vendor_id h),
              enum_encode u8_encode PciDoeDataObjectType_get_u8 (data_object_type h), u8_encode 0]"
  have "writes EncodeErr (enc_seq ?es) (put_u16 (PciDoeVendorId_get_u16 (vendor_id h)) @
     u8_image (PciDoeDataObjectType_get_u8 (data_object_type h)) @ u8_image 0)"
    using assms(1) by (intro writes_seq_Cons PciDoeVendorId.encode_writes
        PciDoeDataObjectType.encode_writes u8.encode_writes writes_seq_single)
      (simp_all add: doe_valid_def)
  note w = writes_then [OF this u32.encode_writes [OF TrueI, of "doe_dwords (payload_length h)"]]
  have guards: "\<not> 2 ^ 32 \<le> unat (payload_length h) + 8"
    "\<not> 0x40000 < drop_bit 2 (payload_length h + 8)" "\<not> 0x1000 \<le> connection_id h"
    using assms(2) p doe_length(5) [OF p] by (simp_all add: doe_payload_ok_def not_le not_less)
  have "PciDoeMessageHeader_encode h = (\<lambda>w. bindR (enc_seq ?es w) (\<lambda>(n, w).
     bindR (u32_encode (doe_dwords (payload_length h)) w) (\<lambda>(m, w). Inr (n + m, w))))"
    by (simp only: PciDoeMessageHeader_encode_def [abs_def] guards if_False Let_def doe_dwords_def
        doe_connection_id_shift or.right_neutral)
  with w show ?thesis by (simp add: doe_image_def)
qed

lemma doe_read_reads:
  assumes "doe_valid h"
  shows "reads PciDoeMessageHeader_read (doe_image h) (h\<lparr>connection_id := 0\<rparr>)"
proof (rule readsI)
  fix pre post
  have p: "doe_payload_ok (payload_length h)"
    and v: "PciDoeVendorId_of_u16 (PciDoeVendorId_get_u16 (vendor_id h)) = vendor_id h"
    and t: "PciDoeDataObjectType_of_u8 (PciDoeDataObjectType_get_u8 (data_object_type h)) = data_object_type h"
    using assms by (simp_all add: doe_valid_def)
  have "8 \<le> payload_length h + 8"
    using doe_length(1) [OF p] by (simp add: word_le_nat_alt)
  then show "PciDoeMessageHeader_read (rdr pre (doe_image h @ post)) =
     Some (h\<lparr>connection_id := 0\<rparr>, rdr (pre @ doe_image h) post)"
    using readsD [OF PciDoeVendorId.read_reads [OF v]] readsD [OF PciDoeDataObjectType.read_reads [OF t]]
      doe_length(3,4) [OF p]
    unfolding PciDoeMessageHeader_read_def doe_image_def
    by (simp add: reads_simps split del: if_split)
      (simp only: Let_def doe_dwords_fields [OF p], simp add: not_less)
qed

interpretation PciDoeMessageHeader:
  codec EncodeErr PciDoeMessageHeader_encode PciDoeMessageHeader_read doe_image
    "\<lambda>h. doe_valid h \<and> connection_id h = 0"
proof unfold_locales
  fix h assume h: "doe_valid h \<and> connection_id h = 0"
  then show "writes EncodeErr (PciDoeMessageHeader_encode h) (doe_image h)"
    by (intro doe_encode_writes) simp_all
  have "h\<lparr>connection_id := 0\<rparr> = h" using h by (cases h) simp
  with h show "reads PciDoeMessageHeader_read (doe_image h) h"
    using doe_read_reads [of h] by metis
qed

lemma length_doe_image [simp]: "length (doe_image h) = 8"
  by (simp add: doe_image_def)

subsection \<open>The interface of a transport\<close>

text \<open>
  What the callers of \<open>SpdmTransportEncap\<close> rely on. A message of \<open>n\<close> bytes occupies
  \<open>header_len + pad n\<close> bytes of the transport buffer, \<open>fits\<close> bounds the messages the header can
  describe, and \<open>decap\<close> of exactly the bytes that \<open>encap\<close> reported gives back the message (followed
  by \<open>pad n - n\<close> bytes of padding) and its \<open>secured_message\<close> flag.
\<close>

locale transport_encap =
  fixes encap :: "bytes \<Rightarrow> bytes \<Rightarrow> bool \<Rightarrow> (usize \<times> bytes) SpdmResult"
    and decap :: "bytes \<Rightarrow> bytes \<Rightarrow> (usize \<times> bool \<times> bytes) SpdmResult"
    and header_len :: usize
    and pad :: "usize \<Rightarrow> usize"
    and fits :: "usize \<Rightarrow> bool"
    and encap_fail decap_fail :: SpdmStatus
  assumes pad_ge: "n \<le> pad n"
    and encap_small: "fits (length m) \<Longrightarrow> length tb < header_len + pad (length m) \<Longrightarrow>
      encap m tb s = Err encap_fail"
    and encap_room: "fits (length m) \<Longrightarrow> header_len + pad (length m) \<le> length tb \<Longrightarrow>
      \<exists>tb'. encap m tb s = Ok (header_len + pad (length m), tb') \<and> length tb' = length tb"
    and decap_small: "fits (length m) \<Longrightarrow> encap m tb s = Ok (n, tb') \<Longrightarrow> length sb < pad (length m) \<Longrightarrow>
      decap (take n tb') sb = Err decap_fail"
    and decap_room: "fits (length m) \<Longrightarrow> encap m tb s = Ok (n, tb') \<Longrightarrow> pad (length m) \<le> length sb \<Longrightarrow>
      \<exists>sb'. decap (take n tb') sb = Ok (pad (length m), s, sb') \<and> length sb' = length sb
        \<and> take (length m) sb' = m"
begin

text \<open>A framed message is delivered whenever both buffers have room, and only then.\<close>

lemma delivery:
  assumes "fits (length m)" "header_len + pad (length m) \<le> length tb" "pad (length m) \<le> length sb"
  shows "\<exists>n tb' sb'. encap m tb s = Ok (n, tb') \<and> n \<le> length tb'
     \<and> decap (take n tb') sb = Ok (pad (length m), s, sb') \<and> take (length m) sb' = m"
  using encap_room [OF assms(1,2), of s] decap_room [OF assms(1) _ assms(3)] assms(2) by fastforce

lemma delivery_iff:
  assumes "fits (length m)"
  shows "is_ok (encap m tb s) \<longleftrightarrow> header_len + pad (length m) \<le> length tb"
  using encap_small [OF assms, of tb s] encap_room [OF assms, of tb s] by fastforce

lemma outcome:
  assumes "fits (length m)"
  shows "if length tb < header_len + pad (length m) then encap m tb s = Err encap_fail
     else \<exists>tb'. encap m tb s = Ok (header_len + pad (length m), tb') \<and>
       (if length sb < pad (length m) then decap (take (header_len + pad (length m)) tb') sb = Err decap_fail
        else \<exists>sb'. decap (take (header_len + pad (length m)) tb') sb = Ok (pad (length m), s, sb')
          \<and> take (length m) sb' = m)"
proof (cases "length tb < header_len + pad (length m)")
  case True
  with encap_small [OF assms] show ?thesis by simp
next
  case False
  then obtain tb' where tb': "encap m tb s = Ok (header_len + pad (length m), tb')"
    using encap_room [OF assms, of tb s] by auto
  with False show ?thesis
    using decap_small [OF assms tb', of sb] decap_room [OF assms tb', of sb] by (cases "length sb < pad (length m)") auto
qed

text \<open>Frames determine the flag, and the message among those of the same length.\<close>

lemma frame_unique:
  assumes "fits (length m)" "fits (length m')"
    and "encap m tb s = Ok (n, tb')" "encap m' tc s' = Ok (n', tc')"
    and "take n tb' = take n' tc'"
  shows "s = s' \<and> pad (length m) = pad (length m') \<and> (length m = length m' \<longrightarrow> m = m')"
proof -
  obtain sb :: bytes where sb: "length sb = pad (length m) + pad (length m')"
    using Ex_list_of_length by blast
  obtain x where x: "decap (take n tb') sb = Ok (pad (length m), s, x)" "take (length m) x = m"
    using decap_room [OF assms(1,3), of sb] sb by auto
  obtain y where y: "decap (take n' tc') sb = Ok (pad (length m'), s', y)" "take (length m') y = m'"
    using decap_room [OF assms(2,4), of sb] sb by auto
  have "s = s' \<and> pad (length m) = pad (length m') \<and> x = y"
    using x(1) y(1) assms(5) by simp
  with x(2) y(2) show ?thesis by metis
qed

end

text \<open>The bytes reported by an \<open>encap\<close> that writes a header and then the payload.\<close>

lemma take_frame:
  assumes "length img + k \<le> length tb" and "length m \<le> k"
  shows "take (length img + k) (copy_at (length img) m (copy_at 0 img tb)) =
     img @ m @ take (k - length m) (drop (length img + length m) tb)"
  using assms by (simp add: copy_at_def min_def add.commute)

definition mctp_header :: "MctpMessageType \<Rightarrow> bytes" where
  "mctp_header ty = mctp_image \<lparr>mctp_type = ty\<rparr>"

lemma mctp_header_encode:
  "MctpMessageType_of_u8 (MctpMessageType_get_u8 ty) = ty \<Longrightarrow>
   MctpMessageHeader_encode \<lparr>mctp_type = ty\<rparr> (Writer_init tb) =
     (if length tb < 1 then Inl EncodeErr else Inr (1, Writer_append (mctp_header ty) (Writer_init tb)))"
  using writesD [OF MctpMessageHeader.encode_writes, of "\<lparr>mctp_type = ty\<rparr>" "Writer_init tb"]
  by (simp add: mctp_valid_def mctp_header_def mctp_image_def)

lemma mctp_header_read:
  "MctpMessageType_of_u8 (MctpMessageType_get_u8 ty) = ty \<Longrightarrow>
   MctpMessageHeader_read (Reader_init (mctp_header ty @ bs)) =
     Some (\<lparr>mctp_type = ty\<rparr>, rdr (mctp_header ty) bs)"
  using readsD [OF MctpMessageHeader.read_reads, of "\<lparr>mctp_type = ty\<rparr>" "[]" bs]
  by (simp add: mctp_valid_def mctp_header_def Reader_init_rdr)

lemma length_mctp_header [simp]: "length (mctp_header ty) = 1"
  by (simp add: mctp_header_def mctp_image_def)


lemma mctp_encap_eq:
  "mctp_encap m tb s = (if length tb < 1 + length m then Err SPDM_STATUS_ENCAP_FAIL
     else Ok (1 + length m, copy_at 1 m (copy_at 0 (mctp_header (if s then MctpMessageTypeSecuredMctp
            else MctpMessageTypeSpdm)) tb)))"
  by (auto simp: mctp_encap_def mctp_header_encode MctpMessageType_of_u8_def Let_def Writer_used_def
      Writer_append_init)

lemma mctp_encap_app_eq:
  "mctp_encap_app m tb s = (if length tb < 1 + length m then Err SPDM_STATUS_ENCAP_APP_FAIL
     else Ok (1 + length m, copy_at 1 m (copy_at 0 (mctp_header (if s then MctpMessageTypePldm
            else MctpMessageTypeSpdm)) tb)))"
  by (auto simp: mctp_encap_app_def mctp_header_encode MctpMessageType_of_u8_def Let_def Writer_used_def
      Writer_append_init)

lemma mctp_decap_eq:
  "mctp_decap (mctp_header (if s then MctpMessageTypeSecuredMctp else MctpMessageTypeSpdm) @ m) sb =
     (if length sb < length m then Err SPDM_STATUS_DECAP_FAIL else Ok (length m, s, copy_at 0 m sb))"
  by (auto simp: mctp_decap_def mctp_header_read MctpMessageType_of_u8_def Let_def Reader_used_def rdr_def)

lemma mctp_decap_app_eq:
  "mctp_decap_app (mctp_header (if s then MctpMessageTypePldm else MctpMessageTypeSpdm) @ m) sb =
     (if length sb < length m then Err SPDM_STATUS_DECAP_APP_FAIL else Ok (length m, s, copy_at 0 m sb))"
  by (auto simp: mctp_decap_app_def mctp_header_read MctpMessageType_of_u8_def Let_def Reader_used_def rdr_def)

lemma take_mctp_frame:
  "1 + length m \<le> length tb \<Longrightarrow>
   take (1 + length m) (copy_at 1 m (copy_at 0 (mctp_header ty) tb)) = mctp_header ty @ m"
  using take_frame [of "mctp_header ty" "length m" tb m] by simp

lemma take_copy_at_0 [simp]: "length m \<le> length sb \<Longrightarrow> take (length m) (copy_at 0 m sb) = m"
  by (simp add: copy_at_def)

interpretation mctp: transport_encap mctp_encap mctp_decap 1 "\<lambda>n. n" "\<lambda>_. True"
  SPDM_STATUS_ENCAP_FAIL SPDM_STATUS_DECAP_FAIL
proof unfold_locales
  fix m tb s n tb' sb
  assume "mctp_encap m tb s = Ok (n, tb')"
  then have "take n tb' = mctp_header (if s then MctpMessageTypeSecuredMctp else MctpMessageTypeSpdm) @ m"
    by (auto simp only: mctp_encap_eq split: if_splits) (simp_all add: take_mctp_frame [simplified])
  note eq = this
  show "length sb < length m \<Longrightarrow> mctp_decap (take n tb') sb = Err SPDM_STATUS_DECAP_FAIL"
    by (simp only: eq mctp_decap_eq if_True)
  show "length m \<le> length sb \<Longrightarrow> \<exists>sb'. mctp_decap (take n tb') sb = Ok (length m, s, sb')
      \<and> length sb' = length sb \<and> take (length m) sb' = m"
    by (simp only: eq mctp_decap_eq) simp
qed (simp_all add: mctp_encap_eq)

interpretation mctp_app: transport_encap mctp_encap_app mctp_decap_app 1 "\<lambda>n. n" "\<lambda>_. True"
  SPDM_STATUS_ENCAP_APP_FAIL SPDM_STATUS_DECAP_APP_FAIL
proof unfold_locales
  fix m tb s n tb' sb
  assume "mctp_encap_app m tb s = Ok (n, tb')"
  then have "take n tb' = mctp_header (if s then MctpMessageTypePldm else MctpMessageTypeSpdm) @ m"
    by (auto simp only: mctp_encap_app_eq split: if_splits) (simp_all add: take_mctp_frame [simplified])
  note eq = this
  show "length sb < length m \<Longrightarrow> mctp_decap_app (take n tb') sb = Err SPDM_STATUS_DECAP_APP_FAIL"
    by (simp only: eq mctp_decap_app_eq if_True)
  show "length m \<le> length sb \<Longrightarrow> \<exists>sb'. mctp_decap_app (take n tb') sb = Ok (length m, s, sb')
      \<and> length sb' = length sb \<and> take (length m) sb' = m"
    by (simp only: eq mctp_decap_app_eq) simp
qed (simp_all add: mctp_encap_app_eq)

text \<open>The DOE header that \<open>encap\<close> builds, and the rounding of the payload to dwords.\<close>

definition doe_pad :: "usize \<Rightarrow> usize" where
  "doe_pad n = (n + 3) div 4 * 4"

definition doe_header :: "usize \<Rightarrow> bool \<Rightarrow> PciDoeMessageHeader" where
  "doe_header n s = \<lparr>vendor_id = PciDoeVendorIdPciSig,
     data_object_type = (if s then PciDoeDataObjectTypeSecuredSpdm else PciDoeDataObjectTypeSpdm),
     payload_length = of_nat (doe_pad n), connection_id = 0\<rparr>"

lemma doe_pad_ge: "n \<le> doe_pad n"
  by (simp add: doe_pad_def)

lemma doe_pad_le: "n \<le> 1048568 \<Longrightarrow> doe_pad n \<le> 1048568"
  by (simp add: doe_pad_def)

lemma doe_header_valid: "n \<le> 1048568 \<Longrightarrow> doe_valid (doe_header n s) \<and> connection_id (doe_header n s) = 0"
  using doe_pad_le [of n]
  by (simp add: doe_valid_def doe_header_def doe_payload_ok_def PciDoeVendorId_of_u16_def
      PciDoeDataObjectType_of_u8_def) (simp add: doe_pad_def)

lemma pcidoe_encap_eq:
  assumes "length m \<le> 1048568"
  shows "pcidoe_encap m tb s = (if length tb < 8 + doe_pad (length m) then Err SPDM_STATUS_ENCAP_FAIL
     else Ok (8 + doe_pad (length m), copy_at 8 m (copy_at 0 (doe_image (doe_header (length m) s)) tb)))"
proof -
  have "PciDoeMessageHeader_encode (doe_header (length m) s) (Writer_init tb) =
     (if length tb < 8 then Inl EncodeErr
      else Inr (8, Writer_append (doe_image (doe_header (length m) s)) (Writer_init tb)))"
    using writesD [OF PciDoeMessageHeader.encode_writes [OF doe_header_valid [OF assms, of s]] writer_ok_init, of tb]
    by simp
  then show ?thesis
    by (auto simp: pcidoe_encap_def Let_def doe_header_def [symmetric] doe_pad_def [symmetric]
        Writer_used_def Writer_append_init)
qed

lemma pcidoe_decap_eq:
  assumes "length m \<le> 1048568" and "length m + length p = doe_pad (length m)"
  shows "pcidoe_decap (doe_image (doe_header (length m) s) @ m @ p) sb =
     (if length sb < doe_pad (length m) then Err SPDM_STATUS_DECAP_FAIL
      else Ok (doe_pad (length m), s, copy_at 0 (m @ p) sb))"
proof -
  let ?h = "doe_header (length m) s"
  have "PciDoeMessageHeader_read (Reader_init (doe_image ?h @ m @ p)) = Some (?h, rdr (doe_image ?h) (m @ p))"
    using readsD [OF PciDoeMessageHeader.read_reads [OF doe_header_valid [OF assms(1), of s]], of "[]" "m @ p"]
    by (simp add: Reader_init_rdr)
  moreover have "unat (payload_length ?h) = doe_pad (length m)"
    using doe_pad_le [OF assms(1)] by (simp add: doe_header_def)
  ultimately show ?thesis
    using assms(2)
    by (auto simp: pcidoe_decap_def Let_def Reader_used_def rdr_def) (auto simp: doe_header_def)
qed


text \<open>A DOE data object carries at most \<open>2\<^sup>1\<^sup>8\<close> dwords, two of them header.\<close>

interpretation doe: transport_encap pcidoe_encap pcidoe_decap 8 doe_pad "\<lambda>n. n \<le> 1048568"
  SPDM_STATUS_ENCAP_FAIL SPDM_STATUS_DECAP_FAIL
proof unfold_locales
  fix m tb s n tb' sb
  assume m: "length m \<le> 1048568" and "pcidoe_encap m tb s = Ok (n, tb')"
  then have room: "8 + doe_pad (length m) \<le> length tb" and n: "n = 8 + doe_pad (length m)"
    and tb': "tb' = copy_at 8 m (copy_at 0 (doe_image (doe_header (length m) s)) tb)"
    by (auto simp: pcidoe_encap_eq split: if_splits)
  define p where "p = take (doe_pad (length m) - length m) (drop (8 + length m) tb)"
  have eq: "take n tb' = doe_image (doe_header (length m) s) @ m @ p"
    using take_frame [of "doe_image (doe_header (length m) s)" "doe_pad (length m)" tb m] room doe_pad_ge
    by (simp add: n tb' p_def)
  have len: "length m + length p = doe_pad (length m)"
    using room doe_pad_ge [of "length m"] by (simp add: p_def)
  note decap = pcidoe_decap_eq [OF m len, of s sb]
  show "length sb < doe_pad (length m) \<Longrightarrow> pcidoe_decap (take n tb') sb = Err SPDM_STATUS_DECAP_FAIL"
    by (simp only: eq decap if_True)
  show "doe_pad (length m) \<le> length sb \<Longrightarrow> \<exists>sb'. pcidoe_decap (take n tb') sb =
      Ok (doe_pad (length m), s, sb') \<and> length sb' = length sb \<and> take (length m) sb' = m"
    using len by (simp only: eq decap) (simp add: copy_at_def)
next
  fix m tb :: bytes and s assume m: "length m \<le> 1048568" and room: "8 + doe_pad (length m) \<le> length tb"
  then have "8 + length m \<le> length tb" using doe_pad_ge [of "length m"] by linarith
  with m room show "\<exists>tb'. pcidoe_encap m tb s = Ok (8 + doe_pad (length m), tb') \<and> length tb' = length tb"
    by (simp add: pcidoe_encap_eq)
qed (simp_all add: pcidoe_encap_eq doe_pad_ge)


end
