(* ===== verification/Answers.thy ===== *)
theory Answers
  imports Responder Transport
begin

text \<open>
  What the responder answers to a request in the clear over the MCTP transport: the framing, the
  encoding of a response into an empty buffer, and the answer to GET_VERSION, which the responder gives
  in every state.
\<close>

subsection \<open>A response written into an empty buffer\<close>

lemma message_encode_writes:
  assumes "\<And>x. code \<noteq> SpdmRequestResponseCodeUnknown x" "swrites payload bs"
  shows "swrites (message_encode ver code payload) (SpdmVersion_u8 ver # code_of code # bs)"
proof -
  have h: "writes EncodeErr (SpdmMessageHeader_encode \<lparr>version = ver, request_response_code = code\<rparr>)
      [SpdmVersion_u8 ver, code_of code]"
    using SpdmMessageHeader.encode_writes [of "\<lparr>version = ver, request_response_code = code\<rparr>"] assms(1)
    by (simp add: SpdmMessageHeader_valid_def SpdmMessageHeader_image_def)
  have "swrites (message_encode ver code payload) ([SpdmVersion_u8 ver, code_of code] @ bs)"
    unfolding message_encode_def by (intro writes_seq_Cons writes_seq_single writes_full h assms(2))
  then show ?thesis by simp
qed

lemma respond_eq:
  assumes "\<And>x. code \<noteq> SpdmRequestResponseCodeUnknown x" "swrites payload bs" "2 + length bs \<le> length buf"
  shows "respond ver code payload (Writer_init buf) self k =
      k (Writer_append (SpdmVersion_u8 ver # code_of code # bs) (Writer_init buf))"
    "Writer_used_slice (Writer_append (SpdmVersion_u8 ver # code_of code # bs) (Writer_init buf)) = SpdmVersion_u8 ver # code_of code # bs"
proof -
  let ?m = "SpdmVersion_u8 ver # code_of code # bs"
  have "message_encode ver code payload (Writer_init buf) = Inr (length ?m, Writer_append ?m (Writer_init buf))"
    using writesD [OF message_encode_writes [OF assms(1,2)], of "Writer_init buf" ver] assms(3) by simp
  then show "respond ver code payload (Writer_init buf) self k = k (Writer_append ?m (Writer_init buf))"
    by (simp only: respond_def attempt_def) simp
  show "Writer_used_slice (Writer_append ?m (Writer_init buf)) = ?m" using assms(3) by simp
qed

subsection \<open>GET_VERSION\<close>

text \<open>The versions that a configuration lists, each once.\<close>

definition versions_ok :: "SpdmConfigInfo \<Rightarrow> bool" where
  "versions_ok config \<longleftrightarrow> (let vs = flatten (cfg_spdm_version config) in vs \<noteq> [] \<and> distinct vs)"

lemma version_payload_valid:
  assumes "versions_ok config"
  obtains p where "version_payload config = Some p" "SpdmVersionResponsePayload_valid p"
    "take (unat (version_number_entry_count p)) (versions p) =
       map (\<lambda>v. \<lparr>vs_update = 0, vs_version = v\<rparr>) (flatten (cfg_spdm_version config))"
    "length (SpdmVersionResponsePayload_image p) \<le> 14"
proof -
  let ?vs = "map (\<lambda>v. \<lparr>vs_update = 0, vs_version = v\<rparr>) (flatten (cfg_spdm_version config))"
  let ?p = "\<lparr>version_number_entry_count = of_nat (length ?vs), versions = copy_at 0 ?vs (replicate 5 SpdmVersionStruct_default)\<rparr>"
  have d: "distinct (map vs_version ?vs)" "?vs \<noteq> []" using assms by (simp_all add: versions_ok_def Let_def comp_def)
  have le: "length ?vs \<le> 5" using version_count_bound [OF d(1)] by simp
  then have p: "version_payload config = Some ?p" by (simp add: version_payload_def)
  have c: "copy_at 0 ?vs (replicate 5 SpdmVersionStruct_default) = ?vs @ replicate (5 - length ?vs) SpdmVersionStruct_default"
    by (simp add: copy_at_def)
  have v: "SpdmVersionResponsePayload_valid ?p"
    using d unfolding SpdmVersionResponsePayload_valid_def c by (intro exI [of _ ?vs]) simp
  have n: "unat (of_nat (length ?vs) :: u8) = length ?vs" using le by (intro unat_of_nat_u8) simp
  then have t: "take (unat (version_number_entry_count ?p)) (versions ?p) = ?vs" using c by simp
  have "length (concat (map SpdmVersionStruct_image xs)) = 2 * length xs" for xs
    by (induction xs) (simp_all add: SpdmVersionStruct_image_def)
  from this [of ?vs] have "length (SpdmVersionResponsePayload_image ?p) \<le> 14"
    unfolding SpdmVersionResponsePayload_image_def t using le by simp
  with p v t that show thesis by blast
qed

text \<open>What the transcript of the connection holds of the messages that were appended to it.\<close>

definition message_a_ok :: "bytes \<Rightarrow> 'h SpdmContext \<Rightarrow> bool" where
  "message_a_ok bs self \<longleftrightarrow> ManagedBuffer_ok MAX_MANAGED_BUFFER_A_SIZE (message_a (runtime_info self))
     \<and> ManagedBuffer_as_ref (message_a (runtime_info self)) = bs"

lemma append_message_a_ok:
  assumes "message_a_ok bs self" "length bs + length m \<le> MAX_MANAGED_BUFFER_A_SIZE"
  obtains s where "append_message_a m self = (Ok (), s)" "message_a_ok (bs @ m) s"
proof -
  have ok: "ManagedBuffer_ok MAX_MANAGED_BUFFER_A_SIZE (message_a (runtime_info self))"
    and bs: "ManagedBuffer_as_ref (message_a (runtime_info self)) = bs" using assms(1) by (simp_all add: message_a_ok_def)
  obtain k b where b: "ManagedBuffer_append_message m (message_a (runtime_info self)) = Some (k, b)"
    using ManagedBuffer_append_None [OF ok, of m] assms(2) bs by fastforce
  from ManagedBuffer_append_Some [OF ok this] that show thesis
    by (auto simp: append_message_a_def b message_a_ok_def bs)
qed

lemma message_a_reset: "message_a_ok [] (reset_context self)"
  by (simp add: message_a_ok_def reset_context_def reset_peer_info_def reset_negotiate_info_def reset_runtime_info_def
      SpdmRuntimeInfo_default_def Let_def)

abbreviation get_version_request :: bytes where
  "get_version_request \<equiv> [0x10, 0x84, 0, 0]"

lemma get_version_header:
  "SpdmMessageHeader_read (Reader_init get_version_request) =
     Some (\<lparr>version = SpdmVersion10, request_response_code = SpdmRequestGetVersion\<rparr>, rdr [0x10, 0x84] [0, 0])"
  using readsD [OF SpdmMessageHeader.read_reads, of "\<lparr>version = SpdmVersion10, request_response_code = SpdmRequestGetVersion\<rparr>" "[]" "[0, 0]"]
  by (simp add: SpdmMessageHeader_valid_def SpdmMessageHeader_image_def Reader_init_rdr SpdmRequestResponseCode_of_u8_def)

lemma get_version_params:
  "SpdmGetVersionRequestPayload_spdm_read (rdr [0x10, 0x84] [0, 0]) = Some ((), rdr get_version_request [])"
  using reads_params [of "[0x10, 0x84]" 0 0 "[]"] by (simp add: SpdmGetVersionRequestPayload_spdm_read_def)

lemma version_answer:
  assumes "versions_ok (config_info self)" "16 \<le> length buf"
  obtains p s where "version_payload (config_info self) = Some p" "SpdmVersionResponsePayload_valid p"
    "length (SpdmVersionResponsePayload_image p) \<le> 14"
    "handle_spdm_version get_version_request (Writer_init buf) self = (Ok (), Some (0x10 # 0x04 # SpdmVersionResponsePayload_image p), s)"
    "view s = view (reset_context self)" "message_a_ok (get_version_request @ 0x10 # 0x04 # SpdmVersionResponsePayload_image p) s"
proof -
  let ?r = "reset_context (reset_buffer_via_request_code SpdmRequestGetVersion None self)"
  have r: "view ?r = view (reset_context self)" by (rule view_reset_context) simp
  have c: "config_info ?r = config_info self"
    using view_eqD(1) [OF r] by (simp add: reset_context_def reset_peer_info_def reset_negotiate_info_def reset_runtime_info_def Let_def)
  obtain p where p: "version_payload (config_info self) = Some p" "SpdmVersionResponsePayload_valid p"
    "length (SpdmVersionResponsePayload_image p) \<le> 14" using version_payload_valid [OF assms(1)] .
  let ?m = "0x10 # 0x04 # SpdmVersionResponsePayload_image p"
  obtain s1 where s1: "append_message_a get_version_request ?r = (Ok (), s1)" "message_a_ok ([] @ get_version_request) s1"
    by (rule append_message_a_ok [OF message_a_reset, of get_version_request]) auto
  obtain s2 where s2: "append_message_a ?m s1 = (Ok (), s2)" "message_a_ok (([] @ get_version_request) @ ?m) s2"
    by (rule append_message_a_ok [OF s1(2), of ?m]) (use p(3) in simp)
  have v: "view s1 = view (reset_context self)" "view s2 = view (reset_context self)"
    using view_append(1) [OF s1(1)] view_append(1) [OF s2(1)] r by simp_all
  have "config_info s1 = config_info self" using view_eqD(1) [OF v(1)] view_eqD(1) [OF r] c by simp
  moreover have "2 + length (SpdmVersionResponsePayload_image p) \<le> length buf" using p(3) assms(2) by simp
  note rsp = respond_eq [OF _ version_rsp.encode_writes [OF p(2)] this, of SpdmResponseVersion SpdmVersion10, simplified]
  ultimately have "handle_spdm_version get_version_request (Writer_init buf) self = (Ok (), Some ?m, s2)"
    using s1(1) s2(1) p(1)
    by (simp add: handle_spdm_version_def get_version_header get_version_params present_def attempt_step_def attempt_def reply_ok_def rsp)
  with p v(2) s2(2) that show thesis by simp
qed

subsection \<open>MCTP\<close>

definition mctp_transport :: TransportEncap where
  "mctp_transport = \<lparr>tp_encap = mctp_encap, tp_decap = mctp_decap, tp_encap_app = mctp_encap_app,
     tp_decap_app = mctp_decap_app, tp_sequence_number_count = mctp_get_sequence_number_count,
     tp_max_random_count = mctp_get_max_random_count\<rparr>"

lemma mctp_transport_simps [simp]:
  "tp_encap mctp_transport = mctp_encap" "tp_decap mctp_transport = mctp_decap"
  "tp_encap_app mctp_transport = mctp_encap_app" "tp_decap_app mctp_transport = mctp_decap_app"
  by (simp_all add: mctp_transport_def)

lemma mctp_frame:
  "1 + length m \<le> length tb \<Longrightarrow> \<exists>tb'. mctp_encap m tb False = Ok (1 + length m, tb') \<and> take (1 + length m) tb' = 5 # m"
  "length m \<le> length sb \<Longrightarrow> \<exists>sb'. mctp_decap (5 # m) sb = Ok (length m, False, sb') \<and> take (length m) sb' = m"
proof -
  have h: "mctp_header MctpMessageTypeSpdm = [5]" by (simp add: mctp_header_def mctp_image_def)
  show "1 + length m \<le> length tb \<Longrightarrow> \<exists>tb'. mctp_encap m tb False = Ok (1 + length m, tb') \<and> take (1 + length m) tb' = 5 # m"
    using mctp_encap_eq [of m tb False] take_mctp_frame [of m tb MctpMessageTypeSpdm] h by simp
  show "length m \<le> length sb \<Longrightarrow> \<exists>sb'. mctp_decap (5 # m) sb = Ok (length m, False, sb') \<and> take (length m) sb' = m"
    using mctp_decap_eq [of False m sb] h by simp
qed

text \<open>A message in the clear over MCTP, which reaches the dispatcher as it is and is answered in a frame.\<close>

lemma process_clear:
  assumes "svc_transport S = mctp_transport" "length m \<le> SPDM_DATA_TRANSFER_SIZE"
  shows "process_message S dev False h (Inr (5 # m)) self =
    answer S dev None False (dispatch_message S m (Writer_init (replicate MAX_SPDM_MSG_SIZE 0)) self)"
proof -
  have "length m \<le> length (replicate RECEIVER_BUFFER_SIZE (0 :: u8))" using assms(2) by (simp add: RECEIVER_BUFFER_SIZE_def)
  from mctp_frame(2) [OF this] show ?thesis using assms(1) by (auto simp: process_message_def)
qed

lemma answer_clear:
  assumes "svc_transport S = mctp_transport" "dev (5 # m) = Ok ()"
    and "limit_response None m False s = m" "2 \<le> length m" "length m \<le> SPDM_SENDER_DATA_TRANSFER_SIZE"
    and "after_send None (m ! 1) s = (Ok (), s')"
  shows "answer S dev None False (Ok (), Some m, s) = (Processed None, Some (5 # m), s')"
proof -
  have "1 + length m \<le> length (replicate SENDER_BUFFER_SIZE (0 :: u8))" using assms(5) by (simp add: SENDER_BUFFER_SIZE_def)
  from mctp_frame(1) [OF this] show ?thesis using assms
    by (auto simp: answer_def send_message_def Let_def)
qed

lemma limit_small:
  assumes "req_max_spdm_msg_size_sel (negotiate_info s) = 0 \<or> length m \<le> unat (req_max_spdm_msg_size_sel (negotiate_info s))"
    and "req_data_transfer_size_sel (negotiate_info s) = 0 \<or> length m \<le> unat (req_data_transfer_size_sel (negotiate_info s))"
    and "length m \<le> SPDM_SENDER_DATA_TRANSFER_SIZE"
  shows "limit_response None m False s = m"
  using assms by (auto simp: limit_response_def Let_def)

lemma reset_negotiate: "negotiate_info (reset_context self) = SpdmNegotiateInfo_default"
  by (simp add: reset_context_def reset_peer_info_def reset_negotiate_info_def reset_runtime_info_def Let_def)

lemma get_version_answered:
  assumes "svc_transport S = mctp_transport" "\<And>m. dev m = Ok ()" "versions_ok (config_info self)"
  obtains p s' where "version_payload (config_info self) = Some p" "SpdmVersionResponsePayload_valid p"
    "process_message S dev False h (Inr (5 # get_version_request)) self =
       (Processed None, Some (5 # 0x10 # 0x04 # SpdmVersionResponsePayload_image p), s')"
    "abs_of s' = (SpdmConnectionAfterVersion, map (\<lambda>_. dead) (get_session_status self))"
    "negotiate_info s' = SpdmNegotiateInfo_default" "config_info s' = config_info self"
    "message_a_ok (get_version_request @ 0x10 # 0x04 # SpdmVersionResponsePayload_image p) s'"
proof -
  obtain p s where p: "version_payload (config_info self) = Some p" "SpdmVersionResponsePayload_valid p"
    and h: "handle_spdm_version get_version_request (Writer_init (replicate MAX_SPDM_MSG_SIZE 0)) self =
      (Ok (), Some (0x10 # 0x04 # SpdmVersionResponsePayload_image p), s)"
    and v: "view s = view (reset_context self)"
    and a: "message_a_ok (get_version_request @ 0x10 # 0x04 # SpdmVersionResponsePayload_image p) s"
    and l: "length (SpdmVersionResponsePayload_image p) \<le> 14"
    by (rule version_answer [OF assms(3), of "replicate MAX_SPDM_MSG_SIZE 0"]) auto
  let ?m = "0x10 # 0x04 # SpdmVersionResponsePayload_image p"
  let ?s' = "set_connection_state SpdmConnectionAfterVersion s"
  have n: "negotiate_info s = SpdmNegotiateInfo_default" using view_eqD(2) [OF v] by (simp add: reset_negotiate)
  have "limit_response None ?m False s = ?m" by (rule limit_small) (use n l in \<open>simp_all add: SpdmNegotiateInfo_default_def\<close>)
  moreover have "after_send None (?m ! 1) s = (Ok (), ?s')" using after_send_codes(1) [of None s] by simp
  ultimately have "answer S dev None False (Ok (), Some ?m, s) = (Processed None, Some (5 # ?m), ?s')"
    using l by (intro answer_clear [OF assms(1,2)]) simp_all
  then have "process_message S dev False h (Inr (5 # get_version_request)) self = (Processed None, Some (5 # ?m), ?s')"
    using h by (simp add: process_clear [OF assms(1)] dispatch_message_def get_version_header)
  moreover have "abs_of ?s' = (SpdmConnectionAfterVersion, map (\<lambda>_. dead) (get_session_status self))"
    using view_eqD(7) [OF v] by (simp add: abs_connection status_reset)
  moreover have "config_info ?s' = config_info self"
    using view_eqD(1) [OF v] by (simp add: reset_context_def reset_peer_info_def reset_negotiate_info_def reset_runtime_info_def Let_def)
  moreover have "message_a_ok bs ?s'" if "message_a_ok bs s" for bs using that by (simp add: message_a_ok_def)
  ultimately show thesis using that p n a by simp
qed

subsection \<open>KEY_EXCHANGE with the event policy\<close>

lemma message_header_read:
  assumes "\<And>x. code \<noteq> SpdmRequestResponseCodeUnknown x"
  shows "SpdmMessageHeader_read (Reader_init (SpdmVersion_u8 ver # code_of code # bs)) =
     Some (\<lparr>version = ver, request_response_code = code\<rparr>, rdr [SpdmVersion_u8 ver, code_of code] bs)"
  using readsD [OF SpdmMessageHeader.read_reads, of "\<lparr>version = ver, request_response_code = code\<rparr>" "[]" bs] assms
  by (simp add: SpdmMessageHeader_valid_def SpdmMessageHeader_image_def Reader_init_rdr)

lemma answer_empty:
  assumes "svc_transport S = mctp_transport" "dev [5] = Ok ()"
  shows "answer S dev None False (Err e, Some [], s) = (Crashed, Some [5], s)"
proof -
  have "limit_response None [] False s = []" by (rule limit_small) simp_all
  moreover have "1 + length [] \<le> length (replicate SENDER_BUFFER_SIZE (0 :: u8))" by (simp add: SENDER_BUFFER_SIZE_def)
  note mctp_frame(1) [OF this]
  ultimately show ?thesis using assms by (auto simp: answer_def send_message_def Let_def)
qed

lemma with_header_read:
  assumes "\<And>x. code \<noteq> SpdmRequestResponseCodeUnknown x"
  shows "with_header (SpdmVersion_u8 (ver_sel self) # code_of code # bs) w self k =
    k (rdr [SpdmVersion_u8 (ver_sel self), code_of code] bs)"
  using message_header_read [OF assms] by (simp only: with_header_def option.case prod.case) simp

lemma with_session_header_read:
  assumes "negotiated self" "SpdmVersion11 \<le> ver_sel self" "\<And>x. code \<noteq> SpdmRequestResponseCodeUnknown x"
  shows "with_session_header (SpdmVersion_u8 (ver_sel self) # code_of code # bs) w self k =
    k (rdr [SpdmVersion_u8 (ver_sel self), code_of code] bs)"
  using assms(1,2) unfolding with_session_header_def negotiated_def
  by (simp only: with_header_read [OF assms(3)] not_less [symmetric] if_False)

lemma event_policy_answer:
  assumes "negotiated self" "SpdmVersion11 \<le> ver_sel self"
    and "SpdmKeyExchangeRequestPayload_valid (reset_buffer_via_request_code SpdmRequestKeyExchange None self) ke"
    and "ke_measurement_summary_hash_type ke = SpdmMeasurementSummaryHashTypeNone"
    and "ke_session_policy ke AND KEY_EXCHANGE_REQUESTER_SESSION_POLICY_EVENT_ALL_POLICY_MASK = 2"
    and "rsp_has self SpdmResponseCapabilityFlags_EVENT_CAP"
  shows "\<exists>s. handle_spdm_key_exchange S (SpdmVersion_u8 (ver_sel self) # code_of SpdmRequestKeyExchange #
      SpdmKeyExchangeRequestPayload_image ke) (Writer_init buf) self = (Err SPDM_STATUS_INVALID_MSG_FIELD, Some [], s)"
proof -
  let ?r = "reset_buffer_via_request_code SpdmRequestKeyExchange None self"
  have v: "view ?r = view self" by simp
  let ?h = "[SpdmVersion_u8 (ver_sel self), code_of SpdmRequestKeyExchange]"
  have read: "SpdmKeyExchangeRequestPayload_spdm_read ?r (rdr ?h (SpdmKeyExchangeRequestPayload_image ke)) =
      Inr (ke, rdr (?h @ SpdmKeyExchangeRequestPayload_image ke) [])"
    using key_exchange_req.read_image [OF assms(3), of ?h "[]"] by (simp only: append_Nil2)
  have n: "negotiate_info ?r = negotiate_info self" using view_eqD(2) [OF v] .
  have hdr: "with_session_header (SpdmVersion_u8 (ver_sel self) # code_of SpdmRequestKeyExchange # bs) w self k =
    k (rdr ?h bs)" for bs w k
    by (rule with_session_header_read [OF assms(1,2)]) simp
  show ?thesis
    unfolding handle_spdm_key_exchange_def hdr Let_def
    by (simp only: read parsed_def sum.case prod.case with_summary_hash_def assms(4))
      (use assms(5,6) n in \<open>simp\<close>)
qed

end
