(* ===== verification/SampleResponder.thy ===== *)
theory SampleResponder
  imports SampleContext Answers
begin

text \<open>
  A concrete environment of the responder: no vendor handler, an application that sends nothing, no
  signing key and no source of randomness, over MCTP.
\<close>

definition sample_services :: "bytes Services" where
  "sample_services =
     \<lparr>svc_crypto = sample_crypto, svc_get_random = (\<lambda>_. Err SPDM_STATUS_CRYPTO_ERROR),
      svc_get_cert_from_cert_chain = (\<lambda>_ _. Err SPDM_STATUS_INVALID_CERT),
      svc_verify_cert_chain = (\<lambda>_. Err SPDM_STATUS_INVALID_CERT), svc_kem_generate_key_pair = (\<lambda>_. None),
      svc_kem_encap_key = (\<lambda>_ _. None), svc_dhe_generate_key_pair = (\<lambda>_. None),
      svc_asym_sign = (\<lambda>_ _ _ _. None), svc_pqc_asym_sign = (\<lambda>_ _ _ _. None),
      svc_asym_verify = (\<lambda>_ _ _ _ _. Err SPDM_STATUS_VERIF_FAIL),
      svc_pqc_asym_verify = (\<lambda>_ _ _ _ _. Err SPDM_STATUS_VERIF_FAIL),
      svc_measurement_summary_hash = (\<lambda>_ _ _ _ _. None), svc_measurement_collection = (\<lambda>_ _ _ _. None),
      svc_vendor_defined_request_handler = (\<lambda>_ _. Err SPDM_STATUS_UNSUPPORTED_CAP),
      svc_vendor_defined_request_handler_ex = None,
      svc_app_message = (\<lambda>_ _ _ _ self. (Ok (), None, self)), svc_transport = mctp_transport\<rparr>"

lemma sample_services_simps [simp]:
  "svc_transport sample_services = mctp_transport" "svc_crypto sample_services = sample_crypto"
  by (simp_all add: sample_services_def)

lemma sample_vendor_ok: "vendor_ok sample_services"
  by (simp add: vendor_ok_def sample_services_def)

lemma sample_app_ok: "app_ok sample_services"
  unfolding app_ok_def using error_harmless by (auto simp: sample_services_def answers_def intro!: exI [of _ error_code])

abbreviation sample_responder :: "bytes SpdmContext" where
  "sample_responder \<equiv> SpdmContext_new sample_config SpdmProvisionInfo_default"

lemma sample_versions_ok: "versions_ok (config_info sample_responder)"
  by (simp add: versions_ok_def SpdmContext_new_def sample_config_def)

lemma sample_get_version:
  "\<exists>sent s'. process_message sample_services (\<lambda>_. Ok ()) False 0 (Inr (5 # get_version_request)) sample_responder
       = (Processed None, sent, s') \<and> connection_state (runtime_info s') = SpdmConnectionAfterVersion
     \<and> get_session_status s' = replicate MAX_SPDM_SESSION_COUNT dead"
  by (rule get_version_answered [OF _ _ sample_versions_ok, of sample_services "\<lambda>_. Ok ()" 0])
    (auto simp: abs_of_def new_status)

lemma sample_version_answer:
  "version_payload (config_info sample_responder) = Some p \<Longrightarrow> SpdmVersionResponsePayload_image p = [0, 0, 0, 1, 0, 0x12]"
  by (auto simp: version_payload_def SpdmContext_new_def sample_config_def SpdmVersionResponsePayload_image_def copy_at_def
      SpdmVersionStruct_image_def)

text \<open>A responder that has negotiated version 1.3 and events, with a session in the first slot.\<close>

definition sample_open_context :: "bytes SpdmContext" where
  "sample_open_context = sample_psk_context
     \<lparr>negotiate_info := SpdmNegotiateInfo_default
        \<lparr>spdm_version_sel := SpdmVersion13, base_hash_sel := SpdmBaseHashAlgo_TPM_ALG_SHA_384,
         dhe_sel := SpdmDheAlgo_SECP_384_R1, rsp_capabilities_sel := SpdmResponseCapabilityFlags_EVENT_CAP\<rparr>,
      runtime_info := SpdmRuntimeInfo_default\<lparr>connection_state := SpdmConnectionNegotiated\<rparr>\<rparr>"

lemma sample_open_fields:
  "negotiated sample_open_context" "ver_sel sample_open_context = SpdmVersion13"
  "rsp_has sample_open_context SpdmResponseCapabilityFlags_EVENT_CAP"
  by (simp_all add: sample_open_context_def negotiated_def contains_def)

lemma sample_open_status:
  "get_session_status sample_open_context = [(0xFFFDFFFD, SpdmSessionNotStarted), dead, dead, dead]"
proof -
  have "get_session_status sample_open_context = get_session_status sample_psk_context"
    by (simp add: get_session_status_def sample_open_context_def)
  also have "\<dots> = update_first (\<lambda>x. fst x = 0) (\<lambda>_. (0xFFFDFFFD, SpdmSessionNotStarted)) (get_session_status sample_context)"
    by (simp add: sample_psk_context_def status_put life_def) (simp add: sample_psk_session_def set_crypto_param_def SpdmSession_new_def)
  also have "get_session_status sample_context = replicate MAX_SPDM_SESSION_COUNT dead"
    using new_status [of sample_config SpdmProvisionInfo_default] by (simp add: sample_context_def get_session_status_def)
  finally show ?thesis by (simp add: numeral_eq_Suc)
qed

lemma sample_open_inv: "resp_inv (abs_of sample_open_context)"
proof -
  have "at_least SpdmConnectionNegotiated (connection_state (runtime_info sample_open_context))"
    by (simp add: sample_open_context_def at_least_def)
  moreover have "half_session_id False 0xFFFDFFFD = INITIAL_SESSION_ID" by (simp add: half_session_id_def)
  then have "ids_ok [0xFFFDFFFD, 0, 0, 0]" by (auto simp: ids_ok_def nth_Cons split: nat.splits)
  ultimately show ?thesis by (simp add: resp_inv_def abs_of_def sample_open_status)
qed

definition sample_event_request :: SpdmKeyExchangeRequestPayload where
  "sample_event_request =
     \<lparr>ke_measurement_summary_hash_type = SpdmMeasurementSummaryHashTypeNone, ke_slot_id = 0, ke_req_session_id = 7,
      ke_session_policy = 2, ke_random = replicate SPDM_RANDOM_SIZE 9,
      ke_exchange = \<lparr>data_size = 96, data = replicate 96 4 @ replicate (SPDM_MAX_REQ_KEY_EXCHANGE_SIZE - 96) 0\<rparr>,
      ke_opaque = SpdmOpaqueStruct_default\<rparr>"

lemma sample_event_valid:
  assumes "negotiate_info ctx = negotiate_info sample_open_context"
  shows "SpdmKeyExchangeRequestPayload_valid ctx sample_event_request"
  using assms
  by (simp add: SpdmKeyExchangeRequestPayload_valid_def sample_event_request_def summary_type_ok_def req_slot_ok_def
      session_policy_masked_def sample_open_context_def SpdmVersion_order sized_valid_def Sized_canonical_def Sized_ok_def
      get_req_key_exchange_size_def SpdmDheAlgo_get_key_size_def SpdmNegotiateInfo_default_def SpdmOpaqueStruct_default_def Sized_default_def)

lemma sample_no_header: "SpdmMessageHeader_read (Reader_init []) = None"
  by (simp add: SpdmMessageHeader_read_def Reader_init_rdr SpdmVersion_read_def reads_simps)

end
