(* ===== verification/ReqCore.thy ===== *)
theory ReqCore
  imports Dispatch
begin

text \<open>
  What the operations of the requester share (\<open>src/spdmlib/src/requester\<close>): the device, sending and
  receiving of one message (\<open>context.rs\<close>) and ERROR responses (\<open>handle_error_response_req.rs\<close>), without
  chunking, as the default features are.

  The requester has the device beside its context: a device is a state with an operation that sends a
  frame and one that returns the frame it received or how much it read before it failed. An
  operation returns its result with the new state, also when it fails; \<open>andThen\<close> is the operator \<open>?\<close>
  between two operations. An operation that handles a response has no device.
\<close>

subsection \<open>State and operations\<close>

record 'd SpdmDeviceIo =
  dio_send :: "bytes \<Rightarrow> 'd \<Rightarrow> unit SpdmResult \<times> 'd"
  dio_receive :: "'d \<Rightarrow> (usize + bytes) \<times> 'd"

record ('d, 'h) RequesterContext =
  rq_device :: 'd
  rq_common :: "'h SpdmContext"

definition andThen :: "'a SpdmResult \<times> 's \<Rightarrow> ('a \<Rightarrow> 's \<Rightarrow> 'b SpdmResult \<times> 's) \<Rightarrow> 'b SpdmResult \<times> 's" where
  "andThen m k = (case m of (Inl e, s) \<Rightarrow> (Inl e, s) | (Inr x, s) \<Rightarrow> k x s)"

abbreviation upd_peer :: "(SpdmPeerInfo \<Rightarrow> SpdmPeerInfo) \<Rightarrow> 'h SpdmContext \<Rightarrow> 'h SpdmContext" where
  "upd_peer f self \<equiv> self\<lparr>peer_info := f (peer_info self)\<rparr>"

text \<open>An operation on the context alone, as an operation of the requester, and a value.\<close>

definition on_common ::
  "('h SpdmContext \<Rightarrow> 'a SpdmResult \<times> 'h SpdmContext) \<Rightarrow> ('d, 'h) RequesterContext \<Rightarrow>
     'a SpdmResult \<times> ('d, 'h) RequesterContext" where
  "on_common f self = (case f (rq_common self) of (res, c) \<Rightarrow> (res, self\<lparr>rq_common := c\<rparr>))"

abbreviation upd_common ::
  "('h SpdmContext \<Rightarrow> 'h SpdmContext) \<Rightarrow> ('d, 'h) RequesterContext \<Rightarrow> ('d, 'h) RequesterContext" where
  "upd_common f self \<equiv> self\<lparr>rq_common := f (rq_common self)\<rparr>"

lemma andThen_simps [simp]: "andThen (Inl e, s) k = (Inl e, s)" "andThen (Inr x, s) k = k x s"
  by (simp_all add: andThen_def)

lemma andThen_eq_Ok: "andThen m k = (Ok y, t) \<longleftrightarrow> (\<exists>x s. m = (Ok x, s) \<and> k x s = (Ok y, t))"
  by (auto simp: andThen_def split: prod.splits sum.splits)

lemma on_common_eq_Ok:
  "on_common f self = (Ok x, t) \<longleftrightarrow> (\<exists>c. f (rq_common self) = (Ok x, c) \<and> t = self\<lparr>rq_common := c\<rparr>)"
  by (auto simp: on_common_def split: prod.splits)

lemma andThen_assoc: "andThen (andThen m f) g = andThen m (\<lambda>x s. andThen (f x s) g)"
  by (simp add: andThen_def split: prod.split sum.split)

subsection \<open>Sending and receiving\<close>

definition req_send_single_message ::
  "'h Services \<Rightarrow> 'd SpdmDeviceIo \<Rightarrow> u32 option \<Rightarrow> bytes \<Rightarrow> bool \<Rightarrow> ('d, 'h) RequesterContext \<Rightarrow>
     unit SpdmResult \<times> ('d, 'h) RequesterContext" where
  "req_send_single_message S io sid send_buffer is_app_message self =
     (let n = negotiate_info (rq_common self); transport_buffer = replicate SENDER_BUFFER_SIZE 0 in
      if (rsp_data_transfer_size_sel n \<noteq> 0 \<and> unat (rsp_data_transfer_size_sel n) < length send_buffer)
         \<or> SPDM_SENDER_DATA_TRANSFER_SIZE < length send_buffer
      then (Err SPDM_STATUS_SEND_FAIL, self)
      else if is_app_message \<and> sid = None then (Err SPDM_STATUS_SEND_FAIL, self)
      else andThen
        (case sid of
           Some i \<Rightarrow> on_common (encode_secured_message (svc_transport S) (svc_crypto S) i send_buffer transport_buffer True
                                is_app_message) self
         | None \<Rightarrow> (tp_encap (svc_transport S) send_buffer transport_buffer False, self))
        (\<lambda>(used, buf) self. case dio_send io (take used buf) (rq_device self) of
           (res, d) \<Rightarrow> (res, self\<lparr>rq_device := d\<rparr>)))"

definition req_send_message ::
  "'h Services \<Rightarrow> 'd SpdmDeviceIo \<Rightarrow> u32 option \<Rightarrow> bytes \<Rightarrow> bool \<Rightarrow> ('d, 'h) RequesterContext \<Rightarrow>
     unit SpdmResult \<times> ('d, 'h) RequesterContext" where
  "req_send_message S io sid send_buffer is_app_message self =
     (let n = negotiate_info (rq_common self) in
      if rsp_max_spdm_msg_size_sel n \<noteq> 0 \<and> unat (rsp_max_spdm_msg_size_sel n) < length send_buffer
      then (Err SPDM_STATUS_SEND_FAIL, self)
      else if MAX_SPDM_MSG_SIZE < length send_buffer then (Err SPDM_STATUS_SEND_FAIL, self)
      else if is_app_message then req_send_single_message S io sid send_buffer is_app_message self
      else if (rsp_data_transfer_size_sel n \<noteq> 0 \<and> unat (rsp_data_transfer_size_sel n) < length send_buffer)
              \<or> SPDM_SENDER_DATA_TRANSFER_SIZE < length send_buffer
      then (Err SPDM_STATUS_SEND_FAIL, self)
      else req_send_single_message S io sid send_buffer is_app_message self)"

text \<open>A message that is not protected.\<close>

definition context_decap ::
  "TransportEncap \<Rightarrow> bytes \<Rightarrow> bytes \<Rightarrow> 'h SpdmContext \<Rightarrow> (usize \<times> bytes) SpdmResult \<times> 'h SpdmContext" where
  "context_decap T transport_buffer receive_buffer self =
     (bindR (tp_decap T transport_buffer receive_buffer) (\<lambda>(used, secured_message, buf).
        if secured_message then Err SPDM_STATUS_DECAP_FAIL else Ok (used, buf)), self)"

text \<open>The timeout of a request with cryptography is \<open>2 << rsp_ct_exponent_sel\<close>.\<close>

definition req_receive_message ::
  "'h Services \<Rightarrow> 'd SpdmDeviceIo \<Rightarrow> u32 option \<Rightarrow> bool \<Rightarrow> ('d, 'h) RequesterContext \<Rightarrow>
     bytes SpdmResult \<times> ('d, 'h) RequesterContext" where
  "req_receive_message S io sid crypto_request self =
     (if crypto_request \<and> 64 \<le> unat (rsp_ct_exponent_sel (negotiate_info (rq_common self))) then (panic, self)
      else case dio_receive io (rq_device self) of
        (Inl _, d) \<Rightarrow> (Err SPDM_STATUS_RECEIVE_FAIL, self\<lparr>rq_device := d\<rparr>)
      | (Inr frame, d) \<Rightarrow>
          let buf = replicate SPDM_DATA_TRANSFER_SIZE 0 in
          andThen (on_common (case sid of
                     Some i \<Rightarrow> decode_secured_message (svc_transport S) (svc_crypto S) i frame buf
                   | None \<Rightarrow> context_decap (svc_transport S) frame buf) (self\<lparr>rq_device := d\<rparr>))
            (\<lambda>(used, buf) self. (Ok (take used buf), self)))"

text \<open>\<open>request.spdm_encode(&mut self.common, &mut writer)\<close> over a buffer for a message; the first bytes of
  the buffer, as many as the encoder returns, are sent.\<close>

definition encode_request_buffer ::
  "SpdmVersion \<Rightarrow> SpdmRequestResponseCode \<Rightarrow> fault encoder \<Rightarrow> (usize \<times> bytes) SpdmResult" where
  "encode_request_buffer ver code payload =
     bindR (message_encode ver code payload (Writer_init (replicate MAX_SPDM_MSG_SIZE 0)))
       (\<lambda>(send_used, w). Ok (send_used, wr_buf w))"

definition encode_request :: "SpdmVersion \<Rightarrow> SpdmRequestResponseCode \<Rightarrow> fault encoder \<Rightarrow> bytes SpdmResult" where
  "encode_request ver code payload =
     bindR (encode_request_buffer ver code payload) (\<lambda>(send_used, buf). slice 0 send_used buf)"

subsection \<open>ERROR responses\<close>

definition spdm_handle_simple_error_response ::
  "u32 option \<Rightarrow> u8 \<Rightarrow> 'h SpdmContext \<Rightarrow> SpdmStatus \<times> 'h SpdmContext" where
  "spdm_handle_simple_error_response sid error_code self =
     (if error_code = SpdmErrorCode_get_u8 SpdmErrorResponseNotReady then (SPDM_STATUS_NOT_READY_PEER, self)
      else if error_code = SpdmErrorCode_get_u8 SpdmErrorBusy then (SPDM_STATUS_BUSY_PEER, self)
      else if error_code = SpdmErrorCode_get_u8 SpdmErrorRequestResynch
      then (case sid of
              None \<Rightarrow> (SPDM_STATUS_INVALID_STATE_PEER, self)
            | Some i \<Rightarrow> (case get_session_via_id i self of
                  None \<Rightarrow> (SPDM_STATUS_INVALID_PARAMETER, self)
                | Some s \<Rightarrow> (SPDM_STATUS_INVALID_STATE_PEER,
                            put_session i (s\<lparr>session_state := SpdmSessionNotStarted\<rparr>) self)))
      else (SPDM_STATUS_ERROR_PEER, self))"

text \<open>The result is an error whatever the response says; the response is kept with the status.\<close>

definition spdm_handle_error_response_main ::
  "u32 option \<Rightarrow> bytes \<Rightarrow> 'h SpdmContext \<Rightarrow> 'a SpdmResult \<times> 'h SpdmContext" where
  "spdm_handle_error_response_main sid response self =
     (case SpdmMessageHeader_read (Reader_init response) of
        None \<Rightarrow> (Err SPDM_STATUS_INVALID_MSG_FIELD, self)
      | Some (hdr, r) \<Rightarrow>
          if version hdr \<noteq> ver_sel self \<or> request_response_code hdr \<noteq> SpdmResponseError
          then (Err SPDM_STATUS_INVALID_MSG_FIELD, self)
          else (case u8_read (Reader_init (drop (Reader_used r) response)) of
              None \<Rightarrow> (Err SPDM_STATUS_INVALID_MSG_FIELD, self)
            | Some (param1, r) \<Rightarrow>
                (case u8_read r of
                   None \<Rightarrow> (Err SPDM_STATUS_INVALID_MSG_FIELD, self)
                 | Some _ \<Rightarrow>
                     if param1 = SpdmErrorCode_get_u8 SpdmErrorDecryptError
                     then (case sid of
                             None \<Rightarrow> (Err (spdm_status_set_error_data response SPDM_STATUS_SESSION_MSG_ERROR), self)
                           | Some i \<Rightarrow> (case get_session_via_id i self of
                                 None \<Rightarrow> (Err SPDM_STATUS_INVALID_PARAMETER, self)
                               | Some s \<Rightarrow> (Err (spdm_status_set_error_data response SPDM_STATUS_SESSION_MSG_ERROR),
                                           put_session i (session_teardown s) self)))
                     else (case spdm_handle_simple_error_response sid param1 self of
                             (status, self) \<Rightarrow> (Err (spdm_status_set_error_data response status), self)))))"

text \<open>
  The start of every operation that handles a response: the header is read; a response with the code
  \<open>expected\<close> is handled by \<open>k\<close>, an ERROR as above, any other is an error of the peer.
\<close>

definition with_response ::
  "SpdmRequestResponseCode \<Rightarrow> u32 option \<Rightarrow> bytes \<Rightarrow> (SpdmMessageHeader \<Rightarrow> Reader \<Rightarrow> 'a SpdmResult \<times> 'h SpdmContext) \<Rightarrow>
     'h SpdmContext \<Rightarrow> 'a SpdmResult \<times> 'h SpdmContext" where
  "with_response expected sid response k self =
     (case SpdmMessageHeader_read (Reader_init response) of
        None \<Rightarrow> (Err SPDM_STATUS_INVALID_MSG_FIELD, self)
      | Some (hdr, r) \<Rightarrow>
          if request_response_code hdr = expected then k hdr r
          else if request_response_code hdr = SpdmResponseError then spdm_handle_error_response_main sid response self
          else (Err SPDM_STATUS_ERROR_PEER, self))"

text \<open>Every response but VERSION must have the negotiated version.\<close>

definition with_versioned_response ::
  "SpdmRequestResponseCode \<Rightarrow> u32 option \<Rightarrow> bytes \<Rightarrow> (Reader \<Rightarrow> 'a SpdmResult \<times> 'h SpdmContext) \<Rightarrow>
     'h SpdmContext \<Rightarrow> 'a SpdmResult \<times> 'h SpdmContext" where
  "with_versioned_response expected sid response k self =
     (case SpdmMessageHeader_read (Reader_init response) of
        None \<Rightarrow> (Err SPDM_STATUS_INVALID_MSG_FIELD, self)
      | Some (hdr, _) \<Rightarrow>
          if version hdr \<noteq> ver_sel self then (Err SPDM_STATUS_INVALID_MSG_FIELD, self)
          else with_response expected sid response (\<lambda>_. k) self)"

text \<open>The payload of a response, of which the reader may panic.\<close>

definition with_payload ::
  "'a popt \<Rightarrow> 's \<Rightarrow> ('a \<Rightarrow> 'b SpdmResult \<times> 's) \<Rightarrow> 'b SpdmResult \<times> 's" where
  "with_payload m self k =
     (case m of Inr x \<Rightarrow> k x | Inl ENone \<Rightarrow> (Err SPDM_STATUS_INVALID_MSG_FIELD, self) | Inl EPanic \<Rightarrow> (panic, self))"

text \<open>Encoding and sending of a request; the bytes of the message go into the transcript later.\<close>

definition send_request ::
  "'h Services \<Rightarrow> 'd SpdmDeviceIo \<Rightarrow> u32 option \<Rightarrow> ('h SpdmContext \<Rightarrow> bytes SpdmResult \<times> 'h SpdmContext) \<Rightarrow>
     ('d, 'h) RequesterContext \<Rightarrow> bytes SpdmResult \<times> ('d, 'h) RequesterContext" where
  "send_request S io sid encode self =
     andThen (on_common encode self) (\<lambda>send_buffer self.
     andThen (req_send_message S io sid send_buffer False self) (\<lambda>_ self. (Ok send_buffer, self)))"

subsection \<open>Laws\<close>

lemma error_response_fails: "fst (spdm_handle_error_response_main sid response self) \<noteq> Ok x"
  by (auto simp: spdm_handle_error_response_main_def split: option.splits prod.splits)

lemma with_response_Ok:
  assumes "with_response expected sid response k self = (Ok x, t)"
  obtains hdr r where "SpdmMessageHeader_read (Reader_init response) = Some (hdr, r)"
    "request_response_code hdr = expected" "k hdr r = (Ok x, t)"
  using assms error_response_fails [of sid response self x]
  by (auto simp: with_response_def split: option.splits if_splits)

lemma with_versioned_response_Ok:
  assumes "with_versioned_response expected sid response k self = (Ok x, t)"
  obtains hdr r where "SpdmMessageHeader_read (Reader_init response) = Some (hdr, r)"
    "request_response_code hdr = expected" "version hdr = ver_sel self" "k r = (Ok x, t)"
  using assms error_response_fails [of sid response self x]
  by (auto simp: with_versioned_response_def with_response_def split: option.splits if_splits)

subsection \<open>Frames\<close>

text \<open>What holds of the state an operation returns, whatever its result.\<close>

definition ends :: "('s \<Rightarrow> bool) \<Rightarrow> 'a \<times> 's \<Rightarrow> bool" where
  "ends P m \<longleftrightarrow> P (snd m)"

lemma ends_pair [simp]: "ends P (res, s) \<longleftrightarrow> P s"
  by (simp add: ends_def)

lemma ends_andThen: "ends P m \<Longrightarrow> (\<And>x s. P s \<Longrightarrow> ends P (k x s)) \<Longrightarrow> ends P (andThen m k)"
  by (auto simp: andThen_def ends_def split: prod.splits sum.splits)

lemma ends_on_common: "ends (\<lambda>c. P (self\<lparr>rq_common := c\<rparr>)) (f (rq_common self)) \<Longrightarrow> ends P (on_common f self)"
  by (auto simp: on_common_def ends_def split: prod.splits)

lemma with_payload_eq_Ok: "with_payload m self k = (Ok x, t) \<longleftrightarrow> (\<exists>y. m = Inr y \<and> k y = (Ok x, t))"
  by (auto simp: with_payload_def split: sum.splits opt_err.splits)

lemma ends_with_payload:
  "P self \<Longrightarrow> (\<And>x. m = Inr x \<Longrightarrow> ends P (k x)) \<Longrightarrow> ends P (with_payload m self k)"
  by (auto simp: with_payload_def split: sum.splits opt_err.splits)

text \<open>Sessions and transcripts apart, the context is as before.\<close>

definition settled :: "'h SpdmContext \<Rightarrow> 'h SpdmContext \<Rightarrow> bool" where
  "settled a b \<longleftrightarrow> config_info b = config_info a \<and> negotiate_info b = negotiate_info a
     \<and> provision_info b = provision_info a \<and> peer_cert_chain (peer_info b) = peer_cert_chain (peer_info a)"

lemma settled_refl [simp]: "settled a a"
  by (simp add: settled_def)

lemma settled_put [simp]: "settled a (put_session i s b) = settled a b"
  by (simp add: settled_def)

lemma settled_temp [simp]: "settled a (upd_peer (peer_cert_chain_temp_update f) b) = settled a b"
  by (simp add: settled_def)

lemma settled_resets [simp]:
  "settled a (reset_message_b b) = settled a b" "settled a (reset_message_c b) = settled a b"
  "settled a (reset_message_m sid b) = settled a b"
  by (simp_all add: settled_def reset_message_m_def reset_message_b_def reset_message_c_def split: option.split)

lemma settled_reset [simp]: "settled a (reset_buffer_via_request_code code sid b) = settled a b"
  by (simp add: reset_buffer_via_request_code_def Let_def)

lemma settled_secured:
  assumes "settled a self"
  shows "ends (settled a) (encode_secured_message T C i m buf r app self)"
    and "ends (settled a) (decode_secured_message T C i m buf self)"
    and "ends (settled a) (context_decap T m buf self)"
  using assms
  by (auto simp: encode_secured_message_def decode_secured_message_def context_decap_def ends_def
      split: sum.splits option.splits prod.splits if_splits)

lemma settled_send_single:
  assumes "settled a (rq_common self)"
  shows "ends (\<lambda>s. settled a (rq_common s)) (req_send_single_message S io sid m app self)"
  using assms unfolding req_send_single_message_def Let_def
  by (auto intro!: ends_andThen ends_on_common settled_secured split: option.splits prod.splits)

lemma settled_send:
  "settled a (rq_common self) \<Longrightarrow> ends (\<lambda>s. settled a (rq_common s)) (req_send_message S io sid m app self)"
  unfolding req_send_message_def Let_def by (auto intro: settled_send_single)

lemma settled_receive:
  "settled a (rq_common self) \<Longrightarrow> ends (\<lambda>s. settled a (rq_common s)) (req_receive_message S io sid crypto self)"
  unfolding req_receive_message_def Let_def
  by (auto intro!: ends_andThen ends_on_common settled_secured split: option.splits prod.splits sum.splits)

lemma settled_send_request:
  assumes "settled a (rq_common self)" "\<And>c. snd (encode c) = c"
  shows "ends (\<lambda>s. settled a (rq_common s)) (send_request S io sid encode self)"
  unfolding send_request_def
  by (intro ends_andThen ends_on_common settled_send) (simp_all add: ends_def assms)

lemma settled_error:
  "settled a self \<Longrightarrow> ends (settled a) (spdm_handle_error_response_main sid response self)"
  by (auto simp: spdm_handle_error_response_main_def spdm_handle_simple_error_response_def split: option.splits prod.splits)

lemma settled_response:
  assumes "settled a self" "\<And>hdr r. ends (settled a) (k hdr r)"
  shows "ends (settled a) (with_response expected sid response k self)"
  using assms settled_error unfolding with_response_def by (auto split: option.splits)

lemma settled_versioned_response:
  assumes "settled a self" "\<And>r. ends (settled a) (k r)"
  shows "ends (settled a) (with_versioned_response expected sid response k self)"
  using assms settled_response [of a self "\<lambda>_. k"] unfolding with_versioned_response_def by (auto split: option.splits)

end
