(* ===== verification/ReqConnect.thy ===== *)
theory ReqConnect
  imports ReqCore
begin

text \<open>
  The requester's side of the connection: GET_VERSION, GET_CAPABILITIES and NEGOTIATE_ALGORITHMS
  (\<open>requester/get_version_req.rs\<close>, \<open>get_capabilities_req.rs\<close>, \<open>negotiate_algorithms_req.rs\<close>) and
  \<open>init_connection\<close>, which runs the three in order (\<open>requester/context.rs\<close>).
\<close>

text \<open>Request and response go into the transcript together, once the response was accepted.\<close>

definition append_exchange_a :: "bytes \<Rightarrow> bytes \<Rightarrow> 'h SpdmContext \<Rightarrow> unit SpdmResult \<times> 'h SpdmContext" where
  "append_exchange_a send_buffer received self =
     andThen (append_message_a send_buffer self) (\<lambda>_. append_message_a received)"

subsection \<open>GET_VERSION\<close>

definition encode_spdm_version :: "'h SpdmContext \<Rightarrow> bytes SpdmResult \<times> 'h SpdmContext" where
  "encode_spdm_version self =
     (encode_request SpdmVersion10 SpdmRequestGetVersion SpdmGetVersionRequestPayload_spdm_encode, self)"

text \<open>
  The array of the payload is sorted from the highest version down, with the entries that only
  fill it; of its first entries, as many as the payload has, the first version of the own
  configuration is taken.
\<close>

definition select_version :: "SpdmVersionResponsePayload \<Rightarrow> SpdmConfigInfo \<Rightarrow> SpdmVersion option" where
  "select_version p config =
     List.find (\<lambda>v. Some v \<in> set (cfg_spdm_version config))
       (take (unat (version_number_entry_count p)) (rev (sort (map vs_version (versions p)))))"

definition handle_spdm_version_response ::
  "bytes \<Rightarrow> bytes \<Rightarrow> 'h SpdmContext \<Rightarrow> unit SpdmResult \<times> 'h SpdmContext" where
  "handle_spdm_version_response send_buffer response self =
     with_response SpdmResponseVersion (Some 0) response (\<lambda>_ r.
       case SpdmVersionResponsePayload_spdm_read r of
         None \<Rightarrow> (Err SPDM_STATUS_INVALID_MSG_FIELD, self)
       | Some (p, r) \<Rightarrow>
           (case select_version p (config_info self) of
              None \<Rightarrow> (Err SPDM_STATUS_NEGOTIATION_FAIL, self)
            | Some v \<Rightarrow>
                append_exchange_a send_buffer (take (Reader_used r) response)
                  (reset_runtime_info (upd_neg (\<lambda>n. n\<lparr>spdm_version_sel := v\<rparr>) self)))) self"

definition send_receive_spdm_version ::
  "'h Services \<Rightarrow> 'd SpdmDeviceIo \<Rightarrow> ('d, 'h) RequesterContext \<Rightarrow> unit SpdmResult \<times> ('d, 'h) RequesterContext" where
  "send_receive_spdm_version S io self =
     andThen (send_request S io None encode_spdm_version (upd_common reset_context self)) (\<lambda>send_buffer self.
     andThen (req_receive_message S io None False self) (\<lambda>response.
     on_common (handle_spdm_version_response send_buffer response)))"

subsection \<open>GET_CAPABILITIES\<close>

definition capabilities_request :: "SpdmConfigInfo \<Rightarrow> SpdmGetCapabilitiesRequestPayload" where
  "capabilities_request config =
     \<lparr>gc_ct_exponent = cfg_req_ct_exponent config, gc_flags = cfg_req_capabilities config,
      gc_data_transfer_size = cfg_data_transfer_size config,
      gc_max_spdm_msg_size = cfg_max_spdm_msg_size config, gc_ex_flags = 0\<rparr>"

definition encode_spdm_capability :: "'h SpdmContext \<Rightarrow> bytes SpdmResult \<times> 'h SpdmContext" where
  "encode_spdm_capability self =
     (encode_request (ver_sel self) SpdmRequestGetCapabilities
        (SpdmGetCapabilitiesRequestPayload_spdm_encode self (capabilities_request (config_info self))), self)"

definition accept_capabilities ::
  "SpdmCapabilitiesResponsePayload \<Rightarrow> SpdmConfigInfo \<Rightarrow> SpdmNegotiateInfo \<Rightarrow> SpdmNegotiateInfo" where
  "accept_capabilities capabilities config n =
     (let n = n\<lparr>req_ct_exponent_sel := cfg_req_ct_exponent config, req_capabilities_sel := cfg_req_capabilities config,
                rsp_ct_exponent_sel := rc_ct_exponent capabilities, rsp_capabilities_sel := rc_flags capabilities\<rparr>
      in if SpdmVersion12 \<le> spdm_version_sel n
         then n\<lparr>req_data_transfer_size_sel := cfg_data_transfer_size config,
                req_max_spdm_msg_size_sel := cfg_max_spdm_msg_size config,
                rsp_data_transfer_size_sel := rc_data_transfer_size capabilities,
                rsp_max_spdm_msg_size_sel := rc_max_spdm_msg_size capabilities\<rparr>
         else n)"

definition handle_spdm_capability_response ::
  "bytes \<Rightarrow> bytes \<Rightarrow> 'h SpdmContext \<Rightarrow> unit SpdmResult \<times> 'h SpdmContext" where
  "handle_spdm_capability_response send_buffer response self =
     with_versioned_response SpdmResponseCapabilities (Some 0) response (\<lambda>r.
       case SpdmCapabilitiesResponsePayload_spdm_read self r of
         None \<Rightarrow> (Err SPDM_STATUS_INVALID_MSG_FIELD, self)
       | Some (capabilities, r) \<Rightarrow>
           append_exchange_a send_buffer (take (Reader_used r) response)
             (upd_neg (accept_capabilities capabilities (config_info self)) self)) self"

definition send_receive_spdm_capability ::
  "'h Services \<Rightarrow> 'd SpdmDeviceIo \<Rightarrow> ('d, 'h) RequesterContext \<Rightarrow> unit SpdmResult \<times> ('d, 'h) RequesterContext" where
  "send_receive_spdm_capability S io self =
     andThen (send_request S io None encode_spdm_capability
                (upd_common (reset_buffer_via_request_code SpdmRequestGetCapabilities None) self)) (\<lambda>send_buffer self.
     andThen (req_receive_message S io None False self) (\<lambda>response.
     on_common (handle_spdm_capability_response send_buffer response)))"

subsection \<open>NEGOTIATE_ALGORITHMS\<close>

definition offered_other_params :: "SpdmConfigInfo \<Rightarrow> SpdmNegotiateInfo \<Rightarrow> SpdmAlgoOtherParams" where
  "offered_other_params config n =
     (let rsp = contains (rsp_capabilities_sel n);
          own = (if SpdmVersion12 \<le> spdm_version_sel n then cfg_other_params_support config else 0)
      in if SpdmVersion13 \<le> spdm_version_sel n
            \<and> (rsp SpdmResponseCapabilityFlags_MULTI_KEY_CAP_ONLY
               \<or> rsp SpdmResponseCapabilityFlags_MULTI_KEY_CAP_CONN_SEL
                 \<and> contains (cfg_other_params_support config) SpdmAlgoOtherParams_MULTI_KEY_CONN)
         then own OR SpdmAlgoOtherParams_MULTI_KEY_CONN else own)"

definition offered_algs :: "SpdmConfigInfo \<Rightarrow> SpdmVersion \<Rightarrow> SpdmAlgStruct list" where
  "offered_algs config ver =
     (if SpdmDheAlgo_is_valid (cfg_dhe_algo config)
      then [\<lparr>alg_type = SpdmAlgTypeDHE, alg_supported = SpdmAlgoDhe (cfg_dhe_algo config)\<rparr>] else []) @
     (if SpdmAeadAlgo_is_valid (cfg_aead_algo config)
      then [\<lparr>alg_type = SpdmAlgTypeAEAD, alg_supported = SpdmAlgoAead (cfg_aead_algo config)\<rparr>] else []) @
     (if SpdmReqAsymAlgo_is_valid (cfg_req_asym_algo config)
      then [\<lparr>alg_type = SpdmAlgTypeReqAsym, alg_supported = SpdmAlgoReqAsym (cfg_req_asym_algo config)\<rparr>] else []) @
     (if SpdmKeyScheduleAlgo_is_valid (cfg_key_schedule_algo config)
      then [\<lparr>alg_type = SpdmAlgTypeKeySchedule, alg_supported = SpdmAlgoKeySchedule (cfg_key_schedule_algo config)\<rparr>] else []) @
     (if SpdmVersion14 \<le> ver \<and> SpdmPqcReqAsymAlgo_is_valid (cfg_pqc_req_asym_algo config)
      then [\<lparr>alg_type = SpdmAlgTypePqcReqAsym, alg_supported = SpdmAlgoPqcReqAsym (cfg_pqc_req_asym_algo config)\<rparr>] else []) @
     (if SpdmVersion14 \<le> ver \<and> SpdmKemAlgo_is_valid (cfg_kem_algo config)
      then [\<lparr>alg_type = SpdmAlgTypeKEM, alg_supported = SpdmAlgoKem (cfg_kem_algo config)\<rparr>] else [])"

definition algorithms_request :: "SpdmConfigInfo \<Rightarrow> SpdmNegotiateInfo \<Rightarrow> SpdmNegotiateAlgorithmsRequestPayload" where
  "algorithms_request config n =
     \<lparr>na_measurement_specification = cfg_measurement_specification config,
      na_other_params_support = offered_other_params config n,
      na_base_asym_algo = cfg_base_asym_algo config, na_base_hash_algo = cfg_base_hash_algo config,
      na_pqc_asym_algo = (if SpdmVersion14 \<le> spdm_version_sel n then cfg_pqc_asym_algo config else 0),
      na_mel_specification = (if SpdmVersion13 \<le> spdm_version_sel n then cfg_mel_specification config else 0),
      na_alg_struct_count = of_nat (length (offered_algs config (spdm_version_sel n))),
      na_alg_struct = alg_array (offered_algs config (spdm_version_sel n))\<rparr>"

definition encode_spdm_algorithm :: "'h SpdmContext \<Rightarrow> bytes SpdmResult \<times> 'h SpdmContext" where
  "encode_spdm_algorithm self =
     (encode_request (ver_sel self) SpdmRequestNegotiateAlgorithms
        (SpdmNegotiateAlgorithmsRequestPayload_spdm_encode self
           (algorithms_request (config_info self) (negotiate_info self))), self)"

text \<open>
  The checks of the selection; what was accepted before a check fails is recorded.
\<close>

definition accept_multi_key ::
  "SpdmAlgoOtherParams \<Rightarrow> SpdmConfigInfo \<Rightarrow> SpdmNegotiateInfo \<Rightarrow> unit SpdmResult \<times> SpdmNegotiateInfo" where
  "accept_multi_key params config n =
     (if spdm_version_sel n < SpdmVersion13 then (Ok (), n)
      else let rsp = contains (rsp_capabilities_sel n); req = contains (cfg_req_capabilities config);
               n = n\<lparr>multi_key_conn_rsp :=
                 (if rsp SpdmResponseCapabilityFlags_MULTI_KEY_CAP_ONLY then True
                  else if rsp SpdmResponseCapabilityFlags_MULTI_KEY_CAP_CONN_SEL
                  then contains (cfg_other_params_support config) SpdmAlgoOtherParams_MULTI_KEY_CONN
                  else False)\<rparr>
           in if contains params SpdmAlgoOtherParams_MULTI_KEY_CONN
              then if \<not> req SpdmRequestCapabilityFlags_MULTI_KEY_CAP_ONLY
                      \<and> \<not> req SpdmRequestCapabilityFlags_MULTI_KEY_CAP_CONN_SEL
                   then (Err SPDM_STATUS_NEGOTIATION_FAIL, n) else (Ok (), n\<lparr>multi_key_conn_req := True\<rparr>)
              else if req SpdmRequestCapabilityFlags_MULTI_KEY_CAP_ONLY
                   then (Err SPDM_STATUS_NEGOTIATION_FAIL, n) else (Ok (), n\<lparr>multi_key_conn_req := False\<rparr>))"

definition accept_hash_asym ::
  "SpdmAlgorithmsResponsePayload \<Rightarrow> SpdmNegotiateInfo \<Rightarrow> unit SpdmResult \<times> SpdmNegotiateInfo" where
  "accept_hash_asym al n =
     (let n = n\<lparr>measurement_hash_sel := al_measurement_hash_algo al\<rparr> in
      if al_base_hash_sel al = 0 then (Err SPDM_STATUS_NEGOTIATION_FAIL, n)
      else let n = n\<lparr>base_hash_sel := al_base_hash_sel al, base_asym_sel := al_base_asym_sel al\<rparr>;
               n = (if SpdmVersion14 \<le> spdm_version_sel n then n\<lparr>pqc_asym_sel := al_pqc_asym_sel al\<rparr> else n)
           in if al_base_asym_sel al = 0 \<and> al_pqc_asym_sel al = 0 then (Err SPDM_STATUS_NEGOTIATION_FAIL, n)
              else (Ok (), n))"

fun accept_alg :: "SpdmAlg \<Rightarrow> SpdmNegotiateInfo \<Rightarrow> SpdmNegotiateInfo option" where
  "accept_alg (SpdmAlgoDhe v) n = (if is_no_more_than_one_selected v \<or> v = 0 then Some (n\<lparr>dhe_sel := v\<rparr>) else None)"
| "accept_alg (SpdmAlgoAead v) n = (if is_no_more_than_one_selected v \<or> v = 0 then Some (n\<lparr>aead_sel := v\<rparr>) else None)"
| "accept_alg (SpdmAlgoReqAsym v) n =
     (if is_no_more_than_one_selected v \<or> v = 0 then Some (n\<lparr>req_asym_sel := v\<rparr>) else None)"
| "accept_alg (SpdmAlgoKeySchedule v) n =
     (if is_no_more_than_one_selected v \<or> v = 0 then Some (n\<lparr>key_schedule_sel := v\<rparr>) else None)"
| "accept_alg (SpdmAlgoPqcReqAsym v) n =
     (if SpdmVersion14 \<le> spdm_version_sel n
      then if is_no_more_than_one_selected v \<or> v = 0 then Some (n\<lparr>pqc_req_asym_sel := v\<rparr>) else None
      else Some n)"
| "accept_alg (SpdmAlgoKem v) n =
     (if SpdmVersion14 \<le> spdm_version_sel n
      then if is_no_more_than_one_selected v \<or> v = 0 then Some (n\<lparr>kem_sel := v\<rparr>) else None
      else Some n)"
| "accept_alg SpdmAlgoUnknown n = Some n"

fun accept_algs :: "SpdmAlgStruct list \<Rightarrow> SpdmNegotiateInfo \<Rightarrow> unit SpdmResult \<times> SpdmNegotiateInfo" where
  "accept_algs [] n = (Ok (), n)"
| "accept_algs (alg # algs) n =
     (case accept_alg (alg_supported alg) n of
        None \<Rightarrow> (Err SPDM_STATUS_INVALID_MSG_FIELD, n) | Some n \<Rightarrow> accept_algs algs n)"

definition accept_mel ::
  "SpdmMelSpecification \<Rightarrow> SpdmConfigInfo \<Rightarrow> SpdmNegotiateInfo \<Rightarrow> unit SpdmResult \<times> SpdmNegotiateInfo" where
  "accept_mel sel config n =
     (if spdm_version_sel n < SpdmVersion13 then (Ok (), n)
      else if sel \<noteq> (if cfg_mel_specification config \<noteq> 0
                      \<and> contains (rsp_capabilities_sel n) SpdmResponseCapabilityFlags_MEL_CAP
                   then SpdmMelSpecification_DMTF_MEL_SPEC else 0)
      then (Err SPDM_STATUS_INVALID_MSG_FIELD, n)
      else (Ok (), n\<lparr>mel_specification_sel := sel\<rparr>))"

definition accept_algorithms ::
  "SpdmAlgorithmsResponsePayload \<Rightarrow> SpdmConfigInfo \<Rightarrow> SpdmNegotiateInfo \<Rightarrow> unit SpdmResult \<times> SpdmNegotiateInfo" where
  "accept_algorithms al config n =
     andThen (accept_multi_key (al_other_params_selection al) config
                (n\<lparr>measurement_specification_sel := al_measurement_specification_sel al,
                   other_params_support := al_other_params_selection al\<rparr>)) (\<lambda>_ n.
     andThen (accept_hash_asym al n) (\<lambda>_ n.
     andThen (accept_algs (take (unat (al_alg_struct_count al)) (al_alg_struct al)) n) (\<lambda>_.
     accept_mel (al_mel_specification_sel al) config)))"

definition handle_spdm_algorithm_response ::
  "bytes \<Rightarrow> bytes \<Rightarrow> 'h SpdmContext \<Rightarrow> unit SpdmResult \<times> 'h SpdmContext" where
  "handle_spdm_algorithm_response send_buffer response self =
     with_versioned_response SpdmResponseAlgorithms (Some 0) response (\<lambda>r.
       case SpdmAlgorithmsResponsePayload_spdm_read self r of
         None \<Rightarrow> (Err SPDM_STATUS_INVALID_MSG_FIELD, self)
       | Some (algorithms, r) \<Rightarrow>
           (case accept_algorithms algorithms (config_info self) (negotiate_info self) of
              (res, n) \<Rightarrow>
                andThen (res, self\<lparr>negotiate_info := n\<rparr>) (\<lambda>_.
                append_exchange_a send_buffer (take (Reader_used r) response)))) self"

definition send_receive_spdm_algorithm ::
  "'h Services \<Rightarrow> 'd SpdmDeviceIo \<Rightarrow> ('d, 'h) RequesterContext \<Rightarrow> unit SpdmResult \<times> ('d, 'h) RequesterContext" where
  "send_receive_spdm_algorithm S io self =
     andThen (send_request S io None encode_spdm_algorithm
                (upd_common (reset_buffer_via_request_code SpdmRequestNegotiateAlgorithms None) self)) (\<lambda>send_buffer self.
     andThen (req_receive_message S io None False self) (\<lambda>response.
     on_common (handle_spdm_algorithm_response send_buffer response)))"

subsection \<open>The connection\<close>

text \<open>\<open>transcript_vca\<close> is set on success only, so it is the result.\<close>

definition init_connection ::
  "'h Services \<Rightarrow> 'd SpdmDeviceIo \<Rightarrow> ('d, 'h) RequesterContext \<Rightarrow> ManagedBuffer SpdmResult \<times> ('d, 'h) RequesterContext" where
  "init_connection S io self =
     andThen (send_receive_spdm_version S io self) (\<lambda>_ self.
     andThen (send_receive_spdm_capability S io self) (\<lambda>_ self.
     andThen (send_receive_spdm_algorithm S io self) (\<lambda>_ self.
     (Ok (message_a (runtime_info (rq_common self))), self))))"

end
