(* ===== verification/X509.thy ===== *)
theory X509
  imports Status Algo
begin

text \<open>
  The checks of a chain of DER encoded X.509 certificates, \<open>spdmlib/src/crypto/x509v3.rs\<close>: the format
  of a chain, whether a certificate is self-issued, and the hardware identity of a leaf.

  Every index and every slice of the source is \<open>slot_at\<close>, \<open>slice\<close> or \<open>slice_from\<close>, which panic out of
  range, so that freedom from panics is a statement about the guards of the code. A walker is a \<open>usize\<close>
  that starts at zero and never passes the end of the data.
\<close>

abbreviation vfail :: "'a SpdmResult" where "vfail \<equiv> Err SPDM_STATUS_VERIF_FAIL"

abbreviation (input) ASN1_TAG_BOOLEAN :: u8 where "ASN1_TAG_BOOLEAN \<equiv> 0x1"
abbreviation (input) ASN1_TAG_NUMBER_INTEGER :: u8 where "ASN1_TAG_NUMBER_INTEGER \<equiv> 0x2"
abbreviation (input) ASN1_TAG_BIT_STRING :: u8 where "ASN1_TAG_BIT_STRING \<equiv> 0x3"
abbreviation (input) ASN1_TAG_OCTET_STRING :: u8 where "ASN1_TAG_OCTET_STRING \<equiv> 0x4"
abbreviation (input) ASN1_TAG_NUMBER_OBJECT_IDENTIFIER :: u8 where "ASN1_TAG_NUMBER_OBJECT_IDENTIFIER \<equiv> 0x6"
abbreviation (input) ASN1_TAG_SEQUENCE :: u8 where "ASN1_TAG_SEQUENCE \<equiv> 0x30"
abbreviation (input) ASN1_TAG_EXPLICIT_EXTENSION :: u8 where "ASN1_TAG_EXPLICIT_EXTENSION \<equiv> 0xA3"
abbreviation (input) ASN1_TAG_EXTN_VALUE :: u8 where "ASN1_TAG_EXTN_VALUE \<equiv> 0x04"
abbreviation (input) X509V3_VERSION :: u8 where "X509V3_VERSION \<equiv> 2"
abbreviation (input) DIGITAL_SIGNATURE_BIT :: u8 where "DIGITAL_SIGNATURE_BIT \<equiv> 0x80"

abbreviation (input) OID_RSA :: "u8 \<Rightarrow> bytes" where "OID_RSA n \<equiv> [0x2a, 0x86, 0x48, 0x86, 0xf7, 0x0d, 0x01, 0x01, n]"
abbreviation (input) OID_ECDSA :: "u8 \<Rightarrow> bytes" where "OID_ECDSA n \<equiv> [0x2a, 0x86, 0x48, 0xce, 0x3d, 0x04, 0x03, n]"
abbreviation (input) OID_DMTF :: "u8 \<Rightarrow> bytes" where
  "OID_DMTF n \<equiv> [0x2B, 0x06, 0x01, 0x04, 0x01, 0x83, 0x1C, 0x82, 0x12, n]"
abbreviation (input) OID_DMTF_SPDM_DEVICE_INFO :: bytes where "OID_DMTF_SPDM_DEVICE_INFO \<equiv> OID_DMTF 1"
abbreviation (input) OID_DMTF_SPDM_HARDWARE_IDENTITY :: bytes where "OID_DMTF_SPDM_HARDWARE_IDENTITY \<equiv> OID_DMTF 2"
abbreviation (input) OID_DMTF_SPDM_EKU_RESPONDER_AUTH :: bytes where "OID_DMTF_SPDM_EKU_RESPONDER_AUTH \<equiv> OID_DMTF 3"
abbreviation (input) OID_DMTF_SPDM_EKU_REQUESTER_AUTH :: bytes where "OID_DMTF_SPDM_EKU_REQUESTER_AUTH \<equiv> OID_DMTF 4"
abbreviation (input) OID_DMTF_MUTABLE_CERTIFICATE :: bytes where "OID_DMTF_MUTABLE_CERTIFICATE \<equiv> OID_DMTF 5"
abbreviation (input) OID_DMTF_SPDM_EXTENSION :: bytes where "OID_DMTF_SPDM_EXTENSION \<equiv> OID_DMTF 6"
abbreviation (input) OID_KEY_USAGE :: bytes where "OID_KEY_USAGE \<equiv> [0x55, 0x1D, 0x0F]"
abbreviation (input) OID_SUBJECT_ALTERNATIVE_NAME :: bytes where "OID_SUBJECT_ALTERNATIVE_NAME \<equiv> [0x55, 0x1D, 0x11]"
abbreviation (input) OID_EXT_KEY_USAGE :: bytes where "OID_EXT_KEY_USAGE \<equiv> [0x55, 0x1D, 0x25]"

subsection \<open>Tags and lengths\<close>

text \<open>\<open>check_tag_is_sequence\<close> and the three functions of the same shape.\<close>

definition check_tag :: "u8 \<Rightarrow> bytes \<Rightarrow> unit SpdmResult" where
  "check_tag tag data = (if data = [] then vfail
     else bindR (slot_at data 0) (\<lambda>b. if b = tag then Ok () else vfail))"

abbreviation check_tag_is_sequence :: "bytes \<Rightarrow> unit SpdmResult" where
  "check_tag_is_sequence \<equiv> check_tag ASN1_TAG_SEQUENCE"
abbreviation check_tag_is_num_oid :: "bytes \<Rightarrow> unit SpdmResult" where
  "check_tag_is_num_oid \<equiv> check_tag ASN1_TAG_NUMBER_OBJECT_IDENTIFIER"
abbreviation check_tag_is_bool :: "bytes \<Rightarrow> unit SpdmResult" where
  "check_tag_is_bool \<equiv> check_tag ASN1_TAG_BOOLEAN"
abbreviation check_tag_is_octet_string :: "bytes \<Rightarrow> unit SpdmResult" where
  "check_tag_is_octet_string \<equiv> check_tag ASN1_TAG_OCTET_STRING"

text \<open>The length of what follows and the number of bytes that state it.\<close>

definition check_length :: "bytes \<Rightarrow> (usize \<times> usize) SpdmResult" where
  "check_length data =
     (if length data < 1 then vfail
      else bindR (slot_at data 0) (\<lambda>b0.
        bindR (if b0 AND 0x80 = 0 then Ok (unat b0, 1)
               else if b0 = 0x81
               then if length data < 2 then vfail
                    else bindR (slot_at data 1) (\<lambda>b1. if unat b1 < 0x80 then vfail else Ok (unat b1, 2))
               else if b0 = 0x82
               then if length data < 3 then vfail
                    else bindR (slot_at data 1) (\<lambda>b1. bindR (slot_at data 2) (\<lambda>b2.
                           let combined = 256 * unat b1 + unat b2 in if combined < 0x100 then vfail else Ok (combined, 3)))
               else vfail) (\<lambda>(len, consumed).
        if length data < consumed + len then vfail else Ok (len, consumed))))"

definition check_version :: "bytes \<Rightarrow> usize SpdmResult" where
  "check_version data =
     (if length data < 5 \<or> take 4 data \<noteq> [0xA0, 3, ASN1_TAG_NUMBER_INTEGER, 1] then vfail
      else bindR (slot_at data 4) (\<lambda>version. if version = X509V3_VERSION then Ok 5 else vfail))"

fun object_identifiers_are_same :: "bytes \<Rightarrow> bytes \<Rightarrow> bool" where
  "object_identifiers_are_same [] [] = True"
| "object_identifiers_are_same (a # as) (b # bs) = (if a = b then object_identifiers_are_same as bs else False)"
| "object_identifiers_are_same _ _ = False"

definition check_object_identifier :: "bytes \<Rightarrow> bytes option \<Rightarrow> usize SpdmResult" where
  "check_object_identifier data oid =
     (if length data < 2 then vfail
      else bindR (slot_at data 0) (\<lambda>tag. if tag \<noteq> ASN1_TAG_NUMBER_OBJECT_IDENTIFIER then vfail
      else bindR (slot_at data 1) (\<lambda>oid_length.
        if length data < unat oid_length + 2 \<or> 0x80 \<le> oid_length then vfail
        else case oid of
               Some oid \<Rightarrow> bindR (slice 2 (2 + unat oid_length) data) (\<lambda>found.
                 if object_identifiers_are_same found oid then Ok (unat oid_length + 2) else vfail)
             | None \<Rightarrow> Ok (unat oid_length + 2))))"

text \<open>A value with its tag: how many bytes it has, and its contents.\<close>

definition check_and_get_common_tag :: "bytes \<Rightarrow> (usize \<times> bytes) SpdmResult" where
  "check_and_get_common_tag data =
     (if length data < 1 then vfail
      else bindR (slice_from 1 data) (\<lambda>rest. bindR (check_length rest) (\<lambda>(len, consumed).
        if length data < 1 + consumed + len then vfail
        else bindR (slice (1 + consumed) (1 + consumed + len) data) (\<lambda>payload.
          Ok (1 + consumed + len, payload)))))"

definition check_and_skip_common_tag :: "bytes \<Rightarrow> usize SpdmResult" where
  "check_and_skip_common_tag data =
     (if length data < 1 then vfail
      else bindR (slice_from 1 data) (\<lambda>rest. bindR (check_length rest) (\<lambda>(len, consumed).
        if length data < 1 + consumed + len then vfail else Ok (1 + consumed + len))))"

text \<open>\<open>check_name\<close>, \<open>check_validity\<close> and \<open>check_public_key_info\<close> are this function.\<close>

definition check_and_skip_common_sequence :: "bytes \<Rightarrow> usize SpdmResult" where
  "check_and_skip_common_sequence data =
     (if length data < 1 then vfail
      else bindR (slot_at data 0) (\<lambda>tag. if tag \<noteq> ASN1_TAG_SEQUENCE then vfail
      else bindR (slice_from 1 data) (\<lambda>rest. bindR (check_length rest) (\<lambda>(len, consumed).
        if length data < 1 + consumed + len then vfail else Ok (1 + consumed + len)))))"

text \<open>
  Steps of a walker \<open>t\<close>: past what \<open>f\<close> accepts, and into a value of which \<open>f\<close> accepts the tag; the
  result of the second is the length of the value with the walker at its contents.
\<close>

definition advance :: "(bytes \<Rightarrow> usize SpdmResult) \<Rightarrow> bytes \<Rightarrow> usize \<Rightarrow> usize SpdmResult" where
  "advance f data t = bindR (slice_from t data) (\<lambda>d. bindR (f d) (\<lambda>consumed. Ok (t + consumed)))"

definition enter_tag :: "(bytes \<Rightarrow> unit SpdmResult) \<Rightarrow> bytes \<Rightarrow> usize \<Rightarrow> (usize \<times> usize) SpdmResult" where
  "enter_tag f data t =
     bindR (slice_from t data) (\<lambda>d. bindR (f d) (\<lambda>_.
     bindR (slice_from (t + 1) data) (\<lambda>d. bindR (check_length d) (\<lambda>(len, consumed).
     Ok (len, t + 1 + consumed)))))"

subsection \<open>Extensions\<close>

definition check_and_get_extensions :: "bytes \<Rightarrow> (usize \<times> bytes) SpdmResult" where
  "check_and_get_extensions data =
     (if length data < 1 then Ok (length data, data)
      else bindR (slot_at data 0) (\<lambda>tag. if tag \<noteq> ASN1_TAG_EXPLICIT_EXTENSION then Ok (length data, data)
      else bindR (slice_from 1 data) (\<lambda>rest. bindR (check_length rest) (\<lambda>(len, consumed).
        if length data < 1 + consumed + len then vfail
        else bindR (slice (1 + consumed) (1 + consumed + len) data) (\<lambda>ext. Ok (1 + consumed + len, ext))))))"

text \<open>What follows the object identifier of the key usage: an optional flag and the bit string in an octet string.\<close>

definition skip_critical :: "bytes \<Rightarrow> usize \<Rightarrow> usize SpdmResult" where
  "skip_critical data index =
     (if length data \<le> index then vfail
      else bindR (slot_at data index) (\<lambda>tag.
        if tag = ASN1_TAG_BOOLEAN
        then if length data \<le> index + 1 then vfail
             else bindR (slice_from (index + 1) data) (\<lambda>rest. bindR (check_length rest) (\<lambda>(len, consumed).
               let index = index + 1 + consumed + len in if length data \<le> index then vfail else Ok index))
        else Ok index))"

definition key_usage_bits :: "bytes \<Rightarrow> usize \<Rightarrow> (bool \<times> u8) SpdmResult" where
  "key_usage_bits data index =
     bindR (skip_critical data index) (\<lambda>index.
     bindR (slot_at data index) (\<lambda>tag.
     if tag \<noteq> ASN1_TAG_EXTN_VALUE \<or> length data \<le> index + 1 then vfail
     else bindR (slice_from (index + 1) data) (\<lambda>rest. bindR (check_length rest) (\<lambda>(_, consumed).
       let index = index + 1 + consumed in
       if length data \<le> index then vfail
       else bindR (slot_at data index) (\<lambda>tag.
         if tag \<noteq> ASN1_TAG_BIT_STRING then Ok (False, 0)
         else if length data \<le> index + 1 then vfail
         else bindR (slice_from (index + 1) data) (\<lambda>rest. bindR (check_length rest) (\<lambda>(len, consumed).
           let index = index + consumed + len in
           if length data \<le> index then vfail
           else bindR (slot_at data index) (\<lambda>value. Ok (True, value)))))))))"

text \<open>The search enters sequences and steps over everything else.\<close>

function key_usage_search :: "bytes \<Rightarrow> usize \<Rightarrow> (bool \<times> u8) SpdmResult" where
  "key_usage_search data index =
     (if length data \<le> index then Ok (False, 0)
      else if length data \<le> index + 1 then vfail
      else bindR (slice_from (index + 1) data) (\<lambda>rest. bindR (check_length rest) (\<lambda>(len, consumed).
        if length data - (index + 1) < consumed + len then vfail
        else bindR (slot_at data index) (\<lambda>tag.
          if tag = ASN1_TAG_SEQUENCE then key_usage_search data (index + 1 + consumed)
          else bindR (if tag = ASN1_TAG_NUMBER_OBJECT_IDENTIFIER \<and> len = length OID_KEY_USAGE
                      then bindR (slice (index + 1 + consumed) (index + 1 + consumed + len) data) (\<lambda>oid.
                             Ok (object_identifiers_are_same oid OID_KEY_USAGE))
                      else Ok False) (\<lambda>found.
            if found then key_usage_bits data (index + 1 + consumed + len)
            else key_usage_search data (index + 1 + consumed + len))))))"
  by pat_completeness auto
termination by (relation "measure (\<lambda>(data, index). length data - index)") auto

definition get_key_usage_value :: "bytes \<Rightarrow> (bool \<times> u8) SpdmResult" where
  "get_key_usage_value data =
     (if length data < 1 then vfail
      else bindR (slot_at data 0) (\<lambda>tag. if tag \<noteq> ASN1_TAG_SEQUENCE then vfail
      else bindR (slice_from 1 data) (\<lambda>rest. bindR (check_length rest) (\<lambda>(len, consumed).
        if length data < 1 + len + consumed then vfail else key_usage_search data (1 + consumed)))))"

text \<open>A search for an object identifier in one extension.\<close>

function find_oid_search :: "bytes \<Rightarrow> bytes \<Rightarrow> usize \<Rightarrow> bool SpdmResult" where
  "find_oid_search target_oid data index =
     (if length data - length target_oid \<le> index then Ok False
      else if length data \<le> index + 1 then vfail
      else bindR (slice_from (index + 1) data) (\<lambda>rest. bindR (check_length rest) (\<lambda>(len, consumed).
        if length data - (index + 1) < consumed + len then vfail
        else bindR (slot_at data index) (\<lambda>tag.
          if tag = ASN1_TAG_NUMBER_OBJECT_IDENTIFIER
          then bindR (slice (index + 1 + consumed) (index + 1 + consumed + len) data) (\<lambda>oid.
               if object_identifiers_are_same oid target_oid \<and> len = length target_oid then Ok True
               else find_oid_search target_oid data (index + 1 + consumed + len))
          else if tag = ASN1_TAG_SEQUENCE \<or> tag = ASN1_TAG_EXTN_VALUE
          then find_oid_search target_oid data (index + 1 + consumed)
          else find_oid_search target_oid data (index + 1 + consumed + len)))))"
  by pat_completeness auto
termination by (relation "measure (\<lambda>(oid, data, index). length data - index)") auto

definition find_target_object_identifier_in_single_extension :: "bytes \<Rightarrow> bytes \<Rightarrow> bool SpdmResult" where
  "find_target_object_identifier_in_single_extension data target_oid =
     (if length data < 1 then vfail
      else if length data < length target_oid then Ok False
      else find_oid_search target_oid data 0)"

definition check_and_get_extn_id :: "bytes \<Rightarrow> (bytes \<times> usize) SpdmResult" where
  "check_and_get_extn_id extn_sequences =
     (if length extn_sequences < 1 then vfail
      else bindR (slot_at extn_sequences 0) (\<lambda>tag. if tag \<noteq> ASN1_TAG_SEQUENCE then vfail
      else bindR (slice_from 1 extn_sequences) (\<lambda>rest. bindR (check_length rest) (\<lambda>(extn_len, extn_consumed).
        if length extn_sequences < 1 + extn_consumed + extn_len then vfail
        else bindR (slice_from (1 + extn_consumed) extn_sequences) (\<lambda>extn_id.
          if extn_id = [] then vfail
          else bindR (slot_at extn_id 0) (\<lambda>tag. if tag \<noteq> ASN1_TAG_NUMBER_OBJECT_IDENTIFIER then vfail
          else bindR (slice_from 1 extn_id) (\<lambda>rest. bindR (check_length rest) (\<lambda>(id_len, id_consumed).
            bindR (slice (1 + id_consumed) (1 + id_consumed + id_len) extn_id) (\<lambda>oid.
            Ok (oid, 1 + extn_consumed + extn_len))))))))))"

text \<open>
  What an extension says of the authentication of an endpoint: whether it names the responder or the
  requester. The other identifiers that are searched for are only logged, but a malformed extension
  fails.
\<close>

definition extension_auth :: "bytes \<Rightarrow> bytes \<Rightarrow> bool SpdmResult" where
  "extension_auth extnid ext =
     (let find = find_target_object_identifier_in_single_extension ext in
      if object_identifiers_are_same extnid OID_SUBJECT_ALTERNATIVE_NAME
      then bindR (find OID_DMTF_SPDM_DEVICE_INFO) (\<lambda>_. Ok False)
      else if object_identifiers_are_same extnid OID_EXT_KEY_USAGE
      then bindR (find OID_DMTF_SPDM_EKU_RESPONDER_AUTH) (\<lambda>found.
           if found then Ok True else find OID_DMTF_SPDM_EKU_REQUESTER_AUTH)
      else if object_identifiers_are_same extnid OID_DMTF_SPDM_EXTENSION
      then bindR (find OID_DMTF_MUTABLE_CERTIFICATE) (\<lambda>found.
           if found then Ok False else bindR (find OID_DMTF_SPDM_HARDWARE_IDENTITY) (\<lambda>_. Ok False))
      else Ok False)"

text \<open>The length of an extension is at least two, which makes the walker advance.\<close>

lemma extn_id_advances: "check_and_get_extn_id data = Ok (oid, n) \<Longrightarrow> 0 < n"
  by (auto simp: check_and_get_extn_id_def bindR_eq_Inr split: if_splits)

function extensions_auth :: "bytes \<Rightarrow> usize \<Rightarrow> usize \<Rightarrow> bool \<Rightarrow> bool SpdmResult" where
  "extensions_auth extn_sequences payload_length index auth =
     (if payload_length \<le> index then Ok auth
      else bindR (slice_from index extn_sequences) (\<lambda>rest. bindR (check_and_get_extn_id rest) (\<lambda>(extnid, len).
        if payload_length - index < len then vfail
        else bindR (slice index (index + len) extn_sequences) (\<lambda>ext.
          bindR (extension_auth extnid ext) (\<lambda>found.
          extensions_auth extn_sequences payload_length (index + len) (auth \<or> found))))))"
  by pat_completeness auto
termination
  by (relation "measure (\<lambda>(_, payload_length, index, _). payload_length - index)") (auto dest!: extn_id_advances)

definition check_extensions_spdm_oid :: "bytes \<Rightarrow> bool \<Rightarrow> bool SpdmResult" where
  "check_extensions_spdm_oid extensions is_leaf_cert =
     (if length extensions < 1 then vfail
      else bindR (slot_at extensions 0) (\<lambda>tag. if tag \<noteq> ASN1_TAG_SEQUENCE then vfail
      else bindR (slice_from 1 extensions) (\<lambda>rest. bindR (check_length rest) (\<lambda>(len, consumed).
        bindR (slice_from (1 + consumed) extensions) (\<lambda>extn_sequences.
        if length extn_sequences < len then vfail
        else bindR (extensions_auth extn_sequences len 0 False) (\<lambda>auth. Ok (\<not> (\<not> is_leaf_cert \<and> auth))))))))"

text \<open>
  The search for an object identifier in all extensions, of which only those with the identifier of
  SPDM extensions are opened.
\<close>

definition step_in :: "usize \<Rightarrow> (bytes \<Rightarrow> unit SpdmResult) \<Rightarrow> bytes \<Rightarrow> usize \<Rightarrow> (usize \<times> usize) SpdmResult" where
  "step_in len tag data walker =
     bindR (slice_from walker data) (\<lambda>d. bindR (tag d) (\<lambda>_.
     let walker = walker + 1 in
     if len \<le> walker then vfail
     else bindR (slice_from walker data) (\<lambda>d. bindR (check_length d) (\<lambda>(n, consumed).
       let walker = walker + consumed in if len \<le> walker then vfail else Ok (n, walker)))))"

definition spdm_extension_has :: "usize \<Rightarrow> bytes \<Rightarrow> bytes \<Rightarrow> usize \<Rightarrow> bool SpdmResult" where
  "spdm_extension_has len target_oid data walker =
     (if len \<le> walker then vfail
      else bindR (slice_from walker data) (\<lambda>d.
        let walker = (if is_ok (check_tag_is_bool d) then walker + 3 else walker) in
        if len \<le> walker then vfail
        else bindR (step_in len check_tag_is_octet_string data walker) (\<lambda>(_, walker).
          bindR (step_in len check_tag_is_sequence data walker) (\<lambda>(_, walker).
          bindR (step_in len check_tag_is_sequence data walker) (\<lambda>(_, walker).
          bindR (step_in len check_tag_is_num_oid data walker) (\<lambda>(n, walker).
          if n \<noteq> length target_oid then vfail
          else if walker + n \<le> len
          then bindR (slice walker (walker + n) data) (\<lambda>oid. Ok (object_identifiers_are_same oid target_oid))
          else Ok False))))))"

lemma step_in_advances: "step_in len tag data walker = Ok (n, walker') \<Longrightarrow> walker < walker'"
  by (auto simp: step_in_def bindR_eq_Inr Let_def split: if_splits)

function find_in_extensions :: "usize \<Rightarrow> bytes \<Rightarrow> bytes \<Rightarrow> usize \<Rightarrow> bool SpdmResult" where
  "find_in_extensions len target_oid data walker =
     (if len \<le> walker then Ok False
      else bindR (step_in len check_tag_is_sequence data walker) (\<lambda>(extension_length, walker').
        let next_ext_walker = walker' + extension_length in
        bindR (step_in len check_tag_is_num_oid data walker') (\<lambda>(payload_length, walker'').
        bindR (if walker'' + payload_length < len
               then bindR (slice walker'' (walker'' + payload_length) data) (\<lambda>oid.
                      if object_identifiers_are_same oid OID_DMTF_SPDM_EXTENSION
                      then spdm_extension_has len target_oid data (walker'' + payload_length) else Ok False)
               else Ok False) (\<lambda>found.
        if found then Ok True else find_in_extensions len target_oid data next_ext_walker))))"
  by pat_completeness auto
termination
  by (relation "measure (\<lambda>(len, _, _, walker). len - walker)") (auto dest!: step_in_advances)

definition find_target_object_identifier_in_extensions :: "bytes \<Rightarrow> bytes \<Rightarrow> bool SpdmResult" where
  "find_target_object_identifier_in_extensions data target_oid =
     (if length data \<le> 0 then vfail
      else bindR (slice_from 0 data) (\<lambda>d. bindR (check_tag_is_sequence d) (\<lambda>_.
        if length data \<le> 1 then vfail
        else bindR (slice_from 1 data) (\<lambda>d. bindR (check_length d) (\<lambda>(len, consumed).
          let walker = 1 + consumed in
          if length data - walker < len then vfail
          else bindR (slice walker (walker + len) data) (\<lambda>d. find_in_extensions len target_oid d 0))))))"

subsection \<open>Certificates\<close>

definition get_oid_by_base_asym_algo :: "SpdmBaseAsymAlgo \<Rightarrow> bytes option" where
  "get_oid_by_base_asym_algo algo =
     (if algo = SpdmBaseAsymAlgo_TPM_ALG_RSASSA_2048 \<or> algo = SpdmBaseAsymAlgo_TPM_ALG_RSAPSS_2048 then Some (OID_RSA 0x0b)
      else if algo = SpdmBaseAsymAlgo_TPM_ALG_RSASSA_3072 \<or> algo = SpdmBaseAsymAlgo_TPM_ALG_RSAPSS_3072
      then Some (OID_RSA 0x0c)
      else if algo = SpdmBaseAsymAlgo_TPM_ALG_ECDSA_ECC_NIST_P256 then Some (OID_ECDSA 2)
      else if algo = SpdmBaseAsymAlgo_TPM_ALG_RSASSA_4096 \<or> algo = SpdmBaseAsymAlgo_TPM_ALG_RSAPSS_4096
      then Some (OID_RSA 0x0d)
      else if algo = SpdmBaseAsymAlgo_TPM_ALG_ECDSA_ECC_NIST_P384 then Some (OID_ECDSA 3)
      else None)"

text \<open>
  The first fields of the certificate to be signed, which three functions walk in the same way:
  version, serial number and signature algorithm. The result is the walker behind them, with the
  place where the fields begin and their length.
\<close>

definition tbs_start :: "bytes option \<Rightarrow> bytes \<Rightarrow> (usize \<times> usize \<times> usize) SpdmResult" where
  "tbs_start oid data =
     bindR (check_tag_is_sequence data) (\<lambda>_.
     bindR (slice_from 1 data) (\<lambda>d. bindR (check_length d) (\<lambda>(tbs_length, consumed).
     let t = 1 + consumed in
     if length data < t + tbs_length then vfail
     else bindR (advance check_version data t) (\<lambda>u.
       bindR (advance check_and_skip_common_tag data u) (\<lambda>u.
       bindR (enter_tag check_tag_is_sequence data u) (\<lambda>(signature_id_length, u).
       bindR (slice_from u data) (\<lambda>d. bindR (check_object_identifier d oid) (\<lambda>_.
       Ok (t, tbs_length, u + signature_id_length)))))))))"

definition check_tbs_certificate :: "bytes \<Rightarrow> SpdmBaseAsymAlgo \<Rightarrow> bool \<Rightarrow> usize SpdmResult" where
  "check_tbs_certificate data base_asym_algo is_leaf_cert =
     bindR (tbs_start (if is_leaf_cert then get_oid_by_base_asym_algo base_asym_algo else None) data) (\<lambda>(start, tbs_length, t).
     bindR (advance check_and_skip_common_sequence data t) (\<lambda>t.
     bindR (advance check_and_skip_common_sequence data t) (\<lambda>t.
     bindR (advance check_and_skip_common_sequence data t) (\<lambda>t.
     bindR (advance check_and_skip_common_sequence data t) (\<lambda>t.
     bindR (slice_from t data) (\<lambda>d. bindR (check_and_get_extensions d) (\<lambda>(consumed, ext).
     bindR (get_key_usage_value ext) (\<lambda>(find_key_usage, key_usage_value).
     let usage_ok = (if is_leaf_cert
           then \<not> (find_key_usage \<and> DIGITAL_SIGNATURE_BIT AND key_usage_value \<noteq> DIGITAL_SIGNATURE_BIT) else True) in
     bindR (check_extensions_spdm_oid ext is_leaf_cert) (\<lambda>extn_ok.
     if t + consumed = start + tbs_length \<and> usage_ok \<and> extn_ok then Ok (start + tbs_length) else vfail)))))))))"

definition check_signature_algorithm :: "bytes \<Rightarrow> SpdmBaseAsymAlgo \<Rightarrow> bool \<Rightarrow> usize SpdmResult" where
  "check_signature_algorithm data base_asym_algo is_leaf_cert =
     bindR (enter_tag check_tag_is_sequence data 0) (\<lambda>(signature_id_length, s).
     bindR (slice_from s data) (\<lambda>d.
     bindR (check_object_identifier d (if is_leaf_cert then get_oid_by_base_asym_algo base_asym_algo else None)) (\<lambda>_.
     Ok (s + signature_id_length))))"

text \<open>The last certificate of a chain, with nothing behind it, is the leaf.\<close>

definition check_cert_format :: "bytes \<Rightarrow> SpdmBaseAsymAlgo \<Rightarrow> usize SpdmResult" where
  "check_cert_format cert base_asym_algo =
     bindR (check_tag_is_sequence cert) (\<lambda>_.
     bindR (slice_from 1 cert) (\<lambda>d. bindR (check_length d) (\<lambda>(body_size, consumed).
     let c = 1 + consumed; leaf = (length cert = c + body_size) in
     bindR (advance (\<lambda>d. check_tbs_certificate d base_asym_algo leaf) cert c) (\<lambda>c.
     bindR (advance (\<lambda>d. check_signature_algorithm d base_asym_algo leaf) cert c) (\<lambda>c.
     bindR (advance check_and_skip_common_tag cert c) (\<lambda>c.
     if c = 1 + consumed + body_size then Ok c else vfail))))))"

lemma cert_format_advances: "check_cert_format cert algo = Ok n \<Longrightarrow> 0 < n"
  by (auto simp: check_cert_format_def bindR_eq_Inr Let_def split: if_splits)

function cert_chain_walk :: "bytes \<Rightarrow> SpdmBaseAsymAlgo \<Rightarrow> usize \<Rightarrow> usize \<Rightarrow> usize SpdmResult" where
  "cert_chain_walk cert_chain base_asym_algo cc_walker cert_count =
     (if cc_walker < length cert_chain
      then bindR (slice_from cc_walker cert_chain) (\<lambda>rest. bindR (check_cert_format rest base_asym_algo) (\<lambda>n.
             cert_chain_walk cert_chain base_asym_algo (cc_walker + n) (cert_count + 1)))
      else if cc_walker = length cert_chain then Ok cert_count else vfail)"
  by pat_completeness auto
termination
  by (relation "measure (\<lambda>(chain, _, walker, _). length chain - walker)") (auto dest!: cert_format_advances)

definition check_cert_chain_format :: "bytes \<Rightarrow> SpdmBaseAsymAlgo \<Rightarrow> usize SpdmResult" where
  "check_cert_chain_format cert_chain base_asym_algo = cert_chain_walk cert_chain base_asym_algo 0 0"

text \<open>The data behind the outer header of a certificate.\<close>

definition tbs_data :: "bytes \<Rightarrow> bytes SpdmResult" where
  "tbs_data cert =
     bindR (check_tag_is_sequence cert) (\<lambda>_.
     bindR (slice_from 1 cert) (\<lambda>d. bindR (check_length d) (\<lambda>(_, consumed). slice_from (1 + consumed) cert)))"

text \<open>A root certificate has one name as its issuer and its subject.\<close>

definition is_root_certificate :: "bytes \<Rightarrow> unit SpdmResult" where
  "is_root_certificate cert =
     bindR (tbs_data cert) (\<lambda>data.
     bindR (tbs_start None data) (\<lambda>(_, _, t).
     bindR (slice_from t data) (\<lambda>d. bindR (check_and_get_common_tag d) (\<lambda>(consumed, issuer).
     bindR (advance check_and_skip_common_sequence data (t + consumed)) (\<lambda>t.
     bindR (slice_from t data) (\<lambda>d. bindR (check_and_get_common_tag d) (\<lambda>(_, subject).
     if subject = issuer then Ok () else vfail)))))))"

text \<open>In the alias model a leaf must not have the hardware identity; in the device model it may have it.\<close>

definition check_leaf_certificate :: "bytes \<Rightarrow> bool \<Rightarrow> unit SpdmResult" where
  "check_leaf_certificate cert is_alias_cert_model =
     bindR (tbs_data cert) (\<lambda>data.
     bindR (tbs_start None data) (\<lambda>(_, _, t).
     bindR (advance check_and_skip_common_sequence data t) (\<lambda>t.
     bindR (advance check_and_skip_common_sequence data t) (\<lambda>t.
     bindR (advance check_and_skip_common_sequence data t) (\<lambda>t.
     bindR (advance check_and_skip_common_sequence data t) (\<lambda>t.
     bindR (slice_from t data) (\<lambda>d. bindR (check_and_get_extensions d) (\<lambda>(_, ext).
     let find = find_target_object_identifier_in_extensions ext OID_DMTF_SPDM_HARDWARE_IDENTITY in
     bindR (if is_alias_cert_model then find else Ok False) (\<lambda>found.
     if is_alias_cert_model \<and> found then vfail
     else if is_alias_cert_model then Ok () else bindR find (\<lambda>_. Ok ()))))))))))"

subsection \<open>Laws\<close>

declare key_usage_search.simps [simp del] find_oid_search.simps [simp del] extensions_auth.simps [simp del]
  find_in_extensions.simps [simp del] cert_chain_walk.simps [simp del]

text \<open>A result that is not a panic, and that \<open>P\<close> holds of if it is a value.\<close>

definition safely :: "('a \<Rightarrow> bool) \<Rightarrow> 'a SpdmResult \<Rightarrow> bool" where
  "safely P m \<longleftrightarrow> (case m of Inr x \<Rightarrow> P x | Inl e \<Rightarrow> e \<noteq> Panic)"

lemma safely_simps [simp]: "safely P (Ok x) = P x" "safely P (Err s)" "\<not> safely P panic"
  by (simp_all add: safely_def)

lemma safely_weaken: "safely P m \<Longrightarrow> (\<And>x. P x \<Longrightarrow> Q x) \<Longrightarrow> safely Q m"
  by (auto simp: safely_def split: sum.splits)

lemma safely_no_panic: "safely P m \<Longrightarrow> m \<noteq> panic"
  by auto

lemma safely_bind: "safely P m \<Longrightarrow> (\<And>x. P x \<Longrightarrow> safely Q (k x)) \<Longrightarrow> safely Q (bindR m k)"
  by (cases m) (auto simp: safely_def)

lemma safely_if: "(b \<Longrightarrow> safely P x) \<Longrightarrow> (\<not> b \<Longrightarrow> safely P y) \<Longrightarrow> safely P (if b then x else y)"
  by simp

lemma safely_prod: "(\<And>a b. p = (a, b) \<Longrightarrow> safely P (k a b)) \<Longrightarrow> safely P (case p of (a, b) \<Rightarrow> k a b)"
  by (cases p) simp

lemma safely_let: "safely P (k v) \<Longrightarrow> safely P (let x = v in k x)"
  by simp

lemma safely_at: "i < length xs \<Longrightarrow> safely (\<lambda>_. True) (slot_at xs i)"
  by (simp add: slot_at_def)

lemma safely_slice: "i \<le> j \<Longrightarrow> j \<le> length bs \<Longrightarrow> safely (\<lambda>r. length r = j - i) (slice i j bs)"
  by (simp add: slice_def)

lemma safely_slice_from: "i \<le> length bs \<Longrightarrow> safely (\<lambda>r. length r = length bs - i) (slice_from i bs)"
  by (simp add: slice_from_def)

lemma safely_tag: "safely (\<lambda>_. data \<noteq> []) (check_tag tag data)"
  by (simp add: check_tag_def slot_at_def)

lemma safely_length: "safely (\<lambda>(len, consumed). 1 \<le> consumed \<and> consumed + len \<le> length data) (check_length data)"
  by (auto simp: check_length_def slot_at_def Let_def split: if_splits)

text \<open>The steps that walk over data.\<close>

lemma safely_bind_length:
  "(\<And>len consumed. 1 \<le> consumed \<Longrightarrow> consumed + len \<le> length data \<Longrightarrow> safely Q (k (len, consumed))) \<Longrightarrow>
     safely Q (bindR (check_length data) k)"
  by (rule safely_bind [OF safely_length]) auto

lemmas safely_steps = safely_bind [OF safely_at] safely_bind [OF safely_slice] safely_bind [OF safely_slice_from]
  safely_bind [OF safely_tag] safely_bind_length safely_if safely_prod safely_let

lemma safely_version: "safely (\<lambda>n. n \<le> length data) (check_version data)"
  by (simp add: check_version_def slot_at_def)

lemma safely_object_identifier: "safely (\<lambda>n. n \<le> length data) (check_object_identifier data oid)"
  by (auto simp: check_object_identifier_def slot_at_def slice_def split: option.splits)

lemma safely_skip_tag: "safely (\<lambda>n. n \<le> length data) (check_and_skip_common_tag data)"
  unfolding check_and_skip_common_tag_def by (intro safely_steps) (auto simp: Suc_le_eq simp flip: length_greater_0_conv)

lemma safely_skip_sequence: "safely (\<lambda>n. n \<le> length data) (check_and_skip_common_sequence data)"
  unfolding check_and_skip_common_sequence_def by (intro safely_steps) (auto simp: Suc_le_eq simp flip: length_greater_0_conv)

lemma safely_get_tag: "safely (\<lambda>(n, _). n \<le> length data) (check_and_get_common_tag data)"
  unfolding check_and_get_common_tag_def by (intro safely_steps) (auto simp: Suc_le_eq simp flip: length_greater_0_conv)

lemma safely_get_extensions: "safely (\<lambda>(n, _). n \<le> length data) (check_and_get_extensions data)"
  unfolding check_and_get_extensions_def by (intro safely_steps) (auto simp: Suc_le_eq simp flip: length_greater_0_conv)

lemma safely_advance:
  assumes "t \<le> length data" "\<And>d. safely (\<lambda>n. n \<le> length d) (f d)"
  shows "safely (\<lambda>u. t \<le> u \<and> u \<le> length data) (advance f data t)"
  unfolding advance_def
  by (intro safely_steps assms(1)) (rule safely_bind [OF assms(2)], use assms(1) in simp)

lemma safely_enter:
  "t \<le> length data \<Longrightarrow> safely (\<lambda>(n, u). u + n \<le> length data) (enter_tag (check_tag tag) data t)"
  unfolding enter_tag_def by (intro safely_steps) (auto simp: Suc_le_eq simp flip: length_greater_0_conv)

text \<open>The searches in extensions.\<close>

lemma safely_skip_critical: "safely (\<lambda>i. i < length data) (skip_critical data index)"
  unfolding skip_critical_def by (intro safely_steps) auto

lemma safely_key_usage_bits: "safely (\<lambda>_. True) (key_usage_bits data index)"
  unfolding key_usage_bits_def
  by (rule safely_bind [OF safely_skip_critical]) (intro safely_steps, auto)

lemma safely_key_usage_search: "safely (\<lambda>_. True) (key_usage_search data index)"
proof (induction "length data - index" arbitrary: index rule: less_induct)
  case less
  have "safely (\<lambda>_. True) (if b then bindR (slice i (i + len) data) (\<lambda>oid. Ok (f oid)) else Ok False)"
    if "i + len \<le> length data" for b i len f
    using that by (simp add: slice_def)
  note found = safely_bind [OF this]
  show ?case
    unfolding key_usage_search.simps [of data index]
    by (intro safely_steps found safely_key_usage_bits less) (auto simp: not_le)
qed

lemma safely_find_oid: "safely (\<lambda>_. True) (find_oid_search oid data index)"
proof (induction "length data - index" arbitrary: index rule: less_induct)
  case less
  show ?case
    unfolding find_oid_search.simps [of oid data index]
    by (intro safely_steps less) (auto simp: not_le)
qed

lemma safely_find_single: "safely (\<lambda>_. True) (find_target_object_identifier_in_single_extension data oid)"
  by (simp add: find_target_object_identifier_in_single_extension_def safely_find_oid)

lemma safely_extn_id: "safely (\<lambda>(_, n). 0 < n \<and> n \<le> length data) (check_and_get_extn_id data)"
  unfolding check_and_get_extn_id_def
  by (intro safely_steps) (auto simp: Suc_le_eq simp flip: length_greater_0_conv)

lemma safely_extension_auth: "safely (\<lambda>_. True) (extension_auth extnid ext)"
  unfolding extension_auth_def Let_def by (intro safely_if safely_bind [OF safely_find_single] safely_find_single) simp_all

lemma safely_extensions_auth:
  "payload_length \<le> length seqs \<Longrightarrow> safely (\<lambda>_. True) (extensions_auth seqs payload_length index auth)"
proof (induction "payload_length - index" arbitrary: index auth rule: less_induct)
  case less
  show ?case
    unfolding extensions_auth.simps [of seqs payload_length index auth]
    by (intro safely_steps safely_bind [OF safely_extn_id] safely_bind [OF safely_extension_auth] less)
      (use less.prems in \<open>auto simp flip: length_greater_0_conv\<close>)
qed

lemma safely_spdm_oid: "safely (\<lambda>_. True) (check_extensions_spdm_oid ext leaf)"
  unfolding check_extensions_spdm_oid_def
  by (intro safely_steps safely_bind [OF safely_extensions_auth]) (auto simp: Suc_le_eq simp flip: length_greater_0_conv)

lemma safely_key_usage_value: "safely (\<lambda>_. True) (get_key_usage_value data)"
  unfolding get_key_usage_value_def
  by (intro safely_steps safely_key_usage_search) (auto simp: Suc_le_eq simp flip: length_greater_0_conv)

lemma safely_step_in:
  "len \<le> length data \<Longrightarrow> walker \<le> len \<Longrightarrow>
     safely (\<lambda>(n, w). walker < w \<and> w < len \<and> w + n \<le> length data) (step_in len (check_tag tag) data walker)"
  unfolding step_in_def by (intro safely_steps) auto

lemmas safely_bind_step_in = safely_bind [OF safely_step_in]

lemma safely_spdm_extension: "safely (\<lambda>_. True) (spdm_extension_has (length data) oid data walker)"
  unfolding spdm_extension_has_def
  by (intro safely_steps safely_bind_step_in safely_slice [THEN safely_bind]) auto

lemma safely_find_in_extensions: "safely (\<lambda>_. True) (find_in_extensions (length data) oid data walker)"
proof (induction "length data - walker" arbitrary: walker rule: less_induct)
  case less
  have "safely (\<lambda>_. True) (if i + n < length data then bindR (slice i (i + n) data) (\<lambda>x.
      if f x then spdm_extension_has (length data) oid data (i + n) else Ok False) else Ok False)" for i n f
    by (simp add: slice_def safely_spdm_extension)
  note found = safely_bind [OF this]
  show ?case
    unfolding find_in_extensions.simps [of "length data" oid data walker]
    by (intro safely_if safely_bind_step_in safely_prod safely_let found less) auto
qed

lemma safely_find_all: "safely (\<lambda>_. True) (find_target_object_identifier_in_extensions data oid)"
proof -
  have "safely (\<lambda>_. True) (find_in_extensions n oid d 0)" if "length d = n" for n d
    using safely_find_in_extensions [of d oid 0] that by simp
  then show ?thesis
    unfolding find_target_object_identifier_in_extensions_def by (intro safely_steps) auto
qed

text \<open>Certificates.\<close>

lemma safely_tbs_start: "safely (\<lambda>(_, _, t). t \<le> length data) (tbs_start oid data)"
  unfolding tbs_start_def
  by (intro safely_steps safely_bind [OF safely_advance] safely_bind [OF safely_enter]
      safely_bind [OF safely_object_identifier] safely_version safely_skip_tag)
    (auto simp: Suc_le_eq simp flip: length_greater_0_conv)

lemma safely_tbs: "safely (\<lambda>n. n \<le> length data) (check_tbs_certificate data algo leaf)"
  unfolding check_tbs_certificate_def
  by (rule safely_bind [OF safely_tbs_start])
    (intro safely_steps safely_bind [OF safely_advance] safely_bind [OF safely_get_extensions]
      safely_bind [OF safely_key_usage_value] safely_bind [OF safely_spdm_oid] safely_skip_sequence, auto)

lemma safely_signature_algorithm: "safely (\<lambda>n. n \<le> length data) (check_signature_algorithm data algo leaf)"
  unfolding check_signature_algorithm_def
  by (intro safely_steps safely_bind [OF safely_enter] safely_bind [OF safely_object_identifier]) auto

lemma safely_cert_format: "safely (\<lambda>n. n \<le> length cert) (check_cert_format cert algo)"
  unfolding check_cert_format_def
  by (intro safely_steps safely_bind [OF safely_advance] safely_tbs safely_signature_algorithm safely_skip_tag)
    (auto simp: Suc_le_eq simp flip: length_greater_0_conv)

lemma safely_cert_chain: "safely (\<lambda>_. True) (cert_chain_walk chain algo walker count)"
proof (induction "length chain - walker" arbitrary: walker count rule: less_induct)
  case less
  have "safely (\<lambda>n. 0 < n \<and> n \<le> length d) (check_cert_format d algo)" for d
    using safely_cert_format [of d algo] cert_format_advances [of d algo] by (auto simp: safely_def split: sum.splits)
  note fmt = safely_bind [OF this]
  show ?case
    unfolding cert_chain_walk.simps [of chain algo walker count]
    by (intro safely_steps fmt less) auto
qed

lemma safely_tbs_data: "safely (\<lambda>_. True) (tbs_data cert)"
  unfolding tbs_data_def
  by (intro safely_steps) (auto simp: slice_from_def Suc_le_eq simp flip: length_greater_0_conv)

lemma safely_is_root: "safely (\<lambda>_. True) (is_root_certificate cert)"
  unfolding is_root_certificate_def
  by (rule safely_bind [OF safely_tbs_data], rule safely_bind [OF safely_tbs_start])
    (intro safely_steps safely_bind [OF safely_advance] safely_bind [OF safely_get_tag] safely_skip_sequence, auto)

lemma safely_leaf: "safely (\<lambda>_. True) (check_leaf_certificate cert alias)"
  unfolding check_leaf_certificate_def
  by (rule safely_bind [OF safely_tbs_data], rule safely_bind [OF safely_tbs_start])
    (intro safely_steps safely_bind [OF safely_advance] safely_bind [OF safely_get_extensions] safely_skip_sequence
      safely_bind [where P = "\<lambda>_. True"] safely_find_all, auto)

subsection \<open>Chains\<close>

text \<open>Certificates that follow each other, each well-formed in front of the ones behind it.\<close>

fun cert_chain_ok :: "SpdmBaseAsymAlgo \<Rightarrow> bytes list \<Rightarrow> bool" where
  "cert_chain_ok algo [] = True"
| "cert_chain_ok algo (cert # certs) \<longleftrightarrow>
     check_cert_format (cert @ concat certs) algo = Ok (length cert) \<and> cert_chain_ok algo certs"

lemma walk_cert_chain:
  "cert_chain_ok algo certs \<Longrightarrow>
     cert_chain_walk (pre @ concat certs) algo (length pre) count = Ok (count + length certs)"
proof (induction certs arbitrary: pre count)
  case Nil
  then show ?case by (simp add: cert_chain_walk.simps)
next
  case (Cons cert certs)
  then have "check_cert_format (cert @ concat certs) algo = Ok (length cert)" by simp
  moreover from this have "0 < length cert" by (rule cert_format_advances)
  ultimately show ?case
    using Cons.IH [of "pre @ cert" "Suc count"] Cons.prems
    by (simp add: cert_chain_walk.simps [of "pre @ cert @ concat certs"] slice_from_def)
qed

lemma cert_chain_walked:
  "cert_chain_walk chain algo walker count = Ok n \<Longrightarrow> walker \<le> length chain \<Longrightarrow>
     \<exists>certs. drop walker chain = concat certs \<and> n = count + length certs \<and> cert_chain_ok algo certs"
proof (induction "length chain - walker" arbitrary: walker count rule: less_induct)
  case less
  show ?case
  proof (cases "walker < length chain")
    case True
    with less.prems obtain k where k: "check_cert_format (drop walker chain) algo = Ok k"
      "cert_chain_walk chain algo (walker + k) (Suc count) = Ok n"
      by (auto simp: cert_chain_walk.simps [of chain algo walker] slice_from_def bindR_eq_Inr)
    have le: "k \<le> length (drop walker chain)" "0 < k"
      using safely_cert_format [of "drop walker chain" algo] cert_format_advances [OF k(1)] by (simp_all add: k(1))
    then have "length chain - (walker + k) < length chain - walker" "walker + k \<le> length chain" using True by simp_all
    from less.hyps [OF this(1) k(2) this(2)] obtain certs
      where c: "drop (walker + k) chain = concat certs" "n = Suc count + length certs" "cert_chain_ok algo certs" by auto
    have d: "drop walker chain = take k (drop walker chain) @ concat certs"
      using c(1) by (metis append_take_drop_id drop_drop add.commute)
    then show ?thesis
      using k(1) c le by (intro exI [of _ "take k (drop walker chain) # certs"]) (simp flip: d)
  next
    case False
    with less.prems show ?thesis
      by (intro exI [of _ "[]"]) (simp add: cert_chain_walk.simps [of chain algo walker] split: if_splits)
  qed
qed

text \<open>A certificate with the least fields, and one with a key usage of two bytes.\<close>

definition sample_cert :: bytes where
  "sample_cert = [0x30, 0x23, 0x30, 0x19, 0xA0, 3, 2, 1, 2, 2, 1, 1, 0x30, 3, 6, 1, 0x2A, 0x30, 0, 0x30, 0, 0x30, 0,
     0x30, 0, 0xA3, 2, 0x30, 0, 0x30, 3, 6, 1, 0x2A, 3, 1, 0]"

lemma sample_cert_format: "check_cert_format sample_cert 0 = Ok 37"
  by code_simp

lemma key_usage_two_bytes:
  "get_key_usage_value ([0x30, 14, 0x30, 12, 6, 3, 0x55, 0x1D, 0x0F, 4, 5, 3, 3] @ [unused, b1, b2]) = Ok (True, b2)"
  by (simp add: get_key_usage_value_def key_usage_search.simps key_usage_bits_def skip_critical_def check_length_def
     slice_from_def slot_at_def slice_def)

end
