(* ===== verification/ReqInfo.thy ===== *)
theory ReqInfo
  imports ReqCore X509
begin

text \<open>
  The requester's side of the certificates, of the challenge, of the measurements and of vendor
  defined data: \<open>requester/get_digests_req.rs\<close>, \<open>get_certificate_req.rs\<close>, \<open>challenge_req.rs\<close>,
  \<open>get_measurements_req.rs\<close> and \<open>vendor_req.rs\<close>, with running transcript hashes.
\<close>

text \<open>Request and response of the transcript B, outside a session only.\<close>

definition append_exchange_b ::
  "'h Services \<Rightarrow> u32 option \<Rightarrow> bytes \<Rightarrow> bytes \<Rightarrow> 'h SpdmContext \<Rightarrow> unit SpdmResult \<times> 'h SpdmContext" where
  "append_exchange_b S sid send_buffer received self =
     (case sid of
        None \<Rightarrow> andThen (append_message_b (svc_crypto S) send_buffer self) (\<lambda>_. append_message_b (svc_crypto S) received)
      | Some _ \<Rightarrow> (Ok (), self))"

subsection \<open>GET_DIGESTS\<close>

definition encode_spdm_digest :: "'h SpdmContext \<Rightarrow> bytes SpdmResult \<times> 'h SpdmContext" where
  "encode_spdm_digest self =
     (encode_request (ver_sel self) SpdmRequestGetDigests SpdmGetDigestsRequestPayload_spdm_encode, self)"

text \<open>The key information is packed: the first entry belongs to the first slot of the mask.\<close>

definition record_key_info :: "SpdmDigestsResponsePayload \<Rightarrow> SpdmPeerInfo \<Rightarrow> SpdmPeerInfo" where
  "record_key_info digests p =
     (let slots = filter (\<lambda>i. dg_slot_mask digests AND push_bit i 1 \<noteq> 0) [0..<SPDM_MAX_SLOT_NUMBER] in
      fold (\<lambda>(packed_index, slot_index) p.
          p\<lparr>peer_key_pair_id := (peer_key_pair_id p)[slot_index := Some (dg_key_pair_id digests ! packed_index)],
            peer_cert_info := (peer_cert_info p)[slot_index := Some (dg_certificate_info digests ! packed_index)],
            peer_key_usage_bit_mask := (peer_key_usage_bit_mask p)[slot_index := Some (dg_key_usage_mask digests ! packed_index)]\<rparr>)
        (zip [0..<length slots] slots) p)"

definition record_digests :: "SpdmDigestsResponsePayload \<Rightarrow> 'h SpdmContext \<Rightarrow> 'h SpdmContext" where
  "record_digests digests self =
     upd_peer (\<lambda>p.
       let p = p\<lparr>peer_provisioned_slot_mask := dg_slot_mask digests\<rparr>;
           p = (if SpdmVersion13 \<le> ver_sel self then p\<lparr>peer_supported_slot_mask := dg_supported_slot_mask digests\<rparr> else p)
       in if SpdmVersion13 \<le> ver_sel self \<and> multi_key_conn_rsp (negotiate_info self)
          then record_key_info digests p else p) self"

definition handle_spdm_digest_response ::
  "'h Services \<Rightarrow> u32 option \<Rightarrow> bytes \<Rightarrow> bytes \<Rightarrow> 'h SpdmContext \<Rightarrow> unit SpdmResult \<times> 'h SpdmContext" where
  "handle_spdm_digest_response S sid send_buffer response self =
     with_versioned_response SpdmResponseDigests sid response (\<lambda>r.
       with_payload (SpdmDigestsResponsePayload_spdm_read self r) self (\<lambda>(digests, r).
       andThen (append_exchange_b S sid send_buffer (take (Reader_used r) response) self) (\<lambda>_ self.
       (Ok (), record_digests digests self)))) self"

definition send_receive_spdm_digest ::
  "'h Services \<Rightarrow> 'd SpdmDeviceIo \<Rightarrow> u32 option \<Rightarrow> ('d, 'h) RequesterContext \<Rightarrow>
     unit SpdmResult \<times> ('d, 'h) RequesterContext" where
  "send_receive_spdm_digest S io sid self =
     andThen (send_request S io sid encode_spdm_digest
                (upd_common (reset_buffer_via_request_code SpdmRequestGetDigests sid) self)) (\<lambda>send_buffer self.
     andThen (req_receive_message S io sid False self) (\<lambda>response.
     on_common (handle_spdm_digest_response S sid send_buffer response)))"

subsection \<open>GET_CERTIFICATE\<close>

definition encode_spdm_certificate_partial ::
  "u8 \<Rightarrow> u32 \<Rightarrow> u32 \<Rightarrow> 'h SpdmContext \<Rightarrow> bytes SpdmResult \<times> 'h SpdmContext" where
  "encode_spdm_certificate_partial slot_id offset len self =
     (encode_request (ver_sel self) SpdmRequestGetCertificate
        (SpdmGetCertificateRequestPayload_spdm_encode self
           \<lparr>gce_slot_id = slot_id, gce_offset = offset, gce_length = len\<rparr>), self)"

text \<open>
  The checks of a portion, in the order of the code. The subtraction from the maximum panics when it
  underflows; the sums are below the maximum.
\<close>

definition portion_ok :: "u8 \<Rightarrow> u32 \<Rightarrow> u32 \<Rightarrow> u32 \<Rightarrow> SpdmCertificateResponsePayload \<Rightarrow> bool SpdmResult" where
  "portion_ok slot_id total_size offset len c =
     (let portion = unat (cer_portion_length c); remainder = unat (cer_remainder_length c); offset = unat offset in
      if portion = 0 \<or> unat len < portion then Ok False
      else if MAX_SPDM_CERT_CHAIN_DATA_SIZE < offset then panic
      else if MAX_SPDM_CERT_CHAIN_DATA_SIZE - offset < portion then Ok False
      else if MAX_SPDM_CERT_CHAIN_DATA_SIZE - offset - portion \<le> remainder then Ok False
      else if total_size \<noteq> 0 \<and> unat total_size \<noteq> offset + portion + remainder then Ok False
      else Ok (cer_slot_id c = slot_id))"

definition store_portion :: "u32 \<Rightarrow> SpdmCertificateResponsePayload \<Rightarrow> CertChain \<Rightarrow> CertChain SpdmResult" where
  "store_portion offset c chain =
     bindR (slice 0 (unat (cer_portion_length c)) (cer_cert_chain c)) (\<lambda>portion.
     if length (cc_data chain) < unat offset + length portion then panic
     else Ok \<lparr>cc_size = offset + cer_portion_length c, cc_data = copy_at (unat offset) portion (cc_data chain)\<rparr>)"

definition handle_spdm_certificate_partial_response ::
  "'h Services \<Rightarrow> u32 option \<Rightarrow> u8 \<Rightarrow> u32 \<Rightarrow> u32 \<Rightarrow> u32 \<Rightarrow> bytes \<Rightarrow> bytes \<Rightarrow> 'h SpdmContext \<Rightarrow>
     (u32 \<times> u32) SpdmResult \<times> 'h SpdmContext" where
  "handle_spdm_certificate_partial_response S sid slot_id total_size offset len send_buffer response self =
     with_versioned_response SpdmResponseCertificate sid response (\<lambda>r.
       with_payload (or_none (SpdmCertificateResponsePayload_spdm_read self r)) self (\<lambda>(c, r).
       andThen (bindR (portion_ok slot_id total_size offset len c) (\<lambda>ok.
                  if \<not> ok then Err SPDM_STATUS_INVALID_MSG_FIELD
                  else bindR (ok_or (Fail SPDM_STATUS_INVALID_STATE_LOCAL) (peer_cert_chain_temp (peer_info self)))
                         (store_portion offset c)), self) (\<lambda>chain self.
       andThen (append_exchange_b S sid send_buffer (take (Reader_used r) response)
                  (upd_peer (\<lambda>p. p\<lparr>peer_cert_chain_temp := Some chain\<rparr>) self)) (\<lambda>_ self.
       (Ok (cer_portion_length c, cer_remainder_length c), self))))) self"

text \<open>One pass of the loop, and the loop, whose result is the size of the chain.\<close>

definition certificate_step ::
  "'h Services \<Rightarrow> 'd SpdmDeviceIo \<Rightarrow> u32 option \<Rightarrow> u8 \<Rightarrow> u32 \<Rightarrow> u32 \<Rightarrow> u32 \<Rightarrow> ('d, 'h) RequesterContext \<Rightarrow>
     (u32 \<times> u32) SpdmResult \<times> ('d, 'h) RequesterContext" where
  "certificate_step S io sid slot_id total_size offset len self =
     andThen (send_request S io sid (encode_spdm_certificate_partial slot_id offset len) self) (\<lambda>send_buffer self.
     andThen (req_receive_message S io sid False self) (\<lambda>response.
     on_common (handle_spdm_certificate_partial_response S sid slot_id total_size offset len send_buffer response)))"

partial_function (option) certificate_loop ::
  "'h Services \<Rightarrow> 'd SpdmDeviceIo \<Rightarrow> u32 option \<Rightarrow> u8 \<Rightarrow> u32 \<Rightarrow> u32 \<Rightarrow> u32 \<Rightarrow> ('d, 'h) RequesterContext \<Rightarrow>
     (u32 SpdmResult \<times> ('d, 'h) RequesterContext) option" where
  "certificate_loop S io sid slot_id total_size offset len self =
     (if len = 0 then Some (Ok total_size, self)
      else case certificate_step S io sid slot_id total_size offset len self of
        (Inl e, self) \<Rightarrow> Some (Inl e, self)
      | (Inr (portion_length, remainder_length), self) \<Rightarrow>
          certificate_loop S io sid slot_id
            (if total_size = 0 then portion_length + remainder_length else total_size)
            (offset + portion_length) (min remainder_length (of_nat MAX_SPDM_CERT_PORTION_LEN)) self)"

text \<open>\<open>if f(..).is_ok()\<close>; a panic does not come back.\<close>

definition succeeds :: "unit SpdmResult \<Rightarrow> bool SpdmResult" where
  "succeeds m = (case m of Inr _ \<Rightarrow> Ok True | Inl (Fail _) \<Rightarrow> Ok False | Inl Panic \<Rightarrow> panic)"

abbreviation bad_cert :: "'a SpdmResult" where "bad_cert \<equiv> Err SPDM_STATUS_INVALID_CERT"

text \<open>The certificates of the chain that was received, in an array of their own.\<close>

definition received_certs :: "'h SpdmContext \<Rightarrow> CertChain \<Rightarrow> (CertChain \<times> bytes) SpdmResult" where
  "received_certs self chain =
     bindR (get_hash_size self) (\<lambda>hash_size.
     if unat (cc_size chain) \<le> 4 + unat hash_size then bad_cert
     else bindR (slice 0 4 (cc_data chain)) (\<lambda>first.
       if decode_u32 first \<noteq> Some (cc_size chain) then bad_cert
       else bindR (slice (4 + unat hash_size) (unat (cc_size chain)) (cc_data chain)) (\<lambda>received.
         if MAX_SPDM_CERT_CHAIN_DATA_SIZE < length received then panic
         else bindR (slice 4 (4 + unat hash_size) (cc_data chain)) (\<lambda>root_hash.
           Ok (\<lparr>cc_size = of_nat (length received), cc_data = copy_at 0 received (replicate MAX_SPDM_CERT_CHAIN_DATA_SIZE 0)\<rparr>,
               root_hash)))))"

definition certificate_at :: "'h Services \<Rightarrow> CertChain \<Rightarrow> int \<Rightarrow> bytes SpdmResult" where
  "certificate_at S runtime index =
     bindR (svc_get_cert_from_cert_chain S (CertChain_as_ref runtime) index) (\<lambda>(cert_begin, cert_end).
     slice cert_begin cert_end (cc_data runtime))"

definition root_hash_ok :: "'h Services \<Rightarrow> bytes \<Rightarrow> bytes \<Rightarrow> 'h SpdmContext \<Rightarrow> unit SpdmResult" where
  "root_hash_ok S root_cert expected self =
     bindR (succeeds (is_root_certificate root_cert)) (\<lambda>is_root.
     if is_root
     then case hash_all (svc_crypto S) (base_hash_sel (negotiate_info self)) root_cert of
            None \<Rightarrow> Err SPDM_STATUS_CRYPTO_ERROR
          | Some root_hash \<Rightarrow> if Sized_as_ref root_hash \<noteq> expected then bad_cert else Ok ()
     else Ok ())"

text \<open>If roots are provisioned, the root of the chain is one of them.\<close>

definition root_trusted :: "CertChain option list \<Rightarrow> bytes \<Rightarrow> bool" where
  "root_trusted provisioned root_cert \<longleftrightarrow>
     flatten provisioned = [] \<or> (\<exists>c \<in> set (flatten provisioned). length root_cert = unat (cc_size c) \<and> root_cert = CertChain_as_ref c)"

definition verify_spdm_certificate_chain :: "'h Services \<Rightarrow> 'h SpdmContext \<Rightarrow> unit SpdmResult" where
  "verify_spdm_certificate_chain S self =
     bindR (ok_or (Fail SPDM_STATUS_INVALID_PARAMETER) (peer_cert_chain_temp (peer_info self))) (\<lambda>chain.
     bindR (received_certs self chain) (\<lambda>(runtime, root_hash).
     bindR (succeeds (svc_verify_cert_chain S (CertChain_as_ref runtime))) (\<lambda>verified.
     if \<not> verified then bad_cert
     else bindR (certificate_at S runtime 0) (\<lambda>root_cert.
       bindR (root_hash_ok S root_cert root_hash self) (\<lambda>_.
       bindR (certificate_at S runtime (-1)) (\<lambda>leaf_cert.
       bindR (succeeds (check_leaf_certificate leaf_cert (rsp_has self SpdmResponseCapabilityFlags_ALIAS_CERT_CAP))) (\<lambda>leaf_ok.
       if \<not> leaf_ok \<or> \<not> root_trusted (peer_root_cert_data (provision_info self)) root_cert then bad_cert
       else Ok ())))))))"

definition SpdmCertChainBuffer_default :: CertChain where
  "SpdmCertChainBuffer_default =
     \<lparr>cc_size = 0, cc_data = replicate (4 + SPDM_MAX_HASH_SIZE + MAX_SPDM_CERT_CHAIN_DATA_SIZE) 0\<rparr>"

text \<open>The end of the retrieval: the chain is kept if it was verified, and dropped otherwise.\<close>

definition keep_certificate :: "'h Services \<Rightarrow> u8 \<Rightarrow> u32 \<Rightarrow> 'h SpdmContext \<Rightarrow> unit SpdmResult \<times> 'h SpdmContext" where
  "keep_certificate S slot_id total_size self =
     (let drop_temp = upd_peer (\<lambda>p. p\<lparr>peer_cert_chain_temp := None\<rparr>) in
      if total_size = 0 then (bad_cert, drop_temp self)
      else case verify_spdm_certificate_chain S self of
             Inl Panic \<Rightarrow> (panic, self)
           | Inl (Fail e) \<Rightarrow> (Err e, drop_temp self)
           | Inr _ \<Rightarrow> (Ok (), drop_temp (upd_peer (\<lambda>p.
               p\<lparr>peer_cert_chain := (peer_cert_chain p)[unat slot_id := peer_cert_chain_temp p]\<rparr>) self)))"

definition send_receive_spdm_certificate ::
  "'h Services \<Rightarrow> 'd SpdmDeviceIo \<Rightarrow> u32 option \<Rightarrow> u8 \<Rightarrow> ('d, 'h) RequesterContext \<Rightarrow>
     (unit SpdmResult \<times> ('d, 'h) RequesterContext) option" where
  "send_receive_spdm_certificate S io sid slot_id self =
     (if SPDM_MAX_SLOT_NUMBER \<le> unat slot_id then Some (Err SPDM_STATUS_INVALID_STATE_LOCAL, self)
      else let self = upd_common (\<lambda>c. upd_peer (\<lambda>p. p\<lparr>peer_cert_chain_temp := Some SpdmCertChainBuffer_default\<rparr>)
                 (reset_buffer_via_request_code SpdmRequestGetCertificate sid c)) self in
        case certificate_loop S io sid slot_id 0 0 (of_nat MAX_SPDM_CERT_PORTION_LEN) self of
          None \<Rightarrow> None
        | Some (Inl e, self) \<Rightarrow> Some (Inl e, self)
        | Some (Inr total_size, self) \<Rightarrow> Some (on_common (keep_certificate S slot_id total_size) self))"

subsection \<open>CHALLENGE\<close>

definition encode_spdm_challenge ::
  "'h Services \<Rightarrow> u8 \<Rightarrow> SpdmMeasurementSummaryHashType \<Rightarrow> bytes \<Rightarrow> 'h SpdmContext \<Rightarrow>
     bytes SpdmResult \<times> 'h SpdmContext" where
  "encode_spdm_challenge S slot_id summary_type requester_context self =
     (bindR (svc_get_random S SPDM_NONCE_SIZE) (\<lambda>nonce.
      encode_request (ver_sel self) SpdmRequestChallenge
        (SpdmChallengeRequestPayload_spdm_encode self
           \<lparr>ch_slot_id = slot_id, ch_measurement_summary_hash_type = summary_type, ch_nonce = nonce,
            ch_context = requester_context\<rparr>)), self)"

definition verify_challenge_auth_cert_chain_hash ::
  "'h Services \<Rightarrow> u8 \<Rightarrow> SpdmDigestStruct \<Rightarrow> 'h SpdmContext \<Rightarrow> unit SpdmResult" where
  "verify_challenge_auth_cert_chain_hash S slot_id cert_chain_hash self =
     bindR (if slot_id = SPDM_PUB_KEY_SLOT_ID_CHALLENGE
            then ok_or (Fail SPDM_STATUS_INVALID_PARAMETER) (peer_pub_key (provision_info self))
            else bindR (slot_at (peer_cert_chain (peer_info self)) (unat slot_id))
                   (ok_or (Fail SPDM_STATUS_INVALID_PARAMETER))) (\<lambda>chain.
     bindR (ok_or (Fail SPDM_STATUS_INVALID_PARAMETER)
              (hash_all (svc_crypto S) (base_hash_sel (negotiate_info self)) (CertChain_as_ref chain))) (\<lambda>expected.
     if data_size cert_chain_hash \<noteq> data_size expected \<or> Sized_as_ref cert_chain_hash \<noteq> Sized_as_ref expected
     then Err SPDM_STATUS_VERIF_FAIL else Ok ()))"

text \<open>The value of a running hash, and a signature of the responder over a digest, by the key of a slot.\<close>

definition running_digest :: "'h Services \<Rightarrow> 'h option \<Rightarrow> SpdmDigestStruct SpdmResult" where
  "running_digest S h =
     bindR (ok_or (Fail SPDM_STATUS_CRYPTO_ERROR) h) (\<lambda>h.
     ok_or (Fail SPDM_STATUS_CRYPTO_ERROR) (hash_ctx_finalize (svc_crypto S) h))"

definition verify_rsp_signature ::
  "'h Services \<Rightarrow> SpdmDigestStruct \<Rightarrow> u8 \<Rightarrow> u8 \<Rightarrow> usize \<Rightarrow> bytes \<Rightarrow> SpdmSignatureStruct \<Rightarrow> 'h SpdmContext \<Rightarrow>
     unit SpdmResult" where
  "verify_rsp_signature S digest pub_key_id slot_id zero_pad sign_context sig self =
     bindR (slot_der pub_key_id slot_id self) (\<lambda>der.
     if SpdmVersion12 \<le> ver_sel self
     then bindR (signing_message zero_pad sign_context digest self) (\<lambda>message_sign.
          spdm_asym_verify S (base_hash_sel (negotiate_info self)) (base_asym_sel (negotiate_info self))
            (pqc_asym_sel (negotiate_info self)) der (ManagedBuffer_as_ref message_sign) sig)
     else Err SPDM_STATUS_INVALID_STATE_LOCAL)"

definition verify_challenge_auth_signature ::
  "'h Services \<Rightarrow> u8 \<Rightarrow> SpdmSignatureStruct \<Rightarrow> 'h SpdmContext \<Rightarrow> unit SpdmResult" where
  "verify_challenge_auth_signature S slot_id sig self =
     bindR (running_digest S (digest_context_m1m2 (runtime_info self))) (\<lambda>digest.
     verify_rsp_signature S digest SPDM_PUB_KEY_SLOT_ID_CHALLENGE slot_id 4 SPDM_CHALLENGE_AUTH_SIGN_CONTEXT sig self)"

text \<open>The signature is the end of the response and is not part of the transcript that it signs.\<close>

definition without_signature :: "bool \<Rightarrow> bytes \<Rightarrow> usize \<Rightarrow> 'h SpdmContext \<Rightarrow> bytes SpdmResult" where
  "without_signature has_signature response used self =
     bindR (get_asym_sig_size self) (\<lambda>signature_size.
     let signature_size = (if has_signature then unat signature_size else 0) in
     if used < signature_size then panic else slice 0 (used - signature_size) response)"

definition accept_challenge_auth ::
  "'h Services \<Rightarrow> u8 \<Rightarrow> SpdmChallengeAuthResponsePayload \<Rightarrow> bytes \<Rightarrow> bytes \<Rightarrow> usize \<Rightarrow> 'h SpdmContext \<Rightarrow>
     unit SpdmResult \<times> 'h SpdmContext" where
  "accept_challenge_auth S slot_id auth send_buffer response used self =
     (let forget = (\<lambda>self. reset_message_c (reset_message_b self)) in
      andThen (succeeds (verify_challenge_auth_cert_chain_hash S slot_id (cha_cert_chain_hash auth) self), self) (\<lambda>hash_ok self.
      if \<not> hash_ok then (Err SPDM_STATUS_VERIF_FAIL, forget self)
      else andThen (without_signature True response used self, self) (\<lambda>received self.
        andThen (append_message_c (svc_crypto S) send_buffer self) (\<lambda>_ self.
        andThen (append_message_c (svc_crypto S) received self) (\<lambda>_ self.
        andThen (succeeds (verify_challenge_auth_signature S slot_id (cha_signature auth) self), self) (\<lambda>signature_ok self.
        (if signature_ok then Ok () else Err SPDM_STATUS_VERIF_FAIL, forget self)))))))"

definition handle_spdm_challenge_response ::
  "'h Services \<Rightarrow> u32 \<Rightarrow> u8 \<Rightarrow> SpdmMeasurementSummaryHashType \<Rightarrow> bytes \<Rightarrow> bytes \<Rightarrow> bytes \<Rightarrow> 'h SpdmContext \<Rightarrow>
     unit SpdmResult \<times> 'h SpdmContext" where
  "handle_spdm_challenge_response S sid slot_id summary_type requester_context send_buffer response self =
     (let self = upd_rt (\<lambda>r. r\<lparr>need_measurement_summary_hash :=
        (summary_type = SpdmMeasurementSummaryHashTypeTcb \<or> summary_type = SpdmMeasurementSummaryHashTypeAll)\<rparr>) self in
      with_versioned_response SpdmResponseChallengeAuth (Some sid) response (\<lambda>r.
        with_payload (SpdmChallengeAuthResponsePayload_spdm_read self r) self (\<lambda>(auth, r).
        if SpdmVersion13 \<le> ver_sel self \<and> cha_requester_context auth \<noteq> requester_context
        then (Err SPDM_STATUS_INVALID_MSG_FIELD, self)
        else accept_challenge_auth S slot_id auth send_buffer response (Reader_used r) self)) self)"

text \<open>The session of a CHALLENGE, which has none, is 0 when an ERROR response is handled.\<close>

definition send_receive_spdm_challenge ::
  "'h Services \<Rightarrow> 'd SpdmDeviceIo \<Rightarrow> u8 \<Rightarrow> SpdmMeasurementSummaryHashType \<Rightarrow> bytes option \<Rightarrow>
     ('d, 'h) RequesterContext \<Rightarrow> unit SpdmResult \<times> ('d, 'h) RequesterContext" where
  "send_receive_spdm_challenge S io slot_id summary_type requester_context self =
     (let requester_context =
            (case requester_context of Some c \<Rightarrow> c | None \<Rightarrow> replicate SPDM_CHALLENGE_CONTEXT_SIZE 0) in
      if SPDM_MAX_SLOT_NUMBER \<le> unat slot_id \<and> slot_id \<noteq> SPDM_PUB_KEY_SLOT_ID_CHALLENGE
      then (Err SPDM_STATUS_INVALID_PARAMETER, self)
      else andThen (send_request S io None (encode_spdm_challenge S slot_id summary_type requester_context)
                      (upd_common (reset_buffer_via_request_code SpdmRequestChallenge None) self)) (\<lambda>send_buffer self.
           andThen (req_receive_message S io None True self) (\<lambda>response.
           on_common (handle_spdm_challenge_response S 0 slot_id summary_type requester_context send_buffer response))))"

subsection \<open>GET_MEASUREMENTS\<close>

text \<open>What the caller passes to be filled is a state beside the context.\<close>

record MeasurementOut =
  mo_content_changed :: "SpdmMeasurementContentChanged option"
  mo_total_number :: u8
  mo_record :: SpdmMeasurementRecordStructure
  mo_transcript :: "ManagedBuffer option"

definition on_left :: "('s \<Rightarrow> 'a SpdmResult \<times> 's) \<Rightarrow> 's \<times> 't \<Rightarrow> 'a SpdmResult \<times> 's \<times> 't" where
  "on_left f st = (case f (fst st) of (res, s) \<Rightarrow> (res, s, snd st))"

definition encode_spdm_measurement_record ::
  "'h Services \<Rightarrow> SpdmMeasurementAttributes \<Rightarrow> SpdmMeasurementOperation \<Rightarrow> bytes option \<Rightarrow> u8 \<Rightarrow> bytes \<Rightarrow> 'h SpdmContext \<Rightarrow>
     bytes SpdmResult \<times> 'h SpdmContext" where
  "encode_spdm_measurement_record S attributes operation nonce slot_id requester_context self =
     (bindR (case nonce of Some n \<Rightarrow> Ok n | None \<Rightarrow> svc_get_random S SPDM_NONCE_SIZE) (\<lambda>nonce.
      encode_request (ver_sel self) SpdmRequestGetMeasurements
        (SpdmGetMeasurementsRequestPayload_spdm_encode self
           \<lparr>gm_measurement_attributes = attributes, gm_measurement_operation = operation, gm_nonce = nonce,
            gm_slot_id = slot_id, gm_context = requester_context\<rparr>)), self)"

definition verify_measurement_signature ::
  "'h Services \<Rightarrow> u8 \<Rightarrow> u32 option \<Rightarrow> SpdmSignatureStruct \<Rightarrow> 'h SpdmContext \<Rightarrow> unit SpdmResult" where
  "verify_measurement_signature S slot_id sid sig self =
     bindR (case sid of
              None \<Rightarrow> Ok (digest_context_l1l2 (runtime_info self))
            | Some i \<Rightarrow> bindR (ok_or (Fail SPDM_STATUS_INVALID_MSG_FIELD) (get_session_via_id i self)) (\<lambda>s.
                       Ok (s_digest_context_l1l2 (s_runtime_info s)))) (\<lambda>h.
     bindR (running_digest S h) (\<lambda>digest.
     verify_rsp_signature S digest SPDM_PUB_KEY_SLOT_ID_MEASUREMENT slot_id 6 SPDM_MEASUREMENTS_SIGN_CONTEXT sig self))"

text \<open>The transcript the caller keeps: the request, the response and its signature.\<close>

fun append_each :: "bytes list \<Rightarrow> ManagedBuffer \<Rightarrow> unit SpdmResult \<times> ManagedBuffer" where
  "append_each [] m = (Ok (), m)"
| "append_each (bs # rest) m =
     (case ManagedBuffer_append_message bs m of
        None \<Rightarrow> (Err SPDM_STATUS_BUFFER_FULL, m)
      | Some (_, m) \<Rightarrow> append_each rest m)"

definition append_transcript_meas ::
  "bool \<Rightarrow> bytes \<Rightarrow> bytes \<Rightarrow> SpdmSignatureStruct \<Rightarrow> MeasurementOut \<Rightarrow> unit SpdmResult \<times> MeasurementOut" where
  "append_transcript_meas sig_requested send_buffer received sig out =
     (case mo_transcript out of
        None \<Rightarrow> (Ok (), out)
      | Some m \<Rightarrow> (case append_each [send_buffer, received] m of
            (Inl e, m) \<Rightarrow> (Inl e, out\<lparr>mo_transcript := Some m\<rparr>)
          | (Inr _, m) \<Rightarrow>
              if \<not> sig_requested then (Ok (), out\<lparr>mo_transcript := Some m\<rparr>)
              else if Sized_as_ref sig = [] then (Err SPDM_STATUS_INVALID_MSG_FIELD, out\<lparr>mo_transcript := Some m\<rparr>)
              else (case append_each [Sized_as_ref sig] m of (res, m) \<Rightarrow> (res, out\<lparr>mo_transcript := Some m\<rparr>))))"

definition check_measurement_signature ::
  "'h Services \<Rightarrow> bool \<Rightarrow> u8 \<Rightarrow> u32 option \<Rightarrow> SpdmSignatureStruct \<Rightarrow> 'h SpdmContext \<Rightarrow> unit SpdmResult \<times> 'h SpdmContext" where
  "check_measurement_signature S sig_requested slot_id sid sig self =
     (if \<not> sig_requested then (Ok (), self)
      else andThen (succeeds (verify_measurement_signature S slot_id sid sig self), self) (\<lambda>signature_ok self.
        (if signature_ok then Ok () else Err SPDM_STATUS_VERIF_FAIL, reset_message_m sid self)))"

definition note_content_changed ::
  "SpdmMeasurementsResponsePayload \<Rightarrow> 'h SpdmContext \<times> MeasurementOut \<Rightarrow> 'h SpdmContext \<times> MeasurementOut" where
  "note_content_changed ms st =
     (case st of (self, out) \<Rightarrow>
        if SpdmVersion12 \<le> ver_sel self
        then (upd_rt (\<lambda>r. r\<lparr>content_changed := ms_content_changed ms\<rparr>) self,
              out\<lparr>mo_content_changed := Some (ms_content_changed ms)\<rparr>)
        else (self, out\<lparr>mo_content_changed := None\<rparr>))"

definition accept_measurements ::
  "'h Services \<Rightarrow> u32 option \<Rightarrow> u8 \<Rightarrow> SpdmMeasurementAttributes \<Rightarrow> SpdmMeasurementOperation \<Rightarrow> bytes \<Rightarrow> bytes \<Rightarrow> bytes \<Rightarrow>
     usize \<Rightarrow> SpdmMeasurementsResponsePayload \<Rightarrow> 'h SpdmContext \<times> MeasurementOut \<Rightarrow>
     u8 SpdmResult \<times> 'h SpdmContext \<times> MeasurementOut" where
  "accept_measurements S sid slot_id attributes operation requester_context send_buffer response used ms st =
     (let sig_requested = contains attributes SIGNATURE_REQUESTED; sig = ms_signature ms in
      if operation = SpdmMeasurementQueryTotalNumber \<and> mr_number_of_blocks (ms_measurement_record ms) \<noteq> 0
      then (Err SPDM_STATUS_INVALID_MSG_FIELD, st)
      else
        andThen (on_left (\<lambda>self. (without_signature (need_measurement_signature (runtime_info self)) response used self, self))
                   (note_content_changed ms st)) (\<lambda>received st.
        andThen (on_left (append_message_m (svc_crypto S) sid send_buffer) st) (\<lambda>_ st.
        andThen (on_left (append_message_m (svc_crypto S) sid received) st) (\<lambda>_ st.
        andThen (case append_transcript_meas sig_requested send_buffer received sig (snd st) of
                   (res, out) \<Rightarrow> (res, fst st, out)) (\<lambda>_ st.
        if SpdmVersion13 \<le> ver_sel (fst st) \<and> ms_requester_context ms \<noteq> requester_context
        then (Err SPDM_STATUS_INVALID_MSG_FIELD, st)
        else andThen (on_left (check_measurement_signature S sig_requested slot_id sid sig) st) (\<lambda>_ (self, out).
          (Ok (if operation = SpdmMeasurementQueryTotalNumber then ms_number_of_measurement ms
               else mr_number_of_blocks (ms_measurement_record ms)),
           self, out\<lparr>mo_record := ms_measurement_record ms\<rparr>)))))))"

definition handle_spdm_measurement_record_response ::
  "'h Services \<Rightarrow> u32 option \<Rightarrow> u8 \<Rightarrow> SpdmMeasurementAttributes \<Rightarrow> SpdmMeasurementOperation \<Rightarrow> bytes \<Rightarrow> bytes \<Rightarrow> bytes \<Rightarrow>
     'h SpdmContext \<times> MeasurementOut \<Rightarrow> u8 SpdmResult \<times> 'h SpdmContext \<times> MeasurementOut" where
  "handle_spdm_measurement_record_response S sid slot_id attributes operation requester_context send_buffer response st =
     (let self = upd_rt (\<lambda>r. r\<lparr>need_measurement_signature := contains attributes SIGNATURE_REQUESTED\<rparr>) (fst st);
          st = (self, snd st) in
      case SpdmMessageHeader_read (Reader_init response) of
        None \<Rightarrow> (Err SPDM_STATUS_INVALID_MSG_FIELD, st)
      | Some (hdr, r) \<Rightarrow>
          if version hdr \<noteq> ver_sel self then (Err SPDM_STATUS_INVALID_MSG_FIELD, st)
          else if request_response_code hdr = SpdmResponseMeasurements
          then with_payload (SpdmMeasurementsResponsePayload_spdm_read self r) st (\<lambda>(ms, r).
            accept_measurements S sid slot_id attributes operation requester_context send_buffer response (Reader_used r) ms st)
          else if request_response_code hdr = SpdmResponseError
          then on_left (spdm_handle_error_response_main sid response) st
          else (Err SPDM_STATUS_ERROR_PEER, st))"

text \<open>An error, other than that of a peer that is not ready, drops both transcripts.\<close>

definition receive_spdm_measurement ::
  "'h Services \<Rightarrow> 'd SpdmDeviceIo \<Rightarrow> u32 option \<Rightarrow> u8 \<Rightarrow> SpdmMeasurementAttributes \<Rightarrow> SpdmMeasurementOperation \<Rightarrow> bytes \<Rightarrow>
     bytes \<Rightarrow> ('d, 'h) RequesterContext \<times> MeasurementOut \<Rightarrow>
     unit SpdmResult \<times> ('d, 'h) RequesterContext \<times> MeasurementOut" where
  "receive_spdm_measurement S io sid slot_id attributes operation requester_context send_buffer st =
     andThen (on_left (req_receive_message S io sid True) st) (\<lambda>response (self, out).
     case handle_spdm_measurement_record_response S sid slot_id attributes operation requester_context send_buffer response
            (rq_common self, out) of
       (Inr n, c, out) \<Rightarrow> (Ok (), self\<lparr>rq_common := c\<rparr>, out\<lparr>mo_total_number := n\<rparr>)
     | (Inl (Fail e), c, out) \<Rightarrow>
         if \<not> SpdmStatus_eq e SPDM_STATUS_NOT_READY_PEER
         then (Err e, self\<lparr>rq_common := reset_message_m sid c\<rparr>, out\<lparr>mo_transcript := None\<rparr>)
         else (Err e, self\<lparr>rq_common := c\<rparr>, out)
     | (Inl Panic, c, out) \<Rightarrow> (panic, self\<lparr>rq_common := c\<rparr>, out))"

definition send_receive_spdm_measurement ::
  "'h Services \<Rightarrow> 'd SpdmDeviceIo \<Rightarrow> u32 option \<Rightarrow> u8 \<Rightarrow> SpdmMeasurementAttributes \<Rightarrow> SpdmMeasurementOperation \<Rightarrow>
     bytes option \<Rightarrow> bytes option \<Rightarrow> ('d, 'h) RequesterContext \<times> MeasurementOut \<Rightarrow>
     unit SpdmResult \<times> ('d, 'h) RequesterContext \<times> MeasurementOut" where
  "send_receive_spdm_measurement S io sid slot_id attributes operation nonce requester_context st =
     (let requester_context =
            (case requester_context of Some c \<Rightarrow> c | None \<Rightarrow> replicate SPDM_MEASUREMENTS_CONTEXT_SIZE 0);
          (self, out) = st;
          out = (if mo_transcript out = None
                 then out\<lparr>mo_transcript := Some (ManagedBuffer_default MAX_MANAGED_BUFFER_M_SIZE)\<rparr> else out) in
      if SPDM_MAX_SLOT_NUMBER \<le> unat slot_id \<and> slot_id \<noteq> SPDM_PUB_KEY_SLOT_ID_MEASUREMENT
      then (Err SPDM_STATUS_INVALID_PARAMETER, self, out)
      else andThen (on_left (send_request S io sid
                      (encode_spdm_measurement_record S attributes operation nonce slot_id requester_context))
                      (upd_common (reset_buffer_via_request_code SpdmRequestGetMeasurements sid) self, out)) (\<lambda>send_buffer st.
           receive_spdm_measurement S io sid slot_id attributes operation requester_context send_buffer st))"

subsection \<open>VENDOR_DEFINED_REQUEST\<close>

definition encode_spdm_vendor_defined_request ::
  "SpdmVendorDefinedPayload \<Rightarrow> 'h SpdmContext \<Rightarrow> bytes SpdmResult \<times> 'h SpdmContext" where
  "encode_spdm_vendor_defined_request request self =
     (encode_request (ver_sel self) SpdmRequestVendorDefinedRequest (SpdmVendorDefinedPayload_spdm_encode self request), self)"

definition handle_spdm_vendor_defined_respond ::
  "u32 option \<Rightarrow> bytes \<Rightarrow> 'h SpdmContext \<Rightarrow> VendorDefinedPayloadStruct SpdmResult \<times> 'h SpdmContext" where
  "handle_spdm_vendor_defined_respond sid response self =
     with_versioned_response SpdmResponseVendorDefinedResponse sid response (\<lambda>r.
       with_payload (or_none (SpdmVendorDefinedPayload_spdm_read self r)) self (\<lambda>(v, _). (Ok (vd_payload v), self))) self"

definition handle_spdm_vendor_defined_respond_ex ::
  "u32 option \<Rightarrow> bytes \<Rightarrow> 'h SpdmContext \<Rightarrow> bytes SpdmResult \<times> 'h SpdmContext" where
  "handle_spdm_vendor_defined_respond_ex sid response self =
     with_versioned_response SpdmResponseVendorDefinedResponse sid response (\<lambda>_. (Ok response, self)) self"

definition send_receive_spdm_vendor_defined_request ::
  "'h Services \<Rightarrow> 'd SpdmDeviceIo \<Rightarrow> u32 option \<Rightarrow> SpdmVendorDefinedPayload \<Rightarrow> ('d, 'h) RequesterContext \<Rightarrow>
     VendorDefinedPayloadStruct SpdmResult \<times> ('d, 'h) RequesterContext" where
  "send_receive_spdm_vendor_defined_request S io sid request self =
     andThen (send_request S io sid (encode_spdm_vendor_defined_request request)
                (upd_common (reset_buffer_via_request_code SpdmRequestVendorDefinedRequest sid) self)) (\<lambda>_ self.
     andThen (req_receive_message S io sid False self) (\<lambda>response.
     on_common (handle_spdm_vendor_defined_respond sid response)))"

definition send_spdm_vendor_defined_request_ex ::
  "'h Services \<Rightarrow> 'd SpdmDeviceIo \<Rightarrow> u32 option \<Rightarrow> bytes \<Rightarrow> ('d, 'h) RequesterContext \<Rightarrow>
     unit SpdmResult \<times> ('d, 'h) RequesterContext" where
  "send_spdm_vendor_defined_request_ex S io sid req_bytes self =
     req_send_message S io sid req_bytes False
       (upd_common (reset_buffer_via_request_code SpdmRequestVendorDefinedRequest sid) self)"

subsection \<open>Laws\<close>

text \<open>
  The loop over the portions of a chain ends: every portion that is accepted is not empty and ends
  below the largest size of a chain.
\<close>

lemma portion_progress:
  assumes "portion_ok slot_id total_size offset len c = Ok True"
  shows "0 < unat (cer_portion_length c)" "unat offset + unat (cer_portion_length c) \<le> MAX_SPDM_CERT_CHAIN_DATA_SIZE"
    "unat offset + unat (cer_portion_length c) + unat (cer_remainder_length c) < MAX_SPDM_CERT_CHAIN_DATA_SIZE"
  using assms by (auto simp: portion_ok_def Let_def split: if_splits)

lemma certificate_step_progress:
  assumes "certificate_step S io sid slot_id total_size offset len self = (Inr (portion_length, remainder_length), t)"
  shows "0 < unat portion_length" "unat offset + unat portion_length \<le> MAX_SPDM_CERT_CHAIN_DATA_SIZE"
proof -
  obtain c where c: "portion_ok slot_id total_size offset len c = Ok True" "cer_portion_length c = portion_length"
    using assms
    by (auto simp: certificate_step_def andThen_eq_Ok on_common_eq_Ok handle_spdm_certificate_partial_response_def
        with_payload_eq_Ok bindR_eq_Inr split: if_splits elim!: with_versioned_response_Ok)
  then show "0 < unat portion_length" "unat offset + unat portion_length \<le> MAX_SPDM_CERT_CHAIN_DATA_SIZE"
    using portion_progress [OF c(1)] by auto
qed


lemma certificate_loop_returns: "\<exists>y. certificate_loop S io sid slot_id total_size offset len self = Some y"
proof (induction "MAX_SPDM_CERT_CHAIN_DATA_SIZE - unat offset" arbitrary: total_size offset len self rule: less_induct)
  case less
  show ?case
  proof (cases "certificate_step S io sid slot_id total_size offset len self")
    case (Pair res t)
    have later: "\<exists>y. certificate_loop S io sid slot_id total' (offset + portion) len' t = Some y"
      if "res = Inr (portion, remainder)" for portion remainder total' len'
    proof -
      note p = certificate_step_progress [OF Pair [unfolded that]]
      then have "unat (offset + portion) = unat offset + unat portion" by (simp add: unat_add_lem [symmetric])
      then show ?thesis using p by (intro less) simp
    qed
    show ?thesis
      by (subst certificate_loop.simps) (auto simp: Pair later simp del: split_paired_Ex split: sum.splits)
  qed
qed

lemma settled_certificate_step:
  assumes "settled a (rq_common self)"
  shows "ends (\<lambda>s. settled a (rq_common s)) (certificate_step S io sid slot_id total_size offset len self)"
proof -
  have b: "ends (settled a) (append_exchange_b S sid x y c)" if "settled a c" for x y c
    using that by (auto simp: append_exchange_b_def append_message_b_def settled_def intro!: ends_andThen
        split: option.splits prod.splits)
  show ?thesis
    using assms unfolding certificate_step_def
    apply (intro ends_andThen settled_send_request settled_receive ends_on_common)
    apply (simp_all add: encode_spdm_certificate_partial_def)
    unfolding handle_spdm_certificate_partial_response_def
    apply (intro settled_versioned_response)
     apply (auto intro!: ends_with_payload ends_andThen b)
    done
qed


lemma settled_certificate_loop:
  assumes "certificate_loop S io sid slot_id total_size offset len self = Some (res, t)" "settled a (rq_common self)"
  shows "settled a (rq_common t)"
  using assms
proof (induction "MAX_SPDM_CERT_CHAIN_DATA_SIZE - unat offset" arbitrary: total_size offset len self rule: less_induct)
  case less
  obtain r u where step: "certificate_step S io sid slot_id total_size offset len self = (r, u)" by fastforce
  then have u: "settled a (rq_common u)"
    using settled_certificate_step [OF less.prems(2), of S io sid slot_id total_size offset len] by simp
  show ?case
  proof (cases "\<exists>portion remainder. r = Inr (portion, remainder) \<and> len \<noteq> 0")
    case True
    then obtain portion remainder where r: "r = Inr (portion, remainder)" "len \<noteq> 0" by blast
    note p = certificate_step_progress [OF step [unfolded r]]
    then have "unat (offset + portion) = unat offset + unat portion" by (simp add: unat_add_lem [symmetric])
    then show ?thesis
      using p less.prems(1) r step u
      by (subst (asm) certificate_loop.simps) (auto intro: less.hyps [rotated])
  qed (use less.prems step u in \<open>subst (asm) certificate_loop.simps; auto split: sum.splits if_splits\<close>)
qed

text \<open>
  What the requester has checked of a chain it keeps: the chain is its own size, the hash of a root and
  the certificates; the certificates are verified; a root that signs itself has the hash; the last
  certificate is one of an SPDM leaf; and the root is one that is provisioned, if any is.
\<close>

definition certificate_in :: "'h Services \<Rightarrow> bytes \<Rightarrow> int \<Rightarrow> bytes \<Rightarrow> bool" where
  "certificate_in S body index cert \<longleftrightarrow>
     (\<exists>b e. svc_get_cert_from_cert_chain S body index = Ok (b, e)
        \<and> slice b e (body @ replicate (MAX_SPDM_CERT_CHAIN_DATA_SIZE - length body) 0) = Ok cert)"

definition chain_accepted :: "'h Services \<Rightarrow> CertChain \<Rightarrow> 'h SpdmContext \<Rightarrow> bool" where
  "chain_accepted S chain self \<longleftrightarrow>
     (\<exists>size_field hash_size root_hash body root_cert leaf_cert.
        CertChain_as_ref chain = size_field @ root_hash @ body
        \<and> length size_field = 4 \<and> decode_u32 size_field = Some (cc_size chain)
        \<and> get_hash_size self = Ok hash_size \<and> length root_hash = unat hash_size \<and> body \<noteq> []
        \<and> svc_verify_cert_chain S body = Ok ()
        \<and> certificate_in S body 0 root_cert \<and> certificate_in S body (-1) leaf_cert
        \<and> (is_root_certificate root_cert = Ok () \<longrightarrow>
             (\<exists>d. hash_all (svc_crypto S) (base_hash_sel (negotiate_info self)) root_cert = Some d \<and> Sized_as_ref d = root_hash))
        \<and> root_trusted (peer_root_cert_data (provision_info self)) root_cert
        \<and> check_leaf_certificate leaf_cert (rsp_has self SpdmResponseCapabilityFlags_ALIAS_CERT_CAP) = Ok ())"

lemma received_certs_Ok:
  assumes "received_certs self chain = Ok (runtime, root_hash)"
  obtains size_field hash_size body where
    "CertChain_as_ref chain = size_field @ root_hash @ body" "length size_field = 4"
    "decode_u32 size_field = Some (cc_size chain)" "get_hash_size self = Ok hash_size"
    "length root_hash = unat hash_size" "body \<noteq> []" "CertChain_as_ref runtime = body"
    "cc_data runtime = body @ replicate (MAX_SPDM_CERT_CHAIN_DATA_SIZE - length body) 0"
proof -
  obtain h where h: "get_hash_size self = Ok h" using assms by (auto simp: received_certs_def bindR_eq_Inr)
  let ?d = "cc_data chain" let ?n = "unat (cc_size chain)" let ?h = "4 + unat h"
  define body where "body = take (?n - ?h) (drop ?h ?d)"
  have n: "?h < ?n" "?n \<le> length ?d" and first: "decode_u32 (take 4 ?d) = Some (cc_size chain)"
    and len: "length body \<le> MAX_SPDM_CERT_CHAIN_DATA_SIZE" and root: "root_hash = take (unat h) (drop 4 ?d)"
    and runtime: "runtime = \<lparr>cc_size = of_nat (length body),
      cc_data = copy_at 0 body (replicate MAX_SPDM_CERT_CHAIN_DATA_SIZE 0)\<rparr>"
    using assms h by (auto simp: received_certs_def bindR_eq_Inr slice_def body_def simp del: of_nat_diff split: if_splits)
  have "take (4 + unat h + m) ?d = take 4 ?d @ take (unat h) (drop 4 ?d) @ take m (drop ?h ?d)" for m
    by (simp only: take_add append_assoc)
  from this [of "?n - ?h"] have "take ?n ?d = take 4 ?d @ take (unat h) (drop 4 ?d) @ body"
    using n by (simp add: body_def)
  moreover have "unat (of_nat (length body) :: u32) = length body" using len by (simp add: unat_of_nat take_bit_eq_mod)
  moreover have "body \<noteq> []" using n by (simp add: body_def)
  ultimately show thesis
    using n first len h root runtime
    by (intro that [of "take 4 ?d" body h]) (auto simp: CertChain_as_ref_def copy_at_def)
qed


lemma succeeds_True: "succeeds m = Ok True \<longleftrightarrow> m = Ok ()"
  by (auto simp: succeeds_def split: sum.splits fault.splits)

lemma succeeds_eq_Ok: "succeeds m = Ok b \<longleftrightarrow> (b \<and> m = Ok ()) \<or> (\<not> b \<and> (\<exists>e. m = Err e))"
  by (auto simp: succeeds_def split: sum.splits fault.splits)

lemma certificate_at_Ok:
  "certificate_at S runtime index = Ok cert \<Longrightarrow> CertChain_as_ref runtime = body \<Longrightarrow>
   cc_data runtime = body @ replicate (MAX_SPDM_CERT_CHAIN_DATA_SIZE - length body) 0 \<Longrightarrow> certificate_in S body index cert"
  by (auto simp: certificate_at_def certificate_in_def bindR_eq_Inr)

lemma root_hash_ok_Ok:
  "root_hash_ok S root_cert expected self = Ok () \<Longrightarrow> is_root_certificate root_cert = Ok () \<Longrightarrow>
   \<exists>d. hash_all (svc_crypto S) (base_hash_sel (negotiate_info self)) root_cert = Some d \<and> Sized_as_ref d = expected"
  by (auto simp: root_hash_ok_def bindR_eq_Inr succeeds_eq_Ok split: option.splits if_splits)

lemma verified_chain_accepted:
  assumes "verify_spdm_certificate_chain S self = Ok ()"
  obtains chain where "peer_cert_chain_temp (peer_info self) = Some chain" "chain_accepted S chain self"
proof -
  obtain chain runtime root_hash root_cert leaf_cert where c: "peer_cert_chain_temp (peer_info self) = Some chain"
    "received_certs self chain = Ok (runtime, root_hash)" "svc_verify_cert_chain S (CertChain_as_ref runtime) = Ok ()"
    "certificate_at S runtime 0 = Ok root_cert" "root_hash_ok S root_cert root_hash self = Ok ()"
    "certificate_at S runtime (-1) = Ok leaf_cert"
    "check_leaf_certificate leaf_cert (rsp_has self SpdmResponseCapabilityFlags_ALIAS_CERT_CAP) = Ok ()"
    "root_trusted (peer_root_cert_data (provision_info self)) root_cert"
    using assms
    by (auto simp: verify_spdm_certificate_chain_def bindR_eq_Inr succeeds_eq_Ok split: if_splits option.splits)
  have "chain_accepted S chain self"
  proof (rule received_certs_Ok [OF c(2)])
    fix size_field hash_size body
    assume r: "CertChain_as_ref chain = size_field @ root_hash @ body" "length size_field = 4"
      "decode_u32 size_field = Some (cc_size chain)" "get_hash_size self = Ok hash_size"
      "length root_hash = unat hash_size" "body \<noteq> []" "CertChain_as_ref runtime = body"
      "cc_data runtime = body @ replicate (MAX_SPDM_CERT_CHAIN_DATA_SIZE - length body) 0"
    have h: "is_root_certificate root_cert = Ok () \<longrightarrow>
      (\<exists>d. hash_all (svc_crypto S) (base_hash_sel (negotiate_info self)) root_cert = Some d \<and> Sized_as_ref d = root_hash)"
      using root_hash_ok_Ok [OF c(5)] by blast
    show ?thesis
      unfolding chain_accepted_def
      by (rule exI [of _ size_field], rule exI [of _ hash_size], rule exI [of _ root_hash], rule exI [of _ body],
          rule exI [of _ root_cert], rule exI [of _ leaf_cert], intro conjI r(1-6) c(7,8) c(3) [unfolded r(7)] certificate_at_Ok [OF c(4) r(7,8)]
          certificate_at_Ok [OF c(6) r(7,8)] h)
  qed
  with c(1) show thesis by (rule that)
qed


lemma chain_accepted_settled: "settled a b \<Longrightarrow> chain_accepted S chain b = chain_accepted S chain a"
  unfolding settled_def chain_accepted_def get_hash_size_def by (elim conjE) (simp only:)

lemma keep_certificate_cases:
  assumes "settled a self" "keep_certificate S slot_id total_size self = (res, t)"
  shows "case res of
      Inl _ \<Rightarrow> peer_cert_chain (peer_info t) = peer_cert_chain (peer_info a)
    | Inr _ \<Rightarrow> \<exists>chain. chain_accepted S chain a
        \<and> peer_cert_chain (peer_info t) = (peer_cert_chain (peer_info a))[unat slot_id := Some chain]"
proof -
  have pc: "peer_cert_chain (peer_info self) = peer_cert_chain (peer_info a)" using assms(1) by (simp add: settled_def)
  show ?thesis
  proof (cases "total_size \<noteq> 0 \<and> verify_spdm_certificate_chain S self = Ok ()")
    case True
    obtain chain where chain: "peer_cert_chain_temp (peer_info self) = Some chain" "chain_accepted S chain self"
      by (rule verified_chain_accepted [OF conjunct2 [OF True]])
    then have "chain_accepted S chain a" by (simp only: chain_accepted_settled [OF assms(1)])
    moreover have "res = Ok ()" "peer_cert_chain (peer_info t) = (peer_cert_chain (peer_info a))[unat slot_id := Some chain]"
      using assms(2) True chain(1) by (auto simp: keep_certificate_def pc)
    ultimately show ?thesis by auto
  next
    case False
    moreover obtain v where v: "verify_spdm_certificate_chain S self = v" by blast
    ultimately have "(\<exists>e. res = Inl e) \<and> peer_cert_chain (peer_info t) = peer_cert_chain (peer_info a)"
      using assms(2) pc unfolding keep_certificate_def v
      by (cases v) (auto split: fault.splits if_splits)
    then show ?thesis by auto
  qed
qed

end
