(* ===== verification/ReqSession.thy ===== *)
theory ReqSession
  imports ReqInfo
begin

text \<open>
  The requester's side of sessions: \<open>requester/key_exchange_req.rs\<close>, \<open>finish_req.rs\<close>, \<open>psk_exchange_req.rs\<close>,
  \<open>psk_finish_req.rs\<close>, \<open>heartbeat_req.rs\<close>, \<open>key_update_req.rs\<close>, \<open>end_session_req.rs\<close> and \<open>start_session\<close> of
  \<open>requester/context.rs\<close>, with running transcript hashes and without mutual authentication, as the
  default features are.
\<close>

subsection \<open>Sessions that fail\<close>

definition in_session ::
  "u32 \<Rightarrow> 'h SpdmContext \<Rightarrow> ('h SpdmSession \<Rightarrow> 'a SpdmResult \<times> 'h SpdmContext) \<Rightarrow> 'a SpdmResult \<times> 'h SpdmContext" where
  "in_session sid self k =
     (case get_session_via_id sid self of None \<Rightarrow> (Err SPDM_STATUS_INVALID_STATE_LOCAL, self) | Some s \<Rightarrow> k s)"

text \<open>A result that is an error tears the session down, if there is one.\<close>

definition or_teardown :: "u32 \<Rightarrow> 'a SpdmResult \<times> 'h SpdmContext \<Rightarrow> 'a SpdmResult \<times> 'h SpdmContext" where
  "or_teardown sid m =
     (case m of (Inl (Fail e), self) \<Rightarrow> (Err e, teardown_session sid self) | _ \<Rightarrow> m)"

text \<open>\<open>if res.is_err() { self.common.get_session_via_id(session_id).ok_or(..)?.teardown(); }\<close>\<close>

definition closing ::
  "u32 \<Rightarrow> 'a SpdmResult \<times> ('d, 'h) RequesterContext \<Rightarrow> 'a SpdmResult \<times> ('d, 'h) RequesterContext" where
  "closing sid m =
     (case m of
        (Inl (Fail e), self) \<Rightarrow>
          on_common (\<lambda>c. in_session sid c (\<lambda>s. (Err e, put_session sid (session_teardown s) c))) self
      | _ \<Rightarrow> m)"

subsection \<open>Parts that KEY_EXCHANGE and PSK_EXCHANGE share\<close>

definition offered_sm_versions :: "SpdmConfigInfo \<Rightarrow> SecuredMessageVersionList" where
  "offered_sm_versions config =
     (let vs = flatten (cfg_secure_spdm_version config) in
      \<lparr>version_count = of_nat (length vs),
       versions_list = copy_at 0 vs (replicate MAX_SECURE_SPDM_VERSION_COUNT SecuredMessageVersion_default)\<rparr>)"

definition need_summary_hash :: "SpdmMeasurementSummaryHashType \<Rightarrow> 'h SpdmContext \<Rightarrow> 'h SpdmContext" where
  "need_summary_hash t self =
     upd_rt (\<lambda>r. r\<lparr>need_measurement_summary_hash :=
       (t = SpdmMeasurementSummaryHashTypeTcb \<or> t = SpdmMeasurementSummaryHashTypeAll)\<rparr>) self"

text \<open>Bytes of the response before a part at its end.\<close>

definition before_tail :: "usize \<Rightarrow> usize \<Rightarrow> bytes \<Rightarrow> bytes SpdmResult" where
  "before_tail used tail bs = (if used < tail then panic else slice 0 (used - tail) bs)"

text \<open>\<open>th1\<close> and the handshake secrets.\<close>

definition req_handshake_secret :: "'h Services \<Rightarrow> u32 \<Rightarrow> 'h SpdmContext \<Rightarrow> unit SpdmResult \<times> 'h SpdmContext" where
  "req_handshake_secret S sid self =
     in_session sid self (\<lambda>s.
     andThen (calc_req_transcript_hash (svc_crypto S) s, self) (\<lambda>th self.
     case generate_handshake_secret (svc_crypto S) (ver_sel self) th (s\<lparr>th1 := th\<rparr>) of
       (res, s) \<Rightarrow> (res, put_session sid s self)))"

text \<open>The responder's HMAC over the transcript, which is then part of it.\<close>

definition req_response_hmac ::
  "'h Services \<Rightarrow> u32 \<Rightarrow> SpdmDigestStruct \<Rightarrow> 'h SpdmContext \<Rightarrow> unit SpdmResult \<times> 'h SpdmContext" where
  "req_response_hmac S sid verify_data self =
     in_session sid self (\<lambda>s.
     andThen (calc_req_transcript_hash (svc_crypto S) s, self) (\<lambda>th self.
     andThen (succeeds (verify_hmac_with_response_finished_key (svc_crypto S) (Sized_as_ref th) verify_data s), self) (\<lambda>ok self.
     if \<not> ok then (Err SPDM_STATUS_VERIF_FAIL, put_session sid (session_teardown s) self)
     else case append_message_k (svc_crypto S) sid (Sized_as_ref verify_data) self of
            (Inl (Fail _), self) \<Rightarrow>
              in_session sid self (\<lambda>s. (Err SPDM_STATUS_BUFFER_FULL, put_session sid (session_teardown s) self))
          | m \<Rightarrow> m)))"

text \<open>\<open>th2\<close> and the data secrets; the session is established.\<close>

definition req_data_secret :: "'h Services \<Rightarrow> u32 \<Rightarrow> 'h SpdmContext \<Rightarrow> unit SpdmResult \<times> 'h SpdmContext" where
  "req_data_secret S sid self =
     in_session sid self (\<lambda>s.
     andThen (calc_req_transcript_hash (svc_crypto S) s, self) (\<lambda>th self.
     case generate_data_secret (svc_crypto S) (ver_sel self) th (s\<lparr>th2 := th\<rparr>) of
       (Inl e, s) \<Rightarrow> (Inl e, put_session sid s self)
     | (Inr _, s) \<Rightarrow> (Ok (), put_session sid (s\<lparr>session_state := SpdmSessionEstablished\<rparr>) self)))"

subsection \<open>KEY_EXCHANGE\<close>

text \<open>What the requester keeps of its own half of the key exchange.\<close>

datatype SpdmReqExchangeContext =
    SpdmReqExchangeContextDhe "Sized \<Rightarrow> SpdmSharedSecretFinalKeyStruct option"
  | SpdmReqExchangeContextKem "Sized \<Rightarrow> SpdmSharedSecretFinalKeyStruct option"

definition own_exchange :: "'h Services \<Rightarrow> 'h SpdmContext \<Rightarrow> (Sized \<times> SpdmReqExchangeContext) SpdmResult" where
  "own_exchange S self =
     (if kem_sel (negotiate_info self) \<noteq> 0
      then bindR (ok_or (Fail SPDM_STATUS_CRYPTO_ERROR) (svc_kem_generate_key_pair S (kem_sel (negotiate_info self))))
             (\<lambda>(exchange, decap_key).
           bindR (exchange_cast SPDM_MAX_REQ_KEY_EXCHANGE_SIZE exchange) (\<lambda>exchange.
           Ok (exchange, SpdmReqExchangeContextKem decap_key)))
      else bindR (ok_or (Fail SPDM_STATUS_CRYPTO_ERROR) (svc_dhe_generate_key_pair S (dhe_sel (negotiate_info self))))
             (\<lambda>(exchange, compute_final_key).
           bindR (exchange_cast SPDM_MAX_REQ_KEY_EXCHANGE_SIZE exchange) (\<lambda>exchange.
           Ok (exchange, SpdmReqExchangeContextDhe compute_final_key))))"

definition encode_spdm_key_exchange ::
  "'h Services \<Rightarrow> u16 \<Rightarrow> u8 \<Rightarrow> SpdmMeasurementSummaryHashType \<Rightarrow> 'h SpdmContext \<Rightarrow>
     (SpdmReqExchangeContext \<times> bytes) SpdmResult" where
  "encode_spdm_key_exchange S req_session_id slot_id summary_type self =
     (let session_policy = cfg_session_policy (config_info self) in
      if SpdmVersion13 \<le> ver_sel self \<and> session_policy AND KEY_EXCHANGE_REQUESTER_SESSION_POLICY_EVENT_ALL_POLICY_MASK = 2
         \<and> rsp_has self SpdmResponseCapabilityFlags_EVENT_CAP
      then Err SPDM_STATUS_UNSUPPORTED_CAP
      else bindR (svc_get_random S SPDM_RANDOM_SIZE) (\<lambda>random.
        bindR (own_exchange S self) (\<lambda>(exchange, key_exchange_context).
        bindR (from_sm_supported_ver_list_opaque self (offered_sm_versions (config_info self))) (\<lambda>opq.
        bindR (message_encode (ver_sel self) SpdmRequestKeyExchange
                 (SpdmKeyExchangeRequestPayload_spdm_encode self
                    \<lparr>ke_measurement_summary_hash_type = summary_type, ke_slot_id = slot_id,
                     ke_req_session_id = req_session_id, ke_session_policy = session_policy, ke_random = random,
                     ke_exchange = exchange, ke_opaque = opq\<rparr>)
                 (Writer_init (replicate MAX_SPDM_MSG_SIZE 0))) (\<lambda>(_, w).
        Ok (key_exchange_context, Writer_used_slice w))))))"

definition init_spdm_key_exchange ::
  "'h Services \<Rightarrow> u8 \<Rightarrow> SpdmMeasurementSummaryHashType \<Rightarrow> 'h SpdmContext \<Rightarrow>
     (u16 \<times> SpdmReqExchangeContext \<times> bytes) SpdmResult \<times> 'h SpdmContext" where
  "init_spdm_key_exchange S slot_id summary_type self =
     (if SPDM_MAX_SLOT_NUMBER \<le> unat slot_id
         \<and> (slot_id \<noteq> SPDM_PUB_KEY_SLOT_ID_KEY_EXCHANGE \<or> peer_pub_key (provision_info self) = None)
      then (Err SPDM_STATUS_INVALID_PARAMETER, self)
      else andThen (get_next_half_session_id True self, self) (\<lambda>req_session_id self.
        let self = upd_rt (\<lambda>r. r\<lparr>peer_used_cert_chain_slot_id := slot_id\<rparr>)
              (reset_buffer_via_request_code SpdmRequestKeyExchange None self) in
        andThen (encode_spdm_key_exchange S req_session_id slot_id summary_type self, self)
          (\<lambda>(key_exchange_context, send_buffer) self. (Ok (req_session_id, key_exchange_context, send_buffer), self))))"

definition shared_key :: "SpdmReqExchangeContext \<Rightarrow> Sized \<Rightarrow> 'h SpdmContext \<Rightarrow> SpdmSharedSecretFinalKeyStruct SpdmResult" where
  "shared_key key_exchange_context exchange self =
     (if kem_sel (negotiate_info self) \<noteq> 0
      then bindR (exchange_cast SPDM_MAX_KEM_CIPHER_TEXT_SIZE exchange) (\<lambda>kem_exchange.
           case key_exchange_context of
             SpdmReqExchangeContextDhe _ \<Rightarrow> Err SPDM_STATUS_CRYPTO_ERROR
           | SpdmReqExchangeContextKem decap_key \<Rightarrow> ok_or (Fail SPDM_STATUS_CRYPTO_ERROR) (decap_key kem_exchange))
      else bindR (exchange_cast SPDM_MAX_DHE_KEY_SIZE exchange) (\<lambda>dhe_exchange.
           case key_exchange_context of
             SpdmReqExchangeContextKem _ \<Rightarrow> Err SPDM_STATUS_CRYPTO_ERROR
           | SpdmReqExchangeContextDhe compute_final_key \<Rightarrow>
               ok_or (Fail SPDM_STATUS_CRYPTO_ERROR) (compute_final_key dhe_exchange)))"

definition peer_cert_hash :: "'h Services \<Rightarrow> u8 \<Rightarrow> 'h SpdmContext \<Rightarrow> SpdmDigestStruct SpdmResult" where
  "peer_cert_hash S slot_id self =
     bindR (if slot_id = SPDM_PUB_KEY_SLOT_ID_KEY_EXCHANGE
            then bindR (ok_or (Fail SPDM_STATUS_INVALID_PARAMETER) (peer_pub_key (provision_info self))) (\<lambda>pk.
                 bindR (slice 0 (unat (cc_size pk)) (cc_data pk)) (\<lambda>bs.
                 Ok (hash_all (svc_crypto S) (base_hash_sel (negotiate_info self)) bs)))
            else get_certchain_hash_peer (svc_crypto S) False (unat slot_id) self)
       (ok_or (Fail SPDM_STATUS_INVALID_MSG_FIELD))"

definition verify_key_exchange_rsp_signature ::
  "'h Services \<Rightarrow> u8 \<Rightarrow> 'h SpdmSession \<Rightarrow> SpdmSignatureStruct \<Rightarrow> 'h SpdmContext \<Rightarrow> unit SpdmResult" where
  "verify_key_exchange_rsp_signature S slot_id s sig self =
     bindR (calc_req_transcript_hash (svc_crypto S) s) (\<lambda>digest.
     verify_rsp_signature S digest SPDM_PUB_KEY_SLOT_ID_KEY_EXCHANGE slot_id 2 SPDM_KEY_EXCHANGE_RESPONSE_SIGN_CONTEXT
       sig self)"

text \<open>The session is set up in a free slot and given the shared secret.\<close>

definition key_exchange_session ::
  "'h Services \<Rightarrow> u32 \<Rightarrow> SpdmKeyExchangeResponsePayload \<Rightarrow> SpdmSharedSecretFinalKeyStruct \<Rightarrow> SpdmDigestStruct \<Rightarrow>
     'h SpdmContext \<Rightarrow> unit SpdmResult \<times> 'h SpdmContext" where
  "key_exchange_session S sid rsp final cert_hash self =
     andThen (ok_or (Fail SPDM_STATUS_SESSION_NUMBER_EXCEED) (get_next_avaiable_session self), self) (\<lambda>s self.
     andThen (session_setup sid s, self) (\<lambda>s self.
     case set_shared_secret (svc_crypto S) (ver_sel self) final
            ((fresh_session S self False s)\<lparr>mut_auth_requested := ker_mut_auth_req rsp\<rparr>) of
       (Inl e, s) \<Rightarrow> (Inl e, put_session INVALID_SESSION_ID s self)
     | (Inr _, s) \<Rightarrow> (Ok (), put_session INVALID_SESSION_ID
         (upd_srt (\<lambda>r. r\<lparr>s_message_a := message_a (runtime_info self), rsp_cert_hash := Some cert_hash,
                         req_cert_hash := None\<rparr>) s) self)))"

text \<open>The transcript up to the signature, the signature, the secrets and the HMAC.\<close>

definition key_exchange_verified ::
  "'h Services \<Rightarrow> u32 \<Rightarrow> u8 \<Rightarrow> SpdmKeyExchangeResponsePayload \<Rightarrow> bytes \<Rightarrow> bytes \<Rightarrow> usize \<Rightarrow> 'h SpdmContext \<Rightarrow>
     unit SpdmResult \<times> 'h SpdmContext" where
  "key_exchange_verified S sid slot_id rsp send_buffer response used self =
     andThen (bindR (get_asym_sig_size self) (\<lambda>signature_size.
              bindR (get_hash_size self) (\<lambda>base_hash_size.
              before_tail used (unat signature_size + (if in_clear_text self then 0 else unat base_hash_size)) response)), self)
       (\<lambda>received self.
     andThen (append_message_k (svc_crypto S) sid send_buffer self) (\<lambda>_ self.
     andThen (append_message_k (svc_crypto S) sid received self) (\<lambda>_ self.
     in_session sid self (\<lambda>s.
     andThen (succeeds (verify_key_exchange_rsp_signature S slot_id s (ker_signature rsp) self), self) (\<lambda>ok self.
     if \<not> ok then (Err SPDM_STATUS_VERIF_FAIL, self)
     else andThen (append_message_k (svc_crypto S) sid (Sized_as_ref (ker_signature rsp)) self) (\<lambda>_ self.
       andThen (req_handshake_secret S sid self) (\<lambda>_ self.
       if in_clear_text self then (Ok (), self) else req_response_hmac S sid (ker_verify_data rsp) self)))))))"

definition key_exchange_handshaking ::
  "u32 \<Rightarrow> SecuredMessageVersion \<Rightarrow> SpdmKeyExchangeResponsePayload \<Rightarrow> 'h SpdmContext \<Rightarrow> u32 SpdmResult \<times> 'h SpdmContext" where
  "key_exchange_handshaking sid sm_version rsp self =
     in_session sid self (\<lambda>s.
     let self = put_session sid (s\<lparr>secure_spdm_version_sel := sm_version, heartbeat_period := ker_heartbeat_period rsp,
                                   session_state := SpdmSessionHandshaking\<rparr>) self in
     (Ok sid, if in_clear_text self then upd_rt (\<lambda>r. r\<lparr>last_session_id := Some sid\<rparr>) self else self))"

text \<open>
  The result is the id of the session. Once the id is known, an error tears the session of that id
  down, as the caller does (\<open>receive_spdm_key_exchange\<close>).
\<close>

definition handle_spdm_key_exchange_response ::
  "'h Services \<Rightarrow> u16 \<Rightarrow> u8 \<Rightarrow> SpdmMeasurementSummaryHashType \<Rightarrow> SpdmReqExchangeContext \<Rightarrow> bytes \<Rightarrow> bytes \<Rightarrow>
     'h SpdmContext \<Rightarrow> u32 SpdmResult \<times> 'h SpdmContext" where
  "handle_spdm_key_exchange_response S req_session_id slot_id summary_type key_exchange_context send_buffer response self =
     (let self = need_summary_hash summary_type self in
      with_versioned_response SpdmResponseKeyExchangeRsp None response (\<lambda>r.
        with_payload (SpdmKeyExchangeResponsePayload_spdm_read self r) self (\<lambda>(rsp, r).
        andThen (shared_key key_exchange_context (ker_exchange rsp) self, self) (\<lambda>final self.
        andThen (ok_or (Fail SPDM_STATUS_INVALID_MSG_FIELD) (req_get_dmtf_secure_spdm_version_selection self (ker_opaque rsp)),
                 self) (\<lambda>sm_version self.
        let sid = join_session_id req_session_id (ker_rsp_session_id rsp) in
        or_teardown sid (
          andThen (peer_cert_hash S slot_id self, self) (\<lambda>cert_hash self.
          andThen (key_exchange_session S sid rsp final cert_hash self) (\<lambda>_ self.
          andThen (key_exchange_verified S sid slot_id rsp send_buffer response (Reader_used r) self) (\<lambda>_.
          key_exchange_handshaking sid sm_version rsp)))))))) self)"

definition send_receive_spdm_key_exchange ::
  "'h Services \<Rightarrow> 'd SpdmDeviceIo \<Rightarrow> u8 \<Rightarrow> SpdmMeasurementSummaryHashType \<Rightarrow> ('d, 'h) RequesterContext \<Rightarrow>
     u32 SpdmResult \<times> ('d, 'h) RequesterContext" where
  "send_receive_spdm_key_exchange S io slot_id summary_type self =
     andThen (on_common (init_spdm_key_exchange S slot_id summary_type) self)
       (\<lambda>(req_session_id, key_exchange_context, send_buffer) self.
     andThen (req_send_message S io None send_buffer False self) (\<lambda>_ self.
     andThen (req_receive_message S io None False self) (\<lambda>response.
     on_common (handle_spdm_key_exchange_response S req_session_id slot_id summary_type key_exchange_context send_buffer
                  response))))"

subsection \<open>FINISH\<close>

abbreviation (input) SPDM_PUB_KEY_SLOT_ID_FINISH :: u8 where "SPDM_PUB_KEY_SLOT_ID_FINISH \<equiv> 0xFF"

definition req_asym_sign :: "'h Services \<Rightarrow> 'h SpdmContext \<Rightarrow> bytes \<Rightarrow> SpdmSignatureStruct option" where
  "req_asym_sign S self bs =
     (let n = negotiate_info self; pqc = SpdmPqcReqAsymAlgo_to_base (pqc_req_asym_sel n) in
      if pqc \<noteq> 0 then svc_pqc_asym_sign S self (base_hash_sel n) pqc bs
      else svc_asym_sign S self (base_hash_sel n) (SpdmReqAsymAlgo_to_base (req_asym_sel n)) bs)"

definition generate_finish_req_signature ::
  "'h Services \<Rightarrow> 'h SpdmSession \<Rightarrow> 'h SpdmContext \<Rightarrow> SpdmSignatureStruct SpdmResult" where
  "generate_finish_req_signature S s self =
     bindR (calc_req_transcript_hash (svc_crypto S) s) (\<lambda>th.
     if SpdmVersion12 \<le> ver_sel self
     then bindR (signing_message 12 SPDM_FINISH_SIGN_CONTEXT th self) (\<lambda>m.
          ok_or (Fail SPDM_STATUS_CRYPTO_ERROR) (req_asym_sign S self (ManagedBuffer_as_ref m)))
     else Err SPDM_STATUS_INVALID_STATE_LOCAL)"

text \<open>\<open>buf[i..j].copy_from_slice(bs)\<close>, which panics out of range and when the lengths differ.\<close>

definition copy_slice :: "usize \<Rightarrow> usize \<Rightarrow> bytes \<Rightarrow> bytes \<Rightarrow> bytes SpdmResult" where
  "copy_slice i j bs buf =
     (if i \<le> j \<and> j \<le> length buf \<and> length bs = j - i then Ok (copy_at i bs buf) else panic)"

definition finish_signed ::
  "'h Services \<Rightarrow> u32 \<Rightarrow> usize \<Rightarrow> bytes \<Rightarrow> 'h SpdmContext \<Rightarrow> bytes SpdmResult \<times> 'h SpdmContext" where
  "finish_signed S sid at buf self =
     in_session sid self (\<lambda>s.
     if mut_auth_requested s = 0 then (Ok buf, self)
     else andThen (bindR (generate_finish_req_signature S s self) (\<lambda>sig.
                   bindR (copy_slice at (at + unat (data_size sig)) (Sized_as_ref sig) buf) (\<lambda>buf. Ok (sig, buf))), self)
            (\<lambda>(sig, buf) self.
          andThen (append_message_f (svc_crypto S) True sid (Sized_as_ref sig) self) (\<lambda>_ self. (Ok buf, self))))"

text \<open>The HMAC of the requester at the end of the message.\<close>

definition request_hmac ::
  "'h Services \<Rightarrow> u32 \<Rightarrow> usize \<Rightarrow> bytes \<Rightarrow> 'h SpdmContext \<Rightarrow> bytes SpdmResult \<times> 'h SpdmContext" where
  "request_hmac S sid send_used buf self =
     andThen (get_hash_size self, self) (\<lambda>base_hash_size self.
     in_session sid self (\<lambda>s.
     andThen (bindR (calc_req_transcript_hash (svc_crypto S) s) (\<lambda>th.
              generate_hmac_with_request_finished_key (svc_crypto S) (Sized_as_ref th) s), self) (\<lambda>mac self.
     andThen (append_message_f (svc_crypto S) True sid (Sized_as_ref mac) self) (\<lambda>_ self.
     (if send_used < unat base_hash_size then panic
      else bindR (copy_slice (send_used - unat base_hash_size) send_used (Sized_as_ref mac) buf) (slice 0 send_used), self)))))"

definition encode_spdm_finish ::
  "'h Services \<Rightarrow> u32 \<Rightarrow> u8 \<Rightarrow> 'h SpdmContext \<Rightarrow> bytes SpdmResult \<times> 'h SpdmContext" where
  "encode_spdm_finish S sid req_slot_id self =
     in_session sid self (\<lambda>s.
     let is_mut_auth = (mut_auth_requested s \<noteq> 0);
         opaque_total = (if SpdmVersion14 \<le> ver_sel self then 2 else 0) in
     andThen (bindR (if is_mut_auth then get_req_asym_sig_size self else Ok 0) (\<lambda>sig_size.
              bindR (get_hash_size self) (\<lambda>hash_size.
              encode_request_buffer (ver_sel self) SpdmRequestFinish
                (SpdmFinishRequestPayload_spdm_encode self
                   \<lparr>fin_finish_request_attributes = (if is_mut_auth then SIGNATURE_INCLUDED else 0),
                    fin_req_slot_id = req_slot_id, fin_signature = SpdmSignatureStruct_default\<lparr>data_size := sig_size\<rparr>,
                    fin_verify_data = \<lparr>data_size = hash_size, data = replicate SPDM_MAX_HASH_SIZE 0xcc\<rparr>,
                    fin_opaque = SpdmOpaqueStruct_default\<rparr>))), self) (\<lambda>(send_used, buf) self.
     andThen (slice 0 (4 + opaque_total) buf, self) (\<lambda>first self.
     andThen (append_message_f (svc_crypto S) True sid first self) (\<lambda>_ self.
     andThen (finish_signed S sid (4 + opaque_total) buf self) (\<lambda>buf.
     request_hmac S sid send_used buf)))))"

definition finish_slot :: "u8 option \<Rightarrow> 'h SpdmContext \<Rightarrow> u8 SpdmResult" where
  "finish_slot req_slot_id self =
     (case req_slot_id of
        None \<Rightarrow> Ok 0
      | Some slot \<Rightarrow>
          if slot \<noteq> SPDM_PUB_KEY_SLOT_ID_FINISH \<and> SPDM_MAX_SLOT_NUMBER \<le> unat slot then Err SPDM_STATUS_INVALID_STATE_LOCAL
          else if unat slot < SPDM_MAX_SLOT_NUMBER
          then bindR (slot_at (my_cert_chain (provision_info self)) (unat slot)) (\<lambda>chain.
               if chain = None then Err SPDM_STATUS_INVALID_STATE_LOCAL else Ok slot)
          else Ok slot)"

definition init_spdm_finish ::
  "'h Services \<Rightarrow> u8 option \<Rightarrow> u32 \<Rightarrow> ('d, 'h) RequesterContext \<Rightarrow>
     bytes SpdmResult \<times> ('d, 'h) RequesterContext" where
  "init_spdm_finish S req_slot_id sid self =
     andThen (finish_slot req_slot_id (rq_common self), self) (\<lambda>req_slot_id self.
     if get_session_via_id sid (rq_common self) = None then (Err SPDM_STATUS_INVALID_PARAMETER, self)
     else closing sid (on_common (encode_spdm_finish S sid req_slot_id)
            (upd_common (reset_buffer_via_request_code SpdmRequestFinish (Some sid)) self)))"

text \<open>In the clear, the handshake does not use the session.\<close>

definition handshake_session :: "u32 \<Rightarrow> 'h SpdmContext \<Rightarrow> u32 option" where
  "handshake_session sid self = (if in_clear_text self then None else Some sid)"

text \<open>The end of the transcript: in the clear, with the HMAC of the responder.\<close>

definition finish_transcript ::
  "'h Services \<Rightarrow> u32 \<Rightarrow> SpdmDigestStruct \<Rightarrow> bytes \<Rightarrow> usize \<Rightarrow> 'h SpdmContext \<Rightarrow> unit SpdmResult \<times> 'h SpdmContext" where
  "finish_transcript S sid verify_data response used self =
     andThen (get_hash_size self, self) (\<lambda>base_hash_size self.
     if in_clear_text self
     then andThen (before_tail used (unat base_hash_size) response, self) (\<lambda>received self.
          andThen (append_message_f (svc_crypto S) True sid received self) (\<lambda>_ self.
          in_session sid self (\<lambda>s.
          andThen (calc_req_transcript_hash (svc_crypto S) s, self) (\<lambda>th self.
          andThen (succeeds (verify_hmac_with_response_finished_key (svc_crypto S) (Sized_as_ref th) verify_data s), self)
            (\<lambda>ok self.
          if \<not> ok then (Err SPDM_STATUS_VERIF_FAIL, self)
          else append_message_f (svc_crypto S) True sid (Sized_as_ref verify_data) self)))))
     else append_message_f (svc_crypto S) True sid (take used response) self)"

definition handle_spdm_finish_response ::
  "'h Services \<Rightarrow> u32 \<Rightarrow> bytes \<Rightarrow> 'h SpdmContext \<Rightarrow> unit SpdmResult \<times> 'h SpdmContext" where
  "handle_spdm_finish_response S sid response self =
     in_session sid self (\<lambda>_.
     with_response SpdmResponseFinishRsp (Some sid) response (\<lambda>_ r.
       with_payload (SpdmFinishResponsePayload_spdm_read self r) self (\<lambda>(rsp, r).
       andThen (finish_transcript S sid (finr_verify_data rsp) response (Reader_used r) self) (\<lambda>_ self.
       andThen (req_data_secret S sid self) (\<lambda>_ self.
       (Ok (), upd_rt (\<lambda>r. r\<lparr>last_session_id := None\<rparr>) self))))) self)"

definition receive_spdm_finish ::
  "'h Services \<Rightarrow> 'd SpdmDeviceIo \<Rightarrow> u32 \<Rightarrow> u32 option \<Rightarrow> ('d, 'h) RequesterContext \<Rightarrow>
     unit SpdmResult \<times> ('d, 'h) RequesterContext" where
  "receive_spdm_finish S io sid channel self =
     andThen (closing sid (req_receive_message S io channel False self)) (\<lambda>response.
     on_common (\<lambda>c. or_teardown sid (handle_spdm_finish_response S sid response c)))"

definition send_receive_spdm_finish ::
  "'h Services \<Rightarrow> 'd SpdmDeviceIo \<Rightarrow> u8 option \<Rightarrow> u32 \<Rightarrow> ('d, 'h) RequesterContext \<Rightarrow>
     unit SpdmResult \<times> ('d, 'h) RequesterContext" where
  "send_receive_spdm_finish S io req_slot_id sid self =
     (let channel = handshake_session sid (rq_common self) in
      andThen (init_spdm_finish S req_slot_id sid self) (\<lambda>send_buffer self.
      andThen (closing sid (req_send_message S io channel send_buffer False self)) (\<lambda>_.
      receive_spdm_finish S io sid channel)))"

subsection \<open>PSK_EXCHANGE and PSK_FINISH\<close>

definition encode_spdm_psk_exchange ::
  "'h Services \<Rightarrow> u16 \<Rightarrow> SpdmMeasurementSummaryHashType \<Rightarrow> SpdmPskHintStruct \<Rightarrow> 'h SpdmContext \<Rightarrow>
     bytes SpdmResult \<times> 'h SpdmContext" where
  "encode_spdm_psk_exchange S req_session_id summary_type hint self =
     (bindR (svc_get_random S MAX_SPDM_PSK_CONTEXT_SIZE) (\<lambda>random.
      bindR (from_sm_supported_ver_list_opaque self (offered_sm_versions (config_info self))) (\<lambda>opq.
      bindR (get_hash_size self) (\<lambda>hash_size.
      encode_request (ver_sel self) SpdmRequestPskExchange
        (SpdmPskExchangeRequestPayload_spdm_encode
           \<lparr>pe_measurement_summary_hash_type = summary_type, pe_req_session_id = req_session_id, pe_psk_hint = hint,
            pe_psk_context = \<lparr>data_size = hash_size, data = random\<rparr>, pe_opaque = opq\<rparr>)))), self)"

definition psk_exchange_session ::
  "'h Services \<Rightarrow> u32 \<Rightarrow> SpdmPskHintStruct \<Rightarrow> 'h SpdmContext \<Rightarrow> unit SpdmResult \<times> 'h SpdmContext" where
  "psk_exchange_session S sid hint self =
     andThen (ok_or (Fail SPDM_STATUS_SESSION_NUMBER_EXCEED) (get_next_avaiable_session self), self) (\<lambda>s self.
     andThen (session_setup sid s, self) (\<lambda>s self.
     (Ok (), put_session INVALID_SESSION_ID
        (upd_srt (\<lambda>r. r\<lparr>psk_hint := Some hint, s_message_a := message_a (runtime_info self), rsp_cert_hash := None,
                        req_cert_hash := None\<rparr>) (fresh_session S self True s)) self)))"

definition psk_exchange_verified ::
  "'h Services \<Rightarrow> u32 \<Rightarrow> SpdmPskExchangeResponsePayload \<Rightarrow> bytes \<Rightarrow> bytes \<Rightarrow> usize \<Rightarrow> 'h SpdmContext \<Rightarrow>
     unit SpdmResult \<times> 'h SpdmContext" where
  "psk_exchange_verified S sid rsp send_buffer response used self =
     andThen (bindR (get_hash_size self) (\<lambda>base_hash_size. before_tail used (unat base_hash_size) response), self)
       (\<lambda>received self.
     andThen (append_message_k (svc_crypto S) sid send_buffer self) (\<lambda>_ self.
     andThen (append_message_k (svc_crypto S) sid received self) (\<lambda>_ self.
     andThen (req_handshake_secret S sid self) (\<lambda>_.
     req_response_hmac S sid (per_verify_data rsp)))))"

text \<open>A session without PSK context is established at once.\<close>

definition psk_exchange_handshaking ::
  "'h Services \<Rightarrow> u32 \<Rightarrow> SecuredMessageVersion \<Rightarrow> SpdmPskExchangeResponsePayload \<Rightarrow> 'h SpdmContext \<Rightarrow>
     u32 SpdmResult \<times> 'h SpdmContext" where
  "psk_exchange_handshaking S sid sm_version rsp self =
     in_session sid self (\<lambda>s.
     let self = put_session sid (s\<lparr>session_state := SpdmSessionHandshaking\<rparr>) self in
     andThen (if psk_without_context self then req_data_secret S sid self else (Ok (), self)) (\<lambda>_ self.
     in_session sid self (\<lambda>s.
     (Ok sid, put_session sid (s\<lparr>secure_spdm_version_sel := sm_version,
                                heartbeat_period := per_heartbeat_period rsp\<rparr>) self))))"

definition handle_spdm_psk_exchange_response ::
  "'h Services \<Rightarrow> u16 \<Rightarrow> SpdmMeasurementSummaryHashType \<Rightarrow> SpdmPskHintStruct \<Rightarrow> bytes \<Rightarrow> bytes \<Rightarrow>
     'h SpdmContext \<Rightarrow> u32 SpdmResult \<times> 'h SpdmContext" where
  "handle_spdm_psk_exchange_response S req_session_id summary_type hint send_buffer response self =
     (let self = need_summary_hash summary_type self in
      with_versioned_response SpdmResponsePskExchangeRsp None response (\<lambda>r.
        with_payload (SpdmPskExchangeResponsePayload_spdm_read self r) self (\<lambda>(rsp, r).
        andThen (ok_or (Fail SPDM_STATUS_INVALID_MSG_FIELD) (req_get_dmtf_secure_spdm_version_selection self (per_opaque rsp)),
                 self) (\<lambda>sm_version self.
        let sid = join_session_id req_session_id (per_rsp_session_id rsp) in
        or_teardown sid (
          andThen (psk_exchange_session S sid hint self) (\<lambda>_ self.
          andThen (psk_exchange_verified S sid rsp send_buffer response (Reader_used r) self) (\<lambda>_.
          psk_exchange_handshaking S sid sm_version rsp)))))) self)"

definition send_receive_spdm_psk_exchange ::
  "'h Services \<Rightarrow> 'd SpdmDeviceIo \<Rightarrow> SpdmMeasurementSummaryHashType \<Rightarrow> SpdmPskHintStruct option \<Rightarrow>
     ('d, 'h) RequesterContext \<Rightarrow> u32 SpdmResult \<times> ('d, 'h) RequesterContext" where
  "send_receive_spdm_psk_exchange S io summary_type hint self =
     (let hint = (case hint of Some h \<Rightarrow> h | None \<Rightarrow> Sized_default MAX_SPDM_PSK_HINT_SIZE);
          self = upd_common (reset_buffer_via_request_code SpdmRequestPskExchange None) self in
      andThen (get_next_half_session_id True (rq_common self), self) (\<lambda>req_session_id self.
      andThen (send_request S io None (encode_spdm_psk_exchange S req_session_id summary_type hint) self) (\<lambda>send_buffer self.
      andThen (req_receive_message S io None False self) (\<lambda>response.
      on_common (handle_spdm_psk_exchange_response S req_session_id summary_type hint send_buffer response)))))"

definition encode_spdm_psk_finish ::
  "'h Services \<Rightarrow> u32 \<Rightarrow> 'h SpdmContext \<Rightarrow> bytes SpdmResult \<times> 'h SpdmContext" where
  "encode_spdm_psk_finish S sid self =
     andThen (bindR (get_hash_size self) (\<lambda>hash_size.
              bindR (encode_request_buffer (ver_sel self) SpdmRequestPskFinish
                (SpdmPskFinishRequestPayload_spdm_encode self
                   \<lparr>pf_verify_data = \<lparr>data_size = hash_size, data = replicate SPDM_MAX_HASH_SIZE 0xcc\<rparr>,
                    pf_opaque = SpdmOpaqueStruct_default\<rparr>)) (\<lambda>(send_used, buf).
              bindR (before_tail send_used (unat hash_size) buf) (\<lambda>first. Ok (send_used, buf, first)))), self)
       (\<lambda>(send_used, buf, first) self.
     andThen (append_message_f (svc_crypto S) True sid first self) (\<lambda>_.
     request_hmac S sid send_used buf))"

definition handle_spdm_psk_finish_response ::
  "'h Services \<Rightarrow> u32 \<Rightarrow> bytes \<Rightarrow> 'h SpdmContext \<Rightarrow> unit SpdmResult \<times> 'h SpdmContext" where
  "handle_spdm_psk_finish_response S sid response self =
     with_versioned_response SpdmResponsePskFinishRsp (Some sid) response (\<lambda>r.
       with_payload (SpdmPskFinishResponsePayload_spdm_read self r) self (\<lambda>(_, r).
       andThen (append_message_f (svc_crypto S) True sid (take (Reader_used r) response) self) (\<lambda>_.
       req_data_secret S sid))) self"

definition send_spdm_psk_finish ::
  "'h Services \<Rightarrow> 'd SpdmDeviceIo \<Rightarrow> u32 \<Rightarrow> ('d, 'h) RequesterContext \<Rightarrow> unit SpdmResult \<times> ('d, 'h) RequesterContext" where
  "send_spdm_psk_finish S io sid self =
     (if get_session_via_id sid (rq_common self) = None then (Err SPDM_STATUS_INVALID_PARAMETER, self)
      else andThen (closing sid (on_common (encode_spdm_psk_finish S sid)
                      (upd_common (reset_buffer_via_request_code SpdmRequestPskFinish (Some sid)) self))) (\<lambda>send_buffer self.
           closing sid (req_send_message S io (Some sid) send_buffer False self)))"

definition send_receive_spdm_psk_finish ::
  "'h Services \<Rightarrow> 'd SpdmDeviceIo \<Rightarrow> u32 \<Rightarrow> ('d, 'h) RequesterContext \<Rightarrow> unit SpdmResult \<times> ('d, 'h) RequesterContext" where
  "send_receive_spdm_psk_finish S io sid self =
     andThen (case send_spdm_psk_finish S io sid self of
                (Inl (Fail e), self) \<Rightarrow> (Err e, upd_common (teardown_session sid) self)
              | m \<Rightarrow> m) (\<lambda>_ self.
     andThen (closing sid (req_receive_message S io (Some sid) False self)) (\<lambda>response.
     on_common (\<lambda>c. or_teardown sid (handle_spdm_psk_finish_response S sid response c))))"

subsection \<open>HEARTBEAT, KEY_UPDATE and END_SESSION\<close>

definition encode_spdm_heartbeat :: "'h SpdmContext \<Rightarrow> bytes SpdmResult \<times> 'h SpdmContext" where
  "encode_spdm_heartbeat self = (encode_request (ver_sel self) SpdmRequestHeartbeat params_encode, self)"

definition handle_spdm_heartbeat_response ::
  "u32 \<Rightarrow> bytes \<Rightarrow> 'h SpdmContext \<Rightarrow> unit SpdmResult \<times> 'h SpdmContext" where
  "handle_spdm_heartbeat_response sid response self =
     with_versioned_response SpdmResponseHeartbeatAck (Some sid) response (\<lambda>r.
       with_payload (or_none (params_read r)) self (\<lambda>_. (Ok (), self))) self"

definition send_receive_spdm_heartbeat ::
  "'h Services \<Rightarrow> 'd SpdmDeviceIo \<Rightarrow> u32 \<Rightarrow> ('d, 'h) RequesterContext \<Rightarrow> unit SpdmResult \<times> ('d, 'h) RequesterContext" where
  "send_receive_spdm_heartbeat S io sid self =
     andThen (send_request S io (Some sid) encode_spdm_heartbeat
                (upd_common (reset_buffer_via_request_code SpdmRequestHeartbeat (Some sid)) self)) (\<lambda>_ self.
     andThen (req_receive_message S io (Some sid) False self) (\<lambda>response.
     on_common (handle_spdm_heartbeat_response sid response)))"

definition encode_spdm_key_update_op ::
  "SpdmKeyUpdateOperation \<Rightarrow> u8 \<Rightarrow> 'h SpdmContext \<Rightarrow> bytes SpdmResult \<times> 'h SpdmContext" where
  "encode_spdm_key_update_op operation tag self =
     (encode_request (ver_sel self) SpdmRequestKeyUpdate
        (SpdmKeyUpdateRequestPayload_spdm_encode \<lparr>ku_key_update_operation = operation, ku_tag = tag\<rparr>), self)"

definition send_spdm_key_update ::
  "'h Services \<Rightarrow> 'd SpdmDeviceIo \<Rightarrow> u32 \<Rightarrow> SpdmKeyUpdateOperation \<Rightarrow> u8 \<Rightarrow> ('d, 'h) RequesterContext \<Rightarrow>
     bytes SpdmResult \<times> ('d, 'h) RequesterContext" where
  "send_spdm_key_update S io sid operation tag self =
     send_request S io (Some sid) (encode_spdm_key_update_op operation tag)
       (upd_common (reset_buffer_via_request_code SpdmRequestKeyUpdate (Some sid)) self)"

text \<open>An acknowledgement activates the new keys; a malformed one and an ERROR roll them back.\<close>

definition handle_spdm_key_update_op_response ::
  "u32 \<Rightarrow> bool \<Rightarrow> bool \<Rightarrow> bytes \<Rightarrow> 'h SpdmContext \<Rightarrow> unit SpdmResult \<times> 'h SpdmContext" where
  "handle_spdm_key_update_op_response sid update_requester update_responder response self =
     (let activate = (\<lambda>use_new_key k. case get_session_via_id sid self of
            None \<Rightarrow> (Err SPDM_STATUS_INVALID_PARAMETER, self)
          | Some s \<Rightarrow> k (put_session sid
              (activate_data_secret_update (ver_sel self) update_requester update_responder use_new_key s) self)) in
      case SpdmMessageHeader_read (Reader_init response) of
        None \<Rightarrow> (Err SPDM_STATUS_INVALID_MSG_FIELD, self)
      | Some (hdr, r) \<Rightarrow>
          if version hdr \<noteq> ver_sel self then (Err SPDM_STATUS_INVALID_MSG_FIELD, self)
          else if request_response_code hdr = SpdmResponseKeyUpdateAck
          then (case SpdmKeyUpdateRequestPayload_spdm_read r of
                  Some _ \<Rightarrow> activate True (\<lambda>self. (Ok (), self))
                | None \<Rightarrow> activate False (\<lambda>self. (Err SPDM_STATUS_INVALID_MSG_FIELD, self)))
          else if request_response_code hdr = SpdmResponseError
          then activate False (spdm_handle_error_response_main (Some sid) response)
          else (Err SPDM_STATUS_ERROR_PEER, self))"

definition receive_spdm_key_update ::
  "'h Services \<Rightarrow> 'd SpdmDeviceIo \<Rightarrow> u32 \<Rightarrow> SpdmKeyUpdateOperation \<Rightarrow> ('d, 'h) RequesterContext \<Rightarrow>
     unit SpdmResult \<times> ('d, 'h) RequesterContext" where
  "receive_spdm_key_update S io sid operation self =
     (let update_requester = (operation = SpdmUpdateSingleKey \<or> operation = SpdmUpdateAllKeys);
          update_responder = (operation = SpdmUpdateAllKeys) in
      andThen (on_common (\<lambda>c. case get_session_via_id sid c of
                 None \<Rightarrow> (Err SPDM_STATUS_INVALID_PARAMETER, c)
               | Some s \<Rightarrow> (case create_data_secret_update (svc_crypto S) (ver_sel c) update_requester update_responder s of
                   (res, s) \<Rightarrow> (res, put_session sid s c))) self) (\<lambda>_ self.
      andThen (req_receive_message S io (Some sid) False self) (\<lambda>response.
      on_common (handle_spdm_key_update_op_response sid update_requester update_responder response))))"

definition send_receive_spdm_key_update ::
  "'h Services \<Rightarrow> 'd SpdmDeviceIo \<Rightarrow> u32 \<Rightarrow> SpdmKeyUpdateOperation \<Rightarrow> ('d, 'h) RequesterContext \<Rightarrow>
     unit SpdmResult \<times> ('d, 'h) RequesterContext" where
  "send_receive_spdm_key_update S io sid operation self =
     (if operation \<noteq> SpdmUpdateAllKeys \<and> operation \<noteq> SpdmUpdateSingleKey then (Err SPDM_STATUS_INVALID_MSG_FIELD, self)
      else andThen (send_spdm_key_update S io sid operation 1 self) (\<lambda>_ self.
           andThen (receive_spdm_key_update S io sid operation self) (\<lambda>_ self.
           andThen (send_spdm_key_update S io sid SpdmVerifyNewKey 2 self) (\<lambda>_.
           receive_spdm_key_update S io sid SpdmVerifyNewKey))))"

definition encode_spdm_end_session :: "'h SpdmContext \<Rightarrow> bytes SpdmResult \<times> 'h SpdmContext" where
  "encode_spdm_end_session self =
     (encode_request (ver_sel self) SpdmRequestEndSession (SpdmEndSessionRequestPayload_spdm_encode 0), self)"

definition handle_spdm_end_session_response ::
  "u32 \<Rightarrow> bytes \<Rightarrow> 'h SpdmContext \<Rightarrow> unit SpdmResult \<times> 'h SpdmContext" where
  "handle_spdm_end_session_response sid response self =
     with_versioned_response SpdmResponseEndSessionAck (Some sid) response (\<lambda>r.
       with_payload (or_none (params_read r)) self (\<lambda>_.
       case get_session_via_id sid self of
         None \<Rightarrow> (Err SPDM_STATUS_INVALID_PARAMETER, self)
       | Some s \<Rightarrow> (Ok (), put_session sid (session_teardown s) self))) self"

definition send_receive_spdm_end_session ::
  "'h Services \<Rightarrow> 'd SpdmDeviceIo \<Rightarrow> u32 \<Rightarrow> ('d, 'h) RequesterContext \<Rightarrow> unit SpdmResult \<times> ('d, 'h) RequesterContext" where
  "send_receive_spdm_end_session S io sid self =
     andThen (send_request S io (Some sid) encode_spdm_end_session
                (upd_common (reset_buffer_via_request_code SpdmRequestEndSession (Some sid)) self)) (\<lambda>_ self.
     andThen (req_receive_message S io (Some sid) False self) (\<lambda>response.
     on_common (handle_spdm_end_session_response sid response)))"

definition start_session ::
  "'h Services \<Rightarrow> 'd SpdmDeviceIo \<Rightarrow> bool \<Rightarrow> u8 \<Rightarrow> SpdmMeasurementSummaryHashType \<Rightarrow> ('d, 'h) RequesterContext \<Rightarrow>
     u32 SpdmResult \<times> ('d, 'h) RequesterContext" where
  "start_session S io psk slot_id summary_type self =
     (if \<not> psk
      then andThen (send_receive_spdm_key_exchange S io slot_id summary_type self) (\<lambda>sid self.
           andThen (send_receive_spdm_finish S io None sid self) (\<lambda>_ self. (Ok sid, self)))
      else andThen (send_receive_spdm_psk_exchange S io summary_type None self) (\<lambda>sid self.
           andThen (if rsp_has (rq_common self) SpdmResponseCapabilityFlags_PSK_CAP_WITH_CONTEXT
                    then send_receive_spdm_psk_finish S io sid self else (Ok (), self)) (\<lambda>_ self. (Ok sid, self))))"

end
