(* ===== verification/Spec2Isabelle.thy ===== *)
theory Spec2Isabelle
  imports SampleResponder ReqConnect ReqSession
begin

text \<open>
  \<^bold>\<open>spdm-rs\<close> is an implementation of the DMTF protocols SPDM and Secured Messages using SPDM. A requester
  and a responder negotiate version, capabilities and algorithms, exchange certificates and
  measurements, derive the keys of a session and protect messages with them. This library models the
  byte codecs, the transports, the algorithms, the key schedule, the sessions, the transcripts, the
  messages, the responder and the requester, and proves what they promise. Names follow the sources; a name
  \<open>T_f\<close> is the method \<open>f\<close> of the type \<open>T\<close>.

  \<^bold>\<open>The model.\<close> Fixed-width integers are words of their width, \<open>usize\<close> is \<open>nat\<close>, a struct is a record, an
  enumeration is a datatype with \<open>Unknown\<close> for the values it does not name, an array is a list of its
  length. A fallible function returns a sum: \<open>Err s\<close> for an \<open>SpdmStatus\<close>, \<open>panic\<close> where the code indexes out
  of range, unwraps nothing or fails an assertion. A method with \<open>&mut self\<close> returns the new state beside
  its result, also when it fails. The build modelled is the default one: running transcript hashes
  (\<open>hashed-transcript-data\<close>), neither \<open>mut-auth\<close> nor \<open>chunk-cap\<close>, synchronous. The transcripts are also
  modelled as the variant without running hashes keeps them (suffix \<open>_raw\<close>).

  \<^bold>\<open>What is a parameter.\<close> Cryptography (\<open>Crypto\<close>), random numbers, verification of certificate
  chains, signing, measurements, vendor and application handlers (\<open>Services\<close>) and the device are code outside the library,
  registered as callbacks. Each is an argument. What a theorem needs of one is a named hypothesis:
  \<open>kdf_ok\<close> (key derivation succeeds with outputs of the size asked for), \<open>aead_ok\<close> (decryption inverts
  encryption), \<open>decrypt_total\<close> (decryption does not panic), \<open>vendor_ok\<close> and \<open>app_ok\<close> (a handler of the
  integrator keeps connection and sessions and sends no message with a code on which \<open>send_message\<close> acts).
  \<open>SampleProvider\<close>, \<open>SampleContext\<close> and \<open>SampleResponder\<close> write out instances that satisfy them.

  \<^bold>\<open>The parts\<close>, each theory with the part of the sources that it models:

  \<^item> \<open>Prelude\<close>, \<open>Codec\<close>, \<open>Scalars\<close>: \<open>codec/src\<close>. Reader, writer, integers, arrays, options. The locales
    \<open>codec\<close>, \<open>enum_codec\<close> and \<open>flag_codec\<close> state what an encoder and its reader promise each other; every codec
    of the library is an interpretation of one of them.
  \<^item> \<open>Status\<close>: \<open>error.rs\<close>, the packed status word.
  \<^item> \<open>Transport\<close>: \<open>mctp_transport\<close> and \<open>pcidoe_transport\<close>. The locale \<open>transport_encap\<close> is the contract of a
    binding; a frame is delivered exactly when the buffers have room.
  \<^item> \<open>Flags\<close>, \<open>Algo\<close>, \<open>Protocol\<close>, \<open>Secrets\<close>: \<open>protocol\<close>. Algorithm sets and their priorities (locale
    \<open>negotiable\<close>), sizes, versions, capabilities, secrets.
  \<^item> \<open>KeySchedule\<close>, \<open>Session\<close>, \<open>SecuredMessage\<close>: \<open>common/key_schedule.rs\<close> and \<open>common/session.rs\<close>. Derivation
    of keys, life of a session, protection of messages.
  \<^item> \<open>Channel\<close>, \<open>SessionKeys\<close>: two sessions as a pair of first-in first-out channels (locale \<open>duplex_channel\<close>)
    that opens when both ends derive their keys from the same inputs.
  \<^item> \<open>Buffers\<close>, \<open>Negotiate\<close>, \<open>Context\<close>, \<open>Transcript\<close>: \<open>common/mod.rs\<close>. Message buffers, configuration and
    what was negotiated with the codecs of export and import, the endpoint with its session table,
    the transcripts.
  \<^item> \<open>Opcode\<close>, \<open>Payload\<close>, \<open>Opaque\<close>, \<open>MsgConnect\<close>, \<open>MsgSession\<close>, \<open>MsgInfo\<close>: \<open>message\<close>, \<open>common/spdm_codec.rs\<close> and
    \<open>common/opaque.rs\<close>. The codecs of all messages of the default build (locale \<open>spdm_codec\<close>).
  \<^item> \<open>Handler\<close>, \<open>RspConnect\<close>, \<open>RspSession\<close>, \<open>RspInfo\<close>, \<open>Dispatch\<close>: \<open>responder\<close>. A handler takes the request,
    the writer over the response buffer and the context and gives its status, the bytes to send
    and the context; \<open>process_message\<close> receives, decodes, dispatches, encodes and sends.
  \<^item> \<open>Frames\<close>, \<open>Replies\<close>, \<open>Effects\<close>: for every handler, the fields it leaves alone, the code of its
    answer, and what it does to connection and sessions on success, failure and panic.
  \<^item> \<open>Machine\<close>, \<open>Responder\<close>, \<open>Answers\<close>: the abstract responder, the proof that \<open>process_message\<close> refines it,
    and concrete answers.
  \<^item> \<open>X509\<close>: \<open>crypto/x509v3.rs\<close>. The format check of a chain and the checks of root and leaf.
  \<^item> \<open>ReqCore\<close>, \<open>ReqConnect\<close>, \<open>ReqInfo\<close>, \<open>ReqSession\<close>: \<open>requester\<close>. The requester has a device beside its
    context; an exchange encodes and sends a request, receives the response and handles it.
    \<open>init_connection\<close> negotiates, \<open>start_session\<close> opens a session.

  \<^bold>\<open>What is shown\<close>, in the order of the properties below: the responder refines a small state machine,
  establishes sessions only after their finish was verified and keeps its invariant in every
  reachable context; protected sessions are reliable channels, live, without a repeated nonce, wiped
  when exhausted; key updates keep both ends in step and can be undone; decoders do not panic;
  stale frames are refused; framing delivers; negotiation agrees; encodings read back; the session
  table is sound; both kinds of transcript agree; failed requests roll back; parsing of certificates
  does not panic and splits a chain as it should; the requester retrieves a certificate chain from
  any device in finitely many requests and keeps only a chain that passed every check. Properties that state a
  defect of the code say so.

  \<^bold>\<open>Bounds.\<close> Loops run over lists whose length the sources fix (at most four sessions, eight slots, six
  algorithm structures), so that every function is total and no fuel is used. The walks of \<open>X509\<close>
  are total because every step moves forward. The loop that retrieves a certificate chain depends on
  a device: it is a partial function that is proved to return, since every portion that is accepted
  is not empty and ends below the largest size of a chain.

  \<^bold>\<open>Not modelled.\<close> Chunked transfer and mutual authentication, which are not default
  features; export and import of the runtime, provisioning, peer and session records; watchdog and
  timers; the backends of the cryptography; TDISP and IDE_KM, which are protocols above
  vendor defined messages; executor, emulators, tests.
\<close>

section \<open>Sessions as channels\<close>

text \<open>C4: Two ends that derive their handshake keys from the same secret and
  transcript hash form two channels that deliver in order and without loss: in every reachable state
  of the two ends and the frames in flight, the messages received in a direction followed by those in
  flight are the messages sent, and the frame in front can be received and carries the next
  message.\<close>

theorem handshake_channel_fifo:
  assumes "kdf_ok C" "aead_ok C" "length (Sized_as_ref th) \<le> 64"
    and "key_inputs_ok (hs_inputs s)" "hs_inputs t = hs_inputs s" "paired s t" "handshake_secret t = handshake_secret s"
    and "s' = enter SpdmSessionHandshaking (snd (generate_handshake_secret C ver th s))"
    and "t' = enter SpdmSessionHandshaking (snd (generate_handshake_secret C ver th t))"
    and run: "(duplex_step (session_send C) (session_recv C) msg_fits)\<^sup>*\<^sup>* (duplex_init s' t') st"
  shows "\<exists>pend. sent st b = got st b @ pend \<and> length pend = length (wire st b)
     \<and> (\<forall>f fs. wire st b = f # fs \<longrightarrow> (\<exists>u. session_recv C b f (end_of (\<not> b) st) = Some (hd pend, u)))"
  using session.fifo [OF run] handshake_views [OF assms(1-9)] by blast

theorem handshake_channel_fifo_witness:
  "\<exists>st. sent st True = [[1, 2, 3]] \<and>
     (\<exists>pend. sent st True = got st True @ pend \<and> length pend = length (wire st True)
     \<and> (\<forall>f fs. wire st True = f # fs \<longrightarrow>
          (\<exists>u. session_recv sample_crypto True f (end_of False st) = Some (hd pend, u))))"
  using sample_run handshake_channel_fifo [OF sample_kdf_ok sample_aead_ok sample_th_length
      sample_end_fields(10) refl sample_paired refl sample_hs_def sample_hs_def, of _ True]
  by fastforce

text \<open>C5: After the data keys have been derived, a direction takes messages that fit
  the transport buffers as long as its sequence number has not reached \<open>u64::MAX\<close>, whatever the two
  ends have sent and received before.\<close>

theorem data_channel_live:
  assumes "kdf_ok C" "aead_ok C" "length (Sized_as_ref th) \<le> 64"
    and "key_inputs_ok (app_inputs s)" "app_inputs t = app_inputs s" "paired s t" "application_secret t = application_secret s"
    and "s' = enter SpdmSessionEstablished (snd (generate_data_secret C ver th s))"
    and "t' = enter SpdmSessionEstablished (snd (generate_data_secret C ver th t))"
    and run: "(duplex_step (session_send C) (session_recv C) msg_fits)\<^sup>*\<^sup>* (duplex_init s' t') st"
    and room: "unat (sequence_number (active_direction b s')) + length (sent st b) < 2 ^ 64 - 1"
    and fits: "msg_fits m"
  shows "\<exists>f u. session_send C b m (end_of b st) = Some (f, u)"
proof -
  have "view_room (Suc (length (sent st b))) (channel_view b s')" using room by (simp add: channel_view_def)
  from session.can_send [OF run _ _ this _ fits] data_views [OF assms(1-9)] show ?thesis by blast
qed

theorem data_channel_live_witness:
  "\<exists>f u. session_send sample_crypto True [1, 2, 3] (end_of True
     (duplex_init sample_data sample_data :: (bytes SpdmSession, bytes, bytes) duplex)) = Some (f, u)"
  by (rule data_channel_live [OF sample_kdf_ok sample_aead_ok sample_th_length
      sample_end_fields(11) refl sample_paired refl sample_data_def sample_data_def rtranclp.rtrancl_refl _ sample_msg_fits])
    (simp add: sample_seq duplex_init_def)



text \<open>C7: A message that would need the sequence number \<open>u64::MAX\<close> is refused
  with \<open>SPDM_STATUS_SEQUENCE_NUMBER_OVERFLOW\<close>, and the session is wiped: it has no id, no keys and is not
  started, so that every later message is refused too.\<close>

theorem exhausted_session_wiped:
  assumes "session_active self" "aead_algo_ok (aead_algo (crypto_param self))"
    and "sequence_number (active_direction b self) = 0xFFFFFFFFFFFFFFFF"
    and "length app < 65000"
    and "encode_spdm_secured_message C app buf b self = (r, self')"
  shows "r = Err SPDM_STATUS_SEQUENCE_NUMBER_OVERFLOW \<and> session_id self' = INVALID_SESSION_ID
     \<and> application_secret self' = SpdmSessionApplicationSecret_default
     \<and> handshake_secret self' = SpdmSessionHandshakeSecret_default
     \<and> encode_spdm_secured_message C app' buf' b' self' = (Err SPDM_STATUS_INVALID_STATE_LOCAL, self')
     \<and> decode_spdm_secured_message C app' buf' b' self' = (Err SPDM_STATUS_INVALID_STATE_LOCAL, self')"
proof -
  have "encode_msg C self app buf (active_direction b self) = Err SPDM_STATUS_SEQUENCE_NUMBER_OVERFLOW"
    using assms(2-4) unat_of_nat_u16 [of "length app + 2"] by (simp add: encode_msg_def Let_def)
  then have "r = Err SPDM_STATUS_SEQUENCE_NUMBER_OVERFLOW" "self' = set_default self"
    using assms(5) by (simp_all add: encode_spdm_active [OF assms(1)])
  then show ?thesis
    by (simp add: encode_spdm_inactive decode_spdm_inactive)
qed

theorem exhausted_session_wiped_witness:
  "let s = upd_hs (\<lambda>h. h\<lparr>hs_request_direction := (hs_request_direction h)\<lparr>sequence_number := 0xFFFFFFFFFFFFFFFF\<rparr>\<rparr>) sample_hs
   in fst (encode_spdm_secured_message sample_crypto [1] [] True s) = Err SPDM_STATUS_SEQUENCE_NUMBER_OVERFLOW"
proof -
  let ?s = "upd_hs (\<lambda>h. h\<lparr>hs_request_direction := (hs_request_direction h)\<lparr>sequence_number := 0xFFFFFFFFFFFFFFFF\<rparr>\<rparr>) sample_hs"
  have "session_active ?s" "aead_algo_ok (aead_algo (crypto_param ?s))"
    "sequence_number (active_direction True ?s) = 0xFFFFFFFFFFFFFFFF"
    using sample_hs_views(1) [of True]
    by (auto simp: channel_view_def session_active_def active_direction_def sample_hs_def enter_def)
  from exhausted_session_wiped [OF this _ prod.collapse [symmetric], of "[1]" sample_crypto "[]"]
  show ?thesis by (simp only: Let_def) simp
qed
section \<open>The endpoint context\<close>

text \<open>C19: In a context whose table is well formed, when \<open>get_next_half_session_id\<close>
  returns a half id, a free slot exists; setting it up under any full id with this half keeps the
  table well formed, gives an id that no live session has, makes the session found under it, leaves
  every other session found under its id, and adds exactly this id to the live ones, which stay
  distinct. A half id is refused exactly when all four slots are alive.\<close>

theorem session_table_sound:
  assumes table: "table_ok b self"
  shows "(\<forall>h sid. get_next_half_session_id b self = Ok h \<and> half_session_id b sid = h \<longrightarrow>
      (\<exists>s0 s. get_next_avaiable_session self = Some s0 \<and> session_setup sid s0 = Ok s
        \<and> table_ok b (put_session 0 s self) \<and> sid \<notin> set (alive self)
        \<and> get_session_via_id sid (put_session 0 s self) = Some s
        \<and> (\<forall>i. i \<noteq> 0 \<and> i \<noteq> sid \<longrightarrow> get_session_via_id i (put_session 0 s self) = get_session_via_id i self)
        \<and> set (alive (put_session 0 s self)) = insert sid (set (alive self))
        \<and> distinct (alive (put_session 0 s self))))
    \<and> (get_next_half_session_id b self = Err SPDM_STATUS_SESSION_NUMBER_EXCEED
         \<longleftrightarrow> length (alive self) = MAX_SPDM_SESSION_COUNT)"
proof (intro conjI allI impI, elim conjE)
  fix h sid assume h: "get_next_half_session_id b self = Ok h" "half_session_id b sid = h"
  obtain s0 where s0: "get_next_avaiable_session self = Some s0"
    using table_ok_open(3) [OF table h(1), of "SpdmSession_new\<lparr>session_id := sid\<rparr>"] h(2) by auto
  then have id0: "session_id s0 = 0" "get_session_via_id 0 self = Some s0"
    using get_session_id [of 0 self s0] by (auto simp: get_next_avaiable_session_def)
  define s where "s = (set_default s0)\<lparr>session_id := sid\<rparr>"
  have s: "session_id s = sid" "session_setup sid s0 = Ok s" using id0(1) by (simp_all add: s_def session_setup_def)
  have half: "half_session_id b (session_id s) = h" using h(2) s(1) by simp
  note opened = table_ok_open [OF table h(1) half]
  have sid: "session_id s \<noteq> 0" using half_id_nonzero [OF table h(1)] half by auto
  have others: "\<forall>i. i \<noteq> 0 \<and> i \<noteq> sid \<longrightarrow> get_session_via_id i (put_session 0 s self) = get_session_via_id i self"
    using s(1) by (auto intro!: get_put_session_other)
  show "\<exists>s0 s. get_next_avaiable_session self = Some s0 \<and> session_setup sid s0 = Ok s
        \<and> table_ok b (put_session 0 s self) \<and> sid \<notin> set (alive self)
        \<and> get_session_via_id sid (put_session 0 s self) = Some s
        \<and> (\<forall>i. i \<noteq> 0 \<and> i \<noteq> sid \<longrightarrow> get_session_via_id i (put_session 0 s self) = get_session_via_id i self)
        \<and> set (alive (put_session 0 s self)) = insert sid (set (alive self))
        \<and> distinct (alive (put_session 0 s self))"
    using s0 s(2) opened(1,2) get_opened [OF id0(2) opened(2) sid] others alive_opened [OF id0(2) sid]
      table_ok_alive_distinct [OF opened(1)] s(1) by (intro exI [of _ s0] exI [of _ s] conjI) simp_all
qed (rule table_ok_full [OF table])

theorem session_table_sound_witness:
  "table_ok False sample_context \<and> get_next_half_session_id False sample_context = Ok 0xFFFD
   \<and> (\<exists>s. get_session_via_id (join_session_id 7 0xFFFD) (put_session 0 s sample_context) = Some s)"
proof -
  have "table_ok False sample_context"
    by (simp add: sample_context_def table_ok_def SpdmContext_new_def SpdmSession_new_def numeral_eq_Suc)
  moreover have "get_next_half_session_id False sample_context = Ok 0xFFFD"
    by (simp add: get_next_half_session_id_def sample_context_def SpdmContext_new_def SpdmSession_new_def numeral_eq_Suc)
  ultimately show ?thesis using session_table_sound [of False sample_context] by (metis join_session_id_halves(2))
qed



section \<open>Messages\<close>



text \<open>C22: The same for the messages that negotiate a connection: VERSION,
  GET_CAPABILITIES, CAPABILITIES, NEGOTIATE_ALGORITHMS and ALGORITHMS.\<close>

theorem connect_messages_survive:
  "(SpdmVersionResponsePayload_valid v \<longrightarrow>
      spdm_survives SpdmVersionResponsePayload_spdm_encode (\<lambda>r. or_none (SpdmVersionResponsePayload_spdm_read r)) v)
 \<and> (SpdmGetCapabilitiesRequestPayload_valid ctx gc \<longrightarrow>
      spdm_survives (SpdmGetCapabilitiesRequestPayload_spdm_encode ctx)
        (\<lambda>r. or_none (SpdmGetCapabilitiesRequestPayload_spdm_read ctx r)) gc)
 \<and> (SpdmCapabilitiesResponsePayload_valid ctx rc \<longrightarrow>
      spdm_survives (SpdmCapabilitiesResponsePayload_spdm_encode ctx)
        (\<lambda>r. or_none (SpdmCapabilitiesResponsePayload_spdm_read ctx r)) rc)
 \<and> (SpdmNegotiateAlgorithmsRequestPayload_valid ctx na \<longrightarrow>
      spdm_survives (SpdmNegotiateAlgorithmsRequestPayload_spdm_encode ctx)
        (\<lambda>r. or_none (SpdmNegotiateAlgorithmsRequestPayload_spdm_read ctx r)) na)
 \<and> (SpdmAlgorithmsResponsePayload_valid ctx al \<longrightarrow>
      spdm_survives (SpdmAlgorithmsResponsePayload_spdm_encode ctx)
        (\<lambda>r. or_none (SpdmAlgorithmsResponsePayload_spdm_read ctx r)) al)"
  by (intro conjI impI version_rsp.survives capabilities_req.survives capabilities_rsp.survives
      algorithms_req.survives algorithms_rsp.survives)

theorem connect_messages_survive_witness:
  "spdm_survives SpdmVersionResponsePayload_spdm_encode
     (\<lambda>r. or_none (SpdmVersionResponsePayload_spdm_read r)) sample_version_rsp"
proof -
  have "SpdmVersionResponsePayload_valid sample_version_rsp"
    unfolding SpdmVersionResponsePayload_valid_def sample_version_rsp_def
    by (intro exI [of _ "[\<lparr>vs_update = 0, vs_version = SpdmVersion12\<rparr>, \<lparr>vs_update = 0, vs_version = SpdmVersion11\<rparr>]"]) simp
  then show ?thesis using connect_messages_survive by blast
qed

text \<open>C23: Whatever bytes a VERSION response holds, reading it gives at least no and
  at most five entries, of different versions, in an array of five: the loop over the up to 255
  entries on the wire never writes outside it.\<close>

theorem version_read_bounded:
  assumes "SpdmVersionResponsePayload_spdm_read r = Some (v, r')"
  shows "unat (version_number_entry_count v) \<le> MAX_SPDM_VERSION_COUNT
    \<and> length (versions v) = MAX_SPDM_VERSION_COUNT
    \<and> distinct (map vs_version (take (unat (version_number_entry_count v)) (versions v)))"
proof -
  obtain rest vs where vs: "version_entries rest [] = Some vs"
    and v: "v = \<lparr>version_number_entry_count = of_nat (length vs),
      versions = copy_at 0 vs (replicate MAX_SPDM_VERSION_COUNT SpdmVersionStruct_default)\<rparr>"
    using assms by (auto simp: SpdmVersionResponsePayload_spdm_read_def split: bind_splits if_splits)
  have d: "distinct (map vs_version vs)" using version_entries_sound [OF vs] by simp
  then have le: "length vs \<le> 5" using version_count_bound by fastforce
  then have "unat (of_nat (length vs) :: u8) = length vs" by simp
  then show ?thesis using v d le by (simp add: copy_at_def)
qed

theorem version_read_bounded_witness:
  "\<exists>v r. SpdmVersionResponsePayload_spdm_read (Reader_init [0, 0, 0, 3, 0, 0x12, 0, 0x12, 0, 0x77]) = Some (v, r)
     \<and> unat (version_number_entry_count v) \<le> MAX_SPDM_VERSION_COUNT"
proof -
  have "\<exists>v r. SpdmVersionResponsePayload_spdm_read (Reader_init [0, 0, 0, 3, 0, 0x12, 0, 0x12, 0, 0x77]) = Some (v, r)"
    by (simp add: SpdmVersionResponsePayload_spdm_read_def Reader_init_rdr reads_simps Reader_take_rdr SpdmVersion_try_from_def)
  then show ?thesis using version_read_bounded by blast
qed

text \<open>C24: The opaque fields of a key exchange carry the secured message
  versions: a list of supported versions that the requester packs into the opaque data is what the
  responder finds there, and the version the responder selects is what the requester finds, when both
  have the same negotiated version and opaque data format.\<close>

theorem secured_version_carried:
  assumes "opaque_ok ctx" "SecuredMessageVersionList_valid vs" "SecuredMessageVersion_valid v"
  shows "(\<exists>d. from_sm_supported_ver_list_opaque ctx vs = Ok d
           \<and> rsp_get_dmtf_supported_secure_spdm_version_list ctx d = Some vs)
    \<and> (\<exists>d. from_sm_version_sel_opaque ctx v = Ok d \<and> req_get_dmtf_secure_spdm_version_selection ctx d = Some v)"
  using list_opaque_packed [OF assms(1,2)] sel_opaque_packed [OF assms(1,3)] by blast

theorem secured_version_carried_witness:
  "\<exists>d. from_sm_supported_ver_list_opaque (SpdmContext_new sample_config SpdmProvisionInfo_default :: bytes SpdmContext)
       \<lparr>version_count = 1, versions_list = [sample_sm_version, SecuredMessageVersion_default, SecuredMessageVersion_default]\<rparr> = Ok d"
proof -
  have "opaque_ok (SpdmContext_new sample_config SpdmProvisionInfo_default :: bytes SpdmContext)"
    by (simp add: opaque_ok_def SpdmContext_new_def SpdmNegotiateInfo_default_def SpdmVersion_order)
  moreover have v: "SecuredMessageVersion_valid sample_sm_version"
    by (simp add: SecuredMessageVersion_valid_def sample_sm_version_def)
  moreover have "SecuredMessageVersionList_valid
      \<lparr>version_count = 1, versions_list = [sample_sm_version, SecuredMessageVersion_default, SecuredMessageVersion_default]\<rparr>"
    unfolding SecuredMessageVersionList_valid_def using v
    by (intro exI [of _ "[sample_sm_version]"]) (simp add: numeral_eq_Suc)
  ultimately show ?thesis using secured_version_carried by blast
qed

section \<open>The responder\<close>







text \<open>C25: A KEY_EXCHANGE or PSK_EXCHANGE that fails, at whatever point, leaves
  the sessions as they were; a FINISH or PSK_FINISH that fails ends its session and leaves the others.\<close>

theorem failed_requests_roll_back:
  assumes "resp_inv (abs_of self)"
  shows "(handle_spdm_key_exchange S bs w self = (Err e, out, s) \<longrightarrow> get_session_status s = get_session_status self)
   \<and> (handle_spdm_psk_exchange S bs w self = (Err e, out, s) \<longrightarrow> get_session_status s = get_session_status self)
   \<and> (handle_spdm_finish S sid bs w self = (Err e, out, s) \<longrightarrow>
        get_session_status s = update_first (\<lambda>x. fst x = sid) (\<lambda>_. dead) (get_session_status self))
   \<and> (handle_spdm_psk_finish S sid bs w self = (Err e, out, s) \<longrightarrow>
        get_session_status s = update_first (\<lambda>x. fst x = sid) (\<lambda>_. dead) (get_session_status self))"
  using key_exchange_effect [OF clean_inv [OF assms], of S bs w] psk_exchange_effect [OF clean_inv [OF assms], of S bs w]
    finish_effect [of self sid S bs w] psk_finish_effect [of self sid S bs w]
  by (auto simp: outcome_post_def exchange_post_def finish_outcome_def view_def)

theorem failed_requests_roll_back_witness:
  "\<exists>e out s. handle_spdm_finish sample_services 0xFFFDFFFD [] (Writer_init []) sample_open_context = (Err e, out, s)
     \<and> get_session_status s = replicate MAX_SPDM_SESSION_COUNT dead"
proof -
  have "\<exists>e out s. handle_spdm_finish sample_services 0xFFFDFFFD [] (Writer_init []) sample_open_context = (Err e, out, s)"
    by (simp add: handle_spdm_finish_def write_spdm_finish_response_def with_header_def sample_no_header refuse_def)
  then obtain e out s where s: "handle_spdm_finish sample_services 0xFFFDFFFD [] (Writer_init []) sample_open_context = (Err e, out, s)"
    by blast
  with failed_requests_roll_back [OF sample_open_inv, where S = sample_services and bs = "[]" and w = "Writer_init []" and e = e and out = out and s = s and sid = "0xFFFDFFFD"]
  have "get_session_status s = update_first (\<lambda>x. fst x = 0xFFFDFFFD) (\<lambda>_. dead) (get_session_status sample_open_context)" by simp
  with s show ?thesis by (simp add: sample_open_status numeral_eq_Suc)
qed

text \<open>C26: In every state, GET_VERSION over MCTP is answered with the versions of the
  configuration, ends all sessions and forgets what was negotiated.\<close>

theorem version_always_restarts:
  assumes "svc_transport S = mctp_transport" "\<And>m. dev m = Ok ()" "versions_ok (config_info self)"
  shows "\<exists>p s'. version_payload (config_info self) = Some p
    \<and> process_message S dev False handle (Inr (5 # get_version_request)) self =
        (Processed None, Some (5 # 0x10 # 0x04 # SpdmVersionResponsePayload_image p), s')
    \<and> connection_state (runtime_info s') = SpdmConnectionAfterVersion
    \<and> get_session_status s' = map (\<lambda>_. dead) (get_session_status self)
    \<and> negotiate_info s' = SpdmNegotiateInfo_default"
  by (rule get_version_answered [OF assms, where h = handle]) (auto simp: abs_of_def)

theorem version_always_restarts_witness:
  "\<exists>s'. process_message sample_services (\<lambda>_. Ok ()) False 0 (Inr (5 # get_version_request)) sample_responder =
        (Processed None, Some [5, 0x10, 0x04, 0, 0, 0, 1, 0, 0x12], s')
    \<and> connection_state (runtime_info s') = SpdmConnectionAfterVersion"
  using version_always_restarts [OF _ _ sample_versions_ok, of sample_services "\<lambda>_. Ok ()" 0]
  by (auto simp: sample_version_answer)

text \<open>C27: A well-formed KEY_EXCHANGE that asks for the event policy, sent to a responder
  with the capability, is answered with an empty message, on whose second byte the responder then
  panics.\<close>

theorem event_policy_crashes:
  assumes "svc_transport S = mctp_transport" "\<And>m. dev m = Ok ()"
    and "negotiated self" "SpdmVersion11 \<le> ver_sel self"
    and "SpdmKeyExchangeRequestPayload_valid (reset_buffer_via_request_code SpdmRequestKeyExchange None self) ke"
    and "ke_measurement_summary_hash_type ke = SpdmMeasurementSummaryHashTypeNone"
    and "ke_session_policy ke AND KEY_EXCHANGE_REQUESTER_SESSION_POLICY_EVENT_ALL_POLICY_MASK = 2"
    and "rsp_has self SpdmResponseCapabilityFlags_EVENT_CAP"
    and "length (SpdmKeyExchangeRequestPayload_image ke) + 2 \<le> SPDM_DATA_TRANSFER_SIZE"
  shows "\<exists>s. process_message S dev False handle
      (Inr (5 # SpdmVersion_u8 (ver_sel self) # code_of SpdmRequestKeyExchange # SpdmKeyExchangeRequestPayload_image ke)) self
    = (Crashed, Some [5], s)"
proof -
  let ?m = "SpdmVersion_u8 (ver_sel self) # code_of SpdmRequestKeyExchange # SpdmKeyExchangeRequestPayload_image ke"
  obtain s where "handle_spdm_key_exchange S ?m (Writer_init (replicate MAX_SPDM_MSG_SIZE 0)) self
      = (Err SPDM_STATUS_INVALID_MSG_FIELD, Some [], s)"
    using event_policy_answer [OF assms(3-8)] by blast
  then have "dispatch_message S ?m (Writer_init (replicate MAX_SPDM_MSG_SIZE 0)) self = (Err SPDM_STATUS_INVALID_MSG_FIELD, Some [], s)"
    unfolding dispatch_message_def by (subst message_header_read) simp_all
  with process_clear [OF assms(1), of ?m] answer_empty [OF assms(1,2)] show ?thesis using assms(9) by simp
qed

theorem event_policy_crashes_witness:
  "\<exists>s. process_message sample_services (\<lambda>_. Ok ()) False 0
      (Inr (5 # SpdmVersion_u8 (ver_sel sample_open_context) # code_of SpdmRequestKeyExchange #
        SpdmKeyExchangeRequestPayload_image sample_event_request)) sample_open_context = (Crashed, Some [5], s)"
proof (rule event_policy_crashes)
  let ?r = "reset_buffer_via_request_code SpdmRequestKeyExchange None sample_open_context"
  have "view ?r = view sample_open_context" by simp
  then show "SpdmKeyExchangeRequestPayload_valid ?r sample_event_request"
    using view_eqD(2) by (intro sample_event_valid) blast
qed (simp_all add: sample_open_fields sample_event_request_def SpdmVersion_order SpdmKeyExchangeRequestPayload_image_def
    Sized_as_ref_def Sized_image_def SpdmOpaqueStruct_default_def Sized_default_def)

section \<open>Certificates\<close>

text \<open>C30: Parsing never panics, whatever bytes a peer sends: not the check of a chain of
  certificates, nor that of a root, nor that of a leaf.\<close>

theorem x509_never_panics:
  "check_cert_chain_format chain algo \<noteq> panic \<and> is_root_certificate cert \<noteq> panic
     \<and> check_leaf_certificate cert is_alias \<noteq> panic"
  unfolding check_cert_chain_format_def
  by (intro conjI safely_no_panic [OF safely_cert_chain] safely_no_panic [OF safely_is_root] safely_no_panic [OF safely_leaf])

text \<open>C31: A chain is accepted exactly when it is a sequence of certificates, each of which is
  accepted at the front of what is left and ends where the next one begins, and their number is
  returned.\<close>

theorem cert_chain_split:
  "check_cert_chain_format chain algo = Ok n \<longleftrightarrow>
     (\<exists>certs. chain = concat certs \<and> length certs = n \<and> cert_chain_ok algo certs)"
  using cert_chain_walked [of chain algo 0 0 n] walk_cert_chain [of algo _ "[]" 0]
  by (auto simp: check_cert_chain_format_def)


section \<open>The requester\<close>

text \<open>C28: Retrieving a certificate chain ends, whatever the device answers. If it fails, the
  chains the requester holds are as before. If it succeeds, the chain is in its slot, the other slots
  are as before, and the chain was accepted: it starts with its own size and the hash of a root, its
  certificates were verified, a self-signed root has that hash and is one of those provisioned, if
  any is, and the last certificate passed the check of a leaf.\<close>

theorem certificate_retrieval:
  "case send_receive_spdm_certificate S io sid slot_id self of
     None \<Rightarrow> False
   | Some (Inl _, t) \<Rightarrow> peer_cert_chain (peer_info (rq_common t)) = peer_cert_chain (peer_info (rq_common self))
   | Some (Inr _, t) \<Rightarrow> \<exists>chain. chain_accepted S chain (rq_common self)
       \<and> peer_cert_chain (peer_info (rq_common t)) = (peer_cert_chain (peer_info (rq_common self)))[unat slot_id := Some chain]"
proof (cases "SPDM_MAX_SLOT_NUMBER \<le> unat slot_id")
  case False
  let ?self = "upd_common (\<lambda>c. upd_peer (\<lambda>p. p\<lparr>peer_cert_chain_temp := Some SpdmCertChainBuffer_default\<rparr>)
                 (reset_buffer_via_request_code SpdmRequestGetCertificate sid c)) self"
  obtain res u where loop: "certificate_loop S io sid slot_id 0 0 (of_nat MAX_SPDM_CERT_PORTION_LEN) ?self = Some (res, u)"
    using certificate_loop_returns by fastforce
  have "settled (rq_common self) (rq_common ?self)"
    by (simp add: settled_reset)
  note u = settled_certificate_loop [OF loop this]
  show ?thesis
  proof (cases res)
    case (Inr total_size)
    obtain r t where "keep_certificate S slot_id total_size (rq_common u) = (r, t)" by fastforce
    then have "send_receive_spdm_certificate S io sid slot_id self = Some (r, u\<lparr>rq_common := t\<rparr>)"
      and "keep_certificate S slot_id total_size (rq_common u) = (r, t)"
      by (simp_all only: send_receive_spdm_certificate_def Let_def loop Inr False if_False option.case prod.case sum.case
          on_common_def)
    with keep_certificate_cases [OF u this(2)] show ?thesis by (simp split: sum.splits)
  next
    case (Inl e)
    then have "send_receive_spdm_certificate S io sid slot_id self = Some (Inl e, u)"
      by (simp only: send_receive_spdm_certificate_def Let_def loop False if_False option.case prod.case sum.case)
    with u show ?thesis by (simp add: settled_def)
  qed
qed (simp add: send_receive_spdm_certificate_def)

text \<open>C29: The loop that retrieves a certificate chain returns for every device and from
  every state, and the connection, the configuration and the chains the requester holds are as
  before, so that only the check of the complete chain decides about it.\<close>

theorem certificate_requests_bounded:
  "\<exists>res t. certificate_loop S io sid slot_id total_size offset len self = Some (res, t)
     \<and> negotiate_info (rq_common t) = negotiate_info (rq_common self)
     \<and> config_info (rq_common t) = config_info (rq_common self)
     \<and> peer_cert_chain (peer_info (rq_common t)) = peer_cert_chain (peer_info (rq_common self))"
proof -
  obtain res t where loop: "certificate_loop S io sid slot_id total_size offset len self = Some (res, t)"
    using certificate_loop_returns by fastforce
  with settled_certificate_loop [OF this settled_refl] show ?thesis by (auto simp: settled_def)
qed



section \<open>Keys\<close>

text \<open>C8: A key update of either or both directions that two ends with the same data keys
  carry out succeeds on both, leaves them with the same new keys, restarts the sequence numbers of
  the updated directions at zero and does not touch the other direction.\<close>

theorem key_update_in_step:
  assumes "kdf_ok C" "data_keys_ok s" "same_data_keys s t"
  shows "\<exists>s' t'. create_data_secret_update C ver rq rs s = (Ok (), s')
     \<and> create_data_secret_update C ver rq rs t = (Ok (), t')
     \<and> data_keys_ok s' \<and> same_data_keys s' t' \<and> (\<forall>b. channel_view b s' = channel_view b t')
     \<and> (rq \<longrightarrow> sequence_number (active_direction True s') = 0)
     \<and> (rs \<longrightarrow> sequence_number (active_direction False s') = 0)
     \<and> (\<not> rq \<longrightarrow> active_direction True s' = active_direction True s)
     \<and> (\<not> rs \<longrightarrow> active_direction False s' = active_direction False s)"
proof -
  obtain s1 t1 where 1: "maybe_step rq (update_requester_secret C ver) s = (Ok (), s1)"
    "maybe_step rq (update_requester_secret C ver) t = (Ok (), t1)" "data_keys_ok s1" "same_data_keys s1 t1"
    "rekeyed rq True s s1"
    using maybe_update_requester [OF assms] by blast
  obtain s2 t2 where 2: "maybe_step rs (update_responder_secret C ver) s1 = (Ok (), s2)"
    "maybe_step rs (update_responder_secret C ver) t1 = (Ok (), t2)" "data_keys_ok s2" "same_data_keys s2 t2"
    "rekeyed rs False s1 s2"
    using maybe_update_responder [OF assms(1) 1(3,4)] by blast
  have "create_data_secret_update C ver rq rs s = (Ok (), s2)" "create_data_secret_update C ver rq rs t = (Ok (), t2)"
    by (simp_all only: create_data_secret_update_steps run_steps.simps 1(1,2) 2(1,2) prod.case sum.case)
  moreover have "\<forall>b. channel_view b s2 = channel_view b t2" using same_data_view [OF 2(3,4)] by blast
  ultimately show ?thesis using 1(5) 2(3-5) unfolding rekeyed_def by fastforce
qed

theorem key_update_in_step_witness:
  "\<exists>s' t'. create_data_secret_update sample_crypto SpdmVersion12 True False sample_data = (Ok (), s')
     \<and> create_data_secret_update sample_crypto SpdmVersion12 True False sample_data = (Ok (), t')
     \<and> channel_view True s' = channel_view True t' \<and> sequence_number (active_direction True s') = 0"
  using key_update_in_step [OF sample_kdf_ok sample_data_keys_ok sample_same_data_keys, of SpdmVersion12 True False]
  by auto

text \<open>C9: Giving up a key update restores the keys and sequence numbers of before,
  whether creating the new keys succeeded or failed half way, in a session without keys left over
  from an earlier update.\<close>

theorem key_update_rollback:
  assumes "\<not> requester_backup_valid self" "\<not> responder_backup_valid self"
    and "create_data_secret_update C ver rq rs self = (r, self')"
  shows "application_secret (activate_data_secret_update ver rq rs False self') = application_secret self"
  using update_rollback [of self C ver rq rs r self'] assms by (simp add: no_backup_def)

theorem key_update_rollback_witness:
  "application_secret (activate_data_secret_update SpdmVersion12 True True False
     (snd (create_data_secret_update sample_crypto SpdmVersion12 True True sample_end))) = application_secret sample_end"
  by (rule key_update_rollback [OF sample_end_fields(8,9) prod.collapse [symmetric]])



section \<open>Frames that are refused\<close>

text \<open>C11: Decoding a secured message of any content and any length up to the size of
  the receive buffer returns or fails with a status, and never panics, provided the AEAD provider
  does not.\<close>

theorem decode_never_panics:
  assumes "decrypt_total C" "aead_algo_ok (aead_algo (crypto_param self))" "seq_count self \<le> 8"
    and "length bs \<le> RECEIVER_BUFFER_SIZE" "length ab = RECEIVER_BUFFER_SIZE"
  shows "fst (decode_spdm_secured_message C bs ab b self) \<noteq> panic"
  using decode_spdm_no_panic [OF assms, of b] by (simp add: no_panic_def)

theorem decode_never_panics_witness:
  "fst (decode_spdm_secured_message sample_crypto [1, 2, 3] (replicate RECEIVER_BUFFER_SIZE 0) True sample_hs) \<noteq> panic"
proof (rule decode_never_panics [OF sample_decrypt_total])
  show "aead_algo_ok (aead_algo (crypto_param sample_hs))" "seq_count sample_hs \<le> 8"
    using sample_hs_views(1) [of True] by (simp_all add: channel_view_def seq_count_def)
qed (simp_all add: RECEIVER_BUFFER_SIZE_def)

text \<open>C12: A frame is refused by a receiver that expects another sequence number,
  whenever the two numbers differ in the low bytes that the transport carries; in particular a frame
  is refused when it is delivered again.\<close>

theorem stale_frame_refused:
  assumes "aead_ok C" "direction_ok s p" "app_fits app" "frame_size s app \<le> length buf" "same_channel s t"
    and "sequence_number p \<noteq> 0xFFFFFFFFFFFFFFFF" "sequence_number q \<noteq> 0xFFFFFFFFFFFFFFFF"
    and "take_bit (8 * seq_count s) (sequence_number p) \<noteq> take_bit (8 * seq_count s) (sequence_number q)"
  shows "\<exists>n buf'. encode_msg C s app buf p = Ok (n, buf')
     \<and> decode_msg C t (take n buf') ab q = Err SPDM_STATUS_DECODE_AEAD_FAIL"
proof -
  obtain buf' rest where enc: "encode_msg C s app buf p = Ok (frame_size s app, buf')"
    "take (frame_size s app) buf' = aad_image s (sequence_number p) (of_nat (length app + 18)) @ rest"
    using encode_msg_frame [OF assms(1,2,6,3,4)] by blast
  have t: "aad_image t = aad_image s" "seq_count t = seq_count s" "aead_algo (crypto_param t) = aead_algo (crypto_param s)"
    using assms(5) by (auto simp: same_channel_def seq_count_def aad_image_def fun_eq_iff)
  have "decode_msg C t (aad_image t (sequence_number p) (of_nat (length app + 18)) @ rest) ab q = Err SPDM_STATUS_DECODE_AEAD_FAIL"
    using assms(2,7,8) t by (intro decode_other_sequence) (auto simp: direction_ok_def seq_image_eq_iff)
  with enc t show ?thesis by auto
qed

theorem stale_frame_refused_witness:
  "let p = active_direction True sample_hs
   in \<exists>n buf'. encode_msg sample_crypto sample_hs [1, 2, 3] (replicate 64 0) p = Ok (n, buf')
     \<and> decode_msg sample_crypto sample_hs (take n buf') [] (inc_seq p) = Err SPDM_STATUS_DECODE_AEAD_FAIL"
  unfolding Let_def
proof (rule stale_frame_refused [OF sample_aead_ok])
  show "direction_ok sample_hs (active_direction True sample_hs)" using view_validD [OF sample_hs_views(1)] by blast
  show "same_channel sample_hs sample_hs" by (simp add: same_channel_def)
  have count: "seq_count sample_hs = 2" by (rule sample_hs_count)
  show "take_bit (8 * seq_count sample_hs) (sequence_number (active_direction True sample_hs)) \<noteq>
    take_bit (8 * seq_count sample_hs) (sequence_number (inc_seq (active_direction True sample_hs)))"
    by (simp add: sample_seq count)
  show "frame_size sample_hs [1, 2, 3] \<le> length (replicate 64 (0 :: u8))" by (simp add: frame_size_def count)
qed (simp_all add: sample_seq app_fits_def SENDER_BUFFER_SIZE_def RECEIVER_BUFFER_SIZE_def)

section \<open>Transports\<close>

text \<open>C13: An MCTP frame of a message is delivered with its secured flag exactly when the
  buffers have room for it; a transport buffer that is too small is reported.\<close>

theorem mctp_delivers:
  "if length tb < 1 + length m then mctp_encap m tb secured = Err SPDM_STATUS_ENCAP_FAIL
   else \<exists>tb'. mctp_encap m tb secured = Ok (1 + length m, tb') \<and>
     (if length sb < length m then mctp_decap (take (1 + length m) tb') sb = Err SPDM_STATUS_DECAP_FAIL
      else \<exists>sb'. mctp_decap (take (1 + length m) tb') sb = Ok (length m, secured, sb') \<and> take (length m) sb' = m)"
  by (rule mctp.outcome) (rule TrueI)

text \<open>C14: A PCI DOE data object of a message of at most 1048568 bytes is delivered with its
  secured flag, padded to a multiple of four bytes, exactly when the buffers have room for it.\<close>

theorem doe_delivers:
  assumes "length m \<le> 1048568"
  shows "if length tb < 8 + doe_pad (length m) then pcidoe_encap m tb secured = Err SPDM_STATUS_ENCAP_FAIL
   else \<exists>tb'. pcidoe_encap m tb secured = Ok (8 + doe_pad (length m), tb') \<and>
     (if length sb < doe_pad (length m) then pcidoe_decap (take (8 + doe_pad (length m)) tb') sb = Err SPDM_STATUS_DECAP_FAIL
      else \<exists>sb'. pcidoe_decap (take (8 + doe_pad (length m)) tb') sb = Ok (doe_pad (length m), secured, sb')
        \<and> take (length m) sb' = m)"
  using assms by (rule doe.outcome)

theorem doe_delivers_witness:
  "\<exists>tb'. pcidoe_encap [1, 2, 3] (replicate 12 0) True = Ok (12, tb') \<and>
     (\<exists>sb'. pcidoe_decap (take 12 tb') (replicate 8 0) = Ok (4, True, sb') \<and> take 3 sb' = [1, 2, 3])"
proof -
  have len: "length [1, 2, 3 :: u8] = 3" "doe_pad 3 = 4" by (simp_all add: doe_pad_def)
  show ?thesis
    using doe_delivers [of "[1, 2, 3]" "replicate 12 0" True "replicate 8 0", unfolded len length_replicate] by auto
qed

text \<open>C15: The connection id of a PCI DOE header does not survive encoding: every
  valid header is read back with connection id zero.\<close>

theorem doe_connection_id_lost:
  assumes "doe_valid h" "connection_id h < 0x1000" "8 \<le> length buf"
  shows "\<exists>w. PciDoeMessageHeader_encode h (Writer_init buf) = Inr (8, w)
     \<and> (\<exists>r. PciDoeMessageHeader_read (Reader_init (take 8 (wr_buf w))) = Some (h\<lparr>connection_id := 0\<rparr>, r))"
proof -
  have "PciDoeMessageHeader_encode h (Writer_init buf) = Inr (8, Writer_append (doe_image h) (Writer_init buf))"
    using writesD [OF doe_encode_writes [OF assms(1,2)] writer_ok_init, of buf] assms(3) by simp
  moreover have "take 8 (wr_buf (Writer_append (doe_image h) (Writer_init buf))) = doe_image h"
    using assms(3) by (simp add: Writer_append_init copy_at_def)
  ultimately show ?thesis
    using readsD [OF doe_read_reads [OF assms(1)], of "[]" "[]"] by (simp add: Reader_init_rdr)
qed

theorem doe_connection_id_lost_witness:
  "\<exists>w. PciDoeMessageHeader_encode \<lparr>vendor_id = PciDoeVendorIdPciSig, data_object_type = PciDoeDataObjectTypeSpdm,
        payload_length = 4, connection_id = 5\<rparr> (Writer_init (replicate 8 0)) = Inr (8, w)
     \<and> (\<exists>r h. PciDoeMessageHeader_read (Reader_init (take 8 (wr_buf w))) = Some (h, r) \<and> connection_id h = 0)"
  using doe_connection_id_lost [of "\<lparr>vendor_id = PciDoeVendorIdPciSig, data_object_type = PciDoeDataObjectTypeSpdm,
        payload_length = 4, connection_id = 5\<rparr>" "replicate 8 0"]
  by (auto simp: doe_valid_def doe_payload_ok_def PciDoeVendorId_of_u16_def PciDoeDataObjectType_of_u8_def)

section \<open>Negotiation\<close>


section \<open>Codecs\<close>

text \<open>C17: A status without error data is written, in a buffer with room for it, so
  that it reads back as itself.\<close>

theorem status_round_trip:
  assumes "error_data s = None"
  shows "round_trips EncodeErr SpdmStatus_encode SpdmStatus_read s"
  using assms by (rule SpdmStatus.survives)

theorem status_round_trip_witness: "round_trips EncodeErr SpdmStatus_encode SpdmStatus_read SPDM_STATUS_ENCAP_FAIL"
  by (rule status_round_trip) (simp add: SPDM_STATUS_ENCAP_FAIL_def spdm_return_status_def)

text \<open>C18: An algorithm structure whose type names the algorithms it carries reads back
  as itself.\<close>

theorem alg_struct_round_trip:
  assumes "SpdmAlgStruct_valid a"
  shows "round_trips EncodeErr SpdmAlgStruct_encode SpdmAlgStruct_read a"
  using assms by (rule SpdmAlgStruct.survives)

theorem alg_struct_round_trip_witness:
  "round_trips EncodeErr SpdmAlgStruct_encode SpdmAlgStruct_read
     \<lparr>alg_type = SpdmAlgTypeDHE, alg_supported = SpdmAlgoDhe SpdmDheAlgo_SECP_384_R1\<rparr>"
  by (rule alg_struct_round_trip) (simp add: SpdmDheAlgo_VALID_MASK_def)

end
